(* ===== verification/Prelude.thy ===== *)
theory Prelude
  imports Main "HOL-Library.Char_ord" "HOL-Library.List_Lexorder"
begin

text \<open>
  Shared vocabulary of the development: fact collections, decimal rendering of integers, the
  whitespace stripping of Python strings, tables of rows addressed by a key (the relational
  store behind the ORM session), string-valued enumerations, and runs of a step function.
\<close>

named_theorems row_simps \<open>how lookups see updates of a table\<close>
named_theorems enum_simps \<open>string values of the enumerations\<close>
named_theorems guard_simps \<open>unfolding the guard chains of the decision procedures\<close>

section \<open>Strings\<close>

type_synonym uid = nat

text \<open>Decimal digits of a natural number, most significant first (\<open>str\<close> of a Python int).\<close>

definition digit_char :: "nat \<Rightarrow> char" where
  "digit_char d = char_of (48 + d)"

fun digits_of :: "nat \<Rightarrow> string" where
  "digits_of n = (if n < 10 then [digit_char n] else digits_of (n div 10) @ [digit_char (n mod 10)])"

declare digits_of.simps [simp del]

text \<open>Conditional equations for evaluating \<open>digits_of\<close> on numerals.\<close>

lemma digits_of_eval:
  "n < 10 \<Longrightarrow> digits_of n = [digit_char n]"
  "\<not> n < 10 \<Longrightarrow> digits_of n = digits_of (n div 10) @ [digit_char (n mod 10)]"
  by (subst digits_of.simps; simp)+

definition is_digit :: "char \<Rightarrow> bool" where
  "is_digit c \<longleftrightarrow> 48 \<le> (of_char c :: nat) \<and> (of_char c :: nat) \<le> 57"

definition digit_val :: "char \<Rightarrow> nat" where
  "digit_val c = of_char c - 48"

definition nat_of_digits :: "string \<Rightarrow> nat" where
  "nat_of_digits s = foldl (\<lambda>a c. 10 * a + digit_val c) 0 s"

definition str_int :: "int \<Rightarrow> string" where
  "str_int i = (if i < 0 then CHR ''-'' # digits_of (nat (- i)) else digits_of (nat i))"

lemma of_char_digit: "d < 10 \<Longrightarrow> (of_char (digit_char d) :: nat) = 48 + d"
  by (simp add: digit_char_def)

lemma is_digit_digit_char [simp]: "d < 10 \<Longrightarrow> is_digit (digit_char d)"
  by (simp add: is_digit_def of_char_digit)

lemma digit_val_digit_char [simp]: "d < 10 \<Longrightarrow> digit_val (digit_char d) = d"
  by (simp add: digit_val_def of_char_digit)

lemma digits_of_nonempty [simp]: "digits_of n \<noteq> []"
  by (subst digits_of.simps) simp

lemma digits_of_all_digits: "list_all is_digit (digits_of n)"
proof (induction n rule: digits_of.induct)
  case (1 n)
  then show ?case by (subst digits_of.simps) auto
qed

lemma nat_of_digits_append:
  "nat_of_digits (xs @ ys) = nat_of_digits xs * 10 ^ length ys + nat_of_digits ys"
proof (induction ys rule: rev_induct)
  case Nil
  then show ?case by (simp add: nat_of_digits_def)
next
  case (snoc y ys)
  have step: "nat_of_digits (zs @ [y]) = 10 * nat_of_digits zs + digit_val y" for zs
    by (simp add: nat_of_digits_def)
  from snoc show ?case
    by (simp add: step algebra_simps flip: append_assoc)
qed

lemma nat_of_digits_of [simp]: "nat_of_digits (digits_of n) = n"
proof (induction n rule: digits_of.induct)
  case (1 n)
  show ?case
  proof (cases "n < 10")
    case True
    then show ?thesis by (subst digits_of.simps) (simp add: nat_of_digits_def)
  next
    case False
    with 1 have "nat_of_digits (digits_of (n div 10)) = n div 10" by simp
    with False show ?thesis
      by (subst digits_of.simps) (simp add: nat_of_digits_append, simp add: nat_of_digits_def)
  qed
qed

lemma nat_of_digits_zeros [simp]: "nat_of_digits (replicate k (CHR ''0'') @ s) = nat_of_digits s"
proof -
  have "nat_of_digits (replicate k (CHR ''0'')) = 0"
    by (induction k) (simp_all add: nat_of_digits_def digit_val_def)
  then show ?thesis by (simp add: nat_of_digits_append)
qed

lemma digits_of_inj: "digits_of m = digits_of n \<longleftrightarrow> m = n"
  by (metis nat_of_digits_of)

text \<open>\<open>str.strip\<close> on ASCII text: Python's whitespace below 128.\<close>

definition is_space :: "char \<Rightarrow> bool" where
  "is_space c \<longleftrightarrow> (let n = (of_char c :: nat) in (9 \<le> n \<and> n \<le> 13) \<or> (28 \<le> n \<and> n \<le> 32))"

definition py_strip :: "string \<Rightarrow> string" where
  "py_strip s = rev (dropWhile is_space (rev (dropWhile is_space s)))"

lemma dropWhile_id: "(\<forall>c \<in> set s. \<not> P c) \<Longrightarrow> dropWhile P s = s"
  by (cases s) auto

lemma py_strip_id: "(\<forall>c \<in> set s. \<not> is_space c) \<Longrightarrow> py_strip s = s"
  by (simp add: py_strip_def dropWhile_id)

lemma dropWhile_idem: "dropWhile P (dropWhile P s) = dropWhile P s"
  by (induction s) auto

lemma dropWhile_hd: "dropWhile P s = c # t \<Longrightarrow> \<not> P c"
  by (metis dropWhile_eq_Cons_conv)

lemma dropWhile_rev_fix:
  assumes "dropWhile P s = s"
  shows "dropWhile P (rev (dropWhile P (rev s))) = rev (dropWhile P (rev s))"
proof -
  obtain t where t: "s = rev (dropWhile P (rev s)) @ t"
    by (metis rev_append rev_rev_ident takeWhile_dropWhile_id)
  show ?thesis
  proof (cases "rev (dropWhile P (rev s))")
    case Nil
    then show ?thesis by (simp only: dropWhile.simps)
  next
    case (Cons c u)
    with t have "s = c # (u @ t)" by simp
    with assms have "\<not> P c" by (auto dest: dropWhile_hd)
    with Cons show ?thesis by simp
  qed
qed

lemma py_strip_idem [simp]: "py_strip (py_strip s) = py_strip s"
  using dropWhile_rev_fix [OF dropWhile_idem [of is_space s]]
  by (simp add: py_strip_def dropWhile_idem)

text \<open>\<open>", ".join(parts)\<close> and friends.\<close>

fun join :: "string \<Rightarrow> string list \<Rightarrow> string" where
  "join sep [] = []"
| "join sep [x] = x"
| "join sep (x # y # zs) = x @ sep @ join sep (y # zs)"

lemma singleton_list: "set xs = {a} \<Longrightarrow> distinct xs \<Longrightarrow> xs = [a]"
  by (cases xs; cases "tl xs") auto

lemma find_append:
  "find P (xs @ ys) = (case find P xs of None \<Rightarrow> find P ys | Some x \<Rightarrow> Some x)"
  by (induction xs) auto

lemma find_filter: "find P (filter Q xs) = find (\<lambda>x. Q x \<and> P x) xs"
  by (induction xs) auto

section \<open>Errors as values\<close>

text \<open>Sequencing of computations that may raise: the first error stops the computation.\<close>

definition ebind :: "'e + 'a \<Rightarrow> ('a \<Rightarrow> 'e + 'b) \<Rightarrow> 'e + 'b" where
  "ebind m f = (case m of Inl e \<Rightarrow> Inl e | Inr x \<Rightarrow> f x)"

lemma ebind_simps [simp]: "ebind (Inl e) f = Inl e" "ebind (Inr x) f = f x"
  by (simp_all add: ebind_def)

lemma ebind_Inr: "ebind m f = Inr y \<longleftrightarrow> (\<exists>x. m = Inr x \<and> f x = Inr y)"
  by (cases m) auto

lemma ebind_Inl: "ebind m f = Inl e \<longleftrightarrow> m = Inl e \<or> (\<exists>x. m = Inr x \<and> f x = Inl e)"
  by (cases m) auto

text \<open>A loop whose body may raise.\<close>

fun efold :: "('s \<Rightarrow> 'a \<Rightarrow> 'e + 's) \<Rightarrow> 's \<Rightarrow> 'a list \<Rightarrow> 'e + 's" where
  "efold f s [] = Inr s"
| "efold f s (x # xs) = ebind (f s x) (\<lambda>s'. efold f s' xs)"

lemma efold_mono:
  assumes "efold f s xs = Inr s'" and "\<And>s x t. f s x = Inr t \<Longrightarrow> R s t"
    and "\<And>s. R s s" and "\<And>s t u. R s t \<Longrightarrow> R t u \<Longrightarrow> R s u"
  shows "R s s'"
  using assms(1)
proof (induction xs arbitrary: s)
  case Nil
  then show ?case using assms(3) by simp
next
  case (Cons x xs)
  then show ?case using assms(2,4) by (auto simp: ebind_Inr) blast
qed

lemma efold_cong: "(\<And>s x. x \<in> set xs \<Longrightarrow> f s x = g s x) \<Longrightarrow> efold f s xs = efold g s xs"
  by (induction xs arbitrary: s) (auto simp: ebind_def split: sum.split)

section \<open>Tables of rows\<close>

text \<open>
  A table is the list of its rows in insertion order. A row is found by its key; an update of
  an ORM object is the update of every row with its key (keys are unique in a well-formed
  store).
\<close>

definition row_get :: "('r \<Rightarrow> uid) \<Rightarrow> uid \<Rightarrow> 'r list \<Rightarrow> 'r option" where
  "row_get key i rows = find (\<lambda>r. key r = i) rows"

definition row_upd :: "('r \<Rightarrow> uid) \<Rightarrow> uid \<Rightarrow> ('r \<Rightarrow> 'r) \<Rightarrow> 'r list \<Rightarrow> 'r list" where
  "row_upd key i f rows = map (\<lambda>r. if key r = i then f r else r) rows"

lemma row_get_key: "row_get key i rows = Some r \<Longrightarrow> key r = i"
  by (auto simp: row_get_def find_Some_iff)

lemma row_get_in: "row_get key i rows = Some r \<Longrightarrow> r \<in> set rows"
  by (auto simp: row_get_def find_Some_iff)

lemma row_get_upd [row_simps]:
  assumes "\<And>r. key (f r) = key r"
  shows "row_get key j (row_upd key i f rows) =
    (if j = i then map_option f (row_get key j rows) else row_get key j rows)"
  by (induction rows) (auto simp: row_get_def row_upd_def assms)

lemma row_upd_keys [row_simps]:
  assumes "\<And>r. key (f r) = key r"
  shows "map key (row_upd key i f rows) = map key rows"
  by (induction rows) (auto simp: row_upd_def assms)

lemma row_upd_length [row_simps]: "length (row_upd key i f rows) = length rows"
  by (simp add: row_upd_def)

lemma row_get_append_new [row_simps]:
  "row_get key i (rows @ [r]) =
    (case row_get key i rows of Some q \<Rightarrow> Some q | None \<Rightarrow> if key r = i then Some r else None)"
  by (induction rows) (auto simp: row_get_def)

lemma row_get_distinct:
  assumes "distinct (map key rows)" and "r \<in> set rows"
  shows "row_get key (key r) rows = Some r"
  using assms by (induction rows) (auto simp: row_get_def image_iff)

lemma row_get_map:
  assumes "\<forall>r \<in> set rows. key (g r) = key r"
  shows "row_get key i (map g rows) = map_option g (row_get key i rows)"
  using assms by (induction rows) (auto simp: row_get_def)

lemma row_upd_map: "row_upd key i f rows = map (\<lambda>r. if key r = i then f r else r) rows"
  by (simp add: row_upd_def)

lemma row_get_None_iff: "row_get key i rows = None \<longleftrightarrow> i \<notin> key ` set rows"
  by (auto simp: row_get_def find_None_iff)

lemma in_row_upd:
  "r' \<in> set (row_upd key i f rows) \<Longrightarrow>
    (r' \<in> set rows \<and> key r' \<noteq> i) \<or> (\<exists>r \<in> set rows. key r = i \<and> r' = f r)"
  by (auto simp: row_upd_def split: if_splits)

lemma in_row_upd_iff:
  "r' \<in> set (row_upd key i f rows) \<longleftrightarrow>
    (r' \<in> set rows \<and> key r' \<noteq> i) \<or> (\<exists>r \<in> set rows. key r = i \<and> r' = f r)"
  by (auto simp: row_upd_def image_iff split: if_splits)

section \<open>String-valued enumerations\<close>

text \<open>
  A \<open>StrEnum\<close> is a list of members with distinct string values; calling the class on a string
  finds the member with that value or raises.
\<close>

definition enum_parse :: "'e list \<Rightarrow> ('e \<Rightarrow> string) \<Rightarrow> string \<Rightarrow> 'e option" where
  "enum_parse members val s = find (\<lambda>e. val e = s) members"

locale str_enum =
  fixes members :: "'e list" and val :: "'e \<Rightarrow> string"
  assumes distinct_values: "distinct (map val members)"
    and all_members: "e \<in> set members"
begin

lemma value_inj: "val a = val b \<Longrightarrow> a = b"
  using distinct_values all_members by (auto simp: distinct_map inj_on_def)

lemma parse_value [simp]: "enum_parse members val (val e) = Some e"
proof -
  have "enum_parse members val (val e) \<noteq> None"
    using all_members [of e] by (auto simp: enum_parse_def find_None_iff)
  then obtain e' where e': "enum_parse members val (val e) = Some e'" by blast
  then have "val e' = val e" by (auto simp: enum_parse_def find_Some_iff)
  with e' show ?thesis using value_inj by simp
qed

lemma parse_Some: "enum_parse members val s = Some e \<longleftrightarrow> s = val e"
  by (auto simp: enum_parse_def find_Some_iff) (metis enum_parse_def parse_value find_Some_iff)

end

section \<open>Runs of a step relation\<close>

text \<open>
  A component with state is a relation between states, labelled by the operation that ran; an
  invariant that every step keeps holds in every reachable state. The locale is interpreted on
  the steps of the orchestration and on those of the budget.
\<close>

inductive reaches :: "('s \<Rightarrow> 'e \<Rightarrow> 's \<Rightarrow> bool) \<Rightarrow> 's \<Rightarrow> 's \<Rightarrow> bool" for step where
  reaches_refl: "reaches step s s"
| reaches_step: "reaches step s t \<Longrightarrow> step t e u \<Longrightarrow> reaches step s u"

locale step_invariant =
  fixes step :: "'s \<Rightarrow> 'e \<Rightarrow> 's \<Rightarrow> bool" and inv :: "'s \<Rightarrow> bool"
  assumes step_keeps: "step s e t \<Longrightarrow> inv s \<Longrightarrow> inv t"
begin

lemma reaches_keeps: "reaches step s t \<Longrightarrow> inv s \<Longrightarrow> inv t"
  by (induction rule: reaches.induct) (auto intro: step_keeps)

end

end
