(* ===== verification/PyDecimal.thy ===== *)
theory PyDecimal
  imports Complex_Main Prelude "HOL-Library.Code_Target_Nat"
begin

text \<open>
  The part of Python's \<open>decimal\<close> module the program computes with: finite triples
  (sign, coefficient, exponent), the default context (28 digits, half-even), \<open>+\<close>, \<open>-\<close>, \<open>*\<close>,
  \<open>/\<close>, \<open>quantize\<close> with \<open>ROUND_HALF_UP\<close>, comparison, \<open>str\<close> and parsing from text.
  Emin and Emax of the context are not modelled.
\<close>

section \<open>Values\<close>

record pydec =
  dsign :: bool
  dcoef :: nat
  dexp :: int

definition PREC :: nat where "PREC = 28"

definition ndigits :: "nat \<Rightarrow> nat" where
  "ndigits n = length (digits_of n)"

definition signed :: "pydec \<Rightarrow> int" where
  "signed a = (if dsign a then - int (dcoef a) else int (dcoef a))"

definition dec_zero :: pydec where
  "dec_zero = \<lparr>dsign = False, dcoef = 0, dexp = 0\<rparr>"

definition dec_hundred :: pydec where
  "dec_hundred = \<lparr>dsign = False, dcoef = 100, dexp = 0\<rparr>"

text \<open>The number a triple denotes.\<close>

definition dec_val :: "pydec \<Rightarrow> rat" where
  "dec_val a = of_int (signed a) * 10 powi dexp a"

section \<open>Arithmetic in the default context\<close>

text \<open>Rounding to the context precision (\<open>_fix\<close>): drop the excess digits, half to even.\<close>

definition dec_fix :: "pydec \<Rightarrow> pydec" where
  "dec_fix a =
    (let n = ndigits (dcoef a) in
     if n \<le> PREC then a
     else
       let k = n - PREC; q = dcoef a div 10 ^ k; r = dcoef a mod 10 ^ k;
           up = (2 * r > 10 ^ k \<or> (2 * r = 10 ^ k \<and> odd q));
           c = (if up then q + 1 else q)
       in if ndigits c > PREC then a\<lparr>dcoef := c div 10, dexp := dexp a + int k + 1\<rparr>
          else a\<lparr>dcoef := c, dexp := dexp a + int k\<rparr>)"

definition scale_to :: "int \<Rightarrow> pydec \<Rightarrow> int" where
  "scale_to e a = signed a * 10 ^ nat (dexp a - e)"

definition dec_add :: "pydec \<Rightarrow> pydec \<Rightarrow> pydec" where
  "dec_add a b =
    (let e = min (dexp a) (dexp b); s = scale_to e a + scale_to e b;
         neg = (if s = 0 then dcoef a = 0 \<and> dcoef b = 0 \<and> dsign a \<and> dsign b else s < 0)
     in dec_fix \<lparr>dsign = neg, dcoef = nat \<bar>s\<bar>, dexp = e\<rparr>)"

definition dec_neg :: "pydec \<Rightarrow> pydec" where
  "dec_neg a = a\<lparr>dsign := \<not> dsign a\<rparr>"

definition dec_sub :: "pydec \<Rightarrow> pydec \<Rightarrow> pydec" where
  "dec_sub a b = dec_add a (dec_neg b)"

definition dec_mul :: "pydec \<Rightarrow> pydec \<Rightarrow> pydec" where
  "dec_mul a b =
    dec_fix \<lparr>dsign = (dsign a \<noteq> dsign b), dcoef = dcoef a * dcoef b, dexp = dexp a + dexp b\<rparr>"

text \<open>
  Division as the library does it: one guard digit beyond the precision, a sticky digit for a
  non-zero remainder, trailing zeros removed down to the ideal exponent when exact.
  \<open>None\<close> is \<open>DivisionByZero\<close>.
\<close>

fun strip_zeros :: "nat \<Rightarrow> int \<Rightarrow> int \<Rightarrow> nat \<Rightarrow> nat \<times> int" where
  "strip_zeros c e ideal 0 = (c, e)"
| "strip_zeros c e ideal (Suc n) =
    (if e < ideal \<and> c mod 10 = 0 then strip_zeros (c div 10) (e + 1) ideal n else (c, e))"

definition dec_div :: "pydec \<Rightarrow> pydec \<Rightarrow> pydec option" where
  "dec_div a b =
    (if dcoef b = 0 then None
     else
       let sgn = (dsign a \<noteq> dsign b); ideal = dexp a - dexp b in
       if dcoef a = 0 then Some (dec_fix \<lparr>dsign = sgn, dcoef = 0, dexp = ideal\<rparr>)
       else
         let shift = int (ndigits (dcoef b)) - int (ndigits (dcoef a)) + int PREC + 1;
             e = ideal - shift;
             num = (if 0 \<le> shift then dcoef a * 10 ^ nat shift else dcoef a);
             den = (if 0 \<le> shift then dcoef b else dcoef b * 10 ^ nat (- shift));
             q = num div den; r = num mod den
         in if r \<noteq> 0 then
              Some (dec_fix \<lparr>dsign = sgn, dcoef = (if q mod 5 = 0 then q + 1 else q), dexp = e\<rparr>)
            else
              (case strip_zeros q e ideal (nat (ideal - e)) of
                (c, e') \<Rightarrow> Some (dec_fix \<lparr>dsign = sgn, dcoef = c, dexp = e'\<rparr>)))"

text \<open>
  \<open>value.quantize(Decimal("0.01"), rounding=ROUND_HALF_UP)\<close>; \<open>None\<close> is \<open>InvalidOperation\<close>
  (the result does not fit the precision).
\<close>

definition rescale_half_up :: "pydec \<Rightarrow> int \<Rightarrow> pydec" where
  "rescale_half_up a e =
    (if e \<le> dexp a then a\<lparr>dcoef := dcoef a * 10 ^ nat (dexp a - e), dexp := e\<rparr>
     else let k = nat (e - dexp a); q = dcoef a div 10 ^ k; r = dcoef a mod 10 ^ k
          in a\<lparr>dcoef := (if 10 ^ k \<le> 2 * r then q + 1 else q), dexp := e\<rparr>)"

definition dec_quantize2 :: "pydec \<Rightarrow> pydec option" where
  "dec_quantize2 a =
    (if dcoef a = 0 then Some (a\<lparr>dexp := -2\<rparr>)
     else if dexp a + int (ndigits (dcoef a)) - 1 + 2 + 1 > int PREC then None
     else let r = rescale_half_up a (-2)
          in if ndigits (dcoef r) > PREC then None else Some (dec_fix r))"

section \<open>Comparison\<close>

definition dec_cmp :: "pydec \<Rightarrow> pydec \<Rightarrow> int" where
  "dec_cmp a b = (let e = min (dexp a) (dexp b) in scale_to e a - scale_to e b)"

definition dec_eq :: "pydec \<Rightarrow> pydec \<Rightarrow> bool" where
  "dec_eq a b \<longleftrightarrow> dec_cmp a b = 0"

definition dec_lt :: "pydec \<Rightarrow> pydec \<Rightarrow> bool" where
  "dec_lt a b \<longleftrightarrow> dec_cmp a b < 0"

definition dec_is_zero :: "pydec \<Rightarrow> bool" where
  "dec_is_zero a \<longleftrightarrow> dcoef a = 0"

definition dec_negative :: "pydec \<Rightarrow> bool" where
  "dec_negative a \<longleftrightarrow> signed a < 0"

section \<open>Text\<close>

text \<open>\<open>str(Decimal)\<close>: to-scientific-string.\<close>

definition signed_exp :: "int \<Rightarrow> string" where
  "signed_exp e = (if e < 0 then CHR ''-'' # digits_of (nat (- e)) else CHR ''+'' # digits_of (nat e))"

definition dec_str_body :: "string \<Rightarrow> int \<Rightarrow> string" where
  "dec_str_body ds e =
    (let left = e + int (length ds) in
     if e \<le> 0 \<and> left > -6 then
       (if left \<le> 0 then ''0.'' @ replicate (nat (- left)) (CHR ''0'') @ ds
        else if left \<ge> int (length ds) then ds
        else take (nat left) ds @ ''.'' @ drop (nat left) ds)
     else
       (if length ds = 1 then ds else take 1 ds @ ''.'' @ drop 1 ds) @ ''E'' @ signed_exp (left - 1))"

definition dec_str :: "pydec \<Rightarrow> string" where
  "dec_str a = (if dsign a then ''-'' else []) @ dec_str_body (digits_of (dcoef a)) (dexp a)"

text \<open>
  \<open>Decimal(text)\<close>: surrounding whitespace stripped, underscores removed, then the numeric
  grammar; \<open>None\<close> is \<open>InvalidOperation\<close>.
\<close>

datatype decimal = Finite pydec | Infinity bool | NaN | SNaN

definition to_lower :: "char \<Rightarrow> char" where
  "to_lower c = (let n = (of_char c :: nat) in if 65 \<le> n \<and> n \<le> 90 then char_of (n + 32) else c)"

definition parse_sign :: "string \<Rightarrow> bool \<times> string" where
  "parse_sign s =
    (case s of [] \<Rightarrow> (False, [])
     | c # t \<Rightarrow> if c = CHR ''-'' then (True, t) else if c = CHR ''+'' then (False, t) else (False, s))"

definition parse_exp :: "string \<Rightarrow> int option" where
  "parse_exp s =
    (case s of [] \<Rightarrow> Some 0
     | c # t \<Rightarrow>
        if to_lower c = CHR ''e'' then
          (case parse_sign t of (neg, ds) \<Rightarrow>
            if ds \<noteq> [] \<and> list_all is_digit ds
            then Some (if neg then - int (nat_of_digits ds) else int (nat_of_digits ds))
            else None)
        else None)"

definition parse_number :: "bool \<Rightarrow> string \<Rightarrow> decimal option" where
  "parse_number neg s =
    (let ip = takeWhile is_digit s; rest = dropWhile is_digit s;
         fp = (case rest of c # t \<Rightarrow> if c = CHR ''.'' then takeWhile is_digit t else [] | [] \<Rightarrow> []);
         tl' = (case rest of c # t \<Rightarrow> if c = CHR ''.'' then dropWhile is_digit t else rest | [] \<Rightarrow> [])
     in if ip = [] \<and> fp = [] then None
        else map_option
          (\<lambda>x. Finite \<lparr>dsign = neg, dcoef = nat_of_digits (ip @ fp), dexp = x - int (length fp)\<rparr>)
          (parse_exp tl'))"

definition parse_special :: "bool \<Rightarrow> string \<Rightarrow> decimal option" where
  "parse_special neg s =
    (let l = map to_lower s in
     if l = ''inf'' \<or> l = ''infinity'' then Some (Infinity neg)
     else if take 3 l = ''nan'' \<and> list_all is_digit (drop 3 l) then Some NaN
     else if take 4 l = ''snan'' \<and> list_all is_digit (drop 4 l) then Some SNaN
     else None)"

definition parse_decimal :: "string \<Rightarrow> decimal option" where
  "parse_decimal text =
    (let s = filter (\<lambda>c. c \<noteq> CHR ''_'') (py_strip text) in
     case parse_sign s of (neg, t) \<Rightarrow>
       (case parse_number neg t of Some d \<Rightarrow> Some d | None \<Rightarrow> parse_special neg t))"

end
