(* ===== verification/PyValues.thy ===== *)
theory PyValues
  imports Prelude
begin

text \<open>
  Decoded JSON values with the Python operations the program applies to them (\<open>get\<close>,
  \<open>isinstance\<close>, \<open>str\<close>, \<open>repr\<close>, \<open>int\<close> of a string), and instants with
  \<open>datetime.isoformat\<close>. An instant is a timezone-aware UTC \<open>datetime\<close>, counted in
  microseconds from 1970-01-01; text is ASCII.
\<close>

section \<open>JSON values\<close>

text \<open>A float carries the text Python prints for it; the program never computes with one here.\<close>

datatype json =
    JNull
  | JBool bool
  | JInt int
  | JFloat string
  | JStr string
  | JList "json list"
  | JObj "(string \<times> json) list"

text \<open>\<open>payload.get(key)\<close> on a mapping (\<open>None\<close> when absent), and with a default.\<close>

definition obj_get :: "(string \<times> json) list \<Rightarrow> string \<Rightarrow> json" where
  "obj_get obj k = (case map_of obj k of Some v \<Rightarrow> v | None \<Rightarrow> JNull)"

definition obj_get_default :: "(string \<times> json) list \<Rightarrow> string \<Rightarrow> json \<Rightarrow> json" where
  "obj_get_default obj k d = (case map_of obj k of Some v \<Rightarrow> v | None \<Rightarrow> d)"

definition type_name :: "json \<Rightarrow> string" where
  "type_name v = (case v of JNull \<Rightarrow> ''NoneType'' | JBool _ \<Rightarrow> ''bool'' | JInt _ \<Rightarrow> ''int''
    | JFloat _ \<Rightarrow> ''float'' | JStr _ \<Rightarrow> ''str'' | JList _ \<Rightarrow> ''list'' | JObj _ \<Rightarrow> ''dict'')"

text \<open>\<open>repr\<close> of an ASCII string: quote choice, escapes, printable characters as they are.\<close>

definition hex_digit :: "nat \<Rightarrow> char" where
  "hex_digit n = (if n < 10 then char_of (48 + n) else char_of (87 + n))"

definition repr_char :: "char \<Rightarrow> char \<Rightarrow> string" where
  "repr_char q c =
    (let n = (of_char c :: nat) in
     if c = q \<or> n = 92 then [char_of (92::nat), c]
     else if n = 10 then [char_of (92::nat), CHR ''n'']
     else if n = 13 then [char_of (92::nat), CHR ''r'']
     else if n = 9 then [char_of (92::nat), CHR ''t'']
     else if n < 32 \<or> n = 127 then
       [char_of (92::nat), CHR ''x'', hex_digit (n div 16), hex_digit (n mod 16)]
     else [c])"

definition quote_char :: char where "quote_char = char_of (39::nat)"
definition dquote_char :: char where "dquote_char = char_of (34::nat)"

definition repr_str :: "string \<Rightarrow> string" where
  "repr_str s =
    (let q = (if quote_char \<in> set s \<and> dquote_char \<notin> set s then dquote_char else quote_char)
     in [q] @ concat (map (repr_char q) s) @ [q])"

fun py_repr :: "json \<Rightarrow> string" where
  "py_repr JNull = ''None''"
| "py_repr (JBool b) = (if b then ''True'' else ''False'')"
| "py_repr (JInt i) = str_int i"
| "py_repr (JFloat t) = t"
| "py_repr (JStr s) = repr_str s"
| "py_repr (JList xs) = ''['' @ join '', '' (map py_repr xs) @ '']''"
| "py_repr (JObj kvs) =
    ''{'' @ join '', '' (map (\<lambda>(k, v). repr_str k @ '': '' @ py_repr v) kvs) @ ''}''"

definition py_str :: "json \<Rightarrow> string" where
  "py_str v = (case v of JStr s \<Rightarrow> s | _ \<Rightarrow> py_repr v)"

lemma py_str_JStr [simp]: "py_str (JStr s) = s"
  by (simp add: py_str_def)

text \<open>\<open>int(text)\<close>: optional sign, digits, single underscores between digits; \<open>None\<close> is \<open>ValueError\<close>.\<close>

fun int_digits :: "string \<Rightarrow> string option" where
  "int_digits [] = None"
| "int_digits [c] = (if is_digit c then Some [c] else None)"
| "int_digits (c # d # t) =
    (if \<not> is_digit c then None
     else if d = CHR ''_'' then map_option ((#) c) (int_digits t)
     else map_option ((#) c) (int_digits (d # t)))"

definition py_int :: "string \<Rightarrow> int option" where
  "py_int text =
    (let s = py_strip text in
     case s of [] \<Rightarrow> None
     | c # t \<Rightarrow>
        (let ds = (if c = CHR ''-'' \<or> c = CHR ''+'' then t else s)
         in map_option (\<lambda>d. if c = CHR ''-'' then - int (nat_of_digits d) else int (nat_of_digits d))
              (int_digits ds)))"

lemma int_digits_all: "list_all is_digit s \<Longrightarrow> s \<noteq> [] \<Longrightarrow> int_digits s = Some s"
  by (induction s rule: int_digits.induct) (auto simp: is_digit_def)

lemma py_int_digits [simp]: "py_int (digits_of n) = Some (int n)"
proof -
  have d: "\<forall>c \<in> set (digits_of n). is_digit c"
    using digits_of_all_digits by (simp add: list_all_iff)
  then have "py_strip (digits_of n) = digits_of n"
    by (intro py_strip_id) (auto simp: is_digit_def is_space_def Let_def)
  moreover obtain c t where ct: "digits_of n = c # t" by (cases "digits_of n") auto
  moreover from ct d have "c \<noteq> CHR ''-'' \<and> c \<noteq> CHR ''+''" by (auto simp: is_digit_def)
  moreover have "int_digits (digits_of n) = Some (digits_of n)"
    using digits_of_all_digits by (intro int_digits_all) auto
  ultimately show ?thesis
    using nat_of_digits_of [of n] by (simp add: py_int_def)
qed

section \<open>Instants\<close>

type_synonym instant = int

definition SECOND :: int where "SECOND = 1000000"
definition MINUTE :: int where "MINUTE = 60 * SECOND"

text \<open>A \<open>datetime\<close> as the ORM may return it: naive (taken as UTC) or aware.\<close>

datatype pydatetime = Naive instant | Aware instant

fun as_utc :: "pydatetime \<Rightarrow> instant" where
  "as_utc (Naive t) = t"
| "as_utc (Aware t) = t"

text \<open>Proleptic Gregorian date of a day number counted from 1970-01-01.\<close>

definition civil_from_days :: "int \<Rightarrow> int \<times> int \<times> int" where
  "civil_from_days z0 =
    (let z = z0 + 719468; era = z div 146097; doe = z mod 146097;
         yoe = (doe - doe div 1460 + doe div 36524 - doe div 146096) div 365;
         doy = doe - (365 * yoe + yoe div 4 - yoe div 100);
         mp = (5 * doy + 2) div 153;
         d = doy - (153 * mp + 2) div 5 + 1;
         m = (if mp < 10 then mp + 3 else mp - 9);
         y = yoe + era * 400
     in (if m \<le> 2 then y + 1 else y, m, d))"

definition pad :: "nat \<Rightarrow> int \<Rightarrow> string" where
  "pad w i = (let s = digits_of (nat i) in replicate (w - length s) (CHR ''0'') @ s)"

text \<open>\<open>datetime.isoformat()\<close> of an aware UTC value.\<close>

definition isoformat :: "instant \<Rightarrow> string" where
  "isoformat t =
    (let days = t div (86400 * SECOND); us = t mod (86400 * SECOND);
         secs = us div SECOND; frac = us mod SECOND
     in case civil_from_days days of (y, m, d) \<Rightarrow>
       pad 4 y @ ''-'' @ pad 2 m @ ''-'' @ pad 2 d @ ''T''
       @ pad 2 (secs div 3600) @ '':'' @ pad 2 (secs div 60 mod 60) @ '':'' @ pad 2 (secs mod 60)
       @ (if frac = 0 then [] else ''.'' @ pad 6 frac) @ ''+00:00'')"

end
