(* ===== verification/Enums.thy ===== *)
theory Enums
  imports Prelude "HOL-Library.Product_Lexorder"
begin

text \<open>
  The string enumerations of the private reconciliation namespace
  (\<open>packages/schema/eastmed_schema/enums.py\<close>): one datatype per \<open>StrEnum\<close>, its string values
  and the member list in declaration order. Constructors carry a prefix per enumeration because
  several share member names. Each is an instance of the \<open>str_enum\<close> interface, which gives
  parsing of a value back to its member.
\<close>

subsection \<open>RecordKind\<close>

datatype record_kind =
    RK_FLEET_MEMBERSHIP
  | RK_VOYAGE_PLAN
  | RK_DAILY_REPORT

primrec record_kind_value :: "record_kind \<Rightarrow> string" where
  "record_kind_value RK_FLEET_MEMBERSHIP = ''fleet_membership''"
| "record_kind_value RK_VOYAGE_PLAN = ''voyage_plan''"
| "record_kind_value RK_DAILY_REPORT = ''daily_report''"

definition record_kind_members :: "record_kind list" where
  "record_kind_members = [RK_FLEET_MEMBERSHIP, RK_VOYAGE_PLAN, RK_DAILY_REPORT]"

interpretation record_kind_enum: str_enum record_kind_members record_kind_value
  by unfold_locales (simp add: record_kind_members_def, case_tac e, simp_all add: record_kind_members_def)

subsection \<open>FuelGrade\<close>

datatype fuel_grade =
    FG_HSFO
  | FG_VLSFO
  | FG_ULSFO
  | FG_LSMGO
  | FG_MGO
  | FG_MDO
  | FG_LNG
  | FG_LPG
  | FG_METHANOL
  | FG_BIOFUEL

primrec fuel_grade_value :: "fuel_grade \<Rightarrow> string" where
  "fuel_grade_value FG_HSFO = ''HSFO''"
| "fuel_grade_value FG_VLSFO = ''VLSFO''"
| "fuel_grade_value FG_ULSFO = ''ULSFO''"
| "fuel_grade_value FG_LSMGO = ''LSMGO''"
| "fuel_grade_value FG_MGO = ''MGO''"
| "fuel_grade_value FG_MDO = ''MDO''"
| "fuel_grade_value FG_LNG = ''LNG''"
| "fuel_grade_value FG_LPG = ''LPG''"
| "fuel_grade_value FG_METHANOL = ''METHANOL''"
| "fuel_grade_value FG_BIOFUEL = ''BIOFUEL''"

definition fuel_grade_members :: "fuel_grade list" where
  "fuel_grade_members = [FG_HSFO, FG_VLSFO, FG_ULSFO, FG_LSMGO, FG_MGO, FG_MDO, FG_LNG, FG_LPG, FG_METHANOL, FG_BIOFUEL]"

interpretation fuel_grade_enum: str_enum fuel_grade_members fuel_grade_value
  by unfold_locales (simp add: fuel_grade_members_def, case_tac e, simp_all add: fuel_grade_members_def)

subsection \<open>QuantityUnit\<close>

datatype quantity_unit =
    QU_TONNE
  | QU_KILOGRAM
  | QU_CUBIC_METRE
  | QU_LITRE

primrec quantity_unit_value :: "quantity_unit \<Rightarrow> string" where
  "quantity_unit_value QU_TONNE = ''tonne''"
| "quantity_unit_value QU_KILOGRAM = ''kilogram''"
| "quantity_unit_value QU_CUBIC_METRE = ''m3''"
| "quantity_unit_value QU_LITRE = ''litre''"

definition quantity_unit_members :: "quantity_unit list" where
  "quantity_unit_members = [QU_TONNE, QU_KILOGRAM, QU_CUBIC_METRE, QU_LITRE]"

interpretation quantity_unit_enum: str_enum quantity_unit_members quantity_unit_value
  by unfold_locales (simp add: quantity_unit_members_def, case_tac e, simp_all add: quantity_unit_members_def)

subsection \<open>AuthorityRole\<close>

datatype authority_role =
    AR_OWNER
  | AR_OPERATOR
  | AR_TECHNICAL_MANAGER
  | AR_CHARTERER

primrec authority_role_value :: "authority_role \<Rightarrow> string" where
  "authority_role_value AR_OWNER = ''owner''"
| "authority_role_value AR_OPERATOR = ''operator''"
| "authority_role_value AR_TECHNICAL_MANAGER = ''technical_manager''"
| "authority_role_value AR_CHARTERER = ''charterer''"

definition authority_role_members :: "authority_role list" where
  "authority_role_members = [AR_OWNER, AR_OPERATOR, AR_TECHNICAL_MANAGER, AR_CHARTERER]"

interpretation authority_role_enum: str_enum authority_role_members authority_role_value
  by unfold_locales (simp add: authority_role_members_def, case_tac e, simp_all add: authority_role_members_def)

subsection \<open>ValueOrigin\<close>

datatype value_origin =
    VO_REPORTED
  | VO_CALCULATED
  | VO_ASSUMED

primrec value_origin_value :: "value_origin \<Rightarrow> string" where
  "value_origin_value VO_REPORTED = ''reported''"
| "value_origin_value VO_CALCULATED = ''calculated''"
| "value_origin_value VO_ASSUMED = ''assumed''"

definition value_origin_members :: "value_origin list" where
  "value_origin_members = [VO_REPORTED, VO_CALCULATED, VO_ASSUMED]"

interpretation value_origin_enum: str_enum value_origin_members value_origin_value
  by unfold_locales (simp add: value_origin_members_def, case_tac e, simp_all add: value_origin_members_def)

subsection \<open>BusinessStatus\<close>

datatype business_status =
    BS_PENDING
  | BS_RECONCILED
  | BS_VARIANCE_PRESENT
  | BS_UNRESOLVED
  | BS_SUPERSEDED

primrec business_status_value :: "business_status \<Rightarrow> string" where
  "business_status_value BS_PENDING = ''pending''"
| "business_status_value BS_RECONCILED = ''reconciled''"
| "business_status_value BS_VARIANCE_PRESENT = ''variance_present''"
| "business_status_value BS_UNRESOLVED = ''unresolved''"
| "business_status_value BS_SUPERSEDED = ''superseded''"

definition business_status_members :: "business_status list" where
  "business_status_members = [BS_PENDING, BS_RECONCILED, BS_VARIANCE_PRESENT, BS_UNRESOLVED, BS_SUPERSEDED]"

interpretation business_status_enum: str_enum business_status_members business_status_value
  by unfold_locales (simp add: business_status_members_def, case_tac e, simp_all add: business_status_members_def)

subsection \<open>AutomationStatus\<close>

datatype automation_status =
    AS_AWAITING_ARRIVAL
  | AS_RECEIVED
  | AS_VALIDATED
  | AS_RECONCILED
  | AS_CALCULATED
  | AS_PUBLICATION_READY
  | AS_PUBLISHED
  | AS_VERIFIED_COMPLETE
  | AS_WAITING_FOR_MACHINE_DATA
  | AS_RECOVERING
  | AS_UNRESOLVED
  | AS_DISABLED

primrec automation_status_value :: "automation_status \<Rightarrow> string" where
  "automation_status_value AS_AWAITING_ARRIVAL = ''awaiting_arrival''"
| "automation_status_value AS_RECEIVED = ''received''"
| "automation_status_value AS_VALIDATED = ''validated''"
| "automation_status_value AS_RECONCILED = ''reconciled''"
| "automation_status_value AS_CALCULATED = ''calculated''"
| "automation_status_value AS_PUBLICATION_READY = ''publication_ready''"
| "automation_status_value AS_PUBLISHED = ''published''"
| "automation_status_value AS_VERIFIED_COMPLETE = ''verified_complete''"
| "automation_status_value AS_WAITING_FOR_MACHINE_DATA = ''waiting_for_machine_data''"
| "automation_status_value AS_RECOVERING = ''recovering''"
| "automation_status_value AS_UNRESOLVED = ''unresolved''"
| "automation_status_value AS_DISABLED = ''disabled''"

definition automation_status_members :: "automation_status list" where
  "automation_status_members = [AS_AWAITING_ARRIVAL, AS_RECEIVED, AS_VALIDATED, AS_RECONCILED, AS_CALCULATED, AS_PUBLICATION_READY, AS_PUBLISHED, AS_VERIFIED_COMPLETE, AS_WAITING_FOR_MACHINE_DATA, AS_RECOVERING, AS_UNRESOLVED, AS_DISABLED]"

interpretation automation_status_enum: str_enum automation_status_members automation_status_value
  by unfold_locales (simp add: automation_status_members_def, case_tac e, simp_all add: automation_status_members_def)

subsection \<open>JobOutcome\<close>

datatype job_outcome =
    JO_CORRECT_ON_TIME
  | JO_CORRECT_LATE
  | JO_INCORRECT
  | JO_UNRESOLVED
  | JO_MISSING
  | JO_UNSUPPORTED
  | JO_PENDING_BEFORE_DEADLINE

primrec job_outcome_value :: "job_outcome \<Rightarrow> string" where
  "job_outcome_value JO_CORRECT_ON_TIME = ''correct_on_time''"
| "job_outcome_value JO_CORRECT_LATE = ''correct_late''"
| "job_outcome_value JO_INCORRECT = ''incorrect''"
| "job_outcome_value JO_UNRESOLVED = ''unresolved''"
| "job_outcome_value JO_MISSING = ''missing''"
| "job_outcome_value JO_UNSUPPORTED = ''unsupported''"
| "job_outcome_value JO_PENDING_BEFORE_DEADLINE = ''pending_before_deadline''"

definition job_outcome_members :: "job_outcome list" where
  "job_outcome_members = [JO_CORRECT_ON_TIME, JO_CORRECT_LATE, JO_INCORRECT, JO_UNRESOLVED, JO_MISSING, JO_UNSUPPORTED, JO_PENDING_BEFORE_DEADLINE]"

interpretation job_outcome_enum: str_enum job_outcome_members job_outcome_value
  by unfold_locales (simp add: job_outcome_members_def, case_tac e, simp_all add: job_outcome_members_def)

subsection \<open>WorkflowStage\<close>

datatype workflow_stage =
    WS_RECONCILE
  | WS_CALCULATE
  | WS_VERIFY
  | WS_EXPLAIN
  | WS_PUBLISH

primrec workflow_stage_value :: "workflow_stage \<Rightarrow> string" where
  "workflow_stage_value WS_RECONCILE = ''reconcile''"
| "workflow_stage_value WS_CALCULATE = ''calculate''"
| "workflow_stage_value WS_VERIFY = ''verify''"
| "workflow_stage_value WS_EXPLAIN = ''explain''"
| "workflow_stage_value WS_PUBLISH = ''publish''"

definition workflow_stage_members :: "workflow_stage list" where
  "workflow_stage_members = [WS_RECONCILE, WS_CALCULATE, WS_VERIFY, WS_EXPLAIN, WS_PUBLISH]"

interpretation workflow_stage_enum: str_enum workflow_stage_members workflow_stage_value
  by unfold_locales (simp add: workflow_stage_members_def, case_tac e, simp_all add: workflow_stage_members_def)

subsection \<open>TaskStatus\<close>

datatype task_status =
    TS_READY
  | TS_LEASED
  | TS_WAITING
  | TS_SUCCEEDED
  | TS_FAILED
  | TS_DEAD

primrec task_status_value :: "task_status \<Rightarrow> string" where
  "task_status_value TS_READY = ''ready''"
| "task_status_value TS_LEASED = ''leased''"
| "task_status_value TS_WAITING = ''waiting''"
| "task_status_value TS_SUCCEEDED = ''succeeded''"
| "task_status_value TS_FAILED = ''failed''"
| "task_status_value TS_DEAD = ''dead''"

definition task_status_members :: "task_status list" where
  "task_status_members = [TS_READY, TS_LEASED, TS_WAITING, TS_SUCCEEDED, TS_FAILED, TS_DEAD]"

interpretation task_status_enum: str_enum task_status_members task_status_value
  by unfold_locales (simp add: task_status_members_def, case_tac e, simp_all add: task_status_members_def)

subsection \<open>AttemptStatus\<close>

datatype attempt_status =
    AT_RUNNING
  | AT_COMMITTED
  | AT_FENCED
  | AT_FAILED

primrec attempt_status_value :: "attempt_status \<Rightarrow> string" where
  "attempt_status_value AT_RUNNING = ''running''"
| "attempt_status_value AT_COMMITTED = ''committed''"
| "attempt_status_value AT_FENCED = ''fenced''"
| "attempt_status_value AT_FAILED = ''failed''"

definition attempt_status_members :: "attempt_status list" where
  "attempt_status_members = [AT_RUNNING, AT_COMMITTED, AT_FENCED, AT_FAILED]"

interpretation attempt_status_enum: str_enum attempt_status_members attempt_status_value
  by unfold_locales (simp add: attempt_status_members_def, case_tac e, simp_all add: attempt_status_members_def)

subsection \<open>ReservationStatus\<close>

datatype reservation_status =
    RS_RESERVED
  | RS_SETTLED
  | RS_RELEASED
  | RS_UNCERTAIN

primrec reservation_status_value :: "reservation_status \<Rightarrow> string" where
  "reservation_status_value RS_RESERVED = ''reserved''"
| "reservation_status_value RS_SETTLED = ''settled''"
| "reservation_status_value RS_RELEASED = ''released''"
| "reservation_status_value RS_UNCERTAIN = ''uncertain''"

definition reservation_status_members :: "reservation_status list" where
  "reservation_status_members = [RS_RESERVED, RS_SETTLED, RS_RELEASED, RS_UNCERTAIN]"

interpretation reservation_status_enum: str_enum reservation_status_members reservation_status_value
  by unfold_locales (simp add: reservation_status_members_def, case_tac e, simp_all add: reservation_status_members_def)

subsection \<open>AttestationDecision\<close>

datatype attestation_decision =
    AD_ALLOW
  | AD_DENY

primrec attestation_decision_value :: "attestation_decision \<Rightarrow> string" where
  "attestation_decision_value AD_ALLOW = ''allow''"
| "attestation_decision_value AD_DENY = ''deny''"

definition attestation_decision_members :: "attestation_decision list" where
  "attestation_decision_members = [AD_ALLOW, AD_DENY]"

interpretation attestation_decision_enum: str_enum attestation_decision_members attestation_decision_value
  by unfold_locales (simp add: attestation_decision_members_def, case_tac e, simp_all add: attestation_decision_members_def)

subsection \<open>OutboxStatus\<close>

datatype outbox_status =
    OS_PENDING
  | OS_CLAIMED
  | OS_DISPATCHED
  | OS_RECONCILED
  | OS_INVALIDATED
  | OS_EFFECT_UNKNOWN

primrec outbox_status_value :: "outbox_status \<Rightarrow> string" where
  "outbox_status_value OS_PENDING = ''pending''"
| "outbox_status_value OS_CLAIMED = ''claimed''"
| "outbox_status_value OS_DISPATCHED = ''dispatched''"
| "outbox_status_value OS_RECONCILED = ''reconciled''"
| "outbox_status_value OS_INVALIDATED = ''invalidated''"
| "outbox_status_value OS_EFFECT_UNKNOWN = ''effect_unknown''"

definition outbox_status_members :: "outbox_status list" where
  "outbox_status_members = [OS_PENDING, OS_CLAIMED, OS_DISPATCHED, OS_RECONCILED, OS_INVALIDATED, OS_EFFECT_UNKNOWN]"

interpretation outbox_status_enum: str_enum outbox_status_members outbox_status_value
  by unfold_locales (simp add: outbox_status_members_def, case_tac e, simp_all add: outbox_status_members_def)

subsection \<open>OutboxResponseClass\<close>

datatype outbox_response_class =
    ORC_ACCEPTED
  | ORC_DELIVERED
  | ORC_EFFECT_CONFIRMED

primrec outbox_response_class_value :: "outbox_response_class \<Rightarrow> string" where
  "outbox_response_class_value ORC_ACCEPTED = ''accepted''"
| "outbox_response_class_value ORC_DELIVERED = ''delivered''"
| "outbox_response_class_value ORC_EFFECT_CONFIRMED = ''effect_confirmed''"

definition outbox_response_class_members :: "outbox_response_class list" where
  "outbox_response_class_members = [ORC_ACCEPTED, ORC_DELIVERED, ORC_EFFECT_CONFIRMED]"

interpretation outbox_response_class_enum: str_enum outbox_response_class_members outbox_response_class_value
  by unfold_locales (simp add: outbox_response_class_members_def, case_tac e, simp_all add: outbox_response_class_members_def)

subsection \<open>Orders\<close>

text \<open>
  The code sorts grades and units by their string value; the type-class order is that order.
\<close>

instantiation fuel_grade :: linorder
begin

definition less_eq_fuel_grade :: "fuel_grade \<Rightarrow> fuel_grade \<Rightarrow> bool" where
  "less_eq_fuel_grade a b \<longleftrightarrow> fuel_grade_value a \<le> fuel_grade_value b"

definition less_fuel_grade :: "fuel_grade \<Rightarrow> fuel_grade \<Rightarrow> bool" where
  "less_fuel_grade a b \<longleftrightarrow> fuel_grade_value a < fuel_grade_value b"

instance
proof
  fix x y z :: fuel_grade
  show "x < y \<longleftrightarrow> x \<le> y \<and> \<not> y \<le> x"
    by (auto simp: less_eq_fuel_grade_def less_fuel_grade_def)
  show "x \<le> x" by (simp add: less_eq_fuel_grade_def)
  show "x \<le> y \<Longrightarrow> y \<le> z \<Longrightarrow> x \<le> z" by (simp add: less_eq_fuel_grade_def)
  show "x \<le> y \<Longrightarrow> y \<le> x \<Longrightarrow> x = y"
    by (rule fuel_grade_enum.value_inj) (simp add: less_eq_fuel_grade_def)
  show "x \<le> y \<or> y \<le> x" by (auto simp: less_eq_fuel_grade_def)
qed

end

instantiation quantity_unit :: linorder
begin

definition less_eq_quantity_unit :: "quantity_unit \<Rightarrow> quantity_unit \<Rightarrow> bool" where
  "less_eq_quantity_unit a b \<longleftrightarrow> quantity_unit_value a \<le> quantity_unit_value b"

definition less_quantity_unit :: "quantity_unit \<Rightarrow> quantity_unit \<Rightarrow> bool" where
  "less_quantity_unit a b \<longleftrightarrow> quantity_unit_value a < quantity_unit_value b"

instance
proof
  fix x y z :: quantity_unit
  show "x < y \<longleftrightarrow> x \<le> y \<and> \<not> y \<le> x"
    by (auto simp: less_eq_quantity_unit_def less_quantity_unit_def)
  show "x \<le> x" by (simp add: less_eq_quantity_unit_def)
  show "x \<le> y \<Longrightarrow> y \<le> z \<Longrightarrow> x \<le> z" by (simp add: less_eq_quantity_unit_def)
  show "x \<le> y \<Longrightarrow> y \<le> x \<Longrightarrow> x = y"
    by (rule quantity_unit_enum.value_inj) (simp add: less_eq_quantity_unit_def)
  show "x \<le> y \<or> y \<le> x" by (auto simp: less_eq_quantity_unit_def)
qed

end

end
