(* ===== verification/Schema.thy ===== *)
theory Schema
  imports PyDecimal PyValues Enums
begin

text \<open>
  The rows of the \<open>recon_*\<close> tables
  (\<open>packages/schema/eastmed_schema/models.py\<close>) as records and the durable store as their
  tables. A \<open>UUID\<close> is a natural number below \<open>2 ^ 128\<close>; \<open>uuid4\<close> defaults are taken from a
  counter, so a new row has an identifier no other row has. A timestamp column is an instant.
  The audit columns the database fills (\<open>created_at\<close>, \<open>updated_at\<close>, \<open>started_at\<close>,
  \<open>issued_at\<close>) are read by no modelled operation and left out. A table lists its rows in
  insertion order; a query without \<open>ORDER BY\<close> returns them in that order, and \<open>one_or_none\<close>
  on a unique key returns the first match.
\<close>

section \<open>Identifiers\<close>

text \<open>\<open>str(uuid)\<close>: 32 hexadecimal digits in groups of 8, 4, 4, 4 and 12.\<close>

fun hex_digits :: "nat \<Rightarrow> nat \<Rightarrow> string" where
  "hex_digits 0 n = []"
| "hex_digits (Suc w) n = hex_digits w (n div 16) @ [hex_digit (n mod 16)]"

definition uuid_str :: "uid \<Rightarrow> string" where
  "uuid_str u =
    (let h = hex_digits 32 u in
     take 8 h @ ''-'' @ take 4 (drop 8 h) @ ''-'' @ take 4 (drop 12 h) @ ''-''
       @ take 4 (drop 16 h) @ ''-'' @ drop 20 h)"

text \<open>\<open>UUID(text)\<close> on the plain forms, with or without hyphens; \<open>None\<close> is \<open>ValueError\<close>.\<close>

definition hex_val :: "char \<Rightarrow> nat option" where
  "hex_val c = (let n = (of_char c :: nat) in
    if 48 \<le> n \<and> n \<le> 57 then Some (n - 48)
    else if 97 \<le> n \<and> n \<le> 102 then Some (n - 87)
    else if 65 \<le> n \<and> n \<le> 70 then Some (n - 55) else None)"

fun hex_number :: "nat \<Rightarrow> string \<Rightarrow> nat option" where
  "hex_number acc [] = Some acc"
| "hex_number acc (c # t) = (case hex_val c of None \<Rightarrow> None | Some d \<Rightarrow> hex_number (16 * acc + d) t)"

definition uuid_parse :: "string \<Rightarrow> uid option" where
  "uuid_parse text =
    (let h = filter (\<lambda>c. c \<noteq> CHR ''-'') text in
     if length h \<noteq> 32 then None else hex_number 0 h)"

section \<open>Expected work, captures and observations\<close>

record expected_job_row =
  ej_id :: uid
  ej_account :: uid
  ej_vessel_ref :: string
  ej_voyage_ref :: "string option"
  ej_period_start :: instant
  ej_period_end :: instant
  ej_due_at :: instant
  ej_contract_version :: string
  ej_result_contract_version :: string
  ej_required_record_kind :: record_kind

record source_capture_row =
  sc_id :: uid
  sc_account :: uid
  sc_record_kind :: record_kind
  sc_source_system :: string
  sc_external_ref :: string
  sc_source_revision :: string
  sc_raw_hash :: string
  sc_payload_json :: json
  sc_captured_at :: instant

record observation_row =
  ob_id :: uid
  ob_account :: uid
  ob_capture :: uid
  ob_expected_job :: "uid option"
  ob_field :: string
  ob_item_key :: string
  ob_fuel_grade :: fuel_grade
  ob_value :: pydec
  ob_unit :: quantity_unit
  ob_origin :: value_origin
  ob_period_start :: instant
  ob_period_end :: instant
  ob_source_pointer :: string
  ob_normalization_version :: string
  ob_recorded_at :: instant

section \<open>Cases and their versions\<close>

record case_row =
  oc_id :: uid
  oc_account :: uid
  oc_expected_job :: uid
  oc_automation_status :: automation_status
  oc_business_status :: business_status
  oc_revision :: int
  oc_deadline_at :: instant

record case_version_row =
  cv_id :: uid
  cv_account :: uid
  cv_case :: uid
  cv_revision :: int
  cv_evidence_hash :: string
  cv_content_hash :: string
  cv_result_json :: "(string \<times> json) list"
  cv_supersedes :: "uid option"

record verdict_row =
  vd_id :: uid
  vd_account :: uid
  vd_case :: uid
  vd_case_version :: uid
  vd_expected_job :: uid
  vd_case_revision :: int
  vd_content_hash :: string
  vd_evidence_hash :: string
  vd_calculator_version :: string
  vd_verifier_version :: string
  vd_status :: string
  vd_completion_status :: string
  vd_checked :: int
  vd_has_unresolved :: bool
  vd_completes :: bool
  vd_findings_json :: json

section \<open>Workflow\<close>

record run_row =
  wr_id :: uid
  wr_account :: uid
  wr_case :: uid
  wr_workflow_version :: string
  wr_system_fingerprint :: string
  wr_budget_units :: int
  wr_deadline_at :: instant

record task_row =
  wt_id :: uid
  wt_account :: uid
  wt_run :: uid
  wt_stage :: workflow_stage
  wt_status :: task_status
  wt_priority :: int
  wt_next_attempt_at :: instant
  wt_lease_epoch :: int
  wt_lease_until :: "instant option"
  wt_attempts :: int
  wt_max_attempts :: int
  wt_terminal_reason :: "string option"

record attempt_row =
  ta_id :: uid
  ta_account :: uid
  ta_task :: uid
  ta_attempt_no :: int
  ta_lease_epoch :: int
  ta_lease_until :: instant
  ta_status :: attempt_status
  ta_request_id :: "string option"
  ta_artifact_json :: "json option"

section \<open>Budgets\<close>

text \<open>The two ledger classes share their columns; the account ledger adds its owner.\<close>

record global_ledger_row =
  lb_id :: uid
  lb_period_key :: string
  lb_ceiling_units :: int
  lb_reserved_units :: int
  lb_spent_units :: int
  lb_uncertain_units :: int

record ledger_row = global_ledger_row +
  lb_account :: uid

record reservation_row =
  br_id :: uid
  br_account :: uid
  br_run :: uid
  br_task :: "uid option"
  br_period_key :: string
  br_reserved_units :: int
  br_spent_units :: int
  br_uncertain_units :: int
  br_status :: reservation_status

section \<open>Authority\<close>

record principal_row =
  sp_id :: uid
  sp_account :: uid
  sp_subject :: string
  sp_issuer :: string
  sp_audience :: string
  sp_allowed_scopes :: "string list"
  sp_deployment_fingerprint :: string
  sp_active :: bool

record grant_row =
  sg_id :: uid
  sg_account :: uid
  sg_policy_id :: string
  sg_policy_revision :: int
  sg_capability :: string
  sg_allowed_case_types :: "string list"
  sg_allowed_destinations :: "string list"
  sg_external_messages :: bool
  sg_financial_commitments :: bool
  sg_required_evidence :: "string list"
  sg_required_artifact :: string
  sg_qualified_fingerprints :: "string list"
  sg_attestation_ttl_seconds :: int
  sg_signing_key_id :: string
  sg_valid_from :: instant
  sg_valid_to :: instant
  sg_active :: bool

record attestation_row =
  aa_id :: uid
  aa_account :: uid
  aa_grant :: "uid option"
  aa_principal :: "uid option"
  aa_action_key :: string
  aa_capability :: string
  aa_case :: uid
  aa_case_revision :: int
  aa_destination :: string
  aa_evidence_hash :: string
  aa_payload_hash :: string
  aa_policy_id :: string
  aa_policy_revision :: int
  aa_system_fingerprint :: string
  aa_signing_key_id :: string
  aa_decision :: attestation_decision
  aa_reason :: string
  aa_expires_at :: "instant option"
  aa_dispatched_at :: "instant option"

section \<open>Publication\<close>

record intent_row =
  ai_id :: uid
  ai_account :: uid
  ai_case :: uid
  ai_case_version :: uid
  ai_attestation :: uid
  ai_action_key :: string
  ai_capability :: string
  ai_destination :: string
  ai_case_revision :: int
  ai_content_hash :: string
  ai_payload_hash :: string

record outbox_row =
  ox_id :: uid
  ox_account :: uid
  ox_intent :: uid
  ox_action_key :: string
  ox_status :: outbox_status
  ox_response_class :: "outbox_response_class option"
  ox_content_hash :: string
  ox_lease_epoch :: int
  ox_lease_until :: "instant option"
  ox_next_attempt_at :: instant
  ox_dispatch_attempts :: int
  ox_provider_reference :: "string option"
  ox_terminal_reason :: "string option"

record publication_row =
  pb_id :: uid
  pb_account :: uid
  pb_intent :: uid
  pb_case :: uid
  pb_case_revision :: int
  pb_destination :: string
  pb_content_hash :: string
  pb_result_json :: "(string \<times> json) list"
  pb_published_at :: instant

section \<open>The store\<close>

text \<open>\<open>st_checks_length\<close> is a fact about the database, not a table: whether it enforces the declared length of
  a \<open>String(n)\<close> column. PostgreSQL refuses a longer value (\<open>DataError\<close> at the flush); SQLite, on which the
  tests run, stores it.\<close>

record store =
  st_next :: uid
  st_jobs :: "expected_job_row list"
  st_captures :: "source_capture_row list"
  st_observations :: "observation_row list"
  st_cases :: "case_row list"
  st_versions :: "case_version_row list"
  st_verdicts :: "verdict_row list"
  st_runs :: "run_row list"
  st_tasks :: "task_row list"
  st_attempts :: "attempt_row list"
  st_ledgers :: "ledger_row list"
  st_global_ledgers :: "global_ledger_row list"
  st_reservations :: "reservation_row list"
  st_principals :: "principal_row list"
  st_grants :: "grant_row list"
  st_attestations :: "attestation_row list"
  st_intents :: "intent_row list"
  st_outbox :: "outbox_row list"
  st_publications :: "publication_row list"
  st_checks_length :: bool

definition empty_store :: store where
  "empty_store = \<lparr>st_next = 0, st_jobs = [], st_captures = [], st_observations = [], st_cases = [],
    st_versions = [], st_verdicts = [], st_runs = [], st_tasks = [], st_attempts = [],
    st_ledgers = [], st_global_ledgers = [], st_reservations = [], st_principals = [],
    st_grants = [], st_attestations = [], st_intents = [], st_outbox = [], st_publications = [],
    st_checks_length = False\<rparr>"

text \<open>The columns of a new row against their declared lengths.\<close>

definition columns_fit :: "store \<Rightarrow> (nat \<times> string) list \<Rightarrow> bool" where
  "columns_fit st columns \<longleftrightarrow> (if st_checks_length st then list_all (\<lambda>(n, s). length s \<le> n) columns else True)"

lemma columns_fit_free [simp]: "\<not> st_checks_length st \<Longrightarrow> columns_fit st columns"
  by (simp add: columns_fit_def)

text \<open>Attribute assignments on the ORM objects the operations mutate.\<close>

definition upd_task :: "uid \<Rightarrow> (task_row \<Rightarrow> task_row) \<Rightarrow> store \<Rightarrow> store" where
  "upd_task i f st = st\<lparr>st_tasks := row_upd wt_id i f (st_tasks st)\<rparr>"

definition upd_attempt :: "uid \<Rightarrow> (attempt_row \<Rightarrow> attempt_row) \<Rightarrow> store \<Rightarrow> store" where
  "upd_attempt i f st = st\<lparr>st_attempts := row_upd ta_id i f (st_attempts st)\<rparr>"

definition upd_case :: "uid \<Rightarrow> (case_row \<Rightarrow> case_row) \<Rightarrow> store \<Rightarrow> store" where
  "upd_case i f st = st\<lparr>st_cases := row_upd oc_id i f (st_cases st)\<rparr>"

definition upd_outbox :: "uid \<Rightarrow> (outbox_row \<Rightarrow> outbox_row) \<Rightarrow> store \<Rightarrow> store" where
  "upd_outbox i f st = st\<lparr>st_outbox := row_upd ox_id i f (st_outbox st)\<rparr>"

definition upd_attestation :: "uid \<Rightarrow> (attestation_row \<Rightarrow> attestation_row) \<Rightarrow> store \<Rightarrow> store" where
  "upd_attestation i f st = st\<lparr>st_attestations := row_upd aa_id i f (st_attestations st)\<rparr>"

text \<open>\<open>ORDER BY key DESC ... first()\<close>: the first row among those with the greatest key.\<close>

definition first_desc :: "('r \<Rightarrow> int) \<Rightarrow> 'r list \<Rightarrow> 'r option" where
  "first_desc key rows = (case sort_key (\<lambda>r. - key r) rows of [] \<Rightarrow> None | r # _ \<Rightarrow> Some r)"

lemma first_desc_None [simp]: "first_desc key rows = None \<longleftrightarrow> rows = []"
proof -
  have "sort_key (\<lambda>r. - key r) rows = [] \<longleftrightarrow> rows = []"
    by (metis length_0_conv length_sort)
  then show ?thesis by (auto simp: first_desc_def split: list.splits)
qed

lemma first_desc_Nil [simp]: "first_desc key [] = None"
  by (simp add: first_desc_def)

lemma first_desc_Some:
  assumes "first_desc key rows = Some r"
  shows "r \<in> set rows" and "\<And>q. q \<in> set rows \<Longrightarrow> key q \<le> key r"
proof -
  from assms obtain rs where s: "sort_key (\<lambda>r. - key r) rows = r # rs"
    by (auto simp: first_desc_def split: list.splits)
  have set: "set (r # rs) = set rows" by (metis s set_sort)
  then show "r \<in> set rows" by auto
  have "sorted (map (\<lambda>r. - key r) (r # rs))" by (metis s sorted_sort_key)
  then show "key q \<le> key r" if "q \<in> set rows" for q
    using that set by auto
qed

lemma hex_val_digit [simp]: "d < 16 \<Longrightarrow> hex_val (hex_digit d) = Some d"
  by (auto simp: hex_val_def hex_digit_def)

lemma hex_digit_no_hyphen: "d < 16 \<Longrightarrow> hex_digit d \<noteq> CHR ''-''"
  using hex_val_digit [of d] by (auto simp: hex_val_def)

lemma length_hex_digits [simp]: "length (hex_digits w n) = w"
  by (induction w arbitrary: n) simp_all

lemma hex_digits_no_hyphen: "c \<in> set (hex_digits w n) \<Longrightarrow> c \<noteq> CHR ''-''"
  using hex_digit_no_hyphen [OF mod_less_divisor [of 16]]
  by (induction w arbitrary: n) fastforce+

lemma hex_number_append:
  "hex_number a (s @ t) = (case hex_number a s of None \<Rightarrow> None | Some b \<Rightarrow> hex_number b t)"
  by (induction s arbitrary: a) (auto split: option.splits)

lemma hex_number_digits: "hex_number a (hex_digits w n) = Some (a * 16 ^ w + n mod 16 ^ w)"
proof (induction w arbitrary: n)
  case 0
  then show ?case by simp
next
  case (Suc w)
  have "n mod (16 * 16 ^ w) = 16 * (n div 16 mod 16 ^ w) + n mod 16" by (rule mod_mult2_eq)
  then show ?case by (simp add: Suc hex_number_append algebra_simps)
qed

text \<open>Identifiers survive the trip through text.\<close>

lemma uuid_parse_str: "u < 2 ^ 128 \<Longrightarrow> uuid_parse (uuid_str u) = Some u"
proof -
  assume u: "u < 2 ^ 128"
  let ?h = "hex_digits 32 u"
  have part: "filter (\<lambda>c. c \<noteq> CHR ''-'') (take m (drop k ?h)) = take m (drop k ?h)"
    "filter (\<lambda>c. c \<noteq> CHR ''-'') (take m ?h) = take m ?h"
    "filter (\<lambda>c. c \<noteq> CHR ''-'') (drop k ?h) = drop k ?h" for m k
    by (rule filter_True, use hex_digits_no_hyphen in \<open>blast dest: in_set_takeD in_set_dropD\<close>)+
  have "filter (\<lambda>c. c \<noteq> CHR ''-'') (uuid_str u) =
      take 8 ?h @ take 4 (drop 8 ?h) @ take 4 (drop 12 ?h) @ take 4 (drop 16 ?h) @ drop 20 ?h"
    unfolding uuid_str_def Let_def by (simp add: part del: hex_digits.simps)
  also have "... = ?h"
    using take_add [of 8 4 ?h] take_add [of 12 4 ?h] take_add [of 16 4 ?h]
      append_take_drop_id [of 20 ?h] by (simp flip: append_assoc)
  finally show ?thesis using u by (simp add: uuid_parse_def hex_number_digits)
qed

end
