(* ===== verification/Runtime.thy ===== *)
theory Runtime
  imports Schema
begin

text \<open>
  Durable orchestration (\<open>packages/pipeline/eastmed_pipeline/reconciliation_runtime.py\<close>, the
  task half): runs, the task queue, leases and their epochs. \<open>now\<close> is an argument of every
  operation; a row lock is the atomicity of a step. \<open>None\<close> as the result of
  \<open>commit_stage\<close> is the \<open>AssertionError\<close> of a task whose run does not exist.
\<close>

section \<open>Data\<close>

definition DEFAULT_LEASE :: int where "DEFAULT_LEASE = 5 * MINUTE"
definition DEFAULT_BACKOFF :: int where "DEFAULT_BACKOFF = 1 * MINUTE"

datatype commit_status = CS_COMMITTED | CS_FENCED

record task_claim =
  tc_task_id :: uid
  tc_run_id :: uid
  tc_attempt_id :: uid
  tc_attempt_no :: int
  tc_lease_epoch :: int
  tc_stage :: workflow_stage

record stage_outcome =
  so_status :: commit_status
  so_next_task_id :: "uid option"
  so_terminal :: bool
  so_reason :: "string option"

definition get_task_locked :: "store \<Rightarrow> uid \<Rightarrow> uid \<Rightarrow> task_row option" where
  "get_task_locked st task_id account_id =
    (case row_get wt_id task_id (st_tasks st) of
       None \<Rightarrow> None
     | Some task \<Rightarrow> if wt_account task \<noteq> account_id then None else Some task)"

text \<open>\<open>moment.strftime("%Y-%m")\<close>, for years from 1000 on.\<close>

definition period_key :: "instant \<Rightarrow> string" where
  "period_key t = (case civil_from_days (t div (86400 * SECOND)) of (y, m, d) \<Rightarrow> pad 4 y @ ''-'' @ pad 2 m)"

section \<open>Runs and tasks\<close>

definition create_run ::
  "store \<Rightarrow> uid \<Rightarrow> case_row \<Rightarrow> string \<Rightarrow> string \<Rightarrow> int \<Rightarrow> instant \<Rightarrow> store \<times> run_row" where
  "create_run st account_id opcase workflow_version system_fingerprint budget_units deadline_at =
    (let run = \<lparr>wr_id = st_next st, wr_account = account_id, wr_case = oc_id opcase,
       wr_workflow_version = workflow_version, wr_system_fingerprint = system_fingerprint,
       wr_budget_units = budget_units, wr_deadline_at = deadline_at\<rparr>
     in (st\<lparr>st_runs := st_runs st @ [run], st_next := st_next st + 1\<rparr>, run))"

definition enqueue_task ::
  "store \<Rightarrow> uid \<Rightarrow> run_row \<Rightarrow> workflow_stage \<Rightarrow> int \<Rightarrow> instant option \<Rightarrow> int \<Rightarrow> instant \<Rightarrow>
    store \<times> task_row" where
  "enqueue_task st account_id run stage priority next_attempt_at max_attempts now =
    (let task = \<lparr>wt_id = st_next st, wt_account = account_id, wt_run = wr_id run, wt_stage = stage,
       wt_status = TS_READY, wt_priority = priority,
       wt_next_attempt_at = (case next_attempt_at of None \<Rightarrow> now | Some t \<Rightarrow> t),
       wt_lease_epoch = 0, wt_lease_until = None, wt_attempts = 0, wt_max_attempts = max_attempts,
       wt_terminal_reason = None\<rparr>
     in (st\<lparr>st_tasks := st_tasks st @ [task], st_next := st_next st + 1\<rparr>, task))"

definition lease_expired :: "instant \<Rightarrow> task_row \<Rightarrow> bool" where
  "lease_expired now t \<longleftrightarrow> wt_status t = TS_LEASED \<and>
    (case wt_lease_until t of None \<Rightarrow> False | Some u \<Rightarrow> u < now)"

definition task_due :: "uid \<Rightarrow> instant \<Rightarrow> task_row \<Rightarrow> bool" where
  "task_due account_id now t \<longleftrightarrow> wt_account t = account_id \<and>
    ((wt_status t = TS_READY \<and> wt_next_attempt_at t \<le> now) \<or>
     (lease_expired now t \<and> wt_attempts t < wt_max_attempts t))"

definition due_rank :: "task_row \<Rightarrow> int \<times> instant \<times> uid" where
  "due_rank t = (- wt_priority t, wt_next_attempt_at t, wt_id t)"

definition due_query :: "store \<Rightarrow> uid \<Rightarrow> instant \<Rightarrow> task_row list" where
  "due_query st account_id now = sort_key due_rank (filter (task_due account_id now) (st_tasks st))"

definition find_due_tasks :: "store \<Rightarrow> uid \<Rightarrow> instant \<Rightarrow> nat \<Rightarrow> task_row list" where
  "find_due_tasks st account_id now limit = take limit (due_query st account_id now)"

definition exhausted :: "uid \<Rightarrow> instant \<Rightarrow> task_row \<Rightarrow> bool" where
  "exhausted account_id now t \<longleftrightarrow> wt_account t = account_id \<and> lease_expired now t \<and>
    wt_max_attempts t \<le> wt_attempts t"

definition retire :: "task_row \<Rightarrow> task_row" where
  "retire t = t\<lparr>wt_status := TS_DEAD, wt_terminal_reason := Some ''attempts_exhausted'',
    wt_lease_until := None\<rparr>"

definition reap_expired_tasks :: "store \<Rightarrow> uid \<Rightarrow> instant \<Rightarrow> store \<times> nat" where
  "reap_expired_tasks st account_id now =
    (let rows = filter (exhausted account_id now) (st_tasks st)
     in (st\<lparr>st_tasks := map (\<lambda>t. if exhausted account_id now t then retire t else t) (st_tasks st)\<rparr>,
         length rows))"

definition take_lease :: "instant \<Rightarrow> int \<Rightarrow> task_row \<Rightarrow> task_row" where
  "take_lease now lease t = t\<lparr>wt_lease_epoch := wt_lease_epoch t + 1, wt_status := TS_LEASED,
    wt_lease_until := Some (now + lease), wt_attempts := wt_attempts t + 1\<rparr>"

definition claim_task :: "store \<Rightarrow> uid \<Rightarrow> instant \<Rightarrow> int \<Rightarrow> store \<times> task_claim option" where
  "claim_task st0 account_id now lease =
    (let st = fst (reap_expired_tasks st0 account_id now) in
     case due_query st account_id now of
       [] \<Rightarrow> (st, None)
     | task # _ \<Rightarrow>
         let held = take_lease now lease task;
             attempt = \<lparr>ta_id = st_next st, ta_account = account_id, ta_task = wt_id held,
               ta_attempt_no = wt_attempts held, ta_lease_epoch = wt_lease_epoch held,
               ta_lease_until = now + lease, ta_status = AT_RUNNING, ta_request_id = None,
               ta_artifact_json = None\<rparr>;
             st' = upd_task (wt_id task) (take_lease now lease) st
         in (st'\<lparr>st_attempts := st_attempts st' @ [attempt], st_next := st_next st' + 1\<rparr>,
             Some \<lparr>tc_task_id = wt_id held, tc_run_id = wt_run held, tc_attempt_id = ta_id attempt,
               tc_attempt_no = wt_attempts held, tc_lease_epoch = wt_lease_epoch held,
               tc_stage = wt_stage held\<rparr>))"

text \<open>The fencing test shared by heartbeat, commit and failure.\<close>

definition lease_held :: "task_claim \<Rightarrow> task_row \<Rightarrow> bool" where
  "lease_held claim task \<longleftrightarrow> wt_lease_epoch task = tc_lease_epoch claim \<and> wt_status task = TS_LEASED"

definition heartbeat :: "store \<Rightarrow> uid \<Rightarrow> task_claim \<Rightarrow> instant \<Rightarrow> int \<Rightarrow> store \<times> bool" where
  "heartbeat st account_id claim now lease =
    (case get_task_locked st (tc_task_id claim) account_id of
       None \<Rightarrow> (st, False)
     | Some task \<Rightarrow>
        if \<not> lease_held claim task then (st, False)
        else (case wt_lease_until task of
                None \<Rightarrow> (st, False)
              | Some u \<Rightarrow> if u < now then (st, False)
                  else (upd_task (wt_id task) (\<lambda>t. t\<lparr>wt_lease_until := Some (now + lease)\<rparr>) st, True)))"

definition load_attempt :: "store \<Rightarrow> task_claim \<Rightarrow> attempt_row option" where
  "load_attempt st claim = row_get ta_id (tc_attempt_id claim) (st_attempts st)"

definition fenced :: "string \<Rightarrow> stage_outcome" where
  "fenced why = \<lparr>so_status = CS_FENCED, so_next_task_id = None, so_terminal = False, so_reason = Some why\<rparr>"

definition fence_attempt :: "task_claim \<Rightarrow> store \<Rightarrow> store" where
  "fence_attempt claim st = upd_attempt (tc_attempt_id claim) (\<lambda>a. a\<lparr>ta_status := AT_FENCED\<rparr>) st"

definition commit_stage ::
  "store \<Rightarrow> uid \<Rightarrow> task_claim \<Rightarrow> instant \<Rightarrow> workflow_stage option \<Rightarrow> string option \<Rightarrow> json option \<Rightarrow>
    (store \<times> stage_outcome) option" where
  "commit_stage st account_id claim now next_stage request_id artifact =
    (case (get_task_locked st (tc_task_id claim) account_id, load_attempt st claim) of
       (Some task, Some attempt) \<Rightarrow>
         if \<not> lease_held claim task then Some (fence_attempt claim st, fenced ''stale lease epoch'')
         else
           let st1 = upd_attempt (tc_attempt_id claim) (\<lambda>a. a\<lparr>ta_status := AT_COMMITTED,
                 ta_request_id := request_id, ta_artifact_json := artifact\<rparr>) st;
               st2 = upd_task (wt_id task)
                 (\<lambda>t. t\<lparr>wt_status := TS_SUCCEEDED, wt_lease_until := None\<rparr>) st1;
               finished = (\<lambda>next. \<lparr>so_status = CS_COMMITTED, so_next_task_id = next,
                 so_terminal = False, so_reason = None\<rparr>)
           in (case next_stage of
                 None \<Rightarrow> Some (st2, finished None)
               | Some stage \<Rightarrow>
                  (case row_get wr_id (wt_run task) (st_runs st2) of
                     None \<Rightarrow> None
                   | Some run \<Rightarrow>
                       (case enqueue_task st2 account_id run stage (wt_priority task) None 3 now of
                          (st3, follow) \<Rightarrow> Some (st3, finished (Some (wt_id follow))))))
     | _ \<Rightarrow> Some (st, fenced ''missing task/attempt''))"

definition fail_attempt ::
  "store \<Rightarrow> uid \<Rightarrow> task_claim \<Rightarrow> string \<Rightarrow> instant \<Rightarrow> int \<Rightarrow> store \<times> stage_outcome" where
  "fail_attempt st account_id claim reason now backoff =
    (case (get_task_locked st (tc_task_id claim) account_id, load_attempt st claim) of
       (Some task, Some attempt) \<Rightarrow>
         if \<not> lease_held claim task then (fence_attempt claim st, fenced ''stale lease epoch'')
         else
           let st1 = upd_attempt (tc_attempt_id claim) (\<lambda>a. a\<lparr>ta_status := AT_FAILED\<rparr>) st in
           if wt_max_attempts task \<le> wt_attempts task then
             (upd_task (wt_id task) (\<lambda>t. t\<lparr>wt_lease_until := None, wt_status := TS_DEAD,
                wt_terminal_reason := Some reason\<rparr>) st1,
              \<lparr>so_status = CS_COMMITTED, so_next_task_id = None, so_terminal = True,
               so_reason = Some reason\<rparr>)
           else
             (upd_task (wt_id task) (\<lambda>t. t\<lparr>wt_lease_until := None, wt_status := TS_READY,
                wt_next_attempt_at := now + backoff\<rparr>) st1,
              \<lparr>so_status = CS_COMMITTED, so_next_task_id = None, so_terminal = False,
               so_reason = Some reason\<rparr>)
     | _ \<Rightarrow> (st, fenced ''missing task/attempt''))"

end
