(* ===== verification/Budget.thy ===== *)
theory Budget
  imports Runtime
begin

text \<open>
  Atomic budget reservations (\<open>packages/pipeline/eastmed_pipeline/reconciliation_runtime.py\<close>,
  the budget half): account and system ledgers, reservations and their settlement. A ledger or a
  reservation passed to an operation is a row of the store, given by its identifier; a
  \<open>ValueError\<close> or the missing row of a detached object is an error value.
\<close>

section \<open>Data\<close>

datatype budget_error = ValueError string | InvalidRequest

definition outstanding :: "'a global_ledger_row_scheme \<Rightarrow> int" where
  "outstanding l = lb_reserved_units l + lb_spent_units l + lb_uncertain_units l"

definition upd_ledger :: "uid \<Rightarrow> (ledger_row \<Rightarrow> ledger_row) \<Rightarrow> store \<Rightarrow> store" where
  "upd_ledger i f st = st\<lparr>st_ledgers := row_upd lb_id i f (st_ledgers st)\<rparr>"

definition upd_global :: "uid option \<Rightarrow> (global_ledger_row \<Rightarrow> global_ledger_row) \<Rightarrow> store \<Rightarrow> store" where
  "upd_global g f st = (case g of None \<Rightarrow> st
    | Some i \<Rightarrow> st\<lparr>st_global_ledgers := row_upd lb_id i f (st_global_ledgers st)\<rparr>)"

definition upd_reservation :: "uid \<Rightarrow> (reservation_row \<Rightarrow> reservation_row) \<Rightarrow> store \<Rightarrow> store" where
  "upd_reservation i f st = st\<lparr>st_reservations := row_upd br_id i f (st_reservations st)\<rparr>"

section \<open>Operations\<close>

definition ensure_ledger :: "store \<Rightarrow> uid \<Rightarrow> string \<Rightarrow> int \<Rightarrow> store \<times> ledger_row" where
  "ensure_ledger st account_id period ceiling_units =
    (case find (\<lambda>l. lb_account l = account_id \<and> lb_period_key l = period) (st_ledgers st) of
       Some ledger \<Rightarrow> (st, ledger)
     | None \<Rightarrow>
        let ledger = \<lparr>lb_id = st_next st, lb_period_key = period, lb_ceiling_units = ceiling_units,
          lb_reserved_units = 0, lb_spent_units = 0, lb_uncertain_units = 0, lb_account = account_id\<rparr>
        in (st\<lparr>st_ledgers := st_ledgers st @ [ledger], st_next := st_next st + 1\<rparr>, ledger))"

definition ensure_global_ledger :: "store \<Rightarrow> string \<Rightarrow> int \<Rightarrow> store \<times> global_ledger_row" where
  "ensure_global_ledger st period ceiling_units =
    (case find (\<lambda>l. lb_period_key l = period) (st_global_ledgers st) of
       Some ledger \<Rightarrow> (st, ledger)
     | None \<Rightarrow>
        let ledger = \<lparr>lb_id = st_next st, lb_period_key = period, lb_ceiling_units = ceiling_units,
          lb_reserved_units = 0, lb_spent_units = 0, lb_uncertain_units = 0\<rparr>
        in (st\<lparr>st_global_ledgers := st_global_ledgers st @ [ledger], st_next := st_next st + 1\<rparr>, ledger))"

definition committed_units :: "reservation_row \<Rightarrow> int" where
  "committed_units r = br_reserved_units r + br_spent_units r + br_uncertain_units r"

definition run_committed :: "store \<Rightarrow> uid \<Rightarrow> uid \<Rightarrow> int" where
  "run_committed st run_id account_id = sum_list (map committed_units
    (filter (\<lambda>r. br_account r = account_id \<and> br_run r = run_id) (st_reservations st)))"

definition over_global :: "store \<Rightarrow> uid option \<Rightarrow> int \<Rightarrow> bool option" where
  "over_global st global units =
    (case global of None \<Rightarrow> Some False
     | Some g \<Rightarrow> map_option (\<lambda>l. outstanding l + units > lb_ceiling_units l)
         (row_get lb_id g (st_global_ledgers st)))"

definition reserve_cost ::
  "store \<Rightarrow> uid \<Rightarrow> run_row \<Rightarrow> uid \<Rightarrow> int \<Rightarrow> uid option \<Rightarrow> uid option \<Rightarrow>
    budget_error + (store \<times> reservation_row option)" where
  "reserve_cost st account_id run ledger_id units task_id global =
    (if units < 0 then Inl (ValueError ''cannot reserve negative units'')
     else case (row_get lb_id ledger_id (st_ledgers st), over_global st global units) of
       (Some ledger, Some over) \<Rightarrow>
         if run_committed st (wr_id run) account_id + units > wr_budget_units run then Inr (st, None)
         else if outstanding ledger + units > lb_ceiling_units ledger then Inr (st, None)
         else if over then Inr (st, None)
         else
           let reservation = \<lparr>br_id = st_next st, br_account = account_id, br_run = wr_id run,
                 br_task = task_id, br_period_key = lb_period_key ledger, br_reserved_units = units,
                 br_spent_units = 0, br_uncertain_units = 0, br_status = RS_RESERVED\<rparr>;
               st1 = st\<lparr>st_reservations := st_reservations st @ [reservation],
                 st_next := st_next st + 1\<rparr>;
               st2 = upd_ledger ledger_id
                 (\<lambda>l. l\<lparr>lb_reserved_units := lb_reserved_units l + units\<rparr>) st1;
               st3 = upd_global global
                 (\<lambda>l. l\<lparr>lb_reserved_units := lb_reserved_units l + units\<rparr>) st2
           in Inr (st3, Some reservation)
     | _ \<Rightarrow> Inl InvalidRequest)"

definition settle_cost ::
  "store \<Rightarrow> uid \<Rightarrow> uid \<Rightarrow> int \<Rightarrow> uid option \<Rightarrow> budget_error + store" where
  "settle_cost st reservation_id ledger_id actual_units global =
    (case row_get br_id reservation_id (st_reservations st) of
       None \<Rightarrow> Inl InvalidRequest
     | Some reservation \<Rightarrow>
        if br_status reservation \<noteq> RS_RESERVED
        then Inl (ValueError ''only a reserved allocation can be settled'')
        else
          let spend = max 0 (min actual_units (br_reserved_units reservation));
              held = br_reserved_units reservation;
              st1 = upd_ledger ledger_id (\<lambda>l. l\<lparr>lb_reserved_units := lb_reserved_units l - held,
                lb_spent_units := lb_spent_units l + spend\<rparr>) st;
              st2 = upd_global global (\<lambda>l. l\<lparr>lb_reserved_units := lb_reserved_units l - held,
                lb_spent_units := lb_spent_units l + spend\<rparr>) st1
          in Inr (upd_reservation reservation_id (\<lambda>r. r\<lparr>br_reserved_units := 0,
               br_spent_units := spend, br_status := RS_SETTLED\<rparr>) st2))"

definition release_cost :: "store \<Rightarrow> uid \<Rightarrow> uid \<Rightarrow> uid option \<Rightarrow> budget_error + store" where
  "release_cost st reservation_id ledger_id global =
    (case row_get br_id reservation_id (st_reservations st) of
       None \<Rightarrow> Inl InvalidRequest
     | Some reservation \<Rightarrow>
        if br_status reservation \<noteq> RS_RESERVED
        then Inl (ValueError ''only a reserved allocation can be released'')
        else
          let held = br_reserved_units reservation;
              st1 = upd_ledger ledger_id (\<lambda>l. l\<lparr>lb_reserved_units := lb_reserved_units l - held\<rparr>) st;
              st2 = upd_global global (\<lambda>l. l\<lparr>lb_reserved_units := lb_reserved_units l - held\<rparr>) st1
          in Inr (upd_reservation reservation_id (\<lambda>r. r\<lparr>br_reserved_units := 0,
               br_status := RS_RELEASED\<rparr>) st2))"

definition mark_uncertain :: "store \<Rightarrow> uid \<Rightarrow> uid \<Rightarrow> uid option \<Rightarrow> budget_error + store" where
  "mark_uncertain st reservation_id ledger_id global =
    (case row_get br_id reservation_id (st_reservations st) of
       None \<Rightarrow> Inl InvalidRequest
     | Some reservation \<Rightarrow>
        if br_status reservation \<noteq> RS_RESERVED
        then Inl (ValueError ''only a reserved allocation can become uncertain'')
        else
          let held = br_reserved_units reservation;
              st1 = upd_ledger ledger_id (\<lambda>l. l\<lparr>lb_reserved_units := lb_reserved_units l - held,
                lb_uncertain_units := lb_uncertain_units l + held\<rparr>) st;
              st2 = upd_global global (\<lambda>l. l\<lparr>lb_reserved_units := lb_reserved_units l - held,
                lb_uncertain_units := lb_uncertain_units l + held\<rparr>) st1
          in Inr (upd_reservation reservation_id (\<lambda>r. r\<lparr>br_reserved_units := 0,
               br_uncertain_units := held, br_status := RS_UNCERTAIN\<rparr>) st2))"

section \<open>Ledger books\<close>

text \<open>A change of the three balances by given amounts.\<close>

definition shift :: "int \<Rightarrow> int \<Rightarrow> int \<Rightarrow> 'a global_ledger_row_scheme \<Rightarrow> 'a global_ledger_row_scheme" where
  "shift dr ds du = (\<lambda>l. l\<lparr>lb_reserved_units := lb_reserved_units l + dr,
    lb_spent_units := lb_spent_units l + ds, lb_uncertain_units := lb_uncertain_units l + du\<rparr>)"

lemma shift_simps [simp]:
  "lb_id (shift dr ds du l) = lb_id l" "lb_period_key (shift dr ds du l) = lb_period_key l"
  "lb_ceiling_units (shift dr ds du l) = lb_ceiling_units l"
  "lb_reserved_units (shift dr ds du l) = lb_reserved_units l + dr"
  "lb_spent_units (shift dr ds du l) = lb_spent_units l + ds"
  "lb_uncertain_units (shift dr ds du l) = lb_uncertain_units l + du"
  "outstanding (shift dr ds du l) = outstanding l + dr + ds + du"
  by (simp_all add: shift_def outstanding_def)

lemma shift_account [simp]: "lb_account (shift dr ds du l) = lb_account l"
  by (simp add: shift_def)

definition total :: "(reservation_row \<Rightarrow> int) \<Rightarrow> (reservation_row \<Rightarrow> bool) \<Rightarrow> reservation_row list \<Rightarrow> int" where
  "total f P rs = sum_list (map f (filter P rs))"

lemma total_append [simp]: "total f P (rs @ [r]) = total f P rs + (if P r then f r else 0)"
  by (simp add: total_def)

lemma total_upd_other:
  "\<forall>r \<in> set rs. br_id r = i \<longrightarrow> \<not> P r \<and> \<not> P (u r) \<Longrightarrow> total f P (row_upd br_id i u rs) = total f P rs"
  by (induction rs) (auto simp: total_def row_upd_def)

lemma total_upd:
  assumes "distinct (map br_id rs)" and "row_get br_id i rs = Some r" and "P (u r) = P r"
  shows "total f P (row_upd br_id i u rs) = total f P rs + (if P r then f (u r) - f r else 0)"
  using assms(1,2)
proof (induction rs)
  case Nil
  then show ?case by (simp add: row_get_def)
next
  case (Cons x rs)
  show ?case
  proof (cases "br_id x = i")
    case True
    with Cons.prems have x: "x = r" and out: "i \<notin> br_id ` set rs" by (auto simp: row_get_def)
    have "total f P (row_upd br_id i u rs) = total f P rs"
      using out by (intro total_upd_other) auto
    with True x assms(3) show ?thesis by (auto simp: total_def row_upd_def)
  next
    case False
    with Cons show ?thesis by (auto simp: total_def row_upd_def row_get_def)
  qed
qed

definition balanced ::
  "('a global_ledger_row_scheme \<Rightarrow> reservation_row \<Rightarrow> bool) \<Rightarrow> reservation_row list \<Rightarrow>
    'a global_ledger_row_scheme \<Rightarrow> bool" where
  "balanced covers rs l \<longleftrightarrow> lb_reserved_units l = total br_reserved_units (covers l) rs \<and>
    lb_spent_units l = total br_spent_units (covers l) rs \<and>
    lb_uncertain_units l = total br_uncertain_units (covers l) rs"

definition book_ok ::
  "('a global_ledger_row_scheme \<Rightarrow> reservation_row \<Rightarrow> bool) \<Rightarrow> reservation_row list \<Rightarrow>
    'a global_ledger_row_scheme list \<Rightarrow> bool" where
  "book_ok covers rs ls \<longleftrightarrow> distinct (map lb_id ls) \<and>
    (\<forall>l \<in> set ls. balanced covers rs l \<and> outstanding l \<le> lb_ceiling_units l) \<and>
    (\<forall>l \<in> set ls. \<forall>m \<in> set ls. \<forall>r. covers l r \<longrightarrow> covers m r \<longrightarrow> l = m) \<and>
    (\<forall>r \<in> set rs. \<exists>l \<in> set ls. covers l r)"

text \<open>
  The interface both ledgers implement: which reservations a ledger answers for is fixed by
  columns that no operation changes. Everything about balances and ceilings follows once.
\<close>

locale ledger_book =
  fixes covers :: "'a global_ledger_row_scheme \<Rightarrow> reservation_row \<Rightarrow> bool"
  assumes covers_shift: "covers (shift dr ds du l) r = covers l r"
    and covers_stable: "br_account r = br_account r' \<Longrightarrow> br_period_key r = br_period_key r' \<Longrightarrow>
      covers l r = covers l r'"
begin

lemma shift_unique:
  assumes "book_ok covers rs ls" and "row_get lb_id i ls = Some led" and "m \<in> set ls" and "lb_id m = i"
  shows "m = led"
  using assms row_get_distinct [of lb_id ls m] by (auto simp: book_ok_def)

lemma covered_by:
  assumes "book_ok covers rs ls" and "row_get lb_id i ls = Some led" and "covers led r"
    and "m \<in> set ls" and "lb_id m \<noteq> i"
  shows "\<not> covers m r"
  using assms row_get_in [OF assms(2)] row_get_key [OF assms(2)] by (auto simp: book_ok_def)

lemma shifted_rows:
  assumes "book_ok covers rs ls" and "row_get lb_id i ls = Some led"
    and "l \<in> set (row_upd lb_id i (shift dr ds du) ls)"
  obtains (same) "l \<in> set ls" "lb_id l \<noteq> i" | (shifted) "l = shift dr ds du led"
  using in_row_upd [OF assms(3)] shift_unique [OF assms(1,2)] by blast

lemma shift_disjoint:
  assumes ok: "book_ok covers rs ls" and led: "row_get lb_id i ls = Some led"
    and l: "l \<in> set (row_upd lb_id i (shift dr ds du) ls)"
    and m: "m \<in> set (row_upd lb_id i (shift dr ds du) ls)" and r: "covers l r" "covers m r"
  shows "l = m"
proof -
  have one: "\<exists>x \<in> set ls. covers x r \<and> y = (if lb_id x = i then shift dr ds du x else x)"
    if "y \<in> set (row_upd lb_id i (shift dr ds du) ls)" "covers y r" for y
    using in_row_upd [OF that(1)] that(2) covers_shift by fastforce
  from one [OF l r(1)] one [OF m r(2)] ok show ?thesis by (auto simp: book_ok_def)
qed

lemma shift_covering:
  assumes "\<exists>l \<in> set ls. covers l r"
  shows "\<exists>l \<in> set (row_upd lb_id i (shift dr ds du) ls). covers l r"
proof -
  from assms obtain l where l: "l \<in> set ls" "covers l r" by blast
  let ?l = "if lb_id l = i then shift dr ds du l else l"
  have "?l \<in> set (row_upd lb_id i (shift dr ds du) ls)" using l by (auto simp: row_upd_def)
  moreover have "covers ?l r" using l by (simp add: covers_shift)
  ultimately show ?thesis by blast
qed

text \<open>A reservation and its ledger move by the same amounts, the outstanding sum not upwards.\<close>

lemma post_keeps:
  assumes ok: "book_ok covers rs ls" and dist: "distinct (map br_id rs)"
    and r: "row_get br_id j rs = Some r" and led: "row_get lb_id i ls = Some led" and cov: "covers led r"
    and u: "\<And>x. br_account (u x) = br_account x" "\<And>x. br_period_key (u x) = br_period_key x"
      "br_reserved_units (u r) = br_reserved_units r + dr" "br_spent_units (u r) = br_spent_units r + ds"
      "br_uncertain_units (u r) = br_uncertain_units r + du"
    and down: "dr + ds + du \<le> 0"
  shows "book_ok covers (row_upd br_id j u rs) (row_upd lb_id i (shift dr ds du) ls)"
proof -
  have stable: "covers l (u x) = covers l x" for l x by (rule covers_stable) (simp_all add: u)
  have "balanced covers (row_upd br_id j u rs) l \<and> outstanding l \<le> lb_ceiling_units l"
    if "l \<in> set (row_upd lb_id i (shift dr ds du) ls)" for l
    using ok led that
  proof (cases rule: shifted_rows)
    case same
    then have old: "balanced covers rs l" "outstanding l \<le> lb_ceiling_units l"
      using ok by (auto simp: book_ok_def)
    moreover have "\<not> covers l r" by (rule covered_by [OF ok led cov same])
    then have "total f (covers l) (row_upd br_id j u rs) = total f (covers l) rs" for f
      by (simp add: total_upd [OF dist r] stable)
    ultimately show ?thesis by (simp add: balanced_def)
  next
    case shifted
    have "led \<in> set ls" by (rule row_get_in [OF led])
    with ok have old: "balanced covers rs led" "outstanding led \<le> lb_ceiling_units led"
      by (auto simp: book_ok_def)
    have "covers l = covers led" by (simp add: fun_eq_iff shifted covers_shift)
    with old down show ?thesis
      by (simp add: shifted balanced_def total_upd [OF dist r] stable cov u)
  qed
  moreover have "\<exists>l \<in> set (row_upd lb_id i (shift dr ds du) ls). covers l x"
    if x: "x \<in> set (row_upd br_id j u rs)" for x
  proof -
    from in_row_upd [OF x] obtain y where "y \<in> set rs" "covers l x = covers l y" for l
      using stable by blast
    then show ?thesis using ok by (intro shift_covering) (auto simp: book_ok_def)
  qed
  ultimately show ?thesis
    using ok shift_disjoint [OF ok led] by (auto simp: book_ok_def row_simps)
qed

lemma open_keeps:
  assumes ok: "book_ok covers rs ls" and led: "row_get lb_id i ls = Some led" and cov: "covers led r"
    and r: "br_reserved_units r = units" "br_spent_units r = 0" "br_uncertain_units r = 0"
    and room: "outstanding led + units \<le> lb_ceiling_units led"
  shows "book_ok covers (rs @ [r]) (row_upd lb_id i (shift units 0 0) ls)"
proof -
  have "balanced covers (rs @ [r]) l \<and> outstanding l \<le> lb_ceiling_units l"
    if "l \<in> set (row_upd lb_id i (shift units 0 0) ls)" for l
    using ok led that
  proof (cases rule: shifted_rows)
    case same
    then show ?thesis
      using ok covered_by [OF ok led cov same] by (auto simp: book_ok_def balanced_def)
  next
    case shifted
    have "led \<in> set ls" by (rule row_get_in [OF led])
    moreover have "covers l = covers led" by (simp add: fun_eq_iff shifted covers_shift)
    ultimately show ?thesis
      using ok cov r room by (auto simp: shifted balanced_def book_ok_def)
  qed
  moreover have "\<exists>l \<in> set ls. covers l x" if "x \<in> set (rs @ [r])" for x
    using that ok cov row_get_in [OF led] by (auto simp: book_ok_def)
  ultimately show ?thesis
    using ok shift_disjoint [OF ok led] by (auto simp: book_ok_def row_simps intro!: shift_covering)
qed

lemma new_ledger_keeps:
  assumes ok: "book_ok covers rs ls" and fresh: "lb_id led \<notin> lb_id ` set ls"
    and apart: "\<And>l r. l \<in> set ls \<Longrightarrow> covers l r \<Longrightarrow> \<not> covers led r"
    and zero: "lb_reserved_units led = 0" "lb_spent_units led = 0" "lb_uncertain_units led = 0"
      "0 \<le> lb_ceiling_units led"
  shows "book_ok covers rs (ls @ [led])"
proof -
  have "\<not> covers led r" if "r \<in> set rs" for r using ok apart that by (auto simp: book_ok_def)
  then have "filter (covers led) rs = []" by (simp add: filter_empty_conv)
  then have "balanced covers rs led" using zero by (simp add: balanced_def total_def)
  with ok fresh apart zero show ?thesis by (fastforce simp: book_ok_def outstanding_def)
qed

end

definition account_covers :: "ledger_row \<Rightarrow> reservation_row \<Rightarrow> bool" where
  "account_covers l r \<longleftrightarrow> lb_account l = br_account r \<and> lb_period_key l = br_period_key r"

definition system_covers :: "global_ledger_row \<Rightarrow> reservation_row \<Rightarrow> bool" where
  "system_covers l r \<longleftrightarrow> lb_period_key l = br_period_key r"

interpretation account_book: ledger_book account_covers
  by unfold_locales (simp_all add: account_covers_def)

interpretation system_book: ledger_book system_covers
  by unfold_locales (simp_all add: system_covers_def)

end
