(* ===== verification/Budget_Props.thy ===== *)
theory Budget_Props
  imports Budget
begin

text \<open>
  The budget as a transition system over any number of runs, accounts and periods: whatever the
  order of reservations, settlements, releases and uncertain marks, every ledger equals the sum of
  its reservations and no run, account or system ceiling is exceeded.
\<close>

section \<open>Steps\<close>

datatype budget_event = NewRun | Ensure | EnsureGlobal | Reserve | Settle uid | Release uid | Uncertain uid

text \<open>
  The caller passes the ledgers of the reservation's account and period. The system ledger is optional,
  as in the code: a state of the system is the store together with the reservations made against the
  system ledger, and whoever closes a reservation names the system ledger exactly when it was
  reserved against it. Ceilings and run budgets are non-negative (the check constraint
  \<open>budget_non_negative\<close>, and the caller's configuration).
\<close>

definition system_ledger_for :: "store \<Rightarrow> uid option \<Rightarrow> string \<Rightarrow> bool" where
  "system_ledger_for st global period \<longleftrightarrow> (case global of None \<Rightarrow> True
    | Some g \<Rightarrow> (case row_get lb_id g (st_global_ledgers st) of
        None \<Rightarrow> False | Some glob \<Rightarrow> lb_period_key glob = period))"

definition charge :: "uid option \<Rightarrow> reservation_row option \<Rightarrow> uid set \<Rightarrow> uid set" where
  "charge global res charged = (case (global, res) of (Some _, Some r) \<Rightarrow> insert (br_id r) charged | _ \<Rightarrow> charged)"

inductive budget_step :: "store \<times> uid set \<Rightarrow> budget_event \<Rightarrow> store \<times> uid set \<Rightarrow> bool" where
  bs_run: "0 \<le> units \<Longrightarrow> create_run st acc opcase wv fp units deadline = (st', run) \<Longrightarrow>
    budget_step (st, charged) NewRun (st', charged)"
| bs_ensure: "0 \<le> cap \<Longrightarrow> ensure_ledger st acc period cap = (st', led) \<Longrightarrow>
    budget_step (st, charged) Ensure (st', charged)"
| bs_ensure_global: "0 \<le> cap \<Longrightarrow> ensure_global_ledger st period cap = (st', glob) \<Longrightarrow>
    budget_step (st, charged) EnsureGlobal (st', charged)"
| bs_reserve: "run \<in> set (st_runs st) \<Longrightarrow> wr_account run = acc \<Longrightarrow>
    row_get lb_id l (st_ledgers st) = Some led \<Longrightarrow> lb_account led = acc \<Longrightarrow>
    system_ledger_for st global (lb_period_key led) \<Longrightarrow>
    reserve_cost st acc run l units task global = Inr (st', res) \<Longrightarrow>
    budget_step (st, charged) Reserve (st', charge global res charged)"
| bs_settle: "row_get br_id j (st_reservations st) = Some r \<Longrightarrow>
    row_get lb_id l (st_ledgers st) = Some led \<Longrightarrow> account_covers led r \<Longrightarrow>
    system_ledger_for st global (br_period_key r) \<Longrightarrow> (global \<noteq> None \<longleftrightarrow> j \<in> charged) \<Longrightarrow>
    settle_cost st j l actual global = Inr st' \<Longrightarrow> budget_step (st, charged) (Settle j) (st', charged)"
| bs_release: "row_get br_id j (st_reservations st) = Some r \<Longrightarrow>
    row_get lb_id l (st_ledgers st) = Some led \<Longrightarrow> account_covers led r \<Longrightarrow>
    system_ledger_for st global (br_period_key r) \<Longrightarrow> (global \<noteq> None \<longleftrightarrow> j \<in> charged) \<Longrightarrow>
    release_cost st j l global = Inr st' \<Longrightarrow> budget_step (st, charged) (Release j) (st', charged)"
| bs_uncertain: "row_get br_id j (st_reservations st) = Some r \<Longrightarrow>
    row_get lb_id l (st_ledgers st) = Some led \<Longrightarrow> account_covers led r \<Longrightarrow>
    system_ledger_for st global (br_period_key r) \<Longrightarrow> (global \<noteq> None \<longleftrightarrow> j \<in> charged) \<Longrightarrow>
    mark_uncertain st j l global = Inr st' \<Longrightarrow> budget_step (st, charged) (Uncertain j) (st', charged)"

section \<open>The invariant\<close>

definition reservation_ok :: "reservation_row \<Rightarrow> bool" where
  "reservation_ok r \<longleftrightarrow> 0 \<le> br_reserved_units r \<and> 0 \<le> br_spent_units r \<and> 0 \<le> br_uncertain_units r \<and>
    (br_status r = RS_RESERVED \<longrightarrow> br_spent_units r = 0 \<and> br_uncertain_units r = 0) \<and>
    (br_status r \<noteq> RS_RESERVED \<longrightarrow> br_reserved_units r = 0)"

definition of_run :: "run_row \<Rightarrow> reservation_row \<Rightarrow> bool" where
  "of_run run r \<longleftrightarrow> br_account r = wr_account run \<and> br_run r = wr_id run"

definition runs_within_budget :: "run_row list \<Rightarrow> reservation_row list \<Rightarrow> bool" where
  "runs_within_budget runs rs \<longleftrightarrow>
    (\<forall>run \<in> set runs. total committed_units (of_run run) rs \<le> wr_budget_units run)"

text \<open>The reservations made against the system ledger.\<close>

definition charged_to :: "uid set \<Rightarrow> reservation_row list \<Rightarrow> reservation_row list" where
  "charged_to charged rs = filter (\<lambda>r. br_id r \<in> charged) rs"

lemma charged_to_upd:
  assumes "\<And>x. br_id (u x) = br_id x"
  shows "charged_to charged (row_upd br_id j u rs) =
    (if j \<in> charged then row_upd br_id j u (charged_to charged rs) else charged_to charged rs)"
  by (induction rs) (auto simp: charged_to_def row_upd_def assms)

lemma charged_to_get: "j \<in> charged \<Longrightarrow> row_get br_id j (charged_to charged rs) = row_get br_id j rs"
  by (induction rs) (auto simp: charged_to_def row_get_def)

lemma charged_to_distinct: "distinct (map br_id rs) \<Longrightarrow> distinct (map br_id (charged_to charged rs))"
  by (simp add: charged_to_def distinct_map_filter)

definition budget_inv :: "store \<Rightarrow> uid set \<Rightarrow> bool" where
  "budget_inv st charged \<longleftrightarrow> distinct (map br_id (st_reservations st)) \<and>
    (\<forall>r \<in> set (st_reservations st). br_id r < st_next st \<and> br_run r < st_next st \<and> reservation_ok r) \<and>
    (\<forall>l \<in> set (st_ledgers st). lb_id l < st_next st) \<and>
    (\<forall>l \<in> set (st_global_ledgers st). lb_id l < st_next st) \<and> (\<forall>j \<in> charged. j < st_next st) \<and>
    distinct (map wr_id (st_runs st)) \<and> (\<forall>run \<in> set (st_runs st). wr_id run < st_next st) \<and>
    runs_within_budget (st_runs st) (st_reservations st) \<and>
    book_ok account_covers (st_reservations st) (st_ledgers st) \<and>
    book_ok system_covers (charged_to charged (st_reservations st)) (st_global_ledgers st)"

text \<open>A change of the balances of the system ledger, when there is one.\<close>

definition shift_global ::
  "uid option \<Rightarrow> int \<Rightarrow> int \<Rightarrow> int \<Rightarrow> global_ledger_row list \<Rightarrow> global_ledger_row list" where
  "shift_global global dr ds du ls = (case global of None \<Rightarrow> ls | Some g \<Rightarrow> row_upd lb_id g (shift dr ds du) ls)"

lemma upd_global_shift:
  "upd_global global (shift dr ds du) st =
    st\<lparr>st_global_ledgers := shift_global global dr ds du (st_global_ledgers st)\<rparr>"
  by (simp add: upd_global_def shift_global_def split: option.split)

lemma in_shift_global:
  "x \<in> set (shift_global global dr ds du ls) \<Longrightarrow> \<exists>y \<in> set ls. lb_id x = lb_id y"
  by (auto simp: shift_global_def dest!: in_row_upd split: option.split_asm)

lemma run_committed_total:
  "run_committed st (wr_id run) (wr_account run) = total committed_units (of_run run) (st_reservations st)"
  by (simp add: run_committed_def total_def of_run_def cong: filter_cong)

text \<open>Settling, releasing and marking uncertain are one move of a held amount.\<close>

lemma system_move_keeps:
  assumes "book_ok system_covers (charged_to charged rs) ls" and "distinct (map br_id rs)"
    and "row_get br_id j rs = Some r" and "global \<noteq> None \<longleftrightarrow> j \<in> charged"
    and "case global of None \<Rightarrow> True | Some g \<Rightarrow> (case row_get lb_id g ls of
        None \<Rightarrow> False | Some glob \<Rightarrow> lb_period_key glob = br_period_key r)"
    and u: "\<And>x. br_id (u x) = br_id x" "\<And>x. br_account (u x) = br_account x"
      "\<And>x. br_period_key (u x) = br_period_key x"
      "br_reserved_units (u r) = br_reserved_units r + dr" "br_spent_units (u r) = br_spent_units r + ds"
      "br_uncertain_units (u r) = br_uncertain_units r + du"
    and down: "dr + ds + du \<le> 0"
  shows "book_ok system_covers (charged_to charged (row_upd br_id j u rs)) (shift_global global dr ds du ls)"
proof (cases global)
  case None
  with assms(1,4) show ?thesis by (simp add: charged_to_upd [OF u(1)] shift_global_def)
next
  case (Some g)
  with assms(5) obtain glob where glob: "row_get lb_id g ls = Some glob" "system_covers glob r"
    by (auto simp: system_covers_def split: option.split_asm)
  from Some assms(4) have j: "j \<in> charged" by simp
  have "row_get br_id j (charged_to charged rs) = Some r" using assms(3) j by (simp add: charged_to_get)
  from system_book.post_keeps [OF assms(1) charged_to_distinct [OF assms(2)] this glob u(2-6) down] Some j
  show ?thesis by (simp add: charged_to_upd [OF u(1)] shift_global_def)
qed

lemma move_keeps:
  assumes inv: "budget_inv st charged" and r: "row_get br_id j (st_reservations st) = Some r"
    and led: "row_get lb_id l (st_ledgers st) = Some led" "account_covers led r"
    and glob: "system_ledger_for st global (br_period_key r)" "global \<noteq> None \<longleftrightarrow> j \<in> charged"
    and u: "\<And>x. br_id (u x) = br_id x" "\<And>x. br_account (u x) = br_account x"
      "\<And>x. br_period_key (u x) = br_period_key x" "\<And>x. br_run (u x) = br_run x"
      "br_reserved_units (u r) = br_reserved_units r + dr" "br_spent_units (u r) = br_spent_units r + ds"
      "br_uncertain_units (u r) = br_uncertain_units r + du"
    and ok: "reservation_ok (u r)" and down: "dr + ds + du \<le> 0"
  shows "budget_inv (st\<lparr>st_reservations := row_upd br_id j u (st_reservations st),
    st_ledgers := row_upd lb_id l (shift dr ds du) (st_ledgers st),
    st_global_ledgers := shift_global global dr ds du (st_global_ledgers st)\<rparr>) charged"
proof -
  have dist: "distinct (map br_id (st_reservations st))" using inv by (simp add: budget_inv_def)
  have "total committed_units (of_run run) (row_upd br_id j u (st_reservations st))
      \<le> total committed_units (of_run run) (st_reservations st)" for run
    using down by (simp add: total_upd [OF dist r] of_run_def u committed_units_def)
  then have "runs_within_budget (st_runs st) (row_upd br_id j u (st_reservations st))"
    using inv unfolding budget_inv_def runs_within_budget_def by (meson order_trans)
  moreover have "book_ok account_covers (row_upd br_id j u (st_reservations st))
      (row_upd lb_id l (shift dr ds du) (st_ledgers st))"
    by (rule account_book.post_keeps [OF _ dist r led u(2,3,5-7) down])
      (use inv in \<open>simp add: budget_inv_def\<close>)
  moreover have "book_ok system_covers (charged_to charged (row_upd br_id j u (st_reservations st)))
      (shift_global global dr ds du (st_global_ledgers st))"
    by (rule system_move_keeps [OF _ dist r glob(2) glob(1) [unfolded system_ledger_for_def] u(1-3,5-7) down])
      (use inv in \<open>simp add: budget_inv_def\<close>)
  moreover have "br_id x < st_next st \<and> br_run x < st_next st \<and> reservation_ok x"
    if x: "x \<in> set (row_upd br_id j u (st_reservations st))" for x
    using in_row_upd [OF x] inv row_get_distinct [OF dist] r ok
    by (auto simp: budget_inv_def u)
  moreover have "lb_id x < st_next st" if x: "x \<in> set (row_upd lb_id l (shift dr ds du) (st_ledgers st))" for x
    using in_row_upd [OF x] inv by (auto simp: budget_inv_def)
  moreover have "lb_id x < st_next st"
    if x: "x \<in> set (shift_global global dr ds du (st_global_ledgers st))" for x
    using in_shift_global [OF x] inv by (auto simp: budget_inv_def)
  ultimately show ?thesis
    using inv by (simp add: budget_inv_def row_simps u)
qed

lemma shift_forms:
  "(\<lambda>l. l\<lparr>lb_reserved_units := lb_reserved_units l - held, lb_spent_units := lb_spent_units l + spend\<rparr>) =
    shift (- held) spend 0"
  "(\<lambda>l. l\<lparr>lb_reserved_units := lb_reserved_units l - held\<rparr>) = shift (- held) 0 0"
  "(\<lambda>l. l\<lparr>lb_reserved_units := lb_reserved_units l - held, lb_uncertain_units := lb_uncertain_units l + held\<rparr>) =
    shift (- held) 0 held"
  "(\<lambda>l. l\<lparr>lb_reserved_units := lb_reserved_units l + held\<rparr>) = shift held 0 0"
  by (rule ext, simp add: shift_def)+

lemma settle_keeps:
  assumes "budget_inv st charged" "row_get br_id j (st_reservations st) = Some r"
    "row_get lb_id l (st_ledgers st) = Some led" "account_covers led r"
    "system_ledger_for st global (br_period_key r)" "global \<noteq> None \<longleftrightarrow> j \<in> charged"
    "settle_cost st j l actual global = Inr st'"
  shows "budget_inv st' charged"
proof -
  let ?spend = "max 0 (min actual (br_reserved_units r))"
  have ok: "reservation_ok r" and held: "br_status r = RS_RESERVED"
    using assms(1,2,7) by (auto simp: budget_inv_def settle_cost_def dest: row_get_in split: if_splits)
  have st': "st' = st\<lparr>st_reservations := row_upd br_id j (\<lambda>r'. r'\<lparr>br_reserved_units := 0,
        br_spent_units := ?spend, br_status := RS_SETTLED\<rparr>) (st_reservations st),
      st_ledgers := row_upd lb_id l (shift (- br_reserved_units r) ?spend 0) (st_ledgers st),
      st_global_ledgers := shift_global global (- br_reserved_units r) ?spend 0 (st_global_ledgers st)\<rparr>"
    using assms(2,7) held unfolding settle_cost_def Let_def shift_forms
    by (auto simp: upd_ledger_def upd_global_shift upd_reservation_def)
  show ?thesis
    unfolding st'
    by (rule move_keeps [OF assms(1-6)]) (use ok held in \<open>auto simp: reservation_ok_def\<close>)
qed

lemma release_keeps:
  assumes "budget_inv st charged" "row_get br_id j (st_reservations st) = Some r"
    "row_get lb_id l (st_ledgers st) = Some led" "account_covers led r"
    "system_ledger_for st global (br_period_key r)" "global \<noteq> None \<longleftrightarrow> j \<in> charged"
    "release_cost st j l global = Inr st'"
  shows "budget_inv st' charged"
proof -
  have ok: "reservation_ok r" and held: "br_status r = RS_RESERVED"
    using assms(1,2,7) by (auto simp: budget_inv_def release_cost_def dest: row_get_in split: if_splits)
  have st': "st' = st\<lparr>st_reservations := row_upd br_id j (\<lambda>r'. r'\<lparr>br_reserved_units := 0,
        br_status := RS_RELEASED\<rparr>) (st_reservations st),
      st_ledgers := row_upd lb_id l (shift (- br_reserved_units r) 0 0) (st_ledgers st),
      st_global_ledgers := shift_global global (- br_reserved_units r) 0 0 (st_global_ledgers st)\<rparr>"
    using assms(2,7) held unfolding release_cost_def Let_def shift_forms
    by (auto simp: upd_ledger_def upd_global_shift upd_reservation_def)
  show ?thesis
    unfolding st'
    by (rule move_keeps [OF assms(1-6)]) (use ok held in \<open>auto simp: reservation_ok_def\<close>)
qed

lemma uncertain_keeps:
  assumes "budget_inv st charged" "row_get br_id j (st_reservations st) = Some r"
    "row_get lb_id l (st_ledgers st) = Some led" "account_covers led r"
    "system_ledger_for st global (br_period_key r)" "global \<noteq> None \<longleftrightarrow> j \<in> charged"
    "mark_uncertain st j l global = Inr st'"
  shows "budget_inv st' charged"
proof -
  have ok: "reservation_ok r" and held: "br_status r = RS_RESERVED"
    using assms(1,2,7) by (auto simp: budget_inv_def mark_uncertain_def dest: row_get_in split: if_splits)
  have st': "st' = st\<lparr>st_reservations := row_upd br_id j (\<lambda>r'. r'\<lparr>br_reserved_units := 0,
        br_uncertain_units := br_reserved_units r, br_status := RS_UNCERTAIN\<rparr>) (st_reservations st),
      st_ledgers := row_upd lb_id l (shift (- br_reserved_units r) 0 (br_reserved_units r)) (st_ledgers st),
      st_global_ledgers := shift_global global (- br_reserved_units r) 0 (br_reserved_units r)
        (st_global_ledgers st)\<rparr>"
    using assms(2,7) held unfolding mark_uncertain_def Let_def shift_forms
    by (auto simp: upd_ledger_def upd_global_shift upd_reservation_def)
  show ?thesis
    unfolding st'
    by (rule move_keeps [OF assms(1-6)]) (use ok held in \<open>auto simp: reservation_ok_def\<close>)
qed

lemma system_open_keeps:
  assumes "book_ok system_covers (charged_to charged rs) ls" and "\<forall>x \<in> set rs. br_id x \<noteq> br_id r"
    and "br_id r \<notin> charged"
    and "case global of None \<Rightarrow> True | Some g \<Rightarrow> (case row_get lb_id g ls of
        None \<Rightarrow> False | Some glob \<Rightarrow> lb_period_key glob = br_period_key r \<and> outstanding glob + units \<le> lb_ceiling_units glob)"
    and "br_reserved_units r = units" "br_spent_units r = 0" "br_uncertain_units r = 0"
  shows "book_ok system_covers (charged_to (charge global (Some r) charged) (rs @ [r])) (shift_global global units 0 0 ls)"
proof (cases global)
  case None
  with assms(1,3) show ?thesis by (simp add: charge_def charged_to_def shift_global_def)
next
  case (Some g)
  with assms(4) obtain glob where glob: "row_get lb_id g ls = Some glob" "system_covers glob r"
      "outstanding glob + units \<le> lb_ceiling_units glob"
    by (auto simp: system_covers_def split: option.split_asm)
  have "charged_to (insert (br_id r) charged) (rs @ [r]) = charged_to charged rs @ [r]"
    using assms(2) by (auto simp: charged_to_def cong: filter_cong)
  with system_book.open_keeps [OF assms(1) glob(1,2) assms(5-7) glob(3)] Some show ?thesis
    by (simp add: charge_def shift_global_def)
qed

lemma reserve_keeps:
  assumes inv: "budget_inv st charged" and run: "run \<in> set (st_runs st)" "wr_account run = acc"
    and led: "row_get lb_id l (st_ledgers st) = Some led" "lb_account led = acc"
    and glob: "system_ledger_for st global (lb_period_key led)"
    and eq: "reserve_cost st acc run l units task global = Inr (st', res)"
  shows "budget_inv st' (charge global res charged)"
proof (cases res)
  case None
  with eq led(1) have "st' = st"
    by (auto simp: reserve_cost_def Let_def split: if_splits option.split_asm)
  with inv None show ?thesis by (simp add: charge_def split: option.split)
next
  case (Some r)
  from eq led(1) Some have nonneg: "0 \<le> units" and over: "over_global st global units = Some False"
    and room: "run_committed st (wr_id run) acc + units \<le> wr_budget_units run"
      "outstanding led + units \<le> lb_ceiling_units led"
    and r: "r = \<lparr>br_id = st_next st, br_account = acc, br_run = wr_id run, br_task = task,
      br_period_key = lb_period_key led, br_reserved_units = units, br_spent_units = 0,
      br_uncertain_units = 0, br_status = RS_RESERVED\<rparr>"
    and st': "st' = st\<lparr>st_reservations := st_reservations st @ [r], st_next := st_next st + 1,
      st_ledgers := row_upd lb_id l (shift units 0 0) (st_ledgers st),
      st_global_ledgers := shift_global global units 0 0 (st_global_ledgers st)\<rparr>"
    unfolding reserve_cost_def shift_forms upd_global_shift
    by (auto simp: Let_def upd_ledger_def split: if_splits option.split_asm)
  have "runs_within_budget (st_runs st) (st_reservations st @ [r])"
  proof -
    have "total committed_units (of_run x) (st_reservations st @ [r]) \<le> wr_budget_units x"
      if x: "x \<in> set (st_runs st)" for x
    proof (cases "of_run x r")
      case True
      then have "wr_id x = wr_id run" using r by (simp add: of_run_def)
      with x run(1) inv have "x = run"
        by (auto simp: budget_inv_def distinct_map dest: inj_onD)
      with True r room(1) run(2) show ?thesis
        by (simp add: run_committed_total [symmetric] committed_units_def)
    next
      case False
      with inv x show ?thesis by (simp add: budget_inv_def runs_within_budget_def)
    qed
    then show ?thesis by (simp add: runs_within_budget_def)
  qed
  moreover have "book_ok account_covers (st_reservations st @ [r]) (row_upd lb_id l (shift units 0 0) (st_ledgers st))"
    by (rule account_book.open_keeps [OF _ led(1)])
      (use inv r led room in \<open>simp_all add: budget_inv_def account_covers_def\<close>)
  moreover have "book_ok system_covers (charged_to (charge global (Some r) charged) (st_reservations st @ [r]))
      (shift_global global units 0 0 (st_global_ledgers st))"
  proof (rule system_open_keeps)
    show "case global of None \<Rightarrow> True | Some g \<Rightarrow> (case row_get lb_id g (st_global_ledgers st) of
        None \<Rightarrow> False | Some glob \<Rightarrow> lb_period_key glob = br_period_key r \<and>
          outstanding glob + units \<le> lb_ceiling_units glob)"
      using glob over r by (auto simp: system_ledger_for_def over_global_def split: option.split_asm option.split)
  qed (use inv r in \<open>auto simp: budget_inv_def\<close>)
  moreover have "lb_id x < st_next st" if x: "x \<in> set (row_upd lb_id l (shift units 0 0) (st_ledgers st))" for x
    using in_row_upd [OF x] inv by (auto simp: budget_inv_def)
  moreover have "lb_id x < st_next st"
    if x: "x \<in> set (shift_global global units 0 0 (st_global_ledgers st))" for x
    using in_shift_global [OF x] inv by (auto simp: budget_inv_def)
  moreover have "reservation_ok r" using r nonneg by (simp add: reservation_ok_def)
  moreover have "br_id r = st_next st" "br_run r < st_next st"
    using r inv run(1) by (auto simp: budget_inv_def)
  moreover have "\<forall>j \<in> charge global (Some r) charged. j < st_next st + 1"
    using inv \<open>br_id r = st_next st\<close> by (auto simp: budget_inv_def charge_def split: option.split_asm intro: less_SucI)
  ultimately show ?thesis
    using inv unfolding budget_inv_def st' Some by (auto intro: less_SucI)
qed

lemma find_None_all: "find P xs = None \<Longrightarrow> x \<in> set xs \<Longrightarrow> \<not> P x"
  by (simp add: find_None_iff)

lemma ensure_keeps:
  assumes inv: "budget_inv st charged" and "0 \<le> cap" and eq: "ensure_ledger st acc period cap = (st', led)"
  shows "budget_inv st' charged"
proof (cases "find (\<lambda>l. lb_account l = acc \<and> lb_period_key l = period) (st_ledgers st)")
  case None
  with eq have led: "led = \<lparr>lb_id = st_next st, lb_period_key = period, lb_ceiling_units = cap,
      lb_reserved_units = 0, lb_spent_units = 0, lb_uncertain_units = 0, lb_account = acc\<rparr>"
    and st': "st' = st\<lparr>st_ledgers := st_ledgers st @ [led], st_next := st_next st + 1\<rparr>"
    by (auto simp: ensure_ledger_def Let_def)
  have "book_ok account_covers (st_reservations st) (st_ledgers st @ [led])"
    by (rule account_book.new_ledger_keeps)
      (use inv None \<open>0 \<le> cap\<close> led in \<open>auto simp: budget_inv_def account_covers_def dest: find_None_all\<close>)
  with inv led show ?thesis by (auto simp: budget_inv_def st' less_SucI)
qed (use assms in \<open>simp add: ensure_ledger_def\<close>)

lemma ensure_global_keeps:
  assumes inv: "budget_inv st charged" and "0 \<le> cap" and eq: "ensure_global_ledger st period cap = (st', led)"
  shows "budget_inv st' charged"
proof (cases "find (\<lambda>l. lb_period_key l = period) (st_global_ledgers st)")
  case None
  with eq have led: "led = \<lparr>lb_id = st_next st, lb_period_key = period, lb_ceiling_units = cap,
      lb_reserved_units = 0, lb_spent_units = 0, lb_uncertain_units = 0\<rparr>"
    and st': "st' = st\<lparr>st_global_ledgers := st_global_ledgers st @ [led], st_next := st_next st + 1\<rparr>"
    by (auto simp: ensure_global_ledger_def Let_def)
  have "book_ok system_covers (charged_to charged (st_reservations st)) (st_global_ledgers st @ [led])"
    by (rule system_book.new_ledger_keeps)
      (use inv None \<open>0 \<le> cap\<close> led in \<open>auto simp: budget_inv_def system_covers_def dest: find_None_all\<close>)
  with inv led show ?thesis by (auto simp: budget_inv_def st' less_SucI)
qed (use assms in \<open>simp add: ensure_global_ledger_def\<close>)

lemma new_run_keeps:
  assumes inv: "budget_inv st charged" and "0 \<le> units"
    and eq: "create_run st acc opcase wv fp units deadline = (st', run)"
  shows "budget_inv st' charged"
proof -
  from eq have run: "wr_id run = st_next st" "wr_budget_units run = units"
    and st': "st' = st\<lparr>st_runs := st_runs st @ [run], st_next := st_next st + 1\<rparr>"
    by (auto simp: create_run_def Let_def)
  have "filter (of_run run) (st_reservations st) = []"
    using inv run by (auto simp: filter_empty_conv of_run_def budget_inv_def)
  then have "total committed_units (of_run run) (st_reservations st) = 0" by (simp add: total_def)
  with inv run \<open>0 \<le> units\<close> show ?thesis
    by (auto simp: budget_inv_def st' runs_within_budget_def less_SucI)
qed

lemma budget_step_keeps:
  "budget_step s e s' \<Longrightarrow> budget_inv (fst s) (snd s) \<Longrightarrow> budget_inv (fst s') (snd s')"
  by (induction rule: budget_step.induct)
    (simp only: fst_conv snd_conv, blast intro: new_run_keeps ensure_keeps ensure_global_keeps reserve_keeps
      settle_keeps release_keeps uncertain_keeps)+

interpretation budget: step_invariant budget_step "\<lambda>s. budget_inv (fst s) (snd s)"
  by unfold_locales (rule budget_step_keeps)

section \<open>Properties\<close>

text \<open>C4: no interleaving of reservations, settlements, releases and uncertain marks exceeds a run budget or
  an account's monthly ceiling, and every account ledger equals the sum of the reservations of its account
  and period. The system ledger is optional: a reservation counts against it when its caller passed it.
  No system ledger exceeds its ceiling, and each equals the sum of the reservations of its period that
  were made against it. Assumed of the callers: they pass the ledgers of the reservation's own account and
  period, whoever closes a reservation passes the system ledger exactly when it was reserved against it,
  run budgets and ceilings are not negative, and the books balance at the start.\<close>

theorem budget_never_exceeded:
  assumes "reaches budget_step (st0, charged0) (st, charged)" and "budget_inv st0 charged0"
  shows "list_all (\<lambda>run. run_committed st (wr_id run) (wr_account run) \<le> wr_budget_units run) (st_runs st) \<and>
    list_all (\<lambda>l. outstanding l \<le> lb_ceiling_units l \<and>
      balanced account_covers (st_reservations st) l) (st_ledgers st) \<and>
    list_all (\<lambda>g. outstanding g \<le> lb_ceiling_units g \<and>
      balanced system_covers (filter (\<lambda>r. br_id r \<in> charged) (st_reservations st)) g) (st_global_ledgers st)"
proof -
  have "budget_inv st charged" using budget.reaches_keeps [OF assms(1)] assms(2) by simp
  then show ?thesis
    by (auto simp: list_all_iff budget_inv_def book_ok_def runs_within_budget_def run_committed_total charged_to_def)
qed

definition sample_books :: store where
  "sample_books = empty_store\<lparr>st_next := 3,
    st_runs := [\<lparr>wr_id = 0, wr_account = 7, wr_case = 9, wr_workflow_version = ''v'',
      wr_system_fingerprint = ''fp'', wr_budget_units = 10, wr_deadline_at = 0\<rparr>],
    st_ledgers := [\<lparr>lb_id = 1, lb_period_key = ''2026-07'', lb_ceiling_units = 8,
      lb_reserved_units = 0, lb_spent_units = 0, lb_uncertain_units = 0, lb_account = 7\<rparr>],
    st_global_ledgers := [\<lparr>lb_id = 2, lb_period_key = ''2026-07'', lb_ceiling_units = 20,
      lb_reserved_units = 0, lb_spent_units = 0, lb_uncertain_units = 0\<rparr>]\<rparr>"

lemma sample_books_inv: "budget_inv sample_books {}"
  by (simp add: sample_books_def empty_store_def budget_inv_def runs_within_budget_def book_ok_def
      balanced_def total_def outstanding_def charged_to_def)

definition sample_reserved :: store where
  "sample_reserved = fst (projr (reserve_cost sample_books 7 (hd (st_runs sample_books)) 1 5 None (Some 2)))"

lemma sample_reserve:
  "reserve_cost sample_books 7 (hd (st_runs sample_books)) 1 5 None (Some 2) =
    Inr (sample_reserved, Some \<lparr>br_id = 3, br_account = 7, br_run = 0, br_task = None,
      br_period_key = ''2026-07'', br_reserved_units = 5, br_spent_units = 0, br_uncertain_units = 0,
      br_status = RS_RESERVED\<rparr>)"
  by code_simp

definition sample_open :: "reservation_row" where
  "sample_open = \<lparr>br_id = 4, br_account = 7, br_run = 0, br_task = None, br_period_key = ''2026-07'',
     br_reserved_units = 2, br_spent_units = 0, br_uncertain_units = 0, br_status = RS_RESERVED\<rparr>"

text \<open>A second reservation that is not made against the system ledger.\<close>

definition sample_two :: store where
  "sample_two = fst (projr (reserve_cost sample_reserved 7 (hd (st_runs sample_books)) 1 2 None None))"

lemma sample_second:
  "reserve_cost sample_reserved 7 (hd (st_runs sample_books)) 1 2 None None = Inr (sample_two, Some sample_open)"
  by code_simp

lemma sample_reach: "reaches budget_step (sample_books, {}) (sample_two, {3})"
proof (rule reaches_step [where t = "(sample_reserved, {3})"])
  have run: "hd (st_runs sample_books) \<in> set (st_runs sample_books)" "wr_account (hd (st_runs sample_books)) = 7"
    by (simp_all add: sample_books_def)
  have led: "row_get lb_id 1 (st_ledgers sample_books) = Some (hd (st_ledgers sample_books))"
    "lb_account (hd (st_ledgers sample_books)) = 7"
    "system_ledger_for sample_books (Some 2) (lb_period_key (hd (st_ledgers sample_books)))"
    by code_simp+
  from bs_reserve [OF run led sample_reserve, of "{}"] have "budget_step (sample_books, {}) Reserve (sample_reserved, {3})"
    by (simp add: charge_def)
  then show "reaches budget_step (sample_books, {}) (sample_reserved, {3})" by (blast intro: reaches.intros)
  have run': "hd (st_runs sample_books) \<in> set (st_runs sample_reserved)"
    using run(1) by (simp add: sample_reserved_def sample_books_def reserve_cost_def over_global_def Let_def
        upd_ledger_def upd_global_def row_get_def run_committed_def empty_store_def outstanding_def)
  have led': "row_get lb_id 1 (st_ledgers sample_reserved) = Some (hd (st_ledgers sample_reserved))"
    "lb_account (hd (st_ledgers sample_reserved)) = 7"
    "system_ledger_for sample_reserved None (lb_period_key (hd (st_ledgers sample_reserved)))"
    by code_simp+
  from bs_reserve [OF run' run(2) led' sample_second, of "{3}"]
  show "budget_step (sample_reserved, {3}) Reserve (sample_two, {3})" by (simp add: charge_def)
qed

theorem budget_never_exceeded_witness:
  "length (st_reservations sample_two) = 2 \<and>
    list_all (\<lambda>l. outstanding l \<le> lb_ceiling_units l) (st_ledgers sample_two) \<and>
    list_all (\<lambda>g. balanced system_covers (filter (\<lambda>r. br_id r \<in> {3}) (st_reservations sample_two)) g)
      (st_global_ledgers sample_two)"
proof -
  have "length (st_reservations sample_two) = 2" by code_simp
  with budget_never_exceeded [OF sample_reach sample_books_inv] show ?thesis
    by (auto simp: list_all_iff)
qed

text \<open>a reservation is granted exactly when the run, the account ledger and (when supplied) the
  system ledger each have room for it; a refusal changes nothing and negative units are an error.\<close>

theorem reserve_cost_exact:
  assumes "row_get lb_id l (st_ledgers st) = Some led" and "row_get lb_id g (st_global_ledgers st) = Some glob"
  shows "if units < 0 then reserve_cost st acc run l units task (Some g) =
      Inl (ValueError ''cannot reserve negative units'')
    else if run_committed st (wr_id run) acc + units \<le> wr_budget_units run \<and>
      outstanding led + units \<le> lb_ceiling_units led \<and> outstanding glob + units \<le> lb_ceiling_units glob
    then \<exists>st' r. reserve_cost st acc run l units task (Some g) = Inr (st', Some r) \<and>
      br_reserved_units r = units \<and> br_status r = RS_RESERVED \<and>
      st_reservations st' = st_reservations st @ [r] \<and>
      row_get lb_id l (st_ledgers st') = Some (shift units 0 0 led) \<and>
      row_get lb_id g (st_global_ledgers st') = Some (shift units 0 0 glob)
    else reserve_cost st acc run l units task (Some g) = Inr (st, None)"
  using assms unfolding reserve_cost_def shift_forms
  by (auto simp: over_global_def Let_def upd_ledger_def upd_global_def row_get_upd)

theorem reserve_cost_exact_witness:
  "reserve_cost sample_books 7 (hd (st_runs sample_books)) 1 9 None (Some 2) = Inr (sample_books, None)"
proof -
  let ?run = "hd (st_runs sample_books)"
  have get: "row_get lb_id 1 (st_ledgers sample_books) = Some (hd (st_ledgers sample_books))"
    "row_get lb_id 2 (st_global_ledgers sample_books) = Some (hd (st_global_ledgers sample_books))"
    by code_simp+
  have "outstanding (hd (st_ledgers sample_books)) + 9 > lb_ceiling_units (hd (st_ledgers sample_books))"
    by code_simp
  with reserve_cost_exact [OF get, of 9 7 ?run None] show ?thesis by simp
qed

text \<open>an allocation is closed once: after a settlement the reservation holds nothing, records the
  actual units clamped to what was held, and every further settlement, release or uncertain mark of
  it is an error that changes nothing.\<close>

theorem settle_cost_once:
  assumes "row_get br_id j (st_reservations st) = Some r" and "settle_cost st j l actual g = Inr st'"
  shows "(\<exists>r'. row_get br_id j (st_reservations st') = Some r' \<and> br_reserved_units r' = 0 \<and>
      br_spent_units r' = max 0 (min actual (br_reserved_units r)) \<and> br_status r' = RS_SETTLED) \<and>
    settle_cost st' j l' actual' g' = Inl (ValueError ''only a reserved allocation can be settled'') \<and>
    release_cost st' j l' g' = Inl (ValueError ''only a reserved allocation can be released'') \<and>
    mark_uncertain st' j l' g' = Inl (ValueError ''only a reserved allocation can become uncertain'')"
proof -
  have "\<exists>r'. row_get br_id j (st_reservations st') = Some r' \<and> br_reserved_units r' = 0 \<and>
      br_spent_units r' = max 0 (min actual (br_reserved_units r)) \<and> br_status r' = RS_SETTLED"
    using assms
    by (auto simp: settle_cost_def Let_def upd_ledger_def upd_reservation_def row_get_upd upd_global_def
        split: if_splits option.splits)
  then show ?thesis by (auto simp: settle_cost_def release_cost_def mark_uncertain_def)
qed

theorem settle_cost_once_witness:
  "release_cost (projr (settle_cost sample_reserved 3 1 9 (Some 2))) 3 1 (Some 2) =
    Inl (ValueError ''only a reserved allocation can be released'')"
proof -
  have get: "row_get br_id 3 (st_reservations sample_reserved) = Some (hd (st_reservations sample_reserved))"
    by code_simp
  obtain st' where st': "settle_cost sample_reserved 3 1 9 (Some 2) = Inr st'"
  proof -
    have "(case settle_cost sample_reserved 3 1 9 (Some 2) of Inl _ \<Rightarrow> False | Inr _ \<Rightarrow> True)" by code_simp
    then show ?thesis using that by (cases "settle_cost sample_reserved 3 1 9 (Some 2)") auto
  qed
  from settle_cost_once [OF get st'] st' show ?thesis by simp
qed

end
