(* ===== verification/PyDecimal_Facts.thy ===== *)
theory PyDecimal_Facts
  imports PyDecimal
begin

text \<open>
  Facts about the decimal arithmetic: the printed form of a decimal parses back to the same
  triple; comparison is comparison of the denoted numbers; sums and differences that fit the
  context precision are exact; \<open>quantize\<close> to cents is total below $10^{25}$ and moves a
  value by at most half a cent.
\<close>

section \<open>Digits\<close>

lemma ndigits_le_iff: "0 < k \<Longrightarrow> ndigits n \<le> k \<longleftrightarrow> n < 10 ^ k"
proof (induction n arbitrary: k rule: digits_of.induct)
  case (1 n)
  show ?case
  proof (cases "n < 10")
    case True
    have "(10::nat) ^ 1 \<le> 10 ^ k" using "1.prems" by (intro power_increasing) auto
    with True "1.prems" show ?thesis by (simp add: ndigits_def digits_of.simps [of n])
  next
    case False
    have unfold: "ndigits n = Suc (ndigits (n div 10))"
      using False by (simp add: ndigits_def digits_of.simps [of n])
    show ?thesis
    proof (cases "k = 1")
      case True
      have "ndigits (n div 10) \<noteq> 0" by (simp add: ndigits_def)
      with True False unfold show ?thesis by simp
    next
      case k: False
      then obtain j where j: "k = Suc j" "0 < j" using "1.prems" by (cases k) auto
      have "ndigits (n div 10) \<le> j \<longleftrightarrow> n div 10 < 10 ^ j"
        using 1(1) [OF False j(2)] .
      also have "\<dots> \<longleftrightarrow> n < 10 ^ j * 10"
        by (rule div_less_iff_less_mult) simp
      finally show ?thesis by (simp add: unfold j mult.commute)
    qed
  qed
qed

lemma ndigits_pos [simp]: "0 < ndigits n"
  by (simp add: ndigits_def)

lemma digits_no_space: "is_digit c \<Longrightarrow> \<not> is_space c"
  by (simp add: is_digit_def is_space_def Let_def)

lemma digits_not_special:
  "is_digit c \<Longrightarrow> c \<noteq> CHR ''_'' \<and> c \<noteq> CHR ''-'' \<and> c \<noteq> CHR ''+'' \<and> c \<noteq> CHR ''.'' \<and> c \<noteq> CHR ''E''"
  by (auto simp: is_digit_def)

section \<open>Parsing what is printed\<close>

lemma takeWhile_digits:
  "list_all is_digit xs \<Longrightarrow> (ys = [] \<or> \<not> is_digit (hd ys)) \<Longrightarrow>
    takeWhile is_digit (xs @ ys) = xs \<and> dropWhile is_digit (xs @ ys) = ys"
  by (induction xs) (cases ys; auto)+

lemma parse_number_form:
  assumes "list_all is_digit ip" "ip \<noteq> []" "list_all is_digit fp"
    and ex: "ex = [] \<or> (\<exists>t. ex = CHR ''E'' # t)" and x: "parse_exp ex = Some x"
  shows "parse_number neg (ip @ (if fp = [] then [] else CHR ''.'' # fp) @ ex) =
    Some (Finite \<lparr>dsign = neg, dcoef = nat_of_digits (ip @ fp), dexp = x - int (length fp)\<rparr>)"
proof -
  have E: "\<not> is_digit CHR ''E''" and D: "\<not> is_digit CHR ''.''" by (simp_all add: is_digit_def)
  let ?rest = "(if fp = [] then [] else CHR ''.'' # fp) @ ex"
  have h: "?rest = [] \<or> \<not> is_digit (hd ?rest)" using ex E D by auto
  have t1: "takeWhile is_digit (ip @ ?rest) = ip" "dropWhile is_digit (ip @ ?rest) = ?rest"
    using takeWhile_digits [OF assms(1) h] by auto
  have h2: "ex = [] \<or> \<not> is_digit (hd ex)" using ex E by auto
  have t2: "takeWhile is_digit (fp @ ex) = fp" "dropWhile is_digit (fp @ ex) = ex"
    using takeWhile_digits [OF assms(3) h2] by auto
  show ?thesis
    unfolding parse_number_def Let_def t1
    using ex x assms(2) t2 by (cases "fp = []") auto
qed

lemma parse_exp_signed: "parse_exp (CHR ''E'' # signed_exp e) = Some e"
proof -
  have "to_lower CHR ''E'' = CHR ''e''" by code_simp
  then show ?thesis
    by (simp add: parse_exp_def signed_exp_def parse_sign_def digits_of_all_digits)
qed

lemma list_all_take_drop:
  "list_all P xs \<Longrightarrow> list_all P (take n xs) \<and> list_all P (drop n xs)"
  by (auto simp: list_all_iff dest: in_set_takeD in_set_dropD)

lemma parse_number_body:
  assumes d: "list_all is_digit ds" "ds \<noteq> []"
  shows "parse_number neg (dec_str_body ds e) =
    Some (Finite \<lparr>dsign = neg, dcoef = nat_of_digits ds, dexp = e\<rparr>)"
proof -
  define left where "left = e + int (length ds)"
  note td = list_all_take_drop [OF d(1)]
  consider (small) "e \<le> 0" "left > -6" "left \<le> 0"
    | (whole) "e \<le> 0" "left > -6" "left \<ge> int (length ds)" "0 < left"
    | (mid) "e \<le> 0" "left > -6" "0 < left" "left < int (length ds)"
    | (sci1) "\<not> (e \<le> 0 \<and> left > -6)" "length ds = 1"
    | (sci) "\<not> (e \<le> 0 \<and> left > -6)" "length ds \<noteq> 1"
    by linarith
  then show ?thesis
  proof cases
    case small
    let ?fp = "replicate (nat (- left)) (CHR ''0'') @ ds"
    have "is_digit CHR ''0''" by (simp add: is_digit_def)
    then have z: "list_all is_digit ?fp" using d by (auto simp: list_all_iff)
    have "parse_number neg (''0'' @ (if ?fp = [] then [] else CHR ''.'' # ?fp) @ []) =
        Some (Finite \<lparr>dsign = neg, dcoef = nat_of_digits (''0'' @ ?fp), dexp = 0 - int (length ?fp)\<rparr>)"
      using z by (intro parse_number_form) (auto simp: parse_exp_def is_digit_def)
    moreover have "nat_of_digits (''0'' @ ?fp) = nat_of_digits ds"
      using nat_of_digits_zeros [of 1 ?fp] by simp
    ultimately show ?thesis
      using small d by (simp add: dec_str_body_def Let_def flip: left_def) (simp add: left_def)
  next
    case whole
    have "parse_number neg (ds @ (if [] = ([]::string) then [] else CHR ''.'' # []) @ []) =
        Some (Finite \<lparr>dsign = neg, dcoef = nat_of_digits (ds @ []), dexp = 0 - int (length ([]::string))\<rparr>)"
      using d by (intro parse_number_form) (auto simp: parse_exp_def)
    moreover have "e = 0" using whole by (simp add: left_def)
    ultimately show ?thesis using whole d by (simp add: dec_str_body_def Let_def flip: left_def)
  next
    case mid
    let ?ip = "take (nat left) ds" and ?fp = "drop (nat left) ds"
    have "parse_number neg (?ip @ (if ?fp = [] then [] else CHR ''.'' # ?fp) @ []) =
        Some (Finite \<lparr>dsign = neg, dcoef = nat_of_digits (?ip @ ?fp), dexp = 0 - int (length ?fp)\<rparr>)"
      using mid td d by (intro parse_number_form) (auto simp: parse_exp_def)
    moreover have "?fp \<noteq> []" and "0 - int (length ?fp) = e" using mid by (simp_all add: left_def)
    ultimately show ?thesis
      using mid by (simp add: dec_str_body_def Let_def flip: left_def)
  next
    case sci1
    have "parse_number neg (ds @ (if [] = ([]::string) then [] else CHR ''.'' # []) @ CHR ''E'' # signed_exp (left - 1)) =
        Some (Finite \<lparr>dsign = neg, dcoef = nat_of_digits (ds @ []), dexp = (left - 1) - int (length ([]::string))\<rparr>)"
      using d by (intro parse_number_form) (auto simp: parse_exp_signed)
    then show ?thesis
      using sci1 by (auto simp: dec_str_body_def Let_def left_def)
  next
    case sci
    let ?ip = "take 1 ds" and ?fp = "drop 1 ds"
    have ne: "?fp \<noteq> []" "?ip \<noteq> []" using sci d by (cases ds; auto)+
    have "parse_number neg (?ip @ (if ?fp = [] then [] else CHR ''.'' # ?fp) @ CHR ''E'' # signed_exp (left - 1)) =
        Some (Finite \<lparr>dsign = neg, dcoef = nat_of_digits (?ip @ ?fp), dexp = (left - 1) - int (length ?fp)\<rparr>)"
      using ne list_all_take_drop [OF d(1), of 1]
      by (intro parse_number_form) (auto simp: parse_exp_signed)
    moreover have "left - 1 - int (length ?fp) = e" using d by (cases ds) (auto simp: left_def)
    ultimately show ?thesis
      using sci ne by (auto simp: dec_str_body_def Let_def left_def)
  qed
qed

lemma dec_str_body_hd:
  assumes "list_all is_digit ds" "ds \<noteq> []"
  shows "dec_str_body ds e \<noteq> [] \<and> is_digit (hd (dec_str_body ds e))"
proof -
  obtain c cs where ds: "ds = c # cs" "is_digit c" using assms by (cases ds) auto
  have "is_digit CHR ''0''" by (simp add: is_digit_def)
  moreover have "take (nat x) (c # cs) = c # take (nat x - 1) cs" if "0 < x" for x
    using that by (cases "nat x") auto
  ultimately show ?thesis using ds by (auto simp: dec_str_body_def Let_def)
qed

lemma dec_str_body_chars:
  assumes "list_all is_digit ds" "c \<in> set (dec_str_body ds e)"
  shows "is_digit c \<or> c \<in> set ''.E+-''"
proof -
  have "is_digit CHR ''0''" by (simp add: is_digit_def)
  moreover have "c \<in> set (digits_of n) \<Longrightarrow> is_digit c" for n
    using digits_of_all_digits [of n] by (simp add: list_all_iff)
  ultimately show ?thesis using assms
    by (auto simp: dec_str_body_def Let_def signed_exp_def list_all_iff dest: in_set_takeD in_set_dropD split: if_splits)
qed

lemma dec_char_plain: "is_digit c \<or> c \<in> set ''.E+-'' \<Longrightarrow> \<not> is_space c \<and> c \<noteq> CHR ''_''"
  using digits_no_space [of c] digits_not_special [of c] by (auto simp: is_space_def)

lemma dec_str_plain: "c \<in> set (dec_str a) \<Longrightarrow> \<not> is_space c \<and> c \<noteq> CHR ''_''"
proof (rule dec_char_plain)
  assume "c \<in> set (dec_str a)"
  then have "c = CHR ''-'' \<or> c \<in> set (dec_str_body (digits_of (dcoef a)) (dexp a))"
    by (auto simp: dec_str_def split: if_splits)
  then show "is_digit c \<or> c \<in> set ''.E+-''"
    using dec_str_body_chars [OF digits_of_all_digits] by auto
qed

lemma parse_sign_str: "parse_sign (dec_str a) = (dsign a, dec_str_body (digits_of (dcoef a)) (dexp a))"
proof -
  let ?b = "dec_str_body (digits_of (dcoef a)) (dexp a)"
  have "?b \<noteq> []" "is_digit (hd ?b)"
    using dec_str_body_hd [OF digits_of_all_digits digits_of_nonempty] by auto
  then obtain c t where "?b = c # t" "is_digit c" by (cases ?b) auto
  then show ?thesis by (auto simp: dec_str_def parse_sign_def is_digit_def)
qed

lemma parse_dec_str: "parse_decimal (dec_str a) = Some (Finite a)"
proof -
  have "py_strip (dec_str a) = dec_str a" using dec_str_plain by (auto intro: py_strip_id)
  moreover have "filter (\<lambda>c. c \<noteq> CHR ''_'') (dec_str a) = dec_str a"
    using dec_str_plain by (auto intro: filter_True)
  ultimately show ?thesis
    by (simp add: parse_decimal_def parse_sign_str parse_number_body [OF digits_of_all_digits])
qed

lemma dec_str_inj: "dec_str a = dec_str b \<longleftrightarrow> a = b"
  by (metis decimal.inject(1) option.inject parse_dec_str)

section \<open>Comparison\<close>

lemma scale_val: "e \<le> dexp a \<Longrightarrow> dec_val a = of_int (scale_to e a) * 10 powi e"
proof -
  assume le: "e \<le> dexp a"
  have "(10::rat) powi dexp a = 10 powi (int (nat (dexp a - e)) + e)" using le by simp
  also have "\<dots> = 10 powi int (nat (dexp a - e)) * 10 powi e" by (rule power_int_add) simp
  also have "\<dots> = 10 ^ nat (dexp a - e) * 10 powi e" by (simp only: power_int_of_nat)
  finally show ?thesis by (simp add: dec_val_def scale_to_def)
qed

lemma dec_cmp_val: "of_int (dec_cmp a b) * 10 powi (min (dexp a) (dexp b)) = dec_val a - dec_val b"
  using scale_val [of "min (dexp a) (dexp b)" a] scale_val [of "min (dexp a) (dexp b)" b]
  by (simp add: dec_cmp_def Let_def algebra_simps)

lemma powi_pos [simp]: "0 < (10::rat) powi e"
  by (simp add: power_int_def)

lemma powi_not_neg [simp]: "\<not> (10::rat) powi e < 0"
  using powi_pos [of e] by linarith

lemma dec_eq_val: "dec_eq a b \<longleftrightarrow> dec_val a = dec_val b"
  using dec_cmp_val [of a b] powi_pos [of "min (dexp a) (dexp b)"]
  by (auto simp: dec_eq_def)

lemma dec_lt_val: "dec_lt a b \<longleftrightarrow> dec_val a < dec_val b"
proof -
  have "dec_val a - dec_val b < 0 \<longleftrightarrow> (of_int (dec_cmp a b) :: rat) < 0"
    unfolding dec_cmp_val [symmetric] by (simp add: mult_less_0_iff)
  then show ?thesis by (simp add: dec_lt_def)
qed

lemma dec_eq_refl [simp]: "dec_eq a a"
  by (simp add: dec_eq_val)

lemma dec_negative_val: "dec_negative a \<longleftrightarrow> dec_val a < 0"
  by (simp add: dec_negative_def dec_val_def mult_less_0_iff)

lemma dec_is_zero_val: "dec_is_zero a \<longleftrightarrow> dec_val a = 0"
  by (auto simp: dec_is_zero_def dec_val_def signed_def)

section \<open>Exact sums and differences\<close>

definition fits :: "pydec \<Rightarrow> bool" where
  "fits a \<longleftrightarrow> ndigits (dcoef a) \<le> PREC"

lemma dec_fix_fits [simp]: "fits a \<Longrightarrow> dec_fix a = a"
  by (simp add: dec_fix_def fits_def)

lemma dec_neg_val [simp]: "dec_val (dec_neg a) = - dec_val a"
  by (simp add: dec_neg_def dec_val_def signed_def)

definition sum_fits :: "pydec \<Rightarrow> pydec \<Rightarrow> bool" where
  "sum_fits a b \<longleftrightarrow>
    (let e = min (dexp a) (dexp b) in \<bar>scale_to e a + scale_to e b\<bar> < 10 ^ PREC)"

lemma dec_add_exact:
  assumes "sum_fits a b"
  shows "dec_val (dec_add a b) = dec_val a + dec_val b"
proof -
  define e where "e = min (dexp a) (dexp b)"
  define s where "s = scale_to e a + scale_to e b"
  define neg where "neg = (if s = 0 then dcoef a = 0 \<and> dcoef b = 0 \<and> dsign a \<and> dsign b else s < 0)"
  let ?r = "\<lparr>dsign = neg, dcoef = nat \<bar>s\<bar>, dexp = e\<rparr>"
  have "nat \<bar>s\<bar> < 10 ^ PREC"
    using assms by (simp add: sum_fits_def s_def e_def Let_def nat_less_iff)
  then have "fits ?r" by (simp add: fits_def ndigits_le_iff PREC_def)
  moreover have "dec_add a b = dec_fix ?r"
    by (simp add: dec_add_def Let_def neg_def s_def e_def)
  moreover have "signed ?r = s" by (auto simp: signed_def neg_def)
  ultimately have "dec_val (dec_add a b) = of_int s * 10 powi e" by (simp add: dec_val_def)
  also have "\<dots> = dec_val a + dec_val b"
    using scale_val [of e a] scale_val [of e b] by (simp add: s_def e_def distrib_right)
  finally show ?thesis .
qed

lemma dec_sub_exact:
  "sum_fits a (dec_neg b) \<Longrightarrow> dec_val (dec_sub a b) = dec_val a - dec_val b"
  by (simp add: dec_sub_def dec_add_exact)

section \<open>Rounding to cents\<close>

lemma half_up_error:
  fixes c m :: nat
  assumes "0 < m"
  shows "\<bar>(of_nat (if m \<le> 2 * (c mod m) then c div m + 1 else c div m) :: rat) * of_nat m - of_nat c\<bar>
    \<le> of_nat m / 2"
proof -
  define q r where "q = c div m" and "r = c mod m"
  have c: "(of_nat c :: rat) = of_nat q * of_nat m + of_nat r"
    by (simp add: q_def r_def flip: of_nat_mult of_nat_add)
  have r: "(of_nat r :: rat) < of_nat m" using assms by (simp add: r_def)
  show ?thesis
  proof (cases "m \<le> 2 * r")
    case True
    then have "(of_nat m :: rat) \<le> 2 * of_nat r" by (metis of_nat_le_iff of_nat_mult of_nat_numeral)
    with r True show ?thesis unfolding c q_def [symmetric] r_def [symmetric]
      by (simp add: algebra_simps abs_le_iff)
  next
    case False
    then have "(2::rat) * of_nat r < of_nat m" by (metis linorder_not_le of_nat_less_iff of_nat_mult of_nat_numeral)
    with False show ?thesis unfolding c q_def [symmetric] r_def [symmetric]
      by (simp add: algebra_simps abs_le_iff)
  qed
qed

lemma dec_val_abs: "\<bar>dec_val a - dec_val b\<bar> =
    \<bar>of_nat (dcoef a) * 10 powi dexp a - of_nat (dcoef b) * 10 powi dexp b\<bar>" if "dsign a = dsign b"
  using that by (auto simp: dec_val_def signed_def abs_minus_commute)

lemma rescale_error: "\<bar>dec_val (rescale_half_up a e) - dec_val a\<bar> \<le> 10 powi e / 2"
proof (cases "e \<le> dexp a")
  case True
  have "dec_val (rescale_half_up a e) = of_int (scale_to e a) * 10 powi e"
    using True by (simp add: rescale_half_up_def dec_val_def signed_def scale_to_def)
  then show ?thesis using scale_val [OF True] by simp
next
  case False
  define k where "k = nat (e - dexp a)"
  define c' where "c' = (if 10 ^ k \<le> 2 * (dcoef a mod 10 ^ k) then dcoef a div 10 ^ k + 1 else dcoef a div 10 ^ k)"
  have r: "rescale_half_up a e = a\<lparr>dcoef := c', dexp := e\<rparr>"
    using False by (simp add: rescale_half_up_def Let_def c'_def k_def)
  have "(10::rat) powi e = 10 powi (int k + dexp a)" using False by (simp add: k_def)
  then have p: "(10::rat) powi e = of_nat (10 ^ k) * 10 powi dexp a" by (simp add: power_int_add)
  have "\<bar>dec_val (rescale_half_up a e) - dec_val a\<bar> =
      \<bar>of_nat c' * (10::rat) powi e - of_nat (dcoef a) * 10 powi dexp a\<bar>"
    by (subst dec_val_abs) (simp_all add: r)
  also have "\<dots> = \<bar>(of_nat c' * of_nat (10 ^ k) - of_nat (dcoef a)) * (10::rat) powi dexp a\<bar>"
    unfolding p by (simp add: algebra_simps)
  also have "\<dots> = \<bar>of_nat c' * of_nat (10 ^ k) - of_nat (dcoef a)\<bar> * (10::rat) powi dexp a"
    by (simp add: abs_mult)
  also have "\<dots> \<le> of_nat (10 ^ k) / 2 * (10::rat) powi dexp a"
    using half_up_error [of "10 ^ k" "dcoef a"] by (intro mult_right_mono) (simp_all add: c'_def)
  also have "\<dots> = 10 powi e / 2" by (simp add: p)
  finally show ?thesis .
qed

lemma quantize2_exp: "dec_quantize2 a = Some r \<Longrightarrow> dexp r = -2"
  by (auto simp: dec_quantize2_def Let_def dec_fix_def rescale_half_up_def split: if_splits)

lemma quantize2_error:
  assumes "dec_quantize2 a = Some r"
  shows "\<bar>dec_val r - dec_val a\<bar> \<le> 1 / 200"
proof (cases "dcoef a = 0")
  case True
  with assms show ?thesis by (auto simp: dec_quantize2_def dec_val_def signed_def)
next
  case False
  with assms have "r = rescale_half_up a (-2)"
    by (auto simp: dec_quantize2_def Let_def dec_fix_def split: if_splits)
  moreover have "(10::rat) powi (-2) / 2 = 1 / 200" by (simp add: power_int_def power2_eq_square)
  ultimately show ?thesis using rescale_error [of a "-2"] by simp
qed

lemma quantize2_sign: "dec_quantize2 a = Some r \<Longrightarrow> dsign r = dsign a"
  by (auto simp: dec_quantize2_def Let_def dec_fix_def rescale_half_up_def split: if_splits)

text \<open>\<open>quantize\<close> succeeds on every value of at most 26 integer digits.\<close>

lemma quantize2_defined:
  assumes "dexp a + int (ndigits (dcoef a)) \<le> 25"
  shows "\<exists>r. dec_quantize2 a = Some r"
proof (cases "dcoef a = 0")
  case True
  then show ?thesis by (simp add: dec_quantize2_def)
next
  case False
  let ?c = "dcoef a" and ?n = "ndigits (dcoef a)"
  have c: "?c < 10 ^ ?n" using ndigits_le_iff [of ?n ?c] by simp
  have "dcoef (rescale_half_up a (-2)) < 10 ^ 28"
  proof (cases "-2 \<le> dexp a")
    case True
    have "?c * 10 ^ nat (dexp a + 2) < 10 ^ ?n * 10 ^ nat (dexp a + 2)" using c by simp
    also have "\<dots> = 10 ^ (?n + nat (dexp a + 2))" by (simp add: power_add)
    also have "\<dots> \<le> 10 ^ 28" using assms True by (intro power_increasing) auto
    finally show ?thesis using True by (simp add: rescale_half_up_def)
  next
    case neg: False
    define k where "k = nat (- 2 - dexp a)"
    have "(10::nat) ^ ?n \<le> 10 ^ (27 + k)"
      using assms neg by (intro power_increasing) (auto simp: k_def)
    with c have "?c < 10 ^ (27 + k)" by linarith
    then have "?c div 10 ^ k < 10 ^ 27"
      by (simp add: div_less_iff_less_mult power_add)
    then show ?thesis using neg by (auto simp: rescale_half_up_def Let_def k_def)
  qed
  then have "ndigits (dcoef (rescale_half_up a (-2))) \<le> PREC"
    by (simp add: PREC_def ndigits_le_iff)
  then show ?thesis using assms False
    by (auto simp: dec_quantize2_def Let_def PREC_def)
qed

section \<open>Magnitudes\<close>

lemma dec_val_le_digits:
  assumes "\<bar>dec_val a\<bar> < 10 powi k" and "dcoef a \<noteq> 0"
  shows "dexp a + int (ndigits (dcoef a)) \<le> k"
proof (rule ccontr)
  let ?n = "ndigits (dcoef a)"
  assume "\<not> dexp a + int ?n \<le> k"
  then have le: "k \<le> dexp a + int (?n - 1)" using ndigits_pos [of "dcoef a"] by linarith
  have "10 ^ (?n - 1) \<le> dcoef a"
  proof (cases "?n = 1")
    case True
    with assms(2) show ?thesis by simp
  next
    case False
    then have "0 < ?n - 1" using ndigits_pos [of "dcoef a"] by linarith
    then show ?thesis using ndigits_le_iff [of "?n - 1" "dcoef a"] by linarith
  qed
  then have "(10::rat) ^ (?n - 1) \<le> of_nat (dcoef a)"
    by (metis of_nat_le_iff of_nat_numeral of_nat_power)
  then have "(10::rat) ^ (?n - 1) * 10 powi dexp a \<le> of_nat (dcoef a) * 10 powi dexp a"
    by (rule mult_right_mono) (simp add: less_imp_le)
  also have "of_nat (dcoef a) * 10 powi dexp a = \<bar>dec_val a\<bar>"
    by (simp add: dec_val_def signed_def abs_mult)
  finally have "(10::rat) ^ (?n - 1) * 10 powi dexp a \<le> \<bar>dec_val a\<bar>" .
  moreover have "(10::rat) powi k \<le> 10 powi (dexp a + int (?n - 1))"
    using le by (intro power_int_increasing) auto
  moreover have "(10::rat) powi (dexp a + int (?n - 1)) = 10 ^ (?n - 1) * 10 powi dexp a"
    by (simp add: power_int_add)
  ultimately show False using assms(1) by linarith
qed

lemma dec_abs_val: "\<bar>dec_val a\<bar> = of_nat (dcoef a) * 10 powi dexp a"
  by (simp add: dec_val_def signed_def abs_mult)

lemma dec_fix_bound: "\<bar>dec_val (dec_fix a)\<bar> \<le> 2 * \<bar>dec_val a\<bar>"
proof (cases "fits a")
  case True
  then show ?thesis by simp
next
  case False
  define n where "n = ndigits (dcoef a)"
  define k where "k = n - PREC"
  define q where "q = dcoef a div 10 ^ k"
  define c where "c = (if 2 * (dcoef a mod 10 ^ k) > 10 ^ k \<or> (2 * (dcoef a mod 10 ^ k) = 10 ^ k \<and> odd q)
    then q + 1 else q)"
  have big: "\<not> n \<le> PREC" using False by (simp add: fits_def n_def)
  then have "\<not> dcoef a < 10 ^ (n - 1)"
    using ndigits_le_iff [of "n - 1" "dcoef a"] by (auto simp: n_def PREC_def)
  moreover have "(10::nat) ^ k \<le> 10 ^ (n - 1)"
    using big by (intro power_increasing) (simp_all add: k_def PREC_def)
  ultimately have "10 ^ k \<le> dcoef a" by linarith
  then have "1 \<le> q" using div_le_mono [of "10 ^ k" "dcoef a" "10 ^ k"] by (simp add: q_def)
  then have "c \<le> 2 * q" by (auto simp: c_def)
  then have "c * 10 ^ k \<le> 2 * q * 10 ^ k" by (rule mult_le_mono1)
  also have "\<dots> = 2 * (q * 10 ^ k)" by simp
  also have "\<dots> \<le> 2 * dcoef a" by (rule mult_le_mono2) (simp add: q_def)
  finally have ck: "c * 10 ^ k \<le> 2 * dcoef a" .
  have fix_eq: "dec_fix a = (if ndigits c > PREC then a\<lparr>dcoef := c div 10, dexp := dexp a + int k + 1\<rparr>
      else a\<lparr>dcoef := c, dexp := dexp a + int k\<rparr>)"
    using big by (simp add: dec_fix_def Let_def n_def k_def q_def c_def)
  have "(of_nat (c * 10 ^ k) :: rat) \<le> of_nat (2 * dcoef a)" using ck of_nat_le_iff by blast
  then have "of_nat c * (10::rat) ^ k \<le> 2 * of_nat (dcoef a)" by simp
  then have ck': "of_nat c * (10::rat) ^ k * 10 powi dexp a \<le> 2 * of_nat (dcoef a) * 10 powi dexp a"
    by (intro mult_right_mono) (simp_all add: less_imp_le)
  let ?u = "(10::rat) ^ k * 10 powi dexp a"
  have u: "of_nat c * ?u \<le> 2 * \<bar>dec_val a\<bar>" using ck' by (simp add: dec_abs_val mult.assoc)
  have p: "(10::rat) powi (dexp a + int k) = ?u" by (simp add: power_int_add)
  have p1: "(10::rat) powi (dexp a + int k + 1) = 10 * ?u" using p by (simp add: power_int_add_1)
  have "c div 10 * 10 \<le> c" by simp
  then have "(of_nat (c div 10) :: rat) * 10 \<le> of_nat c"
    by (metis of_nat_le_iff of_nat_mult of_nat_numeral)
  then have "of_nat (c div 10) * 10 * ?u \<le> of_nat c * ?u"
    by (rule mult_right_mono) (simp add: less_imp_le)
  then have u10: "of_nat (c div 10) * (10 * ?u) \<le> 2 * \<bar>dec_val a\<bar>"
    using u by (simp only: mult.assoc)
  show ?thesis
  proof (cases "ndigits c > PREC")
    case True
    then have "\<bar>dec_val (dec_fix a)\<bar> = of_nat (c div 10) * (10 * ?u)"
      unfolding fix_eq dec_abs_val using p1 by simp
    with u10 show ?thesis by linarith
  next
    case False
    then have "\<bar>dec_val (dec_fix a)\<bar> = of_nat c * ?u"
      unfolding fix_eq dec_abs_val using p by simp
    with u show ?thesis by linarith
  qed
qed

lemma strip_zeros_val:
  "strip_zeros c e ideal n = (c', e') \<Longrightarrow> (of_nat c' :: rat) * 10 powi e' = of_nat c * 10 powi e"
proof (induction n arbitrary: c e)
  case 0
  then show ?case by simp
next
  case (Suc n)
  show ?case
  proof (cases "e < ideal \<and> c mod 10 = 0")
    case True
    then have "c = c div 10 * 10" by auto
    then have "(of_nat c :: rat) = of_nat (c div 10) * 10" by (metis of_nat_mult of_nat_numeral)
    then have "(of_nat (c div 10) :: rat) * 10 powi (e + 1) = of_nat c * 10 powi e"
      by (simp add: power_int_add)
    with Suc True show ?thesis by simp
  next
    case False
    with Suc show ?thesis by (simp split: if_splits)
  qed
qed

lemma div_scaled:
  fixes a b x y :: rat
  assumes "x * b = a * y" "0 < b" "0 < y"
  shows "x / y = a / b"
  using assms by (simp add: field_simps)

lemma dec_div_bound:
  assumes "dec_div a b = Some d"
  shows "\<bar>dec_val d\<bar> \<le> 4 * (\<bar>dec_val a\<bar> / \<bar>dec_val b\<bar>)"
proof (cases "dcoef a = 0")
  case True
  with assms obtain r where "d = dec_fix r" "dcoef r = 0"
    by (auto simp: dec_div_def Let_def split: if_splits)
  then have "\<bar>dec_val d\<bar> \<le> 0" using dec_fix_bound [of r] by (simp add: dec_abs_val)
  then show ?thesis by simp
next
  case a0: False
  from assms have b0: "dcoef b \<noteq> 0" by (auto simp: dec_div_def split: if_splits)
  define shift where "shift = int (ndigits (dcoef b)) - int (ndigits (dcoef a)) + int PREC + 1"
  define e where "e = dexp a - dexp b - shift"
  define num where "num = (if 0 \<le> shift then dcoef a * 10 ^ nat shift else dcoef a)"
  define den where "den = (if 0 \<le> shift then dcoef b else dcoef b * 10 ^ nat (- shift))"
  define q where "q = num div den"
  define sg where "sg = (dsign a \<noteq> dsign b)"
  have den0: "0 < den" using b0 by (simp add: den_def)
  \<comment> \<open>the scaled quotient is the quotient of the denoted numbers\<close>
  have quot: "of_nat num / of_nat den * (10::rat) powi e = \<bar>dec_val a\<bar> / \<bar>dec_val b\<bar>"
  proof -
    have "(of_nat num :: rat) / of_nat den = of_nat (dcoef a) / of_nat (dcoef b) * 10 powi shift"
      using b0 by (simp add: num_def den_def power_int_def field_simps)
    then have "of_nat num / of_nat den * (10::rat) powi e
        = of_nat (dcoef a) / of_nat (dcoef b) * (10 powi shift * 10 powi e)" by simp
    also have "(10::rat) powi shift * 10 powi e = 10 powi (dexp a - dexp b)"
      by (simp add: e_def flip: power_int_add)
    also have "\<dots> = 10 powi dexp a / 10 powi dexp b" by (simp add: power_int_diff)
    finally show ?thesis by (simp add: dec_abs_val)
  qed
  have num_ge: "den \<le> num"
  proof -
    have b: "dcoef b < 10 ^ ndigits (dcoef b)" using ndigits_le_iff [of "ndigits (dcoef b)" "dcoef b"] by simp
    have "10 ^ (ndigits (dcoef a) - 1) \<le> dcoef a"
      using dec_val_le_digits a0 ndigits_le_iff [of "ndigits (dcoef a) - 1" "dcoef a"]
      by (cases "ndigits (dcoef a) = 1") (auto simp: not_less Suc_lessI)
    show ?thesis
    proof (cases "0 \<le> shift")
      case True
      then have "ndigits (dcoef b) \<le> ndigits (dcoef a) - 1 + nat shift"
        using ndigits_pos [of "dcoef a"] by (simp add: shift_def PREC_def)
      then have "(10::nat) ^ ndigits (dcoef b) \<le> 10 ^ (ndigits (dcoef a) - 1) * 10 ^ nat shift"
        by (simp flip: power_add)
      also have "\<dots> \<le> dcoef a * 10 ^ nat shift"
        using \<open>10 ^ (ndigits (dcoef a) - 1) \<le> dcoef a\<close> by simp
      finally show ?thesis using b True by (simp add: num_def den_def)
    next
      case False
      then have "ndigits (dcoef b) + nat (- shift) \<le> ndigits (dcoef a) - 1"
        using ndigits_pos [of "dcoef a"] by (simp add: shift_def PREC_def)
      then have "(10::nat) ^ ndigits (dcoef b) * 10 ^ nat (- shift) \<le> 10 ^ (ndigits (dcoef a) - 1)"
        by (simp flip: power_add)
      moreover have "dcoef b * 10 ^ nat (- shift) \<le> 10 ^ ndigits (dcoef b) * 10 ^ nat (- shift)"
        using b by (intro mult_le_mono1) simp
      ultimately have "dcoef b * 10 ^ nat (- shift) \<le> dcoef a"
        using \<open>10 ^ (ndigits (dcoef a) - 1) \<le> dcoef a\<close> by linarith
      then show ?thesis using False by (simp add: num_def den_def)
    qed
  qed
  then have "1 \<le> q" using div_le_mono [of den num den] den0 by (simp add: q_def)
  then have q2: "q + 1 \<le> 2 * q" by simp
  have qq: "(of_nat q :: rat) \<le> of_nat num / of_nat den"
  proof -
    have "q * den \<le> num" by (simp add: q_def)
    then have "(of_nat q :: rat) * of_nat den \<le> of_nat num" by (metis of_nat_le_iff of_nat_mult)
    then show ?thesis using den0 by (simp add: le_divide_eq)
  qed
  define m where "m = (if num mod den \<noteq> 0 then (if q mod 5 = 0 then q + 1 else q) else q)"
  have "m \<le> 2 * q" using q2 by (auto simp: m_def)
  then have "(of_nat m :: rat) \<le> of_nat (2 * q)" by (rule of_nat_mono)
  then have m: "(of_nat m :: rat) \<le> 2 * (of_nat num / of_nat den)" using qq by simp
  obtain c e' where c: "strip_zeros q e (dexp a - dexp b) (nat (dexp a - dexp b - e)) = (c, e')"
    by (cases "strip_zeros q e (dexp a - dexp b) (nat (dexp a - dexp b - e))") auto
  have unf: "dec_div a b =
      (if num mod den \<noteq> 0
       then Some (dec_fix \<lparr>dsign = sg, dcoef = (if q mod 5 = 0 then q + 1 else q), dexp = e\<rparr>)
       else (case strip_zeros q e (dexp a - dexp b) (nat (dexp a - dexp b - e)) of
         (c, e') \<Rightarrow> Some (dec_fix \<lparr>dsign = sg, dcoef = c, dexp = e'\<rparr>)))"
    using a0 b0
    by (simp only: dec_div_def Let_def q_def num_def den_def e_def shift_def sg_def if_False)
  have dm: "\<exists>r. d = dec_fix r \<and> \<bar>dec_val r\<bar> = of_nat m * 10 powi e"
  proof (cases "num mod den = 0")
    case True
    then have "d = dec_fix \<lparr>dsign = sg, dcoef = c, dexp = e'\<rparr>" using assms c unf by simp
    moreover have "\<bar>dec_val \<lparr>dsign = sg, dcoef = c, dexp = e'\<rparr>\<bar> = of_nat m * 10 powi e"
      using strip_zeros_val [OF c] True by (simp add: dec_abs_val m_def)
    ultimately show ?thesis by blast
  next
    case False
    then have "d = dec_fix \<lparr>dsign = sg, dcoef = m, dexp = e\<rparr>" using assms unf by (simp add: m_def)
    moreover have "\<bar>dec_val \<lparr>dsign = sg, dcoef = m, dexp = e\<rparr>\<bar> = of_nat m * 10 powi e"
      by (simp add: dec_abs_val)
    ultimately show ?thesis by blast
  qed
  then obtain r where r: "d = dec_fix r" "\<bar>dec_val r\<bar> = of_nat m * 10 powi e" by blast
  have "\<bar>dec_val d\<bar> \<le> 2 * (of_nat m * 10 powi e)" using dec_fix_bound [of r] r by simp
  also have "of_nat m * (10::rat) powi e \<le> 2 * (of_nat num / of_nat den) * 10 powi e"
    using m by (intro mult_right_mono) (simp_all add: less_imp_le)
  finally show ?thesis using quot by (simp add: mult.assoc)
qed

lemma dec_div_None: "dec_div a b = None \<longleftrightarrow> dec_is_zero b"
  unfolding dec_div_def Let_def dec_is_zero_def
  by (simp only: split: if_split prod.split) simp

lemma dec_mul_bound: "\<bar>dec_val (dec_mul a b)\<bar> \<le> 2 * (\<bar>dec_val a\<bar> * \<bar>dec_val b\<bar>)"
proof -
  let ?r = "\<lparr>dsign = (dsign a \<noteq> dsign b), dcoef = dcoef a * dcoef b, dexp = dexp a + dexp b\<rparr>"
  have "\<bar>dec_val ?r\<bar> = \<bar>dec_val a\<bar> * \<bar>dec_val b\<bar>" by (simp add: dec_abs_val power_int_add)
  then show ?thesis using dec_fix_bound [of ?r] by (simp add: dec_mul_def)
qed

end
