(* ===== verification/Calculator.thy ===== *)
theory Calculator
  imports PyDecimal_Facts PyValues Enums "HOL-Library.AList"
begin

text \<open>
  The deterministic calculator
  (\<open>packages/shared/eastmed_shared/reconciliation/calculator.py\<close>): fuel variance, the generic
  planned/actual delta, reconciliation of reporting periods and the fleet summary. Each returns
  a refusal or a result; a decimal operation that raises \<open>InvalidOperation\<close> (or
  \<open>DivisionByZero\<close>) is the third outcome \<open>CalcRaised\<close>.
\<close>

section \<open>Data\<close>

definition CALCULATOR_VERSION :: string where "CALCULATOR_VERSION = ''recon_calculator_v1''"
definition ROUNDING :: string where "ROUNDING = ''ROUND_HALF_UP@2''"
definition ZERO_PLAN_BASE :: string where "ZERO_PLAN_BASE = ''ZERO_PLAN_BASE''"

datatype calc_refusal_reason =
    MISSING_INPUT
  | GRADE_MISMATCH
  | INCOMPATIBLE_BASIS
  | INTERVAL_MISMATCH
  | STALE_PLAN
  | NEGATIVE_QUANTITY
  | OVERLAPPING_INTERVALS
  | UNRESOLVED_REVISION
  | EVENT_MEANING_DIFFERS
  | TIME_BASE_DIFFERS

primrec calc_refusal_reason_value :: "calc_refusal_reason \<Rightarrow> string" where
  "calc_refusal_reason_value MISSING_INPUT = ''missing_input''"
| "calc_refusal_reason_value GRADE_MISMATCH = ''grade_mismatch''"
| "calc_refusal_reason_value INCOMPATIBLE_BASIS = ''incompatible_basis''"
| "calc_refusal_reason_value INTERVAL_MISMATCH = ''interval_mismatch''"
| "calc_refusal_reason_value STALE_PLAN = ''stale_plan''"
| "calc_refusal_reason_value NEGATIVE_QUANTITY = ''negative_quantity''"
| "calc_refusal_reason_value OVERLAPPING_INTERVALS = ''overlapping_intervals''"
| "calc_refusal_reason_value UNRESOLVED_REVISION = ''unresolved_revision''"
| "calc_refusal_reason_value EVENT_MEANING_DIFFERS = ''event_meaning_differs''"
| "calc_refusal_reason_value TIME_BASE_DIFFERS = ''time_base_differs''"

record calc_refusal =
  cr_reason :: calc_refusal_reason
  cr_detail :: string

datatype 'r calc = CalcResult 'r | CalcRefused calc_refusal | CalcRaised

record quantity_input =
  qi_input_id :: string
  qi_fuel_grade :: fuel_grade
  qi_value :: pydec
  qi_unit :: quantity_unit
  qi_period_start :: instant
  qi_period_end :: instant
  qi_revision :: string

type_synonym str_dict = "(string \<times> string) list"

record calculation_receipt =
  rc_function :: string
  rc_formula_version :: string
  rc_rounding :: string
  rc_inputs :: "str_dict list"
  rc_assumptions :: "string list"
  rc_exclusions :: "string list"

definition refuse :: "calc_refusal_reason \<Rightarrow> string \<Rightarrow> 'r calc" where
  "refuse r d = CalcRefused \<lparr>cr_reason = r, cr_detail = d\<rparr>"

definition round2 :: "pydec \<Rightarrow> pydec option" where
  "round2 v = dec_quantize2 v"

definition input_ref :: "string \<Rightarrow> quantity_input \<Rightarrow> str_dict" where
  "input_ref role item =
    [(''role'', role), (''input_id'', qi_input_id item),
     (''fuel_grade'', fuel_grade_value (qi_fuel_grade item)),
     (''unit'', quantity_unit_value (qi_unit item)), (''value'', dec_str (qi_value item)),
     (''revision'', qi_revision item), (''period_start'', isoformat (qi_period_start item)),
     (''period_end'', isoformat (qi_period_end item))]"

section \<open>Fuel variance\<close>

record fuel_variance_result =
  fv_fuel_grade :: fuel_grade
  fv_unit :: quantity_unit
  fv_period_start :: instant
  fv_period_end :: instant
  fv_actual_unrounded :: pydec
  fv_planned_unrounded :: pydec
  fv_delta_unrounded :: pydec
  fv_delta :: pydec
  fv_percent_unrounded :: "pydec option"
  fv_percent :: "pydec option"
  fv_percent_reason :: "string option"
  fv_receipt :: calculation_receipt

definition opt_str :: "pydec option \<Rightarrow> json" where
  "opt_str v = (case v of None \<Rightarrow> JNull | Some d \<Rightarrow> JStr (dec_str d))"

definition fuel_variance_to_dict :: "fuel_variance_result \<Rightarrow> (string \<times> json) list" where
  "fuel_variance_to_dict r =
    [(''function'', JStr ''fuel_variance''),
     (''fuel_grade'', JStr (fuel_grade_value (fv_fuel_grade r))),
     (''unit'', JStr (quantity_unit_value (fv_unit r))),
     (''period_start'', JStr (isoformat (fv_period_start r))),
     (''period_end'', JStr (isoformat (fv_period_end r))),
     (''actual'', JStr (dec_str (fv_actual_unrounded r))),
     (''planned'', JStr (dec_str (fv_planned_unrounded r))),
     (''delta_unrounded'', JStr (dec_str (fv_delta_unrounded r))),
     (''delta'', JStr (dec_str (fv_delta r))),
     (''percent_unrounded'', opt_str (fv_percent_unrounded r)),
     (''percent'', opt_str (fv_percent r)),
     (''percent_reason'', (case fv_percent_reason r of None \<Rightarrow> JNull | Some s \<Rightarrow> JStr s)),
     (''rounding'', JStr (rc_rounding (fv_receipt r))),
     (''formula_version'', JStr (rc_formula_version (fv_receipt r)))]"

text \<open>The unrounded percentage, and both rounded figures; \<open>None\<close> when the library raises.\<close>

definition variance_figures ::
  "pydec \<Rightarrow> pydec \<Rightarrow> (pydec \<times> pydec \<times> (pydec \<times> pydec) option) option" where
  "variance_figures actual planned =
    (let delta = dec_sub actual planned in
     if dec_is_zero planned then map_option (\<lambda>d. (delta, d, None)) (round2 delta)
     else
       case dec_div delta planned of
         None \<Rightarrow> None
       | Some ratio \<Rightarrow>
           let pu = dec_mul ratio dec_hundred in
           (case round2 pu of
              None \<Rightarrow> None
            | Some p \<Rightarrow> map_option (\<lambda>d. (delta, d, Some (pu, p))) (round2 delta)))"

definition fuel_variance ::
  "quantity_input \<Rightarrow> quantity_input option \<Rightarrow> bool \<Rightarrow> fuel_variance_result calc" where
  "fuel_variance actual planned_opt plan_superseded =
    (case planned_opt of
       None \<Rightarrow> refuse MISSING_INPUT ''no planned quantity for this grade''
     | Some planned \<Rightarrow>
        if plan_superseded then refuse STALE_PLAN ''planned revision has been superseded''
        else if qi_fuel_grade actual \<noteq> qi_fuel_grade planned then
          refuse GRADE_MISMATCH (''actual '' @ fuel_grade_value (qi_fuel_grade actual)
            @ '' vs planned '' @ fuel_grade_value (qi_fuel_grade planned))
        else if qi_unit actual \<noteq> qi_unit planned then
          refuse INCOMPATIBLE_BASIS (''actual '' @ quantity_unit_value (qi_unit actual)
            @ '' vs planned '' @ quantity_unit_value (qi_unit planned))
        else if (qi_period_start actual, qi_period_end actual)
             \<noteq> (qi_period_start planned, qi_period_end planned) then
          refuse INTERVAL_MISMATCH ''actual and planned intervals differ''
        else if dec_negative (qi_value actual) \<or> dec_negative (qi_value planned) then
          refuse NEGATIVE_QUANTITY ''fuel quantity cannot be negative''
        else
          (case variance_figures (qi_value actual) (qi_value planned) of
             None \<Rightarrow> CalcRaised
           | Some (delta_unrounded, delta, pct) \<Rightarrow>
               let reason = (if pct = None then Some ZERO_PLAN_BASE else None) in
               CalcResult \<lparr>fv_fuel_grade = qi_fuel_grade actual, fv_unit = qi_unit actual,
                 fv_period_start = qi_period_start actual, fv_period_end = qi_period_end actual,
                 fv_actual_unrounded = qi_value actual, fv_planned_unrounded = qi_value planned,
                 fv_delta_unrounded = delta_unrounded, fv_delta = delta,
                 fv_percent_unrounded = map_option fst pct, fv_percent = map_option snd pct,
                 fv_percent_reason = reason,
                 fv_receipt = \<lparr>rc_function = ''fuel_variance'',
                   rc_formula_version = CALCULATOR_VERSION, rc_rounding = ROUNDING,
                   rc_inputs = [input_ref ''actual'' actual, input_ref ''planned'' planned],
                   rc_assumptions = (if reason = None then [] else [ZERO_PLAN_BASE]),
                   rc_exclusions = []\<rparr>\<rparr>))"

section \<open>Planned/actual delta\<close>

record delta_result =
  dr_basis :: string
  dr_unit :: quantity_unit
  dr_delta_unrounded :: pydec
  dr_delta :: pydec
  dr_receipt :: calculation_receipt

definition delta_to_dict :: "delta_result \<Rightarrow> (string \<times> json) list" where
  "delta_to_dict r =
    [(''function'', JStr ''planned_actual_delta''), (''basis'', JStr (dr_basis r)),
     (''unit'', JStr (quantity_unit_value (dr_unit r))),
     (''delta_unrounded'', JStr (dec_str (dr_delta_unrounded r))),
     (''delta'', JStr (dec_str (dr_delta r))),
     (''rounding'', JStr (rc_rounding (dr_receipt r))),
     (''formula_version'', JStr (rc_formula_version (dr_receipt r)))]"

definition planned_actual_delta ::
  "quantity_input \<Rightarrow> quantity_input \<Rightarrow> string \<Rightarrow> string \<Rightarrow> delta_result calc" where
  "planned_actual_delta planned actual planned_basis actual_basis =
    (if planned_basis \<noteq> actual_basis then
       refuse EVENT_MEANING_DIFFERS (''planned basis '' @ repr_str planned_basis
         @ '' vs actual basis '' @ repr_str actual_basis)
     else if qi_unit planned \<noteq> qi_unit actual then
       refuse TIME_BASE_DIFFERS (''planned '' @ quantity_unit_value (qi_unit planned)
         @ '' vs actual '' @ quantity_unit_value (qi_unit actual))
     else
       let delta = dec_sub (qi_value actual) (qi_value planned) in
       case round2 delta of
         None \<Rightarrow> CalcRaised
       | Some d \<Rightarrow> CalcResult \<lparr>dr_basis = planned_basis, dr_unit = qi_unit planned,
           dr_delta_unrounded = delta, dr_delta = d,
           dr_receipt = \<lparr>rc_function = ''planned_actual_delta'',
             rc_formula_version = CALCULATOR_VERSION, rc_rounding = ROUNDING,
             rc_inputs = [input_ref ''planned'' planned, input_ref ''actual'' actual],
             rc_assumptions = [], rc_exclusions = []\<rparr>\<rparr>)"

section \<open>Reporting periods\<close>

record report_interval =
  ri_start :: instant
  ri_end :: instant

record period_reconcile_result =
  pr_covered :: "report_interval list"
  pr_receipt :: calculation_receipt

definition interval_key :: "report_interval \<Rightarrow> instant \<times> instant" where
  "interval_key i = (ri_start i, ri_end i)"

text \<open>The pairwise check over neighbours of the sorted list.\<close>

fun overlaps_neighbour :: "report_interval list \<Rightarrow> bool" where
  "overlaps_neighbour (a # b # rest) \<longleftrightarrow> ri_start b < ri_end a \<or> overlaps_neighbour (b # rest)"
| "overlaps_neighbour _ \<longleftrightarrow> False"

definition report_period_reconcile :: "report_interval list \<Rightarrow> period_reconcile_result calc" where
  "report_period_reconcile intervals =
    (if intervals = [] then refuse MISSING_INPUT ''no reporting intervals supplied''
     else if list_ex (\<lambda>i. ri_end i \<le> ri_start i) intervals then
       refuse UNRESOLVED_REVISION ''non-positive interval''
     else
       let ordered = sort_key interval_key intervals in
       if overlaps_neighbour ordered then
         refuse OVERLAPPING_INTERVALS ''reporting intervals overlap''
       else CalcResult \<lparr>pr_covered = ordered,
         pr_receipt = \<lparr>rc_function = ''report_period_reconcile'',
           rc_formula_version = CALCULATOR_VERSION, rc_rounding = ROUNDING,
           rc_inputs = map (\<lambda>i. [(''period_start'', isoformat (ri_start i)),
             (''period_end'', isoformat (ri_end i))]) ordered,
           rc_assumptions = [], rc_exclusions = []\<rparr>\<rparr>)"

section \<open>Fleet summary\<close>

record vessel_grade_result =
  vg_vessel_ref :: string
  vg_fuel_grade :: fuel_grade
  vg_unit :: quantity_unit
  vg_value :: pydec

record grade_total =
  gt_fuel_grade :: fuel_grade
  gt_unit :: quantity_unit
  gt_total :: pydec

record fleet_summary_result =
  fs_expected_vessels :: int
  fs_covered_vessels :: int
  fs_grade_totals :: "grade_total list"
  fs_excluded :: "string list"
  fs_receipt :: calculation_receipt

type_synonym grade_unit = "fuel_grade \<times> quantity_unit"

text \<open>\<open>by_key\<close>: a dict in insertion order, summed with \<open>get(key, Decimal("0")) + value\<close>.\<close>

definition add_row ::
  "(grade_unit \<times> pydec) list \<Rightarrow> vessel_grade_result \<Rightarrow> (grade_unit \<times> pydec) list" where
  "add_row by_key row =
    (let key = (vg_fuel_grade row, vg_unit row) in
     AList.update key
       (dec_add (case map_of by_key key of None \<Rightarrow> dec_zero | Some d \<Rightarrow> d) (vg_value row)) by_key)"

definition sum_by_key :: "vessel_grade_result list \<Rightarrow> (grade_unit \<times> pydec) list" where
  "sum_by_key rows = foldl add_row [] rows"

definition units_of_grade :: "vessel_grade_result list \<Rightarrow> fuel_grade \<Rightarrow> quantity_unit set" where
  "units_of_grade rows g = vg_unit ` set (filter (\<lambda>r. vg_fuel_grade r = g) rows)"

definition excluded_grades :: "vessel_grade_result list \<Rightarrow> string list" where
  "excluded_grades rows =
    sort (map fuel_grade_value
      (filter (\<lambda>g. 1 < card (units_of_grade rows g)) (remdups (map vg_fuel_grade rows))))"

definition fleet_summary :: "vessel_grade_result list \<Rightarrow> int \<Rightarrow> fleet_summary_result" where
  "fleet_summary rows expected_vessels =
    (let by_key = sum_by_key rows; excluded = excluded_grades rows;
         totals = map (\<lambda>((g, u), t). \<lparr>gt_fuel_grade = g, gt_unit = u, gt_total = t\<rparr>)
           (filter (\<lambda>((g, u), t). fuel_grade_value g \<notin> set excluded)
             (sort_key (\<lambda>((g, u), t). (fuel_grade_value g, quantity_unit_value u)) by_key))
     in \<lparr>fs_expected_vessels = expected_vessels,
         fs_covered_vessels = int (card (vg_vessel_ref ` set rows)),
         fs_grade_totals = totals, fs_excluded = excluded,
         fs_receipt = \<lparr>rc_function = ''fleet_summary'', rc_formula_version = CALCULATOR_VERSION,
           rc_rounding = ROUNDING,
           rc_inputs = map (\<lambda>r. [(''vessel_ref'', vg_vessel_ref r),
             (''fuel_grade'', fuel_grade_value (vg_fuel_grade r)),
             (''unit'', quantity_unit_value (vg_unit r)), (''value'', dec_str (vg_value r))]) rows,
           rc_assumptions = [], rc_exclusions = excluded\<rparr>\<rparr>)"

definition is_complete :: "fleet_summary_result \<Rightarrow> bool" where
  "is_complete s \<longleftrightarrow> fs_expected_vessels s \<le> fs_covered_vessels s \<and> fs_excluded s = []"

definition missing_vessels :: "fleet_summary_result \<Rightarrow> int" where
  "missing_vessels s = max (fs_expected_vessels s - fs_covered_vessels s) 0"

definition fleet_summary_to_dict :: "fleet_summary_result \<Rightarrow> (string \<times> json) list" where
  "fleet_summary_to_dict s =
    [(''function'', JStr ''fleet_summary''), (''expected_vessels'', JInt (fs_expected_vessels s)),
     (''covered_vessels'', JInt (fs_covered_vessels s)),
     (''missing_vessels'', JInt (missing_vessels s)), (''is_complete'', JBool (is_complete s)),
     (''grade_totals'', JList (map (\<lambda>g. JObj
       [(''fuel_grade'', JStr (fuel_grade_value (gt_fuel_grade g))),
        (''unit'', JStr (quantity_unit_value (gt_unit g))), (''total'', JStr (dec_str (gt_total g)))])
       (fs_grade_totals s))),
     (''excluded_grade_unit_pairs'', JList (map JStr (fs_excluded s))),
     (''formula_version'', JStr (rc_formula_version (fs_receipt s)))]"

end
