(* ===== verification/Contract.thy ===== *)
theory Contract
  imports PyDecimal_Facts PyValues Enums
begin

text \<open>
  The \<open>fleet_reconciliation_v1\<close> data contract
  (\<open>packages/shared/eastmed_shared/reconciliation/contract.py\<close>): validation and normalisation
  of one decoded record. The internal \<open>_RejectionSignal\<close> exception is the left summand of
  \<open>rejection + 'a\<close>. \<open>datetime.fromisoformat\<close> is the parameter \<open>fromiso\<close> (\<open>None\<close> when it
  raises \<open>ValueError\<close>).
\<close>

section \<open>Data\<close>

definition CONTRACT_VERSION :: string where
  "CONTRACT_VERSION = ''fleet_reconciliation_v1''"

definition NORMALIZATION_VERSION :: string where
  "NORMALIZATION_VERSION = ''fuel_units_v1''"

definition MAX_DECIMAL_PLACES :: int where "MAX_DECIMAL_PLACES = 6"

definition MAX_ABS_QUANTITY :: pydec where
  "MAX_ABS_QUANTITY = \<lparr>dsign = False, dcoef = 1000000000, dexp = 0\<rparr>"

datatype rejection_reason =
    MALFORMED_RECORD
  | UNKNOWN_SCHEMA_VERSION
  | UNKNOWN_RECORD_KIND
  | MISSING_REQUIRED_FIELD
  | INVALID_TIMESTAMP
  | AMBIGUOUS_TIMESTAMP
  | INTERVAL_ORDER_INVALID
  | EMPTY_ITEMS
  | DUPLICATE_ITEM_KEY
  | UNKNOWN_FUEL_GRADE
  | UNSUPPORTED_UNIT
  | ABSENT_QUANTITY
  | INVALID_QUANTITY
  | PRECISION_EXCEEDED
  | RANGE_EXCEEDED
  | INVALID_AUTHORITY_ROLE

record normalized_timestamp =
  nt_utc :: instant
  nt_original :: string

record normalized_observation =
  no_field :: string
  no_item_key :: string
  no_fuel_grade :: fuel_grade
  no_value :: pydec
  no_unit :: quantity_unit
  no_origin :: value_origin
  no_period_start :: normalized_timestamp
  no_period_end :: normalized_timestamp
  no_source_pointer :: string
  no_normalization_version :: string

record normalized_record =
  nr_schema_version :: string
  nr_record_kind :: record_kind
  nr_source_system :: string
  nr_external_ref :: string
  nr_source_revision :: string
  nr_vessel_ref :: string
  nr_recorded_at :: normalized_timestamp
  nr_voyage_ref :: "string option"
  nr_plan_revision :: "string option"
  nr_authority_role :: "authority_role option"
  nr_interval_start :: "normalized_timestamp option"
  nr_interval_end :: "normalized_timestamp option"
  nr_observations :: "normalized_observation list"

record rejection =
  rj_reason :: rejection_reason
  rj_detail :: string
  rj_field :: "string option"

type_synonym obj = "(string \<times> json) list"
type_synonym isoparser = "string \<Rightarrow> pydatetime option"

section \<open>Field validators\<close>

definition reject :: "rejection_reason \<Rightarrow> string \<Rightarrow> string \<Rightarrow> rejection + 'a" where
  "reject reason detail field = Inl \<lparr>rj_reason = reason, rj_detail = detail, rj_field = Some field\<rparr>"

definition required_str :: "obj \<Rightarrow> string \<Rightarrow> rejection + string" where
  "required_str payload key =
    (case obj_get payload key of
       JStr v \<Rightarrow> if py_strip v = [] then reject MISSING_REQUIRED_FIELD (key @ '' is required'') key
                else Inr (py_strip v)
     | _ \<Rightarrow> reject MISSING_REQUIRED_FIELD (key @ '' is required'') key)"

definition timestamp :: "isoparser \<Rightarrow> obj \<Rightarrow> string \<Rightarrow> rejection + normalized_timestamp" where
  "timestamp fromiso payload key =
    ebind (required_str payload key) (\<lambda>text.
      case fromiso text of
        None \<Rightarrow> reject INVALID_TIMESTAMP (key @ '' is not RFC 3339'') key
      | Some (Naive _) \<Rightarrow> reject AMBIGUOUS_TIMESTAMP (key @ '' has no UTC offset'') key
      | Some (Aware t) \<Rightarrow> Inr \<lparr>nt_utc = t, nt_original = text\<rparr>)"

definition interval ::
  "normalized_timestamp \<Rightarrow> normalized_timestamp \<Rightarrow> string \<Rightarrow>
    rejection + (normalized_timestamp \<times> normalized_timestamp)" where
  "interval s e field =
    (if nt_utc e \<le> nt_utc s
     then reject INTERVAL_ORDER_INVALID (field @ '' end must be after its start'') field
     else Inr (s, e))"

definition enum_value ::
  "'e list \<Rightarrow> ('e \<Rightarrow> string) \<Rightarrow> json \<Rightarrow> rejection_reason \<Rightarrow> string \<Rightarrow> rejection + 'e" where
  "enum_value members val raw reason key =
    (case (case raw of JStr s \<Rightarrow> enum_parse members val s | _ \<Rightarrow> None) of
       Some e \<Rightarrow> Inr e
     | None \<Rightarrow> reject reason (''unsupported '' @ key @ '': '' @ py_repr raw) key)"

definition dec_abs :: "pydec \<Rightarrow> pydec" where
  "dec_abs a = dec_fix (a\<lparr>dsign := False\<rparr>)"

definition quantity :: "json \<Rightarrow> string \<Rightarrow> rejection + pydec" where
  "quantity raw pointer =
    (case raw of
       JNull \<Rightarrow> reject ABSENT_QUANTITY (pointer @ '' has no quantity'') pointer
     | JStr s \<Rightarrow>
        if py_strip s = [] then reject ABSENT_QUANTITY (pointer @ '' has no quantity'') pointer
        else (case parse_decimal (py_strip s) of
           None \<Rightarrow> reject INVALID_QUANTITY (pointer @ '' is not a decimal'') pointer
         | Some (Finite v) \<Rightarrow>
             if - dexp v > MAX_DECIMAL_PLACES then
               reject PRECISION_EXCEEDED (pointer @ '' exceeds '' @ str_int MAX_DECIMAL_PLACES
                 @ '' decimal places'') pointer
             else if dec_lt MAX_ABS_QUANTITY (dec_abs v) then
               reject RANGE_EXCEEDED (pointer @ '' is out of range'') pointer
             else Inr v
         | Some _ \<Rightarrow> reject INVALID_QUANTITY (pointer @ '' is not finite'') pointer)
     | _ \<Rightarrow> reject INVALID_QUANTITY
         (pointer @ '' quantity must be a decimal string, not '' @ type_name raw) pointer)"

section \<open>Observations\<close>

type_synonym period = "normalized_timestamp \<times> normalized_timestamp"

text \<open>One pass of the loop body: the item at \<open>index\<close>, given the keys already seen.\<close>

definition observation_of ::
  "isoparser \<Rightarrow> string \<Rightarrow> period option \<Rightarrow> nat \<Rightarrow> string set \<Rightarrow> json \<Rightarrow>
    rejection + normalized_observation" where
  "observation_of fromiso field_name report_period index seen item =
    (let pointer = ''/items/'' @ digits_of index in
     case item of
       JObj obj \<Rightarrow>
         ebind (required_str obj ''item_key'') (\<lambda>item_key.
         if item_key \<in> seen
         then reject DUPLICATE_ITEM_KEY (pointer @ '' repeats item_key '' @ repr_str item_key) pointer
         else
           ebind (enum_value fuel_grade_members fuel_grade_value (obj_get obj ''fuel_grade'')
             UNKNOWN_FUEL_GRADE ''fuel_grade'') (\<lambda>grade.
           ebind (enum_value quantity_unit_members quantity_unit_value (obj_get obj ''unit'')
             UNSUPPORTED_UNIT ''unit'') (\<lambda>unit.
           ebind (quantity (obj_get obj ''quantity'') pointer) (\<lambda>value.
           ebind (case report_period of
               Some p \<Rightarrow> Inr p
             | None \<Rightarrow>
                 ebind (timestamp fromiso obj ''period_start'') (\<lambda>s.
                 ebind (timestamp fromiso obj ''period_end'') (\<lambda>e.
                   interval s e (pointer @ ''/period'')))) (\<lambda>period.
           Inr \<lparr>no_field = field_name, no_item_key = item_key, no_fuel_grade = grade,
             no_value = value, no_unit = unit, no_origin = VO_REPORTED,
             no_period_start = fst period, no_period_end = snd period,
             no_source_pointer = (case obj_get obj ''source_pointer'' of JStr p \<Rightarrow> p | _ \<Rightarrow> pointer),
             no_normalization_version = NORMALIZATION_VERSION\<rparr>)))))
     | _ \<Rightarrow> reject MALFORMED_RECORD (pointer @ '' is not an object'') pointer)"

fun observation_loop ::
  "isoparser \<Rightarrow> string \<Rightarrow> period option \<Rightarrow> nat \<Rightarrow> string set \<Rightarrow> json list \<Rightarrow>
    rejection + normalized_observation list" where
  "observation_loop fromiso field_name period index seen [] = Inr []"
| "observation_loop fromiso field_name period index seen (item # items) =
    ebind (observation_of fromiso field_name period index seen item) (\<lambda>obs.
    ebind (observation_loop fromiso field_name period (Suc index)
        (insert (no_item_key obs) seen) items) (\<lambda>rest.
    Inr (obs # rest)))"

definition observations ::
  "isoparser \<Rightarrow> obj \<Rightarrow> string \<Rightarrow> period option \<Rightarrow> rejection + normalized_observation list" where
  "observations fromiso payload field_name report_period =
    (case obj_get payload ''items'' of
       JList (x # xs) \<Rightarrow> observation_loop fromiso field_name report_period 0 {} (x # xs)
     | _ \<Rightarrow> reject EMPTY_ITEMS ''at least one item is required'' ''items'')"

section \<open>Records\<close>

definition validate :: "isoparser \<Rightarrow> obj \<Rightarrow> rejection + normalized_record" where
  "validate fromiso payload =
    ebind (required_str payload ''schema_version'') (\<lambda>schema_version.
    if schema_version \<noteq> CONTRACT_VERSION
    then reject UNKNOWN_SCHEMA_VERSION
      (''schema_version '' @ repr_str schema_version @ '' is not '' @ repr_str CONTRACT_VERSION)
      ''schema_version''
    else
    ebind (enum_value record_kind_members record_kind_value (obj_get payload ''record_kind'')
      UNKNOWN_RECORD_KIND ''record_kind'') (\<lambda>kind.
    ebind (required_str payload ''source_system'') (\<lambda>source_system.
    ebind (required_str payload ''external_ref'') (\<lambda>external_ref.
    ebind (required_str payload ''source_revision'') (\<lambda>source_revision.
    ebind (required_str payload ''vessel_ref'') (\<lambda>vessel_ref.
    ebind (timestamp fromiso payload ''recorded_at'') (\<lambda>recorded_at.
    let base = \<lparr>nr_schema_version = schema_version, nr_record_kind = kind,
      nr_source_system = source_system, nr_external_ref = external_ref,
      nr_source_revision = source_revision, nr_vessel_ref = vessel_ref,
      nr_recorded_at = recorded_at, nr_voyage_ref = None, nr_plan_revision = None,
      nr_authority_role = None, nr_interval_start = None, nr_interval_end = None,
      nr_observations = []\<rparr> in
    case kind of
      RK_FLEET_MEMBERSHIP \<Rightarrow>
        ebind (enum_value authority_role_members authority_role_value
          (obj_get payload ''authority_role'') INVALID_AUTHORITY_ROLE ''authority_role'') (\<lambda>role.
        ebind (timestamp fromiso payload ''valid_from'') (\<lambda>s0.
        ebind (timestamp fromiso payload ''valid_to'') (\<lambda>e0.
        ebind (interval s0 e0 ''validity'') (\<lambda>(s, e).
        Inr (base\<lparr>nr_authority_role := Some role, nr_interval_start := Some s,
          nr_interval_end := Some e\<rparr>)))))
    | RK_VOYAGE_PLAN \<Rightarrow>
        ebind (required_str payload ''voyage_ref'') (\<lambda>voyage_ref.
        ebind (required_str payload ''plan_revision'') (\<lambda>plan_revision.
        ebind (timestamp fromiso payload ''effective_from'') (\<lambda>s0.
        ebind (timestamp fromiso payload ''effective_to'') (\<lambda>e0.
        ebind (interval s0 e0 ''effective'') (\<lambda>(s, e).
        ebind (observations fromiso payload ''fuel_planned'' None) (\<lambda>obs.
        Inr (base\<lparr>nr_voyage_ref := Some voyage_ref, nr_plan_revision := Some plan_revision,
          nr_interval_start := Some s, nr_interval_end := Some e, nr_observations := obs\<rparr>)))))))
    | RK_DAILY_REPORT \<Rightarrow>
        ebind (required_str payload ''voyage_ref'') (\<lambda>voyage_ref.
        ebind (timestamp fromiso payload ''period_start'') (\<lambda>s0.
        ebind (timestamp fromiso payload ''period_end'') (\<lambda>e0.
        ebind (interval s0 e0 ''reporting_period'') (\<lambda>(s, e).
        ebind (observations fromiso payload ''fuel_consumed'' (Some (s, e))) (\<lambda>obs.
        Inr (base\<lparr>nr_voyage_ref := Some voyage_ref, nr_interval_start := Some s,
          nr_interval_end := Some e, nr_observations := obs\<rparr>)))))))))))))"

text \<open>\<open>validate_record\<close>: a non-mapping payload raises \<open>TypeError\<close>.\<close>

datatype validation = Accepted normalized_record | Rejected rejection | RaisedTypeError

definition validate_record :: "isoparser \<Rightarrow> json \<Rightarrow> validation" where
  "validate_record fromiso payload =
    (case payload of
       JObj obj \<Rightarrow> (case validate fromiso obj of Inl r \<Rightarrow> Rejected r | Inr n \<Rightarrow> Accepted n)
     | _ \<Rightarrow> RaisedTypeError)"

section \<open>What an accepted record satisfies\<close>

definition within_bounds :: "pydec \<Rightarrow> bool" where
  "within_bounds v \<longleftrightarrow> - dexp v \<le> MAX_DECIMAL_PLACES \<and> \<not> dec_lt MAX_ABS_QUANTITY (dec_abs v)"

definition clean :: "string \<Rightarrow> bool" where
  "clean s \<longleftrightarrow> s \<noteq> [] \<and> py_strip s = s"

definition observation_ok :: "string \<Rightarrow> normalized_observation \<Rightarrow> bool" where
  "observation_ok field ob \<longleftrightarrow>
    no_field ob = field \<and> clean (no_item_key ob) \<and> within_bounds (no_value ob) \<and>
    no_origin ob = VO_REPORTED \<and> nt_utc (no_period_start ob) < nt_utc (no_period_end ob)"

definition interval_ok :: "normalized_record \<Rightarrow> bool" where
  "interval_ok r \<longleftrightarrow> (\<exists>s e. nr_interval_start r = Some s \<and> nr_interval_end r = Some e \<and> nt_utc s < nt_utc e)"

definition identity_ok :: "normalized_record \<Rightarrow> bool" where
  "identity_ok r \<longleftrightarrow> nr_schema_version r = CONTRACT_VERSION \<and> clean (nr_source_system r) \<and>
    clean (nr_external_ref r) \<and> clean (nr_source_revision r) \<and> clean (nr_vessel_ref r)"

definition observations_ok :: "string \<Rightarrow> normalized_record \<Rightarrow> bool" where
  "observations_ok field r \<longleftrightarrow> nr_observations r \<noteq> [] \<and>
    distinct (map no_item_key (nr_observations r)) \<and> list_all (observation_ok field) (nr_observations r)"

definition record_ok :: "normalized_record \<Rightarrow> bool" where
  "record_ok r \<longleftrightarrow> identity_ok r \<and> interval_ok r \<and>
    (case nr_record_kind r of
       RK_FLEET_MEMBERSHIP \<Rightarrow> nr_authority_role r \<noteq> None \<and> nr_observations r = []
     | RK_VOYAGE_PLAN \<Rightarrow> nr_voyage_ref r \<noteq> None \<and> nr_plan_revision r \<noteq> None \<and>
         observations_ok ''fuel_planned'' r
     | RK_DAILY_REPORT \<Rightarrow> nr_voyage_ref r \<noteq> None \<and> observations_ok ''fuel_consumed'' r \<and>
         (\<forall>ob \<in> set (nr_observations r).
           nr_interval_start r = Some (no_period_start ob) \<and> nr_interval_end r = Some (no_period_end ob)))"

lemma reject_not_Inr [simp]: "reject a b c \<noteq> Inr x" "Inr x \<noteq> reject a b c"
  by (simp_all add: reject_def)

lemma required_str_Inr: "required_str p k = Inr s \<Longrightarrow> clean s"
  by (auto simp: required_str_def clean_def split: json.splits if_splits)

lemma interval_Inr: "interval s e f = Inr p \<longleftrightarrow> p = (s, e) \<and> nt_utc s < nt_utc e"
  by (auto simp: interval_def)

lemma quantity_Inr:
  "quantity raw ptr = Inr v \<Longrightarrow>
    within_bounds v \<and> (\<exists>s. raw = JStr s \<and> py_strip s \<noteq> [] \<and> parse_decimal (py_strip s) = Some (Finite v))"
  by (auto simp: quantity_def within_bounds_def split: if_splits json.splits option.splits decimal.splits)

lemma observation_of_Inr:
  assumes "observation_of fromiso f per i seen item = Inr ob"
    and "\<And>s e. per = Some (s, e) \<Longrightarrow> nt_utc s < nt_utc e"
  shows "observation_ok f ob \<and> no_item_key ob \<notin> seen \<and>
    (\<forall>p. per = Some p \<longrightarrow> no_period_start ob = fst p \<and> no_period_end ob = snd p)"
  using assms
  by (auto simp: observation_of_def Let_def ebind_Inr observation_ok_def interval_Inr
      dest: required_str_Inr quantity_Inr split: json.splits option.splits if_splits)

lemma observation_loop_Inr:
  assumes "observation_loop fromiso f per i seen items = Inr obs"
    and "\<And>s e. per = Some (s, e) \<Longrightarrow> nt_utc s < nt_utc e"
  shows "length obs = length items \<and> distinct (map no_item_key obs) \<and>
    list_all (\<lambda>ob. observation_ok f ob \<and> no_item_key ob \<notin> seen \<and>
      (\<forall>p. per = Some p \<longrightarrow> no_period_start ob = fst p \<and> no_period_end ob = snd p)) obs"
  using assms(1)
proof (induction items arbitrary: i seen obs)
  case Nil
  then show ?case by simp
next
  case (Cons item items)
  then obtain ob rest where ob: "observation_of fromiso f per i seen item = Inr ob"
    and rest: "observation_loop fromiso f per (Suc i) (insert (no_item_key ob) seen) items = Inr rest"
    and obs: "obs = ob # rest"
    by (auto simp: ebind_Inr)
  from Cons.IH [OF rest] observation_of_Inr [OF ob assms(2)]
  show ?case by (auto simp: obs list_all_iff)
qed

lemma observations_Inr:
  assumes "observations fromiso p f per = Inr obs"
    and "\<And>s e. per = Some (s, e) \<Longrightarrow> nt_utc s < nt_utc e"
  shows "obs \<noteq> [] \<and> distinct (map no_item_key obs) \<and> list_all (observation_ok f) obs \<and>
    (\<forall>q. per = Some q \<longrightarrow> (\<forall>ob \<in> set obs. no_period_start ob = fst q \<and> no_period_end ob = snd q))"
proof -
  from assms(1) obtain x xs where "observation_loop fromiso f per 0 {} (x # xs) = Inr obs"
    by (auto simp: observations_def split: json.splits list.splits)
  from observation_loop_Inr [OF this assms(2)] show ?thesis by (auto simp: list_all_iff)
qed

lemma validate_Inr:
  assumes "validate fromiso p = Inr r"
  shows "record_ok r"
proof -
  have "identity_ok r \<and> interval_ok r \<and> (\<exists>kind. nr_record_kind r = kind)"
    using assms
    by (auto simp: validate_def ebind_Inr Let_def identity_ok_def interval_ok_def interval_Inr
        dest!: required_str_Inr split: if_splits record_kind.split_asm)
      (use record_kind.exhaust in blast)+
  moreover from assms have "case nr_record_kind r of
       RK_FLEET_MEMBERSHIP \<Rightarrow> nr_authority_role r \<noteq> None \<and> nr_observations r = []
     | RK_VOYAGE_PLAN \<Rightarrow> nr_voyage_ref r \<noteq> None \<and> nr_plan_revision r \<noteq> None \<and>
         observations_ok ''fuel_planned'' r
     | RK_DAILY_REPORT \<Rightarrow> nr_voyage_ref r \<noteq> None \<and> observations_ok ''fuel_consumed'' r \<and>
         (\<forall>ob \<in> set (nr_observations r).
           nr_interval_start r = Some (no_period_start ob) \<and> nr_interval_end r = Some (no_period_end ob))"
    by (auto simp: validate_def ebind_Inr Let_def interval_Inr observations_ok_def
        dest!: observations_Inr split: if_splits record_kind.split_asm)
      (use record_kind.exhaust in blast)+
  ultimately show ?thesis by (simp add: record_ok_def)
qed

lemma within_bounds_value: "within_bounds v \<Longrightarrow> fits v \<Longrightarrow> \<bar>dec_val v\<bar> \<le> 10 ^ 9"
proof -
  assume "within_bounds v" and "fits v"
  then have "\<not> dec_val MAX_ABS_QUANTITY < dec_val (v\<lparr>dsign := False\<rparr>)"
    by (simp add: within_bounds_def dec_lt_val dec_abs_def fits_def)
  moreover have "dec_val (v\<lparr>dsign := False\<rparr>) = \<bar>dec_val v\<bar>"
    by (simp add: dec_val_def signed_def abs_mult)
  moreover have "dec_val MAX_ABS_QUANTITY = 10 ^ 9"
    by (simp add: MAX_ABS_QUANTITY_def dec_val_def signed_def)
  ultimately show ?thesis by linarith
qed

section \<open>Properties\<close>

text \<open>C37: every record \<open>validate_record\<close> accepts satisfies the contract: the declared version,
  non-blank stripped identity fields, an interval whose end is after its start, and, for plans
  and daily reports, a non-empty list of observations with distinct item keys, quantities
  inside the declared bounds and ordered periods (a report's observations all carry the
  report's own period).\<close>

theorem validate_record_sound:
  "validate_record fromiso payload = Accepted r \<Longrightarrow> record_ok r"
  by (auto simp: validate_record_def split: json.splits sum.splits dest: validate_Inr)

definition sample_iso :: isoparser where
  "sample_iso s = (if s = ''T0'' then Some (Aware 0) else if s = ''T1'' then Some (Aware 86400000000)
    else if s = ''N'' then Some (Naive 0) else None)"

definition sample_report :: json where
  "sample_report = JObj [(''schema_version'', JStr ''fleet_reconciliation_v1''),
    (''record_kind'', JStr ''daily_report''), (''source_system'', JStr '' erp ''),
    (''external_ref'', JStr ''R1''), (''source_revision'', JStr ''1''), (''vessel_ref'', JStr ''V1''),
    (''recorded_at'', JStr ''T1''), (''voyage_ref'', JStr ''VOY''), (''period_start'', JStr ''T0''),
    (''period_end'', JStr ''T1''),
    (''items'', JList [JObj [(''item_key'', JStr ''a''), (''fuel_grade'', JStr ''VLSFO''),
      (''unit'', JStr ''tonne''), (''quantity'', JStr ''10.50'')]])]"

lemma sample_report_accepted: "\<exists>r. validate_record sample_iso sample_report = Accepted r"
proof -
  have "case validate_record sample_iso sample_report of Accepted r \<Rightarrow> True | _ \<Rightarrow> False"
    by code_simp
  then show ?thesis by (auto split: validation.splits)
qed

theorem validate_record_sound_witness:
  "\<exists>r. validate_record sample_iso sample_report = Accepted r \<and> record_ok r"
  using sample_report_accepted validate_record_sound by blast

text \<open>an absent quantity is never read as zero: a missing, null or blank quantity is
  rejected as \<open>ABSENT_QUANTITY\<close>, a JSON number, boolean, list or object as
  \<open>INVALID_QUANTITY\<close>, and only a decimal string in bounds is accepted.\<close>

theorem quantity_total:
  "(case raw of
      JNull \<Rightarrow> quantity raw ptr = reject ABSENT_QUANTITY (ptr @ '' has no quantity'') ptr
    | JStr s \<Rightarrow> (py_strip s = [] \<longrightarrow>
          quantity raw ptr = reject ABSENT_QUANTITY (ptr @ '' has no quantity'') ptr)
        \<and> (\<forall>v. quantity raw ptr = Inr v \<longrightarrow>
            py_strip s \<noteq> [] \<and> parse_decimal (py_strip s) = Some (Finite v) \<and> within_bounds v)
    | _ \<Rightarrow> \<exists>d. quantity raw ptr = reject INVALID_QUANTITY d ptr)"
  using quantity_Inr [of raw ptr] by (auto simp: quantity_def split: json.splits)

theorem quantity_total_witness:
  "quantity (JStr ''  '') ''/items/0'' = reject ABSENT_QUANTITY ''/items/0 has no quantity'' ''/items/0''"
proof -
  have "py_strip ''  '' = []" by code_simp
  then show ?thesis using quantity_total [of "JStr ''  ''" "''/items/0''"] by simp
qed

text \<open>precision is preserved: the printed form of any in-bounds decimal is accepted and
  read back as exactly the same sign, coefficient and exponent.\<close>

theorem quantity_roundtrip:
  assumes "within_bounds v"
  shows "quantity (JStr (dec_str v)) ptr = Inr v"
proof -
  have "py_strip (dec_str v) = dec_str v" using dec_str_plain by (auto intro: py_strip_id)
  moreover have "dec_str v \<noteq> []"
    using dec_str_body_hd [OF digits_of_all_digits digits_of_nonempty] by (auto simp: dec_str_def)
  ultimately show ?thesis
    using assms by (simp add: quantity_def parse_dec_str within_bounds_def)
qed

theorem quantity_roundtrip_witness:
  "quantity (JStr (dec_str \<lparr>dsign = True, dcoef = 1050, dexp = -2\<rparr>)) ''p'' =
    Inr \<lparr>dsign = True, dcoef = 1050, dexp = -2\<rparr>"
  by (rule quantity_roundtrip)
    (simp add: within_bounds_def MAX_DECIMAL_PLACES_def MAX_ABS_QUANTITY_def dec_abs_def dec_fix_def
      ndigits_def digits_of_eval PREC_def dec_lt_def dec_cmp_def scale_to_def signed_def)

end
