(* ===== verification/Calculator_Facts.thy ===== *)
theory Calculator_Facts
  imports Calculator Contract "HOL-Library.Multiset"
begin

text \<open>
  What the calculator promises for quantities the contract accepts: it never raises, its deltas
  and totals are exact, displayed figures are within half a cent, periods are reconciled
  independently of arrival order, and fleet totals never mix grades or units.
\<close>

section \<open>Decimals within the contract's bounds\<close>

lemma powi_micro: "(10::rat) powi (-6) = 1 / 10 ^ 6"
  by (simp add: power_int_def power_divide)

lemma dec_val_hundred [simp]: "dec_val dec_hundred = 100"
  by (simp add: dec_hundred_def dec_val_def signed_def)

lemma not_fits_coef:
  assumes "\<not> fits a"
  shows "10 ^ 27 \<le> dcoef (dec_fix a) \<and> dexp a \<le> dexp (dec_fix a)"
proof -
  define n where "n = ndigits (dcoef a)"
  define k where "k = n - PREC"
  define q where "q = dcoef a div 10 ^ k"
  have big: "\<not> n \<le> PREC" using assms by (simp add: fits_def n_def)
  then have "\<not> dcoef a < 10 ^ (n - 1)"
    using ndigits_le_iff [of "n - 1" "dcoef a"] by (auto simp: n_def PREC_def)
  moreover have "n - 1 = 27 + k" using big by (simp add: k_def PREC_def)
  ultimately have "10 ^ 27 * 10 ^ k \<le> dcoef a" by (simp add: power_add)
  then have q: "10 ^ 27 \<le> q" by (simp add: q_def less_eq_div_iff_mult_less_eq)
  have c10: "10 ^ 27 \<le> c div 10" if "ndigits c > PREC" for c
  proof -
    have "\<not> c < 10 ^ 28" using that ndigits_le_iff [of 28 c] by (simp add: PREC_def)
    then show ?thesis by simp
  qed
  show ?thesis
    using big q c10 [of q] c10 [of "q + 1"]
    by (simp add: dec_fix_def Let_def flip: n_def k_def q_def)
qed

lemma within_bounds_fits: "within_bounds v \<Longrightarrow> fits v"
proof (rule ccontr)
  assume wb: "within_bounds v" and nf: "\<not> fits v"
  let ?w = "dec_fix (v\<lparr>dsign := False\<rparr>)"
  have "\<not> fits (v\<lparr>dsign := False\<rparr>)" using nf by (simp add: fits_def)
  then have c: "10 ^ 27 \<le> dcoef ?w" and e: "-6 \<le> dexp ?w"
    using not_fits_coef [of "v\<lparr>dsign := False\<rparr>"] wb
    by (auto simp: within_bounds_def MAX_DECIMAL_PLACES_def)
  have "(10::rat) ^ 27 \<le> of_nat (dcoef ?w)" using c by (metis of_nat_le_iff of_nat_numeral of_nat_power)
  moreover have "(10::rat) powi (-6) \<le> 10 powi dexp ?w" using e by (intro power_int_increasing) auto
  ultimately have "(10::rat) ^ 27 * 10 powi (-6) \<le> of_nat (dcoef ?w) * 10 powi dexp ?w"
    by (intro mult_mono) (simp_all add: less_imp_le)
  moreover have "(10::rat) ^ 27 * 10 powi (-6) = 10 ^ 21" by (simp add: powi_micro)
  moreover have "\<not> dsign ?w" by (simp add: dec_fix_def Let_def)
  then have "dec_val ?w = of_nat (dcoef ?w) * 10 powi dexp ?w" by (simp add: dec_val_def signed_def)
  moreover have "\<not> 10 ^ 9 < dec_val ?w"
    using wb by (simp add: within_bounds_def dec_lt_val dec_abs_def MAX_ABS_QUANTITY_def)
      (simp add: dec_val_def signed_def)
  ultimately show False by simp
qed

lemma within_bounds_abs: "within_bounds v \<Longrightarrow> \<bar>dec_val v\<bar> \<le> 10 ^ 9"
  by (rule within_bounds_value) (simp_all add: within_bounds_fits)

lemma within_bounds_exp: "within_bounds v \<Longrightarrow> -6 \<le> dexp v"
  by (simp add: within_bounds_def MAX_DECIMAL_PLACES_def)

lemma scale_bound:
  assumes "e \<le> dexp a" "-6 \<le> e" "\<bar>dec_val a\<bar> \<le> of_nat m"
  shows "\<bar>scale_to e a\<bar> \<le> int m * 10 ^ 6"
proof -
  have "\<bar>of_int (scale_to e a)\<bar> * (10::rat) powi e \<le> of_nat m"
    using assms(3) scale_val [OF assms(1)] by (simp add: abs_mult)
  moreover have "\<bar>of_int (scale_to e a)\<bar> * (10::rat) powi (-6) \<le> \<bar>of_int (scale_to e a)\<bar> * 10 powi e"
    using assms(2) by (intro mult_left_mono power_int_increasing) auto
  ultimately have "\<bar>of_int (scale_to e a)\<bar> * (10::rat) powi (-6) \<le> of_nat m" by linarith
  then have "\<bar>of_int (scale_to e a)\<bar> \<le> (of_nat m :: rat) * 10 ^ 6"
    by (simp add: powi_micro field_simps)
  then have "(of_int \<bar>scale_to e a\<bar> :: rat) \<le> of_int (int m * 10 ^ 6)" by simp
  then show ?thesis using of_int_le_iff by blast
qed

lemma bounded_sum_fits:
  assumes "-6 \<le> dexp a" "-6 \<le> dexp b" "\<bar>dec_val a\<bar> \<le> of_nat m" "\<bar>dec_val b\<bar> \<le> of_nat n"
    and "m + n \<le> 10 ^ 21"
  shows "sum_fits a b"
proof -
  define e where "e = min (dexp a) (dexp b)"
  have "\<bar>scale_to e a\<bar> \<le> int m * 10 ^ 6" using assms(1-3) by (intro scale_bound) (simp_all add: e_def)
  moreover have "\<bar>scale_to e b\<bar> \<le> int n * 10 ^ 6"
    using assms(1,2,4) by (intro scale_bound) (simp_all add: e_def)
  moreover have "int m * 10 ^ 6 + int n * 10 ^ 6 \<le> 10 ^ 27"
    using assms(5) by simp
  ultimately have "\<bar>scale_to e a + scale_to e b\<bar> \<le> 10 ^ 27" by linarith
  then show ?thesis by (simp add: sum_fits_def Let_def e_def PREC_def)
qed

lemma dec_add_exp:
  assumes "sum_fits a b"
  shows "dexp (dec_add a b) = min (dexp a) (dexp b)"
proof -
  define s where "s = scale_to (min (dexp a) (dexp b)) a + scale_to (min (dexp a) (dexp b)) b"
  have "nat \<bar>s\<bar> < 10 ^ PREC"
    using assms by (simp add: sum_fits_def s_def Let_def nat_less_iff)
  then have "ndigits (nat \<bar>s\<bar>) \<le> PREC" by (simp add: ndigits_le_iff PREC_def)
  then show ?thesis by (simp add: dec_add_def Let_def dec_fix_def flip: s_def)
qed

lemma within_bounds_sub:
  assumes "within_bounds a" "within_bounds b"
  shows "dec_val (dec_sub a b) = dec_val a - dec_val b"
    and "\<bar>dec_val (dec_sub a b)\<bar> \<le> 2 * 10 ^ 9"
proof -
  have "sum_fits a (dec_neg b)"
    using within_bounds_abs [OF assms(1)] within_bounds_abs [OF assms(2)]
      within_bounds_exp [OF assms(1)] within_bounds_exp [OF assms(2)]
    by (intro bounded_sum_fits [where m = "10 ^ 9" and n = "10 ^ 9"]) (simp_all, simp add: dec_neg_def)
  then show eq: "dec_val (dec_sub a b) = dec_val a - dec_val b" by (rule dec_sub_exact)
  show "\<bar>dec_val (dec_sub a b)\<bar> \<le> 2 * 10 ^ 9"
    using within_bounds_abs [OF assms(1)] within_bounds_abs [OF assms(2)] by (simp add: eq)
qed

lemma round2_defined:
  assumes "\<bar>dec_val a\<bar> < 10 ^ 25"
  shows "\<exists>r. round2 a = Some r"
proof (cases "dcoef a = 0")
  case True
  then show ?thesis by (simp add: round2_def dec_quantize2_def)
next
  case False
  have "\<bar>dec_val a\<bar> < 10 powi 25" using assms by simp
  from dec_val_le_digits [OF this False] show ?thesis
    unfolding round2_def by (rule quantize2_defined)
qed

lemma within_bounds_min:
  assumes "within_bounds b" "\<not> dec_is_zero b"
  shows "10 powi (-6) \<le> \<bar>dec_val b\<bar>"
proof -
  have "(1::rat) \<le> of_nat (dcoef b)" using assms(2) by (simp add: dec_is_zero_def)
  moreover have "(10::rat) powi (-6) \<le> 10 powi dexp b"
    using within_bounds_exp [OF assms(1)] by (intro power_int_increasing) auto
  ultimately have "1 * (10::rat) powi (-6) \<le> of_nat (dcoef b) * 10 powi dexp b"
    by (intro mult_mono) (simp_all add: less_imp_le)
  then show ?thesis by (simp add: dec_abs_val)
qed

lemma variance_figures_defined:
  assumes "within_bounds a" "within_bounds p"
  shows "\<exists>x. variance_figures a p = Some x"
proof -
  let ?delta = "dec_sub a p"
  have d: "\<bar>dec_val ?delta\<bar> \<le> 2 * 10 ^ 9" using within_bounds_sub(2) [OF assms] .
  then obtain r where r: "round2 ?delta = Some r" using round2_defined [of ?delta] by auto
  show ?thesis
  proof (cases "dec_is_zero p")
    case True
    with r show ?thesis by (simp add: variance_figures_def)
  next
    case False
    then obtain ratio where ratio: "dec_div ?delta p = Some ratio"
      using dec_div_None [of ?delta p] by (cases "dec_div ?delta p") simp_all
    have p: "10 powi (-6) \<le> \<bar>dec_val p\<bar>" using within_bounds_min [OF assms(2) False] .
    have "\<bar>dec_val ?delta\<bar> / \<bar>dec_val p\<bar> \<le> 2 * 10 ^ 9 / 10 powi (-6)"
      using d p by (intro frac_le) simp_all
    then have "\<bar>dec_val ratio\<bar> \<le> 8 * 10 ^ 15"
      using dec_div_bound [OF ratio] unfolding powi_micro by simp
    then have "\<bar>dec_val (dec_mul ratio dec_hundred)\<bar> < 10 ^ 25"
      using dec_mul_bound [of ratio dec_hundred] by simp
    then obtain q where "round2 (dec_mul ratio dec_hundred) = Some q" using round2_defined by blast
    with r ratio False show ?thesis by (simp add: variance_figures_def Let_def)
  qed
qed

section \<open>Fuel variance\<close>

definition comparable :: "quantity_input \<Rightarrow> quantity_input \<Rightarrow> bool" where
  "comparable a p \<longleftrightarrow> qi_fuel_grade a = qi_fuel_grade p \<and> qi_unit a = qi_unit p \<and>
    qi_period_start a = qi_period_start p \<and> qi_period_end a = qi_period_end p \<and>
    0 \<le> dec_val (qi_value a) \<and> 0 \<le> dec_val (qi_value p)"

lemma fuel_variance_result:
  assumes "fuel_variance a po superseded = CalcResult r"
  obtains p pct where "po = Some p" "\<not> superseded" "comparable a p"
    "variance_figures (qi_value a) (qi_value p) = Some (fv_delta_unrounded r, fv_delta r, pct)"
    "fv_percent_unrounded r = map_option fst pct" "fv_percent r = map_option snd pct"
    "fv_percent_reason r = (if pct = None then Some ZERO_PLAN_BASE else None)"
    "fv_actual_unrounded r = qi_value a" "fv_planned_unrounded r = qi_value p"
    "fv_fuel_grade r = qi_fuel_grade a" "fv_unit r = qi_unit a"
    "fv_period_start r = qi_period_start a" "fv_period_end r = qi_period_end a"
  using assms
  by (auto simp: fuel_variance_def refuse_def comparable_def dec_negative_val not_less Let_def
      split: option.splits if_splits)

lemma fuel_variance_fields:
  assumes "fuel_variance a (Some p) superseded = CalcResult r"
  shows "\<exists>pct. variance_figures (qi_value a) (qi_value p) =
      Some (fv_delta_unrounded r, fv_delta r, pct) \<and> fv_percent r = map_option snd pct \<and>
    fv_percent_reason r = (if pct = None then Some ZERO_PLAN_BASE else None) \<and>
    fv_actual_unrounded r = qi_value a \<and> fv_planned_unrounded r = qi_value p \<and>
    fv_fuel_grade r = qi_fuel_grade a \<and> fv_period_start r = qi_period_start a \<and>
    fv_period_end r = qi_period_end a"
  using assms
proof (rule fuel_variance_result)
  fix p' pct
  assume "Some p = Some p'"
    and "variance_figures (qi_value a) (qi_value p') = Some (fv_delta_unrounded r, fv_delta r, pct)"
      "fv_percent r = map_option snd pct"
      "fv_percent_reason r = (if pct = None then Some ZERO_PLAN_BASE else None)"
      "fv_actual_unrounded r = qi_value a" "fv_planned_unrounded r = qi_value p'"
      "fv_fuel_grade r = qi_fuel_grade a" "fv_period_start r = qi_period_start a"
      "fv_period_end r = qi_period_end a"
  then show ?thesis by (intro exI [of _ pct]) simp
qed

lemma variance_figures_delta:
  "variance_figures a p = Some (du, d, pct) \<Longrightarrow>
    du = dec_sub a p \<and> round2 du = Some d \<and> (pct = None \<longleftrightarrow> dec_is_zero p)"
  by (auto simp: variance_figures_def Let_def split: if_splits option.splits)

lemma fuel_variance_computes:
  assumes "within_bounds (qi_value a)" and "within_bounds (qi_value p)" and "comparable a p"
  shows "\<exists>r. fuel_variance a (Some p) False = CalcResult r"
  using variance_figures_defined [OF assms(1,2)] assms(3)
  by (auto simp: fuel_variance_def comparable_def dec_negative_val Let_def not_less split: option.splits)

text \<open>on quantities the contract accepts, the calculator never raises, and it computes a
  variance exactly when a current plan of the same grade, unit and interval is given and
  neither quantity is negative; in every other case it refuses.\<close>

theorem fuel_variance_total:
  assumes "within_bounds (qi_value a)" and "\<And>p. po = Some p \<Longrightarrow> within_bounds (qi_value p)"
  shows "fuel_variance a po superseded \<noteq> CalcRaised \<and>
    ((\<exists>r. fuel_variance a po superseded = CalcResult r) \<longleftrightarrow> (\<exists>p. po = Some p \<and> \<not> superseded \<and> comparable a p))"
proof (cases po)
  case None
  then show ?thesis by (simp add: fuel_variance_def refuse_def)
next
  case (Some p)
  obtain du d pct where "variance_figures (qi_value a) (qi_value p) = Some (du, d, pct)"
    using variance_figures_defined [OF assms(1) assms(2) [OF Some]] by (metis prod_cases3)
  with Some show ?thesis
    by (auto simp: fuel_variance_def refuse_def comparable_def dec_negative_val Let_def not_less)
qed

definition sample_qty :: "nat \<Rightarrow> quantity_input" where
  "sample_qty c = \<lparr>qi_input_id = ''i'', qi_fuel_grade = FG_VLSFO,
    qi_value = \<lparr>dsign = False, dcoef = c, dexp = -2\<rparr>, qi_unit = QU_TONNE, qi_period_start = 0,
    qi_period_end = 86400000000, qi_revision = ''1''\<rparr>"

lemma sample_qty_bounds: "c \<in> {1050, 1000, 0} \<Longrightarrow> within_bounds (qi_value (sample_qty c))"
  by (auto simp: sample_qty_def within_bounds_def MAX_DECIMAL_PLACES_def MAX_ABS_QUANTITY_def
      dec_abs_def dec_fix_def ndigits_def digits_of_eval PREC_def dec_lt_def dec_cmp_def
      scale_to_def signed_def)

lemma sample_comparable: "comparable (sample_qty c) (sample_qty d)"
  by (simp add: comparable_def sample_qty_def dec_val_def signed_def less_imp_le)

theorem fuel_variance_total_witness:
  "\<exists>r. fuel_variance (sample_qty 1050) (Some (sample_qty 1000)) False = CalcResult r"
  using fuel_variance_total [of "sample_qty 1050" "Some (sample_qty 1000)" False]
    sample_qty_bounds sample_comparable by auto

text \<open>C38: a computed variance is exact: the unrounded delta denotes actual minus planned, the
  displayed delta is a multiple of one hundredth within half a hundredth of it, and the
  percentage is withheld (with reason \<open>ZERO_PLAN_BASE\<close>) exactly when the plan is zero.\<close>

theorem fuel_variance_exact:
  assumes "fuel_variance a (Some p) superseded = CalcResult r"
    and "within_bounds (qi_value a)" and "within_bounds (qi_value p)"
  shows "dec_val (fv_delta_unrounded r) = dec_val (qi_value a) - dec_val (qi_value p) \<and>
    dexp (fv_delta r) = -2 \<and> \<bar>dec_val (fv_delta r) - dec_val (fv_delta_unrounded r)\<bar> \<le> 1 / 200 \<and>
    (fv_percent r = None \<longleftrightarrow> dec_val (qi_value p) = 0) \<and>
    (fv_percent_reason r = Some ZERO_PLAN_BASE \<longleftrightarrow> dec_val (qi_value p) = 0)"
proof -
  from assms(1) obtain pct where
    f: "variance_figures (qi_value a) (qi_value p) = Some (fv_delta_unrounded r, fv_delta r, pct)"
    and p: "fv_percent r = map_option snd pct"
      "fv_percent_reason r = (if pct = None then Some ZERO_PLAN_BASE else None)"
    using fuel_variance_fields by blast
  note v = variance_figures_delta [OF f]
  then have q: "dec_quantize2 (fv_delta_unrounded r) = Some (fv_delta r)" by (auto simp: round2_def)
  from v p show ?thesis
    using within_bounds_sub(1) [OF assms(2,3)] quantize2_exp [OF q] quantize2_error [OF q]
    by (auto simp: dec_is_zero_val)
qed

theorem fuel_variance_exact_witness:
  "\<exists>r. fuel_variance (sample_qty 1050) (Some (sample_qty 1000)) False = CalcResult r \<and>
    dec_val (fv_delta_unrounded r) = 1 / 2 \<and> fv_percent r \<noteq> None"
proof -
  obtain r where r: "fuel_variance (sample_qty 1050) (Some (sample_qty 1000)) False = CalcResult r"
    using fuel_variance_computes sample_qty_bounds sample_comparable by blast
  have v: "dec_val (qi_value (sample_qty 1050)) = 21 / 2" "dec_val (qi_value (sample_qty 1000)) = 10"
    by (simp_all add: sample_qty_def dec_val_def signed_def power_int_def power2_eq_square)
  from fuel_variance_exact [OF r] sample_qty_bounds
  have "dec_val (fv_delta_unrounded r) = 1 / 2 \<and> fv_percent r \<noteq> None"
    unfolding v by simp
  with r show ?thesis by blast
qed

section \<open>Reporting periods\<close>

definition disjoint_periods :: "report_interval list \<Rightarrow> bool" where
  "disjoint_periods xs \<longleftrightarrow> sorted_wrt (\<lambda>a b. ri_end a \<le> ri_start b \<or> ri_end b \<le> ri_start a) xs"

lemma interval_key_inj: "interval_key a = interval_key b \<longleftrightarrow> a = b"
  by (auto simp: interval_key_def)

lemma sort_interval_mset:
  "mset xs = mset ys \<Longrightarrow> sort_key interval_key xs = sort_key interval_key ys"
proof -
  assume m: "mset xs = mset ys"
  have inj: "inj interval_key" by (rule injI) (simp add: interval_key_inj)
  have sorted_is: "map interval_key (sort_key interval_key zs) = sort (map interval_key zs)" for zs
    by (rule properties_for_sort [symmetric]) simp_all
  have "map interval_key (sort_key interval_key xs) = map interval_key (sort_key interval_key ys)"
    unfolding sorted_is by (rule properties_for_sort) (simp_all add: m)
  then show ?thesis using inj by (simp add: inj_map_eq_map)
qed

lemma no_overlap_sorted_wrt:
  assumes "sorted (map interval_key xs)" "\<forall>i \<in> set xs. ri_start i < ri_end i"
  shows "\<not> overlaps_neighbour xs \<longleftrightarrow> sorted_wrt (\<lambda>a b. ri_end a \<le> ri_start b) xs"
  using assms
proof (induction xs rule: overlaps_neighbour.induct)
  case (1 a b rest)
  have "ri_end a \<le> ri_start b \<Longrightarrow> \<forall>x \<in> set rest. ri_start b \<le> ri_start x"
    using "1.prems"(1) by (auto simp: interval_key_def less_eq_prod_def)
  moreover have "ri_start b < ri_end b" using "1.prems"(2) by simp
  ultimately show ?case using 1 by (fastforce simp: not_less)
qed auto

lemma disjoint_of_sorted:
  assumes "sorted (map interval_key xs)" "\<forall>i \<in> set xs. ri_start i < ri_end i"
  shows "sorted_wrt (\<lambda>a b. ri_end a \<le> ri_start b) xs \<longleftrightarrow> disjoint_periods xs"
  using assms
proof (induction xs)
  case Nil
  then show ?case by (simp add: disjoint_periods_def)
next
  case (Cons a xs)
  have "ri_start a \<le> ri_start b" "ri_start b < ri_end b" if "b \<in> set xs" for b
    using Cons.prems that by (auto simp: interval_key_def less_eq_prod_def)
  then have "(\<forall>b \<in> set xs. ri_end a \<le> ri_start b) \<longleftrightarrow>
      (\<forall>b \<in> set xs. ri_end a \<le> ri_start b \<or> ri_end b \<le> ri_start a)"
    by force
  with Cons show ?case by (simp add: disjoint_periods_def)
qed

lemma sorted_wrt_symmetric_mset:
  assumes "mset xs = mset ys" "sorted_wrt P xs" "\<And>a b. P a b \<Longrightarrow> P b a"
  shows "sorted_wrt P ys"
  using assms(1,2)
proof (induction xs arbitrary: ys)
  case Nil
  then show ?case by simp
next
  case (Cons x xs)
  then have "x \<in> set ys" by (metis list.set_intros(1) mset_eq_setD)
  then obtain us vs where ys: "ys = us @ x # vs" by (meson split_list)
  with Cons.prems have m: "mset xs = mset (us @ vs)" by simp
  with Cons have "sorted_wrt P (us @ vs)" by simp
  moreover have "\<forall>y \<in> set (us @ vs). P x y" using Cons.prems m by (metis mset_eq_setD sorted_wrt.simps(2))
  ultimately show ?case using assms(3) by (auto simp: ys sorted_wrt_append)
qed

lemma disjoint_periods_mset: "mset xs = mset ys \<Longrightarrow> disjoint_periods xs \<longleftrightarrow> disjoint_periods ys"
  unfolding disjoint_periods_def by (metis (mono_tags, lifting) sorted_wrt_symmetric_mset)

text \<open>reporting periods are reconciled independently of the order they arrive in: any two
  orderings of the same intervals give the same refusal or the same receipt and coverage.\<close>

theorem report_period_order_irrelevant:
  assumes "mset xs = mset ys"
  shows "report_period_reconcile xs = report_period_reconcile ys"
proof -
  have "list_ex P xs = list_ex P ys" for P using assms by (metis list_ex_iff mset_eq_setD)
  moreover have "xs = [] \<longleftrightarrow> ys = []" using assms by (metis mset.simps(1) mset_zero_iff)
  ultimately show ?thesis
    using sort_interval_mset [OF assms] by (simp add: report_period_reconcile_def)
qed

theorem report_period_order_irrelevant_witness:
  "report_period_reconcile [\<lparr>ri_start = 5, ri_end = 9\<rparr>, \<lparr>ri_start = 0, ri_end = 5\<rparr>] =
   report_period_reconcile [\<lparr>ri_start = 0, ri_end = 5\<rparr>, \<lparr>ri_start = 5, ri_end = 9\<rparr>]"
  by (rule report_period_order_irrelevant) simp

lemma report_period_computes:
  "(\<exists>r. report_period_reconcile xs = CalcResult r) \<longleftrightarrow>
     xs \<noteq> [] \<and> (\<forall>i \<in> set xs. ri_start i < ri_end i) \<and> disjoint_periods xs"
proof -
  let ?s = "sort_key interval_key xs"
  have s: "sorted (map interval_key ?s)" by simp
  have "\<not> overlaps_neighbour ?s \<longleftrightarrow> disjoint_periods xs" if "\<forall>i \<in> set xs. ri_start i < ri_end i"
    using no_overlap_sorted_wrt [OF s] disjoint_of_sorted [OF s] disjoint_periods_mset [of ?s xs] that
    by simp
  moreover have "list_ex (\<lambda>i. ri_end i \<le> ri_start i) xs \<longleftrightarrow> \<not> (\<forall>i \<in> set xs. ri_start i < ri_end i)"
    by (auto simp: list_ex_iff not_less)
  ultimately show ?thesis
    by (auto simp: report_period_reconcile_def refuse_def Let_def)
qed

lemma report_period_covered:
  assumes "report_period_reconcile xs = CalcResult r"
  shows "mset (pr_covered r) = mset xs \<and> sorted_wrt (\<lambda>a b. ri_end a \<le> ri_start b) (pr_covered r)"
proof -
  let ?s = "sort_key interval_key xs"
  have s: "sorted (map interval_key ?s)" by simp
  from assms have "\<forall>i \<in> set ?s. ri_start i < ri_end i" "\<not> overlaps_neighbour ?s" "pr_covered r = ?s"
    by (auto simp: report_period_reconcile_def refuse_def Let_def list_ex_iff not_le split: if_splits)
  then show ?thesis using no_overlap_sorted_wrt [OF s] by simp
qed

text \<open>the reconciliation succeeds exactly on a non-empty set of positive-length, pairwise
  disjoint intervals, and then the coverage is a sorted rearrangement of exactly the input in
  which each interval ends before the next begins.\<close>

theorem report_period_coverage:
  "(if xs \<noteq> [] \<and> list_all (\<lambda>i. ri_start i < ri_end i) xs \<and> disjoint_periods xs
    then case report_period_reconcile xs of
        CalcResult r \<Rightarrow> mset (pr_covered r) = mset xs \<and>
          sorted_wrt (\<lambda>a b. ri_end a \<le> ri_start b) (pr_covered r)
      | _ \<Rightarrow> False
    else \<exists>e. report_period_reconcile xs = CalcRefused e)"
proof (cases "report_period_reconcile xs")
  case (CalcResult r)
  then show ?thesis using report_period_computes [of xs] report_period_covered [of xs r]
    by (auto simp: list_all_iff)
next
  case (CalcRefused e)
  then show ?thesis using report_period_computes [of xs] by (auto simp: list_all_iff)
next
  case CalcRaised
  then show ?thesis
    by (auto simp: report_period_reconcile_def refuse_def Let_def split: if_splits)
qed

end
