(* ===== verification/FleetSummary_Facts.thy ===== *)
theory FleetSummary_Facts
  imports Calculator_Facts
begin

text \<open>
  The fleet summary adds verified vessel results per (grade, unit): totals are exact sums, a
  grade reported in two units is excluded and named, and the completeness label needs every
  expected vessel.
\<close>

definition rows_of :: "vessel_grade_result list \<Rightarrow> fuel_grade \<Rightarrow> quantity_unit \<Rightarrow> vessel_grade_result list" where
  "rows_of rows g u = filter (\<lambda>r. vg_fuel_grade r = g \<and> vg_unit r = u) rows"

definition exact_total :: "vessel_grade_result list \<Rightarrow> fuel_grade \<Rightarrow> quantity_unit \<Rightarrow> rat" where
  "exact_total rows g u = sum_list (map (\<lambda>r. dec_val (vg_value r)) (rows_of rows g u))"

definition rows_bounded :: "vessel_grade_result list \<Rightarrow> bool" where
  "rows_bounded rows \<longleftrightarrow> list_all (\<lambda>r. within_bounds (vg_value r)) rows \<and> length rows \<le> 10 ^ 11"

lemma exact_total_snoc:
  "exact_total (rows @ [r]) g u = exact_total rows g u +
    (if vg_fuel_grade r = g \<and> vg_unit r = u then dec_val (vg_value r) else 0)"
  by (simp add: exact_total_def rows_of_def)

lemma exact_total_abs:
  assumes "list_all (\<lambda>r. within_bounds (vg_value r)) rows"
  shows "\<bar>exact_total rows g u\<bar> \<le> of_nat (length rows) * 10 ^ 9"
  using assms
proof (induction rows rule: rev_induct)
  case Nil
  then show ?case by (simp add: exact_total_def rows_of_def)
next
  case (snoc r rows)
  then have "\<bar>dec_val (vg_value r)\<bar> \<le> 10 ^ 9" by (intro within_bounds_abs) simp
  with snoc show ?case by (auto simp: exact_total_snoc algebra_simps)
qed

text \<open>The running dictionary holds, for every key seen, the exact sum of its rows so far.\<close>

definition entry_ok :: "vessel_grade_result list \<Rightarrow> fuel_grade \<Rightarrow> quantity_unit \<Rightarrow> pydec option \<Rightarrow> bool" where
  "entry_ok rows g u entry \<longleftrightarrow> (case entry of
       None \<Rightarrow> rows_of rows g u = []
     | Some t \<Rightarrow> rows_of rows g u \<noteq> [] \<and> -6 \<le> dexp t \<and> dec_val t = exact_total rows g u)"

definition dict_sums :: "vessel_grade_result list \<Rightarrow> (grade_unit \<times> pydec) list \<Rightarrow> bool" where
  "dict_sums rows d \<longleftrightarrow> distinct (map fst d) \<and> (\<forall>g u. entry_ok rows g u (map_of d (g, u)))"

lemma entry_ok_simps [simp]:
  "entry_ok rows g u None \<longleftrightarrow> rows_of rows g u = []"
  "entry_ok rows g u (Some t) \<longleftrightarrow> rows_of rows g u \<noteq> [] \<and> -6 \<le> dexp t \<and> dec_val t = exact_total rows g u"
  by (simp_all add: entry_ok_def)

lemma entry_ok_other:
  "(vg_fuel_grade r, vg_unit r) \<noteq> (g, u) \<Longrightarrow> entry_ok (rows @ [r]) g u e \<longleftrightarrow> entry_ok rows g u e"
  by (cases e) (auto simp: rows_of_def exact_total_snoc)

lemma dict_sumsD: "dict_sums rows d \<Longrightarrow> entry_ok rows g u (map_of d (g, u))"
  by (simp add: dict_sums_def)

lemma dict_sums_add:
  assumes d: "dict_sums rows d" and b: "rows_bounded (rows @ [r])"
  shows "dict_sums (rows @ [r]) (add_row d r)"
proof -
  let ?g = "vg_fuel_grade r" and ?u = "vg_unit r"
  define t0 where "t0 = (case map_of d (?g, ?u) of None \<Rightarrow> dec_zero | Some x \<Rightarrow> x)"
  have t0: "-6 \<le> dexp t0" "dec_val t0 = exact_total rows ?g ?u"
    using dict_sumsD [OF d, of ?g ?u]
    by (cases "map_of d (?g, ?u)"; simp add: t0_def dec_zero_def dec_val_def signed_def exact_total_def)+
  have wb: "within_bounds (vg_value r)" "list_all (\<lambda>r. within_bounds (vg_value r)) rows"
    and len: "length rows + 1 \<le> 10 ^ 11"
    using b by (auto simp: rows_bounded_def)
  have fit: "sum_fits t0 (vg_value r)"
  proof (rule bounded_sum_fits [where m = "length rows * 10 ^ 9" and n = "10 ^ 9"])
    show "\<bar>dec_val t0\<bar> \<le> of_nat (length rows * 10 ^ 9)"
      using exact_total_abs [OF wb(2), of ?g ?u] by (simp add: t0)
    show "\<bar>dec_val (vg_value r)\<bar> \<le> of_nat (10 ^ 9)" using within_bounds_abs [OF wb(1)] by simp
    show "length rows * 10 ^ 9 + 10 ^ 9 \<le> (10::nat) ^ 21" using len by simp
  qed (use t0 within_bounds_exp [OF wb(1)] in simp_all)
  let ?t = "dec_add t0 (vg_value r)"
  have t: "-6 \<le> dexp ?t" "dec_val ?t = exact_total (rows @ [r]) ?g ?u"
    using dec_add_exact [OF fit] dec_add_exp [OF fit] t0 within_bounds_exp [OF wb(1)]
    by (simp_all add: exact_total_snoc)
  have upd: "add_row d r = AList.update (?g, ?u) ?t d"
    by (simp add: add_row_def Let_def t0_def)
  have "distinct (map fst (add_row d r))"
    using d by (simp add: upd dict_sums_def distinct_update)
  moreover have "entry_ok (rows @ [r]) g u (map_of (add_row d r) (g, u))" for g u
  proof (cases "(?g, ?u) = (g, u)")
    case True
    then have "map_of (add_row d r) (g, u) = Some ?t" by (simp add: upd update_conv)
    with True t show ?thesis by (auto simp: rows_of_def)
  next
    case False
    then have "map_of (add_row d r) (g, u) = map_of d (g, u)" by (auto simp: upd update_conv)
    then show ?thesis using dict_sumsD [OF d] entry_ok_other [OF False] by simp
  qed
  ultimately show ?thesis by (simp add: dict_sums_def)
qed

lemma dict_sums_all: "rows_bounded rows \<Longrightarrow> dict_sums rows (sum_by_key rows)"
proof (induction rows rule: rev_induct)
  case Nil
  then show ?case by (simp add: dict_sums_def sum_by_key_def rows_of_def)
next
  case (snoc r rows)
  then have "rows_bounded rows" by (simp add: rows_bounded_def)
  with snoc have "dict_sums rows (sum_by_key rows)" by blast
  then show ?case using dict_sums_add [OF _ snoc.prems] by (simp add: sum_by_key_def)
qed

lemma excluded_iff: "fuel_grade_value g \<in> set (excluded_grades rows) \<longleftrightarrow> 1 < card (units_of_grade rows g)"
proof -
  have "fuel_grade_value g \<in> set (excluded_grades rows) \<longleftrightarrow>
      g \<in> vg_fuel_grade ` set rows \<and> 1 < card (units_of_grade rows g)"
    by (auto simp: excluded_grades_def dest: fuel_grade_enum.value_inj)
  moreover have "units_of_grade rows g = {}" if "g \<notin> vg_fuel_grade ` set rows"
    using that by (auto simp: units_of_grade_def)
  ultimately show ?thesis by (cases "g \<in> vg_fuel_grade ` set rows") simp_all
qed

lemma units_of_grade_rows: "u \<in> units_of_grade rows g \<longleftrightarrow> rows_of rows g u \<noteq> []"
  by (auto simp: units_of_grade_def rows_of_def filter_empty_conv)

lemma finite_units [simp]: "finite (units_of_grade rows g)"
  by (simp add: units_of_grade_def)

lemma grade_totals_iff:
  "gt \<in> set (fs_grade_totals (fleet_summary rows n)) \<longleftrightarrow>
    ((gt_fuel_grade gt, gt_unit gt), gt_total gt) \<in> set (sum_by_key rows) \<and>
    card (units_of_grade rows (gt_fuel_grade gt)) \<le> 1"
  by (cases gt) (auto simp: fleet_summary_def Let_def excluded_iff not_less image_iff split: prod.splits)

text \<open>the fleet summary never adds across grades or units: every total is the exact sum of
  precisely the rows of its grade and unit, a grade gets a total exactly when all its rows share
  one unit, and a grade seen in several units is named as excluded.\<close>

theorem fleet_summary_exact:
  assumes "rows_bounded rows"
  shows "(\<forall>gt \<in> set (fs_grade_totals (fleet_summary rows n)).
      units_of_grade rows (gt_fuel_grade gt) = {gt_unit gt} \<and>
      dec_val (gt_total gt) = exact_total rows (gt_fuel_grade gt) (gt_unit gt)) \<and>
    (\<forall>g u. units_of_grade rows g = {u} \<longrightarrow>
      (\<exists>gt \<in> set (fs_grade_totals (fleet_summary rows n)). gt_fuel_grade gt = g \<and> gt_unit gt = u)) \<and>
    (\<forall>g. fuel_grade_value g \<in> set (fs_excluded (fleet_summary rows n)) \<longleftrightarrow>
      1 < card (units_of_grade rows g))"
proof (intro conjI ballI allI impI)
  note d = dict_sums_all [OF assms]
  fix gt assume "gt \<in> set (fs_grade_totals (fleet_summary rows n))"
  then have m: "map_of (sum_by_key rows) (gt_fuel_grade gt, gt_unit gt) = Some (gt_total gt)"
    and c: "card (units_of_grade rows (gt_fuel_grade gt)) \<le> 1"
    using d by (auto simp: grade_totals_iff dict_sums_def)
  then have r: "rows_of rows (gt_fuel_grade gt) (gt_unit gt) \<noteq> []"
    and t: "dec_val (gt_total gt) = exact_total rows (gt_fuel_grade gt) (gt_unit gt)"
    using dict_sumsD [OF d, of "gt_fuel_grade gt" "gt_unit gt"] by simp_all
  show "dec_val (gt_total gt) = exact_total rows (gt_fuel_grade gt) (gt_unit gt)" by (rule t)
  have "gt_unit gt \<in> units_of_grade rows (gt_fuel_grade gt)" using r by (simp add: units_of_grade_rows)
  with c show "units_of_grade rows (gt_fuel_grade gt) = {gt_unit gt}"
    by (metis card_le_Suc0_iff_eq finite_units One_nat_def is_singletonI' is_singleton_the_elem singletonD empty_iff)
next
  note d = dict_sums_all [OF assms]
  fix g u assume u: "units_of_grade rows g = {u}"
  then have "rows_of rows g u \<noteq> []" using units_of_grade_rows by blast
  then obtain t where "map_of (sum_by_key rows) (g, u) = Some t"
    using dict_sumsD [OF d, of g u] by (cases "map_of (sum_by_key rows) (g, u)") simp_all
  then have "\<lparr>gt_fuel_grade = g, gt_unit = u, gt_total = t\<rparr> \<in> set (fs_grade_totals (fleet_summary rows n))"
    using u by (simp add: grade_totals_iff map_of_SomeD)
  then show "\<exists>gt \<in> set (fs_grade_totals (fleet_summary rows n)). gt_fuel_grade gt = g \<and> gt_unit gt = u"
    by force
next
  fix g
  show "fuel_grade_value g \<in> set (fs_excluded (fleet_summary rows n)) \<longleftrightarrow> 1 < card (units_of_grade rows g)"
    using excluded_iff [of g rows] by (simp add: fleet_summary_def Let_def)
qed

definition sample_row :: "string \<Rightarrow> fuel_grade \<Rightarrow> quantity_unit \<Rightarrow> vessel_grade_result" where
  "sample_row v g u = \<lparr>vg_vessel_ref = v, vg_fuel_grade = g, vg_unit = u,
    vg_value = qi_value (sample_qty 1050)\<rparr>"

theorem fleet_summary_exact_witness:
  "\<exists>gt \<in> set (fs_grade_totals (fleet_summary
      [sample_row ''A'' FG_MGO QU_TONNE, sample_row ''B'' FG_MGO QU_TONNE] 2)).
    gt_fuel_grade gt = FG_MGO \<and> dec_val (gt_total gt) = 21"
proof -
  let ?rows = "[sample_row ''A'' FG_MGO QU_TONNE, sample_row ''B'' FG_MGO QU_TONNE]"
  have b: "rows_bounded ?rows"
    using sample_qty_bounds by (simp add: rows_bounded_def sample_row_def)
  have u: "units_of_grade ?rows FG_MGO = {QU_TONNE}" by (auto simp: units_of_grade_def sample_row_def)
  have "dec_val (qi_value (sample_qty 1050)) = 21 / 2"
    by (simp add: sample_qty_def dec_val_def signed_def power_int_def power2_eq_square)
  then have e: "exact_total ?rows FG_MGO QU_TONNE = 21"
    by (simp add: exact_total_def rows_of_def sample_row_def)
  from fleet_summary_exact [OF b, of 2] u e show ?thesis by metis
qed

text \<open>a summary is labelled complete only when the distinct vessels covered reach the expected
  number and no grade was excluded; then no vessel is reported missing.\<close>

theorem fleet_summary_complete:
  "is_complete (fleet_summary rows n) \<longleftrightarrow>
    n \<le> int (card (vg_vessel_ref ` set rows)) \<and> (\<forall>g. card (units_of_grade rows g) \<le> 1)"
proof -
  have "excluded_grades rows = [] \<longleftrightarrow> (\<forall>g. card (units_of_grade rows g) \<le> 1)"
  proof
    assume "excluded_grades rows = []"
    then show "\<forall>g. card (units_of_grade rows g) \<le> 1" using excluded_iff [of _ rows] by (auto simp: not_less)
  next
    assume "\<forall>g. card (units_of_grade rows g) \<le> 1"
    then show "excluded_grades rows = []" by (auto simp: excluded_grades_def filter_empty_conv not_less)
  qed
  then show ?thesis by (simp add: is_complete_def fleet_summary_def Let_def)
qed

end
