(* ===== verification/Verifier.thy ===== *)
theory Verifier
  imports Calculator_Facts
begin

text \<open>
  The independent result verifier
  (\<open>packages/shared/eastmed_shared/reconciliation/verifier.py\<close>). It recomputes every
  reconciled variance of an emitted result from the evidence with its own arithmetic. \<open>None\<close>
  as the result of an operation is an uncaught \<open>decimal.InvalidOperation\<close> (a signalling NaN
  in a comparison, a quotient that does not fit \<open>quantize\<close>).
\<close>

section \<open>Data\<close>

definition VERIFIER_VERSION :: string where "VERIFIER_VERSION = ''recon_verifier_v1''"

datatype verification_status = VERIFIED | VS_UNVERIFIABLE

primrec verification_status_value :: "verification_status \<Rightarrow> string" where
  "verification_status_value VERIFIED = ''verified''"
| "verification_status_value VS_UNVERIFIABLE = ''unverifiable''"

datatype verify_reason =
    MISSING_EVIDENCE
  | REFERENCE_NOT_OWNED
  | SOURCE_VERSION_MISMATCH
  | INPUT_VALUE_MISMATCH
  | NUMERIC_INCONSISTENT
  | UNEXPECTED_RESULT_SHAPE

primrec verify_reason_value :: "verify_reason \<Rightarrow> string" where
  "verify_reason_value MISSING_EVIDENCE = ''missing_evidence''"
| "verify_reason_value REFERENCE_NOT_OWNED = ''reference_not_owned''"
| "verify_reason_value SOURCE_VERSION_MISMATCH = ''source_version_mismatch''"
| "verify_reason_value INPUT_VALUE_MISMATCH = ''input_value_mismatch''"
| "verify_reason_value NUMERIC_INCONSISTENT = ''numeric_inconsistent''"
| "verify_reason_value UNEXPECTED_RESULT_SHAPE = ''unexpected_result_shape''"

datatype case_completion_status = COMPLETED | CC_UNVERIFIABLE

primrec case_completion_status_value :: "case_completion_status \<Rightarrow> string" where
  "case_completion_status_value COMPLETED = ''completed''"
| "case_completion_status_value CC_UNVERIFIABLE = ''unverifiable''"

record evidence_fact =
  ef_fuel_grade :: string
  ef_period_start :: string
  ef_period_end :: string
  ef_actual :: pydec
  ef_planned :: "pydec option"
  ef_owner_ok :: bool
  ef_is_current :: bool

record verification_finding =
  vf_fuel_grade :: string
  vf_reason :: verify_reason

record verification_verdict =
  vv_status :: verification_status
  vv_checked :: nat
  vv_findings :: "verification_finding list"

definition verdict_verified :: "verification_verdict \<Rightarrow> bool" where
  "verdict_verified v \<longleftrightarrow> vv_status v = VERIFIED"

section \<open>The check of one reconciled variance\<close>

definition verifier_round2 :: "pydec \<Rightarrow> pydec option" where
  "verifier_round2 v = dec_quantize2 v"

definition independent_delta_percent :: "pydec \<Rightarrow> pydec \<Rightarrow> (pydec \<times> pydec option) option" where
  "independent_delta_percent actual planned =
    (let delta = dec_sub actual planned in
     if dec_eq planned dec_zero then map_option (\<lambda>d. (d, None)) (verifier_round2 delta)
     else
       case verifier_round2 delta of
         None \<Rightarrow> None
       | Some d \<Rightarrow>
          (case dec_div delta planned of
             None \<Rightarrow> None
           | Some q \<Rightarrow> map_option (\<lambda>p. (d, Some p)) (verifier_round2 (dec_mul q dec_hundred))))"

definition match_evidence :: "(string \<times> json) list \<Rightarrow> evidence_fact list \<Rightarrow> evidence_fact option" where
  "match_evidence variance evidence =
    find (\<lambda>ef. JStr (ef_fuel_grade ef) = obj_get variance ''fuel_grade''
        \<and> JStr (ef_period_start ef) = obj_get variance ''period_start''
        \<and> JStr (ef_period_end ef) = obj_get variance ''period_end'') evidence"

text \<open>\<open>Decimal(str(variance[key]))\<close>; \<open>None\<close> is \<open>KeyError\<close> or \<open>InvalidOperation\<close>.\<close>

definition stated_decimal :: "(string \<times> json) list \<Rightarrow> string \<Rightarrow> decimal option" where
  "stated_decimal variance key =
    (case map_of variance key of None \<Rightarrow> None | Some v \<Rightarrow> parse_decimal (py_str v))"

text \<open>\<open>stated != value\<close>; a signalling NaN raises.\<close>

definition decimal_ne :: "decimal \<Rightarrow> pydec \<Rightarrow> bool option" where
  "decimal_ne d x = (case d of Finite y \<Rightarrow> Some (\<not> dec_eq y x) | Infinity _ \<Rightarrow> Some True
    | NaN \<Rightarrow> Some True | SNaN \<Rightarrow> None)"

definition verify_reconciled ::
  "(string \<times> json) list \<Rightarrow> evidence_fact list \<Rightarrow> verify_reason option option" where
  "verify_reconciled variance evidence =
    (case match_evidence variance evidence of
       None \<Rightarrow> Some (Some MISSING_EVIDENCE)
     | Some ef \<Rightarrow>
        if \<not> ef_owner_ok ef then Some (Some REFERENCE_NOT_OWNED)
        else if \<not> ef_is_current ef then Some (Some SOURCE_VERSION_MISMATCH)
        else (case ef_planned ef of
          None \<Rightarrow> Some (Some MISSING_EVIDENCE)
        | Some planned \<Rightarrow>
          (case (stated_decimal variance ''actual'', stated_decimal variance ''planned'') of
            (Some stated_actual, Some stated_planned) \<Rightarrow>
              (case decimal_ne stated_actual (ef_actual ef) of
                 None \<Rightarrow> None
               | Some True \<Rightarrow> Some (Some INPUT_VALUE_MISMATCH)
               | Some False \<Rightarrow>
                 (case decimal_ne stated_planned planned of
                    None \<Rightarrow> None
                  | Some True \<Rightarrow> Some (Some INPUT_VALUE_MISMATCH)
                  | Some False \<Rightarrow>
                    (case independent_delta_percent (ef_actual ef) planned of
                       None \<Rightarrow> None
                     | Some (delta, percent) \<Rightarrow>
                        if dec_str delta \<noteq> py_str (obj_get variance ''delta'') then
                          Some (Some NUMERIC_INCONSISTENT)
                        else if obj_get variance ''percent'' \<noteq> opt_str percent then
                          Some (Some NUMERIC_INCONSISTENT)
                        else Some None)))
          | _ \<Rightarrow> Some (Some UNEXPECTED_RESULT_SHAPE))))"

section \<open>The check of a whole result\<close>

type_synonym variance_key = "string \<times> string \<times> string"

record verify_state =
  vs_findings :: "verification_finding list"
  vs_checked :: nat
  vs_seen :: "variance_key set"

definition variance_key :: "(string \<times> json) list \<Rightarrow> variance_key" where
  "variance_key v =
    (py_str (obj_get_default v ''fuel_grade'' (JStr [])),
     py_str (obj_get_default v ''period_start'' (JStr [])),
     py_str (obj_get_default v ''period_end'' (JStr [])))"

definition fact_key :: "evidence_fact \<Rightarrow> variance_key" where
  "fact_key f = (ef_fuel_grade f, ef_period_start f, ef_period_end f)"

definition add_finding :: "string \<Rightarrow> verify_reason \<Rightarrow> verify_state \<Rightarrow> verify_state" where
  "add_finding g r s = s\<lparr>vs_findings := vs_findings s @ [\<lparr>vf_fuel_grade = g, vf_reason = r\<rparr>]\<rparr>"

text \<open>One iteration of the loop over \<open>variances\<close>.\<close>

definition verify_step ::
  "evidence_fact list \<Rightarrow> verify_state \<Rightarrow> json \<Rightarrow> verify_state option" where
  "verify_step evidence s variance =
    (case variance of
       JObj v \<Rightarrow>
         if obj_get v ''status'' = JStr ''unresolved'' then Some s
         else if obj_get v ''status'' \<noteq> JStr ''reconciled'' then
           Some (add_finding [] UNEXPECTED_RESULT_SHAPE s)
         else
           let key = variance_key v;
               s1 = (if key \<in> vs_seen s then add_finding (fst key) UNEXPECTED_RESULT_SHAPE s else s);
               s2 = s1\<lparr>vs_seen := insert key (vs_seen s1), vs_checked := vs_checked s1 + 1\<rparr>
           in (case verify_reconciled v evidence of
                 None \<Rightarrow> None
               | Some None \<Rightarrow> Some s2
               | Some (Some reason) \<Rightarrow>
                   Some (add_finding (py_str (obj_get_default v ''fuel_grade'' (JStr []))) reason s2))
     | _ \<Rightarrow> Some (add_finding [] UNEXPECTED_RESULT_SHAPE s))"

fun verify_loop ::
  "evidence_fact list \<Rightarrow> verify_state \<Rightarrow> json list \<Rightarrow> verify_state option" where
  "verify_loop evidence s [] = Some s"
| "verify_loop evidence s (v # vs) =
    (case verify_step evidence s v of None \<Rightarrow> None | Some s' \<Rightarrow> verify_loop evidence s' vs)"

definition missing_facts :: "evidence_fact list \<Rightarrow> variance_key set \<Rightarrow> verification_finding list" where
  "missing_facts evidence seen =
    map (\<lambda>f. \<lparr>vf_fuel_grade = ef_fuel_grade f, vf_reason = MISSING_EVIDENCE\<rparr>)
      (filter (\<lambda>f. ef_planned f \<noteq> None \<and> fact_key f \<notin> seen) evidence)"

definition verify_case_result ::
  "(string \<times> json) list \<Rightarrow> evidence_fact list \<Rightarrow> verification_verdict option" where
  "verify_case_result result_json evidence =
    (case obj_get result_json ''variances'' of
       JList (x # xs) \<Rightarrow>
         (case verify_loop evidence \<lparr>vs_findings = [], vs_checked = 0, vs_seen = {}\<rparr> (x # xs) of
            None \<Rightarrow> None
          | Some s \<Rightarrow>
              let findings = vs_findings s @ missing_facts evidence (vs_seen s) in
              Some \<lparr>vv_status = (if findings = [] then VERIFIED else VS_UNVERIFIABLE),
                vv_checked = vs_checked s, vv_findings = findings\<rparr>)
     | _ \<Rightarrow> Some \<lparr>vv_status = VS_UNVERIFIABLE, vv_checked = 0,
         vv_findings = [\<lparr>vf_fuel_grade = [], vf_reason = UNEXPECTED_RESULT_SHAPE\<rparr>]\<rparr>)"

definition finalize_case_status :: "verification_verdict \<Rightarrow> bool \<Rightarrow> case_completion_status" where
  "finalize_case_status verdict has_unresolved =
    (if \<not> verdict_verified verdict \<or> vv_checked verdict = 0 \<or> has_unresolved
     then CC_UNVERIFIABLE else COMPLETED)"

section \<open>Two implementations of one declared contract\<close>

text \<open>
  The calculator and the verifier each implement the arithmetic of a variance; the contract
  both declare is the interface, and both are instances of it.
\<close>

locale variance_provider =
  fixes figures :: "pydec \<Rightarrow> pydec \<Rightarrow> (pydec \<times> pydec option) option"
  assumes zero_plan: "dec_is_zero p \<Longrightarrow>
      figures a p = map_option (\<lambda>d. (d, None)) (dec_quantize2 (dec_sub a p))"
    and positive_plan: "\<not> dec_is_zero p \<Longrightarrow> dec_div (dec_sub a p) p = Some q \<Longrightarrow>
      figures a p = (case (dec_quantize2 (dec_sub a p), dec_quantize2 (dec_mul q dec_hundred)) of
        (Some d, Some pct) \<Rightarrow> Some (d, Some pct) | _ \<Rightarrow> None)"
begin

lemma figures_delta: "figures a p = Some (d, pct) \<Longrightarrow> dec_quantize2 (dec_sub a p) = Some d"
proof (cases "dec_is_zero p")
  case True
  then show "figures a p = Some (d, pct) \<Longrightarrow> ?thesis" by (auto simp: zero_plan)
next
  case False
  then obtain q where "dec_div (dec_sub a p) p = Some q"
    using dec_div_None [of "dec_sub a p" p] by (cases "dec_div (dec_sub a p) p") simp_all
  with False show "figures a p = Some (d, pct) \<Longrightarrow> ?thesis"
    by (auto simp: positive_plan split: option.splits)
qed

lemma figures_agree:
  assumes "variance_provider other"
  shows "figures a p = other a p"
proof (cases "dec_is_zero p")
  case True
  then show ?thesis using variance_provider.zero_plan [OF assms True] by (simp add: zero_plan)
next
  case False
  then obtain q where "dec_div (dec_sub a p) p = Some q"
    using dec_div_None [of "dec_sub a p" p] by (cases "dec_div (dec_sub a p) p") simp_all
  with False show ?thesis
    using variance_provider.positive_plan [OF assms False] by (simp add: positive_plan)
qed

end

definition calculator_figures :: "pydec \<Rightarrow> pydec \<Rightarrow> (pydec \<times> pydec option) option" where
  "calculator_figures a p = map_option (\<lambda>(du, d, pct). (d, map_option snd pct)) (variance_figures a p)"

interpretation calculator: variance_provider calculator_figures
  by unfold_locales
    (auto simp: calculator_figures_def variance_figures_def round2_def Let_def option.map_comp o_def
      split: option.splits)

lemma dec_eq_zero: "dec_eq p dec_zero \<longleftrightarrow> dec_is_zero p"
  by (simp add: dec_eq_val dec_is_zero_val) (simp add: dec_zero_def dec_val_def signed_def)

interpretation verifier: variance_provider independent_delta_percent
  by unfold_locales
    (auto simp: independent_delta_percent_def verifier_round2_def dec_eq_zero Let_def split: option.splits)

lemma verifier_agrees: "independent_delta_percent a p = calculator_figures a p"
  by (rule verifier.figures_agree) (rule calculator.variance_provider_axioms)

section \<open>Soundness of a verified verdict\<close>

text \<open>What a reconciled entry must state relative to the evidence.\<close>

definition entry_supported :: "evidence_fact list \<Rightarrow> (string \<times> json) list \<Rightarrow> bool" where
  "entry_supported evidence v \<longleftrightarrow>
    (\<exists>ef planned sa sp d pct. match_evidence v evidence = Some ef \<and> ef_owner_ok ef \<and>
      ef_is_current ef \<and> ef_planned ef = Some planned \<and>
      stated_decimal v ''actual'' = Some (Finite sa) \<and> dec_val sa = dec_val (ef_actual ef) \<and>
      stated_decimal v ''planned'' = Some (Finite sp) \<and> dec_val sp = dec_val planned \<and>
      calculator_figures (ef_actual ef) planned = Some (d, pct) \<and>
      py_str (obj_get v ''delta'') = dec_str d \<and> obj_get v ''percent'' = opt_str pct)"

lemma decimal_ne_False: "decimal_ne d x = Some False \<longleftrightarrow> (\<exists>y. d = Finite y \<and> dec_val y = dec_val x)"
  by (auto simp: decimal_ne_def dec_eq_val split: decimal.splits)

lemma verify_reconciled_None: "verify_reconciled v ev = Some None \<longleftrightarrow> entry_supported ev v"
proof
  assume "verify_reconciled v ev = Some None"
  then show "entry_supported ev v"
    by (auto simp: verify_reconciled_def entry_supported_def decimal_ne_False verifier_agrees
        split: option.splits if_splits bool.splits)
next
  assume "entry_supported ev v"
  then obtain ef planned sa sp d pct where h: "match_evidence v ev = Some ef" "ef_owner_ok ef"
      "ef_is_current ef" "ef_planned ef = Some planned"
      "stated_decimal v ''actual'' = Some (Finite sa)" "dec_val sa = dec_val (ef_actual ef)"
      "stated_decimal v ''planned'' = Some (Finite sp)" "dec_val sp = dec_val planned"
      "calculator_figures (ef_actual ef) planned = Some (d, pct)"
      "py_str (obj_get v ''delta'') = dec_str d" "obj_get v ''percent'' = opt_str pct"
    unfolding entry_supported_def by blast
  then have "decimal_ne (Finite sa) (ef_actual ef) = Some False"
    "decimal_ne (Finite sp) planned = Some False" by (simp_all add: decimal_ne_False)
  with h show "verify_reconciled v ev = Some None"
    by (simp add: verify_reconciled_def verifier_agrees)
qed

text \<open>The reconciled entries of a list of variances.\<close>

definition reconciled_entries :: "json list \<Rightarrow> (string \<times> json) list list" where
  "reconciled_entries vs =
    List.map_filter (\<lambda>v. case v of JObj o' \<Rightarrow> if obj_get o' ''status'' = JStr ''reconciled'' then Some o' else None
      | _ \<Rightarrow> None) vs"

definition well_shaped :: "json \<Rightarrow> bool" where
  "well_shaped v \<longleftrightarrow> (\<exists>o'. v = JObj o' \<and>
    (obj_get o' ''status'' = JStr ''reconciled'' \<or> obj_get o' ''status'' = JStr ''unresolved''))"

lemma reconciled_entries_simps [simp]:
  "reconciled_entries [] = []"
  "reconciled_entries (v # vs) = (case v of
      JObj o' \<Rightarrow> if obj_get o' ''status'' = JStr ''reconciled'' then o' # reconciled_entries vs
        else reconciled_entries vs
    | _ \<Rightarrow> reconciled_entries vs)"
  by (auto simp: reconciled_entries_def map_filter_simps split: json.splits)

lemma verify_step_findings:
  "verify_step ev s v = Some s' \<Longrightarrow> \<exists>fs. vs_findings s' = vs_findings s @ fs"
  by (auto simp: verify_step_def add_finding_def Let_def split: json.splits if_splits option.splits)

lemma verify_loop_findings:
  "verify_loop ev s vs = Some s' \<Longrightarrow> \<exists>fs. vs_findings s' = vs_findings s @ fs"
proof (induction vs arbitrary: s)
  case Nil
  then show ?case by simp
next
  case (Cons v vs)
  then obtain s1 where "verify_step ev s v = Some s1" "verify_loop ev s1 vs = Some s'"
    by (auto split: option.splits)
  with Cons.IH verify_step_findings show ?case by (metis append.assoc)
qed

text \<open>A step that adds no finding, in full.\<close>

lemma verify_step_clean:
  assumes "verify_step ev s v = Some s'" "vs_findings s' = vs_findings s"
  shows "well_shaped v \<and>
    vs_seen s' = vs_seen s \<union> set (map variance_key (reconciled_entries [v])) \<and>
    vs_checked s' = vs_checked s + length (reconciled_entries [v]) \<and>
    list_all (\<lambda>e. entry_supported ev e \<and> variance_key e \<notin> vs_seen s) (reconciled_entries [v])"
  using assms
  by (auto simp: verify_step_def add_finding_def Let_def well_shaped_def
      simp flip: verify_reconciled_None split: json.splits if_splits option.splits)

lemma verify_loop_clean:
  assumes "verify_loop ev s vs = Some s'" "vs_findings s' = vs_findings s"
  shows "list_all well_shaped vs \<and>
    vs_seen s' = vs_seen s \<union> set (map variance_key (reconciled_entries vs)) \<and>
    vs_checked s' = vs_checked s + length (reconciled_entries vs) \<and>
    list_all (\<lambda>e. entry_supported ev e \<and> variance_key e \<notin> vs_seen s) (reconciled_entries vs) \<and>
    distinct (map variance_key (reconciled_entries vs))"
  using assms
proof (induction vs arbitrary: s)
  case Nil
  then show ?case by simp
next
  case (Cons v vs)
  then obtain s1 where s1: "verify_step ev s v = Some s1" and l: "verify_loop ev s1 vs = Some s'"
    by (auto split: option.splits)
  obtain fs gs where g: "vs_findings s1 = vs_findings s @ fs" "vs_findings s' = vs_findings s1 @ gs"
    using verify_step_findings [OF s1] verify_loop_findings [OF l] by blast
  have "fs @ gs = []" using Cons.prems(2) unfolding g by simp
  with g have f: "vs_findings s1 = vs_findings s" "vs_findings s' = vs_findings s1" by simp_all
  have split: "reconciled_entries (v # vs) = reconciled_entries [v] @ reconciled_entries vs"
    by (auto split: json.splits)
  have single: "distinct (map variance_key (reconciled_entries [v]))" by (auto split: json.splits)
  from verify_step_clean [OF s1 f(1)] Cons.IH [OF l f(2)] single
  show ?case unfolding split by (auto simp: list_all_iff)
qed

definition variances_of :: "(string \<times> json) list \<Rightarrow> json list" where
  "variances_of rj = (case obj_get rj ''variances'' of JList vs \<Rightarrow> vs | _ \<Rightarrow> [])"

lemma verified_clean:
  assumes "verify_case_result rj ev = Some verdict" "vv_status verdict = VERIFIED"
  shows "variances_of rj \<noteq> [] \<and> list_all well_shaped (variances_of rj) \<and>
    list_all (entry_supported ev) (reconciled_entries (variances_of rj)) \<and>
    distinct (map variance_key (reconciled_entries (variances_of rj))) \<and>
    vv_checked verdict = length (reconciled_entries (variances_of rj)) \<and>
    (\<forall>f \<in> set ev. ef_planned f \<noteq> None \<longrightarrow>
      fact_key f \<in> set (map variance_key (reconciled_entries (variances_of rj))))"
proof -
  from assms obtain x xs s where v: "obj_get rj ''variances'' = JList (x # xs)"
    and l: "verify_loop ev \<lparr>vs_findings = [], vs_checked = 0, vs_seen = {}\<rparr> (x # xs) = Some s"
    and f: "vs_findings s = []" "missing_facts ev (vs_seen s) = []" and c: "vv_checked verdict = vs_checked s"
    by (auto simp: verify_case_result_def Let_def split: json.splits list.splits option.splits if_splits)
  from verify_loop_clean [OF l] f have "list_all well_shaped (x # xs) \<and>
      vs_seen s = set (map variance_key (reconciled_entries (x # xs))) \<and>
      vs_checked s = length (reconciled_entries (x # xs)) \<and>
      list_all (entry_supported ev) (reconciled_entries (x # xs)) \<and>
      distinct (map variance_key (reconciled_entries (x # xs)))"
    by (simp add: list_all_iff del: reconciled_entries_simps)
  moreover from f(2) have "\<forall>f \<in> set ev. ef_planned f \<noteq> None \<longrightarrow> fact_key f \<in> vs_seen s"
    by (auto simp: missing_facts_def filter_empty_conv)
  ultimately show ?thesis using v c by (simp add: variances_of_def del: reconciled_entries_simps)
qed

end
