(* ===== verification/Verifier_Facts.thy ===== *)
theory Verifier_Facts
  imports Verifier
begin

text \<open>
  The verifier's properties: a completed case is supported entry by entry, the calculator's own
  output passes, and on bounded evidence verification always returns a verdict unless an entry
  states a signalling NaN.
\<close>

section \<open>Completed means supported\<close>

text \<open>C8: a case is finalised as completed only if its result lists variances, all of them well
  shaped, at least one is reconciled, every reconciled entry matches an owned and current piece
  of evidence in its inputs and restates the declared arithmetic to the digit, no two entries
  share a grade and interval, every planned piece of evidence is covered, and nothing is
  unresolved.\<close>

theorem completed_is_supported:
  assumes "verify_case_result rj ev = Some verdict"
    and "finalize_case_status verdict unresolved = COMPLETED"
  shows "\<not> unresolved \<and> reconciled_entries (variances_of rj) \<noteq> [] \<and>
    list_all well_shaped (variances_of rj) \<and>
    list_all (entry_supported ev) (reconciled_entries (variances_of rj)) \<and>
    distinct (map variance_key (reconciled_entries (variances_of rj))) \<and>
    (\<forall>f \<in> set ev. ef_planned f \<noteq> None \<longrightarrow>
      fact_key f \<in> set (map variance_key (reconciled_entries (variances_of rj))))"
proof -
  from assms(2) have v: "vv_status verdict = VERIFIED" "vv_checked verdict \<noteq> 0" "\<not> unresolved"
    by (auto simp: finalize_case_status_def verdict_verified_def split: if_splits)
  from verified_clean [OF assms(1) v(1)] v show ?thesis by auto
qed

section \<open>The calculator's output is accepted\<close>

text \<open>\<open>_variance_entry\<close> of \<open>reconciliation_case.py\<close>: the calculator's dictionary with its status.\<close>

definition variance_entry :: "fuel_variance_result \<Rightarrow> (string \<times> json) list" where
  "variance_entry r = fuel_variance_to_dict r @ [(''status'', JStr ''reconciled'')]"

definition evidence_of :: "quantity_input \<Rightarrow> quantity_input \<Rightarrow> evidence_fact" where
  "evidence_of a p = \<lparr>ef_fuel_grade = fuel_grade_value (qi_fuel_grade a),
    ef_period_start = isoformat (qi_period_start a), ef_period_end = isoformat (qi_period_end a),
    ef_actual = qi_value a, ef_planned = Some (qi_value p), ef_owner_ok = True, ef_is_current = True\<rparr>"

lemma entry_gets [simp]:
  "obj_get (variance_entry r) ''status'' = JStr ''reconciled''"
  "obj_get (variance_entry r) ''fuel_grade'' = JStr (fuel_grade_value (fv_fuel_grade r))"
  "obj_get (variance_entry r) ''period_start'' = JStr (isoformat (fv_period_start r))"
  "obj_get (variance_entry r) ''period_end'' = JStr (isoformat (fv_period_end r))"
  "obj_get (variance_entry r) ''delta'' = JStr (dec_str (fv_delta r))"
  "obj_get (variance_entry r) ''percent'' = opt_str (fv_percent r)"
  "stated_decimal (variance_entry r) ''actual'' = Some (Finite (fv_actual_unrounded r))"
  "stated_decimal (variance_entry r) ''planned'' = Some (Finite (fv_planned_unrounded r))"
  "variance_key (variance_entry r) = (fuel_grade_value (fv_fuel_grade r),
     isoformat (fv_period_start r), isoformat (fv_period_end r))"
  by (simp_all add: variance_entry_def fuel_variance_to_dict_def obj_get_def obj_get_default_def
      stated_decimal_def parse_dec_str variance_key_def)

lemma match_evidence_key:
  "match_evidence (variance_entry r) ev = find (\<lambda>f. fact_key f = variance_key (variance_entry r)) ev"
  by (simp add: match_evidence_def fact_key_def)

lemma find_distinct_key:
  "distinct (map k xs) \<Longrightarrow> x \<in> set xs \<Longrightarrow> find (\<lambda>y. k y = k x) xs = Some x"
  by (induction xs) (auto simp: image_iff)

lemma variance_entry_supported:
  assumes r: "fuel_variance a (Some p) False = CalcResult r"
    and ev: "evidence_of a p \<in> set ev" "distinct (map fact_key ev)"
  shows "variance_key (variance_entry r) = fact_key (evidence_of a p)"
    and "entry_supported ev (variance_entry r)"
proof -
  from r obtain pct where
    f: "variance_figures (qi_value a) (qi_value p) = Some (fv_delta_unrounded r, fv_delta r, pct)"
    and q: "fv_percent r = map_option snd pct" "fv_actual_unrounded r = qi_value a"
      "fv_planned_unrounded r = qi_value p" "fv_fuel_grade r = qi_fuel_grade a"
      "fv_period_start r = qi_period_start a" "fv_period_end r = qi_period_end a"
    using fuel_variance_fields by blast
  show k: "variance_key (variance_entry r) = fact_key (evidence_of a p)"
    using q by (simp add: fact_key_def evidence_of_def)
  have "match_evidence (variance_entry r) ev = Some (evidence_of a p)"
    unfolding match_evidence_key k using find_distinct_key [OF ev(2,1)] .
  moreover have "calculator_figures (qi_value a) (qi_value p) = Some (fv_delta r, fv_percent r)"
    by (simp add: calculator_figures_def f q)
  ultimately show "entry_supported ev (variance_entry r)"
    unfolding entry_supported_def
    by (intro exI [of _ "evidence_of a p"] exI [of _ "qi_value p"] exI [of _ "qi_value a"]
        exI [of _ "fv_delta r"] exI [of _ "fv_percent r"])
      (simp add: evidence_of_def q)
qed

lemma verify_loop_accepts:
  assumes "\<forall>r \<in> set rs. entry_supported ev (variance_entry r) \<and>
      variance_key (variance_entry r) \<notin> vs_seen s"
    and "distinct (map (\<lambda>r. variance_key (variance_entry r)) rs)"
  shows "verify_loop ev s (map (\<lambda>r. JObj (variance_entry r)) rs) =
    Some (s\<lparr>vs_checked := vs_checked s + length rs,
      vs_seen := vs_seen s \<union> (\<lambda>r. variance_key (variance_entry r)) ` set rs\<rparr>)"
  using assms
proof (induction rs arbitrary: s)
  case Nil
  then show ?case by simp
next
  case (Cons r rs)
  let ?k = "variance_key (variance_entry r)"
  let ?s = "s\<lparr>vs_seen := insert ?k (vs_seen s), vs_checked := vs_checked s + 1\<rparr>"
  have "verify_reconciled (variance_entry r) ev = Some None"
    using Cons.prems by (simp add: verify_reconciled_None del: entry_gets)
  then have step: "verify_step ev s (JObj (variance_entry r)) = Some ?s"
    using Cons.prems by (simp add: verify_step_def Let_def del: entry_gets(9))
  have "verify_loop ev ?s (map (\<lambda>r. JObj (variance_entry r)) rs) =
      Some (?s\<lparr>vs_checked := vs_checked ?s + length rs,
        vs_seen := vs_seen ?s \<union> (\<lambda>r. variance_key (variance_entry r)) ` set rs\<rparr>)"
  proof (rule Cons.IH)
    have "variance_key (variance_entry q) \<noteq> ?k" if "q \<in> set rs" for q
    proof
      assume "variance_key (variance_entry q) = ?k"
      then have "?k \<in> (\<lambda>r. variance_key (variance_entry r)) ` set rs"
        using that by (intro image_eqI [where x = q]) simp_all
      with Cons.prems(2) show False by (simp del: entry_gets)
    qed
    with Cons.prems(1) show "\<forall>r \<in> set rs. entry_supported ev (variance_entry r) \<and>
        variance_key (variance_entry r) \<notin> vs_seen ?s" by (simp del: entry_gets)
    show "distinct (map (\<lambda>r. variance_key (variance_entry r)) rs)"
      using Cons.prems(2) by (simp del: entry_gets)
  qed
  with step show ?case by (simp del: entry_gets)
qed

type_synonym reconciled_triple = "quantity_input \<times> quantity_input \<times> fuel_variance_result"

definition triple_ok :: "reconciled_triple \<Rightarrow> bool" where
  "triple_ok t \<longleftrightarrow> (case t of (a, p, r) \<Rightarrow> fuel_variance a (Some p) False = CalcResult r)"

definition triple_fact :: "reconciled_triple \<Rightarrow> evidence_fact" where
  "triple_fact t = (case t of (a, p, r) \<Rightarrow> evidence_of a p)"

definition triple_entry :: "reconciled_triple \<Rightarrow> json" where
  "triple_entry t = (case t of (a, p, r) \<Rightarrow> JObj (variance_entry r))"

lemma accepted_variances:
  assumes "ts \<noteq> []" and "list_all triple_ok ts" and "distinct (map (fact_key \<circ> triple_fact) ts)"
    and "obj_get rj ''variances'' = JList (map triple_entry ts)"
  shows "verify_case_result rj (map triple_fact ts) =
    Some \<lparr>vv_status = VERIFIED, vv_checked = length ts, vv_findings = []\<rparr>"
proof -
  let ?ev = "map triple_fact ts" and ?rs = "map (snd \<circ> snd) ts"
  have d: "distinct (map fact_key ?ev)" using assms(3) by simp
  have each: "entry_supported ?ev (variance_entry r) \<and>
      variance_key (variance_entry r) = fact_key (triple_fact (a, p, r))"
    if "(a, p, r) \<in> set ts" for a p r
  proof -
    have "fuel_variance a (Some p) False = CalcResult r"
      using assms(2) that by (auto simp: list_all_iff triple_ok_def)
    moreover have "evidence_of a p \<in> set ?ev" using that by (force simp: triple_fact_def)
    ultimately show ?thesis using variance_entry_supported [OF _ _ d] by (simp add: triple_fact_def)
  qed
  have keys: "map (\<lambda>r. variance_key (variance_entry r)) ?rs = map (fact_key \<circ> triple_fact) ts"
    using each by (auto simp del: entry_gets)
  have entries: "map triple_entry ts = map (\<lambda>r. JObj (variance_entry r)) ?rs"
    by (auto simp: triple_entry_def)
  have sup: "\<forall>r \<in> set ?rs. entry_supported ?ev (variance_entry r)"
    using each by auto
  let ?s0 = "\<lparr>vs_findings = [], vs_checked = 0, vs_seen = {}\<rparr>"
  have loop: "verify_loop ?ev ?s0 (map triple_entry ts) =
      Some \<lparr>vs_findings = [], vs_checked = length ts, vs_seen = set (map (fact_key \<circ> triple_fact) ts)\<rparr>"
    unfolding entries
    using verify_loop_accepts [of ?rs ?ev ?s0] sup assms(3)
    unfolding keys [symmetric] by (simp del: entry_gets map_map)
  have "missing_facts ?ev (set (map (fact_key \<circ> triple_fact) ts)) = []"
    by (auto simp: missing_facts_def filter_empty_conv)
  moreover obtain x xs where "map triple_entry ts = x # xs" using assms(1) by (cases ts) auto
  ultimately show ?thesis
    using loop assms(4) by (simp add: verify_case_result_def Let_def)
qed

text \<open>C35: the two independent implementations agree: a result made of the calculator's own
  variances, one per grade and interval, is verified against the evidence it was computed from,
  with every entry checked and no finding.\<close>

theorem verifier_accepts_calculator:
  assumes "ts \<noteq> []" and "list_all triple_ok ts" and "distinct (map (fact_key \<circ> triple_fact) ts)"
    and "obj_get rj ''variances'' = JList (map triple_entry ts)"
  shows "verify_case_result rj (map triple_fact ts) =
    Some \<lparr>vv_status = VERIFIED, vv_checked = length ts, vv_findings = []\<rparr>"
  using assms by (rule accepted_variances)

theorem verifier_accepts_calculator_witness:
  "\<exists>r. verify_case_result [(''variances'', JList [JObj (variance_entry r)])]
      [evidence_of (sample_qty 1050) (sample_qty 1000)] =
    Some \<lparr>vv_status = VERIFIED, vv_checked = 1, vv_findings = []\<rparr>"
proof -
  have "\<exists>r. fuel_variance (sample_qty 1050) (Some (sample_qty 1000)) False = CalcResult r"
    using fuel_variance_computes sample_qty_bounds sample_comparable by blast
  then obtain r where r: "fuel_variance (sample_qty 1050) (Some (sample_qty 1000)) False = CalcResult r"
    by blast
  let ?t = "(sample_qty 1050, sample_qty 1000, r)"
  have "verify_case_result [(''variances'', JList [JObj (variance_entry r)])] (map triple_fact [?t]) =
      Some \<lparr>vv_status = VERIFIED, vv_checked = length [?t], vv_findings = []\<rparr>"
    using r by (intro verifier_accepts_calculator) (simp_all add: triple_ok_def triple_entry_def obj_get_def)
  then show ?thesis by (auto simp: triple_fact_def)
qed

text \<open>The sample result is completed, so it is supported.\<close>

theorem completed_is_supported_witness:
  "\<exists>r. list_all (entry_supported [evidence_of (sample_qty 1050) (sample_qty 1000)])
    (reconciled_entries (variances_of [(''variances'', JList [JObj (variance_entry r)])]))"
proof -
  obtain r where r: "fuel_variance (sample_qty 1050) (Some (sample_qty 1000)) False = CalcResult r"
    using fuel_variance_computes sample_qty_bounds sample_comparable by blast
  let ?t = "(sample_qty 1050, sample_qty 1000, r)"
  let ?rj = "[(''variances'', JList [JObj (variance_entry r)])]"
  have "verify_case_result ?rj (map triple_fact [?t]) =
      Some \<lparr>vv_status = VERIFIED, vv_checked = length [?t], vv_findings = []\<rparr>"
    using r by (intro accepted_variances) (simp_all add: triple_ok_def triple_entry_def obj_get_def)
  from completed_is_supported [OF this, of False] show ?thesis
    by (intro exI [of _ r]) (simp add: triple_fact_def finalize_case_status_def verdict_verified_def)
qed

section \<open>Totality\<close>

definition evidence_bounded :: "evidence_fact list \<Rightarrow> bool" where
  "evidence_bounded ev \<longleftrightarrow> (\<forall>f \<in> set ev. within_bounds (ef_actual f) \<and>
    (\<forall>p. ef_planned f = Some p \<longrightarrow> within_bounds p))"

definition states_snan :: "json \<Rightarrow> bool" where
  "states_snan v \<longleftrightarrow> (\<exists>o'. v = JObj o' \<and>
    (stated_decimal o' ''actual'' = Some SNaN \<or> stated_decimal o' ''planned'' = Some SNaN))"

lemma figures_defined: "within_bounds a \<Longrightarrow> within_bounds p \<Longrightarrow> \<exists>x. calculator_figures a p = Some x"
  using variance_figures_defined [of a p] by (auto simp: calculator_figures_def)

lemma verify_reconciled_defined:
  assumes "evidence_bounded ev" "\<not> states_snan (JObj v)"
  shows "verify_reconciled v ev \<noteq> None"
proof (cases "match_evidence v ev")
  case None
  then show ?thesis by (simp add: verify_reconciled_def)
next
  case (Some f)
  then have f: "f \<in> set ev" by (auto simp: match_evidence_def find_Some_iff)
  have fig: "ef_planned f = Some p \<Longrightarrow> \<exists>x. independent_delta_percent (ef_actual f) p = Some x" for p
    using assms(1) f figures_defined [of "ef_actual f" p]
    by (simp add: evidence_bounded_def verifier_agrees)
  have ne: "d \<noteq> SNaN \<Longrightarrow> decimal_ne d x \<noteq> None" for d x
    by (auto simp: decimal_ne_def split: decimal.splits)
  have sn: "stated_decimal v ''actual'' \<noteq> Some SNaN" "stated_decimal v ''planned'' \<noteq> Some SNaN"
    using assms(2) by (auto simp: states_snan_def)
  show ?thesis
  proof (cases "ef_planned f")
    case None
    with Some show ?thesis by (simp add: verify_reconciled_def)
  next
    case p: (Some p)
    obtain d pct where fg: "independent_delta_percent (ef_actual f) p = Some (d, pct)"
      using fig [OF p] by auto
    show ?thesis
    proof (cases "stated_decimal v ''actual'' = None \<or> stated_decimal v ''planned'' = None")
      case True
      with Some p show ?thesis by (auto simp: verify_reconciled_def split: option.splits)
    next
      case False
      then obtain sa sp where st: "stated_decimal v ''actual'' = Some sa" "stated_decimal v ''planned'' = Some sp"
        by auto
      then obtain x y where "decimal_ne sa (ef_actual f) = Some x" "decimal_ne sp p = Some y"
        using sn ne by (metis not_None_eq)
      with Some p st fg show ?thesis
        by (cases x; cases y) (simp_all add: verify_reconciled_def)
    qed
  qed
qed

lemma verify_step_defined:
  assumes "evidence_bounded ev" "\<not> states_snan v"
  shows "\<exists>s'. verify_step ev s v = Some s'"
proof (cases v)
  case (JObj o')
  obtain y where "verify_reconciled o' ev = Some y"
    using verify_reconciled_defined [OF assms(1), of o'] assms(2) JObj by auto
  with JObj show ?thesis by (cases y) (simp_all add: verify_step_def Let_def)
qed (simp_all add: verify_step_def)

lemma verify_loop_defined:
  "evidence_bounded ev \<Longrightarrow> list_all (\<lambda>v. \<not> states_snan v) vs \<Longrightarrow> \<exists>s'. verify_loop ev s vs = Some s'"
proof (induction vs arbitrary: s)
  case Nil
  then show ?case by simp
next
  case (Cons v vs)
  then obtain s1 where "verify_step ev s v = Some s1"
    using verify_step_defined [of ev v s] by auto
  with Cons show ?case by simp
qed

text \<open>on evidence within the contract's bounds the verifier always returns a verdict, whatever
  the result says, unless an entry states a signalling NaN (whose comparison raises outside the
  guarded block).\<close>

theorem verify_case_result_total:
  assumes "evidence_bounded ev" and "list_all (\<lambda>v. \<not> states_snan v) (variances_of rj)"
  shows "\<exists>verdict. verify_case_result rj ev = Some verdict"
proof (cases "\<exists>x xs. obj_get rj ''variances'' = JList (x # xs)")
  case True
  then obtain x xs where v: "obj_get rj ''variances'' = JList (x # xs)" by blast
  then obtain s where "verify_loop ev \<lparr>vs_findings = [], vs_checked = 0, vs_seen = {}\<rparr> (x # xs) = Some s"
    using verify_loop_defined [OF assms(1), of "x # xs"] assms(2) by (auto simp: variances_of_def)
  with v show ?thesis by (simp add: verify_case_result_def Let_def)
next
  case False
  then show ?thesis by (auto simp: verify_case_result_def split: json.splits list.splits)
qed

theorem verify_case_result_total_witness:
  "\<exists>verdict. verify_case_result [(''variances'', JList [JObj [(''status'', JStr ''reconciled'')]])]
    [evidence_of (sample_qty 1050) (sample_qty 1000)] = Some verdict"
  using sample_qty_bounds
  by (intro verify_case_result_total)
    (auto simp: evidence_bounded_def evidence_of_def variances_of_def obj_get_def states_snan_def stated_decimal_def)

end
