(* ===== verification/Recovery.thy ===== *)
theory Recovery
  imports Prelude
begin

text \<open>
  Bounded recovery selection (\<open>packages/shared/eastmed_shared/reconciliation/recovery.py\<close>) and
  the reliability runbook controller (\<open>runbooks.py\<close> of the same package).
\<close>

section \<open>Recovery selection\<close>

datatype task_failure_kind =
    TRANSIENT_PROVIDER
  | MALFORMED_OUTPUT
  | PROVIDER_OUTAGE
  | REFUSAL
  | MISSING_MACHINE_DATA
  | INTEGRITY_FAILURE
  | BUDGET_EXHAUSTED

datatype recovery_action =
    RETRY
  | FAILOVER_ALTERNATE
  | WAIT_FOR_MACHINE_DATA
  | DISABLE_CAPABILITY
  | STOP_UNRESOLVED

definition RUNBOOK_ALLOWLIST :: "string list" where
  "RUNBOOK_ALLOWLIST = [''retry_same_stage'', ''failover_alternate_provider'',
    ''await_machine_data'', ''disable_capability'']"

primrec action_runbook :: "recovery_action \<Rightarrow> string option" where
  "action_runbook RETRY = Some ''retry_same_stage''"
| "action_runbook FAILOVER_ALTERNATE = Some ''failover_alternate_provider''"
| "action_runbook WAIT_FOR_MACHINE_DATA = Some ''await_machine_data''"
| "action_runbook DISABLE_CAPABILITY = Some ''disable_capability''"
| "action_runbook STOP_UNRESOLVED = None"

record recovery_decision =
  rd_action :: recovery_action
  rd_runbook_id :: "string option"
  rd_reason :: string

text \<open>The dataclass checks itself after construction; \<open>None\<close> is its \<open>ValueError\<close>.\<close>

definition recovery_post_init :: "recovery_decision \<Rightarrow> recovery_decision option" where
  "recovery_post_init d =
    (case rd_runbook_id d of
       Some rb \<Rightarrow> if rb \<notin> set RUNBOOK_ALLOWLIST then None else Some d
     | None \<Rightarrow> Some d)"

definition decision :: "recovery_action \<Rightarrow> string \<Rightarrow> recovery_decision option" where
  "decision action reason =
    recovery_post_init \<lparr>rd_action = action, rd_runbook_id = action_runbook action, rd_reason = reason\<rparr>"

definition select_recovery ::
  "task_failure_kind \<Rightarrow> int \<Rightarrow> int \<Rightarrow> bool \<Rightarrow> bool \<Rightarrow> recovery_decision option" where
  "select_recovery failure attempts max_attempts alternate_available within_data_deadline =
    (if failure = INTEGRITY_FAILURE then
       decision DISABLE_CAPABILITY ''unknown integrity failure disables''
     else if failure = BUDGET_EXHAUSTED then
       decision STOP_UNRESOLVED ''cost budget exhausted''
     else if failure = MISSING_MACHINE_DATA then
       (if within_data_deadline
        then decision WAIT_FOR_MACHINE_DATA ''await authorized machine data''
        else decision STOP_UNRESOLVED ''missing data past deadline'')
     else
       let at_limit = (attempts \<ge> max_attempts) in
       if failure \<in> {TRANSIENT_PROVIDER, MALFORMED_OUTPUT} then
         (if \<not> at_limit then decision RETRY ''retry transient/malformed within attempt limit''
          else if alternate_available then
            decision FAILOVER_ALTERNATE ''attempts exhausted; use alternate''
          else decision STOP_UNRESOLVED ''attempts exhausted; no alternate'')
       else if alternate_available \<and> \<not> at_limit then
         decision FAILOVER_ALTERNATE ''select authorized alternate path''
       else decision STOP_UNRESOLVED ''no useful retry or alternate remains'')"

lemma decision_simp [guard_simps]:
  "decision a r = Some \<lparr>rd_action = a, rd_runbook_id = action_runbook a, rd_reason = r\<rparr>"
  by (cases a) (simp_all add: decision_def recovery_post_init_def RUNBOOK_ALLOWLIST_def)

text \<open>recovery selection never raises and only names allow-listed runbooks; it retries only a
  transient or malformed failure below the attempt limit, waits only for missing data inside its
  deadline, disables exactly on an integrity failure, and in every remaining case stops or fails
  over to an alternate that is available.\<close>

theorem select_recovery_bounded:
  "\<exists>d. select_recovery f n m alt dl = Some d \<and>
    (\<forall>rb. rd_runbook_id d = Some rb \<longrightarrow> rb \<in> set RUNBOOK_ALLOWLIST) \<and>
    (rd_action d = RETRY \<longleftrightarrow> f \<in> {TRANSIENT_PROVIDER, MALFORMED_OUTPUT} \<and> n < m) \<and>
    (rd_action d = WAIT_FOR_MACHINE_DATA \<longleftrightarrow> f = MISSING_MACHINE_DATA \<and> dl) \<and>
    (rd_action d = DISABLE_CAPABILITY \<longleftrightarrow> f = INTEGRITY_FAILURE) \<and>
    (rd_action d = FAILOVER_ALTERNATE \<longrightarrow> alt \<and> f \<noteq> BUDGET_EXHAUSTED) \<and>
    (rd_action d = STOP_UNRESOLVED \<longleftrightarrow> rd_runbook_id d = None)"
  by (cases f) (auto simp: select_recovery_def guard_simps RUNBOOK_ALLOWLIST_def Let_def)

theorem select_recovery_bounded_witness:
  "\<exists>d. select_recovery REFUSAL 3 3 True True = Some d \<and> rd_action d \<noteq> RETRY"
  using select_recovery_bounded [of REFUSAL 3 3 True True] by auto

section \<open>Runbook controller\<close>

datatype runbook_precondition =
    HEALTHY_HEARTBEAT_CURRENT_EPOCH
  | LEASE_EXPIRED
  | MISSING_HEARTBEAT_UNHEALTHY
  | PROVIDER_UNAVAILABLE_ALTERNATE_QUALIFIED
  | QUEUE_LOSS_TASKS_DURABLE
  | OBJECTIVE_REGRESSION
  | COMPROMISED_EVIDENCE_OR_REVOKED_RIGHTS

primrec runbook_precondition_value :: "runbook_precondition \<Rightarrow> string" where
  "runbook_precondition_value HEALTHY_HEARTBEAT_CURRENT_EPOCH = ''healthy_heartbeat_current_epoch''"
| "runbook_precondition_value LEASE_EXPIRED = ''lease_expired''"
| "runbook_precondition_value MISSING_HEARTBEAT_UNHEALTHY = ''missing_heartbeat_unhealthy''"
| "runbook_precondition_value PROVIDER_UNAVAILABLE_ALTERNATE_QUALIFIED =
     ''provider_unavailable_alternate_qualified''"
| "runbook_precondition_value QUEUE_LOSS_TASKS_DURABLE = ''queue_loss_tasks_durable''"
| "runbook_precondition_value OBJECTIVE_REGRESSION = ''objective_regression''"
| "runbook_precondition_value COMPROMISED_EVIDENCE_OR_REVOKED_RIGHTS =
     ''compromised_evidence_or_revoked_rights''"

datatype runbook_api_call =
    RENEW_LEASE
  | CLAIM_EXPIRED
  | RESTART_PROCESS
  | SELECT_ALTERNATE_PROVIDER
  | SCAN_DUE_TASKS
  | RESTORE_PREVIOUS_PACKAGE
  | BLOCK_SOURCE
  | INVALIDATE_DEPENDENT_CASES

primrec runbook_api_call_value :: "runbook_api_call \<Rightarrow> string" where
  "runbook_api_call_value RENEW_LEASE = ''renew_lease''"
| "runbook_api_call_value CLAIM_EXPIRED = ''claim_expired''"
| "runbook_api_call_value RESTART_PROCESS = ''restart_process''"
| "runbook_api_call_value SELECT_ALTERNATE_PROVIDER = ''select_alternate_provider''"
| "runbook_api_call_value SCAN_DUE_TASKS = ''scan_due_tasks''"
| "runbook_api_call_value RESTORE_PREVIOUS_PACKAGE = ''restore_previous_package''"
| "runbook_api_call_value BLOCK_SOURCE = ''block_source''"
| "runbook_api_call_value INVALIDATE_DEPENDENT_CASES = ''invalidate_dependent_cases''"

datatype runbook_rejection =
    UNKNOWN_RUNBOOK
  | PRECONDITION_NOT_MET
  | API_CALL_NOT_ALLOWED
  | BLAST_RADIUS_EXCEEDED

record runbook_spec =
  rs_runbook_id :: string
  rs_trigger :: string
  rs_precondition :: runbook_precondition
  rs_max_blast_radius :: int
  rs_allowed_api_calls :: "runbook_api_call list"
  rs_success_probe :: string
  rs_rollback_runbook_id :: "string option"
  rs_terminal_failure :: string

definition spec_of ::
  "string \<Rightarrow> string \<Rightarrow> runbook_precondition \<Rightarrow> int \<Rightarrow> runbook_api_call list \<Rightarrow> string \<Rightarrow> string \<Rightarrow>
    string \<times> runbook_spec" where
  "spec_of i trig pre radius calls probe term =
    (i, \<lparr>rs_runbook_id = i, rs_trigger = trig, rs_precondition = pre, rs_max_blast_radius = radius,
      rs_allowed_api_calls = calls, rs_success_probe = probe, rs_rollback_runbook_id = None,
      rs_terminal_failure = term\<rparr>)"

definition RUNBOOK_REGISTRY :: "(string \<times> runbook_spec) list" where
  "RUNBOOK_REGISTRY =
    [spec_of ''renew_task_lease'' ''healthy worker heartbeat with the current lease epoch''
       HEALTHY_HEARTBEAT_CURRENT_EPOCH 1 [RENEW_LEASE]
       ''lease renewed and no competing owner holds it''
       ''epoch no longer current: yield to the newer lease holder'',
     spec_of ''recover_expired_task'' ''lease expired; prior stage/effect classified''
       LEASE_EXPIRED 1 [CLAIM_EXPIRED]
       ''a newer epoch is claimed and the stale commit is denied''
       ''attempt budget exhausted: mark the task dead'',
     spec_of ''restart_worker'' ''missing heartbeat plus a confirmed unhealthy process''
       MISSING_HEARTBEAT_UNHEALTHY 1 [RESTART_PROCESS]
       ''worker healthy and pending tasks advance''
       ''process will not become healthy: disable and page out'',
     spec_of ''failover_model'' ''provider unavailable and a qualified alternate exists''
       PROVIDER_UNAVAILABLE_ALTERNATE_QUALIFIED 1 [SELECT_ALTERNATE_PROVIDER]
       ''alternate shares schema/policy/rights and its probe passes''
       ''no qualified alternate: disable the capability'',
     spec_of ''rebuild_wakeups'' ''queue loss with the durable tasks intact''
       QUEUE_LOSS_TASKS_DURABLE 100000 [SCAN_DUE_TASKS]
       ''due-task coverage reconciled against the database''
       ''durable store unreadable: disable scheduling'',
     spec_of ''rollback_canary'' ''objective regression against the release thresholds''
       OBJECTIVE_REGRESSION 100000 [RESTORE_PREVIOUS_PACKAGE]
       ''qualified previous package restored and effects reconciled''
       ''previous package unavailable: disable the workflow'',
     spec_of ''quarantine_source'' ''compromised evidence or revoked source rights''
       COMPROMISED_EVIDENCE_OR_REVOKED_RIGHTS 100000 [BLOCK_SOURCE, INVALIDATE_DEPENDENT_CASES]
       ''source blocked and dependent cases invalidated''
       ''dependent set cannot be bounded: disable the capability'']"

record runbook_admission =
  ra_admitted :: bool
  ra_runbook_id :: string
  ra_reason :: string
  ra_rejection :: "runbook_rejection option"
  ra_spec :: "runbook_spec option"

definition authorize_runbook ::
  "string \<Rightarrow> runbook_precondition \<Rightarrow> runbook_api_call list \<Rightarrow> int \<Rightarrow> runbook_admission" where
  "authorize_runbook runbook_id precondition requested_api_calls blast_radius =
    (case map_of RUNBOOK_REGISTRY runbook_id of
       None \<Rightarrow> \<lparr>ra_admitted = False, ra_runbook_id = runbook_id,
         ra_reason = ''runbook is not on the registry'', ra_rejection = Some UNKNOWN_RUNBOOK,
         ra_spec = None\<rparr>
     | Some spec \<Rightarrow>
        if precondition \<noteq> rs_precondition spec then
          \<lparr>ra_admitted = False, ra_runbook_id = runbook_id,
           ra_reason = ''precondition '' @ runbook_precondition_value precondition
             @ '' does not match '' @ runbook_precondition_value (rs_precondition spec),
           ra_rejection = Some PRECONDITION_NOT_MET, ra_spec = Some spec\<rparr>
        else if \<not> set requested_api_calls \<subseteq> set (rs_allowed_api_calls spec) then
          \<lparr>ra_admitted = False, ra_runbook_id = runbook_id,
           ra_reason = ''api calls not allowed: '' @ join '', '' (sort (map runbook_api_call_value
             (filter (\<lambda>c. c \<notin> set (rs_allowed_api_calls spec)) (remdups requested_api_calls)))),
           ra_rejection = Some API_CALL_NOT_ALLOWED, ra_spec = Some spec\<rparr>
        else if blast_radius < 0 \<or> blast_radius > rs_max_blast_radius spec then
          \<lparr>ra_admitted = False, ra_runbook_id = runbook_id,
           ra_reason = ''blast radius '' @ str_int blast_radius @ '' exceeds maximum ''
             @ str_int (rs_max_blast_radius spec),
           ra_rejection = Some BLAST_RADIUS_EXCEEDED, ra_spec = Some spec\<rparr>
        else \<lparr>ra_admitted = True, ra_runbook_id = runbook_id, ra_reason = ''admitted'',
          ra_rejection = None, ra_spec = Some spec\<rparr>)"

text \<open>The seven registered operations as one decision table: precondition, calls, radius.\<close>

definition runbook_permits :: "string \<Rightarrow> runbook_precondition \<Rightarrow> runbook_api_call set \<Rightarrow> int \<Rightarrow> bool" where
  "runbook_permits i pre calls radius \<longleftrightarrow> 0 \<le> radius \<and>
    ((i = ''renew_task_lease'' \<and> pre = HEALTHY_HEARTBEAT_CURRENT_EPOCH \<and> calls \<subseteq> {RENEW_LEASE} \<and> radius \<le> 1) \<or>
     (i = ''recover_expired_task'' \<and> pre = LEASE_EXPIRED \<and> calls \<subseteq> {CLAIM_EXPIRED} \<and> radius \<le> 1) \<or>
     (i = ''restart_worker'' \<and> pre = MISSING_HEARTBEAT_UNHEALTHY \<and> calls \<subseteq> {RESTART_PROCESS} \<and> radius \<le> 1) \<or>
     (i = ''failover_model'' \<and> pre = PROVIDER_UNAVAILABLE_ALTERNATE_QUALIFIED \<and>
        calls \<subseteq> {SELECT_ALTERNATE_PROVIDER} \<and> radius \<le> 1) \<or>
     (i = ''rebuild_wakeups'' \<and> pre = QUEUE_LOSS_TASKS_DURABLE \<and> calls \<subseteq> {SCAN_DUE_TASKS} \<and> radius \<le> 100000) \<or>
     (i = ''rollback_canary'' \<and> pre = OBJECTIVE_REGRESSION \<and> calls \<subseteq> {RESTORE_PREVIOUS_PACKAGE} \<and> radius \<le> 100000) \<or>
     (i = ''quarantine_source'' \<and> pre = COMPROMISED_EVIDENCE_OR_REVOKED_RIGHTS \<and>
        calls \<subseteq> {BLOCK_SOURCE, INVALIDATE_DEPENDENT_CASES} \<and> radius \<le> 100000))"

lemma authorize_runbook_admitted:
  "ra_admitted (authorize_runbook i pre calls radius) \<longleftrightarrow>
      (case map_of RUNBOOK_REGISTRY i of None \<Rightarrow> False
       | Some spec \<Rightarrow> pre = rs_precondition spec \<and> set calls \<subseteq> set (rs_allowed_api_calls spec) \<and>
          0 \<le> radius \<and> radius \<le> rs_max_blast_radius spec)"
    by (auto simp: authorize_runbook_def split: option.split)

text \<open>the controller admits exactly the seven registered operations under their own
  precondition, calls and blast radius; every refusal carries a machine reason, so there is no
  path to an unregistered or widened action.\<close>

theorem authorize_runbook_complete:
  "ra_admitted (authorize_runbook i pre calls radius) \<longleftrightarrow> runbook_permits i pre (set calls) radius"
proof -
  consider "i = ''renew_task_lease''" | "i = ''recover_expired_task''" | "i = ''restart_worker''"
    | "i = ''failover_model''" | "i = ''rebuild_wakeups''" | "i = ''rollback_canary''"
    | "i = ''quarantine_source''" | "i \<notin> fst ` set RUNBOOK_REGISTRY"
    by (simp add: RUNBOOK_REGISTRY_def spec_of_def) blast
  then show ?thesis
  proof cases
    case 8
    then have "map_of RUNBOOK_REGISTRY i = None" by (simp add: map_of_eq_None_iff)
    moreover have "\<not> runbook_permits i pre (set calls) radius"
      using 8 by (simp add: runbook_permits_def RUNBOOK_REGISTRY_def spec_of_def)
    ultimately show ?thesis by (simp add: authorize_runbook_admitted)
  qed (simp_all add: authorize_runbook_admitted runbook_permits_def RUNBOOK_REGISTRY_def spec_of_def conj_ac)
qed

end
