(* ===== verification/Runtime_Facts.thy ===== *)
theory Runtime_Facts
  imports Runtime
begin

text \<open>
  The orchestration as a transition system: any number of workers, each holding claims it was
  issued, run claims, heartbeats, commits and failures in any order and at any time, with the
  scheduler enqueueing and reaping between them. The invariant says what the lease epoch
  protects; the properties are the consequences a caller relies on.
\<close>

section \<open>Steps of the workers\<close>

type_synonym wf_state = "store \<times> task_claim list"

datatype wf_event = Enqueue | Reap | Claim | Heartbeat task_claim | Commit task_claim
  | Fail task_claim | Elsewhere

text \<open>
  The second component collects every claim ever issued. \<open>Elsewhere\<close> is any operation that
  leaves the queue alone (cases, budgets, publications). \<open>1 \<le> max_attempts\<close> is the check
  constraint \<open>attempt_counts_valid\<close> of the table.
\<close>

inductive wf_step :: "wf_state \<Rightarrow> wf_event \<Rightarrow> wf_state \<Rightarrow> bool" where
  wf_enqueue: "1 \<le> max_attempts \<Longrightarrow>
    enqueue_task st acc run stage prio next max_attempts now = (st', task) \<Longrightarrow>
    wf_step (st, cs) Enqueue (st', cs)"
| wf_reap: "reap_expired_tasks st acc now = (st', n) \<Longrightarrow> wf_step (st, cs) Reap (st', cs)"
| wf_idle: "claim_task st acc now lease = (st', None) \<Longrightarrow> wf_step (st, cs) Claim (st', cs)"
| wf_claim: "claim_task st acc now lease = (st', Some c) \<Longrightarrow> wf_step (st, cs) Claim (st', c # cs)"
| wf_heartbeat: "c \<in> set cs \<Longrightarrow> heartbeat st acc c now lease = (st', b) \<Longrightarrow>
    wf_step (st, cs) (Heartbeat c) (st', cs)"
| wf_commit: "c \<in> set cs \<Longrightarrow> commit_stage st acc c now next request artifact = Some (st', out) \<Longrightarrow>
    wf_step (st, cs) (Commit c) (st', cs)"
| wf_fail: "c \<in> set cs \<Longrightarrow> fail_attempt st acc c reason now backoff = (st', out) \<Longrightarrow>
    wf_step (st, cs) (Fail c) (st', cs)"
| wf_elsewhere: "st_tasks st' = st_tasks st \<Longrightarrow> st_attempts st' = st_attempts st \<Longrightarrow>
    st_next st \<le> st_next st' \<Longrightarrow> wf_step (st, cs) Elsewhere (st', cs)"

inductive_cases wf_stepE: "wf_step (st, cs) e s'"

section \<open>The invariant of the queue\<close>

definition task_ok :: "task_row \<Rightarrow> bool" where
  "task_ok t \<longleftrightarrow> wt_lease_epoch t = wt_attempts t \<and> 0 \<le> wt_attempts t \<and>
    wt_attempts t \<le> wt_max_attempts t \<and>
    (wt_status t = TS_READY \<longrightarrow> wt_attempts t < wt_max_attempts t) \<and>
    (wt_status t = TS_LEASED \<longleftrightarrow> wt_lease_until t \<noteq> None)"

definition attempt_ok :: "task_row list \<Rightarrow> attempt_row \<Rightarrow> bool" where
  "attempt_ok tasks a \<longleftrightarrow> (\<exists>t. row_get wt_id (ta_task a) tasks = Some t \<and>
    1 \<le> ta_lease_epoch a \<and> ta_lease_epoch a \<le> wt_lease_epoch t \<and> ta_attempt_no a = ta_lease_epoch a \<and>
    (ta_status a = AT_COMMITTED \<longrightarrow>
      wt_status t = TS_SUCCEEDED \<and> ta_lease_epoch a = wt_lease_epoch t))"

definition attempt_key :: "attempt_row \<Rightarrow> uid \<times> int" where
  "attempt_key a = (ta_task a, ta_lease_epoch a)"

definition queue_inv :: "store \<Rightarrow> bool" where
  "queue_inv st \<longleftrightarrow> distinct (map wt_id (st_tasks st)) \<and> distinct (map ta_id (st_attempts st)) \<and>
    (\<forall>t \<in> set (st_tasks st). wt_id t < st_next st \<and> task_ok t) \<and>
    (\<forall>a \<in> set (st_attempts st). ta_id a < st_next st \<and> attempt_ok (st_tasks st) a) \<and>
    distinct (map attempt_key (st_attempts st))"

definition claim_ok :: "store \<Rightarrow> task_claim \<Rightarrow> bool" where
  "claim_ok st c \<longleftrightarrow> map_option attempt_key (row_get ta_id (tc_attempt_id c) (st_attempts st)) =
    Some (tc_task_id c, tc_lease_epoch c)"

definition wf_inv :: "wf_state \<Rightarrow> bool" where
  "wf_inv s \<longleftrightarrow> queue_inv (fst s) \<and> (\<forall>c \<in> set (snd s). claim_ok (fst s) c) \<and>
    distinct (map tc_attempt_id (snd s))"

lemma upd_task_simps [row_simps]:
  "st_tasks (upd_task i f st) = row_upd wt_id i f (st_tasks st)"
  "st_attempts (upd_task i f st) = st_attempts st" "st_next (upd_task i f st) = st_next st"
  "st_runs (upd_task i f st) = st_runs st"
  by (simp_all add: upd_task_def)

lemma upd_attempt_simps [row_simps]:
  "st_attempts (upd_attempt i f st) = row_upd ta_id i f (st_attempts st)"
  "st_tasks (upd_attempt i f st) = st_tasks st" "st_next (upd_attempt i f st) = st_next st"
  "st_runs (upd_attempt i f st) = st_runs st"
  by (simp_all add: upd_attempt_def)

text \<open>The two ways the queue changes: tasks that have not succeeded move on, attempts get a status.\<close>

lemma queue_inv_map_tasks:
  assumes inv: "queue_inv st"
    and step: "\<And>t. t \<in> set (st_tasks st) \<Longrightarrow> wt_id (g t) = wt_id t \<and> (g t = t \<or>
      wt_status t \<noteq> TS_SUCCEEDED \<and> task_ok (g t) \<and> wt_lease_epoch t \<le> wt_lease_epoch (g t))"
  shows "queue_inv (st\<lparr>st_tasks := map g (st_tasks st)\<rparr>)"
proof -
  have ids: "map (wt_id \<circ> g) (st_tasks st) = map wt_id (st_tasks st)"
    using step by simp
  have keep: "attempt_ok (map g (st_tasks st)) a" if "attempt_ok (st_tasks st) a" for a
  proof -
    from that obtain t where t: "row_get wt_id (ta_task a) (st_tasks st) = Some t"
      and facts: "1 \<le> ta_lease_epoch a" "ta_lease_epoch a \<le> wt_lease_epoch t"
        "ta_attempt_no a = ta_lease_epoch a"
        "ta_status a = AT_COMMITTED \<longrightarrow> wt_status t = TS_SUCCEEDED \<and> ta_lease_epoch a = wt_lease_epoch t"
      unfolding attempt_ok_def by blast
    have "row_get wt_id (ta_task a) (map g (st_tasks st)) = Some (g t)"
      using t step by (simp add: row_get_map)
    moreover have "t \<in> set (st_tasks st)" using t by (rule row_get_in)
    ultimately show ?thesis
      unfolding attempt_ok_def using facts step [of t] by auto
  qed
  have "task_ok (g t)" if "t \<in> set (st_tasks st)" for t
    using inv step [OF that] that unfolding queue_inv_def by metis
  then show ?thesis
    using inv step keep unfolding queue_inv_def by (auto simp: ids)
qed

lemma queue_inv_upd_task:
  assumes inv: "queue_inv st" and t: "row_get wt_id i (st_tasks st) = Some t"
    and "\<And>x. wt_id (f x) = wt_id x" and "task_ok (f t)" and "wt_status t \<noteq> TS_SUCCEEDED"
    and "wt_lease_epoch t \<le> wt_lease_epoch (f t)"
  shows "queue_inv (upd_task i f st)"
proof -
  have "x = t" if "x \<in> set (st_tasks st)" "wt_id x = i" for x
    using inv t that row_get_distinct [of wt_id "st_tasks st" x] by (auto simp: queue_inv_def)
  then show ?thesis
    unfolding upd_task_def row_upd_map by (intro queue_inv_map_tasks [OF inv]) (use assms in auto)
qed

lemma queue_inv_upd_attempt:
  assumes inv: "queue_inv st"
    and keys: "\<And>x. ta_id (f x) = ta_id x" "\<And>x. attempt_key (f x) = attempt_key x"
      "\<And>x. ta_attempt_no (f x) = ta_attempt_no x"
    and ok: "\<And>a. row_get ta_id i (st_attempts st) = Some a \<Longrightarrow> attempt_ok (st_tasks st) (f a)"
  shows "queue_inv (upd_attempt i f st)"
proof -
  have maps: "map ta_id (row_upd ta_id i f (st_attempts st)) = map ta_id (st_attempts st)"
    "map attempt_key (row_upd ta_id i f (st_attempts st)) = map attempt_key (st_attempts st)"
    by (simp_all add: row_upd_def keys)
  have "attempt_ok (st_tasks st) a \<and> ta_id a < st_next st"
    if "a \<in> set (row_upd ta_id i f (st_attempts st))" for a
    using in_row_upd [OF that] inv ok row_get_distinct [of ta_id "st_attempts st"]
    by (auto simp: queue_inv_def keys)
  then show ?thesis
    using inv by (auto simp: queue_inv_def row_simps maps)
qed

lemma attempt_ok_status:
  assumes "attempt_ok tasks a" and "s \<noteq> AT_COMMITTED"
  shows "attempt_ok tasks (a\<lparr>ta_status := s\<rparr>)"
  using assms by (auto simp: attempt_ok_def)

lemma queue_inv_attempt_ok:
  "queue_inv st \<Longrightarrow> row_get ta_id i (st_attempts st) = Some a \<Longrightarrow> attempt_ok (st_tasks st) a"
  by (auto simp: queue_inv_def dest: row_get_in)

lemma queue_inv_task_ok:
  "queue_inv st \<Longrightarrow> row_get wt_id i (st_tasks st) = Some t \<Longrightarrow> task_ok t"
  by (auto simp: queue_inv_def dest: row_get_in)

lemma queue_inv_set_status:
  "queue_inv st \<Longrightarrow> s \<noteq> AT_COMMITTED \<Longrightarrow> queue_inv (upd_attempt i (\<lambda>a. a\<lparr>ta_status := s\<rparr>) st)"
  by (rule queue_inv_upd_attempt)
    (auto simp: attempt_key_def intro: attempt_ok_status queue_inv_attempt_ok)

lemma claim_ok_upd_attempt:
  assumes "claim_ok st c" and "\<And>x. ta_id (f x) = ta_id x" and "\<And>x. attempt_key (f x) = attempt_key x"
  shows "claim_ok (upd_attempt i f st) c"
  using assms by (auto simp: claim_ok_def row_simps option.map_comp o_def)

lemma claim_ok_cong: "st_attempts st' = st_attempts st \<Longrightarrow> claim_ok st' c = claim_ok st c"
  by (simp add: claim_ok_def)

section \<open>Every operation keeps the invariant\<close>

lemma enqueue_keeps:
  assumes inv: "queue_inv st" and "1 \<le> m"
    and eq: "enqueue_task st acc run stage prio next m now = (st', t)"
  shows "queue_inv st'" and "st_attempts st' = st_attempts st" and "st_runs st' = st_runs st"
proof -
  have st': "st' = st\<lparr>st_tasks := st_tasks st @ [t], st_next := st_next st + 1\<rparr>"
    and t: "wt_id t = st_next st" "task_ok t" "wt_lease_epoch t = 0"
    using eq assms(2) by (auto simp: enqueue_task_def Let_def task_ok_def)
  have "attempt_ok (st_tasks st @ [t]) a" if "attempt_ok (st_tasks st) a" for a
    using that by (auto simp: attempt_ok_def row_get_append_new)
  then show "queue_inv st'"
    using inv t by (auto simp: st' queue_inv_def less_Suc_eq dest: in_set_conv_nth [THEN iffD1])
  show "st_attempts st' = st_attempts st" "st_runs st' = st_runs st" by (simp_all add: st')
qed

lemma retire_ok:
  assumes "exhausted acc now t" and "task_ok t"
  shows "wt_id (retire t) = wt_id t" and "wt_status t \<noteq> TS_SUCCEEDED" and "task_ok (retire t)"
    and "wt_lease_epoch (retire t) = wt_lease_epoch t"
  using assms by (simp_all add: exhausted_def lease_expired_def task_ok_def retire_def)

lemma reap_keeps:
  assumes "queue_inv st"
  shows "queue_inv (fst (reap_expired_tasks st acc now))"
  unfolding reap_expired_tasks_def Let_def fst_conv
proof (rule queue_inv_map_tasks [OF assms])
  fix t
  assume "t \<in> set (st_tasks st)"
  with assms have "task_ok t" by (simp add: queue_inv_def)
  then show "wt_id (if exhausted acc now t then retire t else t) = wt_id t \<and>
    ((if exhausted acc now t then retire t else t) = t \<or> wt_status t \<noteq> TS_SUCCEEDED \<and>
     task_ok (if exhausted acc now t then retire t else t) \<and>
     wt_lease_epoch t \<le> wt_lease_epoch (if exhausted acc now t then retire t else t))"
    using retire_ok by (cases "exhausted acc now t") simp_all
qed

lemma reap_frame [simp]:
  "st_attempts (fst (reap_expired_tasks st acc now)) = st_attempts st"
  "st_next (fst (reap_expired_tasks st acc now)) = st_next st"
  "st_runs (fst (reap_expired_tasks st acc now)) = st_runs st"
  by (simp_all add: reap_expired_tasks_def Let_def)

lemma due_query_in: "t \<in> set (due_query st acc now) \<longleftrightarrow> t \<in> set (st_tasks st) \<and> task_due acc now t"
  by (auto simp: due_query_def)

lemma take_lease_ok:
  assumes "task_ok t" and "task_due acc now t"
  shows "task_ok (take_lease now lease t)" and "wt_status t \<noteq> TS_SUCCEEDED"
  using assms by (auto simp: task_ok_def task_due_def lease_expired_def take_lease_def)

text \<open>What a claim did: nothing but the reaping, or one due task leased and one attempt opened.\<close>

lemma claim_task_cases:
  assumes "claim_task st acc now lease = (st', r)"
  obtains (idle) "r = None" "st' = fst (reap_expired_tasks st acc now)" "due_query st' acc now = []"
  | (leased) st1 t rest c a where "r = Some c" "st1 = fst (reap_expired_tasks st acc now)"
      "due_query st1 acc now = t # rest"
      "st' = (upd_task (wt_id t) (take_lease now lease) st1)
        \<lparr>st_attempts := st_attempts st1 @ [a], st_next := st_next st1 + 1\<rparr>"
      "ta_id a = st_next st1" "ta_task a = wt_id t" "ta_attempt_no a = wt_attempts t + 1"
      "ta_lease_epoch a = wt_lease_epoch t + 1" "ta_status a = AT_RUNNING"
      "tc_task_id c = wt_id t" "tc_lease_epoch c = wt_lease_epoch t + 1" "tc_attempt_id c = ta_id a"
      "tc_attempt_no c = wt_attempts t + 1" "tc_stage c = wt_stage t" "tc_run_id c = wt_run t"
proof (cases "due_query (fst (reap_expired_tasks st acc now)) acc now")
  case Nil
  with assms show ?thesis by (auto simp: claim_task_def Let_def intro: idle)
next
  case (Cons t rest)
  with assms show ?thesis
    by (auto simp: claim_task_def Let_def take_lease_def row_simps intro!: leased [OF _ refl Cons])
qed

lemma queue_inv_add_attempt:
  assumes inv: "queue_inv st" and t: "row_get wt_id (ta_task a) (st_tasks st) = Some t"
    and a: "ta_id a = st_next st" "ta_lease_epoch a = wt_lease_epoch t" "1 \<le> ta_lease_epoch a"
      "ta_attempt_no a = ta_lease_epoch a" "ta_status a \<noteq> AT_COMMITTED"
    and fresh: "\<And>b. b \<in> set (st_attempts st) \<Longrightarrow> ta_task b = ta_task a \<Longrightarrow>
      ta_lease_epoch b < ta_lease_epoch a"
  shows "queue_inv (st\<lparr>st_attempts := st_attempts st @ [a], st_next := st_next st + 1\<rparr>)"
proof -
  have "attempt_ok (st_tasks st) a" using t a by (auto simp: attempt_ok_def)
  moreover have "attempt_key a \<notin> attempt_key ` set (st_attempts st)"
    using fresh by (force simp: attempt_key_def)
  moreover have "ta_id a \<notin> ta_id ` set (st_attempts st)"
    using inv a by (force simp: queue_inv_def)
  ultimately show ?thesis
    using inv a by (auto simp: queue_inv_def less_Suc_eq)
qed

lemma claim_keeps:
  assumes inv: "queue_inv st" and eq: "claim_task st acc now lease = (st', r)"
  shows "queue_inv st'" and "\<And>c. claim_ok st c \<Longrightarrow> claim_ok st' c"
    and "\<And>c. r = Some c \<Longrightarrow> claim_ok st' c \<and> tc_attempt_id c = st_next st"
proof -
  have reaped: "queue_inv (fst (reap_expired_tasks st acc now))" by (rule reap_keeps [OF inv])
  have *: "queue_inv st' \<and> (\<forall>c. claim_ok st c \<longrightarrow> claim_ok st' c) \<and>
    (\<forall>c. r = Some c \<longrightarrow> claim_ok st' c \<and> tc_attempt_id c = st_next st)"
    using eq
  proof (cases rule: claim_task_cases)
    case idle
    then show ?thesis using reaped by (auto simp: claim_ok_def)
  next
    case (leased st1 t rest c a)
    have inv1: "queue_inv st1" and at1: "st_attempts st1 = st_attempts st" "st_next st1 = st_next st"
      using reaped leased(2) by simp_all
    have "t \<in> set (due_query st1 acc now)" using leased(3) by simp
    then have t: "t \<in> set (st_tasks st1)" "task_due acc now t" by (simp_all add: due_query_in)
    with inv1 have get: "row_get wt_id (wt_id t) (st_tasks st1) = Some t" and ok: "task_ok t"
      by (auto simp: queue_inv_def intro: row_get_distinct)
    have le: "ta_lease_epoch b \<le> wt_lease_epoch t"
      if "b \<in> set (st_attempts st1)" "ta_task b = wt_id t" for b
      using inv1 that get by (auto simp: queue_inv_def attempt_ok_def)
    let ?st2 = "upd_task (wt_id t) (take_lease now lease) st1"
    have inv2: "queue_inv ?st2"
      by (rule queue_inv_upd_task [OF inv1 get])
        (use take_lease_ok [OF ok t(2)] in \<open>auto simp: take_lease_def\<close>)
    have get2: "row_get wt_id (ta_task a) (st_tasks ?st2) = Some (take_lease now lease t)"
      using get leased(6) by (simp add: row_simps row_get_upd take_lease_def)
    have "queue_inv (?st2\<lparr>st_attempts := st_attempts ?st2 @ [a], st_next := st_next ?st2 + 1\<rparr>)"
      by (rule queue_inv_add_attempt [OF inv2 get2])
        (use leased ok le in \<open>auto simp: row_simps take_lease_def task_ok_def less_le_trans\<close>)
    then have "queue_inv st'" by (simp add: leased(4) row_simps)
    moreover have "row_get ta_id (st_next st) (st_attempts st) = None"
      using inv by (force simp: queue_inv_def row_get_None_iff)
    ultimately show ?thesis
      using leased at1 by (auto simp: claim_ok_def row_get_append_new attempt_key_def)
  qed
  then show "queue_inv st'" and "\<And>c. claim_ok st c \<Longrightarrow> claim_ok st' c"
    and "\<And>c. r = Some c \<Longrightarrow> claim_ok st' c \<and> tc_attempt_id c = st_next st" by blast+
qed

lemma get_task_locked_Some:
  "get_task_locked st i acc = Some t \<longleftrightarrow> row_get wt_id i (st_tasks st) = Some t \<and> wt_account t = acc"
  by (auto simp: get_task_locked_def split: option.splits)

lemma get_task_locked_get:
  "get_task_locked st i acc = Some t \<Longrightarrow> row_get wt_id (wt_id t) (st_tasks st) = Some t"
  by (metis get_task_locked_Some row_get_key)

lemma get_task_locked_id: "get_task_locked st i acc = Some t \<Longrightarrow> wt_id t = i"
  by (auto simp: get_task_locked_Some dest: row_get_key)

definition renew :: "instant \<Rightarrow> int \<Rightarrow> task_row \<Rightarrow> task_row" where
  "renew now lease = (\<lambda>t. t\<lparr>wt_lease_until := Some (now + lease)\<rparr>)"

definition succeed :: "task_row \<Rightarrow> task_row" where
  "succeed = (\<lambda>t. t\<lparr>wt_status := TS_SUCCEEDED, wt_lease_until := None\<rparr>)"

lemma heartbeat_cases:
  assumes "heartbeat st acc c now lease = (st', b)"
  obtains (lost) "\<not> b" "st' = st"
  | (renewed) t where "b" "get_task_locked st (tc_task_id c) acc = Some t" "lease_held c t"
      "st' = upd_task (wt_id t) (renew now lease) st"
  using assms
  by (auto simp: heartbeat_def renew_def split: option.splits if_splits)

lemma commit_stage_cases:
  assumes "commit_stage st acc c now nx rq art = Some (st', out)"
  obtains (missing) "st' = st" "so_status out = CS_FENCED"
  | (stale) t where "get_task_locked st (tc_task_id c) acc = Some t" "\<not> lease_held c t"
      "st' = fence_attempt c st" "so_status out = CS_FENCED"
  | (committed) t a st2 where "get_task_locked st (tc_task_id c) acc = Some t" "lease_held c t"
      "load_attempt st c = Some a" "so_status out = CS_COMMITTED"
      "st2 = upd_task (wt_id t) succeed (upd_attempt (tc_attempt_id c)
        (\<lambda>a. a\<lparr>ta_status := AT_COMMITTED, ta_request_id := rq, ta_artifact_json := art\<rparr>) st)"
      "(case nx of None \<Rightarrow> st' = st2 | Some stage \<Rightarrow> \<exists>run follow.
        enqueue_task st2 acc run stage (wt_priority t) None 3 now = (st', follow))"
proof (cases "get_task_locked st (tc_task_id c) acc")
  case None
  with assms show ?thesis by (auto simp: commit_stage_def fenced_def intro: missing)
next
  case (Some t)
  show ?thesis
  proof (cases "load_attempt st c")
    case None
    with Some assms show ?thesis by (auto simp: commit_stage_def fenced_def intro: missing)
  next
    case (Some a)
    note found = \<open>get_task_locked st (tc_task_id c) acc = Some t\<close> this
    show ?thesis
    proof (cases "lease_held c t")
      case False
      with found assms show ?thesis by (auto simp: commit_stage_def fenced_def intro: stale)
    next
      case True
      show ?thesis
        by (rule committed [OF found(1) True found(2) _ refl])
          (use assms found True in \<open>auto simp: commit_stage_def Let_def succeed_def
            split: option.splits prod.splits\<close>)
    qed
  qed
qed

lemma fail_attempt_cases:
  assumes "fail_attempt st acc c reason now backoff = (st', out)"
  obtains (missing) "st' = st" "so_status out = CS_FENCED"
  | (stale) t where "get_task_locked st (tc_task_id c) acc = Some t" "\<not> lease_held c t"
      "st' = fence_attempt c st" "so_status out = CS_FENCED"
  | (failed) t a where "get_task_locked st (tc_task_id c) acc = Some t" "lease_held c t"
      "load_attempt st c = Some a" "so_status out = CS_COMMITTED"
      "so_terminal out \<longleftrightarrow> wt_max_attempts t \<le> wt_attempts t"
      "st' = upd_task (wt_id t) (\<lambda>x. if wt_max_attempts t \<le> wt_attempts t
          then x\<lparr>wt_lease_until := None, wt_status := TS_DEAD, wt_terminal_reason := Some reason\<rparr>
          else x\<lparr>wt_lease_until := None, wt_status := TS_READY, wt_next_attempt_at := now + backoff\<rparr>)
        (upd_attempt (tc_attempt_id c) (\<lambda>a. a\<lparr>ta_status := AT_FAILED\<rparr>) st)"
  using assms
  by (auto simp: fail_attempt_def Let_def fenced_def split: option.splits if_splits
      intro: missing stale failed)

lemma heartbeat_keeps:
  assumes inv: "queue_inv st" and eq: "heartbeat st acc c now lease = (st', b)"
  shows "queue_inv st'" and "st_attempts st' = st_attempts st"
proof -
  have "queue_inv st' \<and> st_attempts st' = st_attempts st"
    using eq
  proof (cases rule: heartbeat_cases)
    case (renewed t)
    then have t: "row_get wt_id (wt_id t) (st_tasks st) = Some t"
      by (auto intro: get_task_locked_get)
    with queue_inv_task_ok [OF inv t] renewed(3) have "task_ok (renew now lease t)"
      by (auto simp: task_ok_def renew_def lease_held_def)
    with inv t renewed show ?thesis
      by (auto simp: row_simps renew_def lease_held_def intro!: queue_inv_upd_task [OF inv t])
  qed (use inv in simp)
  then show "queue_inv st'" and "st_attempts st' = st_attempts st" by blast+
qed

lemma commit_keeps:
  assumes inv: "queue_inv st" and c: "claim_ok st c"
    and eq: "commit_stage st acc c now nx rq art = Some (st', out)"
  shows "queue_inv st'" and "\<And>d. claim_ok st d \<Longrightarrow> claim_ok st' d"
proof -
  have "queue_inv st' \<and> (\<forall>d. claim_ok st d \<longrightarrow> claim_ok st' d)"
    using eq
  proof (cases rule: commit_stage_cases)
    case missing
    then show ?thesis using inv by simp
  next
    case stale
    then show ?thesis
      using queue_inv_set_status [OF inv, of AT_FENCED]
      by (auto simp: fence_attempt_def attempt_key_def intro: claim_ok_upd_attempt)
  next
    case (committed t a st2)
    let ?g = "\<lambda>a. a\<lparr>ta_status := AT_COMMITTED, ta_request_id := rq, ta_artifact_json := art\<rparr>"
    have get: "row_get wt_id (tc_task_id c) (st_tasks st) = Some t" and id: "wt_id t = tc_task_id c"
      using committed(1) by (auto simp: get_task_locked_Some dest: row_get_key)
    have ok: "task_ok t" and held: "wt_status t = TS_LEASED" "wt_lease_epoch t = tc_lease_epoch c"
      using queue_inv_task_ok [OF inv get] committed(2) by (simp_all add: lease_held_def)
    have st2: "st2 = upd_attempt (tc_attempt_id c) ?g (upd_task (tc_task_id c) succeed st)"
      by (simp add: committed(5) id upd_task_def upd_attempt_def)
    have inv1: "queue_inv (upd_task (tc_task_id c) succeed st)"
      by (rule queue_inv_upd_task [OF inv get]) (use ok held in \<open>auto simp: succeed_def task_ok_def\<close>)
    have "queue_inv st2"
      unfolding st2
    proof (rule queue_inv_upd_attempt [OF inv1])
      fix b
      assume b: "row_get ta_id (tc_attempt_id c) (st_attempts (upd_task (tc_task_id c) succeed st)) = Some b"
      then have key: "ta_task b = tc_task_id c" "ta_lease_epoch b = tc_lease_epoch c"
        using c by (auto simp: claim_ok_def row_simps attempt_key_def)
      have "attempt_ok (st_tasks (upd_task (tc_task_id c) succeed st)) b"
        using inv1 b by (rule queue_inv_attempt_ok)
      then show "attempt_ok (st_tasks (upd_task (tc_task_id c) succeed st)) (?g b)"
        using get held key
        by (auto simp: attempt_ok_def row_simps row_get_upd succeed_def)
    qed (auto simp: attempt_key_def)
    moreover have "claim_ok st2 d" if "claim_ok st d" for d
      unfolding st2
      by (rule claim_ok_upd_attempt) (use that in \<open>auto simp: attempt_key_def claim_ok_def row_simps\<close>)
    ultimately show ?thesis
      using committed(6) enqueue_keeps [of st2 3 acc] claim_ok_cong [of st' st2]
      by (cases nx) fastforce+
  qed
  then show "queue_inv st'" and "\<And>d. claim_ok st d \<Longrightarrow> claim_ok st' d" by blast+
qed

lemma fail_keeps:
  assumes inv: "queue_inv st" and eq: "fail_attempt st acc c reason now backoff = (st', out)"
  shows "queue_inv st'" and "\<And>d. claim_ok st d \<Longrightarrow> claim_ok st' d"
proof -
  have "queue_inv st' \<and> (\<forall>d. claim_ok st d \<longrightarrow> claim_ok st' d)"
    using eq
  proof (cases rule: fail_attempt_cases)
    case missing
    then show ?thesis using inv by simp
  next
    case stale
    then show ?thesis
      using queue_inv_set_status [OF inv, of AT_FENCED]
      by (auto simp: fence_attempt_def attempt_key_def intro: claim_ok_upd_attempt)
  next
    case (failed t a)
    let ?st1 = "upd_attempt (tc_attempt_id c) (\<lambda>a. a\<lparr>ta_status := AT_FAILED\<rparr>) st"
    have inv1: "queue_inv ?st1" by (rule queue_inv_set_status [OF inv]) simp
    have get: "row_get wt_id (wt_id t) (st_tasks ?st1) = Some t"
      using get_task_locked_get [OF failed(1)] by (simp add: row_simps)
    have "queue_inv st'"
      unfolding failed(6)
      by (rule queue_inv_upd_task [OF inv1 get])
        (use queue_inv_task_ok [OF inv1 get] failed(2) in \<open>auto simp: task_ok_def lease_held_def\<close>)
    moreover have "claim_ok st' d" if "claim_ok st d" for d
      using claim_ok_upd_attempt [OF that, of "\<lambda>a. a\<lparr>ta_status := AT_FAILED\<rparr>" "tc_attempt_id c"]
      unfolding failed(6) by (simp add: claim_ok_def row_simps attempt_key_def)
    ultimately show ?thesis by blast
  qed
  then show "queue_inv st'" and "\<And>d. claim_ok st d \<Longrightarrow> claim_ok st' d" by blast+
qed

lemma wf_step_keeps:
  assumes step: "wf_step s e s'" and inv: "wf_inv s"
  shows "wf_inv s'"
  using step inv
proof (cases rule: wf_step.cases)
  case (wf_enqueue m st acc run stage prio nx now st' task cs)
  with inv show ?thesis
    using enqueue_keeps [of st m acc run stage prio nx now st' task] claim_ok_cong [of st' st]
    by (simp add: wf_inv_def)
next
  case (wf_reap st acc now st' n cs)
  with inv show ?thesis
    using reap_keeps [of st acc now] claim_ok_cong [of st' st] reap_frame(1) [of st acc now]
    by (simp add: wf_inv_def)
next
  case (wf_idle st acc now lease st' cs)
  with inv show ?thesis
    using claim_keeps [of st acc now lease st' None] by (simp add: wf_inv_def)
next
  case (wf_claim st acc now lease st' c cs)
  have fresh: "tc_attempt_id d < st_next st" if "claim_ok st d" "queue_inv st" for d
  proof -
    from that(1) obtain a where a: "row_get ta_id (tc_attempt_id d) (st_attempts st) = Some a"
      by (auto simp: claim_ok_def)
    from row_get_in [OF a] row_get_key [OF a] that(2) show ?thesis by (auto simp: queue_inv_def)
  qed
  from wf_claim inv have q: "queue_inv st" and old: "\<And>d. d \<in> set cs \<Longrightarrow> claim_ok st d"
    and dist: "distinct (map tc_attempt_id cs)" by (auto simp: wf_inv_def)
  have new: "claim_ok st' c" "tc_attempt_id c = st_next st"
    using claim_keeps(3) [OF q wf_claim(4) refl] by simp_all
  then have "tc_attempt_id c \<notin> tc_attempt_id ` set cs" using fresh [OF old q] by fastforce
  with wf_claim new dist old show ?thesis
    using claim_keeps(1,2) [OF q wf_claim(4)] by (auto simp: wf_inv_def)
next
  case (wf_heartbeat c cs st acc now lease st' b)
  with inv show ?thesis
    using heartbeat_keeps [of st acc c now lease st' b] claim_ok_cong [of st' st]
    by (simp add: wf_inv_def)
next
  case (wf_commit c cs st acc now nx rq art st' out)
  with inv show ?thesis
    using commit_keeps [of st c acc now nx rq art st' out] by (simp add: wf_inv_def)
next
  case (wf_fail c cs st acc reason now backoff st' out)
  with inv show ?thesis
    using fail_keeps [of st acc c reason now backoff st' out] by (simp add: wf_inv_def)
next
  case (wf_elsewhere st' st cs)
  with inv show ?thesis
    using claim_ok_cong [of st' st] by (auto simp: wf_inv_def queue_inv_def intro: less_le_trans)
qed

interpretation queue: step_invariant wf_step wf_inv
  by unfold_locales (rule wf_step_keeps)

lemma committed_distinct:
  assumes "queue_inv st"
  shows "distinct (map ta_task (filter (\<lambda>a. ta_status a = AT_COMMITTED) (st_attempts st)))"
proof -
  have "a = b" if "a \<in> set (st_attempts st)" "b \<in> set (st_attempts st)" "ta_status a = AT_COMMITTED"
      "ta_status b = AT_COMMITTED" "ta_task a = ta_task b" for a b
  proof -
    have "attempt_ok (st_tasks st) a" "attempt_ok (st_tasks st) b" using assms that by (simp_all add: queue_inv_def)
    then have "attempt_key a = attempt_key b" using that(3-5) by (auto simp: attempt_ok_def attempt_key_def)
    then show ?thesis using assms that(1,2) by (auto simp: queue_inv_def distinct_map dest: inj_onD)
  qed
  moreover have "distinct (st_attempts st)" using assms by (auto simp: queue_inv_def distinct_map)
  ultimately show ?thesis by (auto simp: distinct_map inj_on_def)
qed

section \<open>What the epoch protects\<close>

text \<open>A settled task keeps its row: no step of any worker touches it again.\<close>

definition settled :: "task_row \<Rightarrow> bool" where
  "settled t \<longleftrightarrow> wt_status t \<noteq> TS_READY \<and> wt_status t \<noteq> TS_LEASED"

definition keeps_settled :: "store \<Rightarrow> store \<Rightarrow> bool" where
  "keeps_settled st st' \<longleftrightarrow> (\<forall>i t. row_get wt_id i (st_tasks st) = Some t \<longrightarrow> settled t \<longrightarrow>
    row_get wt_id i (st_tasks st') = Some t)"

lemma keeps_settled_refl [intro]: "st_tasks st' = st_tasks st \<Longrightarrow> keeps_settled st st'"
  by (simp add: keeps_settled_def)

lemma keeps_settled_trans: "keeps_settled s t \<Longrightarrow> keeps_settled t u \<Longrightarrow> keeps_settled s u"
  by (simp add: keeps_settled_def)

lemma keeps_settled_upd:
  assumes "row_get wt_id i (st_tasks st) = Some t" and "\<not> settled t"
    and "\<And>x. wt_id (f x) = wt_id x"
  shows "keeps_settled st (upd_task i f st)"
  using assms by (auto simp: keeps_settled_def row_simps row_get_upd)

lemma keeps_settled_enqueue:
  "enqueue_task st acc run stage prio next m now = (st', t) \<Longrightarrow> keeps_settled st st'"
  by (auto simp: enqueue_task_def Let_def keeps_settled_def row_get_append_new)

lemma keeps_settled_reap: "keeps_settled st (fst (reap_expired_tasks st acc now))"
proof -
  have "row_get wt_id i (map (\<lambda>t. if exhausted acc now t then retire t else t) (st_tasks st)) =
      map_option (\<lambda>t. if exhausted acc now t then retire t else t) (row_get wt_id i (st_tasks st))" for i
    by (rule row_get_map) (simp add: retire_def)
  then show ?thesis
    by (auto simp: keeps_settled_def reap_expired_tasks_def Let_def settled_def exhausted_def
        lease_expired_def)
qed

lemma lease_held_unsettled: "lease_held c t \<Longrightarrow> \<not> settled t"
  by (simp add: lease_held_def settled_def)

lemma keeps_settled_claim:
  assumes "claim_task st acc now lease = (st', r)" and inv: "queue_inv st"
  shows "keeps_settled st st'"
  using assms(1)
proof (cases rule: claim_task_cases)
  case idle
  then show ?thesis by (simp add: keeps_settled_reap)
next
  case (leased st1 t rest c a)
  have "t \<in> set (due_query st1 acc now)" using leased(3) by simp
  then have t: "t \<in> set (st_tasks st1)" "\<not> settled t"
    by (auto simp: due_query_in task_due_def lease_expired_def settled_def)
  have "queue_inv st1" using reap_keeps [OF inv] by (simp add: leased)
  with t have "row_get wt_id (wt_id t) (st_tasks st1) = Some t"
    by (auto simp: queue_inv_def intro: row_get_distinct)
  then have "keeps_settled st1 (upd_task (wt_id t) (take_lease now lease) st1)"
    by (rule keeps_settled_upd) (use t in \<open>simp_all add: take_lease_def\<close>)
  then have "keeps_settled st1 st'" by (simp add: leased(4) keeps_settled_def)
  with keeps_settled_reap [of st acc now] show ?thesis
    by (auto simp: leased intro: keeps_settled_trans)
qed

lemma keeps_settled_commit:
  assumes "commit_stage st acc c now nx rq art = Some (st', out)"
  shows "keeps_settled st st'"
  using assms
proof (cases rule: commit_stage_cases)
  case (committed t a st2)
  let ?st1 = "upd_attempt (tc_attempt_id c)
    (\<lambda>a. a\<lparr>ta_status := AT_COMMITTED, ta_request_id := rq, ta_artifact_json := art\<rparr>) st"
  have "keeps_settled ?st1 st2"
    unfolding committed(5)
    by (rule keeps_settled_upd)
      (use committed(1,2) lease_held_unsettled get_task_locked_get in
        \<open>auto simp: row_simps succeed_def\<close>)
  then have "keeps_settled st st2"
    using keeps_settled_refl [of ?st1 st] by (auto simp: row_simps intro: keeps_settled_trans)
  with committed(6) show ?thesis
    by (cases nx) (auto intro: keeps_settled_trans keeps_settled_enqueue)
qed (auto simp: fence_attempt_def row_simps)

lemma keeps_settled_fail:
  assumes "fail_attempt st acc c reason now backoff = (st', out)"
  shows "keeps_settled st st'"
  using assms
proof (cases rule: fail_attempt_cases)
  case (failed t a)
  let ?st1 = "upd_attempt (tc_attempt_id c) (\<lambda>a. a\<lparr>ta_status := AT_FAILED\<rparr>) st"
  have "keeps_settled ?st1 st'"
    unfolding failed(6)
    by (rule keeps_settled_upd)
      (use failed(1,2) lease_held_unsettled get_task_locked_get in \<open>auto simp: row_simps\<close>)
  then show ?thesis
    using keeps_settled_refl [of ?st1 st] by (auto simp: row_simps intro: keeps_settled_trans)
qed (auto simp: fence_attempt_def row_simps)

lemma keeps_settled_heartbeat:
  assumes "heartbeat st acc c now lease = (st', b)"
  shows "keeps_settled st st'"
  using assms
proof (cases rule: heartbeat_cases)
  case (renewed t)
  show ?thesis
    unfolding renewed(4)
    by (rule keeps_settled_upd)
      (use renewed lease_held_unsettled get_task_locked_get in \<open>auto simp: renew_def\<close>)
qed auto

lemma wf_step_keeps_settled: "wf_step s e s' \<Longrightarrow> wf_inv s \<Longrightarrow> keeps_settled (fst s) (fst s')"
proof (induction rule: wf_step.induct)
  case (wf_reap st acc now st' n cs)
  then show ?case using keeps_settled_reap [of st acc now] by simp
qed (auto simp: wf_inv_def intro: keeps_settled_enqueue keeps_settled_claim keeps_settled_commit
    keeps_settled_fail keeps_settled_heartbeat)

end
