(* ===== verification/Runtime_Props.thy ===== *)
theory Runtime_Props
  imports Runtime_Facts
begin

text \<open>
  The guarantees of the orchestration: one committed result per task, exclusive leases, finitely
  many attempts, settled tasks left alone, and nothing due that a claim would miss.
\<close>

section \<open>A concrete queue\<close>

definition sample_run :: run_row where
  "sample_run = \<lparr>wr_id = 0, wr_account = 7, wr_case = 9, wr_workflow_version = ''recon_wf_v1'',
    wr_system_fingerprint = ''fp'', wr_budget_units = 10, wr_deadline_at = 1000\<rparr>"

definition sample_queue :: store where
  "sample_queue = fst (enqueue_task (empty_store\<lparr>st_next := 1, st_runs := [sample_run]\<rparr>)
    7 sample_run WS_RECONCILE 0 None 3 0)"

definition sample_leased :: store where
  "sample_leased = fst (claim_task sample_queue 7 5 DEFAULT_LEASE)"

definition sample_claim :: task_claim where
  "sample_claim = \<lparr>tc_task_id = 1, tc_run_id = 0, tc_attempt_id = 2, tc_attempt_no = 1,
    tc_lease_epoch = 1, tc_stage = WS_RECONCILE\<rparr>"

definition sample_committed :: store where
  "sample_committed = fst (the (commit_stage sample_leased 7 sample_claim 6 (Some WS_PUBLISH) None None))"

lemma sample_claimed: "claim_task sample_queue 7 5 DEFAULT_LEASE = (sample_leased, Some sample_claim)"
  by code_simp

lemma sample_commit:
  "commit_stage sample_leased 7 sample_claim 6 (Some WS_PUBLISH) None None = Some (sample_committed,
    \<lparr>so_status = CS_COMMITTED, so_next_task_id = Some 3, so_terminal = False, so_reason = None\<rparr>)"
  by code_simp

lemma sample_queue_inv: "queue_inv sample_queue"
proof -
  have "queue_inv (empty_store\<lparr>st_next := 1, st_runs := [sample_run]\<rparr>)"
    by (simp add: queue_inv_def empty_store_def)
  from enqueue_keeps(1) [OF this, of 3] show ?thesis
    by (simp add: sample_queue_def) (metis prod.collapse)
qed

lemma sample_reaches:
  "reaches wf_step (sample_queue, []) (sample_leased, [sample_claim])"
  "reaches wf_step (sample_queue, []) (sample_committed, [sample_claim])"
proof -
  show one: "reaches wf_step (sample_queue, []) (sample_leased, [sample_claim])"
    by (rule reaches_step [where t = "(sample_queue, [])", OF reaches_refl])
      (rule wf_claim [OF sample_claimed])
  have "wf_step (sample_leased, [sample_claim]) (Commit sample_claim) (sample_committed, [sample_claim])"
    by (rule wf_commit [OF _ sample_commit]) simp
  from reaches_step [OF one this]
  show "reaches wf_step (sample_queue, []) (sample_committed, [sample_claim])" .
qed

lemma reached_inv: "reaches wf_step (st0, []) s \<Longrightarrow> queue_inv st0 \<Longrightarrow> wf_inv s"
  using queue.reaches_keeps [of "(st0, [])" s] by (simp add: wf_inv_def)

section \<open>Properties\<close>

text \<open>C2: whatever the workers do, in any order, each task has at most one committed attempt; the
  attempt is the one of the current lease epoch and the task has succeeded.\<close>

theorem commits_at_most_once:
  assumes "reaches wf_step (st0, []) (st, cs)" and "queue_inv st0"
    and "a \<in> set (st_attempts st)" and "ta_status a = AT_COMMITTED"
  shows "(\<exists>t. row_get wt_id (ta_task a) (st_tasks st) = Some t \<and> wt_status t = TS_SUCCEEDED \<and>
      wt_lease_epoch t = ta_lease_epoch a) \<and>
    filter (\<lambda>b. ta_task b = ta_task a \<and> ta_status b = AT_COMMITTED) (st_attempts st) = [a]"
proof -
  have inv: "queue_inv st" using reached_inv [OF assms(1,2)] by (simp add: wf_inv_def)
  have won: "\<exists>t. row_get wt_id (ta_task b) (st_tasks st) = Some t \<and> wt_status t = TS_SUCCEEDED \<and>
        wt_lease_epoch t = ta_lease_epoch b"
    if "b \<in> set (st_attempts st)" "ta_status b = AT_COMMITTED" for b
    using inv that by (auto simp: queue_inv_def attempt_ok_def)
  let ?won = "filter (\<lambda>b. ta_task b = ta_task a \<and> ta_status b = AT_COMMITTED) (st_attempts st)"
  have keys: "distinct (map attempt_key (st_attempts st))" using inv by (simp add: queue_inv_def)
  have same: "attempt_key b = attempt_key a" if "b \<in> set ?won" for b
    using won [of a] won [of b] that assms(3,4) by (auto simp: attempt_key_def)
  have "b = a" if "b \<in> set ?won" for b
    using same [OF that] keys that assms(3) by (auto simp: distinct_map inj_on_def)
  moreover have "a \<in> set ?won" using assms by simp
  ultimately have "set ?won = {a}" by blast
  moreover have "distinct ?won" using keys by (auto simp: distinct_map)
  ultimately have "?won = [a]" by (rule singleton_list)
  with won [OF assms(3,4)] show ?thesis by blast
qed

text \<open>The committed attempt of the sample: attempt 2 of task 1.\<close>

lemma sample_committed_attempt:
  "\<lparr>ta_id = 2, ta_account = 7, ta_task = 1, ta_attempt_no = 1, ta_lease_epoch = 1,
    ta_lease_until = 5 + DEFAULT_LEASE, ta_status = AT_COMMITTED, ta_request_id = None,
    ta_artifact_json = None\<rparr> \<in> set (st_attempts sample_committed)"
  by code_simp

theorem commits_at_most_once_witness:
  "length (filter (\<lambda>b. ta_task b = 1 \<and> ta_status b = AT_COMMITTED) (st_attempts sample_committed)) = 1"
  using commits_at_most_once [OF sample_reaches(2) sample_queue_inv sample_committed_attempt] by simp

text \<open>two claims of one task never carry the same lease epoch, so two workers never pass the
  fencing test of the same task.\<close>

theorem lease_exclusive:
  assumes "reaches wf_step (st0, []) (st, cs)" and "queue_inv st0"
    and "c \<in> set cs" and "d \<in> set cs" and "c \<noteq> d" and "tc_task_id c = tc_task_id d"
  shows "tc_lease_epoch c \<noteq> tc_lease_epoch d \<and> \<not> (lease_held c t \<and> lease_held d t)"
proof -
  have inv: "wf_inv (st, cs)" by (rule reached_inv [OF assms(1,2)])
  from inv assms have "claim_ok st c" "claim_ok st d" by (simp_all add: wf_inv_def)
  then obtain a b where a: "row_get ta_id (tc_attempt_id c) (st_attempts st) = Some a"
      "attempt_key a = (tc_task_id c, tc_lease_epoch c)"
    and b: "row_get ta_id (tc_attempt_id d) (st_attempts st) = Some b"
      "attempt_key b = (tc_task_id d, tc_lease_epoch d)"
    by (auto simp: claim_ok_def)
  have "tc_lease_epoch c \<noteq> tc_lease_epoch d"
  proof
    assume "tc_lease_epoch c = tc_lease_epoch d"
    with a b assms(6) have "attempt_key a = attempt_key b" by simp
    moreover have "inj_on attempt_key (set (st_attempts st))"
      using inv by (simp add: wf_inv_def queue_inv_def distinct_map)
    ultimately have "a = b" using row_get_in [OF a(1)] row_get_in [OF b(1)] by (simp add: inj_on_def)
    then have "tc_attempt_id c = tc_attempt_id d" using row_get_key [OF a(1)] row_get_key [OF b(1)] by simp
    moreover have "inj_on tc_attempt_id (set cs)" using inv by (simp add: wf_inv_def distinct_map)
    ultimately show False using assms(3-5) by (simp add: inj_on_def)
  qed
  then show ?thesis by (auto simp: lease_held_def)
qed

definition sample_claim2 :: task_claim where
  "sample_claim2 = \<lparr>tc_task_id = 1, tc_run_id = 0, tc_attempt_id = 3, tc_attempt_no = 2,
    tc_lease_epoch = 2, tc_stage = WS_RECONCILE\<rparr>"

definition sample_reclaimed :: store where
  "sample_reclaimed = fst (claim_task sample_leased 7 (10 * MINUTE) DEFAULT_LEASE)"

lemma sample_reclaim:
  "claim_task sample_leased 7 (10 * MINUTE) DEFAULT_LEASE = (sample_reclaimed, Some sample_claim2)"
  by code_simp

lemma sample_reclaim_reaches:
  "reaches wf_step (sample_queue, []) (sample_reclaimed, [sample_claim2, sample_claim])"
  by (rule reaches_step [OF sample_reaches(1)]) (rule wf_claim [OF sample_reclaim])

theorem lease_exclusive_witness:
  "tc_lease_epoch sample_claim \<noteq> tc_lease_epoch sample_claim2"
  using lease_exclusive [OF sample_reclaim_reaches sample_queue_inv, of sample_claim sample_claim2]
  by (simp add: sample_claim_def sample_claim2_def)

text \<open>recovery is finite: the claims ever issued for a task are at most its \<open>max_attempts\<close>.\<close>

theorem claims_bounded:
  assumes "reaches wf_step (st0, []) (st, cs)" and "queue_inv st0"
    and "row_get wt_id i (st_tasks st) = Some t"
  shows "int (length (filter (\<lambda>c. tc_task_id c = i) cs)) \<le> wt_max_attempts t"
proof -
  have inv: "wf_inv (st, cs)" by (rule reached_inv [OF assms(1,2)])
  let ?mine = "filter (\<lambda>c. tc_task_id c = i) cs"
  have claim: "\<exists>a \<in> set (st_attempts st). ta_id a = tc_attempt_id c \<and> attempt_key a = (i, tc_lease_epoch c)"
    if "c \<in> set ?mine" for c
    using inv that by (fastforce simp: wf_inv_def claim_ok_def dest: row_get_in row_get_key)
  have range: "tc_lease_epoch c \<in> {1..wt_lease_epoch t}" if "c \<in> set ?mine" for c
    using claim [OF that] inv assms(3)
    by (fastforce simp: wf_inv_def queue_inv_def attempt_ok_def attempt_key_def)
  have "inj_on tc_lease_epoch (set ?mine)"
  proof (rule inj_onI)
    fix c d
    assume cd: "c \<in> set ?mine" "d \<in> set ?mine" "tc_lease_epoch c = tc_lease_epoch d"
    then obtain a b where ab: "a \<in> set (st_attempts st)" "b \<in> set (st_attempts st)"
        "ta_id a = tc_attempt_id c" "ta_id b = tc_attempt_id d" "attempt_key a = attempt_key b"
      using claim by metis
    moreover have "inj_on attempt_key (set (st_attempts st))"
      using inv by (simp add: wf_inv_def queue_inv_def distinct_map)
    ultimately have "tc_attempt_id c = tc_attempt_id d" by (auto simp: inj_on_def)
    moreover have "inj_on tc_attempt_id (set cs)" using inv by (simp add: wf_inv_def distinct_map)
    ultimately show "c = d" using cd by (auto simp: inj_on_def)
  qed
  then have "card (set ?mine) = card (tc_lease_epoch ` set ?mine)" by (simp add: card_image)
  also have "... \<le> card {1..wt_lease_epoch t}" using range by (intro card_mono) auto
  finally have "card (set ?mine) \<le> nat (wt_lease_epoch t)" by simp
  moreover have "length ?mine = card (set ?mine)"
    using inv by (intro distinct_card [symmetric] distinct_filter) (auto simp: wf_inv_def distinct_map)
  moreover have "task_ok t" using inv assms(3) by (auto simp: wf_inv_def intro: queue_inv_task_ok)
  ultimately show ?thesis by (simp add: task_ok_def le_nat_iff)
qed

lemma sample_task_get:
  "map_option wt_max_attempts (row_get wt_id 1 (st_tasks sample_committed)) = Some 3"
  by code_simp

theorem claims_bounded_witness:
  "\<exists>t. row_get wt_id 1 (st_tasks sample_committed) = Some t \<and>
    int (length (filter (\<lambda>c. tc_task_id c = 1) [sample_claim])) \<le> wt_max_attempts t"
  using claims_bounded [OF sample_reaches(2) sample_queue_inv, of 1] sample_task_get by auto

text \<open>a task that succeeded or died keeps its row in every later state: no late worker, reaper
  or scheduler can revive, repeat or rewrite it.\<close>

theorem settled_forever:
  assumes "reaches wf_step s s'" and "wf_inv s"
    and "row_get wt_id i (st_tasks (fst s)) = Some t" and "settled t"
  shows "row_get wt_id i (st_tasks (fst s')) = Some t"
proof -
  have "keeps_settled (fst s) (fst s')"
    using assms(1,2)
  proof (induction rule: reaches.induct)
    case reaches_refl
    then show ?case by auto
  next
    case (reaches_step s t e u)
    moreover have "wf_inv t" using queue.reaches_keeps reaches_step by blast
    ultimately show ?case using wf_step_keeps_settled keeps_settled_trans by blast
  qed
  with assms(3,4) show ?thesis by (simp add: keeps_settled_def)
qed

lemma sample_settled:
  "row_get wt_id 1 (st_tasks sample_committed) = Some (the (row_get wt_id 1 (st_tasks sample_committed)))"
  "settled (the (row_get wt_id 1 (st_tasks sample_committed)))"
  by code_simp+

definition sample_later :: store where
  "sample_later = fst (claim_task sample_committed 7 (7 * 86400 * SECOND) DEFAULT_LEASE)"

lemma sample_later_step:
  "\<exists>c. wf_step (sample_committed, [sample_claim]) Claim (sample_later, c # [sample_claim])"
proof -
  have "snd (claim_task sample_committed 7 (7 * 86400 * SECOND) DEFAULT_LEASE) \<noteq> None" by code_simp
  then obtain c where
    "claim_task sample_committed 7 (7 * 86400 * SECOND) DEFAULT_LEASE = (sample_later, Some c)"
    by (auto simp: sample_later_def prod_eq_iff)
  then show ?thesis by (blast intro: wf_claim)
qed

theorem settled_forever_witness:
  "row_get wt_id 1 (st_tasks sample_later) = row_get wt_id 1 (st_tasks sample_committed)"
proof -
  obtain c where "wf_step (sample_committed, [sample_claim]) Claim (sample_later, c # [sample_claim])"
    using sample_later_step by blast
  then have "reaches wf_step (sample_committed, [sample_claim]) (sample_later, c # [sample_claim])"
    by (rule reaches_step [where t = "(sample_committed, [sample_claim])", OF reaches_refl])
  from settled_forever [OF this reached_inv [OF sample_reaches(2) sample_queue_inv]] sample_settled
  show ?thesis by simp
qed

text \<open>a commit takes effect exactly when the claim still holds the task's current lease; then
  the task succeeds and the follow-up stage is enqueued with it. A fenced commit changes no task
  and enqueues nothing.\<close>

theorem commit_fencing:
  assumes "commit_stage st acc c now nx rq art = Some (st', out)"
  shows "if \<exists>t a. get_task_locked st (tc_task_id c) acc = Some t \<and> load_attempt st c = Some a \<and>
      lease_held c t
    then so_status out = CS_COMMITTED \<and> (\<exists>t. get_task_locked st (tc_task_id c) acc = Some t \<and>
      (case nx of
         None \<Rightarrow> so_next_task_id out = None \<and> st_tasks st' = row_upd wt_id (wt_id t) succeed (st_tasks st)
       | Some stage \<Rightarrow> \<exists>follow. so_next_task_id out = Some (wt_id follow) \<and>
          wt_stage follow = stage \<and> wt_run follow = wt_run t \<and> wt_status follow = TS_READY \<and>
          st_tasks st' = row_upd wt_id (wt_id t) succeed (st_tasks st) @ [follow]))
    else so_status out = CS_FENCED \<and> st_tasks st' = st_tasks st"
proof (cases "\<exists>t a. get_task_locked st (tc_task_id c) acc = Some t \<and> load_attempt st c = Some a \<and>
    lease_held c t")
  case True
  then obtain t a where h: "get_task_locked st (tc_task_id c) acc = Some t" "load_attempt st c = Some a"
    "lease_held c t" by blast
  with True assms show ?thesis
    by (auto simp: commit_stage_def Let_def row_simps succeed_def enqueue_task_def
        split: option.splits dest!: row_get_key)
next
  case False
  have "so_status out = CS_FENCED \<and> st_tasks st' = st_tasks st"
    using assms
  proof (cases rule: commit_stage_cases)
    case (committed t a st2)
    with False show ?thesis by blast
  qed (auto simp: fence_attempt_def row_simps)
  with False show ?thesis by simp
qed

theorem commit_fencing_witness:
  "\<exists>follow. wt_stage follow = WS_PUBLISH \<and> wt_id follow = 3 \<and>
    st_tasks sample_committed = row_upd wt_id 1 succeed (st_tasks sample_leased) @ [follow]"
proof -
  have held: "\<exists>t a. get_task_locked sample_leased (tc_task_id sample_claim) 7 = Some t \<and>
      load_attempt sample_leased sample_claim = Some a \<and> lease_held sample_claim t"
  proof -
    have "(case (get_task_locked sample_leased (tc_task_id sample_claim) 7,
        load_attempt sample_leased sample_claim) of
        (Some t, Some a) \<Rightarrow> lease_held sample_claim t \<and> wt_id t = 1 | _ \<Rightarrow> False)"
      by code_simp
    then show ?thesis by (auto split: option.splits)
  qed
  have "wt_id t = 1" if "get_task_locked sample_leased (tc_task_id sample_claim) 7 = Some t" for t
    using get_task_locked_id [OF that] by (simp add: sample_claim_def)
  with commit_fencing [OF sample_commit] held show ?thesis by auto
qed

text \<open>a claim leases a due task of the account of the best rank (priority first, then the time
  it became due, then its identifier) at a new epoch within its attempt budget, and returns
  nothing only when nothing is due.\<close>

theorem claim_takes_best_due:
  assumes "queue_inv st" and "claim_task st acc now lease = (st', r)"
  shows "case r of
      None \<Rightarrow> \<forall>t \<in> set (st_tasks st'). \<not> task_due acc now t
    | Some c \<Rightarrow> \<exists>t \<in> set (st_tasks (fst (reap_expired_tasks st acc now))).
        task_due acc now t \<and> wt_attempts t < wt_max_attempts t \<and>
        tc_lease_epoch c = wt_lease_epoch t + 1 \<and> tc_stage c = wt_stage t \<and> tc_run_id c = wt_run t \<and>
        row_get wt_id (tc_task_id c) (st_tasks st') = Some (take_lease now lease t) \<and>
        (\<forall>u \<in> set (st_tasks (fst (reap_expired_tasks st acc now))).
          task_due acc now u \<longrightarrow> due_rank t \<le> due_rank u)"
  using assms(2)
proof (cases rule: claim_task_cases)
  case idle
  then have "t \<notin> set (due_query st' acc now)" for t by simp
  with idle(1) show ?thesis by (auto simp: due_query_in)
next
  case (leased st1 t rest c a)
  have inv1: "queue_inv st1" using reap_keeps [OF assms(1)] leased(2) by simp
  have t: "t \<in> set (st_tasks st1)" "task_due acc now t"
    using leased(3) due_query_in [of t st1 acc now] by simp_all
  have get: "row_get wt_id (wt_id t) (st_tasks st1) = Some t" and ok: "task_ok t"
    using inv1 t by (auto simp: queue_inv_def intro: row_get_distinct)
  have "sorted (map due_rank (t # rest))"
    using leased(3) by (metis due_query_def sorted_sort_key)
  moreover have "u \<in> set (t # rest)" if "u \<in> set (st_tasks st1)" "task_due acc now u" for u
    using that leased(3) due_query_in [of u st1 acc now] by simp
  ultimately have "due_rank t \<le> due_rank u" if "u \<in> set (st_tasks st1)" "task_due acc now u" for u
    using that by fastforce
  moreover have "wt_attempts t < wt_max_attempts t"
    using ok t(2) by (auto simp: task_ok_def task_due_def)
  moreover have "row_get wt_id (tc_task_id c) (st_tasks st') = Some (take_lease now lease t)"
    using get leased(4,10) by (simp add: row_simps row_get_upd take_lease_def)
  ultimately show ?thesis
    using t leased(1,2,11,14,15) by auto
qed

theorem claim_takes_best_due_witness:
  "\<exists>t \<in> set (st_tasks (fst (reap_expired_tasks sample_queue 7 5))).
    task_due 7 5 t \<and> wt_attempts t < wt_max_attempts t \<and>
    row_get wt_id 1 (st_tasks sample_leased) = Some (take_lease 5 DEFAULT_LEASE t)"
  using claim_takes_best_due [OF sample_queue_inv sample_claimed] by (auto simp: sample_claim_def)

text \<open>after reaping, no lease of the account is stuck: an expired lease is due again or its task
  died of exhausted attempts; the reaper touches nothing else and reports how many it retired.\<close>

theorem reap_leaves_nothing_stuck:
  "let st' = fst (reap_expired_tasks st acc now); n = snd (reap_expired_tasks st acc now) in
    filter (\<lambda>t. wt_account t = acc \<and> lease_expired now t \<and> \<not> task_due acc now t) (st_tasks st') = [] \<and>
    st_tasks st' = map (\<lambda>t. if exhausted acc now t then retire t else t) (st_tasks st) \<and>
    n = length (filter (exhausted acc now) (st_tasks st))"
proof -
  have "task_due acc now t" if "\<not> exhausted acc now t" "wt_account t = acc" "lease_expired now t" for t
    using that by (auto simp: exhausted_def task_due_def)
  moreover have "\<not> lease_expired now (retire t)" for t by (simp add: lease_expired_def retire_def)
  ultimately show ?thesis
    by (auto simp: reap_expired_tasks_def Let_def filter_empty_conv)
qed

text \<open>a heartbeat renews exactly an unexpired lease at the claim's own epoch; otherwise it
  changes nothing.\<close>

theorem heartbeat_exact:
  "heartbeat st acc c now lease =
    (case get_task_locked st (tc_task_id c) acc of
       None \<Rightarrow> (st, False)
     | Some t \<Rightarrow> if lease_held c t \<and> wt_lease_until t \<noteq> None \<and> \<not> lease_expired now t
         then (upd_task (wt_id t) (renew now lease) st, True) else (st, False))"
  by (auto simp: heartbeat_def lease_held_def lease_expired_def renew_def split: option.splits)

text \<open>a failure within the attempt budget returns the task to the queue after the backoff, the
  last one ends it with the reason; either way the lease is given up.\<close>

theorem fail_attempt_bounded:
  assumes "fail_attempt st acc c reason now backoff = (st', out)" and "so_status out = CS_COMMITTED"
  shows "\<exists>t t'. row_get wt_id (tc_task_id c) (st_tasks st) = Some t \<and>
    row_get wt_id (tc_task_id c) (st_tasks st') = Some t' \<and> wt_lease_until t' = None \<and>
    (if wt_attempts t < wt_max_attempts t
     then \<not> so_terminal out \<and> wt_status t' = TS_READY \<and> wt_next_attempt_at t' = now + backoff
     else so_terminal out \<and> wt_status t' = TS_DEAD \<and> wt_terminal_reason t' = Some reason)"
  using assms(1)
proof (cases rule: fail_attempt_cases)
  case (failed t a)
  then have "row_get wt_id (tc_task_id c) (st_tasks st) = Some t" "wt_id t = tc_task_id c"
    by (auto simp: get_task_locked_Some dest: row_get_key)
  with failed show ?thesis
    by (auto simp: row_simps row_get_upd not_less)
qed (use assms(2) in simp_all)

theorem fail_attempt_bounded_witness:
  "\<exists>t'. row_get wt_id 1 (st_tasks (fst (fail_attempt sample_leased 7 sample_claim ''boom'' 6 DEFAULT_BACKOFF)))
    = Some t' \<and> wt_lease_until t' = None"
proof -
  have "so_status (snd (fail_attempt sample_leased 7 sample_claim ''boom'' 6 DEFAULT_BACKOFF)) = CS_COMMITTED"
    by code_simp
  from fail_attempt_bounded [OF prod.collapse [symmetric] this]
  show ?thesis by (auto simp: sample_claim_def)
qed

text \<open>committing twice with the same claim is fenced and leaves the queue alone, but overwrites
  the status of the attempt that won, so the record of the winning commit is lost.\<close>

theorem second_commit_fences_winner:
  assumes "commit_stage st acc c now nx rq art = Some (st1, out1)" and "so_status out1 = CS_COMMITTED"
    and "commit_stage st1 acc c now' nx' rq' art' = Some (st2, out2)"
  shows "so_status out2 = CS_FENCED \<and> st_tasks st2 = st_tasks st1 \<and>
    map_option ta_status (load_attempt st1 c) = Some AT_COMMITTED \<and>
    map_option ta_status (load_attempt st2 c) = Some AT_FENCED"
  using assms(1)
proof (cases rule: commit_stage_cases)
  case (committed t a m)
  then have get: "row_get wt_id (tc_task_id c) (st_tasks st) = Some t" "wt_account t = acc"
    and id: "wt_id t = tc_task_id c"
    by (auto simp: get_task_locked_Some dest: row_get_key)
  have mid: "get_task_locked m (tc_task_id c) acc = Some (succeed t)"
    using get id by (simp add: get_task_locked_Some committed(5) row_simps row_get_upd succeed_def)
  have at: "map_option ta_status (load_attempt m c) = Some AT_COMMITTED"
    using committed(3) by (simp add: load_attempt_def committed(5) row_simps row_get_upd)
  have "get_task_locked st1 (tc_task_id c) acc = Some (succeed t) \<and> st_attempts st1 = st_attempts m"
    using committed(6) mid
    by (cases nx) (auto simp: enqueue_task_def Let_def get_task_locked_Some row_get_append_new)
  then have later: "get_task_locked st1 (tc_task_id c) acc = Some (succeed t)"
    "map_option ta_status (load_attempt st1 c) = Some AT_COMMITTED"
    using at by (simp_all add: load_attempt_def)
  then obtain b where b: "load_attempt st1 c = Some b" by (cases "load_attempt st1 c") auto
  with later assms(3) have "st2 = fence_attempt c st1" "so_status out2 = CS_FENCED"
    by (auto simp: commit_stage_def lease_held_def succeed_def fenced_def)
  with later b show ?thesis
    by (auto simp: fence_attempt_def row_simps load_attempt_def row_get_upd)
qed (use assms(2) in simp_all)

theorem second_commit_fences_winner_witness:
  "\<exists>st2 out2. commit_stage sample_committed 7 sample_claim 8 None None None = Some (st2, out2) \<and>
    so_status out2 = CS_FENCED \<and> map_option ta_status (load_attempt st2 sample_claim) = Some AT_FENCED"
proof -
  have "commit_stage sample_committed 7 sample_claim 8 None None None \<noteq> None" by code_simp
  then obtain st2 out2 where
    second: "commit_stage sample_committed 7 sample_claim 8 None None None = Some (st2, out2)" by auto
  from second_commit_fences_winner [OF sample_commit _ this] second show ?thesis by simp
qed

end
