(* ===== verification/Policy.thy ===== *)
theory Policy
  imports PyValues Enums
begin

text \<open>
  Deterministic policy evaluation (\<open>packages/shared/eastmed_shared/reconciliation/policy.py\<close>):
  the ordered guard chain over a standing grant and a service principal, and the canonical
  payload hash. \<open>hashlib.sha256(...).hexdigest()\<close> is the parameter \<open>sha256\<close>.
\<close>

section \<open>Canonical JSON\<close>

text \<open>\<open>json.dumps(payload, sort_keys=True, separators=(",", ":"))\<close> on ASCII values.\<close>

definition json_char :: "char \<Rightarrow> string" where
  "json_char c =
    (let n = (of_char c :: nat); bs = char_of (92::nat) in
     if n = 34 \<or> n = 92 then [bs, c]
     else if n = 10 then [bs, CHR ''n''] else if n = 13 then [bs, CHR ''r'']
     else if n = 9 then [bs, CHR ''t''] else if n = 8 then [bs, CHR ''b'']
     else if n = 12 then [bs, CHR ''f'']
     else if n < 32 then [bs] @ ''u00'' @ [hex_digit (n div 16), hex_digit (n mod 16)]
     else [c])"

definition json_str :: "string \<Rightarrow> string" where
  "json_str s = [dquote_char] @ concat (map json_char s) @ [dquote_char]"

fun json_dumps :: "json \<Rightarrow> string" where
  "json_dumps JNull = ''null''"
| "json_dumps (JBool b) = (if b then ''true'' else ''false'')"
| "json_dumps (JInt i) = str_int i"
| "json_dumps (JFloat t) = t"
| "json_dumps (JStr s) = json_str s"
| "json_dumps (JList xs) = ''['' @ join '','' (map json_dumps xs) @ '']''"
| "json_dumps (JObj kvs) =
    ''{'' @ join '','' (map (\<lambda>(k, s). json_str k @ '':'' @ s)
      (sort_key fst (map (\<lambda>(k, v). (k, json_dumps v)) kvs))) @ ''}''"

type_synonym hash = "string \<Rightarrow> string"

definition canonical_payload_hash :: "hash \<Rightarrow> json \<Rightarrow> string" where
  "canonical_payload_hash sha256 payload = sha256 (json_dumps payload)"

section \<open>Data\<close>

definition KNOWN_CAPABILITIES :: "string list" where
  "KNOWN_CAPABILITIES = [''operations.reconcile'', ''operations.private_publish'',
    ''operations.authorized_source_read'']"

datatype deny_reason =
    OK
  | MISSING_POLICY
  | UNRECOGNIZED_ACTION
  | CROSS_TENANT_PRINCIPAL
  | PRINCIPAL_INACTIVE
  | SCOPE_NOT_GRANTED
  | CAPABILITY_STOPPED
  | GRANT_INACTIVE
  | GRANT_EXPIRED
  | CAPABILITY_MISMATCH
  | UNKNOWN_FINGERPRINT
  | CASE_TYPE_NOT_ALLOWED
  | EVIDENCE_INCOMPLETE
  | DESTINATION_NOT_ALLOWED
  | EXTERNAL_NOT_PERMITTED
  | FINANCIAL_NOT_PERMITTED
  | DENIED_AUTHORITY
  | GRANT_REVOKED
  | POLICY_REVISION_CHANGED
  | ATTESTATION_EXPIRED
  | CASE_REVISION_CHANGED
  | PAYLOAD_HASH_MISMATCH
  | DUPLICATE_ACTION

primrec deny_reason_value :: "deny_reason \<Rightarrow> string" where
  "deny_reason_value OK = ''ok''"
| "deny_reason_value MISSING_POLICY = ''missing_policy''"
| "deny_reason_value UNRECOGNIZED_ACTION = ''unrecognized_action''"
| "deny_reason_value CROSS_TENANT_PRINCIPAL = ''cross_tenant_principal''"
| "deny_reason_value PRINCIPAL_INACTIVE = ''principal_inactive''"
| "deny_reason_value SCOPE_NOT_GRANTED = ''scope_not_granted''"
| "deny_reason_value CAPABILITY_STOPPED = ''capability_stopped''"
| "deny_reason_value GRANT_INACTIVE = ''grant_inactive''"
| "deny_reason_value GRANT_EXPIRED = ''grant_expired''"
| "deny_reason_value CAPABILITY_MISMATCH = ''capability_mismatch''"
| "deny_reason_value UNKNOWN_FINGERPRINT = ''unknown_fingerprint''"
| "deny_reason_value CASE_TYPE_NOT_ALLOWED = ''case_type_not_allowed''"
| "deny_reason_value EVIDENCE_INCOMPLETE = ''evidence_incomplete''"
| "deny_reason_value DESTINATION_NOT_ALLOWED = ''destination_not_allowed''"
| "deny_reason_value EXTERNAL_NOT_PERMITTED = ''external_not_permitted''"
| "deny_reason_value FINANCIAL_NOT_PERMITTED = ''financial_not_permitted''"
| "deny_reason_value DENIED_AUTHORITY = ''denied_authority''"
| "deny_reason_value GRANT_REVOKED = ''grant_revoked''"
| "deny_reason_value POLICY_REVISION_CHANGED = ''policy_revision_changed''"
| "deny_reason_value ATTESTATION_EXPIRED = ''attestation_expired''"
| "deny_reason_value CASE_REVISION_CHANGED = ''case_revision_changed''"
| "deny_reason_value PAYLOAD_HASH_MISMATCH = ''payload_hash_mismatch''"
| "deny_reason_value DUPLICATE_ACTION = ''duplicate_action''"

record grant_view =
  gv_policy_id :: string
  gv_policy_revision :: int
  gv_capability :: string
  gv_allowed_case_types :: "string set"
  gv_allowed_destinations :: "string set"
  gv_external_messages :: bool
  gv_financial_commitments :: bool
  gv_required_evidence :: "string set"
  gv_qualified_fingerprints :: "string set"
  gv_attestation_ttl_seconds :: int
  gv_signing_key_id :: string
  gv_valid_from :: pydatetime
  gv_valid_to :: pydatetime
  gv_active :: bool

record principal_view =
  pv_subject :: string
  pv_tenant_id :: string
  pv_allowed_scopes :: "string set"
  pv_deployment_fingerprint :: string
  pv_active :: bool

record action_request =
  aq_tenant_id :: string
  aq_principal_subject :: string
  aq_capability :: string
  aq_case_id :: string
  aq_case_revision :: int
  aq_action_key :: string
  aq_destination :: string
  aq_case_type :: string
  aq_evidence_hash :: string
  aq_provided_evidence :: "string set"
  aq_system_fingerprint :: string
  aq_payload :: json
  aq_requires_external :: bool
  aq_requires_financial :: bool

record policy_decision =
  pd_allowed :: bool
  pd_reason :: deny_reason
  pd_payload_hash :: string
  pd_expires_at :: "instant option"
  pd_signing_key_id :: "string option"

section \<open>Evaluation\<close>

definition evaluate_policy ::
  "hash \<Rightarrow> action_request \<Rightarrow> grant_view \<Rightarrow> principal_view \<Rightarrow> pydatetime \<Rightarrow> bool \<Rightarrow> policy_decision" where
  "evaluate_policy sha256 request grant prin now stop_active =
    (let payload_hash = canonical_payload_hash sha256 (aq_payload request);
         deny = (\<lambda>reason. \<lparr>pd_allowed = False, pd_reason = reason, pd_payload_hash = payload_hash,
           pd_expires_at = None, pd_signing_key_id = None\<rparr>);
         moment = as_utc now
     in
     if aq_capability request \<notin> set KNOWN_CAPABILITIES then deny UNRECOGNIZED_ACTION
     else if pv_subject prin \<noteq> aq_principal_subject request \<or> \<not> pv_active prin
       then deny PRINCIPAL_INACTIVE
     else if pv_tenant_id prin \<noteq> aq_tenant_id request then deny CROSS_TENANT_PRINCIPAL
     else if aq_capability request \<notin> pv_allowed_scopes prin then deny SCOPE_NOT_GRANTED
     else if stop_active then deny CAPABILITY_STOPPED
     else if \<not> gv_active grant then deny GRANT_INACTIVE
     else if gv_capability grant \<noteq> aq_capability request then deny CAPABILITY_MISMATCH
     else if \<not> (as_utc (gv_valid_from grant) \<le> moment \<and> moment < as_utc (gv_valid_to grant))
       then deny GRANT_EXPIRED
     else if aq_system_fingerprint request \<notin> gv_qualified_fingerprints grant
         \<or> aq_system_fingerprint request \<noteq> pv_deployment_fingerprint prin
       then deny UNKNOWN_FINGERPRINT
     else if aq_case_type request \<notin> gv_allowed_case_types grant then deny CASE_TYPE_NOT_ALLOWED
     else if aq_evidence_hash request = []
         \<or> \<not> gv_required_evidence grant \<subseteq> aq_provided_evidence request
       then deny EVIDENCE_INCOMPLETE
     else if aq_destination request \<notin> gv_allowed_destinations grant
       then deny DESTINATION_NOT_ALLOWED
     else if aq_requires_external request \<and> \<not> gv_external_messages grant
       then deny EXTERNAL_NOT_PERMITTED
     else if aq_requires_financial request \<and> \<not> gv_financial_commitments grant
       then deny FINANCIAL_NOT_PERMITTED
     else \<lparr>pd_allowed = True, pd_reason = OK, pd_payload_hash = payload_hash,
       pd_expires_at = Some (moment + gv_attestation_ttl_seconds grant * SECOND),
       pd_signing_key_id = Some (gv_signing_key_id grant)\<rparr>)"

text \<open>The authority a proposal must have, stated without the order of the checks.\<close>

definition principal_entitled :: "action_request \<Rightarrow> principal_view \<Rightarrow> bool" where
  "principal_entitled q p \<longleftrightarrow> pv_active p \<and> pv_subject p = aq_principal_subject q \<and>
    pv_tenant_id p = aq_tenant_id q \<and> aq_capability q \<in> pv_allowed_scopes p \<and>
    pv_deployment_fingerprint p = aq_system_fingerprint q"

definition grant_covers :: "action_request \<Rightarrow> grant_view \<Rightarrow> instant \<Rightarrow> bool" where
  "grant_covers q g t \<longleftrightarrow> gv_active g \<and> gv_capability g = aq_capability q \<and>
    as_utc (gv_valid_from g) \<le> t \<and> t < as_utc (gv_valid_to g) \<and>
    aq_system_fingerprint q \<in> gv_qualified_fingerprints g \<and>
    aq_case_type q \<in> gv_allowed_case_types g \<and> aq_destination q \<in> gv_allowed_destinations g \<and>
    aq_evidence_hash q \<noteq> [] \<and> gv_required_evidence g \<subseteq> aq_provided_evidence q \<and>
    (aq_requires_external q \<longrightarrow> gv_external_messages g) \<and>
    (aq_requires_financial q \<longrightarrow> gv_financial_commitments g)"

lemma evaluate_policy_hash [simp]:
  "pd_payload_hash (evaluate_policy sha256 q g p now stop) = canonical_payload_hash sha256 (aq_payload q)"
  by (simp add: evaluate_policy_def Let_def)

lemma evaluate_policy_allowed:
  "pd_allowed (evaluate_policy sha256 q g p now stop) \<longleftrightarrow>
    aq_capability q \<in> set KNOWN_CAPABILITIES \<and> \<not> stop \<and> principal_entitled q p \<and>
    grant_covers q g (as_utc now)"
  by (auto simp: evaluate_policy_def Let_def principal_entitled_def grant_covers_def)

lemma evaluate_policy_reason:
  "pd_reason (evaluate_policy sha256 q g p now stop) = OK \<longleftrightarrow> pd_allowed (evaluate_policy sha256 q g p now stop)"
  by (simp add: evaluate_policy_def Let_def)

text \<open>C36: the ordered guard chain is exactly the conjunction of the declared authority: a proposal
  is allowed if and only if its capability is known, no stop is active, the principal of the same
  tenant is entitled, and the grant covers it now; an allow binds the payload hash, the signing
  key and an expiry of the grant's lifetime from now, and a denial carries a reason, the same
  payload hash and no expiry.\<close>

theorem evaluate_policy_exact:
  "let d = evaluate_policy sha256 q g p now stop in
    (pd_allowed d \<longleftrightarrow> aq_capability q \<in> set KNOWN_CAPABILITIES \<and> \<not> stop \<and>
      principal_entitled q p \<and> grant_covers q g (as_utc now)) \<and>
    pd_payload_hash d = canonical_payload_hash sha256 (aq_payload q) \<and>
    (if pd_allowed d
     then pd_reason d = OK \<and> pd_signing_key_id d = Some (gv_signing_key_id g) \<and>
       pd_expires_at d = Some (as_utc now + gv_attestation_ttl_seconds g * SECOND)
     else pd_reason d \<noteq> OK \<and> pd_signing_key_id d = None \<and> pd_expires_at d = None)"
  unfolding Let_def
proof (intro conjI)
  show "pd_allowed (evaluate_policy sha256 q g p now stop) \<longleftrightarrow>
      aq_capability q \<in> set KNOWN_CAPABILITIES \<and> \<not> stop \<and> principal_entitled q p \<and>
      grant_covers q g (as_utc now)"
    by (rule evaluate_policy_allowed)
qed (simp_all add: evaluate_policy_def Let_def)

end
