(* ===== verification/PolicyService.thy ===== *)
theory PolicyService
  imports Schema Policy
begin

text \<open>
  The policy service and the executor recheck
  (\<open>packages/pipeline/eastmed_pipeline/reconciliation_policy.py\<close>): attestations are recorded
  for allows and denials, and a dispatch consumes one. \<open>None\<close> as the result of
  \<open>attest_action\<close> is the \<open>ValueError\<close> of a case identifier that is no UUID.
\<close>

section \<open>Resolution\<close>

record dispatch_authority =
  da_authorized :: bool
  da_reason :: deny_reason

definition resolve_principal :: "store \<Rightarrow> uid \<Rightarrow> string \<Rightarrow> principal_row option" where
  "resolve_principal st account_id subject =
    find (\<lambda>p. sp_account p = account_id \<and> sp_subject p = subject) (st_principals st)"

definition resolve_grant :: "store \<Rightarrow> uid \<Rightarrow> string \<Rightarrow> grant_row option" where
  "resolve_grant st account_id capability =
    first_desc sg_policy_revision
      (filter (\<lambda>g. sg_account g = account_id \<and> sg_capability g = capability \<and> sg_active g) (st_grants st))"

definition grant_view_of :: "grant_row \<Rightarrow> grant_view" where
  "grant_view_of g = \<lparr>gv_policy_id = sg_policy_id g, gv_policy_revision = sg_policy_revision g,
    gv_capability = sg_capability g, gv_allowed_case_types = set (sg_allowed_case_types g),
    gv_allowed_destinations = set (sg_allowed_destinations g),
    gv_external_messages = sg_external_messages g,
    gv_financial_commitments = sg_financial_commitments g,
    gv_required_evidence = set (sg_required_evidence g),
    gv_qualified_fingerprints = set (sg_qualified_fingerprints g),
    gv_attestation_ttl_seconds = sg_attestation_ttl_seconds g,
    gv_signing_key_id = sg_signing_key_id g, gv_valid_from = Aware (sg_valid_from g),
    gv_valid_to = Aware (sg_valid_to g), gv_active = sg_active g\<rparr>"

definition principal_view_of :: "principal_row \<Rightarrow> principal_view" where
  "principal_view_of p = \<lparr>pv_subject = sp_subject p, pv_tenant_id = uuid_str (sp_account p),
    pv_allowed_scopes = set (sp_allowed_scopes p),
    pv_deployment_fingerprint = sp_deployment_fingerprint p, pv_active = sp_active p\<rparr>"

section \<open>Attestation\<close>

definition record_attestation ::
  "store \<Rightarrow> uid \<Rightarrow> action_request \<Rightarrow> attestation_decision \<Rightarrow> deny_reason \<Rightarrow> string \<Rightarrow>
    grant_row option \<Rightarrow> uid option \<Rightarrow> instant option \<Rightarrow> (store \<times> attestation_row) option" where
  "record_attestation st account_id request decision reason payload_hash grant principal_id expires_at =
    (case uuid_parse (aq_case_id request) of
       None \<Rightarrow> None
     | Some case_id \<Rightarrow>
        let attestation = \<lparr>aa_id = st_next st, aa_account = account_id,
          aa_grant = map_option sg_id grant, aa_principal = principal_id,
          aa_action_key = aq_action_key request, aa_capability = aq_capability request,
          aa_case = case_id, aa_case_revision = aq_case_revision request,
          aa_destination = aq_destination request, aa_evidence_hash = aq_evidence_hash request,
          aa_payload_hash = payload_hash,
          aa_policy_id = (case grant of None \<Rightarrow> [] | Some g \<Rightarrow> sg_policy_id g),
          aa_policy_revision = (case grant of None \<Rightarrow> 0 | Some g \<Rightarrow> sg_policy_revision g),
          aa_system_fingerprint = aq_system_fingerprint request,
          aa_signing_key_id = (case grant of None \<Rightarrow> [] | Some g \<Rightarrow> sg_signing_key_id g),
          aa_decision = decision, aa_reason = deny_reason_value reason, aa_expires_at = expires_at,
          aa_dispatched_at = None\<rparr>
        in if columns_fit st [(128, aa_action_key attestation), (128, aa_capability attestation),
             (128, aa_destination attestation), (64, aa_evidence_hash attestation),
             (64, aa_payload_hash attestation), (128, aa_policy_id attestation),
             (64, aa_system_fingerprint attestation), (64, aa_signing_key_id attestation),
             (64, aa_reason attestation)]
           then Some (st\<lparr>st_attestations := st_attestations st @ [attestation],
             st_next := st_next st + 1\<rparr>, attestation)
           else None)"

definition attest_action ::
  "hash \<Rightarrow> store \<Rightarrow> uid \<Rightarrow> action_request \<Rightarrow> instant \<Rightarrow> bool \<Rightarrow> (store \<times> attestation_row) option" where
  "attest_action sha256 st account_id request now stop_active =
    (let payload_hash = canonical_payload_hash sha256 (aq_payload request);
         principal = resolve_principal st account_id (aq_principal_subject request);
         grant = resolve_grant st account_id (aq_capability request)
     in case grant of
          None \<Rightarrow> record_attestation st account_id request AD_DENY MISSING_POLICY payload_hash None
            (map_option sp_id principal) None
        | Some g \<Rightarrow>
           (case principal of
              None \<Rightarrow> record_attestation st account_id request AD_DENY PRINCIPAL_INACTIVE payload_hash
                (Some g) None None
            | Some p \<Rightarrow>
                let d = evaluate_policy sha256 request (grant_view_of g) (principal_view_of p)
                  (Aware now) stop_active
                in record_attestation st account_id request (if pd_allowed d then AD_ALLOW else AD_DENY)
                  (pd_reason d) (pd_payload_hash d) (Some g) (Some (sp_id p)) (pd_expires_at d)))"

section \<open>Executor recheck\<close>

definition reject_dispatch :: "deny_reason \<Rightarrow> dispatch_authority" where
  "reject_dispatch reason = \<lparr>da_authorized = False, da_reason = reason\<rparr>"

definition find_attestation :: "store \<Rightarrow> uid \<Rightarrow> uid \<Rightarrow> attestation_row option" where
  "find_attestation st account_id attestation_id =
    find (\<lambda>a. aa_account a = account_id \<and> aa_id a = attestation_id) (st_attestations st)"

definition dispatch_grant :: "store \<Rightarrow> attestation_row \<Rightarrow> grant_row option" where
  "dispatch_grant st a = (case aa_grant a of None \<Rightarrow> None | Some g \<Rightarrow> row_get sg_id g (st_grants st))"

definition already_dispatched :: "store \<Rightarrow> uid \<Rightarrow> string \<Rightarrow> bool" where
  "already_dispatched st account_id action_key =
    list_ex (\<lambda>a. aa_account a = account_id \<and> aa_action_key a = action_key \<and> aa_dispatched_at a \<noteq> None)
      (st_attestations st)"

definition authorize_dispatch ::
  "hash \<Rightarrow> store \<Rightarrow> uid \<Rightarrow> uid \<Rightarrow> json \<Rightarrow> int \<Rightarrow> instant \<Rightarrow> bool \<Rightarrow> store \<times> dispatch_authority" where
  "authorize_dispatch sha256 st account_id attestation_id current_payload current_case_revision now stop_active =
    (case find_attestation st account_id attestation_id of
       None \<Rightarrow> (st, reject_dispatch DENIED_AUTHORITY)
     | Some a \<Rightarrow>
        if aa_decision a \<noteq> AD_ALLOW then (st, reject_dispatch DENIED_AUTHORITY)
        else if aa_dispatched_at a \<noteq> None then (st, reject_dispatch DUPLICATE_ACTION)
        else if stop_active then (st, reject_dispatch CAPABILITY_STOPPED)
        else (case dispatch_grant st a of
          None \<Rightarrow> (st, reject_dispatch GRANT_REVOKED)
        | Some g \<Rightarrow>
          if sg_account g \<noteq> account_id \<or> \<not> sg_active g then (st, reject_dispatch GRANT_REVOKED)
          else if sg_policy_revision g \<noteq> aa_policy_revision a
            then (st, reject_dispatch POLICY_REVISION_CHANGED)
          else if (case aa_expires_at a of None \<Rightarrow> True | Some e \<Rightarrow> e < now)
            then (st, reject_dispatch ATTESTATION_EXPIRED)
          else if current_case_revision \<noteq> aa_case_revision a
            then (st, reject_dispatch CASE_REVISION_CHANGED)
          else if canonical_payload_hash sha256 current_payload \<noteq> aa_payload_hash a
            then (st, reject_dispatch PAYLOAD_HASH_MISMATCH)
          else if aa_system_fingerprint a \<notin> set (sg_qualified_fingerprints g)
            then (st, reject_dispatch UNKNOWN_FINGERPRINT)
          else if already_dispatched st account_id (aa_action_key a)
            then (st, reject_dispatch DUPLICATE_ACTION)
          else (upd_attestation (aa_id a) (\<lambda>x. x\<lparr>aa_dispatched_at := Some now\<rparr>) st,
                \<lparr>da_authorized = True, da_reason = OK\<rparr>)))"

section \<open>What the recheck demands\<close>

text \<open>The authority of an attestation at a moment, stated without the order of the checks.\<close>

definition authority_stands ::
  "hash \<Rightarrow> store \<Rightarrow> uid \<Rightarrow> attestation_row \<Rightarrow> json \<Rightarrow> int \<Rightarrow> instant \<Rightarrow> bool" where
  "authority_stands sha256 st account_id a payload revision now \<longleftrightarrow>
    aa_decision a = AD_ALLOW \<and> aa_dispatched_at a = None \<and>
    (\<exists>e. aa_expires_at a = Some e \<and> now \<le> e) \<and> aa_case_revision a = revision \<and>
    aa_payload_hash a = canonical_payload_hash sha256 payload \<and>
    (\<exists>g. dispatch_grant st a = Some g \<and> sg_account g = account_id \<and> sg_active g \<and>
      sg_policy_revision g = aa_policy_revision a \<and>
      aa_system_fingerprint a \<in> set (sg_qualified_fingerprints g)) \<and>
    \<not> already_dispatched st account_id (aa_action_key a)"

lemma authorize_dispatch_granted:
  assumes "find_attestation st acc i = Some a" and "authority_stands sha256 st acc a p revn now" and "\<not> stop"
  shows "authorize_dispatch sha256 st acc i p revn now stop =
    (upd_attestation (aa_id a) (\<lambda>x. x\<lparr>aa_dispatched_at := Some now\<rparr>) st,
     \<lparr>da_authorized = True, da_reason = OK\<rparr>)"
  using assms by (auto simp: authorize_dispatch_def authority_stands_def)

lemma if_reject:
  assumes "c \<Longrightarrow> x \<noteq> OK" and "\<not> c \<Longrightarrow> \<exists>r. r \<noteq> OK \<and> E = (st, reject_dispatch r)"
  shows "\<exists>r. r \<noteq> OK \<and> (if c then (st, reject_dispatch x) else E) = (st, reject_dispatch r)"
  using assms by (cases c) auto

lemma authorize_dispatch_refused:
  assumes "\<And>a. find_attestation st acc i = Some a \<Longrightarrow> \<not> authority_stands sha256 st acc a p revn now \<or> stop"
  shows "\<exists>r. r \<noteq> OK \<and> authorize_dispatch sha256 st acc i p revn now stop = (st, reject_dispatch r)"
proof (cases "find_attestation st acc i")
  case None
  then show ?thesis by (auto simp: authorize_dispatch_def)
next
  case (Some a)
  have no: "\<not> authority_stands sha256 st acc a p revn now \<or> stop" by (rule assms [OF Some])
  show ?thesis
  proof (cases "dispatch_grant st a")
    case None
    then show ?thesis
      unfolding authorize_dispatch_def Some option.case by (intro if_reject) auto
  next
    case (Some g)
    show ?thesis
      unfolding authorize_dispatch_def \<open>find_attestation st acc i = Some a\<close> Some option.case
    proof (intro if_reject)
      assume *: "\<not> aa_decision a \<noteq> AD_ALLOW" "\<not> aa_dispatched_at a \<noteq> None" "\<not> stop"
        "\<not> (sg_account g \<noteq> acc \<or> \<not> sg_active g)" "\<not> sg_policy_revision g \<noteq> aa_policy_revision a"
        "\<not> (case aa_expires_at a of None \<Rightarrow> True | Some e \<Rightarrow> e < now)"
        "\<not> revn \<noteq> aa_case_revision a" "\<not> canonical_payload_hash sha256 p \<noteq> aa_payload_hash a"
        "\<not> aa_system_fingerprint a \<notin> set (sg_qualified_fingerprints g)"
        "\<not> already_dispatched st acc (aa_action_key a)"
      have "\<exists>e. aa_expires_at a = Some e \<and> now \<le> e"
        using *(6) by (cases "aa_expires_at a") simp_all
      with * no Some have False by (simp add: authority_stands_def)
      then show "\<exists>r. r \<noteq> OK \<and> (upd_attestation (aa_id a) (\<lambda>x. x\<lparr>aa_dispatched_at := Some now\<rparr>) st,
          \<lparr>da_authorized = True, da_reason = OK\<rparr>) = (st, reject_dispatch r)" ..
    qed simp_all
  qed
qed

lemma authorize_dispatch_cases:
  assumes "authorize_dispatch sha256 st acc i p revn now stop = (st', d)"
  obtains (granted) a where "find_attestation st acc i = Some a" "\<not> stop"
      "authority_stands sha256 st acc a p revn now" "d = \<lparr>da_authorized = True, da_reason = OK\<rparr>"
      "st' = upd_attestation (aa_id a) (\<lambda>x. x\<lparr>aa_dispatched_at := Some now\<rparr>) st"
  | (refused) "\<not> da_authorized d" "da_reason d \<noteq> OK" "st' = st"
proof (cases "\<exists>a. find_attestation st acc i = Some a \<and> authority_stands sha256 st acc a p revn now \<and> \<not> stop")
  case True
  then obtain a where a: "find_attestation st acc i = Some a"
    "authority_stands sha256 st acc a p revn now" "\<not> stop" by blast
  with authorize_dispatch_granted [OF a] assms show ?thesis by (intro granted) auto
next
  case False
  then obtain r where "r \<noteq> OK" "authorize_dispatch sha256 st acc i p revn now stop = (st, reject_dispatch r)"
    using authorize_dispatch_refused [of st acc i sha256 p revn now stop] by blast
  with assms show ?thesis by (intro refused) (auto simp: reject_dispatch_def)
qed

end
