(* ===== verification/PolicyService_Props.thy ===== *)
theory PolicyService_Props
  imports PolicyService "HOL-Library.Multiset"
begin

text \<open>
  Attestation and dispatch as a transition system: any proposals and rechecks by any executors, in
  any order, while grants and principals change; each logical action is dispatched at most once.
\<close>

section \<open>Steps\<close>

datatype authority_event = Attest | Authorize uid | Provision

inductive authority_step :: "store \<Rightarrow> authority_event \<Rightarrow> store \<Rightarrow> bool" where
  au_attest: "attest_action sha256 st acc request now stop = Some (st', a) \<Longrightarrow>
    authority_step st Attest st'"
| au_authorize: "authorize_dispatch sha256 st acc i payload revn now stop = (st', d) \<Longrightarrow>
    authority_step st (Authorize i) st'"
| au_provision: "st_attestations st' = st_attestations st \<Longrightarrow> st_next st \<le> st_next st' \<Longrightarrow>
    authority_step st Provision st'"

definition dispatched_keys :: "attestation_row list \<Rightarrow> (uid \<times> string) list" where
  "dispatched_keys as =
    map (\<lambda>a. (aa_account a, aa_action_key a)) (filter (\<lambda>a. aa_dispatched_at a \<noteq> None) as)"

definition authority_inv :: "store \<Rightarrow> bool" where
  "authority_inv st \<longleftrightarrow> distinct (map aa_id (st_attestations st)) \<and>
    (\<forall>a \<in> set (st_attestations st). aa_id a < st_next st \<and>
      (aa_dispatched_at a \<noteq> None \<longrightarrow> aa_decision a = AD_ALLOW)) \<and>
    distinct (dispatched_keys (st_attestations st))"

lemma record_attestation_Some:
  assumes "record_attestation st acc q dec reason h g p e = Some (st', a)"
  shows "st' = st\<lparr>st_attestations := st_attestations st @ [a], st_next := st_next st + 1\<rparr>"
    and "aa_id a = st_next st" and "aa_dispatched_at a = None" and "aa_account a = acc"
    and "aa_decision a = dec" and "aa_reason a = deny_reason_value reason" and "aa_payload_hash a = h"
    and "aa_action_key a = aq_action_key q" and "aa_expires_at a = e" and "aa_grant a = map_option sg_id g"
    and "aa_case_revision a = aq_case_revision q"
    and "aa_policy_revision a = (case g of None \<Rightarrow> 0 | Some g \<Rightarrow> sg_policy_revision g)"
    and "aa_system_fingerprint a = aq_system_fingerprint q"
  using assms by (auto simp: record_attestation_def Let_def split: option.splits if_splits)

lemma attest_action_record:
  assumes "attest_action sha256 st acc q now stop = Some (st', a)"
  obtains dec reason h g p e where "record_attestation st acc q dec reason h g p e = Some (st', a)"
  using assms by (auto simp: attest_action_def Let_def split: option.splits)

lemma attest_keeps:
  assumes inv: "authority_inv st" and eq: "attest_action sha256 st acc q now stop = Some (st', a)"
  shows "authority_inv st'"
proof -
  from eq obtain dec reason h g p e where
    "record_attestation st acc q dec reason h g p e = Some (st', a)" by (rule attest_action_record)
  note r = record_attestation_Some [OF this]
  show ?thesis
    using inv r(2,3) unfolding authority_inv_def r(1)
    by (auto simp: dispatched_keys_def less_SucI)
qed

lemma find_attestation_Some:
  assumes "find_attestation st acc i = Some a"
  shows "a \<in> set (st_attestations st)" and "aa_id a = i" and "aa_account a = acc"
  using assms by (auto simp: find_attestation_def find_Some_iff)

lemma dispatched_keys_stamp:
  assumes "distinct (map aa_id as)" and "a \<in> set as" and "aa_dispatched_at a = None"
  shows "mset (dispatched_keys (row_upd aa_id (aa_id a) (\<lambda>x. x\<lparr>aa_dispatched_at := Some now\<rparr>) as)) =
    add_mset (aa_account a, aa_action_key a) (mset (dispatched_keys as))"
  using assms
proof (induction as)
  case Nil
  then show ?case by simp
next
  case (Cons x as)
  have same: "row_upd aa_id (aa_id a) f as = as" if "aa_id a \<notin> aa_id ` set as" for f
    using that by (induction as) (auto simp: row_upd_def)
  show ?case
  proof (cases "x = a")
    case True
    with Cons.prems have "aa_id a \<notin> aa_id ` set as" by auto
    with same [OF this] True Cons.prems(3) show ?thesis
      by (simp add: dispatched_keys_def row_upd_def)
  next
    case False
    with Cons.prems have "a \<in> set as" "aa_id x \<noteq> aa_id a" by auto
    then have "mset (dispatched_keys (row_upd aa_id (aa_id a) (\<lambda>x. x\<lparr>aa_dispatched_at := Some now\<rparr>) as)) =
        add_mset (aa_account a, aa_action_key a) (mset (dispatched_keys as))"
      using Cons.IH Cons.prems by simp
    with \<open>aa_id x \<noteq> aa_id a\<close> show ?thesis
      by (cases "aa_dispatched_at x") (simp_all add: dispatched_keys_def row_upd_def add_mset_commute)
  qed
qed

lemma authorize_keeps:
  assumes inv: "authority_inv st" and eq: "authorize_dispatch sha256 st acc i p revn now stop = (st', d)"
  shows "authority_inv st'"
  using eq
proof (cases rule: authorize_dispatch_cases)
  case (granted a)
  note a = find_attestation_Some [OF granted(1)]
  let ?as = "row_upd aa_id (aa_id a) (\<lambda>x. x\<lparr>aa_dispatched_at := Some now\<rparr>) (st_attestations st)"
  have fresh: "aa_dispatched_at a = None" "aa_decision a = AD_ALLOW"
    "(aa_account a, aa_action_key a) \<notin> set (dispatched_keys (st_attestations st))"
    using granted(3) a(3)
    by (auto simp: authority_stands_def already_dispatched_def dispatched_keys_def list_ex_iff)
  have dist: "distinct (map aa_id (st_attestations st))" using inv by (simp add: authority_inv_def)
  have "distinct (dispatched_keys ?as)"
    using dispatched_keys_stamp [OF dist a(1) fresh(1), of now] inv fresh(3)
    by (metis authority_inv_def distinct.simps(2) mset.simps(2) mset_eq_imp_distinct_iff)
  moreover have "aa_id x < st_next st \<and> (aa_dispatched_at x \<noteq> None \<longrightarrow> aa_decision x = AD_ALLOW)"
    if x: "x \<in> set ?as" for x
    using in_row_upd [OF x] inv a(1) fresh(2) dist
    by (auto simp: authority_inv_def distinct_map dest: inj_onD)
  ultimately show ?thesis
    using dist by (simp add: authority_inv_def granted(5) upd_attestation_def row_simps)
qed (use inv in simp)

lemma authority_step_keeps: "authority_step st e st' \<Longrightarrow> authority_inv st \<Longrightarrow> authority_inv st'"
proof (induction rule: authority_step.induct)
  case (au_provision st' st)
  then show ?case by (auto simp: authority_inv_def intro: less_le_trans)
qed (blast intro: attest_keeps authorize_keeps)+

interpretation authority: step_invariant authority_step authority_inv
  by unfold_locales (rule authority_step_keeps)

section \<open>A concrete grant\<close>

text \<open>The digest of the samples is the identity: any function of the canonical text will do.\<close>

definition sample_hash :: hash where "sample_hash s = s"

definition sample_principal :: principal_row where
  "sample_principal = \<lparr>sp_id = 11, sp_account = 7, sp_subject = ''svc'', sp_issuer = ''iss'',
    sp_audience = ''aud'', sp_allowed_scopes = [''operations.private_publish''],
    sp_deployment_fingerprint = ''fp'', sp_active = True\<rparr>"

definition sample_grant :: grant_row where
  "sample_grant = \<lparr>sg_id = 12, sg_account = 7, sg_policy_id = ''p'', sg_policy_revision = 1,
    sg_capability = ''operations.private_publish'', sg_allowed_case_types = [''daily_reconciliation''],
    sg_allowed_destinations = [''tenant_private_portal''], sg_external_messages = False,
    sg_financial_commitments = False,
    sg_required_evidence = [''required_inputs_complete'', ''accepted_facts''],
    sg_required_artifact = ''case'', sg_qualified_fingerprints = [''fp''],
    sg_attestation_ttl_seconds = 60, sg_signing_key_id = ''k'', sg_valid_from = 0, sg_valid_to = 10000000,
    sg_active = True\<rparr>"

definition sample_authority :: store where
  "sample_authority = empty_store\<lparr>st_next := 20, st_principals := [sample_principal],
    st_grants := [sample_grant]\<rparr>"

definition sample_request :: action_request where
  "sample_request = \<lparr>aq_tenant_id = uuid_str 7, aq_principal_subject = ''svc'',
    aq_capability = ''operations.private_publish'', aq_case_id = uuid_str 9, aq_case_revision = 1,
    aq_action_key = ''key'', aq_destination = ''tenant_private_portal'',
    aq_case_type = ''daily_reconciliation'', aq_evidence_hash = ''e'',
    aq_provided_evidence = {''required_inputs_complete'', ''accepted_facts''},
    aq_system_fingerprint = ''fp'', aq_payload = JObj [], aq_requires_external = False,
    aq_requires_financial = False\<rparr>"

definition sample_attested :: store where
  "sample_attested = fst (the (attest_action sample_hash sample_authority 7 sample_request 5 False))"

definition sample_attestation :: attestation_row where
  "sample_attestation = snd (the (attest_action sample_hash sample_authority 7 sample_request 5 False))"

lemma sample_attest:
  "attest_action sample_hash sample_authority 7 sample_request 5 False = Some (sample_attested, sample_attestation)"
proof -
  have "attest_action sample_hash sample_authority 7 sample_request 5 False \<noteq> None" by code_simp
  then show ?thesis by (auto simp: sample_attested_def sample_attestation_def)
qed

definition sample_dispatched :: store where
  "sample_dispatched = fst (authorize_dispatch sample_hash sample_attested 7 20 (JObj []) 1 6 False)"

lemma sample_dispatch_facts:
  "list_all (\<lambda>a. aa_dispatched_at a = Some 6 \<and> aa_id a = 20) (st_attestations sample_dispatched)"
  "length (st_attestations sample_dispatched) = 1" "aa_decision sample_attestation = AD_ALLOW"
  by code_simp+

lemma sample_dispatch_reach: "reaches authority_step sample_authority sample_dispatched"
proof (rule reaches_step [where t = sample_attested])
  show "reaches authority_step sample_authority sample_attested"
    by (rule reaches_step [where t = sample_authority, OF reaches_refl]) (rule au_attest [OF sample_attest])
  show "authority_step sample_attested (Authorize 20) sample_dispatched"
    unfolding sample_dispatched_def by (rule au_authorize) (rule prod.collapse [symmetric])
qed

lemma sample_authority_inv: "authority_inv sample_authority"
  by (simp add: authority_inv_def sample_authority_def empty_store_def dispatched_keys_def)

section \<open>Properties\<close>

text \<open>the recheck authorises a dispatch exactly when an allow of this tenant still stands: not yet
  dispatched, unexpired, for the current case revision and the exact payload, under an active grant
  of the same tenant and policy revision that still qualifies the fingerprint, with no stop and no
  other dispatch of the action; it then consumes the attestation, and otherwise changes nothing.\<close>

theorem authorize_dispatch_exact:
  "let (st', d) = authorize_dispatch sha256 st acc i payload revn now stop in
    (if \<exists>a. find_attestation st acc i = Some a \<and> authority_stands sha256 st acc a payload revn now \<and> \<not> stop
     then da_authorized d \<and> da_reason d = OK \<and>
       st' = upd_attestation i (\<lambda>x. x\<lparr>aa_dispatched_at := Some now\<rparr>) st
     else \<not> da_authorized d \<and> da_reason d \<noteq> OK \<and> st' = st)"
proof (cases "\<exists>a. find_attestation st acc i = Some a \<and> authority_stands sha256 st acc a payload revn now \<and> \<not> stop")
  case True
  then obtain a where a: "find_attestation st acc i = Some a"
    "authority_stands sha256 st acc a payload revn now" "\<not> stop" by blast
  from authorize_dispatch_granted [OF this] find_attestation_Some(2) [OF a(1)] True
  show ?thesis by simp
next
  case False
  then obtain r where "r \<noteq> OK"
    "authorize_dispatch sha256 st acc i payload revn now stop = (st, reject_dispatch r)"
    using authorize_dispatch_refused [of st acc i sha256 payload revn now stop] by blast
  with False show ?thesis by (simp add: reject_dispatch_def)
qed

text \<open>C5: however proposals, rechecks and provisioning interleave, at most one attestation of a
  tenant's logical action is ever dispatched, and only an allow is.\<close>

theorem action_dispatched_at_most_once:
  assumes "reaches authority_step st0 st" and "authority_inv st0"
    and "a \<in> set (st_attestations st)" and "aa_dispatched_at a \<noteq> None"
  shows "aa_decision a = AD_ALLOW \<and>
    filter (\<lambda>b. aa_account b = aa_account a \<and> aa_action_key b = aa_action_key a \<and>
      aa_dispatched_at b \<noteq> None) (st_attestations st) = [a]"
proof -
  have inv: "authority_inv st" by (rule authority.reaches_keeps [OF assms(1,2)])
  let ?mine = "filter (\<lambda>b. aa_account b = aa_account a \<and> aa_action_key b = aa_action_key a \<and>
      aa_dispatched_at b \<noteq> None) (st_attestations st)"
  have "inj_on (\<lambda>a. (aa_account a, aa_action_key a)) (set (filter (\<lambda>a. aa_dispatched_at a \<noteq> None) (st_attestations st)))"
    using inv by (simp add: authority_inv_def dispatched_keys_def distinct_map)
  then have "b = a" if "b \<in> set ?mine" for b
    using that assms(3,4) by (auto simp: inj_on_def)
  moreover have "a \<in> set ?mine" using assms by simp
  ultimately have "set ?mine = {a}" by blast
  moreover have "distinct ?mine" using inv by (auto simp: authority_inv_def distinct_map)
  ultimately have "?mine = [a]" by (rule singleton_list)
  with inv assms(3,4) show ?thesis by (auto simp: authority_inv_def)
qed

theorem action_dispatched_at_most_once_witness:
  "\<exists>a. filter (\<lambda>b. aa_action_key b = aa_action_key a \<and> aa_account b = aa_account a \<and>
    aa_dispatched_at b \<noteq> None) (st_attestations sample_dispatched) = [a]"
proof -
  obtain a where "a \<in> set (st_attestations sample_dispatched)"
    using sample_dispatch_facts(2) by (cases "st_attestations sample_dispatched") auto
  moreover from this have "aa_dispatched_at a \<noteq> None"
    using sample_dispatch_facts(1) by (auto simp: list_all_iff)
  ultimately have "filter (\<lambda>b. aa_account b = aa_account a \<and> aa_action_key b = aa_action_key a \<and>
      aa_dispatched_at b \<noteq> None) (st_attestations sample_dispatched) = [a]"
    using action_dispatched_at_most_once [OF sample_dispatch_reach sample_authority_inv] by blast
  then show ?thesis by (auto simp: conj_ac)
qed

text \<open>an attestation records the evaluation of the current grant and principal: an allow exactly
  when a grant and a principal resolve and the evaluation allows, bound to the payload hash and to
  the grant's revision and lifetime; without a grant or a principal a denial receipt is kept.\<close>

theorem attest_action_records:
  assumes "attest_action sha256 st acc q now stop = Some (st', a)"
  shows "st_attestations st' = st_attestations st @ [a] \<and> aa_dispatched_at a = None \<and>
    aa_payload_hash a = canonical_payload_hash sha256 (aq_payload q) \<and>
    (case (resolve_grant st acc (aq_capability q), resolve_principal st acc (aq_principal_subject q)) of
       (Some g, Some p) \<Rightarrow>
         if pd_allowed (evaluate_policy sha256 q (grant_view_of g) (principal_view_of p) (Aware now) stop)
         then aa_decision a = AD_ALLOW \<and> aa_grant a = Some (sg_id g) \<and>
           aa_policy_revision a = sg_policy_revision g \<and>
           aa_expires_at a = Some (now + sg_attestation_ttl_seconds g * SECOND)
         else aa_decision a = AD_DENY \<and> aa_expires_at a = None
     | (None, _) \<Rightarrow> aa_decision a = AD_DENY \<and> aa_reason a = ''missing_policy''
     | (Some g, None) \<Rightarrow> aa_decision a = AD_DENY \<and> aa_reason a = ''principal_inactive'')"
proof -
  have allowed: "pd_expires_at (evaluate_policy sha256 q (grant_view_of g) p (Aware now) stop) =
      (if pd_allowed (evaluate_policy sha256 q (grant_view_of g) p (Aware now) stop)
       then Some (now + sg_attestation_ttl_seconds g * SECOND) else None)" for g p
    by (simp add: evaluate_policy_def Let_def grant_view_of_def)
  from assms show ?thesis
    by (auto simp: attest_action_def Let_def allowed split: option.splits
        dest: record_attestation_Some)
qed

theorem attest_action_records_witness:
  "st_attestations sample_attested = [sample_attestation] \<and> aa_dispatched_at sample_attestation = None"
  using attest_action_records [OF sample_attest] by (simp add: sample_authority_def empty_store_def)

text \<open>the recheck does not read the grant's validity interval, so an attestation issued inside it
  can be dispatched after the grant itself has ended.\<close>

theorem recheck_ignores_grant_validity:
  assumes "st' = st\<lparr>st_grants := map (\<lambda>g. g\<lparr>sg_valid_from := from g, sg_valid_to := to g\<rparr>) (st_grants st)\<rparr>"
  shows "snd (authorize_dispatch sha256 st' acc i payload revn now stop) =
    snd (authorize_dispatch sha256 st acc i payload revn now stop)"
proof -
  have frame: "find_attestation st' acc i = find_attestation st acc i"
    "already_dispatched st' acc k = already_dispatched st acc k" for k
    by (simp_all add: assms find_attestation_def already_dispatched_def)
  have grant: "dispatch_grant st' a =
      map_option (\<lambda>g. g\<lparr>sg_valid_from := from g, sg_valid_to := to g\<rparr>) (dispatch_grant st a)" for a
    by (simp add: assms dispatch_grant_def row_get_map split: option.splits)
  show ?thesis
    unfolding authorize_dispatch_def frame grant
    by (cases "find_attestation st acc i")
      (simp_all add: option.case_eq_if option.map_sel)
qed

theorem recheck_ignores_grant_validity_witness:
  "da_authorized (snd (authorize_dispatch sample_hash
    (sample_attested\<lparr>st_grants := map (\<lambda>g. g\<lparr>sg_valid_from := 0, sg_valid_to := 1\<rparr>) (st_grants sample_attested)\<rparr>)
    7 20 (JObj []) 1 6 False))"
  unfolding recheck_ignores_grant_validity [OF refl] by code_simp

end
