(* ===== verification/CaseBuild.thy ===== *)
theory CaseBuild
  imports Contract Verifier_Facts PolicyService
begin

text \<open>
  The deterministic case build (\<open>packages/pipeline/eastmed_pipeline/reconciliation_case.py\<close>):
  from the immutable observations of an expected job to a versioned result, its independent
  verification and its read-back. \<open>fromiso\<close> is \<open>datetime.fromisoformat\<close>, \<open>sha256\<close> the
  hexadecimal digest of the canonical JSON text.
\<close>

section \<open>Data\<close>

definition ACTUAL_FIELD :: string where "ACTUAL_FIELD = ''fuel_consumed''"
definition PLAN_FIELD :: string where "PLAN_FIELD = ''fuel_planned''"

text \<open>What a build may raise: its own error, the \<open>TypeError\<close> of a payload that is no mapping, and
  the \<open>InvalidOperation\<close> of the decimal library.\<close>

datatype case_error = CaseBuildError string | PayloadTypeError | DecimalError

record case_result =
  rs_expected_job_id :: uid
  rs_result_json :: "(string \<times> json) list"
  rs_content_hash :: string
  rs_evidence_hash :: string
  rs_unresolved :: bool

definition sha256_of :: "hash \<Rightarrow> json \<Rightarrow> string" where
  "sha256_of sha256 payload = sha256 (json_dumps payload)"

section \<open>Current observations\<close>

definition to_quantity :: "observation_row \<Rightarrow> string \<Rightarrow> quantity_input" where
  "to_quantity o' revision = \<lparr>qi_input_id = uuid_str (ob_id o'), qi_fuel_grade = ob_fuel_grade o',
    qi_value = ob_value o', qi_unit = ob_unit o', qi_period_start = ob_period_start o',
    qi_period_end = ob_period_end o', qi_revision = revision\<rparr>"

definition revision_by_capture :: "store \<Rightarrow> uid \<Rightarrow> (uid \<times> string) list" where
  "revision_by_capture st account_id =
    map (\<lambda>c. (sc_id c, sc_source_revision c)) (filter (\<lambda>c. sc_account c = account_id) (st_captures st))"

definition revision_get :: "(uid \<times> string) list \<Rightarrow> uid \<Rightarrow> string" where
  "revision_get revisions capture = (case map_of revisions capture of None \<Rightarrow> [] | Some r \<Rightarrow> r)"

definition resolve_current ::
  "observation_row list \<Rightarrow> (uid \<times> string) list \<Rightarrow> observation_row option \<times> bool" where
  "resolve_current rows revisions =
    (case rows of
       [] \<Rightarrow> (None, False)
     | [r] \<Rightarrow> (Some r, False)
     | _ \<Rightarrow>
        let number = (\<lambda>o'. py_int (revision_get revisions (ob_capture o'))) in
        if list_ex (\<lambda>o'. number o' = None) rows then (None, True)
        else
          let newest = Max (set (map (\<lambda>o'. the (number o')) rows));
              candidates = filter (\<lambda>o'. the (number o') = newest) rows
          in if length candidates = 1 then (Some (hd candidates), False) else (None, True))"

section \<open>Matching plans\<close>

definition find_capture :: "store \<Rightarrow> uid \<Rightarrow> uid \<Rightarrow> source_capture_row option" where
  "find_capture st account_id i =
    find (\<lambda>c. sc_account c = account_id \<and> sc_id c = i) (st_captures st)"

definition plan_rows ::
  "store \<Rightarrow> uid \<Rightarrow> observation_row \<Rightarrow> (observation_row \<times> source_capture_row) list" where
  "plan_rows st account_id actual =
    concat (map (\<lambda>o'. map (\<lambda>c. (o', c))
        (filter (\<lambda>c. sc_id c = ob_capture o' \<and> sc_account c = ob_account o') (st_captures st)))
      (filter (\<lambda>o'. ob_account o' = account_id \<and> ob_field o' = PLAN_FIELD
          \<and> ob_fuel_grade o' = ob_fuel_grade actual \<and> ob_period_start o' = ob_period_start actual
          \<and> ob_period_end o' = ob_period_end actual) (st_observations st)))"

definition plan_step ::
  "isoparser \<Rightarrow> expected_job_row \<Rightarrow> normalized_record \<Rightarrow> observation_row \<Rightarrow>
    observation_row list \<times> (string \<times> string) list \<Rightarrow> observation_row \<times> source_capture_row \<Rightarrow>
    case_error + (observation_row list \<times> (string \<times> string) list)" where
  "plan_step fromiso job report actual acc row =
    (case (acc, row) of ((matches, lineages), (o', source)) \<Rightarrow>
      (case validate_record fromiso (sc_payload_json source) of
         RaisedTypeError \<Rightarrow> Inl PayloadTypeError
       | Rejected _ \<Rightarrow> Inr (matches, lineages)
       | Accepted plan \<Rightarrow>
          if nr_vessel_ref plan \<noteq> ej_vessel_ref job \<or> nr_voyage_ref plan \<noteq> nr_voyage_ref report
          then Inr (matches, lineages)
          else (case (nr_interval_start plan, nr_interval_end plan) of
            (Some s, Some e) \<Rightarrow>
              if nt_utc s \<le> ob_period_start actual \<and> ob_period_end actual \<le> nt_utc e
              then Inr (matches @ [o'], lineages @ [(sc_source_system source, sc_external_ref source)])
              else Inr (matches, lineages)
          | _ \<Rightarrow> Inr (matches, lineages))))"

definition matching_plans ::
  "isoparser \<Rightarrow> store \<Rightarrow> uid \<Rightarrow> expected_job_row \<Rightarrow> observation_row \<Rightarrow>
    case_error + observation_row list" where
  "matching_plans fromiso st account_id job actual =
    (case find_capture st account_id (ob_capture actual) of
       None \<Rightarrow> Inr []
     | Some capture \<Rightarrow>
        (case validate_record fromiso (sc_payload_json capture) of
           RaisedTypeError \<Rightarrow> Inl PayloadTypeError
         | Rejected _ \<Rightarrow> Inr []
         | Accepted report \<Rightarrow>
            if nr_vessel_ref report \<noteq> ej_vessel_ref job then Inr []
            else if ej_voyage_ref job \<noteq> None \<and> nr_voyage_ref report \<noteq> ej_voyage_ref job then Inr []
            else
              ebind (efold (plan_step fromiso job report actual) ([], []) (plan_rows st account_id actual))
                (\<lambda>(matches, lineages). Inr (if length (remdups lineages) \<le> 1 then matches else []))))"

section \<open>The result\<close>

definition job_actuals :: "store \<Rightarrow> uid \<Rightarrow> expected_job_row \<Rightarrow> observation_row list" where
  "job_actuals st account_id job =
    filter (\<lambda>o'. ob_account o' = account_id \<and> ob_expected_job o' = Some (ej_id job)
      \<and> ob_field o' = ACTUAL_FIELD) (st_observations st)"

type_synonym group_id = "string \<times> instant \<times> instant"

definition group_key :: "observation_row \<Rightarrow> group_id" where
  "group_key o' = (fuel_grade_value (ob_fuel_grade o'), ob_period_start o', ob_period_end o')"

definition group_keys :: "observation_row list \<Rightarrow> group_id list" where
  "group_keys actuals = sort (remdups (map group_key actuals))"

definition group_of :: "observation_row list \<Rightarrow> group_id \<Rightarrow> observation_row list" where
  "group_of actuals key = filter (\<lambda>o'. group_key o' = key) actuals"

definition evidence_ref :: "string \<Rightarrow> observation_row \<Rightarrow> string \<Rightarrow> (string \<times> json) list" where
  "evidence_ref role o' revision =
    [(''role'', JStr role), (''input_id'', JStr (uuid_str (ob_id o'))),
     (''fuel_grade'', JStr (fuel_grade_value (ob_fuel_grade o'))),
     (''unit'', JStr (quantity_unit_value (ob_unit o'))), (''value'', JStr (dec_str (ob_value o'))),
     (''revision'', JStr revision), (''period_start'', JStr (isoformat (ob_period_start o'))),
     (''period_end'', JStr (isoformat (ob_period_end o')))]"

definition unresolved_entry :: "string \<Rightarrow> string \<Rightarrow> json" where
  "unresolved_entry grade reason =
    JObj [(''fuel_grade'', JStr grade), (''status'', JStr ''unresolved''), (''reason'', JStr reason)]"

record build_state =
  bd_variances :: "json list"
  bd_evidence :: "(string \<times> json) list list"
  bd_unresolved :: bool

definition leave_unresolved :: "string \<Rightarrow> string \<Rightarrow> build_state \<Rightarrow> build_state" where
  "leave_unresolved grade reason s =
    s\<lparr>bd_unresolved := True, bd_variances := bd_variances s @ [unresolved_entry grade reason]\<rparr>"

definition note_evidence :: "(string \<times> json) list \<Rightarrow> build_state \<Rightarrow> build_state" where
  "note_evidence e s = s\<lparr>bd_evidence := bd_evidence s @ [e]\<rparr>"

text \<open>
  One group of the loop. The calculation takes \<open>actual\<close>, the variable the grouping loop left
  behind: the last of the job's actual observations, whatever the group.
\<close>

definition group_step ::
  "isoparser \<Rightarrow> store \<Rightarrow> uid \<Rightarrow> expected_job_row \<Rightarrow> build_state \<Rightarrow> group_id \<Rightarrow> case_error + build_state" where
  "group_step fromiso st account_id job s key =
    (let revisions = revision_by_capture st account_id;
         actuals = job_actuals st account_id job;
         actual = last actuals; grade = fst key
     in case resolve_current (group_of actuals key) revisions of
          (None, ambiguous) \<Rightarrow>
            Inr (leave_unresolved grade (if ambiguous then ''unresolved_revision'' else ''missing_input'') s)
        | (Some current_actual, _) \<Rightarrow>
            let actual_rev = revision_get revisions (ob_capture current_actual);
                s1 = note_evidence (evidence_ref ''actual'' current_actual actual_rev) s
            in ebind (matching_plans fromiso st account_id job current_actual) (\<lambda>plan_rows.
               case resolve_current plan_rows revisions of
                 (None, ambiguous) \<Rightarrow>
                   Inr (leave_unresolved grade
                     (if ambiguous then ''unresolved_plan_revision'' else ''missing_input'') s1)
               | (Some plan, _) \<Rightarrow>
                   let plan_rev = revision_get revisions (ob_capture plan);
                       s2 = note_evidence (evidence_ref ''planned'' plan plan_rev) s1
                   in (case fuel_variance (to_quantity actual actual_rev)
                           (Some (to_quantity plan plan_rev)) False of
                         CalcRaised \<Rightarrow> Inl DecimalError
                       | CalcRefused r \<Rightarrow>
                           Inr (leave_unresolved grade (calc_refusal_reason_value (cr_reason r)) s2)
                       | CalcResult outcome \<Rightarrow>
                           Inr (s2\<lparr>bd_variances := bd_variances s2 @ [JObj (variance_entry outcome)]\<rparr>))))"

definition evidence_sort_key :: "(string \<times> json) list \<Rightarrow> string \<times> string" where
  "evidence_sort_key e = (py_str (obj_get e ''role''), py_str (obj_get e ''input_id''))"

definition compute_case_result ::
  "isoparser \<Rightarrow> hash \<Rightarrow> store \<Rightarrow> uid \<Rightarrow> expected_job_row \<Rightarrow> case_error + case_result" where
  "compute_case_result fromiso sha256 st account_id job =
    (if ej_account job \<noteq> account_id
     then Inl (CaseBuildError ''expected job is not owned by the account'')
     else
       let actuals = job_actuals st account_id job in
       ebind (efold (group_step fromiso st account_id job)
           \<lparr>bd_variances = [], bd_evidence = [], bd_unresolved = (actuals = [])\<rparr> (group_keys actuals))
         (\<lambda>s.
           let result_json =
                 [(''result_contract_version'', JStr (ej_result_contract_version job)),
                  (''expected_job_id'', JStr (uuid_str (ej_id job))),
                  (''vessel_ref'', JStr (ej_vessel_ref job)),
                  (''period_start'', JStr (isoformat (ej_period_start job))),
                  (''period_end'', JStr (isoformat (ej_period_end job))),
                  (''calculator_version'', JStr CALCULATOR_VERSION),
                  (''variances'', JList (bd_variances s))]
           in Inr \<lparr>rs_expected_job_id = ej_id job, rs_result_json = result_json,
                rs_content_hash = sha256_of sha256 (JObj result_json),
                rs_evidence_hash = sha256_of sha256
                  (JList (map JObj (sort_key evidence_sort_key (bd_evidence s)))),
                rs_unresolved = bd_unresolved s\<rparr>))"

section \<open>Versions and verdicts\<close>

definition versions_of_case :: "store \<Rightarrow> uid \<Rightarrow> uid \<Rightarrow> case_version_row list" where
  "versions_of_case st account_id case_id =
    filter (\<lambda>v. cv_account v = account_id \<and> cv_case v = case_id) (st_versions st)"

definition commit_case_version ::
  "store \<Rightarrow> uid \<Rightarrow> case_row \<Rightarrow> case_result \<Rightarrow> store \<times> case_version_row" where
  "commit_case_version st account_id opcase result =
    (let prior = first_desc cv_revision (versions_of_case st account_id (oc_id opcase));
         version = \<lparr>cv_id = st_next st, cv_account = account_id, cv_case = oc_id opcase,
           cv_revision = (case prior of None \<Rightarrow> 1 | Some p \<Rightarrow> cv_revision p + 1),
           cv_evidence_hash = rs_evidence_hash result, cv_content_hash = rs_content_hash result,
           cv_result_json = rs_result_json result, cv_supersedes = map_option cv_id prior\<rparr>
     in (st\<lparr>st_versions := st_versions st @ [version], st_next := st_next st + 1\<rparr>, version))"

definition evidence_step ::
  "isoparser \<Rightarrow> store \<Rightarrow> uid \<Rightarrow> expected_job_row \<Rightarrow> evidence_fact list \<Rightarrow> group_id \<Rightarrow>
    case_error + evidence_fact list" where
  "evidence_step fromiso st account_id job evidence key =
    (let revisions = revision_by_capture st account_id;
         actuals = job_actuals st account_id job
     in case resolve_current (group_of actuals key) revisions of
          (None, _) \<Rightarrow> Inr evidence
        | (Some current_actual, ambiguous) \<Rightarrow>
            ebind (matching_plans fromiso st account_id job current_actual) (\<lambda>plan_rows.
            let plan = fst (resolve_current plan_rows revisions) in
            Inr (evidence @ [\<lparr>ef_fuel_grade = fuel_grade_value (ob_fuel_grade current_actual),
              ef_period_start = isoformat (ob_period_start current_actual),
              ef_period_end = isoformat (ob_period_end current_actual),
              ef_actual = ob_value current_actual, ef_planned = map_option ob_value plan,
              ef_owner_ok = True, ef_is_current = (\<not> ambiguous)\<rparr>])))"

definition build_evidence ::
  "isoparser \<Rightarrow> store \<Rightarrow> uid \<Rightarrow> expected_job_row \<Rightarrow> case_error + evidence_fact list" where
  "build_evidence fromiso st account_id job =
    efold (evidence_step fromiso st account_id job) [] (group_keys (job_actuals st account_id job))"

definition verify_case ::
  "isoparser \<Rightarrow> store \<Rightarrow> uid \<Rightarrow> expected_job_row \<Rightarrow> case_result \<Rightarrow> case_error + verification_verdict" where
  "verify_case fromiso st account_id job result =
    ebind (build_evidence fromiso st account_id job) (\<lambda>evidence.
    case verify_case_result (rs_result_json result) evidence of
      None \<Rightarrow> Inl DecimalError
    | Some v \<Rightarrow> Inr v)"

definition find_verdict :: "store \<Rightarrow> uid \<Rightarrow> uid \<Rightarrow> verdict_row option" where
  "find_verdict st account_id version_id =
    find (\<lambda>v. vd_account v = account_id \<and> vd_case_version v = version_id) (st_verdicts st)"

definition finding_json :: "verification_finding \<Rightarrow> json" where
  "finding_json f = JObj [(''fuel_grade'', JStr (vf_fuel_grade f)),
    (''reason'', JStr (verify_reason_value (vf_reason f)))]"

definition record_verification_verdict ::
  "isoparser \<Rightarrow> store \<Rightarrow> uid \<Rightarrow> expected_job_row \<Rightarrow> case_row \<Rightarrow> case_version_row \<Rightarrow> case_result \<Rightarrow>
    case_error + (store \<times> verdict_row)" where
  "record_verification_verdict fromiso st account_id job opcase version result =
    (case find_verdict st account_id (cv_id version) of
       Some existing \<Rightarrow> Inr (st, existing)
     | None \<Rightarrow>
        ebind (verify_case fromiso st account_id job result) (\<lambda>verdict.
        let completion = finalize_case_status verdict (rs_unresolved result);
            row = \<lparr>vd_id = st_next st, vd_account = account_id, vd_case = oc_id opcase,
              vd_case_version = cv_id version, vd_expected_job = ej_id job,
              vd_case_revision = cv_revision version, vd_content_hash = cv_content_hash version,
              vd_evidence_hash = cv_evidence_hash version,
              vd_calculator_version =
                py_str (obj_get_default (rs_result_json result) ''calculator_version'' (JStr [])),
              vd_verifier_version = VERIFIER_VERSION,
              vd_status = verification_status_value (vv_status verdict),
              vd_completion_status = case_completion_status_value completion,
              vd_checked = int (vv_checked verdict), vd_has_unresolved = rs_unresolved result,
              vd_completes = (completion = COMPLETED),
              vd_findings_json = JList (map finding_json (vv_findings verdict))\<rparr>
        in Inr (st\<lparr>st_verdicts := st_verdicts st @ [row], st_next := st_next st + 1\<rparr>, row)))"

definition read_back :: "hash \<Rightarrow> store \<Rightarrow> uid \<Rightarrow> uid \<Rightarrow> bool" where
  "read_back sha256 st account_id version_id =
    (case find (\<lambda>v. cv_account v = account_id \<and> cv_id v = version_id) (st_versions st) of
       None \<Rightarrow> False
     | Some v \<Rightarrow> sha256_of sha256 (JObj (cv_result_json v)) = cv_content_hash v)"

end
