(* ===== verification/CaseBuild_Props.thy ===== *)
theory CaseBuild_Props
  imports CaseBuild PolicyService_Props
begin

text \<open>
  What a case build guarantees: it reads only its tenant's rows, its versions are appended and read
  back, its verdicts are written once, a single-grade report with its plan completes, and a report
  with several grades never does.
\<close>

section \<open>Tenancy\<close>

definition tenant_view :: "uid \<Rightarrow> store \<Rightarrow> store" where
  "tenant_view acc st = st\<lparr>st_captures := filter (\<lambda>c. sc_account c = acc) (st_captures st),
    st_observations := filter (\<lambda>o'. ob_account o' = acc) (st_observations st)\<rparr>"

lemma tenant_view_reads [simp]:
  "revision_by_capture (tenant_view acc st) acc = revision_by_capture st acc"
  "job_actuals (tenant_view acc st) acc job = job_actuals st acc job"
  "find_capture (tenant_view acc st) acc i = find_capture st acc i"
  by (simp_all add: tenant_view_def revision_by_capture_def job_actuals_def find_capture_def
      find_filter conj_ac cong: conj_cong)

lemma tenant_view_plan_rows [simp]: "plan_rows (tenant_view acc st) acc actual = plan_rows st acc actual"
proof -
  have rows: "filter P (filter (\<lambda>o'. ob_account o' = acc) xs) = filter P xs"
    if "\<And>o'. P o' \<Longrightarrow> ob_account o' = acc" for P xs
    using that by (induction xs) auto
  show ?thesis
    unfolding plan_rows_def
    by (rule arg_cong [where f = concat], simp add: tenant_view_def rows)
      (auto intro!: arg_cong [where f = "map _"] filter_cong)
qed

lemma tenant_view_plans [simp]:
  "matching_plans fromiso (tenant_view acc st) acc job actual = matching_plans fromiso st acc job actual"
  unfolding matching_plans_def tenant_view_reads tenant_view_plan_rows ..

lemma tenant_view_step [simp]:
  "group_step fromiso (tenant_view acc st) acc job = group_step fromiso st acc job"
  unfolding group_step_def tenant_view_reads tenant_view_plans fun_eq_iff by simp

text \<open>a case result reads only the rows of its own account: any rows of other tenants can be
  added or removed without changing it, and a job of another account is an error.\<close>

theorem case_result_tenant_isolated:
  "compute_case_result fromiso sha256 (tenant_view acc st) acc job =
    compute_case_result fromiso sha256 st acc job \<and>
   (if ej_account job = acc then True
    else compute_case_result fromiso sha256 st acc job =
      Inl (CaseBuildError ''expected job is not owned by the account''))"
  by (simp add: compute_case_result_def)

section \<open>Several grades\<close>

lemma resolve_current_in: "resolve_current rows revs = (Some r, b) \<Longrightarrow> r \<in> set rows"
proof -
  assume *: "resolve_current rows revs = (Some r, b)"
  consider "rows = []" | "rows = [r]" | x y zs where "rows = x # y # zs"
    using * by (cases rows; cases "tl rows") (auto simp: resolve_current_def)
  then show ?thesis
  proof cases
    case 3
    have hd_in: "hd (filter P xs) \<in> set xs" if "length (filter P xs) = 1"
      for P and xs :: "observation_row list"
      using that by (metis filter_is_subset hd_in_set length_0_conv subsetD zero_neq_one)
    obtain P where "length (filter P rows) = 1" "r = hd (filter P rows)"
      using * unfolding 3 resolve_current_def list.case Let_def
      by (simp only: split: if_split_asm) (auto simp only: Pair_inject option.inject option.distinct)
    with hd_in show ?thesis by simp
  qed (use * in \<open>simp_all add: resolve_current_def\<close>)
qed

definition same_group :: "observation_row \<Rightarrow> observation_row \<Rightarrow> bool" where
  "same_group m actual \<longleftrightarrow> ob_fuel_grade m = ob_fuel_grade actual \<and>
    ob_period_start m = ob_period_start actual \<and> ob_period_end m = ob_period_end actual"

lemma plan_rows_grade: "(o', c) \<in> set (plan_rows st acc actual) \<Longrightarrow> same_group o' actual"
  by (auto simp: plan_rows_def same_group_def)

lemma plan_step_grade:
  assumes "plan_step fromiso job report actual (ms, ls) row = Inr (ms', ls')"
  shows "set ms' \<subseteq> insert (fst row) (set ms)"
  using assms
  by (cases row) (auto simp: plan_step_def split: validation.splits if_splits option.splits)

lemma plan_fold_grade:
  assumes "efold (plan_step fromiso job report actual) (ms, ls) rows = Inr (ms', ls')"
  shows "set ms' \<subseteq> set ms \<union> fst ` set rows"
  using assms
proof (induction rows arbitrary: ms ls)
  case Nil
  then show ?case by simp
next
  case (Cons row rows)
  then obtain ms1 ls1 where one: "plan_step fromiso job report actual (ms, ls) row = Inr (ms1, ls1)"
    and rest: "efold (plan_step fromiso job report actual) (ms1, ls1) rows = Inr (ms', ls')"
    by (auto simp: ebind_Inr)
  from plan_step_grade [OF one] Cons.IH [OF rest] show ?case by auto
qed

lemma matching_plans_grade:
  assumes "matching_plans fromiso st acc job actual = Inr ms" and "m \<in> set ms"
  shows "same_group m actual"
proof -
  from assms obtain report ms' ls' where
    "efold (plan_step fromiso job report actual) ([], []) (plan_rows st acc actual) = Inr (ms', ls')"
    "m \<in> set ms'"
    by (auto simp: matching_plans_def ebind_Inr split: option.splits validation.splits if_splits)
  from plan_fold_grade [OF this(1)] this(2) plan_rows_grade show ?thesis by fastforce
qed

text \<open>A group either leaves the case unresolved or adds one reconciled variance.\<close>

lemma group_step_cases:
  assumes "group_step fromiso st acc job s k = Inr t"
  obtains (unresolved) "bd_unresolved t"
  | (reconciled) c amb plans q amb' outcome where
      "resolve_current (group_of (job_actuals st acc job) k) (revision_by_capture st acc) = (Some c, amb)"
      "matching_plans fromiso st acc job c = Inr plans"
      "resolve_current plans (revision_by_capture st acc) = (Some q, amb')"
      "fuel_variance (to_quantity (last (job_actuals st acc job))
          (revision_get (revision_by_capture st acc) (ob_capture c)))
        (Some (to_quantity q (revision_get (revision_by_capture st acc) (ob_capture q)))) False =
        CalcResult outcome"
      "bd_unresolved t = bd_unresolved s"
      "bd_variances t = bd_variances s @ [JObj (variance_entry outcome)]"
proof (cases "resolve_current (group_of (job_actuals st acc job) k) (revision_by_capture st acc)")
  case (Pair current amb)
  show ?thesis
  proof (cases current)
    case None
    with assms Pair show ?thesis by (auto simp: group_step_def Let_def leave_unresolved_def intro: unresolved)
  next
    case (Some c)
    from assms Pair Some obtain plans where plans: "matching_plans fromiso st acc job c = Inr plans"
      by (auto simp: group_step_def Let_def ebind_Inr)
    show ?thesis
    proof (cases "resolve_current plans (revision_by_capture st acc)")
      case plan: (Pair p pamb)
      show ?thesis
      proof (cases p)
        case None
        with assms Pair Some plans plan show ?thesis
          by (auto simp: group_step_def Let_def leave_unresolved_def intro: unresolved)
      next
        case q: (Some q)
        let ?v = "fuel_variance (to_quantity (last (job_actuals st acc job))
            (revision_get (revision_by_capture st acc) (ob_capture c)))
          (Some (to_quantity q (revision_get (revision_by_capture st acc) (ob_capture q)))) False"
        show ?thesis
        proof (cases ?v)
          case (CalcResult outcome)
          show ?thesis
            by (rule reconciled [OF _ plans plan [unfolded q] CalcResult])
              (use assms Pair Some plans plan q CalcResult in
                \<open>auto simp: group_step_def Let_def note_evidence_def\<close>)
        next
          case (CalcRefused r)
          with assms Pair Some plans plan q show ?thesis
            by (auto simp: group_step_def Let_def leave_unresolved_def intro: unresolved)
        next
          case CalcRaised
          with assms Pair Some plans plan q show ?thesis by (simp add: group_step_def Let_def)
        qed
      qed
    qed
  qed
qed

lemma group_step_keeps_unresolved:
  assumes "group_step fromiso st acc job s k = Inr t" and "bd_unresolved s"
  shows "bd_unresolved t"
  using assms(1) by (cases rule: group_step_cases) (use assms(2) in simp_all)

text \<open>A group of another grade than the last actual is refused, whatever its plan.\<close>

lemma group_step_foreign:
  assumes step: "group_step fromiso st acc job s k = Inr t"
    and foreign: "fst k \<noteq> fuel_grade_value (ob_fuel_grade (last (job_actuals st acc job)))"
  shows "bd_unresolved t"
  using step
proof (cases rule: group_step_cases)
  case (reconciled c amb plans q amb' outcome)
  have "c \<in> set (group_of (job_actuals st acc job) k)" using reconciled(1) by (rule resolve_current_in)
  then have "fst k = fuel_grade_value (ob_fuel_grade c)" by (auto simp: group_of_def group_key_def)
  moreover have "ob_fuel_grade q = ob_fuel_grade c"
    using matching_plans_grade [OF reconciled(2) resolve_current_in [OF reconciled(3)]]
    by (simp add: same_group_def)
  ultimately have "ob_fuel_grade (last (job_actuals st acc job)) \<noteq> ob_fuel_grade q"
    using foreign by auto
  with reconciled(4) show ?thesis by (simp add: fuel_variance_def refuse_def to_quantity_def)
qed

lemma group_fold_foreign:
  assumes "efold (group_step fromiso st acc job) s ks = Inr t" and "k \<in> set ks"
    and "fst k \<noteq> fuel_grade_value (ob_fuel_grade (last (job_actuals st acc job)))"
  shows "bd_unresolved t"
  using assms(1,2)
proof (induction ks arbitrary: s)
  case (Cons j ks)
  then obtain u where u: "group_step fromiso st acc job s j = Inr u"
    and rest: "efold (group_step fromiso st acc job) u ks = Inr t" by (auto simp: ebind_Inr)
  show ?case
  proof (cases "j = k")
    case True
    with u assms(3) have "bd_unresolved u" using group_step_foreign by blast
    then show ?thesis
      using efold_mono [OF rest, where R = "\<lambda>s t. bd_unresolved s \<longrightarrow> bd_unresolved t"]
        group_step_keeps_unresolved by blast
  next
    case False
    with Cons rest show ?thesis by auto
  qed
qed simp

text \<open>a job whose report consumes more than one fuel grade is never resolved: the variance of
  every group is computed from the last actual observation, so every group of another grade is
  refused as a grade mismatch and the whole case stays unresolved.\<close>

theorem several_grades_never_resolve:
  assumes "compute_case_result fromiso sha256 st acc job = Inr result"
    and "a \<in> set (job_actuals st acc job)" and "b \<in> set (job_actuals st acc job)"
    and "ob_fuel_grade a \<noteq> ob_fuel_grade b"
  shows "rs_unresolved result"
proof -
  let ?last = "last (job_actuals st acc job)"
  from assms(1) obtain s where fold: "efold (group_step fromiso st acc job)
      \<lparr>bd_variances = [], bd_evidence = [], bd_unresolved = (job_actuals st acc job = [])\<rparr>
      (group_keys (job_actuals st acc job)) = Inr s" and "rs_unresolved result = bd_unresolved s"
    by (auto simp: compute_case_result_def Let_def ebind_Inr split: if_splits)
  obtain c where c: "c \<in> set (job_actuals st acc job)" "ob_fuel_grade c \<noteq> ob_fuel_grade ?last"
    using assms(2-4) by (cases "ob_fuel_grade a = ob_fuel_grade ?last") auto
  then have "group_key c \<in> set (group_keys (job_actuals st acc job))"
    "fst (group_key c) \<noteq> fuel_grade_value (ob_fuel_grade ?last)"
    using fuel_grade_enum.value_inj by (auto simp: group_keys_def group_key_def)
  from group_fold_foreign [OF fold this] \<open>rs_unresolved result = bd_unresolved s\<close> show ?thesis by simp
qed

section \<open>A concrete case\<close>

definition sample_plan :: json where
  "sample_plan = JObj [(''schema_version'', JStr ''fleet_reconciliation_v1''),
    (''record_kind'', JStr ''voyage_plan''), (''source_system'', JStr ''tms''),
    (''external_ref'', JStr ''P1''), (''source_revision'', JStr ''1''), (''vessel_ref'', JStr ''V1''),
    (''recorded_at'', JStr ''T0''), (''voyage_ref'', JStr ''VOY''), (''plan_revision'', JStr ''1''),
    (''effective_from'', JStr ''T0''), (''effective_to'', JStr ''T1''),
    (''items'', JList [JObj [(''item_key'', JStr ''a''), (''fuel_grade'', JStr ''VLSFO''),
      (''unit'', JStr ''tonne''), (''quantity'', JStr ''10.00''), (''period_start'', JStr ''T0''),
      (''period_end'', JStr ''T1'')]])]"

definition sample_capture :: "uid \<Rightarrow> record_kind \<Rightarrow> json \<Rightarrow> source_capture_row" where
  "sample_capture i kind payload = \<lparr>sc_id = i, sc_account = 7, sc_record_kind = kind,
    sc_source_system = ''s'', sc_external_ref = digits_of i, sc_source_revision = ''1'', sc_raw_hash = [],
    sc_payload_json = payload, sc_captured_at = 0\<rparr>"

definition sample_obs :: "uid \<Rightarrow> uid \<Rightarrow> uid option \<Rightarrow> string \<Rightarrow> fuel_grade \<Rightarrow> nat \<Rightarrow> observation_row" where
  "sample_obs i capture job field grade cents = \<lparr>ob_id = i, ob_account = 7, ob_capture = capture,
    ob_expected_job = job, ob_field = field, ob_item_key = ''a'', ob_fuel_grade = grade,
    ob_value = \<lparr>dsign = False, dcoef = cents, dexp = -2\<rparr>, ob_unit = QU_TONNE, ob_origin = VO_REPORTED,
    ob_period_start = 0, ob_period_end = 86400000000, ob_source_pointer = ''/items/0'',
    ob_normalization_version = [], ob_recorded_at = 0\<rparr>"

definition sample_job :: expected_job_row where
  "sample_job = \<lparr>ej_id = 30, ej_account = 7, ej_vessel_ref = ''V1'', ej_voyage_ref = Some ''VOY'',
    ej_period_start = 0, ej_period_end = 86400000000, ej_due_at = 0, ej_contract_version = [],
    ej_result_contract_version = ''result_contract_v1'', ej_required_record_kind = RK_DAILY_REPORT\<rparr>"

definition sample_case_store :: "observation_row list \<Rightarrow> store" where
  "sample_case_store obs = empty_store\<lparr>st_next := 60, st_jobs := [sample_job],
    st_captures := [sample_capture 40 RK_DAILY_REPORT sample_report, sample_capture 41 RK_VOYAGE_PLAN sample_plan],
    st_observations := obs\<rparr>"

definition one_grade :: store where
  "one_grade = sample_case_store [sample_obs 50 40 (Some 30) ''fuel_consumed'' FG_VLSFO 1050,
    sample_obs 51 41 None ''fuel_planned'' FG_VLSFO 1000]"

definition two_grades :: store where
  "two_grades = sample_case_store [sample_obs 50 40 (Some 30) ''fuel_consumed'' FG_VLSFO 1050,
    sample_obs 51 41 None ''fuel_planned'' FG_VLSFO 1000,
    sample_obs 52 40 (Some 30) ''fuel_consumed'' FG_LSMGO 500,
    sample_obs 53 41 None ''fuel_planned'' FG_LSMGO 500]"

lemma two_grades_verified:
  obtains r verdict where "compute_case_result sample_iso sample_hash two_grades 7 sample_job = Inr r"
    "rs_unresolved r" "verify_case sample_iso two_grades 7 sample_job r = Inr verdict"
proof -
  have "case compute_case_result sample_iso sample_hash two_grades 7 sample_job of
      Inl _ \<Rightarrow> False | Inr r \<Rightarrow> rs_unresolved r \<and>
      (case verify_case sample_iso two_grades 7 sample_job r of Inl _ \<Rightarrow> False | Inr _ \<Rightarrow> True)"
    by code_simp
  then show thesis by (auto split: sum.splits intro: that)
qed

lemma two_grades_result:
  "\<exists>r. compute_case_result sample_iso sample_hash two_grades 7 sample_job = Inr r"
  by (rule two_grades_verified) blast

lemma two_grades_actuals:
  "sample_obs 50 40 (Some 30) ''fuel_consumed'' FG_VLSFO 1050 \<in> set (job_actuals two_grades 7 sample_job)"
  "sample_obs 52 40 (Some 30) ''fuel_consumed'' FG_LSMGO 500 \<in> set (job_actuals two_grades 7 sample_job)"
  by (simp_all add: job_actuals_def two_grades_def sample_case_store_def sample_obs_def sample_job_def
      ACTUAL_FIELD_def)

theorem several_grades_never_resolve_witness:
  "\<exists>r. compute_case_result sample_iso sample_hash two_grades 7 sample_job = Inr r \<and> rs_unresolved r"
proof -
  obtain r where r: "compute_case_result sample_iso sample_hash two_grades 7 sample_job = Inr r"
    using two_grades_result by blast
  from several_grades_never_resolve [OF r two_grades_actuals] r show ?thesis by (simp add: sample_obs_def)
qed

section \<open>One grade\<close>

lemma single_group:
  "group_keys [a] = [group_key a]"
  "resolve_current (group_of [a] (group_key a)) revs = (Some a, False)"
  "resolve_current [a] revs = (Some a, False)"
  by (simp_all add: group_keys_def group_of_def resolve_current_def)

lemma single_build:
  assumes one: "job_actuals st acc job = [a]" and plan: "matching_plans fromiso st acc job a = Inr [p]"
    and outcome: "fuel_variance (to_quantity a (revision_get (revision_by_capture st acc) (ob_capture a)))
      (Some (to_quantity p (revision_get (revision_by_capture st acc) (ob_capture p)))) False = CalcResult r"
  shows "\<exists>s'. efold (group_step fromiso st acc job) s (group_keys (job_actuals st acc job)) = Inr s' \<and>
    bd_unresolved s' = bd_unresolved s \<and> bd_variances s' = bd_variances s @ [JObj (variance_entry r)]"
  using outcome by (simp add: one single_group group_step_def plan Let_def note_evidence_def)

text \<open>a report of one grade and interval with exactly one matching plan, in bounds and in the
  same unit, is resolved: the case result carries the calculator's variance, the independent
  verification of the rebuilt evidence passes, and the case is finalised as completed.\<close>

theorem single_grade_completes:
  assumes "ej_account job = acc" and one: "job_actuals st acc job = [a]"
    and plan: "matching_plans fromiso st acc job a = Inr [p]" and "ob_unit a = ob_unit p"
    and "within_bounds (ob_value a)" and "within_bounds (ob_value p)"
    and "0 \<le> dec_val (ob_value a)" and "0 \<le> dec_val (ob_value p)"
  shows "\<exists>result r verdict. compute_case_result fromiso sha256 st acc job = Inr result \<and>
    obj_get (rs_result_json result) ''variances'' = JList [JObj (variance_entry r)] \<and>
    dec_val (fv_delta_unrounded r) = dec_val (ob_value a) - dec_val (ob_value p) \<and>
    verify_case fromiso st acc job result = Inr verdict \<and>
    finalize_case_status verdict (rs_unresolved result) = COMPLETED"
proof -
  let ?revs = "revision_by_capture st acc"
  let ?qa = "to_quantity a (revision_get ?revs (ob_capture a))"
  let ?qp = "to_quantity p (revision_get ?revs (ob_capture p))"
  have "same_group p a" using matching_plans_grade [OF plan] by simp
  with assms have "comparable ?qa ?qp" by (simp add: comparable_def to_quantity_def same_group_def)
  then obtain r where r: "fuel_variance ?qa (Some ?qp) False = CalcResult r"
    using fuel_variance_computes [of ?qa ?qp] assms(5,6) by (auto simp: to_quantity_def)
  have delta: "dec_val (fv_delta_unrounded r) = dec_val (ob_value a) - dec_val (ob_value p)"
  proof -
    obtain pct where "variance_figures (qi_value ?qa) (qi_value ?qp) =
        Some (fv_delta_unrounded r, fv_delta r, pct)"
      using fuel_variance_fields [OF r] by blast
    from variance_figures_delta [OF this] within_bounds_sub(1) [OF assms(5,6)] show ?thesis
      by (simp add: to_quantity_def)
  qed
  obtain s where fold: "efold (group_step fromiso st acc job)
      \<lparr>bd_variances = [], bd_evidence = [], bd_unresolved = (job_actuals st acc job = [])\<rparr>
      (group_keys (job_actuals st acc job)) = Inr s"
    and s: "\<not> bd_unresolved s" "bd_variances s = [JObj (variance_entry r)]"
    using single_build [OF one plan r] one by fastforce
  then obtain result where result: "compute_case_result fromiso sha256 st acc job = Inr result"
    and json: "obj_get (rs_result_json result) ''variances'' = JList [JObj (variance_entry r)]"
    and done': "\<not> rs_unresolved result"
    using assms(1) by (simp add: compute_case_result_def Let_def obj_get_def)
  have "build_evidence fromiso st acc job = Inr [evidence_of ?qa ?qp]"
    by (simp add: build_evidence_def one single_group evidence_step_def plan Let_def evidence_of_def
        to_quantity_def)
  moreover have "verify_case_result (rs_result_json result) (map triple_fact [(?qa, ?qp, r)]) =
      Some \<lparr>vv_status = VERIFIED, vv_checked = length [(?qa, ?qp, r)], vv_findings = []\<rparr>"
    by (rule accepted_variances) (use r json in \<open>simp_all add: triple_ok_def triple_entry_def\<close>)
  ultimately have "verify_case fromiso st acc job result =
      Inr \<lparr>vv_status = VERIFIED, vv_checked = 1, vv_findings = []\<rparr>"
    by (simp add: verify_case_def triple_fact_def)
  with result json delta done' show ?thesis
    by (auto simp: finalize_case_status_def verdict_verified_def)
qed

lemma one_grade_facts:
  "job_actuals one_grade 7 sample_job = [sample_obs 50 40 (Some 30) ''fuel_consumed'' FG_VLSFO 1050]"
  "matching_plans sample_iso one_grade 7 sample_job (sample_obs 50 40 (Some 30) ''fuel_consumed'' FG_VLSFO 1050)
    = Inr [sample_obs 51 41 None ''fuel_planned'' FG_VLSFO 1000]"
  "within_bounds (ob_value (sample_obs 50 40 (Some 30) ''fuel_consumed'' FG_VLSFO 1050))"
  "within_bounds (ob_value (sample_obs 51 41 None ''fuel_planned'' FG_VLSFO 1000))"
  by code_simp+

theorem single_grade_completes_witness:
  "\<exists>result r. compute_case_result sample_iso sample_hash one_grade 7 sample_job = Inr result \<and>
    obj_get (rs_result_json result) ''variances'' = JList [JObj (variance_entry r)]"
proof -
  have "ej_account sample_job = 7" by (simp add: sample_job_def)
  from single_grade_completes [OF this one_grade_facts(1,2) _ one_grade_facts(3,4), of sample_hash]
  show ?thesis by (auto simp: sample_obs_def dec_val_def signed_def)
qed

section \<open>Versions and verdicts\<close>

text \<open>committing a result appends one version, of the next revision after every earlier version
  of the case and superseding the latest, leaves the earlier ones alone, and the independent
  read-back of the committed payload confirms its content hash.\<close>

theorem committed_version_reads_back:
  assumes "compute_case_result fromiso sha256 st acc job = Inr result"
    and "commit_case_version st acc opcase result = (st', v)"
    and "list_all (\<lambda>w. cv_id w < st_next st) (st_versions st)"
  shows "read_back sha256 st' acc (cv_id v) \<and> st_versions st' = st_versions st @ [v] \<and>
    list_all (\<lambda>w. cv_revision w < cv_revision v) (versions_of_case st acc (oc_id opcase)) \<and>
    (case cv_supersedes v of
       None \<Rightarrow> versions_of_case st acc (oc_id opcase) = []
     | Some i \<Rightarrow> list_ex (\<lambda>w. cv_id w = i \<and> cv_revision w + 1 = cv_revision v)
         (versions_of_case st acc (oc_id opcase)))"
proof -
  have hash: "rs_content_hash result = sha256_of sha256 (JObj (rs_result_json result))"
    using assms(1) by (auto simp: compute_case_result_def Let_def ebind_Inr split: if_splits)
  have v: "cv_id v = st_next st" "cv_account v = acc" "cv_content_hash v = rs_content_hash result"
      "cv_result_json v = rs_result_json result"
    and st': "st_versions st' = st_versions st @ [v]"
    and rev': "cv_revision v = (case first_desc cv_revision (versions_of_case st acc (oc_id opcase)) of
        None \<Rightarrow> 1 | Some p \<Rightarrow> cv_revision p + 1)"
    and sup': "cv_supersedes v = map_option cv_id (first_desc cv_revision (versions_of_case st acc (oc_id opcase)))"
    using assms(2) by (auto simp: commit_case_version_def Let_def)
  have "find (\<lambda>w. cv_account w = acc \<and> cv_id w = cv_id v) (st_versions st @ [v]) = Some v"
  proof -
    have "find (\<lambda>w. cv_account w = acc \<and> cv_id w = cv_id v) (st_versions st) = None"
      using assms(3) v(1) by (auto simp: find_None_iff list_all_iff)
    then show ?thesis using v by (simp add: find_append)
  qed
  then have "read_back sha256 st' acc (cv_id v)" using v hash by (simp add: read_back_def st')
  moreover have "list_all (\<lambda>w. cv_revision w < cv_revision v) (versions_of_case st acc (oc_id opcase)) \<and>
    (case cv_supersedes v of
       None \<Rightarrow> versions_of_case st acc (oc_id opcase) = []
     | Some i \<Rightarrow> list_ex (\<lambda>w. cv_id w = i \<and> cv_revision w + 1 = cv_revision v)
         (versions_of_case st acc (oc_id opcase)))"
  proof (cases "first_desc cv_revision (versions_of_case st acc (oc_id opcase))")
    case None
    then show ?thesis using sup' by simp
  next
    case (Some p)
    from first_desc_Some [OF Some] Some rev' sup' show ?thesis
      by (fastforce simp: list_all_iff list_ex_iff)
  qed
  ultimately show ?thesis using st' by blast
qed

definition sample_opcase :: case_row where
  "sample_opcase = \<lparr>oc_id = 9, oc_account = 7, oc_expected_job = 30, oc_automation_status = AS_VALIDATED,
    oc_business_status = BS_UNRESOLVED, oc_revision = 1, oc_deadline_at = 0\<rparr>"

theorem committed_version_reads_back_witness:
  "\<exists>r. read_back sample_hash (fst (commit_case_version two_grades 7 sample_opcase r)) 7 60"
proof -
  obtain r where r: "compute_case_result sample_iso sample_hash two_grades 7 sample_job = Inr r"
    using two_grades_result by blast
  have "list_all (\<lambda>w. cv_id w < st_next two_grades) (st_versions two_grades)"
    by (simp add: two_grades_def sample_case_store_def empty_store_def)
  from committed_version_reads_back [OF r prod.collapse [symmetric] this, of sample_opcase]
  have "read_back sample_hash (fst (commit_case_version two_grades 7 sample_opcase r)) 7
      (cv_id (snd (commit_case_version two_grades 7 sample_opcase r)))" by blast
  moreover have "cv_id (snd (commit_case_version two_grades 7 sample_opcase r)) = 60"
    by (simp add: commit_case_version_def Let_def two_grades_def sample_case_store_def)
  ultimately show ?thesis by auto
qed

text \<open>a verdict is written at most once per case version: recording again, with whatever result,
  returns the same row and changes nothing. A new row is bound to the version's hashes and
  revision and to the formula, and it completes exactly when the verdict is verified, at least one
  calculation was checked and nothing is unresolved.\<close>

theorem verdict_recorded_once:
  assumes "record_verification_verdict fromiso st acc job opcase version result = Inr (st', row)"
  shows "record_verification_verdict fromiso st' acc job' opcase' version result' = Inr (st', row) \<and>
    (if find_verdict st acc (cv_id version) = None
     then st_verdicts st' = st_verdicts st @ [row] \<and> vd_content_hash row = cv_content_hash version \<and>
       vd_evidence_hash row = cv_evidence_hash version \<and> vd_case_revision row = cv_revision version \<and>
       vd_expected_job row = ej_id job \<and>
       (vd_completes row \<longleftrightarrow> vd_status row = ''verified'' \<and> vd_checked row \<noteq> 0 \<and> \<not> vd_has_unresolved row)
     else st' = st)"
proof (cases "find_verdict st acc (cv_id version)")
  case (Some old)
  with assms show ?thesis by (simp add: record_verification_verdict_def)
next
  case None
  with assms obtain v where row: "vd_account row = acc" "vd_case_version row = cv_id version"
    "vd_content_hash row = cv_content_hash version" "vd_evidence_hash row = cv_evidence_hash version"
    "vd_case_revision row = cv_revision version" "vd_expected_job row = ej_id job"
    "vd_status row = verification_status_value (vv_status v)" "vd_checked row = int (vv_checked v)"
    "vd_has_unresolved row = rs_unresolved result"
    "vd_completes row = (finalize_case_status v (rs_unresolved result) = COMPLETED)"
    and st': "st_verdicts st' = st_verdicts st @ [row]"
    by (auto simp: record_verification_verdict_def Let_def ebind_Inr)
  have "find_verdict st' acc (cv_id version) = Some row"
    using None row by (simp add: find_verdict_def st' find_append)
  moreover have "vd_completes row \<longleftrightarrow> vd_status row = ''verified'' \<and> vd_checked row \<noteq> 0 \<and> \<not> vd_has_unresolved row"
    using row by (cases "vv_status v") (auto simp: finalize_case_status_def verdict_verified_def)
  ultimately show ?thesis using None row st' by (simp add: record_verification_verdict_def)
qed

theorem verdict_recorded_once_witness:
  "\<exists>r row st'. record_verification_verdict sample_iso one_grade 7 sample_job sample_opcase
      (snd (commit_case_version one_grade 7 sample_opcase r)) r = Inr (st', row) \<and>
    st_verdicts st' = [row]"
proof -
  let ?r = "\<lparr>rs_expected_job_id = 30, rs_result_json = [], rs_content_hash = [], rs_evidence_hash = [],
    rs_unresolved = True\<rparr>"
  let ?v = "snd (commit_case_version one_grade 7 sample_opcase ?r)"
  have "case record_verification_verdict sample_iso one_grade 7 sample_job sample_opcase ?v ?r of
      Inl _ \<Rightarrow> False | Inr _ \<Rightarrow> True"
    by code_simp
  then obtain st' row where
    r: "record_verification_verdict sample_iso one_grade 7 sample_job sample_opcase ?v ?r = Inr (st', row)"
    by (auto split: sum.splits)
  have "find_verdict one_grade 7 (cv_id ?v) = None" "st_verdicts one_grade = []"
    by (simp_all add: find_verdict_def one_grade_def sample_case_store_def empty_store_def)
  with verdict_recorded_once [OF r] have "st_verdicts st' = [row]" by simp
  with r show ?thesis by blast
qed

end
