(* ===== verification/Publication.thy ===== *)
theory Publication
  imports PolicyService CaseBuild
begin

text \<open>
  The private publication of a case
  (\<open>packages/pipeline/eastmed_pipeline/reconciliation_publication.py\<close>): a proposal passes the
  gate of the persisted verdict, is attested and leaves an intent with its outbox row; the
  executor claims the row, rechecks the authority and writes the publication in the same
  transaction; the read-back confirms it or finds it superseded. A proposal is \<open>None\<close> where it
  raises: \<open>attest_action\<close> on a case id that is no UUID, and the flush of an attestation or an intent with a
  value longer than its column, when the database enforces the
  lengths. The ORM objects the code receives are rows of the store.
\<close>

section \<open>Data\<close>

definition CAPABILITY :: string where "CAPABILITY = ''operations.private_publish''"
definition PRIVATE_PORTAL :: string where "PRIVATE_PORTAL = ''tenant_private_portal''"
definition DEFAULT_CASE_TYPE :: string where "DEFAULT_CASE_TYPE = ''daily_reconciliation''"
definition DISPATCH_LEASE :: int where "DISPATCH_LEASE = 5 * MINUTE"
definition EVIDENCE_INPUTS_COMPLETE :: string where
  "EVIDENCE_INPUTS_COMPLETE = ''required_inputs_complete''"
definition EVIDENCE_ACCEPTED_FACTS :: string where "EVIDENCE_ACCEPTED_FACTS = ''accepted_facts''"

definition STALE_REASONS :: "deny_reason list" where
  "STALE_REASONS = [DENIED_AUTHORITY, GRANT_REVOKED, POLICY_REVISION_CHANGED, ATTESTATION_EXPIRED,
    CASE_REVISION_CHANGED, PAYLOAD_HASH_MISMATCH, UNKNOWN_FINGERPRINT, CAPABILITY_STOPPED,
    DUPLICATE_ACTION]"

datatype publication_reason = PR_OK | NOT_PUBLISHED | HASH_MISMATCH | WRONG_TENANT | SUPERSEDED

primrec publication_reason_value :: "publication_reason \<Rightarrow> string" where
  "publication_reason_value PR_OK = ''ok''"
| "publication_reason_value NOT_PUBLISHED = ''not_published''"
| "publication_reason_value HASH_MISMATCH = ''hash_mismatch''"
| "publication_reason_value WRONG_TENANT = ''wrong_tenant''"
| "publication_reason_value SUPERSEDED = ''superseded''"

datatype verdict_gate_reason =
    VERIFICATION_MISSING
  | VERDICT_BINDING_MISMATCH
  | NO_CHECKED_CALCULATIONS
  | RESULT_UNRESOLVED
  | NOT_VERIFIED

primrec verdict_gate_reason_value :: "verdict_gate_reason \<Rightarrow> string" where
  "verdict_gate_reason_value VERIFICATION_MISSING = ''verification_missing''"
| "verdict_gate_reason_value VERDICT_BINDING_MISMATCH = ''verdict_binding_mismatch''"
| "verdict_gate_reason_value NO_CHECKED_CALCULATIONS = ''no_checked_calculations''"
| "verdict_gate_reason_value RESULT_UNRESOLVED = ''result_unresolved''"
| "verdict_gate_reason_value NOT_VERIFIED = ''not_verified''"

record propose_result =
  pp_ready :: bool
  pp_decision :: attestation_decision
  pp_reason :: string
  pp_attestation :: "uid option"
  pp_intent :: "uid option"

record publish_result =
  pu_published :: bool
  pu_reason :: deny_reason
  pu_publication :: "uid option"

record publication_verdict =
  pc_confirmed :: bool
  pc_reason :: publication_reason

section \<open>Queries\<close>

definition content_hash_of :: "hash \<Rightarrow> json \<Rightarrow> string" where
  "content_hash_of sha256 payload = sha256 (json_dumps payload)"

definition publication_action_key :: "uid \<Rightarrow> uid \<Rightarrow> string \<Rightarrow> string" where
  "publication_action_key account_id case_id content_hash =
    uuid_str account_id @ '':private_publish:'' @ uuid_str case_id @ '':'' @ content_hash"

definition current_revision :: "store \<Rightarrow> uid \<Rightarrow> uid \<Rightarrow> int option" where
  "current_revision st account_id case_id =
    map_option cv_revision (first_desc cv_revision (versions_of_case st account_id case_id))"

definition existing_intent :: "store \<Rightarrow> uid \<Rightarrow> string \<Rightarrow> intent_row option" where
  "existing_intent st account_id action_key =
    find (\<lambda>i. ai_account i = account_id \<and> ai_action_key i = action_key) (st_intents st)"

definition load_outbox :: "store \<Rightarrow> uid \<Rightarrow> uid \<Rightarrow> outbox_row option" where
  "load_outbox st account_id intent_id =
    find (\<lambda>x. ox_account x = account_id \<and> ox_intent x = intent_id) (st_outbox st)"

definition existing_publication :: "store \<Rightarrow> uid \<Rightarrow> uid \<Rightarrow> publication_row option" where
  "existing_publication st account_id intent_id =
    find (\<lambda>p. pb_account p = account_id \<and> pb_intent p = intent_id) (st_publications st)"

definition find_due_outbox :: "store \<Rightarrow> uid \<Rightarrow> instant \<Rightarrow> outbox_row list" where
  "find_due_outbox st account_id now = sort_key ox_next_attempt_at
    (filter (\<lambda>x. ox_account x = account_id \<and> ox_status x = OS_PENDING \<and> ox_next_attempt_at x \<le> now)
      (st_outbox st))"

section \<open>Proposal\<close>

definition gate_reason :: "verdict_row \<Rightarrow> case_row \<Rightarrow> case_version_row \<Rightarrow> verdict_gate_reason option" where
  "gate_reason verdict opcase version =
    (let calc_version = py_str (obj_get_default (cv_result_json version) ''calculator_version'' (JStr []))
     in if vd_content_hash verdict \<noteq> cv_content_hash version \<or>
           vd_evidence_hash verdict \<noteq> cv_evidence_hash version \<or>
           vd_case_revision verdict \<noteq> cv_revision version \<or>
           vd_expected_job verdict \<noteq> oc_expected_job opcase \<or>
           vd_calculator_version verdict \<noteq> calc_version
        then Some VERDICT_BINDING_MISMATCH
        else if vd_checked verdict = 0 then Some NO_CHECKED_CALCULATIONS
        else if vd_has_unresolved verdict then Some RESULT_UNRESOLVED
        else if vd_status verdict \<noteq> verification_status_value VERIFIED \<or> \<not> vd_completes verdict
        then Some NOT_VERIFIED
        else None)"

definition evidence_from_verdict :: "verdict_row \<Rightarrow> string set" where
  "evidence_from_verdict verdict =
    (if 0 < vd_checked verdict \<and> \<not> vd_has_unresolved verdict then {EVIDENCE_INPUTS_COMPLETE} else {}) \<union>
    (if vd_status verdict = verification_status_value VERIFIED then {EVIDENCE_ACCEPTED_FACTS} else {})"

definition gate_denied :: "verdict_gate_reason \<Rightarrow> propose_result" where
  "gate_denied reason = \<lparr>pp_ready = False, pp_decision = AD_DENY,
    pp_reason = verdict_gate_reason_value reason, pp_attestation = None, pp_intent = None\<rparr>"

definition publication_request ::
  "uid \<Rightarrow> case_row \<Rightarrow> case_version_row \<Rightarrow> verdict_row \<Rightarrow> string \<Rightarrow> string \<Rightarrow> string \<Rightarrow> string \<Rightarrow> action_request" where
  "publication_request account_id opcase version verdict subject fingerprint destination case_type =
    \<lparr>aq_tenant_id = uuid_str account_id, aq_principal_subject = subject, aq_capability = CAPABILITY,
     aq_case_id = uuid_str (oc_id opcase), aq_case_revision = cv_revision version,
     aq_action_key = publication_action_key account_id (oc_id opcase) (cv_content_hash version),
     aq_destination = destination, aq_case_type = case_type,
     aq_evidence_hash = cv_evidence_hash version,
     aq_provided_evidence = evidence_from_verdict verdict, aq_system_fingerprint = fingerprint,
     aq_payload = JObj (cv_result_json version), aq_requires_external = False,
     aq_requires_financial = False\<rparr>"

text \<open>The intent and its outbox row share the key; a value longer than its column fails the flush.\<close>

definition new_intent :: "uid \<Rightarrow> uid \<Rightarrow> case_row \<Rightarrow> case_version_row \<Rightarrow> attestation_row \<Rightarrow> string \<Rightarrow> intent_row" where
  "new_intent i account_id opcase version attestation destination =
    \<lparr>ai_id = i, ai_account = account_id, ai_case = oc_id opcase,
     ai_case_version = cv_id version, ai_attestation = aa_id attestation,
     ai_action_key = publication_action_key account_id (oc_id opcase) (cv_content_hash version),
     ai_capability = CAPABILITY, ai_destination = destination,
     ai_case_revision = cv_revision version, ai_content_hash = cv_content_hash version,
     ai_payload_hash = aa_payload_hash attestation\<rparr>"

definition new_outbox :: "uid \<Rightarrow> intent_row \<Rightarrow> instant \<Rightarrow> outbox_row" where
  "new_outbox i intent now =
    \<lparr>ox_id = i, ox_account = ai_account intent, ox_intent = ai_id intent,
     ox_action_key = ai_action_key intent, ox_status = OS_PENDING, ox_response_class = None,
     ox_content_hash = ai_content_hash intent, ox_lease_epoch = 0, ox_lease_until = None,
     ox_next_attempt_at = now, ox_dispatch_attempts = 0, ox_provider_reference = None,
     ox_terminal_reason = None\<rparr>"

definition store_intent :: "store \<Rightarrow> case_row \<Rightarrow> intent_row \<Rightarrow> instant \<Rightarrow> store" where
  "store_intent st opcase intent now =
    upd_case (oc_id opcase) (\<lambda>c. c\<lparr>oc_automation_status := AS_PUBLICATION_READY\<rparr>)
      (st\<lparr>st_intents := st_intents st @ [intent],
        st_outbox := st_outbox st @ [new_outbox (st_next st + 1) intent now],
        st_next := st_next st + 2\<rparr>)"

definition commit_intent ::
  "store \<Rightarrow> uid \<Rightarrow> case_row \<Rightarrow> case_version_row \<Rightarrow> attestation_row \<Rightarrow> string \<Rightarrow> instant \<Rightarrow>
    (store \<times> intent_row) option" where
  "commit_intent st account_id opcase version attestation destination now =
    (let intent = new_intent (st_next st) account_id opcase version attestation destination
     in if columns_fit st [(128, ai_action_key intent), (128, ai_capability intent), (128, ai_destination intent),
          (64, ai_content_hash intent), (64, ai_payload_hash intent)]
        then Some (store_intent st opcase intent now, intent)
        else None)"

lemmas intent_defs = store_intent_def new_intent_def new_outbox_def

definition propose_publication ::
  "hash \<Rightarrow> store \<Rightarrow> uid \<Rightarrow> case_row \<Rightarrow> case_version_row \<Rightarrow> string \<Rightarrow> string \<Rightarrow> string \<Rightarrow> string \<Rightarrow> instant \<Rightarrow>
    bool \<Rightarrow> (store \<times> propose_result) option" where
  "propose_publication sha256 st account_id opcase version subject fingerprint destination case_type now stop =
    (case existing_intent st account_id
        (publication_action_key account_id (oc_id opcase) (cv_content_hash version)) of
       Some existing \<Rightarrow>
         Some (st, \<lparr>pp_ready = True, pp_decision = AD_ALLOW, pp_reason = deny_reason_value OK,
           pp_attestation = Some (ai_attestation existing), pp_intent = Some (ai_id existing)\<rparr>)
     | None \<Rightarrow>
        (case find_verdict st account_id (cv_id version) of
           None \<Rightarrow> Some (st, gate_denied VERIFICATION_MISSING)
         | Some verdict \<Rightarrow>
            (case gate_reason verdict opcase version of
               Some reason \<Rightarrow> Some (st, gate_denied reason)
             | None \<Rightarrow>
                (case attest_action sha256 st account_id
                    (publication_request account_id opcase version verdict subject fingerprint
                      destination case_type) now stop of
                   None \<Rightarrow> None
                 | Some (st1, attestation) \<Rightarrow>
                    if aa_decision attestation \<noteq> AD_ALLOW then
                      Some (st1, \<lparr>pp_ready = False, pp_decision = aa_decision attestation,
                        pp_reason = aa_reason attestation,
                        pp_attestation = Some (aa_id attestation), pp_intent = None\<rparr>)
                    else
                      (case commit_intent st1 account_id opcase version attestation destination now of
                         None \<Rightarrow> None
                       | Some (st2, intent) \<Rightarrow> Some (st2, \<lparr>pp_ready = True, pp_decision = AD_ALLOW,
                           pp_reason = deny_reason_value OK,
                           pp_attestation = Some (aa_id attestation),
                           pp_intent = Some (ai_id intent)\<rparr>))))))"

section \<open>Dispatch\<close>

definition claim_outbox :: "instant \<Rightarrow> outbox_row \<Rightarrow> outbox_row" where
  "claim_outbox now x = x\<lparr>ox_status := OS_CLAIMED, ox_lease_epoch := ox_lease_epoch x + 1,
    ox_lease_until := Some (now + DISPATCH_LEASE), ox_dispatch_attempts := ox_dispatch_attempts x + 1\<rparr>"

definition deny_outbox :: "deny_reason \<Rightarrow> outbox_row \<Rightarrow> outbox_row" where
  "deny_outbox reason x = x\<lparr>ox_terminal_reason := Some (deny_reason_value reason),
    ox_status := if reason \<in> set STALE_REASONS then OS_INVALIDATED else OS_PENDING\<rparr>"

definition write_publication ::
  "store \<Rightarrow> uid \<Rightarrow> intent_row \<Rightarrow> (string \<times> json) list \<Rightarrow> outbox_row \<Rightarrow> instant \<Rightarrow> store \<times> publication_row" where
  "write_publication st account_id intent payload outbox now =
    (let publication = \<lparr>pb_id = st_next st, pb_account = account_id, pb_intent = ai_id intent,
           pb_case = ai_case intent, pb_case_revision = ai_case_revision intent,
           pb_destination = ai_destination intent, pb_content_hash = ai_content_hash intent,
           pb_result_json = payload, pb_published_at = now\<rparr>;
         st1 = st\<lparr>st_publications := st_publications st @ [publication], st_next := st_next st + 1\<rparr>;
         st2 = upd_outbox (ox_id outbox) (\<lambda>x. x\<lparr>ox_status := OS_DISPATCHED,
           ox_response_class := Some ORC_ACCEPTED,
           ox_provider_reference := Some (uuid_str (pb_id publication)), ox_terminal_reason := None\<rparr>) st1
     in (upd_case (ai_case intent) (\<lambda>c. if oc_account c = account_id
           then c\<lparr>oc_automation_status := AS_PUBLISHED\<rparr> else c) st2, publication))"

definition refuse_publish :: "deny_reason \<Rightarrow> uid option \<Rightarrow> publish_result" where
  "refuse_publish reason existing = \<lparr>pu_published = False, pu_reason = reason, pu_publication = existing\<rparr>"

definition publish_case ::
  "hash \<Rightarrow> store \<Rightarrow> uid \<Rightarrow> intent_row \<Rightarrow> (string \<times> json) list \<Rightarrow> instant \<Rightarrow> bool \<Rightarrow> store \<times> publish_result" where
  "publish_case sha256 st account_id intent current_payload now stop =
    (case load_outbox st account_id (ai_id intent) of
       None \<Rightarrow> (st, refuse_publish DENIED_AUTHORITY None)
     | Some outbox \<Rightarrow>
        if ox_status outbox = OS_DISPATCHED \<or> ox_status outbox = OS_RECONCILED
        then (st, refuse_publish DUPLICATE_ACTION
               (map_option pb_id (existing_publication st account_id (ai_id intent))))
        else if ox_status outbox = OS_INVALIDATED \<or> ox_status outbox = OS_EFFECT_UNKNOWN
        then (st, refuse_publish DENIED_AUTHORITY None)
        else
          let st1 = upd_outbox (ox_id outbox) (claim_outbox now) st;
              revision = (case current_revision st1 account_id (ai_case intent) of
                None \<Rightarrow> ai_case_revision intent | Some r \<Rightarrow> r)
          in (case authorize_dispatch sha256 st1 account_id (ai_attestation intent)
                (JObj current_payload) revision now stop of
               (st2, dispatch) \<Rightarrow>
                 if \<not> da_authorized dispatch then
                   (upd_outbox (ox_id outbox) (deny_outbox (da_reason dispatch)) st2,
                    refuse_publish (da_reason dispatch) None)
                 else
                   (case write_publication st2 account_id intent current_payload outbox now of
                      (st3, publication) \<Rightarrow> (st3, \<lparr>pu_published = True, pu_reason = OK,
                        pu_publication = Some (pb_id publication)\<rparr>))))"

section \<open>Read-back and invalidation\<close>

definition supersede_outbox :: "outbox_row \<Rightarrow> outbox_row" where
  "supersede_outbox x = x\<lparr>ox_status := OS_INVALIDATED,
    ox_terminal_reason := Some (publication_reason_value SUPERSEDED)\<rparr>"

definition unconfirmed :: "publication_reason \<Rightarrow> publication_verdict" where
  "unconfirmed reason = \<lparr>pc_confirmed = False, pc_reason = reason\<rparr>"

definition on_outbox :: "outbox_row option \<Rightarrow> (outbox_row \<Rightarrow> outbox_row) \<Rightarrow> store \<Rightarrow> store" where
  "on_outbox outbox f st = (case outbox of None \<Rightarrow> st | Some x \<Rightarrow> upd_outbox (ox_id x) f st)"

definition reconcile_publication :: "hash \<Rightarrow> store \<Rightarrow> uid \<Rightarrow> intent_row \<Rightarrow> store \<times> publication_verdict" where
  "reconcile_publication sha256 st account_id intent =
    (case existing_publication st account_id (ai_id intent) of
       None \<Rightarrow> (st, unconfirmed NOT_PUBLISHED)
     | Some p \<Rightarrow>
        if pb_account p \<noteq> account_id then (st, unconfirmed WRONG_TENANT)
        else if content_hash_of sha256 (JObj (pb_result_json p)) \<noteq> pb_content_hash p \<or>
          pb_content_hash p \<noteq> ai_content_hash intent then (st, unconfirmed HASH_MISMATCH)
        else
          let current = current_revision st account_id (pb_case p);
              outbox = load_outbox st account_id (ai_id intent)
          in if current \<noteq> None \<and> current \<noteq> Some (pb_case_revision p) then
               (on_outbox outbox (\<lambda>x. if ox_status x = OS_RECONCILED \<or> ox_status x = OS_EFFECT_UNKNOWN
                  then x else supersede_outbox x) st, unconfirmed SUPERSEDED)
             else
               (upd_case (pb_case p) (\<lambda>c. if oc_account c = account_id
                  then c\<lparr>oc_automation_status := AS_VERIFIED_COMPLETE\<rparr> else c)
                 (on_outbox outbox (\<lambda>x. x\<lparr>ox_status := OS_RECONCILED,
                    ox_response_class := Some ORC_EFFECT_CONFIRMED, ox_terminal_reason := None\<rparr>) st),
                \<lparr>pc_confirmed = True, pc_reason = PR_OK\<rparr>))"

definition pending_of_older :: "store \<Rightarrow> uid \<Rightarrow> uid \<Rightarrow> int \<Rightarrow> outbox_row \<Rightarrow> bool" where
  "pending_of_older st account_id case_id revision x \<longleftrightarrow>
    ox_account x = account_id \<and> (ox_status x = OS_PENDING \<or> ox_status x = OS_CLAIMED) \<and>
    (case row_get ai_id (ox_intent x) (st_intents st) of
       None \<Rightarrow> False
     | Some i \<Rightarrow> ai_case i = case_id \<and> ai_case_revision i < revision)"

definition invalidate_pending_publications :: "store \<Rightarrow> uid \<Rightarrow> uid \<Rightarrow> int \<Rightarrow> store \<times> nat" where
  "invalidate_pending_publications st account_id case_id revision =
    (st\<lparr>st_outbox := map (\<lambda>x. if pending_of_older st account_id case_id revision x
         then supersede_outbox x else x) (st_outbox st)\<rparr>,
     length (filter (pending_of_older st account_id case_id revision) (st_outbox st)))"

end
