(* ===== verification/Publication_Facts.thy ===== *)
theory Publication_Facts
  imports Publication PolicyService_Props CaseBuild_Props
begin

text \<open>
  Publication as a transition system. Proposals, dispatches, read-backs and invalidations run in
  any order, while verdicts are recorded, new versions of cases are committed and grants,
  principals and cases change: what is published was independently verified, once.
\<close>

section \<open>The operations by cases\<close>

lemma upd_outbox_frame [simp]:
  "st_intents (upd_outbox i f st) = st_intents st" "st_next (upd_outbox i f st) = st_next st"
  "st_publications (upd_outbox i f st) = st_publications st" "st_grants (upd_outbox i f st) = st_grants st"
  "st_attestations (upd_outbox i f st) = st_attestations st" "st_cases (upd_outbox i f st) = st_cases st"
  "st_versions (upd_outbox i f st) = st_versions st" "st_verdicts (upd_outbox i f st) = st_verdicts st"
  "st_outbox (upd_outbox i f st) = row_upd ox_id i f (st_outbox st)"
  "st_principals (upd_outbox i f st) = st_principals st"
  by (simp_all add: upd_outbox_def)

lemma upd_attestation_frame [simp]:
  "st_intents (upd_attestation i f st) = st_intents st" "st_next (upd_attestation i f st) = st_next st"
  "st_publications (upd_attestation i f st) = st_publications st"
  "st_cases (upd_attestation i f st) = st_cases st" "st_outbox (upd_attestation i f st) = st_outbox st"
  "st_versions (upd_attestation i f st) = st_versions st" "st_verdicts (upd_attestation i f st) = st_verdicts st"
  "st_attestations (upd_attestation i f st) = row_upd aa_id i f (st_attestations st)"
  by (simp_all add: upd_attestation_def)

lemma upd_case_frame [simp]:
  "st_intents (upd_case i f st) = st_intents st" "st_next (upd_case i f st) = st_next st"
  "st_publications (upd_case i f st) = st_publications st" "st_outbox (upd_case i f st) = st_outbox st"
  "st_attestations (upd_case i f st) = st_attestations st" "st_versions (upd_case i f st) = st_versions st"
  "st_verdicts (upd_case i f st) = st_verdicts st" "st_grants (upd_case i f st) = st_grants st"
  "st_cases (upd_case i f st) = row_upd oc_id i f (st_cases st)"
  by (simp_all add: upd_case_def)

lemma attest_action_frame:
  assumes "attest_action sha256 st acc q now stop = Some (st', a)"
  shows "st' = st\<lparr>st_attestations := st_attestations st @ [a], st_next := st_next st + 1\<rparr>"
    and "aa_id a = st_next st" and "aa_account a = acc" and "aa_dispatched_at a = None"
    and "aa_payload_hash a = canonical_payload_hash sha256 (aq_payload q)"
    and "aa_case_revision a = aq_case_revision q" and "aa_action_key a = aq_action_key q"
proof -
  from assms obtain dec reason h g p e where
    r: "record_attestation st acc q dec reason h g p e = Some (st', a)"
    and h: "h = canonical_payload_hash sha256 (aq_payload q)"
    by (auto simp: attest_action_def Let_def split: option.splits)
  note facts = record_attestation_Some [OF r]
  from facts h show "st' = st\<lparr>st_attestations := st_attestations st @ [a], st_next := st_next st + 1\<rparr>"
    "aa_id a = st_next st" "aa_account a = acc" "aa_dispatched_at a = None"
    "aa_payload_hash a = canonical_payload_hash sha256 (aq_payload q)"
    "aa_case_revision a = aq_case_revision q" "aa_action_key a = aq_action_key q"
    by simp_all
qed

lemma propose_publication_cases:
  assumes "propose_publication sha256 st acc c v subject fp dest ct now stop = Some (st', r)"
  obtains (unchanged) "st' = st"
  | (denied) q a where "attest_action sha256 st acc q now stop = Some (st', a)"
  | (committed) w st1 a where
      "existing_intent st acc (publication_action_key acc (oc_id c) (cv_content_hash v)) = None"
      "find_verdict st acc (cv_id v) = Some w" "gate_reason w c v = None"
      "attest_action sha256 st acc (publication_request acc c v w subject fp dest ct) now stop = Some (st1, a)"
      "aa_decision a = AD_ALLOW" "st' = store_intent st1 c (new_intent (st_next st1) acc c v a dest) now"
      "r = \<lparr>pp_ready = True, pp_decision = AD_ALLOW, pp_reason = deny_reason_value OK,
        pp_attestation = Some (aa_id a), pp_intent = Some (st_next st1)\<rparr>"
proof -
  let ?key = "publication_action_key acc (oc_id c) (cv_content_hash v)"
  consider (known) "existing_intent st acc ?key \<noteq> None"
    | (missing) "existing_intent st acc ?key = None" "find_verdict st acc (cv_id v) = None"
    | (gate) w where "existing_intent st acc ?key = None" "find_verdict st acc (cv_id v) = Some w"
        "gate_reason w c v \<noteq> None"
    | (passed) w where "existing_intent st acc ?key = None" "find_verdict st acc (cv_id v) = Some w"
        "gate_reason w c v = None"
    by fastforce
  then show thesis
  proof cases
    case known
    with assms show thesis by (intro unchanged) (auto simp: propose_publication_def)
  next
    case missing
    with assms show thesis by (intro unchanged) (simp add: propose_publication_def)
  next
    case gate
    with assms show thesis by (intro unchanged) (auto simp: propose_publication_def)
  next
    case passed
    let ?q = "publication_request acc c v w subject fp dest ct"
    from assms passed obtain st1 a where a: "attest_action sha256 st acc ?q now stop = Some (st1, a)"
      by (auto simp: propose_publication_def split: option.splits)
    show thesis
    proof (cases "aa_decision a = AD_ALLOW")
      case True
      with assms passed a show thesis
        by (intro committed [OF passed a])
          (auto simp: propose_publication_def commit_intent_def Let_def new_intent_def split: if_split_asm)
    next
      case False
      with assms passed a show thesis by (intro denied) (auto simp: propose_publication_def)
    qed
  qed
qed

text \<open>Claiming the outbox row changes nothing the recheck looks at.\<close>

lemma upd_outbox_recheck [simp]:
  "find_attestation (upd_outbox i f st) acc j = find_attestation st acc j"
  "authority_stands sha256 (upd_outbox i f st) acc a p revn now \<longleftrightarrow> authority_stands sha256 st acc a p revn now"
  "current_revision (upd_outbox i f st) acc c = current_revision st acc c"
  by (simp_all add: find_attestation_def authority_stands_def dispatch_grant_def already_dispatched_def
      current_revision_def versions_of_case_def cong: option.case_cong)

definition claimable :: "outbox_row \<Rightarrow> bool" where
  "claimable x \<longleftrightarrow> ox_status x = OS_PENDING \<or> ox_status x = OS_CLAIMED"

definition expected_revision :: "store \<Rightarrow> intent_row \<Rightarrow> int" where
  "expected_revision st i = (case current_revision st (ai_account i) (ai_case i) of
    None \<Rightarrow> ai_case_revision i | Some r \<Rightarrow> r)"

lemma publish_case_cases:
  assumes "publish_case sha256 st acc i payload now stop = (st', r)" and "ai_account i = acc"
  obtains (refused) "st' = st" "\<not> pu_published r"
      "\<And>x. load_outbox st acc (ai_id i) = Some x \<Longrightarrow> \<not> claimable x"
  | (denied) x reason where "load_outbox st acc (ai_id i) = Some x" "claimable x" "reason \<noteq> OK"
      "st' = upd_outbox (ox_id x) (deny_outbox reason) (upd_outbox (ox_id x) (claim_outbox now) st)"
      "r = refuse_publish reason None"
      "authorize_dispatch sha256 (upd_outbox (ox_id x) (claim_outbox now) st) acc (ai_attestation i)
        (JObj payload) (expected_revision st i) now stop =
       (upd_outbox (ox_id x) (claim_outbox now) st, reject_dispatch reason)"
  | (published) x a where "load_outbox st acc (ai_id i) = Some x" "claimable x"
      "find_attestation st acc (ai_attestation i) = Some a" "\<not> stop"
      "authority_stands sha256 st acc a (JObj payload) (expected_revision st i) now"
      "st' = fst (write_publication (upd_attestation (aa_id a) (\<lambda>x. x\<lparr>aa_dispatched_at := Some now\<rparr>)
         (upd_outbox (ox_id x) (claim_outbox now) st)) acc i payload x now)"
      "r = \<lparr>pu_published = True, pu_reason = OK, pu_publication = Some (st_next st)\<rparr>"
proof (cases "load_outbox st acc (ai_id i)")
  case None
  with assms show thesis by (intro refused) (auto simp: publish_case_def refuse_publish_def)
next
  case (Some x)
  show thesis
  proof (cases "claimable x")
    case False
    then have "ox_status x \<in> {OS_DISPATCHED, OS_RECONCILED, OS_INVALIDATED, OS_EFFECT_UNKNOWN}"
      by (cases "ox_status x") (simp_all add: claimable_def)
    with Some False assms show thesis
      by (intro refused) (auto simp: publish_case_def refuse_publish_def)
  next
    case True
    let ?st1 = "upd_outbox (ox_id x) (claim_outbox now) st"
    let ?auth = "authorize_dispatch sha256 ?st1 acc (ai_attestation i) (JObj payload) (expected_revision st i) now stop"
    obtain st2 d where d: "?auth = (st2, d)" by fastforce
    have eq: "(if \<not> da_authorized d then (upd_outbox (ox_id x) (deny_outbox (da_reason d)) st2,
          refuse_publish (da_reason d) None)
        else (case write_publication st2 acc i payload x now of (st3, p) \<Rightarrow>
          (st3, \<lparr>pu_published = True, pu_reason = OK, pu_publication = Some (pb_id p)\<rparr>))) = (st', r)"
      using assms Some True d
      by (auto simp: publish_case_def claimable_def Let_def expected_revision_def)
    from d show thesis
    proof (cases rule: authorize_dispatch_cases)
      case (granted a)
      with eq Some True show thesis
        by (intro published [of x a]) (auto simp: write_publication_def Let_def)
    next
      case refused
      then have "reject_dispatch (da_reason d) = d" by (simp add: reject_dispatch_def)
      with eq Some True refused d show thesis
        by (intro denied [of x "da_reason d"]) auto
    qed
  qed
qed

section \<open>Steps\<close>

datatype publication_event =
    Propose | Publish | ReadBack | Invalidate | RecordVerdict | CommitVersion | Otherwise

text \<open>
  A proposal concerns a case and a version of it, both of the account; a dispatch and a read-back
  concern a stored intent. \<open>Otherwise\<close> is any operation that leaves the tables of publication alone:
  grants, principals, cases and the task queue may change arbitrarily in between.
\<close>

inductive publication_step :: "hash \<Rightarrow> store \<Rightarrow> publication_event \<Rightarrow> store \<Rightarrow> bool" for sha256 where
  pb_propose: "propose_publication sha256 st acc c v subject fp dest ct now stop = Some (st', r) \<Longrightarrow>
    v \<in> set (st_versions st) \<Longrightarrow> cv_account v = acc \<Longrightarrow> cv_case v = oc_id c \<Longrightarrow>
    publication_step sha256 st Propose st'"
| pb_publish: "publish_case sha256 st acc i payload now stop = (st', r) \<Longrightarrow>
    i \<in> set (st_intents st) \<Longrightarrow> ai_account i = acc \<Longrightarrow> publication_step sha256 st Publish st'"
| pb_read_back: "reconcile_publication sha256 st acc i = (st', verdict) \<Longrightarrow>
    i \<in> set (st_intents st) \<Longrightarrow> ai_account i = acc \<Longrightarrow> publication_step sha256 st ReadBack st'"
| pb_invalidate: "invalidate_pending_publications st acc c revn = (st', n) \<Longrightarrow>
    publication_step sha256 st Invalidate st'"
| pb_verdict: "record_verification_verdict fromiso st acc job c v result = Inr (st', row) \<Longrightarrow>
    publication_step sha256 st RecordVerdict st'"
| pb_version: "commit_case_version st acc c result = (st', v) \<Longrightarrow>
    publication_step sha256 st CommitVersion st'"
| pb_elsewhere: "st_intents st' = st_intents st \<Longrightarrow> st_outbox st' = st_outbox st \<Longrightarrow>
    st_publications st' = st_publications st \<Longrightarrow> st_attestations st' = st_attestations st \<Longrightarrow>
    st_versions st' = st_versions st \<Longrightarrow> st_verdicts st' = st_verdicts st \<Longrightarrow> st_next st \<le> st_next st' \<Longrightarrow>
    publication_step sha256 st Otherwise st'"

section \<open>Invariant\<close>

text \<open>A verdict entitles a version to publication when it is bound to it and completes.\<close>

definition entitles :: "verdict_row \<Rightarrow> case_version_row \<Rightarrow> bool" where
  "entitles w v \<longleftrightarrow> vd_case_version w = cv_id v \<and> vd_account w = cv_account v \<and>
    vd_content_hash w = cv_content_hash v \<and> vd_evidence_hash w = cv_evidence_hash v \<and>
    vd_case_revision w = cv_revision v \<and> vd_status w = verification_status_value VERIFIED \<and>
    vd_checked w \<noteq> 0 \<and> \<not> vd_has_unresolved w \<and> vd_completes w"

definition intent_of_version :: "hash \<Rightarrow> intent_row \<Rightarrow> case_version_row \<Rightarrow> bool" where
  "intent_of_version sha256 i v \<longleftrightarrow> ai_case_version i = cv_id v \<and> ai_account i = cv_account v \<and>
    ai_case i = cv_case v \<and> ai_case_revision i = cv_revision v \<and> ai_content_hash i = cv_content_hash v \<and>
    ai_payload_hash i = canonical_payload_hash sha256 (JObj (cv_result_json v))"

definition intent_ok :: "hash \<Rightarrow> store \<Rightarrow> intent_row \<Rightarrow> bool" where
  "intent_ok sha256 st i \<longleftrightarrow> ai_id i < st_next st \<and>
    ai_action_key i = publication_action_key (ai_account i) (ai_case i) (ai_content_hash i) \<and>
    (\<exists>v \<in> set (st_versions st). intent_of_version sha256 i v \<and> (\<exists>w \<in> set (st_verdicts st). entitles w v)) \<and>
    (\<exists>a. find_attestation st (ai_account i) (ai_attestation i) = Some a \<and> aa_payload_hash a = ai_payload_hash i \<and>
      aa_case_revision a = ai_case_revision i)"

definition publication_of :: "hash \<Rightarrow> publication_row \<Rightarrow> intent_row \<Rightarrow> bool" where
  "publication_of sha256 p i \<longleftrightarrow> pb_intent p = ai_id i \<and> pb_account p = ai_account i \<and> pb_case p = ai_case i \<and>
    pb_case_revision p = ai_case_revision i \<and> pb_content_hash p = ai_content_hash i \<and>
    pb_destination p = ai_destination i \<and>
    canonical_payload_hash sha256 (JObj (pb_result_json p)) = ai_payload_hash i"

definition publication_ok :: "hash \<Rightarrow> store \<Rightarrow> publication_row \<Rightarrow> bool" where
  "publication_ok sha256 st p \<longleftrightarrow> (\<exists>i \<in> set (st_intents st). publication_of sha256 p i \<and>
    (\<exists>a. find_attestation st (ai_account i) (ai_attestation i) = Some a \<and> aa_dispatched_at a \<noteq> None))"

definition publication_inv :: "hash \<Rightarrow> store \<Rightarrow> bool" where
  "publication_inv sha256 st \<longleftrightarrow>
    list_all (intent_ok sha256 st) (st_intents st) \<and> list_all (publication_ok sha256 st) (st_publications st) \<and>
    distinct (map ai_id (st_intents st)) \<and>
    distinct (map (\<lambda>i. (ai_account i, ai_action_key i)) (st_intents st)) \<and>
    distinct (map pb_intent (st_publications st)) \<and>
    distinct (map ox_id (st_outbox st)) \<and> list_all (\<lambda>k. k < st_next st) (map ox_id (st_outbox st)) \<and>
    list_all (\<lambda>k. k < st_next st) (map aa_id (st_attestations st))"

text \<open>Tables only grow, and an attestation keeps what it attests.\<close>

definition attests_still :: "attestation_row \<Rightarrow> attestation_row \<Rightarrow> bool" where
  "attests_still a b \<longleftrightarrow> aa_payload_hash b = aa_payload_hash a \<and> aa_case_revision b = aa_case_revision a \<and>
    (aa_dispatched_at a \<noteq> None \<longrightarrow> aa_dispatched_at b \<noteq> None)"

definition grows :: "store \<Rightarrow> store \<Rightarrow> bool" where
  "grows st st' \<longleftrightarrow> st_next st \<le> st_next st' \<and> set (st_intents st) \<subseteq> set (st_intents st') \<and>
    set (st_versions st) \<subseteq> set (st_versions st') \<and> set (st_verdicts st) \<subseteq> set (st_verdicts st') \<and>
    (\<forall>acc j a. find_attestation st acc j = Some a \<longrightarrow>
      (\<exists>b. find_attestation st' acc j = Some b \<and> attests_still a b))"

lemma grows_intent_ok: "grows st st' \<Longrightarrow> intent_ok sha256 st i \<Longrightarrow> intent_ok sha256 st' i"
  by (fastforce simp: grows_def intent_ok_def attests_still_def)

lemma grows_publication_ok: "grows st st' \<Longrightarrow> publication_ok sha256 st p \<Longrightarrow> publication_ok sha256 st' p"
  by (fastforce simp: grows_def publication_ok_def attests_still_def)

lemma attests_still_trans: "attests_still a b \<Longrightarrow> attests_still b c \<Longrightarrow> attests_still a c"
  by (auto simp: attests_still_def)

lemma grows_trans: "grows st st1 \<Longrightarrow> grows st1 st2 \<Longrightarrow> grows st st2"
  unfolding grows_def by (intro conjI; meson attests_still_trans order_trans)

lemma grows_frame:
  assumes "st_next st \<le> st_next st'" "st_intents st' = st_intents st @ is" "st_versions st' = st_versions st @ vs"
    "st_verdicts st' = st_verdicts st @ ws" "st_attestations st' = st_attestations st @ as"
  shows "grows st st'"
  using assms by (auto simp: grows_def attests_still_def find_attestation_def find_append)

lemma find_attestation_stamp:
  "find_attestation (upd_attestation k f st) acc j = map_option (\<lambda>a. if aa_id a = k then f a else a) (find_attestation st acc j)"
  if "\<And>a. aa_id (f a) = aa_id a" and "\<And>a. aa_account (f a) = aa_account a"
proof -
  have "find (\<lambda>a. aa_account a = acc \<and> aa_id a = j) (row_upd aa_id k f as) =
      map_option (\<lambda>a. if aa_id a = k then f a else a) (find (\<lambda>a. aa_account a = acc \<and> aa_id a = j) as)" for as
    by (induction as) (auto simp: row_upd_def that)
  then show ?thesis by (simp add: find_attestation_def)
qed

lemma grows_stamp: "grows st (upd_attestation k (\<lambda>x. x\<lparr>aa_dispatched_at := Some now\<rparr>) st)"
  by (auto simp: grows_def find_attestation_stamp attests_still_def)

lemma publication_inv_frame:
  assumes inv: "publication_inv sha256 st" and g: "grows st st'"
    and "st_intents st' = st_intents st" "st_publications st' = st_publications st"
    and "map ox_id (st_outbox st') = map ox_id (st_outbox st)"
    and "list_all (\<lambda>k. k < st_next st') (map aa_id (st_attestations st'))"
  shows "publication_inv sha256 st'"
proof -
  have "list_all (\<lambda>k. k < st_next st') (map ox_id (st_outbox st))"
    using inv g unfolding publication_inv_def grows_def by (auto elim!: list.pred_mono_strong)
  moreover have "list_all (intent_ok sha256 st') (st_intents st)"
    "list_all (publication_ok sha256 st') (st_publications st)"
    using inv g unfolding publication_inv_def
    by (auto elim!: list.pred_mono_strong intro: grows_intent_ok grows_publication_ok)
  ultimately show ?thesis
    using inv unfolding publication_inv_def assms(3-5) using assms(6) by blast
qed

section \<open>Every step keeps the invariant\<close>

lemma find_verdict_Some:
  "find_verdict st acc i = Some w \<Longrightarrow> w \<in> set (st_verdicts st) \<and> vd_account w = acc \<and> vd_case_version w = i"
  by (auto simp: find_verdict_def find_Some_iff)

lemma gate_entitles:
  assumes "gate_reason w c v = None" and "find_verdict st (cv_account v) (cv_id v) = Some w"
  shows "entitles w v" and "w \<in> set (st_verdicts st)" and "vd_expected_job w = oc_expected_job c"
  using assms find_verdict_Some [OF assms(2)]
  by (auto simp: gate_reason_def entitles_def Let_def split: if_splits)

lemma load_outbox_Some:
  "load_outbox st acc i = Some x \<Longrightarrow> x \<in> set (st_outbox st) \<and> ox_account x = acc \<and> ox_intent x = i"
  by (auto simp: load_outbox_def find_Some_iff)

lemma map_ids_row_upd:
  "(\<And>r. key (f r) = key r) \<Longrightarrow> map key (row_upd key i f rows) = map key rows"
  by (rule row_upd_keys)

lemma outbox_ids_keep [simp]:
  "ox_id (claim_outbox now x) = ox_id x" "ox_id (deny_outbox reason x) = ox_id x"
  "ox_id (supersede_outbox x) = ox_id x"
  by (simp_all add: claim_outbox_def deny_outbox_def supersede_outbox_def)

lemma propose_keeps:
  assumes inv: "publication_inv sha256 st"
    and eq: "propose_publication sha256 st acc c v subject fp dest ct now stop = Some (st', r)"
    and v: "v \<in> set (st_versions st)" "cv_account v = acc" "cv_case v = oc_id c"
  shows "publication_inv sha256 st'"
  using eq
proof (cases rule: propose_publication_cases)
  case unchanged
  with inv show ?thesis by simp
next
  case (denied q a)
  note a = attest_action_frame [OF denied]
  show ?thesis
  proof (rule publication_inv_frame [OF inv])
    show "grows st st'" by (rule grows_frame) (simp_all add: a(1))
    show "list_all (\<lambda>k. k < st_next st') (map aa_id (st_attestations st'))"
      using inv by (auto simp: a publication_inv_def list_all_iff less_SucI)
  qed (simp_all add: a(1))
next
  case (committed w st1 a)
  note a = attest_action_frame [OF committed(4)]
  note w = gate_entitles [OF committed(3) committed(2) [folded v(2)]]
  obtain i where i: "i = new_intent (st_next st1) acc c v a dest" by simp
  have new: "st_intents st' = st_intents st @ [i]" "st_next st' = st_next st + 3"
    "map ox_id (st_outbox st') = map ox_id (st_outbox st) @ [st_next st + 2]"
    "st_attestations st' = st_attestations st @ [a]" "st_publications st' = st_publications st"
    "st_versions st' = st_versions st" "st_verdicts st' = st_verdicts st" "ai_id i = st_next st + 1"
    "ai_account i = acc" "ai_action_key i = publication_action_key acc (oc_id c) (cv_content_hash v)"
    "intent_of_version sha256 i v" "ai_attestation i = aa_id a" "aa_payload_hash a = ai_payload_hash i"
    "aa_case_revision a = ai_case_revision i"
    using v(2,3) by (simp_all add: committed(6) i intent_defs a intent_of_version_def publication_request_def)
  have g: "grows st st'" by (rule grows_frame) (simp_all add: new)
  have "find_attestation st' acc (aa_id a) = Some a"
  proof -
    have "find_attestation st acc (aa_id a) = None"
      using inv a(2) by (auto simp: find_attestation_def find_None_iff publication_inv_def list_all_iff)
    then show ?thesis by (simp add: find_attestation_def new find_append a)
  qed
  then have "intent_ok sha256 st' i"
    using v w new unfolding intent_ok_def intent_of_version_def by fastforce
  moreover have "list_all (intent_ok sha256 st') (st_intents st)"
    "list_all (publication_ok sha256 st') (st_publications st)"
    using inv g unfolding publication_inv_def
    by (auto elim!: list.pred_mono_strong intro: grows_intent_ok grows_publication_ok)
  moreover have "(acc, ai_action_key i) \<notin> (\<lambda>i. (ai_account i, ai_action_key i)) ` set (st_intents st)"
    using committed(1) by (auto simp: existing_intent_def find_None_iff new)
  moreover have "st_next st + 1 \<notin> ai_id ` set (st_intents st)"
    using inv by (auto simp: publication_inv_def list_all_iff intent_ok_def)
  moreover have "st_next st + 2 \<notin> set (map ox_id (st_outbox st))"
    using inv by (auto simp: publication_inv_def list_all_iff)
  moreover have "list_all (\<lambda>k. k < st_next st + 3) (map ox_id (st_outbox st))"
    "list_all (\<lambda>k. k < st_next st + 3) (map aa_id (st_attestations st))"
    using inv unfolding publication_inv_def by (auto elim!: list.pred_mono_strong)
  ultimately show ?thesis
    using inv unfolding publication_inv_def by (simp add: new a)
qed

lemma publication_of_same_intent:
  assumes inv: "publication_inv sha256 st" and p: "p \<in> set (st_publications st)"
    and i: "i \<in> set (st_intents st)" "pb_intent p = ai_id i"
  shows "publication_of sha256 p i"
    and "\<exists>a. find_attestation st (ai_account i) (ai_attestation i) = Some a \<and> aa_dispatched_at a \<noteq> None"
proof -
  have "publication_ok sha256 st p" using inv p by (simp add: publication_inv_def list_all_iff)
  then obtain j where j: "j \<in> set (st_intents st)" "publication_of sha256 p j"
    "\<exists>a. find_attestation st (ai_account j) (ai_attestation j) = Some a \<and> aa_dispatched_at a \<noteq> None"
    by (auto simp: publication_ok_def)
  then have "ai_id j = ai_id i" using i by (simp add: publication_of_def)
  then have "j = i" using inv i(1) j(1) by (auto simp: publication_inv_def distinct_map dest: inj_onD)
  with j show "publication_of sha256 p i"
    "\<exists>a. find_attestation st (ai_account i) (ai_attestation i) = Some a \<and> aa_dispatched_at a \<noteq> None" by auto
qed

lemma publish_keeps:
  assumes inv: "publication_inv sha256 st"
    and eq: "publish_case sha256 st acc i payload now stop = (st', r)"
    and i: "i \<in> set (st_intents st)" "ai_account i = acc"
  shows "publication_inv sha256 st'"
  using eq i(2)
proof (cases rule: publish_case_cases)
  case refused
  with inv show ?thesis by simp
next
  case (denied x reason)
  show ?thesis
  proof (rule publication_inv_frame [OF inv])
    show "grows st st'" by (rule grows_frame) (simp_all add: denied(4))
    show "list_all (\<lambda>k. k < st_next st') (map aa_id (st_attestations st'))"
      using inv by (simp add: denied(4) publication_inv_def)
  qed (simp_all add: denied(4) map_ids_row_upd)
next
  case (published x a)
  let ?stamp = "\<lambda>x. x\<lparr>aa_dispatched_at := Some now\<rparr>"
  let ?st2 = "upd_attestation (aa_id a) ?stamp (upd_outbox (ox_id x) (claim_outbox now) st)"
  obtain p where p: "p = snd (write_publication ?st2 acc i payload x now)" by simp
  have new: "st_publications st' = st_publications st @ [p]" "st_next st' = st_next st + 1"
    "st_intents st' = st_intents st" "st_versions st' = st_versions st" "st_verdicts st' = st_verdicts st"
    "map ox_id (st_outbox st') = map ox_id (st_outbox st)"
    "map aa_id (st_attestations st') = map aa_id (st_attestations st)"
    "st_attestations st' = st_attestations (upd_attestation (aa_id a) ?stamp st)"
    by (simp_all add: published(6) p write_publication_def Let_def map_ids_row_upd)
  have find: "find_attestation st' acc' j = find_attestation (upd_attestation (aa_id a) ?stamp st) acc' j" for acc' j
    by (simp add: find_attestation_def new)
  have g: "grows st st'"
    using grows_stamp [of st "aa_id a" now] unfolding grows_def find by (simp add: new)
  have a: "aa_id a = ai_attestation i" "aa_dispatched_at a = None"
    "aa_payload_hash a = canonical_payload_hash sha256 (JObj payload)"
    using find_attestation_Some [OF published(3)] published(5) by (simp_all add: authority_stands_def)
  have "intent_ok sha256 st i" using inv i(1) by (simp add: publication_inv_def list_all_iff)
  then have "canonical_payload_hash sha256 (JObj payload) = ai_payload_hash i"
    using published(3) a(3) i(2) by (auto simp: intent_ok_def)
  then have "publication_of sha256 p i"
    using i(2) by (simp add: publication_of_def p write_publication_def Let_def)
  moreover have "find_attestation st' (ai_account i) (ai_attestation i) = Some (?stamp a)"
    using published(3) a(1) i(2) by (simp add: find find_attestation_stamp)
  ultimately have "publication_ok sha256 st' p"
    using i(1) by (fastforce simp: publication_ok_def new)
  moreover have "pb_intent p \<notin> pb_intent ` set (st_publications st)"
  proof
    assume "pb_intent p \<in> pb_intent ` set (st_publications st)"
    then obtain q where "q \<in> set (st_publications st)" "pb_intent q = ai_id i"
      using \<open>publication_of sha256 p i\<close> by (auto simp: publication_of_def)
    from publication_of_same_intent(2) [OF inv this(1) i(1) this(2)] show False
      using published(3) a(2) i(2) by simp
  qed
  moreover have "list_all (intent_ok sha256 st') (st_intents st)"
    "list_all (publication_ok sha256 st') (st_publications st)"
    "list_all (\<lambda>k. k < st_next st + 1) (map ox_id (st_outbox st))"
    "list_all (\<lambda>k. k < st_next st + 1) (map aa_id (st_attestations st))"
    using inv g unfolding publication_inv_def
    by (auto elim!: list.pred_mono_strong intro: grows_intent_ok grows_publication_ok)
  ultimately show ?thesis
    using inv unfolding publication_inv_def new(1-7) by simp
qed

lemma read_back_keeps:
  assumes inv: "publication_inv sha256 st" and eq: "reconcile_publication sha256 st acc i = (st', r)"
  shows "publication_inv sha256 st'"
proof -
  have frame: "st_next st' = st_next st" "st_intents st' = st_intents st" "st_versions st' = st_versions st"
    "st_verdicts st' = st_verdicts st" "st_attestations st' = st_attestations st"
    "st_publications st' = st_publications st" "map ox_id (st_outbox st') = map ox_id (st_outbox st)"
    using eq by (auto simp: reconcile_publication_def Let_def on_outbox_def map_ids_row_upd
        split: option.splits if_splits)
  show ?thesis
  proof (rule publication_inv_frame [OF inv])
    show "grows st st'" by (rule grows_frame) (simp_all add: frame)
    show "list_all (\<lambda>k. k < st_next st') (map aa_id (st_attestations st'))"
      using inv by (simp add: frame publication_inv_def)
  qed (simp_all add: frame)
qed

text \<open>The other steps leave the tables of publication alone, or touch only the status of outbox rows.\<close>

lemma other_step_keeps:
  assumes inv: "publication_inv sha256 st" and "st_next st \<le> st_next st'"
    "st_intents st' = st_intents st" "st_publications st' = st_publications st"
    "map ox_id (st_outbox st') = map ox_id (st_outbox st)" "st_attestations st' = st_attestations st"
    "st_versions st' = st_versions st @ vs" "st_verdicts st' = st_verdicts st @ ws"
  shows "publication_inv sha256 st'"
proof (rule publication_inv_frame [OF inv])
  show "grows st st'" using assms(2-) by (intro grows_frame) simp_all
  show "list_all (\<lambda>k. k < st_next st') (map aa_id (st_attestations st'))"
    using inv assms(2) unfolding publication_inv_def assms(6) by (auto elim!: list.pred_mono_strong)
qed (simp_all add: assms)

lemma record_verdict_frame:
  assumes "record_verification_verdict fromiso st acc job c v result = Inr (st', row)"
  obtains ws n where "st' = st\<lparr>st_verdicts := st_verdicts st @ ws, st_next := n\<rparr>" "st_next st \<le> n"
proof (cases "find_verdict st acc (cv_id v)")
  case None
  with assms show thesis
    by (intro that [where ws = "[row]" and n = "st_next st + 1"])
      (auto simp: record_verification_verdict_def Let_def ebind_def split: sum.splits)
next
  case (Some w)
  with assms show thesis by (intro that [where ws = "[]" and n = "st_next st"]) (auto simp: record_verification_verdict_def)
qed

lemma invalidate_keeps:
  assumes "publication_inv sha256 st"
  shows "publication_inv sha256 (fst (invalidate_pending_publications st acc c revn))"
proof (rule other_step_keeps [where vs = "[]" and ws = "[]", OF assms])
  show "map ox_id (st_outbox (fst (invalidate_pending_publications st acc c revn))) = map ox_id (st_outbox st)"
    by (simp add: invalidate_pending_publications_def)
qed (simp_all add: invalidate_pending_publications_def)

lemma publication_step_keeps:
  "publication_step sha256 st e st' \<Longrightarrow> publication_inv sha256 st \<Longrightarrow> publication_inv sha256 st'"
proof (induction rule: publication_step.induct)
  case (pb_invalidate st acc c revn st' n)
  then show ?case using invalidate_keeps [of sha256 st acc c revn] by simp
next
  case (pb_verdict fromiso st acc job c v result st' row)
  from pb_verdict(1) obtain ws n where "st' = st\<lparr>st_verdicts := st_verdicts st @ ws, st_next := n\<rparr>" "st_next st \<le> n"
    by (rule record_verdict_frame)
  then show ?case
    by - (rule other_step_keeps [OF pb_verdict(2), where vs = "[]" and ws = ws], simp_all)
next
  case (pb_version st acc c result st' v)
  then have "st' = st\<lparr>st_versions := st_versions st @ [v], st_next := st_next st + 1\<rparr>"
    by (auto simp: commit_case_version_def Let_def)
  then show ?case
    by - (rule other_step_keeps [OF pb_version(2), where vs = "[v]" and ws = "[]"], simp_all)
next
  case (pb_elsewhere st' st)
  then show ?case
    by - (rule other_step_keeps [where vs = "[]" and ws = "[]"], simp_all)
qed (blast intro: propose_keeps publish_keeps read_back_keeps)+

lemma publication_step_intents:
  assumes "publication_step sha256 st e st'" and "i \<in> set (st_intents st)"
  shows "i \<in> set (st_intents st')"
  using assms
proof (induction rule: publication_step.induct)
  case (pb_propose st acc c v subject fp dest ct now stop st' r)
  from pb_propose(1,5) show ?case
    by (cases rule: propose_publication_cases) (auto simp: intent_defs dest: attest_action_frame(1))
next
  case (pb_publish st acc i payload now stop st' r)
  from pb_publish(1,3,4) show ?case
    by (cases rule: publish_case_cases) (auto simp: write_publication_def Let_def)
next
  case (pb_read_back st acc i st' verdict)
  then show ?case
    by (auto simp: reconcile_publication_def Let_def on_outbox_def split: option.splits if_splits)
next
  case (pb_verdict fromiso st acc job c v result st' row)
  from pb_verdict(1) obtain ws n where "st' = st\<lparr>st_verdicts := st_verdicts st @ ws, st_next := n\<rparr>" "st_next st \<le> n"
    by (rule record_verdict_frame)
  with pb_verdict(2) show ?case by simp
qed (auto simp: invalidate_pending_publications_def commit_case_version_def Let_def)

text \<open>What the invariant says of the published rows.\<close>

lemma publication_inv_intent:
  assumes "publication_inv sha256 st" and "p \<in> set (st_publications st)"
  obtains i where "i \<in> set (st_intents st)" "publication_of sha256 p i" "intent_ok sha256 st i"
  using assms by (auto simp: publication_inv_def list_all_iff publication_ok_def)

lemma publication_inv_verified:
  assumes "publication_inv sha256 st" and "p \<in> set (st_publications st)"
  shows "\<exists>v \<in> set (st_versions st). \<exists>w \<in> set (st_verdicts st). entitles w v \<and> cv_account v = pb_account p \<and>
    cv_case v = pb_case p \<and> cv_revision v = pb_case_revision p \<and> cv_content_hash v = pb_content_hash p \<and>
    canonical_payload_hash sha256 (JObj (pb_result_json p)) =
      canonical_payload_hash sha256 (JObj (cv_result_json v))"
  by (rule publication_inv_intent [OF assms])
    (fastforce simp: publication_of_def intent_ok_def intent_of_version_def)

definition publication_key :: "publication_row \<Rightarrow> uid \<times> uid \<times> string" where
  "publication_key p = (pb_account p, pb_case p, pb_content_hash p)"

lemma publication_inv_distinct:
  assumes inv: "publication_inv sha256 st"
  shows "distinct (map publication_key (st_publications st))"
proof -
  have "q = p" if pq: "p \<in> set (st_publications st)" "q \<in> set (st_publications st)"
      "publication_key q = publication_key p" for p q
  proof -
    obtain i where i: "i \<in> set (st_intents st)" "publication_of sha256 p i" "intent_ok sha256 st i"
      by (rule publication_inv_intent [OF inv pq(1)])
    obtain j where j: "j \<in> set (st_intents st)" "publication_of sha256 q j" "intent_ok sha256 st j"
      by (rule publication_inv_intent [OF inv pq(2)])
    have "(ai_account j, ai_action_key j) = (ai_account i, ai_action_key i)"
      using i j pq(3) by (simp add: publication_of_def intent_ok_def publication_key_def)
    then have "j = i" using inv i(1) j(1) by (auto simp: publication_inv_def distinct_map dest: inj_onD)
    then have "pb_intent q = pb_intent p" using i j by (simp add: publication_of_def)
    then show ?thesis using inv pq(1,2) by (auto simp: publication_inv_def distinct_map dest: inj_onD)
  qed
  moreover have "distinct (st_publications st)" using inv by (auto simp: publication_inv_def distinct_map)
  ultimately show ?thesis unfolding distinct_map inj_on_def by blast
qed

interpretation publication: step_invariant "publication_step sha256" "publication_inv sha256"
  by unfold_locales (rule publication_step_keeps)

end
