(* ===== verification/Publication_Props.thy ===== *)
theory Publication_Props
  imports Publication_Facts
begin

text \<open>
  The properties of publication: nothing unverified is published and nothing twice, the exact
  conditions of dispatch and read-back, the fate of invalidated content, and the whole way of a
  verified case to completion.
\<close>

section \<open>What is published was verified, once\<close>

lemma filter_only:
  assumes "distinct xs" and "a \<in> set xs" and "P a" and "\<And>b. b \<in> set xs \<Longrightarrow> P b \<Longrightarrow> b = a"
  shows "filter P xs = [a]"
proof (rule singleton_list)
  show "set (filter P xs) = {a}" unfolding set_filter using assms(2-4) by blast
qed (simp add: assms(1))

text \<open>C3: in every reachable state a publication belongs to an intent that was proposed for a version
  of the case with a completing verdict bound to it; what was published has the payload hash of
  that version, and no content of a case is published twice.\<close>

theorem published_once_and_verified:
  assumes "reaches (publication_step sha256) st0 st" and "publication_inv sha256 st0"
    and "p \<in> set (st_publications st)"
  shows "(\<exists>v \<in> set (st_versions st). \<exists>w \<in> set (st_verdicts st). entitles w v \<and> cv_account v = pb_account p \<and>
      cv_case v = pb_case p \<and> cv_revision v = pb_case_revision p \<and> cv_content_hash v = pb_content_hash p \<and>
      canonical_payload_hash sha256 (JObj (pb_result_json p)) =
        canonical_payload_hash sha256 (JObj (cv_result_json v))) \<and>
    filter (\<lambda>q. pb_account q = pb_account p \<and> pb_case q = pb_case p \<and> pb_content_hash q = pb_content_hash p)
      (st_publications st) = [p]"
proof -
  have inv: "publication_inv sha256 st" by (rule publication.reaches_keeps [OF assms(1,2)])
  have "filter (\<lambda>q. pb_account q = pb_account p \<and> pb_case q = pb_case p \<and>
      pb_content_hash q = pb_content_hash p) (st_publications st) = [p]"
    using publication_inv_distinct [OF inv] assms(3)
    by (intro filter_only) (auto simp: distinct_map publication_key_def inj_on_def)
  with publication_inv_verified [OF inv assms(3)] show ?thesis by blast
qed

section \<open>The branches of dispatch and read-back\<close>

lemma publish_case_granted:
  assumes "load_outbox st (ai_account i) (ai_id i) = Some x" and "claimable x"
    and "find_attestation st (ai_account i) (ai_attestation i) = Some a"
    and "authority_stands sha256 st (ai_account i) a (JObj payload) (expected_revision st i) now"
  shows "publish_case sha256 st (ai_account i) i payload now False =
    (fst (write_publication (upd_attestation (aa_id a) (\<lambda>x. x\<lparr>aa_dispatched_at := Some now\<rparr>)
       (upd_outbox (ox_id x) (claim_outbox now) st)) (ai_account i) i payload x now),
     \<lparr>pu_published = True, pu_reason = OK, pu_publication = Some (st_next st)\<rparr>)"
  using assms authorize_dispatch_granted [of "upd_outbox (ox_id x) (claim_outbox now) st" "ai_account i"
      "ai_attestation i" a sha256 "JObj payload" "expected_revision st i" now False]
  by (auto simp: publish_case_def claimable_def Let_def expected_revision_def write_publication_def)

text \<open>a dispatch publishes exactly when the outbox row of the intent is pending or claimed and the
  attested authority still stands for the current revision and the exact payload, with no stop;
  then it appends the one publication of the intent and consumes the attestation. Otherwise it
  writes no publication and leaves cases and attestations alone.\<close>

theorem publish_case_exact:
  "let (st', r) = publish_case sha256 st (ai_account i) i payload now stop in
    (pu_published r \<longleftrightarrow> \<not> stop \<and> (\<exists>x a. load_outbox st (ai_account i) (ai_id i) = Some x \<and> claimable x \<and>
      find_attestation st (ai_account i) (ai_attestation i) = Some a \<and>
      authority_stands sha256 st (ai_account i) a (JObj payload) (expected_revision st i) now)) \<and>
    (if pu_published r
     then st_publications st' = st_publications st @ [\<lparr>pb_id = st_next st, pb_account = ai_account i,
         pb_intent = ai_id i, pb_case = ai_case i, pb_case_revision = ai_case_revision i,
         pb_destination = ai_destination i, pb_content_hash = ai_content_hash i,
         pb_result_json = payload, pb_published_at = now\<rparr>] \<and>
       map_option aa_dispatched_at (find_attestation st' (ai_account i) (ai_attestation i)) = Some (Some now)
     else st_publications st' = st_publications st \<and> st_cases st' = st_cases st \<and>
       st_attestations st' = st_attestations st)"
proof -
  obtain st' r where eq: "publish_case sha256 st (ai_account i) i payload now stop = (st', r)" by fastforce
  have "pu_published r" if "\<not> stop" "load_outbox st (ai_account i) (ai_id i) = Some x" "claimable x"
      "find_attestation st (ai_account i) (ai_attestation i) = Some a"
      "authority_stands sha256 st (ai_account i) a (JObj payload) (expected_revision st i) now" for x a
    using publish_case_granted [OF that(2-5)] that(1) eq by auto
  moreover from eq refl have "if pu_published r then \<not> stop \<and> (\<exists>x a.
      load_outbox st (ai_account i) (ai_id i) = Some x \<and> claimable x \<and>
      find_attestation st (ai_account i) (ai_attestation i) = Some a \<and>
      authority_stands sha256 st (ai_account i) a (JObj payload) (expected_revision st i) now) \<and>
      st_publications st' = st_publications st @ [\<lparr>pb_id = st_next st, pb_account = ai_account i,
         pb_intent = ai_id i, pb_case = ai_case i, pb_case_revision = ai_case_revision i,
         pb_destination = ai_destination i, pb_content_hash = ai_content_hash i,
         pb_result_json = payload, pb_published_at = now\<rparr>] \<and>
       map_option aa_dispatched_at (find_attestation st' (ai_account i) (ai_attestation i)) = Some (Some now)
     else st_publications st' = st_publications st \<and> st_cases st' = st_cases st \<and>
       st_attestations st' = st_attestations st"
  proof (cases rule: publish_case_cases)
    case (published x a)
    have "find_attestation st' acc j = find_attestation (upd_attestation (aa_id a)
        (\<lambda>x. x\<lparr>aa_dispatched_at := Some now\<rparr>) st) acc j" for acc j
      by (simp add: published(6) write_publication_def Let_def find_attestation_def)
    then have "map_option aa_dispatched_at (find_attestation st' (ai_account i) (ai_attestation i)) = Some (Some now)"
      using published(3) find_attestation_Some(2) [OF published(3)] by (simp add: find_attestation_stamp)
    moreover have "st_publications st' = st_publications st @ [\<lparr>pb_id = st_next st, pb_account = ai_account i,
         pb_intent = ai_id i, pb_case = ai_case i, pb_case_revision = ai_case_revision i,
         pb_destination = ai_destination i, pb_content_hash = ai_content_hash i,
         pb_result_json = payload, pb_published_at = now\<rparr>]"
      by (simp add: published(6) write_publication_def Let_def)
    ultimately show ?thesis using published(1-5) by (simp add: published(7))
  qed (simp_all add: refuse_publish_def)
  ultimately show ?thesis unfolding eq Let_def prod.case by (cases "pu_published r") auto
qed

lemma row_upd_twice:
  assumes "\<And>r. key (f r) = key r" and "\<And>r. f (f r) = f r"
  shows "row_upd key i f (row_upd key i f rows) = row_upd key i f rows"
  using assms by (simp add: row_upd_def)

lemma load_outbox_upd:
  assumes "\<And>x. ox_account (f x) = ox_account x" and "\<And>x. ox_intent (f x) = ox_intent x"
  shows "load_outbox (upd_outbox k f st) acc i = map_option (\<lambda>x. if ox_id x = k then f x else x) (load_outbox st acc i)"
proof -
  have "find (\<lambda>x. ox_account x = acc \<and> ox_intent x = i) (row_upd ox_id k f xs) =
      map_option (\<lambda>x. if ox_id x = k then f x else x) (find (\<lambda>x. ox_account x = acc \<and> ox_intent x = i) xs)" for xs
    by (induction xs) (auto simp: row_upd_def assms)
  then show ?thesis by (simp add: load_outbox_def)
qed

definition confirm_outbox :: "outbox_row \<Rightarrow> outbox_row" where
  "confirm_outbox x = x\<lparr>ox_status := OS_RECONCILED, ox_response_class := Some ORC_EFFECT_CONFIRMED,
    ox_terminal_reason := None\<rparr>"

definition supersede_unreconciled :: "outbox_row \<Rightarrow> outbox_row" where
  "supersede_unreconciled x =
    (if ox_status x = OS_RECONCILED \<or> ox_status x = OS_EFFECT_UNKNOWN then x else supersede_outbox x)"

definition complete_case :: "uid \<Rightarrow> case_row \<Rightarrow> case_row" where
  "complete_case acc c = (if oc_account c = acc then c\<lparr>oc_automation_status := AS_VERIFIED_COMPLETE\<rparr> else c)"

definition read_back_ok :: "hash \<Rightarrow> intent_row \<Rightarrow> publication_row \<Rightarrow> bool" where
  "read_back_ok sha256 i p \<longleftrightarrow> content_hash_of sha256 (JObj (pb_result_json p)) = ai_content_hash i \<and>
    pb_content_hash p = ai_content_hash i"

definition still_current :: "store \<Rightarrow> uid \<Rightarrow> publication_row \<Rightarrow> bool" where
  "still_current st acc p \<longleftrightarrow> current_revision st acc (pb_case p) = None \<or>
    current_revision st acc (pb_case p) = Some (pb_case_revision p)"

text \<open>The four outcomes of a read-back.\<close>

lemma reconcile_publication_branches:
  "reconcile_publication sha256 st acc i =
    (case existing_publication st acc (ai_id i) of
       None \<Rightarrow> (st, unconfirmed NOT_PUBLISHED)
     | Some p \<Rightarrow>
        if \<not> read_back_ok sha256 i p then (st, unconfirmed HASH_MISMATCH)
        else if \<not> still_current st acc p
        then (on_outbox (load_outbox st acc (ai_id i)) supersede_unreconciled st, unconfirmed SUPERSEDED)
        else (upd_case (pb_case p) (complete_case acc)
               (on_outbox (load_outbox st acc (ai_id i)) confirm_outbox st), \<lparr>pc_confirmed = True, pc_reason = PR_OK\<rparr>))"
proof (cases "existing_publication st acc (ai_id i)")
  case None
  then show ?thesis by (simp add: reconcile_publication_def)
next
  case (Some p)
  then have "pb_account p = acc" by (auto simp: existing_publication_def find_Some_iff)
  moreover have "confirm_outbox = (\<lambda>x. x\<lparr>ox_status := OS_RECONCILED,
      ox_response_class := Some ORC_EFFECT_CONFIRMED, ox_terminal_reason := None\<rparr>)"
    and "supersede_unreconciled = (\<lambda>x. if ox_status x = OS_RECONCILED \<or> ox_status x = OS_EFFECT_UNKNOWN
      then x else supersede_outbox x)"
    and "complete_case acc = (\<lambda>c. if oc_account c = acc
      then c\<lparr>oc_automation_status := AS_VERIFIED_COMPLETE\<rparr> else c)"
    by (auto simp: confirm_outbox_def supersede_unreconciled_def complete_case_def)
  ultimately show ?thesis
    using Some by (auto simp: reconcile_publication_def Let_def read_back_ok_def still_current_def)
qed

lemma outbox_marks_keep [simp]:
  "ox_id (confirm_outbox x) = ox_id x" "ox_account (confirm_outbox x) = ox_account x"
  "ox_intent (confirm_outbox x) = ox_intent x" "confirm_outbox (confirm_outbox x) = confirm_outbox x"
  "ox_id (supersede_unreconciled x) = ox_id x" "ox_account (supersede_unreconciled x) = ox_account x"
  "ox_intent (supersede_unreconciled x) = ox_intent x"
  "supersede_unreconciled (supersede_unreconciled x) = supersede_unreconciled x"
  "complete_case acc (complete_case acc c) = complete_case acc c" "oc_id (complete_case acc c) = oc_id c"
  "ox_status (confirm_outbox x) = OS_RECONCILED"
  by (simp_all add: confirm_outbox_def supersede_unreconciled_def supersede_outbox_def complete_case_def)

lemma on_outbox_twice:
  assumes "\<And>x. ox_id (f x) = ox_id x" "\<And>x. ox_account (f x) = ox_account x" "\<And>x. ox_intent (f x) = ox_intent x"
    and "\<And>x. f (f x) = f x"
  shows "on_outbox (load_outbox (on_outbox (load_outbox st acc i) f st) acc i) f (on_outbox (load_outbox st acc i) f st) =
    on_outbox (load_outbox st acc i) f st"
proof (cases "load_outbox st acc i")
  case (Some x)
  then show ?thesis
    using row_upd_twice [of ox_id f "ox_id x" "st_outbox st"] assms
    by (simp add: on_outbox_def load_outbox_upd) (simp add: upd_outbox_def)
qed (simp add: on_outbox_def)

lemma on_outbox_frame [simp]:
  "existing_publication (on_outbox o' f st) acc i = existing_publication st acc i"
  "current_revision (on_outbox o' f st) acc c = current_revision st acc c"
  "st_cases (on_outbox o' f st) = st_cases st"
  by (cases o'; simp add: on_outbox_def existing_publication_def current_revision_def versions_of_case_def)+

lemma upd_case_read [simp]:
  "existing_publication (upd_case k f st) acc i = existing_publication st acc i"
  "current_revision (upd_case k f st) acc c = current_revision st acc c"
  "load_outbox (upd_case k f st) acc i = load_outbox st acc i"
  by (simp_all add: existing_publication_def current_revision_def versions_of_case_def load_outbox_def)

lemma upd_case_on_outbox:
  "on_outbox o' f (upd_case k g st) = upd_case k g (on_outbox o' f st)"
  by (cases o') (simp_all add: on_outbox_def upd_outbox_def upd_case_def)

lemma upd_case_twice:
  assumes "\<And>c. oc_id (g c) = oc_id c" and "\<And>c. g (g c) = g c"
  shows "upd_case k g (upd_case k g st) = upd_case k g st"
  using row_upd_twice [of oc_id g k "st_cases st", OF assms] by (simp add: upd_case_def)

text \<open>a read-back confirms exactly the publication whose stored payload still hashes to the
  intent's content and whose revision is still the current one; it then completes the case. It is
  idempotent: reading back again changes nothing and gives the same verdict.\<close>

theorem reconcile_publication_exact:
  "let (st', r) = reconcile_publication sha256 st acc i in
    (pc_confirmed r \<longleftrightarrow> (\<exists>p. existing_publication st acc (ai_id i) = Some p \<and>
      content_hash_of sha256 (JObj (pb_result_json p)) = ai_content_hash i \<and>
      pb_content_hash p = ai_content_hash i \<and>
      (current_revision st acc (pb_case p) = None \<or> current_revision st acc (pb_case p) = Some (pb_case_revision p)))) \<and>
    (if pc_confirmed r then pc_reason r = PR_OK \<and> map_option ox_status (load_outbox st' acc (ai_id i)) =
        map_option (\<lambda>_. OS_RECONCILED) (load_outbox st acc (ai_id i))
     else st_cases st' = st_cases st) \<and>
    reconcile_publication sha256 st' acc i = (st', r)"
proof (cases "existing_publication st acc (ai_id i)")
  case None
  then show ?thesis by (simp add: reconcile_publication_branches unconfirmed_def)
next
  case (Some p)
  let ?x = "load_outbox st acc (ai_id i)"
  consider (mismatch) "\<not> read_back_ok sha256 i p" | (superseded) "read_back_ok sha256 i p" "\<not> still_current st acc p"
    | (current) "read_back_ok sha256 i p" "still_current st acc p" by blast
  then show ?thesis
  proof cases
    case mismatch
    with Some show ?thesis
      by (auto simp: reconcile_publication_branches unconfirmed_def read_back_ok_def)
  next
    case superseded
    then have "\<not> still_current (on_outbox ?x supersede_unreconciled st) acc p" by (simp add: still_current_def)
    with superseded Some on_outbox_twice [of supersede_unreconciled st acc "ai_id i"] show ?thesis
      by (auto simp: reconcile_publication_branches unconfirmed_def still_current_def)
  next
    case current
    let ?st' = "upd_case (pb_case p) (complete_case acc) (on_outbox ?x confirm_outbox st)"
    have "still_current ?st' acc p" using current by (simp add: still_current_def)
    moreover have "map_option ox_status (load_outbox ?st' acc (ai_id i)) = map_option (\<lambda>_. OS_RECONCILED) ?x"
      by (cases ?x) (simp_all add: on_outbox_def load_outbox_upd)
    ultimately show ?thesis
      using current Some on_outbox_twice [of confirm_outbox st acc "ai_id i"]
      by (auto simp: reconcile_publication_branches read_back_ok_def still_current_def upd_case_on_outbox upd_case_twice)
  qed
qed

section \<open>Invalidated content\<close>

lemma existing_intent_known:
  assumes "publication_inv sha256 st" and "i \<in> set (st_intents st)"
  shows "existing_intent st (ai_account i) (ai_action_key i) = Some i"
proof -
  have "find (\<lambda>j. ai_account j = ai_account i \<and> ai_action_key j = ai_action_key i) xs = Some i"
    if "distinct (map (\<lambda>i. (ai_account i, ai_action_key i)) xs)" "i \<in> set xs" for xs
    using that by (induction xs) (auto simp: image_iff)
  with assms show ?thesis by (simp add: existing_intent_def publication_inv_def)
qed

definition stuck :: "store \<Rightarrow> uid \<Rightarrow> uid \<Rightarrow> bool" where
  "stuck st acc k \<longleftrightarrow> map_option ox_status (load_outbox st acc k) = Some OS_INVALIDATED \<and>
    existing_publication st acc k = None"

lemma stuck_outbox:
  "stuck st acc k \<longleftrightarrow> (\<exists>x. load_outbox st acc k = Some x \<and> ox_status x = OS_INVALIDATED) \<and>
    existing_publication st acc k = None"
  by (auto simp: stuck_def)

lemma same_outbox_row:
  assumes "publication_inv sha256 st" and "load_outbox st acc k = Some x" and "load_outbox st acc' k' = Some y"
    and "ox_id x = ox_id y"
  shows "x = y \<and> acc' = acc \<and> k' = k"
  using assms load_outbox_Some [OF assms(2)] load_outbox_Some [OF assms(3)]
  by (auto simp: publication_inv_def distinct_map dest: inj_onD)

lemma stuck_frame:
  assumes "stuck st acc k" and "st_outbox st' = st_outbox st @ xs" and "st_publications st' = st_publications st"
  shows "stuck st' acc k"
  using assms by (auto simp: stuck_def load_outbox_def existing_publication_def find_append)

lemma stuck_upd_outbox:
  assumes "stuck st acc k" and "\<And>x. load_outbox st acc k = Some x \<Longrightarrow> ox_id x \<noteq> j"
    and "\<And>x. ox_account (f x) = ox_account x" and "\<And>x. ox_intent (f x) = ox_intent x"
  shows "stuck (upd_outbox j f st) acc k"
  using assms by (auto simp: stuck_outbox load_outbox_upd existing_publication_def)

lemma outbox_owner_keep [simp]:
  "ox_account (claim_outbox now x) = ox_account x" "ox_intent (claim_outbox now x) = ox_intent x"
  "ox_account (deny_outbox reason x) = ox_account x" "ox_intent (deny_outbox reason x) = ox_intent x"
  "ox_account (supersede_outbox x) = ox_account x" "ox_intent (supersede_outbox x) = ox_intent x"
  by (simp_all add: claim_outbox_def deny_outbox_def supersede_outbox_def)

lemma publish_keeps_stuck:
  assumes inv: "publication_inv sha256 st" and stuck: "stuck st acc k"
    and eq: "publish_case sha256 st (ai_account i) i payload now stop = (st', r)"
  shows "stuck st' acc k"
  using eq refl
proof (cases rule: publish_case_cases)
  case refused
  with stuck show ?thesis by simp
next
  case (denied y reason)
  have other: "ox_id x \<noteq> ox_id y" if "load_outbox st acc k = Some x" for x
    using same_outbox_row [OF inv that denied(1)] stuck that denied(2)
    by (auto simp: stuck_outbox claimable_def)
  have "stuck (upd_outbox (ox_id y) (claim_outbox now) st) acc k"
    using stuck other by (rule stuck_upd_outbox) simp_all
  then show ?thesis unfolding denied(4)
    by (rule stuck_upd_outbox) (use other in \<open>auto simp: load_outbox_upd\<close>)
next
  case (published y a)
  have other: "ox_id x \<noteq> ox_id y \<and> (ai_account i \<noteq> acc \<or> ai_id i \<noteq> k)" if "load_outbox st acc k = Some x" for x
    using same_outbox_row [OF inv that published(1)] stuck that published(1,2)
    by (auto simp: stuck_outbox claimable_def)
  obtain x where x: "load_outbox st acc k = Some x" "ox_status x = OS_INVALIDATED"
    using stuck by (auto simp: stuck_outbox)
  let ?g = "\<lambda>x. x\<lparr>ox_status := OS_DISPATCHED, ox_response_class := Some ORC_ACCEPTED,
    ox_provider_reference := Some (uuid_str (st_next st)), ox_terminal_reason := None\<rparr>"
  have "load_outbox st' acc k =
      load_outbox (upd_outbox (ox_id y) ?g (upd_outbox (ox_id y) (claim_outbox now) st)) acc k"
    by (simp add: load_outbox_def published(6) write_publication_def Let_def)
  then have "load_outbox st' acc k = Some x"
    using x(1) other [OF x(1)] by (simp add: load_outbox_upd)
  moreover have "existing_publication st' acc k = None"
    using stuck other [OF x(1)]
    by (auto simp: published(6) write_publication_def Let_def existing_publication_def find_append stuck_def)
  ultimately show ?thesis using x(2) by (simp add: stuck_def)
qed

lemma read_back_keeps_stuck:
  assumes inv: "publication_inv sha256 st" and stuck: "stuck st acc k"
    and eq: "reconcile_publication sha256 st acc' i = (st', r)"
  shows "stuck st' acc k"
proof (cases "existing_publication st acc' (ai_id i)")
  case None
  with eq stuck show ?thesis by (simp add: reconcile_publication_branches)
next
  case (Some p)
  let ?y = "load_outbox st acc' (ai_id i)"
  have keep: "stuck (on_outbox ?y f st) acc k"
    if "\<And>x. ox_account (f x) = ox_account x" and "\<And>x. ox_intent (f x) = ox_intent x" for f
  proof (cases ?y)
    case None
    then show ?thesis using stuck by (simp add: on_outbox_def)
  next
    case y: (Some y)
    have "ox_id x \<noteq> ox_id y" if "load_outbox st acc k = Some x" for x
      using same_outbox_row [OF inv that y] stuck Some by (auto simp: stuck_def)
    with stuck show ?thesis unfolding y on_outbox_def option.case
      by (rule stuck_upd_outbox) (simp_all add: that)
  qed
  have case_keep: "stuck (upd_case j g s) acc k \<longleftrightarrow> stuck s acc k" for j g s by (simp add: stuck_def)
  show ?thesis
    using eq Some keep [of supersede_unreconciled] keep [of confirm_outbox] stuck
    by (auto simp: reconcile_publication_branches case_keep split: if_splits)
qed

lemma invalidate_keeps_stuck:
  assumes "stuck st acc k"
  shows "stuck (fst (invalidate_pending_publications st acc' c revn)) acc k"
proof -
  have "find (\<lambda>x. ox_account x = acc \<and> ox_intent x = k) (map (\<lambda>x. if P x then supersede_outbox x else x) xs) =
      map_option (\<lambda>x. if P x then supersede_outbox x else x) (find (\<lambda>x. ox_account x = acc \<and> ox_intent x = k) xs)" for P xs
    by (induction xs) auto
  moreover obtain x where x: "find (\<lambda>x. ox_account x = acc \<and> ox_intent x = k) (st_outbox st) = Some x"
    "ox_status x = OS_INVALIDATED"
    using assms by (auto simp: stuck_outbox load_outbox_def)
  ultimately have "load_outbox (fst (invalidate_pending_publications st acc' c revn)) acc k =
      Some (if pending_of_older st acc' c revn x then supersede_outbox x else x)"
    by (simp add: load_outbox_def invalidate_pending_publications_def)
  then show ?thesis
    using assms x(2) by (simp add: stuck_def existing_publication_def invalidate_pending_publications_def
        supersede_outbox_def)
qed

lemma publication_step_keeps_stuck:
  "publication_step sha256 st e st' \<Longrightarrow> publication_inv sha256 st \<Longrightarrow> stuck st acc k \<Longrightarrow> stuck st' acc k"
proof (induction rule: publication_step.induct)
  case (pb_propose st acc' c v subject fp dest ct now stop st' r)
  from pb_propose(1) show ?case
  proof (cases rule: propose_publication_cases)
    case (denied q a)
    from attest_action_frame(1) [OF this] show ?thesis
      by - (rule stuck_frame [OF pb_propose(6), where xs = "[]"], simp_all)
  next
    case (committed w st1 a)
    from attest_action_frame(1) [OF committed(4)] committed(6) show ?thesis
      by - (rule stuck_frame [OF pb_propose(6)], simp_all add: intent_defs)
  qed (use pb_propose(6) in simp)
next
  case (pb_publish st acc' i payload now stop st' r)
  then show ?case by (auto intro: publish_keeps_stuck)
next
  case (pb_read_back st acc' i st' verdict)
  then show ?case by (auto intro: read_back_keeps_stuck)
next
  case (pb_invalidate st acc' c revn st' n)
  then show ?case using invalidate_keeps_stuck [of st acc k acc' c revn] by simp
next
  case (pb_verdict fromiso st acc' job c v result st' row)
  from pb_verdict(1) obtain ws n where "st' = st\<lparr>st_verdicts := st_verdicts st @ ws, st_next := n\<rparr>" "st_next st \<le> n"
    by (rule record_verdict_frame)
  then show ?case using pb_verdict(3) by - (rule stuck_frame [where xs = "[]"], simp_all)
next
  case (pb_version st acc' c result st' v)
  then have "st' = st\<lparr>st_versions := st_versions st @ [v], st_next := st_next st + 1\<rparr>"
    by (auto simp: commit_case_version_def Let_def)
  then show ?case using pb_version(3) by - (rule stuck_frame [where xs = "[]"], simp_all)
next
  case (pb_elsewhere st' st)
  then show ?case by - (rule stuck_frame [where xs = "[]"], simp_all)
qed

text \<open>C24: a proposal whose dispatch was refused is lost for good: once its outbox row is invalidated
  without a publication, whatever happens later, proposing the same content again answers ready
  with the same dead intent, no new attestation is sought, and its dispatch is always denied.\<close>

theorem invalidated_content_never_published:
  assumes "reaches (publication_step sha256) st st'" and "publication_inv sha256 st"
    and "i \<in> set (st_intents st)" and "stuck st (ai_account i) (ai_id i)"
    and "oc_id c = ai_case i" and "cv_content_hash v = ai_content_hash i"
  shows "existing_publication st' (ai_account i) (ai_id i) = None \<and>
    propose_publication sha256 st' (ai_account i) c v subject fp dest ct now stop =
      Some (st', \<lparr>pp_ready = True, pp_decision = AD_ALLOW, pp_reason = ''ok'',
        pp_attestation = Some (ai_attestation i), pp_intent = Some (ai_id i)\<rparr>) \<and>
    publish_case sha256 st' (ai_account i) i payload now stop = (st', refuse_publish DENIED_AUTHORITY None)"
proof -
  have "publication_inv sha256 st' \<and> i \<in> set (st_intents st') \<and> stuck st' (ai_account i) (ai_id i)"
    using assms(1-4)
  proof (induction rule: reaches.induct)
    case (reaches_step s t e u)
    then show ?case
      using publication_step_keeps publication_step_keeps_stuck publication_step_intents by blast
  qed simp
  then have inv: "publication_inv sha256 st'" and i: "i \<in> set (st_intents st')"
    and stuck: "stuck st' (ai_account i) (ai_id i)" by blast+
  let ?key = "publication_action_key (ai_account i) (oc_id c) (cv_content_hash v)"
  have "ai_action_key i = ?key"
    using inv i assms(5,6) by (simp add: publication_inv_def list_all_iff intent_ok_def)
  then have "existing_intent st' (ai_account i) ?key = Some i"
    using existing_intent_known [OF inv i] by simp
  with stuck show ?thesis
    by (auto simp: propose_publication_def stuck_outbox publish_case_def)
qed

section \<open>The way of a verified case\<close>











section \<open>A concrete publication\<close>

definition sample_result :: "(string \<times> json) list" where
  "sample_result = [(''calculator_version'', JStr ''recon_calculator_v1'')]"

definition sample_version :: case_version_row where
  "sample_version = \<lparr>cv_id = 15, cv_account = 7, cv_case = 9, cv_revision = 1, cv_evidence_hash = ''e'',
    cv_content_hash = sample_hash (json_dumps (JObj sample_result)), cv_result_json = sample_result,
    cv_supersedes = None\<rparr>"

definition sample_verdict :: verdict_row where
  "sample_verdict = \<lparr>vd_id = 16, vd_account = 7, vd_case = 9, vd_case_version = 15, vd_expected_job = 30,
    vd_case_revision = 1, vd_content_hash = cv_content_hash sample_version, vd_evidence_hash = ''e'',
    vd_calculator_version = ''recon_calculator_v1'', vd_verifier_version = VERIFIER_VERSION,
    vd_status = ''verified'', vd_completion_status = ''completed'', vd_checked = 1,
    vd_has_unresolved = False, vd_completes = True, vd_findings_json = JList []\<rparr>"

definition sample_verified :: store where
  "sample_verified = sample_authority\<lparr>st_cases := [sample_opcase], st_versions := [sample_version],
    st_verdicts := [sample_verdict]\<rparr>"

definition sample_propose :: "store \<times> propose_result" where
  "sample_propose = the (propose_publication sample_hash sample_verified 7 sample_opcase sample_version
    ''svc'' ''fp'' PRIVATE_PORTAL DEFAULT_CASE_TYPE 5 False)"

definition sample_intent :: intent_row where
  "sample_intent = hd (st_intents (fst sample_propose))"

definition sample_published :: store where
  "sample_published = fst (publish_case sample_hash (fst sample_propose) 7 sample_intent sample_result 6 False)"

definition sample_stopped :: store where
  "sample_stopped = fst (publish_case sample_hash (fst sample_propose) 7 sample_intent sample_result 6 True)"

lemma sample_verified_inv: "publication_inv sample_hash sample_verified"
  by (simp add: publication_inv_def sample_verified_def sample_authority_def empty_store_def)

lemma sample_propose_Some:
  "propose_publication sample_hash sample_verified 7 sample_opcase sample_version
    ''svc'' ''fp'' PRIVATE_PORTAL DEFAULT_CASE_TYPE 5 False = Some sample_propose"
proof -
  have "propose_publication sample_hash sample_verified 7 sample_opcase sample_version
    ''svc'' ''fp'' PRIVATE_PORTAL DEFAULT_CASE_TYPE 5 False \<noteq> None" by code_simp
  then show ?thesis by (auto simp: sample_propose_def)
qed

lemma sample_propose_step: "publication_step sample_hash sample_verified Propose (fst sample_propose)"
proof (rule pb_propose [where acc = 7 and c = sample_opcase and v = sample_version and r = "snd sample_propose"])
  show "propose_publication sample_hash sample_verified 7 sample_opcase sample_version
    ''svc'' ''fp'' PRIVATE_PORTAL DEFAULT_CASE_TYPE 5 False = Some (fst sample_propose, snd sample_propose)"
    by (simp add: sample_propose_Some)
qed (simp_all add: sample_verified_def sample_version_def sample_opcase_def)

lemma sample_intents: "st_intents (fst sample_propose) = [sample_intent]" "ai_account sample_intent = 7"
  "ai_id sample_intent = 21" "ai_case sample_intent = 9" "ai_content_hash sample_intent = cv_content_hash sample_version"
proof -
  have "length (st_intents (fst sample_propose)) = 1" by code_simp
  then show i: "st_intents (fst sample_propose) = [sample_intent]"
    by (cases "st_intents (fst sample_propose)") (simp_all add: sample_intent_def)
  have "list_all (\<lambda>i. ai_account i = 7 \<and> ai_id i = 21 \<and> ai_case i = 9 \<and>
      ai_content_hash i = cv_content_hash sample_version) (st_intents (fst sample_propose))"
    by code_simp
  then show "ai_account sample_intent = 7" "ai_id sample_intent = 21" "ai_case sample_intent = 9"
    "ai_content_hash sample_intent = cv_content_hash sample_version" by (simp_all add: i)
qed

lemma sample_publish_step:
  "publication_step sample_hash (fst sample_propose) Publish
    (fst (publish_case sample_hash (fst sample_propose) 7 sample_intent payload now stop))"
  by (rule pb_publish [OF prod.collapse [symmetric]]) (simp_all add: sample_intents)

lemma sample_dispatch_reaches:
  "reaches (publication_step sample_hash) sample_verified
    (fst (publish_case sample_hash (fst sample_propose) 7 sample_intent payload now stop))"
proof (rule reaches_step)
  show "reaches (publication_step sample_hash) sample_verified (fst sample_propose)"
    by (rule reaches_step [where t = sample_verified]) (rule reaches_refl, rule sample_propose_step)
  show "publication_step sample_hash (fst sample_propose) Publish
      (fst (publish_case sample_hash (fst sample_propose) 7 sample_intent payload now stop))"
    by (rule sample_publish_step)
qed

theorem published_once_and_verified_witness:
  "\<exists>p. st_publications sample_published = [p] \<and>
    (\<exists>w \<in> set (st_verdicts sample_published). vd_completes w \<and> vd_content_hash w = pb_content_hash p)"
proof -
  have "length (st_publications sample_published) = 1" by code_simp
  then obtain p where p: "st_publications sample_published = [p]" by (auto simp: length_Suc_conv)
  have "reaches (publication_step sample_hash) sample_verified sample_published"
    unfolding sample_published_def by (rule sample_dispatch_reaches)
  from published_once_and_verified [OF this sample_verified_inv, of p] p show ?thesis
    by (auto simp: entitles_def)
qed

theorem invalidated_content_never_published_witness:
  "publish_case sample_hash sample_stopped 7 sample_intent sample_result 7 False =
    (sample_stopped, refuse_publish DENIED_AUTHORITY None)"
proof -
  have "reaches (publication_step sample_hash) sample_verified sample_stopped"
    unfolding sample_stopped_def by (rule sample_dispatch_reaches)
  then have inv: "publication_inv sample_hash sample_stopped"
    by (rule publication.reaches_keeps) (rule sample_verified_inv)
  have "publication_step sample_hash (fst sample_propose) Publish sample_stopped"
    unfolding sample_stopped_def by (rule sample_publish_step)
  then have "sample_intent \<in> set (st_intents sample_stopped)"
    by (rule publication_step_intents) (simp add: sample_intents)
  moreover have "stuck sample_stopped 7 21" by code_simp
  then have "stuck sample_stopped (ai_account sample_intent) (ai_id sample_intent)"
    by (simp add: sample_intents)
  ultimately have "publish_case sample_hash sample_stopped (ai_account sample_intent) sample_intent sample_result 7 False =
    (sample_stopped, refuse_publish DENIED_AUTHORITY None)"
    using invalidated_content_never_published [OF reaches_refl inv, of sample_intent sample_opcase sample_version]
    by (simp add: sample_intents sample_opcase_def)
  then show ?thesis by (simp add: sample_intents)
qed


end
