(* ===== verification/Dispatch.thy ===== *)
theory Dispatch
  imports Runtime Publication
begin

text \<open>
  The dispatcher (\<open>packages/pipeline/eastmed_pipeline/reconciliation_dispatch.py\<close>): one pass puts
  every validated case into a workflow and drives due tasks through the two stages. An exception
  (a case that cannot be computed, a \<open>ValueError\<close> of the attestation, a failed assertion) is a
  value; it leaves no store, since the caller rolls its transaction back.
\<close>

section \<open>Data\<close>

definition WORKFLOW_VERSION :: string where "WORKFLOW_VERSION = ''recon_wf_v1''"
definition DEFAULT_BUDGET_UNITS :: int where "DEFAULT_BUDGET_UNITS = 1000"
definition STAGE_ORDER :: "workflow_stage list" where "STAGE_ORDER = [WS_RECONCILE, WS_PUBLISH]"

datatype dispatch_result = DR_IDLE | DR_ADVANCED | DR_COMPLETED | DR_UNRESOLVED | DR_DEFERRED | DR_FENCED

primrec dispatch_result_value :: "dispatch_result \<Rightarrow> string" where
  "dispatch_result_value DR_IDLE = ''idle''"
| "dispatch_result_value DR_ADVANCED = ''advanced''"
| "dispatch_result_value DR_COMPLETED = ''completed''"
| "dispatch_result_value DR_UNRESOLVED = ''unresolved''"
| "dispatch_result_value DR_DEFERRED = ''deferred''"
| "dispatch_result_value DR_FENCED = ''fenced''"

record dispatch_step =
  ds_result :: dispatch_result
  ds_case :: "uid option"
  ds_stage :: "workflow_stage option"
  ds_detail :: "string option"

record pass_summary =
  ps_scheduled :: nat
  ps_steps :: "dispatch_step list"

definition pass_completed :: "pass_summary \<Rightarrow> nat" where
  "pass_completed s = length (filter (\<lambda>x. ds_result x = DR_COMPLETED) (ps_steps s))"

definition pass_unresolved :: "pass_summary \<Rightarrow> nat" where
  "pass_unresolved s = length (filter (\<lambda>x. ds_result x = DR_UNRESOLVED) (ps_steps s))"

datatype dispatch_error = CaseFailed case_error | AttestationError | FailedAssertion

section \<open>Scheduling\<close>

definition has_run :: "store \<Rightarrow> uid \<Rightarrow> uid \<Rightarrow> bool" where
  "has_run st account_id case_id =
    list_ex (\<lambda>r. wr_account r = account_id \<and> wr_case r = case_id) (st_runs st)"

definition start_case_workflow ::
  "store \<Rightarrow> uid \<Rightarrow> case_row \<Rightarrow> string \<Rightarrow> int \<Rightarrow> string \<Rightarrow> instant \<Rightarrow> (store \<times> run_row) option" where
  "start_case_workflow st account_id opcase fingerprint budget_units workflow_version now =
    (if has_run st account_id (oc_id opcase) then None
     else
       (case create_run st account_id opcase workflow_version fingerprint budget_units (oc_deadline_at opcase) of
          (st1, run) \<Rightarrow> Some (fst (enqueue_task st1 account_id run WS_RECONCILE 0 None 3 now), run)))"

definition schedule_case ::
  "uid \<Rightarrow> string \<Rightarrow> int \<Rightarrow> string \<Rightarrow> instant \<Rightarrow> case_row \<Rightarrow> store \<times> nat \<Rightarrow> store \<times> nat" where
  "schedule_case account_id fingerprint budget_units workflow_version now opcase s =
    (case start_case_workflow (fst s) account_id opcase fingerprint budget_units workflow_version now of
       None \<Rightarrow> s
     | Some (st, run) \<Rightarrow>
         (upd_case (oc_id opcase) (\<lambda>c. c\<lparr>oc_automation_status := AS_RECEIVED\<rparr>) st, snd s + 1))"

definition ready_cases :: "store \<Rightarrow> uid \<Rightarrow> case_row list" where
  "ready_cases st account_id =
    filter (\<lambda>c. oc_account c = account_id \<and> oc_automation_status c = AS_VALIDATED) (st_cases st)"

definition enqueue_ready_cases ::
  "store \<Rightarrow> uid \<Rightarrow> string \<Rightarrow> int \<Rightarrow> string \<Rightarrow> instant \<Rightarrow> store \<times> nat" where
  "enqueue_ready_cases st account_id fingerprint budget_units workflow_version now =
    fold (schedule_case account_id fingerprint budget_units workflow_version now)
      (ready_cases st account_id) (st, 0)"

definition find_expected_job :: "store \<Rightarrow> uid \<Rightarrow> case_row \<Rightarrow> expected_job_row option" where
  "find_expected_job st account_id opcase =
    find (\<lambda>j. ej_account j = account_id \<and> ej_id j = oc_expected_job opcase) (st_jobs st)"

section \<open>The reconcile stage\<close>

definition version_for :: "store \<Rightarrow> uid \<Rightarrow> case_row \<Rightarrow> case_result \<Rightarrow> store \<times> case_version_row" where
  "version_for st account_id opcase result =
    (case find (\<lambda>v. cv_account v = account_id \<and> cv_case v = oc_id opcase \<and>
        cv_content_hash v = rs_content_hash result) (st_versions st) of
       Some existing \<Rightarrow> (st, existing)
     | None \<Rightarrow> commit_case_version st account_id opcase result)"

definition latest_version :: "store \<Rightarrow> uid \<Rightarrow> uid \<Rightarrow> case_version_row option" where
  "latest_version st account_id case_id = first_desc cv_revision (versions_of_case st account_id case_id)"

definition stage_step :: "dispatch_result \<Rightarrow> uid \<Rightarrow> workflow_stage \<Rightarrow> string option \<Rightarrow> dispatch_step" where
  "stage_step result case_id stage detail =
    \<lparr>ds_result = result, ds_case = Some case_id, ds_stage = Some stage, ds_detail = detail\<rparr>"

definition mark_case :: "case_row \<Rightarrow> automation_status \<Rightarrow> business_status \<Rightarrow> store \<Rightarrow> store" where
  "mark_case opcase automation business =
    upd_case (oc_id opcase) (\<lambda>c. c\<lparr>oc_automation_status := automation, oc_business_status := business\<rparr>)"

definition run_reconcile_stage ::
  "isoparser \<Rightarrow> hash \<Rightarrow> store \<Rightarrow> uid \<Rightarrow> task_claim \<Rightarrow> case_row \<Rightarrow> expected_job_row \<Rightarrow> instant \<Rightarrow>
    dispatch_error + (store \<times> dispatch_step)" where
  "run_reconcile_stage fromiso sha256 st account_id claim opcase job now =
    (case compute_case_result fromiso sha256 st account_id job of
       Inl e \<Rightarrow> Inl (CaseFailed e)
     | Inr result \<Rightarrow>
        (case version_for st account_id opcase result of (st1, version) \<Rightarrow>
        (case record_verification_verdict fromiso st1 account_id job opcase version result of
           Inl e \<Rightarrow> Inl (CaseFailed e)
         | Inr (st2, verdict) \<Rightarrow>
            if \<not> vd_completes verdict then
              (case commit_stage (mark_case opcase AS_WAITING_FOR_MACHINE_DATA BS_UNRESOLVED st2)
                  account_id claim now None None None of
                 None \<Rightarrow> Inl FailedAssertion
               | Some (st3, _) \<Rightarrow> Inr (st3, stage_step DR_UNRESOLVED (oc_id opcase) WS_RECONCILE None))
            else
              (case commit_stage (mark_case opcase AS_CALCULATED BS_VARIANCE_PRESENT st2)
                  account_id claim now (Some WS_PUBLISH) None None of
                 None \<Rightarrow> Inl FailedAssertion
               | Some (st3, outcome) \<Rightarrow> Inr (st3, stage_step
                   (if so_status outcome = CS_FENCED then DR_FENCED else DR_ADVANCED)
                   (oc_id opcase) WS_RECONCILE None)))))"

section \<open>The publish stage\<close>

definition run_publish_stage ::
  "hash \<Rightarrow> store \<Rightarrow> uid \<Rightarrow> task_claim \<Rightarrow> case_row \<Rightarrow> case_version_row \<Rightarrow> string \<Rightarrow> string \<Rightarrow> instant \<Rightarrow>
    dispatch_error + (store \<times> dispatch_step)" where
  "run_publish_stage sha256 st account_id claim opcase version subject fingerprint now =
    (case propose_publication sha256 st account_id opcase version subject fingerprint
        PRIVATE_PORTAL DEFAULT_CASE_TYPE now False of
       None \<Rightarrow> Inl AttestationError
     | Some (st1, proposed) \<Rightarrow>
        if \<not> pp_ready proposed \<or> pp_intent proposed = None then
          Inr (fst (fail_attempt st1 account_id claim (pp_reason proposed) now DEFAULT_BACKOFF),
            stage_step DR_DEFERRED (oc_id opcase) WS_PUBLISH (Some (pp_reason proposed)))
        else
          (case row_get ai_id (the (pp_intent proposed)) (st_intents st1) of
             None \<Rightarrow> Inl FailedAssertion
           | Some intent \<Rightarrow>
              (case publish_case sha256 st1 account_id intent (cv_result_json version) now False of
                 (st2, published) \<Rightarrow>
               (case (if pu_published published then reconcile_publication sha256 st2 account_id intent
                      else (st2, unconfirmed NOT_PUBLISHED)) of
                 (st3, verdict) \<Rightarrow>
                 (case commit_stage st3 account_id claim now None None None of
                    None \<Rightarrow> Inl FailedAssertion
                  | Some (st4, outcome) \<Rightarrow> Inr (st4,
                      if so_status outcome = CS_FENCED then
                        stage_step DR_FENCED (oc_id opcase) WS_PUBLISH None
                      else if pc_confirmed verdict then
                        stage_step DR_COMPLETED (oc_id opcase) WS_PUBLISH None
                      else stage_step DR_DEFERRED (oc_id opcase) WS_PUBLISH
                        (Some ''published but not yet confirmed'')))))))"

section \<open>One task\<close>

definition give_up ::
  "store \<Rightarrow> uid \<Rightarrow> task_claim \<Rightarrow> string \<Rightarrow> workflow_stage option \<Rightarrow> instant \<Rightarrow>
    dispatch_error + (store \<times> dispatch_step)" where
  "give_up st account_id claim reason stage now =
    Inr (fst (fail_attempt st account_id claim reason now DEFAULT_BACKOFF),
      \<lparr>ds_result = DR_DEFERRED, ds_case = None, ds_stage = stage, ds_detail = Some reason\<rparr>)"

definition execute_claim ::
  "isoparser \<Rightarrow> hash \<Rightarrow> store \<Rightarrow> uid \<Rightarrow> task_claim \<Rightarrow> string \<Rightarrow> string \<Rightarrow> instant \<Rightarrow>
    dispatch_error + (store \<times> dispatch_step)" where
  "execute_claim fromiso sha256 st account_id claim subject fingerprint now =
    (case row_get wr_id (tc_run_id claim) (st_runs st) of
       None \<Rightarrow> give_up st account_id claim ''missing_run'' None now
     | Some run \<Rightarrow>
        if wr_account run \<noteq> account_id then give_up st account_id claim ''missing_run'' None now
        else
        (case row_get oc_id (wr_case run) (st_cases st) of
           None \<Rightarrow> give_up st account_id claim ''missing_case'' None now
         | Some opcase \<Rightarrow>
            (case find_expected_job st account_id opcase of
               None \<Rightarrow> give_up st account_id claim ''missing_case'' None now
             | Some job \<Rightarrow>
                if tc_stage claim = WS_RECONCILE then
                  run_reconcile_stage fromiso sha256 st account_id claim opcase job now
                else if tc_stage claim = WS_PUBLISH then
                  (case latest_version st account_id (oc_id opcase) of
                     None \<Rightarrow> give_up st account_id claim ''missing_version'' None now
                   | Some version \<Rightarrow> run_publish_stage sha256 st account_id claim opcase version
                       subject fingerprint now)
                else give_up st account_id claim ''unknown_stage'' (Some (tc_stage claim)) now)))"

definition execute_next ::
  "isoparser \<Rightarrow> hash \<Rightarrow> store \<Rightarrow> uid \<Rightarrow> string \<Rightarrow> string \<Rightarrow> instant \<Rightarrow> dispatch_error + (store \<times> dispatch_step)" where
  "execute_next fromiso sha256 st account_id subject fingerprint now =
    (case claim_task st account_id now DEFAULT_LEASE of
       (st1, None) \<Rightarrow> Inr (st1, \<lparr>ds_result = DR_IDLE, ds_case = None, ds_stage = None, ds_detail = None\<rparr>)
     | (st1, Some claim) \<Rightarrow> execute_claim fromiso sha256 st1 account_id claim subject fingerprint now)"

section \<open>A pass\<close>

fun drain ::
  "isoparser \<Rightarrow> hash \<Rightarrow> uid \<Rightarrow> string \<Rightarrow> string \<Rightarrow> instant \<Rightarrow> nat \<Rightarrow> store \<Rightarrow> dispatch_step list \<Rightarrow>
    dispatch_error + (store \<times> dispatch_step list)" where
  "drain fromiso sha256 account_id subject fingerprint now 0 st steps = Inr (st, steps)"
| "drain fromiso sha256 account_id subject fingerprint now (Suc n) st steps =
    (case execute_next fromiso sha256 st account_id subject fingerprint now of
       Inl e \<Rightarrow> Inl e
     | Inr (st', s) \<Rightarrow>
        if ds_result s = DR_IDLE then Inr (st', steps)
        else if ds_result s = DR_DEFERRED \<or> ds_result s = DR_FENCED then Inr (st', steps @ [s])
        else drain fromiso sha256 account_id subject fingerprint now n st' (steps @ [s]))"

definition run_reconciliation_pass ::
  "isoparser \<Rightarrow> hash \<Rightarrow> store \<Rightarrow> uid \<Rightarrow> string \<Rightarrow> string \<Rightarrow> instant \<Rightarrow> int \<Rightarrow> string \<Rightarrow> nat \<Rightarrow>
    dispatch_error + (store \<times> pass_summary)" where
  "run_reconciliation_pass fromiso sha256 st account_id subject fingerprint now budget_units workflow_version max_steps =
    (case enqueue_ready_cases st account_id fingerprint budget_units workflow_version now of
       (st1, scheduled) \<Rightarrow>
         (case drain fromiso sha256 account_id subject fingerprint now max_steps st1 [] of
            Inl e \<Rightarrow> Inl e
          | Inr (st2, steps) \<Rightarrow> Inr (st2, \<lparr>ps_scheduled = scheduled, ps_steps = steps\<rparr>)))"

definition next_pass_due_at :: "instant \<Rightarrow> int \<Rightarrow> instant" where
  "next_pass_due_at now gap = now + gap"

definition has_pending_work :: "store \<Rightarrow> uid \<Rightarrow> bool" where
  "has_pending_work st account_id =
    list_ex (\<lambda>t. wt_account t = account_id \<and> (wt_status t = TS_READY \<or> wt_status t = TS_LEASED)) (st_tasks st)"

end
