(* ===== verification/Dispatch_Facts.thy ===== *)
theory Dispatch_Facts
  imports Dispatch Runtime_Facts Publication_Facts
begin

text \<open>
  A pass refines the transition systems of its components: everything the dispatcher does to the
  store is a run of queue steps, of publication steps and of authority steps, so the invariants of
  the three hold after any number of passes.
\<close>

section \<open>Runs in three systems at once\<close>

lemma reaches_trans: "reaches step t u \<Longrightarrow> reaches step s t \<Longrightarrow> reaches step s u"
  by (induction rule: reaches.induct) (auto intro: reaches_step)

lemma reaches_one: "step s e t \<Longrightarrow> reaches step s t"
  by (rule reaches_step [OF reaches_refl])

lemmas queue_run = reaches_one [where step = wf_step]
lemmas authority_run = reaches_one [where step = authority_step]
lemmas publication_run = reaches_one [where step = "publication_step sha256" for sha256]

definition simulates :: "hash \<Rightarrow> wf_state \<Rightarrow> wf_state \<Rightarrow> bool" where
  "simulates sha256 s t \<longleftrightarrow> reaches wf_step s t \<and> reaches (publication_step sha256) (fst s) (fst t) \<and>
    reaches authority_step (fst s) (fst t)"

lemma simulates_refl [intro, simp]: "simulates sha256 s s"
  by (simp add: simulates_def reaches_refl)

lemma simulates_trans: "simulates sha256 s t \<Longrightarrow> simulates sha256 t u \<Longrightarrow> simulates sha256 s u"
  by (auto simp: simulates_def intro: reaches_trans)

definition same_publication :: "store \<Rightarrow> store \<Rightarrow> bool" where
  "same_publication st st' \<longleftrightarrow> st_intents st' = st_intents st \<and> st_outbox st' = st_outbox st \<and>
    st_publications st' = st_publications st \<and> st_attestations st' = st_attestations st \<and>
    st_versions st' = st_versions st \<and> st_verdicts st' = st_verdicts st \<and> st_next st \<le> st_next st'"

definition same_queue :: "store \<Rightarrow> store \<Rightarrow> bool" where
  "same_queue st st' \<longleftrightarrow> st_tasks st' = st_tasks st \<and> st_attempts st' = st_attempts st \<and>
    st_next st \<le> st_next st'"

lemma same_publication_steps:
  assumes "same_publication st st'"
  shows "reaches (publication_step sha256) st st'" and "reaches authority_step st st'"
  using assms
  by (auto simp: same_publication_def intro!: publication_run [OF pb_elsewhere] authority_run [OF au_provision])

lemma simulates_queue:
  assumes "wf_step (st, cs) e (st', cs')" and "same_publication st st'"
  shows "simulates sha256 (st, cs) (st', cs')"
  using assms same_publication_steps by (auto simp: simulates_def intro: reaches_one)

lemma simulates_elsewhere:
  assumes "same_queue st st'" and "same_publication st st'"
  shows "simulates sha256 (st, cs) (st', cs)"
  using assms by (intro simulates_queue) (auto simp: same_queue_def intro: wf_elsewhere)

lemma simulates_publication:
  assumes "publication_step sha256 st e st'" and "same_queue st st'" and "reaches authority_step st st'"
  shows "simulates sha256 (st, cs) (st', cs)"
  using assms by (auto simp: simulates_def same_queue_def intro: reaches_one wf_elsewhere)

section \<open>Frames of the queue operations\<close>

lemma same_publication_refl [simp]: "same_publication st st" by (simp add: same_publication_def)

lemma upd_frames [simp]:
  "same_publication st (upd_task i f st)" "same_publication st (upd_attempt i g st)"
  "same_publication st (upd_case i h st)" "same_queue st (upd_case i h st)"
  "same_queue st (upd_outbox i k st)" "same_queue st (upd_attestation i l st)"
  by (simp_all add: same_publication_def same_queue_def upd_task_def upd_attempt_def upd_case_def
      upd_outbox_def upd_attestation_def)

lemma same_publication_trans: "same_publication s t \<Longrightarrow> same_publication t u \<Longrightarrow> same_publication s u"
  by (auto simp: same_publication_def)

lemma same_queue_trans: "same_queue s t \<Longrightarrow> same_queue t u \<Longrightarrow> same_queue s u"
  by (auto simp: same_queue_def)

lemma enqueue_frame:
  "enqueue_task st acc run stage prio nx m now = (st', t) \<Longrightarrow> same_publication st st'"
  by (auto simp: enqueue_task_def Let_def same_publication_def)

lemma claim_frame:
  assumes "claim_task st acc now lease = (st', r)"
  shows "same_publication st st'"
proof -
  have reap: "same_publication st (fst (reap_expired_tasks st acc now))"
    by (simp add: reap_expired_tasks_def same_publication_def)
  from assms show ?thesis
  proof (cases rule: claim_task_cases)
    case idle
    with reap show ?thesis by simp
  next
    case (leased st1 t rest c a)
    then have "same_publication st1 st'" by (simp add: same_publication_def upd_task_def)
    with reap leased(2) show ?thesis by (auto intro: same_publication_trans)
  qed
qed

lemma commit_frame:
  assumes "commit_stage st acc c now nx rq art = Some (st', out)"
  shows "same_publication st st'"
  using assms
proof (cases rule: commit_stage_cases)
  case (committed t a st2)
  then have "same_publication st st2"
    by (auto intro: same_publication_trans [OF upd_frames(2) upd_frames(1)])
  moreover have "same_publication st2 st'"
    using committed(6) by (auto split: option.splits dest: enqueue_frame)
  ultimately show ?thesis by (rule same_publication_trans)
qed (simp_all add: fence_attempt_def)

lemma fail_frame:
  assumes "fail_attempt st acc c reason now backoff = (st', out)"
  shows "same_publication st st'"
  using assms
proof (cases rule: fail_attempt_cases)
  case (failed t a)
  then show ?thesis by (auto intro: same_publication_trans [OF upd_frames(2) upd_frames(1)])
qed (simp_all add: fence_attempt_def)

lemma simulates_commit:
  "c \<in> set cs \<Longrightarrow> commit_stage st acc c now nx rq art = Some (st', out) \<Longrightarrow> simulates sha256 (st, cs) (st', cs)"
  by (rule simulates_queue [OF wf_commit commit_frame])

lemma simulates_fail:
  "c \<in> set cs \<Longrightarrow> simulates sha256 (st, cs) (fst (fail_attempt st acc c reason now backoff), cs)"
  by (rule simulates_queue [OF wf_fail fail_frame]) (auto intro: prod.collapse [symmetric])

section \<open>Frames of the publication operations\<close>

lemma attest_authority:
  "attest_action sha256 st acc q now stop = Some (st', a) \<Longrightarrow> reaches authority_step st st'"
  by (rule authority_run [OF au_attest])

lemma simulates_propose:
  assumes eq: "propose_publication sha256 st acc c v subject fp dest ct now stop = Some (st', r)"
    and v: "v \<in> set (st_versions st)" "cv_account v = acc" "cv_case v = oc_id c"
  shows "simulates sha256 (st, cs) (st', cs)"
proof -
  have step: "publication_step sha256 st Propose st'" using eq v by (rule pb_propose)
  from eq show ?thesis
  proof (cases rule: propose_publication_cases)
    case unchanged
    then show ?thesis by simp
  next
    case (denied q a)
    with attest_action_frame(1) [OF denied] show ?thesis
      by (intro simulates_publication [OF step] attest_authority [OF denied]) (simp add: same_queue_def)
  next
    case (committed w st1 a)
    note frame = attest_action_frame(1) [OF committed(4)]
    have "reaches authority_step st1 st'"
      by (rule authority_run [OF au_provision]) (simp_all add: committed(6) intent_defs)
    then have "reaches authority_step st st'"
      using attest_authority [OF committed(4)] by (rule reaches_trans)
    then show ?thesis
      by (rule simulates_publication [OF step, rotated])
        (simp add: same_queue_def committed(6) frame intent_defs upd_case_def)
  qed
qed

lemma simulates_publish:
  assumes eq: "publish_case sha256 st acc i payload now stop = (st', r)"
    and i: "i \<in> set (st_intents st)" "ai_account i = acc"
  shows "simulates sha256 (st, cs) (st', cs)"
proof -
  have step: "publication_step sha256 st Publish st'" using eq i by (rule pb_publish)
  from eq i(2) show ?thesis
  proof (cases rule: publish_case_cases)
    case refused
    then show ?thesis by simp
  next
    case (denied x reason)
    then have "reaches authority_step st st'" by (intro authority_run [OF au_provision]) simp_all
    then show ?thesis
      by (rule simulates_publication [OF step, rotated])
        (simp add: denied(4) same_queue_def upd_outbox_def)
  next
    case (published x a)
    let ?st1 = "upd_outbox (ox_id x) (claim_outbox now) st"
    let ?st2 = "upd_attestation (aa_id a) (\<lambda>x. x\<lparr>aa_dispatched_at := Some now\<rparr>) ?st1"
    have "authority_step st Provision ?st1" by (rule au_provision) simp_all
    moreover have "authority_step ?st1 (Authorize (ai_attestation i)) ?st2"
      by (rule au_authorize [OF authorize_dispatch_granted])
        (use published in \<open>simp_all add: upd_outbox_recheck\<close>)
    moreover have "authority_step ?st2 Provision st'"
      by (rule au_provision) (simp_all add: published(6) write_publication_def Let_def)
    ultimately have "reaches authority_step st st'" by (blast intro: reaches_step reaches_refl)
    then show ?thesis
      by (rule simulates_publication [OF step, rotated])
        (simp add: published(6) same_queue_def write_publication_def Let_def upd_outbox_def upd_attestation_def upd_case_def)
  qed
qed

lemma simulates_read_back:
  assumes eq: "reconcile_publication sha256 st acc i = (st', r)" and i: "i \<in> set (st_intents st)" "ai_account i = acc"
  shows "simulates sha256 (st, cs) (st', cs)"
proof -
  have step: "publication_step sha256 st ReadBack st'" using eq i by (rule pb_read_back)
  have "st_attestations st' = st_attestations st" "same_queue st st'"
    using eq by (auto simp: reconcile_publication_def Let_def on_outbox_def same_queue_def upd_outbox_def upd_case_def
        split: option.splits if_splits)
  then show ?thesis
    by (intro simulates_publication [OF step] authority_run [OF au_provision]) (simp_all add: same_queue_def)
qed

section \<open>The stages\<close>

lemma simulates_version:
  assumes "version_for st acc c result = (st', v)"
  shows "simulates sha256 (st, cs) (st', cs)"
    and "v \<in> set (st_versions st')" and "cv_account v = acc" and "cv_case v = oc_id c"
    and "cv_content_hash v = rs_content_hash result \<or> st_versions st' = st_versions st @ [v]"
proof -
  have "simulates sha256 (st, cs) (st', cs) \<and> v \<in> set (st_versions st') \<and> cv_account v = acc \<and> cv_case v = oc_id c \<and>
    (cv_content_hash v = rs_content_hash result \<or> st_versions st' = st_versions st @ [v])"
  proof (cases "find (\<lambda>v. cv_account v = acc \<and> cv_case v = oc_id c \<and>
      cv_content_hash v = rs_content_hash result) (st_versions st)")
    case None
    with assms have eq: "commit_case_version st acc c result = (st', v)" by (simp add: version_for_def)
    then have st': "st' = st\<lparr>st_versions := st_versions st @ [v], st_next := st_next st + 1\<rparr>"
      "cv_account v = acc" "cv_case v = oc_id c"
      by (auto simp: commit_case_version_def Let_def)
    have "simulates sha256 (st, cs) (st', cs)"
      by (rule simulates_publication [OF pb_version [OF eq] _ authority_run [OF au_provision]])
        (simp_all add: st'(1) same_queue_def)
    with st' show ?thesis by simp
  next
    case (Some w)
    with assms show ?thesis by (auto simp: version_for_def find_Some_iff)
  qed
  then show "simulates sha256 (st, cs) (st', cs)" "v \<in> set (st_versions st')" "cv_account v = acc" "cv_case v = oc_id c"
    "cv_content_hash v = rs_content_hash result \<or> st_versions st' = st_versions st @ [v]" by blast+
qed

lemma simulates_verdict:
  assumes "record_verification_verdict fromiso st acc job c v result = Inr (st', row)"
  shows "simulates sha256 (st, cs) (st', cs)"
proof -
  obtain ws n where st': "st' = st\<lparr>st_verdicts := st_verdicts st @ ws, st_next := n\<rparr>" "st_next st \<le> n"
    using assms by (rule record_verdict_frame)
  show ?thesis
    by (rule simulates_publication [OF pb_verdict [OF assms] _ authority_run [OF au_provision]])
      (simp_all add: st' same_queue_def)
qed

lemma simulates_mark: "simulates sha256 (st, cs) (mark_case c a b st, cs)"
  by (rule simulates_elsewhere) (simp_all add: mark_case_def)

text \<open>What the two stages hand to the commit, and what they report.\<close>

lemma reconcile_stage_commits:
  assumes "run_reconcile_stage fromiso sha256 st acc c opcase job now = Inr (st', s)"
  obtains result st1 v st2 w out where "compute_case_result fromiso sha256 st acc job = Inr result"
    "version_for st acc opcase result = (st1, v)"
    "record_verification_verdict fromiso st1 acc job opcase v result = Inr (st2, w)"
    "commit_stage (mark_case opcase (if vd_completes w then AS_CALCULATED else AS_WAITING_FOR_MACHINE_DATA)
       (if vd_completes w then BS_VARIANCE_PRESENT else BS_UNRESOLVED) st2) acc c now
       (if vd_completes w then Some WS_PUBLISH else None) None None = Some (st', out)"
    "s = stage_step (if \<not> vd_completes w then DR_UNRESOLVED
       else if so_status out = CS_FENCED then DR_FENCED else DR_ADVANCED) (oc_id opcase) WS_RECONCILE None"
proof -
  from assms obtain result where r: "compute_case_result fromiso sha256 st acc job = Inr result"
    by (auto simp: run_reconcile_stage_def split: sum.splits)
  obtain st1 v where v: "version_for st acc opcase result = (st1, v)" by fastforce
  from assms r v obtain st2 w where
    w: "record_verification_verdict fromiso st1 acc job opcase v result = Inr (st2, w)"
    by (auto simp: run_reconcile_stage_def split: sum.splits)
  show thesis
    by (cases "vd_completes w")
      (use assms r v w that [OF r v w] in \<open>auto simp: run_reconcile_stage_def split: option.splits\<close>)
qed

lemma publish_stage_commits:
  assumes "run_publish_stage sha256 st acc c opcase v subject fp now = Inr (st', s)"
  obtains (withheld) st1 r where
      "propose_publication sha256 st acc opcase v subject fp PRIVATE_PORTAL DEFAULT_CASE_TYPE now False = Some (st1, r)"
      "\<not> pp_ready r \<or> pp_intent r = None" "ds_result s = DR_DEFERRED"
      "st' = fst (fail_attempt st1 acc c (pp_reason r) now DEFAULT_BACKOFF)"
  | (tried) st1 r i st2 u st3 w out where
      "propose_publication sha256 st acc opcase v subject fp PRIVATE_PORTAL DEFAULT_CASE_TYPE now False = Some (st1, r)"
      "pp_intent r = Some (ai_id i)" "row_get ai_id (ai_id i) (st_intents st1) = Some i"
      "publish_case sha256 st1 acc i (cv_result_json v) now False = (st2, u)"
      "(if pu_published u then reconcile_publication sha256 st2 acc i else (st2, unconfirmed NOT_PUBLISHED)) = (st3, w)"
      "commit_stage st3 acc c now None None None = Some (st', out)"
      "ds_result s = (if so_status out = CS_FENCED then DR_FENCED else if pc_confirmed w then DR_COMPLETED else DR_DEFERRED)"
proof -
  from assms obtain st1 r where p: "propose_publication sha256 st acc opcase v subject fp
      PRIVATE_PORTAL DEFAULT_CASE_TYPE now False = Some (st1, r)"
    by (auto simp: run_publish_stage_def split: option.splits)
  show thesis
  proof (cases "\<not> pp_ready r \<or> pp_intent r = None")
    case True
    with assms p show thesis
      by (intro withheld [OF p True]) (auto simp: run_publish_stage_def stage_step_def)
  next
    case False
    then obtain k where k: "pp_intent r = Some k" by auto
    with assms p False obtain i where i: "row_get ai_id k (st_intents st1) = Some i"
      by (auto simp: run_publish_stage_def split: option.splits)
    then have [simp]: "ai_id i = k" by (rule row_get_key)
    obtain st2 u where u: "publish_case sha256 st1 acc i (cv_result_json v) now False = (st2, u)" by fastforce
    obtain st3 w where w: "(if pu_published u then reconcile_publication sha256 st2 acc i
        else (st2, unconfirmed NOT_PUBLISHED)) = (st3, w)" by fastforce
    obtain out where out: "commit_stage st3 acc c now None None None = Some (st', out)"
      "s = (if so_status out = CS_FENCED then stage_step DR_FENCED (oc_id opcase) WS_PUBLISH None
        else if pc_confirmed w then stage_step DR_COMPLETED (oc_id opcase) WS_PUBLISH None
        else stage_step DR_DEFERRED (oc_id opcase) WS_PUBLISH (Some ''published but not yet confirmed''))"
      using assms p False k i u w by (auto simp: run_publish_stage_def split: option.splits)
    show thesis
      by (rule tried [OF p _ _ u w out(1)]) (use k i out(2) in \<open>auto simp: stage_step_def\<close>)
  qed
qed

lemma simulates_reconcile_stage:
  assumes "run_reconcile_stage fromiso sha256 st acc c opcase job now = Inr (st', s)" and "c \<in> set cs"
  shows "simulates sha256 (st, cs) (st', cs)"
  using assms(1)
proof (cases rule: reconcile_stage_commits)
  case (1 result st1 v st2 w out)
  from simulates_commit [OF assms(2) 1(4)] show ?thesis
    using simulates_version(1) [OF 1(2)] simulates_verdict [OF 1(3)] simulates_mark
    by (blast intro: simulates_trans)
qed

lemma propose_ready_intent:
  assumes eq: "propose_publication sha256 st acc c v subject fp dest ct now stop = Some (st', r)"
    and inv: "publication_inv sha256 st'" and i: "pp_intent r = Some k" "row_get ai_id k (st_intents st') = Some i"
  shows "i \<in> set (st_intents st') \<and> ai_account i = acc"
proof -
  have mem: "i \<in> set (st_intents st')" "ai_id i = k" using i(2) by (auto dest: row_get_in row_get_key)
  have "\<exists>j \<in> set (st_intents st'). ai_id j = k \<and> ai_account j = acc"
  proof (cases "existing_intent st acc (publication_action_key acc (oc_id c) (cv_content_hash v))")
    case (Some j)
    with eq i(1) have "st' = st" "ai_id j = k" by (auto simp: propose_publication_def)
    with Some show ?thesis by (auto simp: existing_intent_def find_Some_iff)
  next
    case None
    with eq i(1) show ?thesis
      by (auto simp: propose_publication_def gate_denied_def commit_intent_def intent_defs Let_def
          split: option.splits if_splits prod.splits)
  qed
  then obtain j where "j \<in> set (st_intents st')" "ai_id j = ai_id i" "ai_account j = acc" using mem(2) by auto
  then have "j = i" using inv mem(1) by (auto simp: publication_inv_def distinct_map dest: inj_onD)
  with mem \<open>ai_account j = acc\<close> show ?thesis by simp
qed

lemma simulates_inv:
  assumes "simulates sha256 (st, cs) (st', cs')" and "publication_inv sha256 st"
  shows "publication_inv sha256 st'"
  using assms publication.reaches_keeps by (auto simp: simulates_def)

lemma simulates_publish_stage:
  assumes eq: "run_publish_stage sha256 st acc c opcase v subject fp now = Inr (st', s)" and c: "c \<in> set cs"
    and v: "v \<in> set (st_versions st)" "cv_account v = acc" "cv_case v = oc_id opcase"
    and inv: "publication_inv sha256 st"
  shows "simulates sha256 (st, cs) (st', cs)"
  using eq
proof (cases rule: publish_stage_commits)
  case (withheld st1 r)
  show ?thesis unfolding withheld(4)
    by (rule simulates_trans [OF simulates_propose [OF withheld(1) v] simulates_fail [OF c]])
next
  case (tried st1 r i st2 u st3 w out)
  have sim1: "simulates sha256 (st, cs) (st1, cs)" by (rule simulates_propose [OF tried(1) v])
  note own = propose_ready_intent [OF tried(1) simulates_inv [OF sim1 inv] tried(2,3)]
  have sim2: "simulates sha256 (st1, cs) (st2, cs)" using simulates_publish [OF tried(4)] own by blast
  have "i \<in> set (st_intents st2)"
    using publication_step_intents [OF pb_publish [OF tried(4)]] own by blast
  then have sim3: "simulates sha256 (st2, cs) (st3, cs)"
    using tried(5) simulates_read_back [of sha256 st2 acc i] own by (auto split: if_splits)
  from simulates_commit [OF c tried(6)] sim1 sim2 sim3 show ?thesis by (blast intro: simulates_trans)
qed

section \<open>A task, a pass\<close>

lemma latest_version_Some:
  "latest_version st acc k = Some v \<Longrightarrow> v \<in> set (st_versions st) \<and> cv_account v = acc \<and> cv_case v = k"
  using first_desc_Some(1) [of cv_revision "versions_of_case st acc k" v]
  by (auto simp: latest_version_def versions_of_case_def)

lemma simulates_give_up:
  "give_up st acc c reason stage now = Inr (st', s) \<Longrightarrow> c \<in> set cs \<Longrightarrow> simulates sha256 (st, cs) (st', cs)"
  by (auto simp: give_up_def intro: simulates_fail)

text \<open>Which stage a claim runs.\<close>

lemma execute_claim_cases:
  assumes "execute_claim fromiso sha256 st acc c subject fp now = Inr (st', s)"
  obtains (gave_up) reason stage where "give_up st acc c reason stage now = Inr (st', s)"
  | (reconcile) opcase job where "run_reconcile_stage fromiso sha256 st acc c opcase job now = Inr (st', s)"
      "tc_stage c = WS_RECONCILE" "find_expected_job st acc opcase = Some job"
  | (publish) opcase v where "run_publish_stage sha256 st acc c opcase v subject fp now = Inr (st', s)"
      "tc_stage c = WS_PUBLISH" "latest_version st acc (oc_id opcase) = Some v"
  using assms
  by (auto simp: execute_claim_def split: option.splits if_splits
      intro: gave_up reconcile publish)

lemma simulates_execute_claim:
  assumes "execute_claim fromiso sha256 st acc c subject fp now = Inr (st', s)" and "c \<in> set cs"
    and "publication_inv sha256 st"
  shows "simulates sha256 (st, cs) (st', cs)"
  using assms(1)
proof (cases rule: execute_claim_cases)
  case gave_up
  then show ?thesis using assms(2) by (rule simulates_give_up)
next
  case reconcile
  from simulates_reconcile_stage [OF reconcile(1) assms(2)] show ?thesis .
next
  case publish
  from latest_version_Some [OF publish(3)] show ?thesis
    by (intro simulates_publish_stage [OF publish(1) assms(2) _ _ _ assms(3)]) auto
qed

lemma simulates_execute_next:
  assumes "execute_next fromiso sha256 st acc subject fp now = Inr (st', s)" and "publication_inv sha256 st"
  shows "\<exists>cs'. simulates sha256 (st, cs) (st', cs')"
proof -
  obtain st1 r where claim: "claim_task st acc now DEFAULT_LEASE = (st1, r)" by fastforce
  show ?thesis
  proof (cases r)
    case None
    with assms(1) claim have "st1 = st'" by (simp add: execute_next_def)
    with claim None have "simulates sha256 (st, cs) (st', cs)"
      by (intro simulates_queue [OF wf_idle claim_frame]) simp_all
    then show ?thesis ..
  next
    case (Some c)
    with claim have "simulates sha256 (st, cs) (st1, c # cs)"
      by (intro simulates_queue [OF wf_claim claim_frame]) simp_all
    moreover from this assms(2) have "publication_inv sha256 st1" by (rule simulates_inv)
    moreover have "execute_claim fromiso sha256 st1 acc c subject fp now = Inr (st', s)"
      using assms(1) claim Some by (simp add: execute_next_def)
    ultimately have "simulates sha256 (st, cs) (st', c # cs)"
      using simulates_execute_claim [of fromiso sha256 st1 acc c subject fp now st' s "c # cs"]
      by (auto intro: simulates_trans)
    then show ?thesis ..
  qed
qed

lemma simulates_drain:
  assumes "drain fromiso sha256 acc subject fp now n st steps = Inr (st', steps')" and "publication_inv sha256 st"
  shows "\<exists>cs'. simulates sha256 (st, cs) (st', cs')"
  using assms
proof (induction n arbitrary: st steps cs)
  case 0
  then show ?case by auto
next
  case (Suc n)
  from Suc.prems(1) obtain st1 s where s: "execute_next fromiso sha256 st acc subject fp now = Inr (st1, s)"
    by (auto split: sum.splits)
  obtain cs1 where sim: "simulates sha256 (st, cs) (st1, cs1)"
    using simulates_execute_next [OF s Suc.prems(2)] by blast
  show ?case
  proof (cases "ds_result s = DR_IDLE \<or> ds_result s = DR_DEFERRED \<or> ds_result s = DR_FENCED")
    case True
    with Suc.prems(1) s have "st' = st1" by (auto split: if_splits)
    with sim show ?thesis by auto
  next
    case False
    with Suc.prems(1) s have "drain fromiso sha256 acc subject fp now n st1 (steps @ [s]) = Inr (st', steps')" by simp
    from Suc.IH [OF this simulates_inv [OF sim Suc.prems(2)]] sim show ?thesis
      by (blast intro: simulates_trans)
  qed
qed

lemma simulates_start:
  assumes "start_case_workflow st acc c fp units wv now = Some (st', run)"
  shows "simulates sha256 (st, cs) (st', cs)"
proof -
  obtain st1 where run: "create_run st acc c wv fp units (oc_deadline_at c) = (st1, run)"
    and st': "st' = fst (enqueue_task st1 acc run WS_RECONCILE 0 None 3 now)"
    using assms by (auto simp: start_case_workflow_def split: if_splits prod.splits)
  have "simulates sha256 (st, cs) (st1, cs)"
    by (rule simulates_elsewhere) (use run in \<open>auto simp: create_run_def Let_def same_queue_def same_publication_def\<close>)
  moreover obtain t where t: "enqueue_task st1 acc run WS_RECONCILE 0 None 3 now = (st', t)"
    using st' by (metis prod.collapse)
  have "simulates sha256 (st1, cs) (st', cs)"
    by (rule simulates_queue [OF wf_enqueue [OF _ t] enqueue_frame [OF t]]) simp
  ultimately show ?thesis by (rule simulates_trans)
qed

lemma simulates_schedule:
  "simulates sha256 (fst s, cs) (fst (schedule_case acc fp units wv now c s), cs)"
proof (cases "start_case_workflow (fst s) acc c fp units wv now")
  case (Some p)
  then obtain st run where p: "start_case_workflow (fst s) acc c fp units wv now = Some (st, run)"
    by (cases p) auto
  have "simulates sha256 (st, cs) (upd_case (oc_id c) (\<lambda>c. c\<lparr>oc_automation_status := AS_RECEIVED\<rparr>) st, cs)"
    by (rule simulates_elsewhere) simp_all
  with simulates_start [OF p] p show ?thesis by (auto simp: schedule_case_def intro: simulates_trans)
qed (simp add: schedule_case_def)

lemma simulates_enqueue_ready:
  "simulates sha256 (st, cs) (fst (enqueue_ready_cases st acc fp units wv now), cs)"
proof -
  have "simulates sha256 (fst s, cs) (fst (fold (schedule_case acc fp units wv now) rs s), cs)" for rs s
  proof (induction rs arbitrary: s)
    case (Cons c rs)
    from Cons.IH [of "schedule_case acc fp units wv now c s"] show ?case
      by (simp add: simulates_trans [OF simulates_schedule])
  qed simp
  from this [of "(st, 0)"] show ?thesis by (simp add: enqueue_ready_cases_def)
qed

lemma simulates_pass:
  assumes "run_reconciliation_pass fromiso sha256 st acc subject fp now units wv n = Inr (st', summary)"
    and "publication_inv sha256 st"
  shows "\<exists>cs'. simulates sha256 (st, cs) (st', cs')"
proof -
  obtain st1 k where e: "enqueue_ready_cases st acc fp units wv now = (st1, k)" by fastforce
  have sim: "simulates sha256 (st, cs) (st1, cs)"
    using simulates_enqueue_ready [of sha256 st cs acc fp units wv now] e by simp
  obtain steps where "drain fromiso sha256 acc subject fp now n st1 [] = Inr (st', steps)"
    using assms(1) e by (auto simp: run_reconciliation_pass_def split: sum.splits)
  from simulates_drain [OF this simulates_inv [OF sim assms(2)]] sim show ?thesis
    by (blast intro: simulates_trans)
qed

end
