(* ===== verification/Dispatch_Props.thy ===== *)
theory Dispatch_Props
  imports Dispatch_Facts Runtime_Props Publication_Props
begin

text \<open>
  The properties of the dispatcher: a pass refines the component systems, schedules every case once,
  stops by itself, advances nothing that is not verified, and what it does with reverted results
  and refused publications.
\<close>

section \<open>Scheduling\<close>

text \<open>C11: a pass is a run of the queue, of the publication and of the authority transition systems: the
  dispatcher composes only guarded operations, so every invariant of the three holds after it.\<close>

theorem pass_refines_components:
  assumes "run_reconciliation_pass fromiso sha256 st acc subject fp now units wv n = Inr (st', summary)"
    and "publication_inv sha256 st"
  shows "\<exists>cs'. reaches wf_step (st, cs) (st', cs') \<and> reaches (publication_step sha256) st st' \<and>
    reaches authority_step st st'"
  using simulates_pass [OF assms, of cs] by (auto simp: simulates_def)

lemma start_has_run:
  assumes "start_case_workflow st acc c fp units wv now = Some (st', run)"
  shows "st_runs st' = st_runs st @ [run] \<and> wr_account run = acc \<and> wr_case run = oc_id c \<and>
    \<not> has_run st acc (oc_id c) \<and> st_cases st' = st_cases st"
  using assms
  by (auto simp: start_case_workflow_def create_run_def enqueue_task_def Let_def split: if_splits)

lemma schedule_case_runs:
  "(\<exists>rs. st_runs (fst (schedule_case acc fp units wv now c s)) = st_runs (fst s) @ rs) \<and>
    has_run (fst (schedule_case acc fp units wv now c s)) acc (oc_id c)"
proof (cases "start_case_workflow (fst s) acc c fp units wv now")
  case None
  then have "has_run (fst s) acc (oc_id c)"
    by (auto simp: start_case_workflow_def split: if_splits prod.splits)
  with None show ?thesis by (simp add: schedule_case_def)
next
  case (Some p)
  then obtain st run where "start_case_workflow (fst s) acc c fp units wv now = Some (st, run)" by (cases p) auto
  with start_has_run [OF this] show ?thesis by (simp add: schedule_case_def has_run_def upd_case_def)
qed

lemma has_run_mono: "st_runs st' = st_runs st @ rs \<Longrightarrow> has_run st acc k \<Longrightarrow> has_run st' acc k"
  by (simp add: has_run_def)

lemma fold_schedule_runs:
  "(\<exists>rs. st_runs (fst (fold (schedule_case acc fp units wv now) cases s)) = st_runs (fst s) @ rs) \<and>
    (\<forall>c \<in> set cases. has_run (fst (fold (schedule_case acc fp units wv now) cases s)) acc (oc_id c))"
proof (induction cases arbitrary: s)
  case (Cons c cases)
  let ?s = "schedule_case acc fp units wv now c s"
  from Cons.IH [of ?s] schedule_case_runs [of acc fp units wv now c s] show ?case
    by (auto intro: has_run_mono)
qed simp

lemma schedule_noop: "has_run (fst s) acc (oc_id c) \<Longrightarrow> schedule_case acc fp units wv now c s = s"
  by (simp add: schedule_case_def start_case_workflow_def)

lemma fold_schedule_noop:
  "\<forall>c \<in> set cases. has_run (fst s) acc (oc_id c) \<Longrightarrow> fold (schedule_case acc fp units wv now) cases s = s"
  by (induction cases) (simp_all add: schedule_noop)

text \<open>Scheduling only turns validated cases into received ones.\<close>

lemma schedule_case_ready:
  "c' \<in> set (ready_cases (fst (schedule_case acc fp units wv now c s)) acc) \<Longrightarrow> c' \<in> set (ready_cases (fst s) acc)"
proof (cases "start_case_workflow (fst s) acc c fp units wv now")
  case (Some p)
  then obtain st run where "start_case_workflow (fst s) acc c fp units wv now = Some (st, run)" by (cases p) auto
  then show "c' \<in> set (ready_cases (fst (schedule_case acc fp units wv now c s)) acc) \<Longrightarrow> ?thesis"
    using start_has_run [of "fst s" acc c fp units wv now st run]
    by (auto simp: schedule_case_def ready_cases_def upd_case_def dest!: in_row_upd)
qed (simp add: schedule_case_def)

lemma fold_schedule_ready:
  "c' \<in> set (ready_cases (fst (fold (schedule_case acc fp units wv now) cases s)) acc) \<Longrightarrow>
    c' \<in> set (ready_cases (fst s) acc)"
proof (induction cases arbitrary: s)
  case (Cons c cases)
  from Cons.IH [of "schedule_case acc fp units wv now c s"] Cons.prems show ?case
    by (simp add: schedule_case_ready)
qed simp

text \<open>What scheduling opens for a case: a run with the case's deadline, and its ready reconcile task.\<close>

definition run_opened :: "uid \<Rightarrow> string \<Rightarrow> int \<Rightarrow> string \<Rightarrow> case_row \<Rightarrow> run_row \<Rightarrow> bool" where
  "run_opened acc fp units wv c r \<longleftrightarrow> wr_account r = acc \<and> wr_case r = oc_id c \<and> wr_system_fingerprint r = fp \<and>
    wr_budget_units r = units \<and> wr_workflow_version r = wv \<and> wr_deadline_at r = oc_deadline_at c"

definition task_opened :: "uid \<Rightarrow> instant \<Rightarrow> run_row \<Rightarrow> task_row \<Rightarrow> bool" where
  "task_opened acc now r t \<longleftrightarrow> wt_account t = acc \<and> wt_run t = wr_id r \<and> wt_stage t = WS_RECONCILE \<and>
    wt_status t = TS_READY \<and> wt_next_attempt_at t = now \<and> wt_attempts t = 0"

lemma schedule_case_opens:
  assumes "\<not> has_run (fst s) acc (oc_id c)"
  obtains r t where "run_opened acc fp units wv c r" and "task_opened acc now r t"
    and "st_runs (fst (schedule_case acc fp units wv now c s)) = st_runs (fst s) @ [r]"
    and "st_tasks (fst (schedule_case acc fp units wv now c s)) = st_tasks (fst s) @ [t]"
    and "st_cases (fst (schedule_case acc fp units wv now c s)) =
      row_upd oc_id (oc_id c) (\<lambda>c. c\<lparr>oc_automation_status := AS_RECEIVED\<rparr>) (st_cases (fst s))"
    and "snd (schedule_case acc fp units wv now c s) = snd s + 1"
proof -
  let ?p = "create_run (fst s) acc c wv fp units (oc_deadline_at c)"
  show thesis
    by (rule that [of "snd ?p" "snd (enqueue_task (fst ?p) acc (snd ?p) WS_RECONCILE 0 None 3 now)"])
       (use assms in \<open>simp_all add: schedule_case_def start_case_workflow_def create_run_def enqueue_task_def Let_def
         upd_case_def run_opened_def task_opened_def\<close>)
qed

lemma fold_schedule_exact:
  assumes "distinct (map oc_id cases)"
  shows "\<exists>rs ts. list_all2 (run_opened acc fp units wv) (filter (\<lambda>c. \<not> has_run (fst s) acc (oc_id c)) cases) rs \<and>
    list_all2 (task_opened acc now) rs ts \<and>
    st_runs (fst (fold (schedule_case acc fp units wv now) cases s)) = st_runs (fst s) @ rs \<and>
    st_tasks (fst (fold (schedule_case acc fp units wv now) cases s)) = st_tasks (fst s) @ ts \<and>
    st_cases (fst (fold (schedule_case acc fp units wv now) cases s)) =
      map (\<lambda>x. if oc_id x \<in> oc_id ` set (filter (\<lambda>c. \<not> has_run (fst s) acc (oc_id c)) cases)
        then x\<lparr>oc_automation_status := AS_RECEIVED\<rparr> else x) (st_cases (fst s)) \<and>
    snd (fold (schedule_case acc fp units wv now) cases s) =
      snd s + length (filter (\<lambda>c. \<not> has_run (fst s) acc (oc_id c)) cases)"
  using assms
proof (induction cases arbitrary: s)
  case (Cons c cases)
  show ?case
  proof (cases "has_run (fst s) acc (oc_id c)")
    case True
    with Cons show ?thesis by (simp add: schedule_noop)
  next
    case False
    define u where "u = schedule_case acc fp units wv now c s"
    from False obtain r t where o: "run_opened acc fp units wv c r" "task_opened acc now r t"
      and u: "st_runs (fst u) = st_runs (fst s) @ [r]" "st_tasks (fst u) = st_tasks (fst s) @ [t]"
        "st_cases (fst u) = row_upd oc_id (oc_id c) (\<lambda>c. c\<lparr>oc_automation_status := AS_RECEIVED\<rparr>) (st_cases (fst s))"
        "snd u = snd s + 1"
      unfolding u_def by (rule schedule_case_opens)
    have same: "filter (\<lambda>c. \<not> has_run (fst u) acc (oc_id c)) cases = filter (\<lambda>c. \<not> has_run (fst s) acc (oc_id c)) cases"
      using Cons.prems o(1) by (intro filter_cong) (auto simp: has_run_def u(1) run_opened_def)
    from Cons.IH [of u] Cons.prems obtain rs ts
      where "list_all2 (run_opened acc fp units wv) (filter (\<lambda>c. \<not> has_run (fst s) acc (oc_id c)) cases) rs"
      and "list_all2 (task_opened acc now) rs ts"
      and "st_runs (fst (fold (schedule_case acc fp units wv now) cases u)) = st_runs (fst u) @ rs"
      and "st_tasks (fst (fold (schedule_case acc fp units wv now) cases u)) = st_tasks (fst u) @ ts"
      and "st_cases (fst (fold (schedule_case acc fp units wv now) cases u)) =
        map (\<lambda>x. if oc_id x \<in> oc_id ` set (filter (\<lambda>c. \<not> has_run (fst s) acc (oc_id c)) cases)
          then x\<lparr>oc_automation_status := AS_RECEIVED\<rparr> else x) (st_cases (fst u))"
      and "snd (fold (schedule_case acc fp units wv now) cases u) =
        snd u + length (filter (\<lambda>c. \<not> has_run (fst s) acc (oc_id c)) cases)"
      unfolding same by auto
    with o False show ?thesis
      by (intro exI [of _ "r # rs"] exI [of _ "t # ts"]) (simp add: u row_upd_map flip: u_def)
  qed
qed simp

text \<open>C13: scheduling is exact and idempotent: each validated case of the account without a run gets exactly one
  run and exactly one ready reconcile task of that run and becomes received, and their number is returned;
  a case that has a run gets no second one, nothing else is opened, and no other case changes. After it
  every validated case has its run, and scheduling again, at any time, opens nothing and changes nothing.
  (Case ids are a primary key.)\<close>

theorem scheduling_idempotent:
  assumes "distinct (map oc_id (st_cases st))" and "enqueue_ready_cases st acc fp units wv now = (st', n)"
  shows "(\<exists>rs ts. let new = filter (\<lambda>c. \<not> has_run st acc (oc_id c)) (ready_cases st acc) in
      list_all2 (\<lambda>c r. wr_account r = acc \<and> wr_case r = oc_id c \<and> wr_system_fingerprint r = fp \<and>
        wr_budget_units r = units \<and> wr_workflow_version r = wv \<and> wr_deadline_at r = oc_deadline_at c) new rs \<and>
      list_all2 (\<lambda>r t. wt_account t = acc \<and> wt_run t = wr_id r \<and> wt_stage t = WS_RECONCILE \<and>
        wt_status t = TS_READY \<and> wt_next_attempt_at t = now \<and> wt_attempts t = 0) rs ts \<and>
      st_runs st' = st_runs st @ rs \<and> st_tasks st' = st_tasks st @ ts \<and> n = length new \<and>
      st_cases st' = map (\<lambda>c. if c \<in> set new then c\<lparr>oc_automation_status := AS_RECEIVED\<rparr> else c) (st_cases st)) \<and>
    list_all (\<lambda>c. has_run st' acc (oc_id c)) (ready_cases st acc) \<and>
    enqueue_ready_cases st' acc fp' units' wv' now' = (st', 0)"
proof -
  let ?s = "fold (schedule_case acc fp units wv now) (ready_cases st acc) (st, 0)"
  let ?new = "filter (\<lambda>c. \<not> has_run st acc (oc_id c)) (ready_cases st acc)"
  from assms(2) have st': "?s = (st', n)" by (simp add: enqueue_ready_cases_def)
  have runs: "\<forall>c \<in> set (ready_cases st acc). has_run (fst ?s) acc (oc_id c)"
    using fold_schedule_runs by blast
  have "set (ready_cases (fst ?s) acc) \<subseteq> set (ready_cases st acc)"
    using fold_schedule_ready by fastforce
  then have "fold (schedule_case acc fp' units' wv' now') (ready_cases (fst ?s) acc) (fst ?s, 0) = (fst ?s, 0)"
    using runs by (intro fold_schedule_noop) auto
  then have again: "enqueue_ready_cases st' acc fp' units' wv' now' = (st', 0)"
    by (simp add: enqueue_ready_cases_def st')
  have ids: "distinct (map oc_id (ready_cases st acc))"
    using assms(1) by (simp add: ready_cases_def distinct_map_filter)
  have key: "oc_id x \<in> oc_id ` set ?new \<longleftrightarrow> x \<in> set ?new" if "x \<in> set (st_cases st)" for x
    using assms(1) that by (auto simp: ready_cases_def distinct_map dest: inj_onD)
  from fold_schedule_exact [OF ids, of acc fp units wv "(st, 0)" now] obtain rs ts
    where "list_all2 (run_opened acc fp units wv) ?new rs" "list_all2 (task_opened acc now) rs ts"
      "st_runs st' = st_runs st @ rs" "st_tasks st' = st_tasks st @ ts" "n = length ?new"
      "st_cases st' = map (\<lambda>x. if oc_id x \<in> oc_id ` set ?new then x\<lparr>oc_automation_status := AS_RECEIVED\<rparr> else x) (st_cases st)"
    by (auto simp: st')
  moreover from this(6) have "st_cases st' = map (\<lambda>c. if c \<in> set ?new then c\<lparr>oc_automation_status := AS_RECEIVED\<rparr> else c) (st_cases st)"
    by (simp only: key cong: map_cong)
  ultimately show ?thesis
    using runs again unfolding run_opened_def task_opened_def by (auto simp: Let_def list_all_iff st')
qed

section \<open>Progress\<close>

text \<open>The stages a task of the account can still run: two for a reconciliation, one for any other.\<close>

definition stage_work :: "workflow_stage \<Rightarrow> nat" where
  "stage_work stage = (if stage = WS_RECONCILE then 2 else 1)"

definition task_work :: "uid \<Rightarrow> task_row \<Rightarrow> nat" where
  "task_work acc t = (if wt_account t = acc \<and> \<not> settled t then stage_work (wt_stage t) else 0)"

definition open_work :: "store \<Rightarrow> uid \<Rightarrow> nat" where
  "open_work st acc = sum_list (map (task_work acc) (st_tasks st))"

lemma stage_work_pos [simp]: "0 < stage_work stage" by (simp add: stage_work_def)

lemma open_work_cong: "st_tasks st' = st_tasks st \<Longrightarrow> open_work st' acc = open_work st acc"
  by (simp add: open_work_def)

lemma open_work_upd:
  assumes "distinct (map wt_id rows)" and "row_get wt_id i rows = Some t"
  shows "sum_list (map (task_work acc) (row_upd wt_id i f rows)) + task_work acc t =
    sum_list (map (task_work acc) rows) + task_work acc (f t)"
  using assms
proof (induction rows)
  case Nil
  then show ?case by (simp add: row_get_def)
next
  case (Cons x rows)
  show ?case
  proof (cases "wt_id x = i")
    case True
    then have "row_upd wt_id i f rows = rows"
      using Cons.prems(1) unfolding row_upd_def by (intro map_idI) (auto simp: image_iff)
    with True Cons.prems show ?thesis by (simp add: row_get_def row_upd_def)
  next
    case False
    with Cons.prems have "row_get wt_id i rows = Some t" by (simp add: row_get_def)
    with Cons False show ?thesis by (simp add: row_upd_def)
  qed
qed

lemma open_work_reap: "open_work (fst (reap_expired_tasks st acc' now)) acc \<le> open_work st acc"
proof -
  have "task_work acc (if exhausted acc' now t then retire t else t) \<le> task_work acc t" for t
    by (cases "exhausted acc' now t") (simp_all add: task_work_def retire_def settled_def)
  then show ?thesis
    by (simp add: open_work_def reap_expired_tasks_def o_def sum_list_mono)
qed

lemma claimed_task:
  assumes inv: "queue_inv st" and claim: "claim_task st acc now lease = (st1, Some c)"
  obtains t where "row_get wt_id (tc_task_id c) (st_tasks st1) = Some t" "wt_account t = acc"
    "wt_stage t = tc_stage c" "lease_held c t" "wt_id t = tc_task_id c" "queue_inv st1"
    "claim_ok st1 c" "open_work st1 acc \<le> open_work st acc"
proof -
  note keeps = claim_keeps [OF inv claim]
  from claim show thesis
  proof (cases rule: claim_task_cases)
    case (leased st0 t rest c' a)
    have inv0: "queue_inv st0" using reap_keeps [OF inv] leased(2) by simp
    have t: "t \<in> set (st_tasks st0)" "task_due acc now t"
      using leased(3) due_query_in [of t st0 acc now] by simp_all
    have get0: "row_get wt_id (wt_id t) (st_tasks st0) = Some t"
      using inv0 t by (auto simp: queue_inv_def intro: row_get_distinct)
    then have get: "row_get wt_id (tc_task_id c) (st_tasks st1) = Some (take_lease now lease t)"
      using leased by (simp add: row_simps row_get_upd take_lease_def)
    have "open_work st1 acc = open_work st0 acc"
    proof -
      have "task_work acc (take_lease now lease t) = task_work acc t"
        using t(2) by (auto simp: task_work_def take_lease_def settled_def task_due_def lease_expired_def)
      with open_work_upd [OF _ get0, of acc "take_lease now lease"] inv0 show ?thesis
        by (simp add: open_work_def leased(4) upd_task_def queue_inv_def)
    qed
    moreover have "claim_ok st1 c" using keeps(3) by simp
    ultimately show thesis
      using that [OF get] keeps(1) t(2) leased open_work_reap [of st acc now acc]
      by (auto simp: take_lease_def lease_held_def task_due_def)
  qed simp
qed

text \<open>Between the claim and the commit nothing touches the queue, so the commit is never fenced.\<close>

lemma commit_work:
  assumes inv: "queue_inv st1" and t: "row_get wt_id (tc_task_id c) (st_tasks st1) = Some t" "wt_account t = acc"
      "lease_held c t" "wt_id t = tc_task_id c" and a: "claim_ok st1 c"
    and same: "same_queue st1 st2" and eq: "commit_stage st2 acc c now nx rq art = Some (st3, out)"
  shows "so_status out = CS_COMMITTED" and "row_get wt_id (tc_task_id c) (st_tasks st3) = Some (succeed t)"
    and "open_work st3 acc + stage_work (wt_stage t) =
      open_work st1 acc + (case nx of None \<Rightarrow> 0 | Some stage \<Rightarrow> stage_work stage)"
    and "queue_inv st3"
proof -
  have same': "st_tasks st2 = st_tasks st1" "st_attempts st2 = st_attempts st1" using same by (simp_all add: same_queue_def)
  have get: "get_task_locked st2 (tc_task_id c) acc = Some t"
    using t(1,2) by (simp add: get_task_locked_Some same')
  have inv2: "queue_inv st2" using inv same by (auto simp: queue_inv_def same_queue_def)
  have a2: "claim_ok st2 c" using a claim_ok_cong [OF same'(2)] by simp
  then have loaded: "load_attempt st2 c \<noteq> None" by (auto simp: claim_ok_def load_attempt_def)
  show "queue_inv st3" by (rule commit_keeps(1) [OF inv2 a2 eq])
  have "so_status out = CS_COMMITTED \<and> row_get wt_id (tc_task_id c) (st_tasks st3) = Some (succeed t) \<and>
    open_work st3 acc + stage_work (wt_stage t) = open_work st1 acc + (case nx of None \<Rightarrow> 0 | Some stage \<Rightarrow> stage_work stage)"
    using eq
  proof (cases rule: commit_stage_cases)
    case missing
    with eq get loaded t(3) show ?thesis
      by (auto simp: commit_stage_def Let_def fenced_def split: option.splits prod.splits)
  next
    case (stale t')
    with get t(3) show ?thesis by simp
  next
    case (committed t' a' st')
    have tt: "t' = t" using committed(1) get by simp
    have tasks: "st_tasks st' = row_upd wt_id (wt_id t) succeed (st_tasks st1)"
      by (simp add: committed(5) tt upd_task_def upd_attempt_def same')
    have "task_work acc t = stage_work (wt_stage t)" "task_work acc (succeed t) = 0"
      using t(2,3) by (simp_all add: task_work_def succeed_def settled_def lease_held_def)
    then have work: "open_work st' acc + stage_work (wt_stage t) = open_work st1 acc"
      using open_work_upd [OF _ t(1) [folded t(4)], of acc succeed] inv
      by (simp add: open_work_def tasks queue_inv_def)
    have get': "row_get wt_id (tc_task_id c) (st_tasks st') = Some (succeed t)"
      using t(1,4) by (simp add: tasks row_get_upd succeed_def)
    show ?thesis
      using committed(4,6) work get' t(2)
      by (auto simp: enqueue_task_def Let_def open_work_def task_work_def settled_def row_get_append_new
          split: option.splits)
  qed
  then show "so_status out = CS_COMMITTED" "row_get wt_id (tc_task_id c) (st_tasks st3) = Some (succeed t)"
    "open_work st3 acc + stage_work (wt_stage t) =
      open_work st1 acc + (case nx of None \<Rightarrow> 0 | Some stage \<Rightarrow> stage_work stage)" by blast+
qed

text \<open>The frames of the operations between claim and commit.\<close>

lemma stage_frames:
  "propose_publication sha256 st acc c v subject fp dest ct now stop = Some (st', r) \<Longrightarrow> same_queue st st'"
  "publish_case sha256 st (ai_account i) i payload now stop = (st', u) \<Longrightarrow> same_queue st st'"
  "reconcile_publication sha256 st acc i = (st', w) \<Longrightarrow> same_queue st st'"
  "version_for st acc c result = (st', v) \<Longrightarrow> same_queue st st'"
  "record_verification_verdict fromiso st acc job c v result = Inr (st', row) \<Longrightarrow> same_queue st st'"
proof -
  assume "propose_publication sha256 st acc c v subject fp dest ct now stop = Some (st', r)"
  then show "same_queue st st'"
    by (cases rule: propose_publication_cases)
      (auto simp: same_queue_def intent_defs upd_case_def dest: attest_action_frame(1))
next
  assume "publish_case sha256 st (ai_account i) i payload now stop = (st', u)"
  then show "same_queue st st'"
    by (cases rule: publish_case_cases)
      (auto simp: same_queue_def write_publication_def Let_def upd_outbox_def upd_attestation_def upd_case_def)
next
  assume "reconcile_publication sha256 st acc i = (st', w)"
  then show "same_queue st st'"
    by (auto simp: reconcile_publication_branches on_outbox_def same_queue_def upd_outbox_def upd_case_def
        split: option.splits if_splits)
next
  assume "version_for st acc c result = (st', v)"
  then show "same_queue st st'"
    by (auto simp: version_for_def commit_case_version_def Let_def same_queue_def split: option.splits)
next
  assume "record_verification_verdict fromiso st acc job c v result = Inr (st', row)"
  then obtain ws n where "st' = st\<lparr>st_verdicts := st_verdicts st @ ws, st_next := n\<rparr>" "st_next st \<le> n"
    by (rule record_verdict_frame)
  then show "same_queue st st'" by (simp add: same_queue_def)
qed

definition stops :: "dispatch_step \<Rightarrow> bool" where
  "stops s \<longleftrightarrow> ds_result s = DR_DEFERRED \<or> ds_result s = DR_FENCED"

lemma execute_next_progress:
  assumes inv: "queue_inv st" "publication_inv sha256 st"
    and eq: "execute_next fromiso sha256 st acc subject fp now = Inr (st', s)"
  shows "if ds_result s = DR_IDLE then due_query st' acc now = [] \<and> open_work st' acc \<le> open_work st acc
    else stops s \<or> open_work st' acc < open_work st acc"
proof -
  obtain st1 r where claim: "claim_task st acc now DEFAULT_LEASE = (st1, r)" by fastforce
  show ?thesis
  proof (cases r)
    case None
    with eq claim have s: "st' = st1" "ds_result s = DR_IDLE" by (auto simp: execute_next_def)
    from claim show ?thesis
      by (cases rule: claim_task_cases) (use None s open_work_reap in auto)
  next
    case (Some c)
    obtain t where t: "row_get wt_id (tc_task_id c) (st_tasks st1) = Some t" "wt_account t = acc"
      "wt_stage t = tc_stage c" "lease_held c t" "wt_id t = tc_task_id c" "queue_inv st1"
      "claim_ok st1 c" "open_work st1 acc \<le> open_work st acc"
      by (rule claimed_task [OF inv(1) claim [unfolded Some]])
    note work = commit_work [OF t(6,1,2,4,5,7)]
    have "execute_claim fromiso sha256 st1 acc c subject fp now = Inr (st', s)"
      using eq claim Some by (simp add: execute_next_def)
    then show ?thesis
    proof (cases rule: execute_claim_cases)
      case gave_up
      then show ?thesis by (auto simp: give_up_def stops_def)
    next
      case (reconcile opcase job)
      from reconcile(1) show ?thesis
      proof (cases rule: reconcile_stage_commits)
        case (1 result st2 v st3 w out)
        have "same_queue st1 (mark_case opcase a b st3)" for a b
          using stage_frames(4) [OF 1(2)] stage_frames(5) [OF 1(3)]
          by (auto simp: mark_case_def intro: same_queue_trans)
        from work(1,3) [OF this 1(4)] t(3,8) reconcile(2) show ?thesis
          by (auto simp: 1(5) stage_step_def stage_work_def split: if_splits)
      qed
    next
      case (publish opcase v)
      from publish(1) show ?thesis
      proof (cases rule: publish_stage_commits)
        case (tried st2 x i st3 u st4 w out)
        have "ai_account i = acc"
        proof -
          have "publication_inv sha256 st1"
            using inv(2) simulates_inv [OF simulates_queue [OF wf_claim claim_frame]] claim Some by blast
          note own = latest_version_Some [OF publish(3)]
          have "simulates sha256 (st1, []) (st2, [])" using simulates_propose [OF tried(1)] own by blast
          from propose_ready_intent [OF tried(1) simulates_inv [OF this \<open>publication_inv sha256 st1\<close>] tried(2,3)]
          show ?thesis ..
        qed
        then have "same_queue st2 st3" using stage_frames(2) tried(4) by metis
        moreover have "same_queue st3 st4"
          using tried(5) stage_frames(3) [of sha256 st3 acc i st4 w]
          by (auto simp: same_queue_def split: if_splits)
        ultimately have "same_queue st1 st4"
          using stage_frames(1) [OF tried(1)] by (blast intro: same_queue_trans)
        from work(1,3) [OF this tried(6)] t(3,8) publish(2) show ?thesis
          by (auto simp: tried(7) stops_def stage_work_def split: if_splits)
      qed (simp add: stops_def)
    qed
  qed
qed

lemma drain_progress:
  assumes "queue_inv st" "publication_inv sha256 st"
    and "drain fromiso sha256 acc subject fp now n st steps = Inr (st', steps')"
  shows "\<exists>new. steps' = steps @ new \<and> length new \<le> n \<and>
    (open_work st acc < n \<longrightarrow> due_query st' acc now = [] \<or> (new \<noteq> [] \<and> stops (last new)))"
  using assms
proof (induction n arbitrary: st steps)
  case 0
  then show ?case by simp
next
  case (Suc n)
  from Suc.prems(3) obtain st1 s where s: "execute_next fromiso sha256 st acc subject fp now = Inr (st1, s)"
    by (auto split: sum.splits)
  note progress = execute_next_progress [OF Suc.prems(1,2) s]
  show ?case
  proof (cases "ds_result s = DR_IDLE \<or> stops s")
    case True
    with Suc.prems(3) s progress show ?thesis
      by (auto simp: stops_def split: if_splits)
  next
    case False
    with Suc.prems(3) s have rest: "drain fromiso sha256 acc subject fp now n st1 (steps @ [s]) = Inr (st', steps')"
      by (simp add: stops_def)
    obtain cs where "simulates sha256 (st, []) (st1, cs)"
      using simulates_execute_next [OF s Suc.prems(2)] by blast
    then have "queue_inv st1" "publication_inv sha256 st1"
      using queue.reaches_keeps [of "(st, [])" "(st1, cs)"] Suc.prems(1,2) simulates_inv
      by (auto simp: simulates_def wf_inv_def)
    from Suc.IH [OF this rest] obtain new where new: "steps' = (steps @ [s]) @ new" "length new \<le> n"
      "open_work st1 acc < n \<longrightarrow> due_query st' acc now = [] \<or> (new \<noteq> [] \<and> stops (last new))" by blast
    with False progress show ?thesis by (intro exI [of _ "s # new"]) auto
  qed
qed

text \<open>C12: a pass drains: it takes at most the given number of steps, and when that number exceeds the
  stages still open after scheduling it ends because nothing is due any more, or because its last
  step was deferred or fenced; it is never cut off.\<close>

theorem pass_stops_by_itself:
  assumes "run_reconciliation_pass fromiso sha256 st acc subject fp now units wv n = Inr (st', summary)"
    and "queue_inv st" and "publication_inv sha256 st"
  shows "length (ps_steps summary) \<le> n \<and>
    (if open_work (fst (enqueue_ready_cases st acc fp units wv now)) acc < n
     then due_query st' acc now = [] \<or> (ps_steps summary \<noteq> [] \<and> stops (last (ps_steps summary))) else True)"
proof -
  let ?st1 = "fst (enqueue_ready_cases st acc fp units wv now)"
  have sim: "simulates sha256 (st, []) (?st1, [])" by (rule simulates_enqueue_ready)
  then have inv: "queue_inv ?st1" "publication_inv sha256 ?st1"
    using queue.reaches_keeps [of "(st, [])" "(?st1, [])"] assms(2,3) simulates_inv
    by (auto simp: simulates_def wf_inv_def)
  have "drain fromiso sha256 acc subject fp now n ?st1 [] = Inr (st', ps_steps summary)"
    using assms(1) by (auto simp: run_reconciliation_pass_def split: prod.splits sum.splits)
  from drain_progress [OF inv this] show ?thesis by auto
qed

section \<open>What the stages do\<close>

lemma commit_new_tasks:
  assumes "commit_stage st acc c now nx rq art = Some (st', out)"
  shows "map wt_stage (drop (length (st_tasks st)) (st_tasks st')) =
    (if so_status out = CS_FENCED then [] else case nx of None \<Rightarrow> [] | Some stage \<Rightarrow> [stage])"
    and "st_cases st' = st_cases st"
proof -
  have len: "length (st_tasks (upd_task i f s)) = length (st_tasks s)" for i f s
    by (simp add: row_simps)
  from assms have "map wt_stage (drop (length (st_tasks st)) (st_tasks st')) =
    (if so_status out = CS_FENCED then [] else case nx of None \<Rightarrow> [] | Some stage \<Rightarrow> [stage]) \<and> st_cases st' = st_cases st"
  proof (cases rule: commit_stage_cases)
    case (committed t a st2)
    have "length (st_tasks st2) = length (st_tasks st)" "st_cases st2 = st_cases st"
      by (simp_all add: committed(5) len upd_attempt_simps) (simp_all add: upd_task_def upd_attempt_def)
    with committed(4,6) show ?thesis by (auto simp: enqueue_task_def Let_def split: option.splits)
  qed (auto simp: fence_attempt_def upd_attempt_def)
  then show "map wt_stage (drop (length (st_tasks st)) (st_tasks st')) =
    (if so_status out = CS_FENCED then [] else case nx of None \<Rightarrow> [] | Some stage \<Rightarrow> [stage])" "st_cases st' = st_cases st"
    by blast+
qed

lemma version_for_content:
  "version_for st acc c result = (st1, v) \<Longrightarrow> cv_content_hash v = rs_content_hash result \<and> st_verdicts st1 = st_verdicts st"
  by (auto simp: version_for_def commit_case_version_def Let_def find_Some_iff split: option.split_asm)

text \<open>The verdict of a version is recorded once: the one it has, or the verifier's on the computed result.\<close>

lemma record_verdict_exact:
  assumes "record_verification_verdict fromiso st acc job c v result = Inr (st', w)"
  shows "find_verdict st' acc (cv_id v) = Some w \<and>
    (find_verdict st acc (cv_id v) = Some w \<and> st_verdicts st' = st_verdicts st \<or>
     find_verdict st acc (cv_id v) = None \<and> st_verdicts st' = st_verdicts st @ [w] \<and>
     (\<exists>verdict. verify_case fromiso st acc job result = Inr verdict \<and>
       (vd_completes w \<longleftrightarrow> finalize_case_status verdict (rs_unresolved result) = COMPLETED)))"
proof (cases "find_verdict st acc (cv_id v)")
  case None
  with assms obtain verdict where "verify_case fromiso st acc job result = Inr verdict"
    "vd_completes w \<longleftrightarrow> finalize_case_status verdict (rs_unresolved result) = COMPLETED"
    "st_verdicts st' = st_verdicts st @ [w]" "vd_account w = acc" "vd_case_version w = cv_id v"
    by (auto simp: record_verification_verdict_def ebind_Inr Let_def)
  with None show ?thesis by (simp add: find_verdict_def find_append)
next
  case (Some u)
  with assms show ?thesis by (simp add: record_verification_verdict_def)
qed

text \<open>C10: the reconcile stage advances a case only on a completing verdict of the version of the result it
  just computed: the version kept under the content hash of that result (stored already, or committed by
  the stage), and the one verdict that version has (recorded earlier for the same content, or given by
  the verifier now). Then, and only then, a publish task is enqueued. Otherwise nothing is enqueued and
  the case waits for machine data as unresolved. Either way nothing is proposed or published.\<close>

theorem reconcile_stage_withholds_unverified:
  assumes "run_reconcile_stage fromiso sha256 st acc c opcase job now = Inr (st', s)"
  shows "\<exists>result st1 v w. compute_case_result fromiso sha256 st acc job = Inr result \<and>
    version_for st acc opcase result = (st1, v) \<and> v \<in> set (st_versions st') \<and> cv_account v = acc \<and>
    cv_case v = oc_id opcase \<and> cv_content_hash v = rs_content_hash result \<and>
    find_verdict st' acc (cv_id v) = Some w \<and>
    (find_verdict st acc (cv_id v) = Some w \<and> st_verdicts st' = st_verdicts st \<or>
     find_verdict st acc (cv_id v) = None \<and> st_verdicts st' = st_verdicts st @ [w] \<and>
     (\<exists>verdict. verify_case fromiso st1 acc job result = Inr verdict \<and>
       (vd_completes w \<longleftrightarrow> finalize_case_status verdict (rs_unresolved result) = COMPLETED))) \<and>
    (case ds_result s of
       DR_ADVANCED \<Rightarrow> vd_completes w \<and> map wt_stage (drop (length (st_tasks st)) (st_tasks st')) = [WS_PUBLISH]
     | DR_FENCED \<Rightarrow> vd_completes w \<and> drop (length (st_tasks st)) (st_tasks st') = []
     | DR_UNRESOLVED \<Rightarrow> \<not> vd_completes w \<and> drop (length (st_tasks st)) (st_tasks st') = [] \<and>
         list_all (\<lambda>r. oc_automation_status r = AS_WAITING_FOR_MACHINE_DATA \<and> oc_business_status r = BS_UNRESOLVED)
           (filter (\<lambda>r. oc_id r = oc_id opcase) (st_cases st'))
     | _ \<Rightarrow> False) \<and>
    st_intents st' = st_intents st \<and> st_publications st' = st_publications st"
  using assms
proof (cases rule: reconcile_stage_commits)
  case (1 result st1 v st2 w out)
  note v = simulates_version(2-4) [OF 1(2)] version_for_content [OF 1(2)]
  have sq: "same_queue st st2"
    using stage_frames(4) [OF 1(2)] stage_frames(5) [OF 1(3)] by (rule same_queue_trans)
  obtain ws n where st2: "st2 = st1\<lparr>st_verdicts := st_verdicts st1 @ ws, st_next := n\<rparr>" "st_next st1 \<le> n"
    using 1(3) by (rule record_verdict_frame)
  have "st_intents st1 = st_intents st" "st_publications st1 = st_publications st"
    using 1(2) by (auto simp: version_for_def commit_case_version_def Let_def split: option.splits)
  then have pubs: "st_intents st2 = st_intents st" "st_publications st2 = st_publications st"
    "st_versions st2 = st_versions st1" by (simp_all add: st2)
  have out: "same_publication (mark_case opcase a b st2) st'" "st_tasks (mark_case opcase a b st2) = st_tasks st"
    if "commit_stage (mark_case opcase a b st2) acc c now nx None None = Some (st', out)" for a b nx
    using commit_frame [OF that] sq by (simp_all add: mark_case_def upd_case_def same_queue_def)
  note end' = out [OF 1(4)] commit_new_tasks [OF 1(4)]
  have waits: "list_all (\<lambda>r. oc_automation_status r = AS_WAITING_FOR_MACHINE_DATA \<and> oc_business_status r = BS_UNRESOLVED)
      (filter (\<lambda>r. oc_id r = oc_id opcase) (st_cases st'))" if "\<not> vd_completes w"
    using that end'(4) by (auto simp: mark_case_def upd_case_def row_upd_def list_all_iff split: if_splits)
  have same: "st_versions st' = st_versions st1" "st_verdicts st' = st_verdicts st2"
    "st_intents st' = st_intents st" "st_publications st' = st_publications st"
    using end'(1) pubs by (simp_all add: same_publication_def mark_case_def upd_case_def)
  have verdict: "find_verdict st' acc (cv_id v) = Some w \<and>
    (find_verdict st acc (cv_id v) = Some w \<and> st_verdicts st' = st_verdicts st \<or>
     find_verdict st acc (cv_id v) = None \<and> st_verdicts st' = st_verdicts st @ [w] \<and>
     (\<exists>verdict. verify_case fromiso st1 acc job result = Inr verdict \<and>
       (vd_completes w \<longleftrightarrow> finalize_case_status verdict (rs_unresolved result) = COMPLETED)))"
    using record_verdict_exact [OF 1(3)] v(4) by (simp add: find_verdict_def same(2))
  have stage: "case ds_result s of
       DR_ADVANCED \<Rightarrow> vd_completes w \<and> map wt_stage (drop (length (st_tasks st)) (st_tasks st')) = [WS_PUBLISH]
     | DR_FENCED \<Rightarrow> vd_completes w \<and> drop (length (st_tasks st)) (st_tasks st') = []
     | DR_UNRESOLVED \<Rightarrow> \<not> vd_completes w \<and> drop (length (st_tasks st)) (st_tasks st') = [] \<and>
         list_all (\<lambda>r. oc_automation_status r = AS_WAITING_FOR_MACHINE_DATA \<and> oc_business_status r = BS_UNRESOLVED)
           (filter (\<lambda>r. oc_id r = oc_id opcase) (st_cases st'))
     | _ \<Rightarrow> False"
    using end'(2,3) waits unfolding 1(5) stage_step_def by (simp split: if_splits)
  show ?thesis
    using 1(1,2) v same verdict stage by (intro exI [of _ result] exI [of _ st1] exI [of _ v] exI [of _ w]) simp
qed

text \<open>a result that returns to earlier content is verified against its old version but published
  as another: the stage reuses the old version, commits none, and the version the publish stage
  will propose is still the latest, whose content is not the result just computed.\<close>

theorem reverted_result_publishes_other_content:
  assumes "compute_case_result fromiso sha256 st acc job = Inr result"
    and "run_reconcile_stage fromiso sha256 st acc c opcase job now = Inr (st', s)"
    and "v \<in> set (versions_of_case st acc (oc_id opcase))" and "cv_content_hash v = rs_content_hash result"
    and "latest_version st acc (oc_id opcase) = Some newest" and "cv_content_hash newest \<noteq> rs_content_hash result"
  shows "st_versions st' = st_versions st \<and> latest_version st' acc (oc_id opcase) = Some newest \<and>
    newest \<noteq> snd (version_for st acc opcase result) \<and>
    cv_content_hash (snd (version_for st acc opcase result)) = rs_content_hash result"
  using assms(2)
proof (cases rule: reconcile_stage_commits)
  case (1 result' st1 u st2 w out)
  have [simp]: "result' = result" using 1(1) assms(1) by simp
  obtain v0 where v0: "find (\<lambda>v. cv_account v = acc \<and> cv_case v = oc_id opcase \<and>
      cv_content_hash v = rs_content_hash result) (st_versions st) = Some v0"
    using assms(3,4) by (cases "find (\<lambda>v. cv_account v = acc \<and> cv_case v = oc_id opcase \<and>
      cv_content_hash v = rs_content_hash result) (st_versions st)") (auto simp: find_None_iff versions_of_case_def)
  then have "cv_content_hash v0 = rs_content_hash result" by (auto simp: find_Some_iff)
  moreover have u: "version_for st acc opcase result = (st, v0)" using v0 by (simp add: version_for_def)
  moreover obtain ws n where "st2 = st1\<lparr>st_verdicts := st_verdicts st1 @ ws, st_next := n\<rparr>" "st_next st1 \<le> n"
    using 1(3) by (rule record_verdict_frame)
  then have "st_versions st' = st_versions st"
    using commit_frame [OF 1(4)] 1(2) u by (simp add: same_publication_def mark_case_def upd_case_def)
  ultimately show ?thesis using assms(5,6) by (auto simp: latest_version_def versions_of_case_def)
qed

text \<open>C25: a dispatch that is refused after a ready proposal is reported as deferred, but its task is
  committed as succeeded, so no pass ever tries it again.\<close>

theorem refused_publication_not_retried:
  assumes "run_publish_stage sha256 st acc c opcase v subject fp now = Inr (st', s)"
    and "propose_publication sha256 st acc opcase v subject fp PRIVATE_PORTAL DEFAULT_CASE_TYPE now False = Some (st1, r)"
    and "pp_ready r" and "pp_intent r = Some k" and "row_get ai_id k (st_intents st1) = Some i"
    and "ai_account i = acc" and "\<not> pu_published (snd (publish_case sha256 st1 acc i (cv_result_json v) now False))"
    and "queue_inv st" and "claim_ok st c" and "get_task_locked st (tc_task_id c) acc = Some t" and "lease_held c t"
  shows "ds_result s = DR_DEFERRED \<and> row_get wt_id (tc_task_id c) (st_tasks st') = Some (succeed t) \<and> settled (succeed t)"
  using assms(1)
proof (cases rule: publish_stage_commits)
  case (withheld st2 q)
  with assms(2-4) show ?thesis by simp
next
  case (tried st2 q j st3 u st4 w out)
  have [simp]: "st2 = st1" "q = r" using tried(1) assms(2) by simp_all
  then have [simp]: "j = i" using tried(2,3) assms(4,5) by auto
  have "\<not> pu_published u" using assms(7) tried(4) by simp
  then have w: "st4 = st3" "w = unconfirmed NOT_PUBLISHED" using tried(5) by auto
  have "publish_case sha256 st1 (ai_account i) i (cv_result_json v) now False = (st3, u)"
    using tried(4) by (simp add: assms(6))
  then have "same_queue st1 st3" by (rule stage_frames(2))
  then have same: "same_queue st st3"
    using stage_frames(1) [OF assms(2)] by (blast intro: same_queue_trans)
  have t: "row_get wt_id (tc_task_id c) (st_tasks st) = Some t" "wt_account t = acc" "wt_id t = tc_task_id c"
    using assms(10) by (auto simp: get_task_locked_Some dest: row_get_key)
  from commit_work(1,2) [OF assms(8) t(1,2) assms(11) t(3) assms(9) same tried(6) [unfolded w]] show ?thesis by (simp add: tried(7) w unconfirmed_def settled_def succeed_def)
qed

section \<open>A concrete pass\<close>

definition sample_publishing :: store where
  "sample_publishing = sample_verified\<lparr>st_jobs := [sample_job], st_runs := [sample_run],
    st_tasks := map (\<lambda>t. t\<lparr>wt_stage := WS_PUBLISH\<rparr>) (st_tasks sample_queue)\<rparr>"

definition sample_pass :: "dispatch_error + (store \<times> pass_summary)" where
  "sample_pass = run_reconciliation_pass sample_iso sample_hash sample_publishing 7 ''svc'' ''fp'' 5
    DEFAULT_BUDGET_UNITS WORKFLOW_VERSION 10"

lemma sample_pass_result:
  obtains st' summary where "sample_pass = Inr (st', summary)" "map ds_result (ps_steps summary) = [DR_COMPLETED]"
    "length (st_publications st') = 1"
proof -
  have "case sample_pass of Inl _ \<Rightarrow> False | Inr (st', summary) \<Rightarrow>
      map ds_result (ps_steps summary) = [DR_COMPLETED] \<and> length (st_publications st') = 1"
    by code_simp
  then show thesis by (auto split: sum.splits intro: that)
qed

lemma sample_publishing_inv: "queue_inv sample_publishing" "publication_inv sample_hash sample_publishing"
proof -
  show "queue_inv sample_publishing"
    by (simp add: queue_inv_def sample_publishing_def sample_verified_def sample_authority_def empty_store_def
        sample_queue_def enqueue_task_def Let_def task_ok_def)
  show "publication_inv sample_hash sample_publishing"
    by (simp add: publication_inv_def sample_publishing_def sample_verified_def sample_authority_def empty_store_def)
qed

theorem pass_refines_components_witness:
  "\<exists>st'. length (st_publications st') = 1 \<and> reaches (publication_step sample_hash) sample_publishing st'"
proof -
  obtain st' summary where p: "sample_pass = Inr (st', summary)" "length (st_publications st') = 1"
    by (rule sample_pass_result)
  from pass_refines_components [OF p(1) [unfolded sample_pass_def] sample_publishing_inv(2), of "[]"] p(2) show ?thesis
    by blast
qed

theorem pass_stops_by_itself_witness:
  "\<exists>st' summary. sample_pass = Inr (st', summary) \<and> length (ps_steps summary) \<le> 10 \<and> due_query st' 7 5 = []"
proof -
  obtain st' summary where p: "sample_pass = Inr (st', summary)" "map ds_result (ps_steps summary) = [DR_COMPLETED]"
    by (rule sample_pass_result)
  have "open_work (fst (enqueue_ready_cases sample_publishing 7 ''fp'' DEFAULT_BUDGET_UNITS WORKFLOW_VERSION 5)) 7 < 10"
    by code_simp
  with pass_stops_by_itself [OF p(1) [unfolded sample_pass_def] sample_publishing_inv] p show ?thesis
    by (auto simp: stops_def map_eq_Cons_conv)
qed

section \<open>A concrete reversal and a concrete refusal\<close>

definition sample_content :: string where
  "sample_content = (case compute_case_result sample_iso sample_hash two_grades 7 sample_job of
    Inl _ \<Rightarrow> [] | Inr r \<Rightarrow> rs_content_hash r)"

definition sample_old :: case_version_row where
  "sample_old = sample_version\<lparr>cv_content_hash := sample_content\<rparr>"

definition sample_newest :: case_version_row where
  "sample_newest = sample_version\<lparr>cv_id := 17, cv_revision := 2, cv_content_hash := sample_content @ ''x''\<rparr>"

definition sample_reverting :: store where
  "sample_reverting = two_grades\<lparr>st_cases := [sample_opcase], st_versions := [sample_old, sample_newest]\<rparr>"

lemma commit_without_next: "commit_stage st acc c now None rq art \<noteq> None"
  by (simp add: commit_stage_def Let_def split: option.splits)

lemma publish_stage_runs:
  assumes "propose_publication sha256 st acc opcase v subject fp PRIVATE_PORTAL DEFAULT_CASE_TYPE now False = Some (st1, r)"
    and "pp_intent r = Some k" and "row_get ai_id k (st_intents st1) = Some i"
  obtains st' s where "run_publish_stage sha256 st acc c opcase v subject fp now = Inr (st', s)"
proof -
  obtain st2 u where u: "publish_case sha256 st1 acc i (cv_result_json v) now False = (st2, u)" by fastforce
  obtain st3 w where w: "(if pu_published u then reconcile_publication sha256 st2 acc i
      else (st2, unconfirmed NOT_PUBLISHED)) = (st3, w)" by fastforce
  obtain p where p: "commit_stage st3 acc c now None None None = Some p" using commit_without_next by blast
  have "\<exists>q. run_publish_stage sha256 st acc c opcase v subject fp now = Inr q"
    by (cases "pp_ready r"; cases p) (simp_all add: run_publish_stage_def assms u w p)
  then show thesis using that by fastforce
qed

lemma reconcile_stage_runs:
  assumes "compute_case_result fromiso sha256 st acc job = Inr result" and "version_for st acc opcase result = (st1, v)"
    and "record_verification_verdict fromiso st1 acc job opcase v result = Inr (st2, w)" and "\<not> vd_completes w"
  obtains st' s where "run_reconcile_stage fromiso sha256 st acc c opcase job now = Inr (st', s)"
proof -
  obtain p where "commit_stage (mark_case opcase AS_WAITING_FOR_MACHINE_DATA BS_UNRESOLVED st2)
      acc c now None None None = Some p"
    using commit_without_next by blast
  then show thesis using assms that by (cases p) (auto simp: run_reconcile_stage_def)
qed

text \<open>A computation and its verification read captures and observations only.\<close>

lemma compute_frame [simp]:
  "compute_case_result fromiso sha256 (st\<lparr>st_cases := cs, st_versions := vs\<rparr>) acc job =
    compute_case_result fromiso sha256 st acc job"
  "verify_case fromiso (st\<lparr>st_cases := cs, st_versions := vs\<rparr>) acc job = verify_case fromiso st acc job"
proof -
  let ?st = "st\<lparr>st_cases := cs, st_versions := vs\<rparr>"
  have reads: "revision_by_capture ?st acc = revision_by_capture st acc" "job_actuals ?st acc job = job_actuals st acc job"
    "find_capture ?st acc i = find_capture st acc i" "plan_rows ?st acc actual = plan_rows st acc actual" for i actual
    by (simp_all add: revision_by_capture_def job_actuals_def find_capture_def plan_rows_def)
  have plans: "matching_plans fromiso ?st acc job actual = matching_plans fromiso st acc job actual" for actual
    unfolding matching_plans_def reads ..
  have steps: "group_step fromiso ?st acc job = group_step fromiso st acc job"
    "evidence_step fromiso ?st acc job = evidence_step fromiso st acc job"
    unfolding group_step_def evidence_step_def reads plans fun_eq_iff by simp_all
  show "compute_case_result fromiso sha256 ?st acc job = compute_case_result fromiso sha256 st acc job"
    unfolding compute_case_result_def reads steps ..
  show "verify_case fromiso ?st acc job = verify_case fromiso st acc job"
    unfolding verify_case_def build_evidence_def reads steps fun_eq_iff by simp
qed

lemma sample_reverting_result:
  obtains result st' s where "compute_case_result sample_iso sample_hash sample_reverting 7 sample_job = Inr result"
    "rs_content_hash result = sample_content"
    "run_reconcile_stage sample_iso sample_hash sample_reverting 7 sample_claim sample_opcase sample_job 6 = Inr (st', s)"
proof -
  have frame: "compute_case_result sample_iso sample_hash sample_reverting 7 sample_job =
      compute_case_result sample_iso sample_hash two_grades 7 sample_job"
    "verify_case sample_iso sample_reverting 7 sample_job = verify_case sample_iso two_grades 7 sample_job"
    by (simp_all add: sample_reverting_def)
  obtain result verdict where two: "compute_case_result sample_iso sample_hash two_grades 7 sample_job = Inr result"
    and u: "rs_unresolved result" and v: "verify_case sample_iso two_grades 7 sample_job result = Inr verdict"
    by (rule two_grades_verified)
  then have r: "compute_case_result sample_iso sample_hash sample_reverting 7 sample_job = Inr result"
    "rs_content_hash result = sample_content"
    by (simp_all add: frame(1) sample_content_def)
  note v' = v [folded frame(2)]
  have version: "version_for sample_reverting 7 sample_opcase result = (sample_reverting, sample_old)"
    by (simp add: version_for_def r(2) sample_reverting_def sample_old_def sample_version_def sample_opcase_def)
  have none: "find_verdict sample_reverting 7 (cv_id sample_old) = None"
    by (simp add: find_verdict_def sample_reverting_def two_grades_def sample_case_store_def empty_store_def)
  have "\<not> finalize_case_status verdict True = COMPLETED" by (simp add: finalize_case_status_def)
  then obtain st2 w where "record_verification_verdict sample_iso sample_reverting 7 sample_job sample_opcase
      sample_old result = Inr (st2, w)" "\<not> vd_completes w"
    using u v' none by (auto simp: record_verification_verdict_def ebind_def Let_def)
  from reconcile_stage_runs [OF r(1) version this] r show thesis by (blast intro: that)
qed

theorem reverted_result_publishes_other_content_witness:
  "\<exists>st' s. run_reconcile_stage sample_iso sample_hash sample_reverting 7 sample_claim sample_opcase sample_job 6 =
      Inr (st', s) \<and> latest_version st' 7 9 = Some sample_newest"
proof -
  obtain result st' s where r: "compute_case_result sample_iso sample_hash sample_reverting 7 sample_job = Inr result"
    "rs_content_hash result = sample_content"
    "run_reconcile_stage sample_iso sample_hash sample_reverting 7 sample_claim sample_opcase sample_job 6 = Inr (st', s)"
    by (rule sample_reverting_result)
  have "sample_old \<in> set (versions_of_case sample_reverting 7 (oc_id sample_opcase))"
    "latest_version sample_reverting 7 (oc_id sample_opcase) = Some sample_newest"
    by (simp_all add: versions_of_case_def latest_version_def sample_reverting_def sample_opcase_def sample_old_def
        sample_newest_def sample_version_def first_desc_def)
  from reverted_result_publishes_other_content [OF r(1,3) this(1) _ this(2)] r(2,3) show ?thesis
    by (auto simp: sample_old_def sample_newest_def sample_opcase_def)
qed

text \<open>Two validated cases of an account, one of which has its run.\<close>

definition sample_schedulable :: store where
  "sample_schedulable = empty_store\<lparr>st_next := 50, st_runs := [sample_run],
    st_cases := [sample_opcase\<lparr>oc_automation_status := AS_VALIDATED\<rparr>,
      sample_opcase\<lparr>oc_id := 40, oc_automation_status := AS_VALIDATED\<rparr>]\<rparr>"

theorem scheduling_idempotent_witness:
  "\<exists>st'. enqueue_ready_cases sample_schedulable 7 ''fp'' 10 ''w'' 6 = (st', 1) \<and>
    length (st_runs st') = 2 \<and> length (st_tasks st') = 1 \<and> enqueue_ready_cases st' 7 ''fp'' 10 ''w'' 9 = (st', 0)"
proof -
  obtain st' n where s: "enqueue_ready_cases sample_schedulable 7 ''fp'' 10 ''w'' 6 = (st', n)" by fastforce
  have d: "distinct (map oc_id (st_cases sample_schedulable))" and r: "length (st_runs sample_schedulable) = 1"
    and t: "length (st_tasks sample_schedulable) = 0"
    and new: "length (filter (\<lambda>c. \<not> has_run sample_schedulable 7 (oc_id c)) (ready_cases sample_schedulable 7)) = 1"
    by code_simp+
  from scheduling_idempotent [OF d s, of "''fp''" 10 "''w''" 9] s r t new show ?thesis
    by (auto simp: Let_def dest!: list_all2_lengthD)
qed

theorem reconcile_stage_withholds_unverified_witness:
  "\<exists>st' s. run_reconcile_stage sample_iso sample_hash sample_reverting 7 sample_claim sample_opcase sample_job 6 =
      Inr (st', s) \<and> st_intents st' = []"
proof -
  obtain result st' s where r:
    "run_reconcile_stage sample_iso sample_hash sample_reverting 7 sample_claim sample_opcase sample_job 6 = Inr (st', s)"
    by (rule sample_reverting_result)
  from reconcile_stage_withholds_unverified [OF r] r show ?thesis
    by (auto simp: sample_reverting_def two_grades_def sample_case_store_def empty_store_def)
qed

text \<open>The proposal of the sample was stopped once; now a worker holds its publish task.\<close>

definition sample_waiting :: store where
  "sample_waiting = sample_stopped\<lparr>st_runs := [sample_run],
    st_tasks := map (\<lambda>t. t\<lparr>wt_stage := WS_PUBLISH\<rparr>) (st_tasks sample_queue)\<rparr>"

definition sample_held :: store where
  "sample_held = fst (claim_task sample_waiting 7 5 DEFAULT_LEASE)"

lemma sample_waiting_inv: "queue_inv sample_waiting"
proof -
  have "st_attempts sample_stopped = []" "1 < st_next sample_stopped" by code_simp+
  then show ?thesis
    by (simp add: queue_inv_def sample_waiting_def sample_queue_def enqueue_task_def Let_def task_ok_def empty_store_def)
qed

theorem refused_publication_not_retried_witness:
  "\<exists>st' s c t. run_publish_stage sample_hash sample_held 7 c sample_opcase sample_version ''svc'' ''fp'' 6 = Inr (st', s) \<and>
    ds_result s = DR_DEFERRED \<and> row_get wt_id (tc_task_id c) (st_tasks st') = Some (succeed t)"
proof -
  have "snd (claim_task sample_waiting 7 5 DEFAULT_LEASE) \<noteq> None" by code_simp
  then obtain c where claim: "claim_task sample_waiting 7 5 DEFAULT_LEASE = (sample_held, Some c)"
    by (cases "claim_task sample_waiting 7 5 DEFAULT_LEASE") (auto simp: sample_held_def)
  obtain t where t: "row_get wt_id (tc_task_id c) (st_tasks sample_held) = Some t" "wt_account t = 7" "lease_held c t"
    "queue_inv sample_held" "claim_ok sample_held c"
    by (rule claimed_task [OF sample_waiting_inv claim])
  have "case propose_publication sample_hash sample_held 7 sample_opcase sample_version ''svc'' ''fp'' PRIVATE_PORTAL
      DEFAULT_CASE_TYPE 6 False of None \<Rightarrow> False | Some (st1, r) \<Rightarrow> pp_ready r \<and>
      (case pp_intent r of None \<Rightarrow> False | Some k \<Rightarrow>
        (case row_get ai_id k (st_intents st1) of None \<Rightarrow> False | Some i \<Rightarrow> ai_account i = 7 \<and>
          \<not> pu_published (snd (publish_case sample_hash st1 7 i (cv_result_json sample_version) 6 False))))"
    by code_simp
  then obtain st1 r k i where p: "propose_publication sample_hash sample_held 7 sample_opcase sample_version ''svc'' ''fp''
      PRIVATE_PORTAL DEFAULT_CASE_TYPE 6 False = Some (st1, r)" "pp_ready r" "pp_intent r = Some k"
      "row_get ai_id k (st_intents st1) = Some i" "ai_account i = 7"
      "\<not> pu_published (snd (publish_case sample_hash st1 7 i (cv_result_json sample_version) 6 False))"
    by (auto split: option.splits prod.splits)
  obtain st' s where "run_publish_stage sample_hash sample_held 7 c sample_opcase sample_version ''svc'' ''fp'' 6 = Inr (st', s)"
    using publish_stage_runs [OF p(1,3,4)] by blast
  from refused_publication_not_retried [OF this p t(4,5) _ t(3)] this t(1,2) show ?thesis
    by (auto simp: get_task_locked_Some)
qed

end
