(* ===== verification/Float64.thy ===== *)
theory Float64
  imports Prelude "HOL-Library.Log_Nat"
begin

text \<open>
  The floating-point arithmetic of Python: a finite \<open>float\<close> is the rational number it stands for, and
  every operation rounds its exact result to the nearest number of 53 significant bits, ties to even.
  Overflow, subnormal numbers, the sign of zero, infinities and NaN are not modelled: no figure of the
  modelled code leaves the normal range.
\<close>

type_synonym float64 = rat

section \<open>Rounding\<close>

definition half_even :: "rat \<Rightarrow> int" where
  "half_even x =
    (let f = \<lfloor>x\<rfloor>; r = x - of_int f in if r < 1 / 2 \<or> (r = 1 / 2 \<and> even f) then f else f + 1)"

text \<open>The exponent \<open>e\<close> of a positive number: \<open>2\<^sup>e \<le> q < 2\<^sup>e\<^sup>+\<^sup>1\<close>.\<close>

definition exponent2 :: "rat \<Rightarrow> int" where
  "exponent2 q =
    (case quotient_of q of (n, d) \<Rightarrow>
       let e = bitlen n - bitlen d in if 2 powi e \<le> q then e else e - 1)"

definition ulp :: "rat \<Rightarrow> rat" where
  "ulp q = 2 powi (exponent2 q - 52)"

definition fl :: "rat \<Rightarrow> float64" where
  "fl q = (if q = 0 then 0 else sgn q * of_int (half_even (\<bar>q\<bar> / ulp \<bar>q\<bar>)) * ulp \<bar>q\<bar>)"

text \<open>\<open>math.ceil\<close> and \<open>int\<close> of a float.\<close>

definition float_trunc :: "float64 \<Rightarrow> int" where
  "float_trunc x = (if x < 0 then \<lceil>x\<rceil> else \<lfloor>x\<rfloor>)"

text \<open>\<open>timedelta.total_seconds()\<close> of a duration in microseconds.\<close>

definition total_seconds :: "int \<Rightarrow> float64" where
  "total_seconds us = fl (of_int us / 10 ^ 6)"

section \<open>Facts\<close>

lemma half_even_error: "\<bar>of_int (half_even x) - x\<bar> \<le> 1 / 2"
proof -
  have "of_int \<lfloor>x\<rfloor> \<le> x" "x < of_int \<lfloor>x\<rfloor> + 1" by linarith+
  then show ?thesis unfolding half_even_def Let_def by (auto simp: abs_le_iff)
qed

lemma half_even_int [simp]: "half_even (of_int n) = n"
  by (simp add: half_even_def)

lemma half_even_mono:
  assumes "x \<le> y"
  shows "half_even x \<le> half_even y"
proof -
  have b: "\<lfloor>z\<rfloor> \<le> half_even z" "half_even z \<le> \<lfloor>z\<rfloor> + 1" for z
    by (auto simp: half_even_def Let_def)
  consider "\<lfloor>x\<rfloor> < \<lfloor>y\<rfloor>" | "\<lfloor>x\<rfloor> = \<lfloor>y\<rfloor>" using floor_mono [OF assms] by linarith
  then show ?thesis
  proof cases
    case 1
    with b(2) [of x] b(1) [of y] show ?thesis by linarith
  next
    case 2
    with assms show ?thesis by (auto simp: half_even_def Let_def)
  qed
qed

lemma exponent2_bounds:
  assumes "0 < q"
  shows "2 powi exponent2 q \<le> q" and "q < 2 powi (exponent2 q + 1)"
proof -
  obtain n d where nd: "quotient_of q = (n, d)" by (cases "quotient_of q") auto
  have d: "0 < d" using quotient_of_denom_pos [OF nd] .
  have q: "q = of_int n / of_int d" using quotient_of_div [OF nd] .
  with assms d have n: "0 < n" by (simp add: zero_less_divide_iff)
  define bn bd where "bn = nat (bitlen n)" and "bd = nat (bitlen d)"
  have pos: "0 < bitlen n" "0 < bitlen d" using n d by (simp_all add: bitlen_def floorlog_eq_if) (simp_all add: floorlog_def)
  have "2 ^ (bn - 1) \<le> n" "n < 2 ^ bn" "2 ^ (bd - 1) \<le> d" "d < 2 ^ bd"
    using bitlen_bounds [OF n] bitlen_bounds [OF d] pos by (simp_all add: bn_def bd_def nat_diff_distrib)
  then have "(of_int (2 ^ (bn - 1)) :: rat) \<le> of_int n" "(of_int n :: rat) < of_int (2 ^ bn)"
    "(of_int (2 ^ (bd - 1)) :: rat) \<le> of_int d" "(of_int d :: rat) < of_int (2 ^ bd)"
    by (simp_all only: of_int_le_iff of_int_less_iff)
  then have b: "2 powi (bitlen n - 1) \<le> (of_int n :: rat)" "(of_int n :: rat) < 2 powi bitlen n"
    "2 powi (bitlen d - 1) \<le> (of_int d :: rat)" "(of_int d :: rat) < 2 powi bitlen d"
    using pos by (simp_all add: power_int_def bn_def bd_def nat_diff_distrib)
  let ?e = "bitlen n - bitlen d"
  have "2 powi (bitlen n - 1) / 2 powi bitlen d \<le> q"
    unfolding q by (rule frac_le) (use b d n in simp_all)
  then have lo: "2 powi (?e - 1) \<le> q"
    by (simp add: algebra_simps flip: power_int_diff)
  have "q < 2 powi bitlen n / 2 powi (bitlen d - 1)"
    unfolding q by (rule frac_less) (use b n in simp_all)
  then have hi: "q < 2 powi (?e + 1)"
    by (simp add: algebra_simps flip: power_int_diff)
  from lo hi show "2 powi exponent2 q \<le> q" and "q < 2 powi (exponent2 q + 1)"
    by (auto simp: exponent2_def nd Let_def)
qed

lemma powi2_less [simp]: "(2 :: rat) powi a < 2 powi b \<longleftrightarrow> a < b"
  by (meson linorder_not_less one_less_numeral_iff order_less_imp_le power_int_increasing
      power_int_strict_increasing semiring_norm(76))

lemma powi2_le [simp]: "(2 :: rat) powi a \<le> 2 powi b \<longleftrightarrow> a \<le> b"
  by (simp flip: linorder_not_less)

lemma exponent2_mono:
  assumes "0 < q" and "q \<le> r"
  shows "exponent2 q \<le> exponent2 r"
proof -
  have "2 powi exponent2 q \<le> q" "r < 2 powi (exponent2 r + 1)"
    using exponent2_bounds [of q] exponent2_bounds [of r] assms by simp_all
  with assms(2) have "(2 :: rat) powi exponent2 q < 2 powi (exponent2 r + 1)" by linarith
  then show ?thesis by simp
qed

lemma exponent2_unique:
  assumes "2 powi e \<le> q" and "q < 2 powi (e + 1)"
  shows "exponent2 q = e"
proof -
  have "0 < (2 :: rat) powi e" by simp
  with assms(1) have "0 < q" by linarith
  note b = exponent2_bounds [OF this]
  have "(2 :: rat) powi e < 2 powi (exponent2 q + 1)" "(2 :: rat) powi exponent2 q < 2 powi (e + 1)"
    using assms b by linarith+
  then show ?thesis by simp
qed

lemma ulp_pos [simp]: "0 < ulp q" "0 \<le> ulp q" "ulp q \<noteq> 0"
  by (simp_all add: ulp_def)

lemma fl_0 [simp]: "fl 0 = 0"
  by (simp add: fl_def)

lemma fl_minus: "fl (- q) = - fl q"
  by (simp add: fl_def)

lemma fl_pos: "0 < q \<Longrightarrow> fl q = of_int (half_even (q / ulp q)) * ulp q"
  by (simp add: fl_def)

lemma fl_error: "\<bar>fl q - q\<bar> \<le> \<bar>q\<bar> / 2 ^ 53"
proof -
  have pos: "\<bar>fl q - q\<bar> \<le> q / 2 ^ 53" if "0 < q" for q
  proof -
    have "\<bar>(of_int (half_even (q / ulp q)) - q / ulp q) * ulp q\<bar> \<le> 1 / 2 * ulp q"
      unfolding abs_mult by (rule mult_mono) (use half_even_error [of "q / ulp q"] in simp_all)
    moreover have "(of_int (half_even (q / ulp q)) - q / ulp q) * ulp q = fl q - q"
      using that by (simp add: fl_pos left_diff_distrib)
    moreover have "1 / 2 * ulp q = 2 powi exponent2 q / 2 ^ 53"
      by (simp add: ulp_def power_int_diff)
    ultimately show ?thesis using exponent2_bounds(1) [OF that] by (simp add: divide_right_mono)
  qed
  consider "0 < q" | "q = 0" | "0 < - q" by linarith
  then show ?thesis
  proof cases
    case 1
    with pos [of q] show ?thesis by simp
  next
    case 3
    with pos [of "- q"] show ?thesis by (simp add: fl_minus abs_minus_commute)
  qed simp
qed

lemma fl_near:
  assumes "\<bar>q\<bar> \<le> b"
  shows "q - b / 2 ^ 53 \<le> fl q" and "fl q \<le> q + b / 2 ^ 53"
proof -
  have "\<bar>fl q - q\<bar> \<le> b / 2 ^ 53"
    using fl_error [of q] by (rule order.trans) (rule divide_right_mono [OF assms], simp)
  then show "q - b / 2 ^ 53 \<le> fl q" and "fl q \<le> q + b / 2 ^ 53" by linarith+
qed

lemma fl_bounds:
  assumes "0 < q"
  shows "2 powi exponent2 q \<le> fl q" and "fl q \<le> 2 powi (exponent2 q + 1)"
proof -
  note b = exponent2_bounds [OF assms]
  have u: "2 powi exponent2 q = of_int (2 ^ 52) * ulp q" "2 powi (exponent2 q + 1) = of_int (2 ^ 53) * ulp q"
    by (simp_all add: ulp_def power_int_diff power_int_add)
  have "of_int (2 ^ 52) \<le> q / ulp q" "q / ulp q \<le> of_int (2 ^ 53)"
    using b unfolding u by (simp_all add: pos_le_divide_eq pos_divide_le_eq)
  from half_even_mono [OF this(1)] half_even_mono [OF this(2)]
  have "2 ^ 52 \<le> half_even (q / ulp q)" "half_even (q / ulp q) \<le> 2 ^ 53" by (simp_all only: half_even_int)
  then show "2 powi exponent2 q \<le> fl q" and "fl q \<le> 2 powi (exponent2 q + 1)"
    unfolding u fl_pos [OF assms] by (intro mult_right_mono; simp only: of_int_le_iff; simp)+
qed

lemma fl_positive: "0 < q \<Longrightarrow> 0 < fl q"
  using fl_bounds(1) [of q] by (meson less_le_trans zero_less_numeral zero_less_power_int)

lemma fl_mono:
  assumes "q \<le> r"
  shows "fl q \<le> fl r"
proof -
  have pos: "fl q \<le> fl r" if "0 < q" "q \<le> r" for q r
  proof -
    have r: "0 < r" using that by linarith
    note e = exponent2_mono [OF that]
    consider "exponent2 q = exponent2 r" | "exponent2 q < exponent2 r" using e by linarith
    then show ?thesis
    proof cases
      case 1
      then have "ulp q = ulp r" by (simp add: ulp_def)
      then show ?thesis
        using half_even_mono [OF divide_right_mono [of q r "ulp r"]] that by (simp add: fl_pos r)
    next
      case 2
      then have "(2 :: rat) powi (exponent2 q + 1) \<le> 2 powi exponent2 r" by simp
      with fl_bounds(2) [OF that(1)] fl_bounds(1) [OF r] show ?thesis by linarith
    qed
  qed
  consider "0 < q" | "q \<le> 0" "0 \<le> r" | "r < 0" by linarith
  then show ?thesis
  proof cases
    case 2
    then have "fl q \<le> 0" "0 \<le> fl r"
      using fl_positive [of r] fl_positive [of "- q"] by (cases "q = 0"; cases "r = 0"; simp add: fl_minus)+
    then show ?thesis by linarith
  next
    case 3
    with pos [of "- r" "- q"] assms show ?thesis by (simp add: fl_minus)
  qed (use pos assms in blast)
qed

text \<open>Numbers of at most 53 bits are exact.\<close>

lemma fl_exact:
  assumes "\<bar>m\<bar> \<le> 2 ^ 53"
  shows "fl (of_int m * 2 powi k) = of_int m * 2 powi k"
proof -
  have pos: "fl (of_int m * 2 powi k) = of_int m * 2 powi k" if "0 < m" "m \<le> 2 ^ 53" for m
  proof -
    let ?q = "of_int m * 2 powi k :: rat"
    have q: "0 < ?q" using that by simp
    obtain j where j: "?q = of_int j * ulp ?q"
    proof (cases "m = 2 ^ 53")
      case True
      then have "?q = 2 powi (53 + k)" by (simp add: power_int_add)
      moreover have "exponent2 (2 powi (53 + k)) = 53 + k" by (rule exponent2_unique) simp_all
      ultimately have "?q = of_int (2 ^ 52) * ulp ?q"
        by (simp add: ulp_def power_int_add)
      with that show ?thesis by blast
    next
      case False
      with \<open>m \<le> 2 ^ 53\<close> have "m < 2 ^ 53" by linarith
      then have "(of_int m :: rat) < of_int (2 ^ 53)" by (simp only: of_int_less_iff)
      then have "?q < of_int (2 ^ 53) * 2 powi k" by (intro mult_strict_right_mono) simp_all
      also have "\<dots> = 2 powi (53 + k)" by (simp add: power_int_add)
      finally have "(2 :: rat) powi exponent2 ?q < 2 powi (53 + k)"
        using exponent2_bounds(1) [OF q] by linarith
      then have e: "0 \<le> k - (exponent2 ?q - 52)" by simp
      have "(2 :: rat) powi k = 2 powi (k - (exponent2 ?q - 52)) * ulp ?q"
        unfolding ulp_def by (simp flip: power_int_add)
      also have "(2 :: rat) powi (k - (exponent2 ?q - 52)) = of_int (2 ^ nat (k - (exponent2 ?q - 52)))"
        using e by (simp add: power_int_def)
      finally have "?q = of_int (m * 2 ^ nat (k - (exponent2 ?q - 52))) * ulp ?q" by simp
      with that show ?thesis by blast
    qed
    then have "?q / ulp ?q = of_int j" unfolding nonzero_divide_eq_eq [OF ulp_pos(3)] .
    with fl_pos [OF q] j show ?thesis by (simp only: half_even_int)
  qed
  consider "0 < m" | "m = 0" | "0 < - m" by linarith
  then show ?thesis
  proof cases
    case 1
    with pos assms show ?thesis by simp
  next
    case 3
    with pos [of "- m"] assms show ?thesis by (simp add: fl_minus)
  qed simp
qed

lemma fl_int: "\<bar>m\<bar> \<le> 2 ^ 53 \<Longrightarrow> fl (of_int m) = of_int m"
  using fl_exact [of m 0] by simp

end
