(* ===== verification/Ledger.thy ===== *)
theory Ledger
  imports Contract Float64 "HOL-Library.Multiset"
begin

text \<open>
  The expected-work ledger (\<open>packages/shared/eastmed_shared/reconciliation/ledger.py\<close>): the
  classification of a job into exactly one outcome and the completion summary of a frozen cohort.
  The iteration order of a Python set is unspecified; the model visits the jobs in the order of the
  cohort, on which only the key order of \<open>by_outcome\<close> depends. The shortest
  text of a float is an argument of \<open>summary_render\<close>.
\<close>

section \<open>Data\<close>

record expected_job =
  xj_expected_job_id :: string
  xj_tenant_id :: string
  xj_vessel_ref :: string
  xj_period_start :: instant
  xj_period_end :: instant
  xj_due_at :: instant
  xj_contract_version :: string
  xj_result_contract_version :: string
  xj_required_record_kind :: record_kind

record job_observation =
  jo_expected_job_id :: string
  jo_outcome :: job_outcome
  jo_human_intervention :: bool
  jo_arrived :: bool

record completion_summary =
  cs_expected_jobs :: nat
  cs_correct_on_time_zero_touch :: nat
  cs_human_touch_jobs :: nat
  cs_arrived_jobs :: nat
  cs_out_of_contract_arrivals :: int
  cs_by_outcome :: "(job_outcome \<times> nat) list"

section \<open>Outcomes\<close>

definition classify_outcome :: "bool \<Rightarrow> bool \<Rightarrow> bool \<Rightarrow> bool \<Rightarrow> bool \<Rightarrow> bool \<Rightarrow> job_outcome" where
  "classify_outcome supported arrived resolved correct on_time deadline_passed =
    (if \<not> supported then JO_UNSUPPORTED
     else if \<not> arrived then (if deadline_passed then JO_MISSING else JO_PENDING_BEFORE_DEADLINE)
     else if \<not> resolved then (if deadline_passed then JO_UNRESOLVED else JO_PENDING_BEFORE_DEADLINE)
     else if \<not> correct then JO_INCORRECT
     else if on_time then JO_CORRECT_ON_TIME else JO_CORRECT_LATE)"

section \<open>Rates\<close>

text \<open>\<open>None\<close> where the denominator is zero.\<close>

definition ratio :: "nat \<Rightarrow> nat \<Rightarrow> float64 option" where
  "ratio n d = (if d = 0 then None else Some (fl (of_nat n / of_nat d)))"

definition completion_rate :: "completion_summary \<Rightarrow> float64 option" where
  "completion_rate s = ratio (cs_correct_on_time_zero_touch s) (cs_expected_jobs s)"

definition human_touch_rate :: "completion_summary \<Rightarrow> float64 option" where
  "human_touch_rate s = ratio (cs_human_touch_jobs s) (cs_expected_jobs s)"

definition arrived_eligibility :: "completion_summary \<Rightarrow> float64 option" where
  "arrived_eligibility s = ratio (cs_arrived_jobs s) (cs_expected_jobs s)"

definition eligible_completion :: "completion_summary \<Rightarrow> float64 option" where
  "eligible_completion s = ratio (cs_correct_on_time_zero_touch s) (cs_arrived_jobs s)"

definition rate_json :: "(float64 \<Rightarrow> string) \<Rightarrow> float64 option \<Rightarrow> json" where
  "rate_json show_float r = (case r of None \<Rightarrow> JNull | Some q \<Rightarrow> JFloat (show_float q))"

definition summary_render :: "(float64 \<Rightarrow> string) \<Rightarrow> completion_summary \<Rightarrow> json" where
  "summary_render show_float s = JObj
    [(''expected_jobs'', JInt (int (cs_expected_jobs s))),
     (''correct_on_time_zero_touch'', JInt (int (cs_correct_on_time_zero_touch s))),
     (''human_touch_jobs'', JInt (int (cs_human_touch_jobs s))),
     (''out_of_contract_arrivals'', JInt (cs_out_of_contract_arrivals s)),
     (''headline'', JObj
       [(''completion_rate'', rate_json show_float (completion_rate s)),
        (''human_touch_rate'', rate_json show_float (human_touch_rate s))]),
     (''diagnostics'', JObj
       [(''arrived_jobs'', JInt (int (cs_arrived_jobs s))),
        (''arrived_eligibility'', rate_json show_float (arrived_eligibility s)),
        (''eligible_completion'', rate_json show_float (eligible_completion s))]),
     (''by_outcome'', JObj (map (\<lambda>(k, n). (job_outcome_value k, JInt (int n))) (cs_by_outcome s)))]"

section \<open>The summary\<close>

text \<open>\<open>LedgerError\<close> carries its message.\<close>

datatype ledger_error = LedgerError string

fun collect_job_ids :: "string list \<Rightarrow> expected_job list \<Rightarrow> ledger_error + string list" where
  "collect_job_ids job_ids [] = Inr job_ids"
| "collect_job_ids job_ids (job # jobs) =
    (if xj_expected_job_id job \<in> set job_ids
     then Inl (LedgerError (''duplicate expected_job_id '' @ repr_str (xj_expected_job_id job)))
     else collect_job_ids (job_ids @ [xj_expected_job_id job]) jobs)"

fun index_observations ::
  "string list \<Rightarrow> (string \<times> job_observation) list \<Rightarrow> job_observation list \<Rightarrow>
    ledger_error + (string \<times> job_observation) list" where
  "index_observations job_ids by_id [] = Inr by_id"
| "index_observations job_ids by_id (observation # rest) =
    (if jo_expected_job_id observation \<notin> set job_ids
     then Inl (LedgerError (''observation references unknown job '' @ repr_str (jo_expected_job_id observation)))
     else if jo_expected_job_id observation \<in> fst ` set by_id
     then Inl (LedgerError (''duplicate observation for '' @ repr_str (jo_expected_job_id observation)))
     else index_observations job_ids (by_id @ [(jo_expected_job_id observation, observation)]) rest)"

text \<open>\<open>counts[outcome] += 1\<close> on a \<open>Counter\<close>.\<close>

fun count_outcome :: "job_outcome \<Rightarrow> (job_outcome \<times> nat) list \<Rightarrow> (job_outcome \<times> nat) list" where
  "count_outcome x [] = [(x, 1)]"
| "count_outcome x ((k, n) # t) = (if k = x then (k, n + 1) # t else (k, n) # count_outcome x t)"

definition unattended_success :: "job_observation \<Rightarrow> bool" where
  "unattended_success observation \<longleftrightarrow>
    jo_outcome observation = JO_CORRECT_ON_TIME \<and> \<not> jo_human_intervention observation"

definition count_observation :: "job_observation \<Rightarrow> completion_summary \<Rightarrow> completion_summary" where
  "count_observation observation s = s\<lparr>
    cs_by_outcome := count_outcome (jo_outcome observation) (cs_by_outcome s),
    cs_human_touch_jobs := cs_human_touch_jobs s + (if jo_human_intervention observation then 1 else 0),
    cs_arrived_jobs := cs_arrived_jobs s + (if jo_arrived observation then 1 else 0),
    cs_correct_on_time_zero_touch := cs_correct_on_time_zero_touch s
      + (if unattended_success observation then 1 else 0)\<rparr>"

definition summarize_ledger ::
  "expected_job list \<Rightarrow> job_observation list \<Rightarrow> int \<Rightarrow> ledger_error + completion_summary" where
  "summarize_ledger expected_jobs obs_rows out_of_contract_arrivals =
    (if out_of_contract_arrivals < 0
     then Inl (LedgerError ''out_of_contract_arrivals cannot be negative'')
     else
       ebind (collect_job_ids [] expected_jobs) (\<lambda>job_ids.
       ebind (index_observations job_ids [] obs_rows) (\<lambda>by_id.
       let unaccounted = filter (\<lambda>j. j \<notin> fst ` set by_id) job_ids in
       if unaccounted \<noteq> []
       then Inl (LedgerError (''expected jobs without an observation: '' @ join '', '' (sort unaccounted)))
       else Inr (fold (\<lambda>j. case map_of by_id j of None \<Rightarrow> id | Some obs \<Rightarrow> count_observation obs) job_ids
         \<lparr>cs_expected_jobs = length job_ids, cs_correct_on_time_zero_touch = 0, cs_human_touch_jobs = 0,
          cs_arrived_jobs = 0, cs_out_of_contract_arrivals = out_of_contract_arrivals,
          cs_by_outcome = []\<rparr>))))"

section \<open>The denominator is fully accounted\<close>

lemma collect_job_ids_Inr:
  "distinct acc \<Longrightarrow> collect_job_ids acc jobs = Inr ids \<longleftrightarrow>
    ids = acc @ map xj_expected_job_id jobs \<and> distinct ids"
  by (induction acc jobs rule: collect_job_ids.induct) auto

lemma index_observations_Inr:
  "distinct (map fst acc) \<Longrightarrow> index_observations ids acc obs = Inr by_id \<longleftrightarrow>
    by_id = acc @ map (\<lambda>x. (jo_expected_job_id x, x)) obs \<and> distinct (map fst by_id) \<and>
    (\<forall>x \<in> set obs. jo_expected_job_id x \<in> set ids)"
  by (induction ids acc obs rule: index_observations.induct) (force simp: image_iff)+

definition outcome_count :: "job_outcome \<Rightarrow> (job_outcome \<times> nat) list \<Rightarrow> nat" where
  "outcome_count k counts = (case map_of counts k of None \<Rightarrow> 0 | Some n \<Rightarrow> n)"

lemma outcome_count_Nil [simp]: "outcome_count k [] = 0"
  by (simp add: outcome_count_def)

lemma outcome_count_step: "outcome_count k (count_outcome x counts) =
    outcome_count k counts + (if k = x then 1 else 0)"
  by (induction x counts rule: count_outcome.induct) (auto simp: outcome_count_def)

lemma fold_count_observation:
  "cs_expected_jobs (fold count_observation obs s) = cs_expected_jobs s \<and>
   cs_out_of_contract_arrivals (fold count_observation obs s) = cs_out_of_contract_arrivals s \<and>
   cs_correct_on_time_zero_touch (fold count_observation obs s) =
     cs_correct_on_time_zero_touch s + length (filter unattended_success obs) \<and>
   cs_human_touch_jobs (fold count_observation obs s) =
     cs_human_touch_jobs s + length (filter jo_human_intervention obs) \<and>
   cs_arrived_jobs (fold count_observation obs s) = cs_arrived_jobs s + length (filter jo_arrived obs) \<and>
   outcome_count k (cs_by_outcome (fold count_observation obs s)) =
     outcome_count k (cs_by_outcome s) + length (filter (\<lambda>x. jo_outcome x = k) obs)"
  by (induction obs arbitrary: s) (auto simp: count_observation_def outcome_count_step)

text \<open>The loop over the cohort visits every observation once.\<close>

lemma fold_lookup:
  assumes "distinct (map fst by_id)" and "set (map fst by_id) = set ids" and "distinct ids"
  shows "\<exists>obs. mset obs = mset (map snd by_id) \<and>
    fold (\<lambda>j. case map_of by_id j of None \<Rightarrow> id | Some x \<Rightarrow> f x) ids = fold f obs"
proof -
  let ?obs = "map (\<lambda>j. the (map_of by_id j)) ids"
  have some: "\<forall>j \<in> set ids. map_of by_id j \<noteq> None"
    using assms(2) by (metis map_of_eq_None_iff set_map)
  have "fold (\<lambda>j. case map_of by_id j of None \<Rightarrow> id | Some x \<Rightarrow> f x) js = fold f (map (\<lambda>j. the (map_of by_id j)) js)"
    if "set js \<subseteq> set ids" for js
    using that some by (induction js) (auto split: option.splits)
  moreover have "mset ?obs = mset (map snd by_id)"
  proof -
    have "mset ids = mset (map fst by_id)"
      by (metis assms set_eq_iff_mset_eq_distinct)
    then have "mset ?obs = mset (map (\<lambda>j. the (map_of by_id j)) (map fst by_id))"
      by (metis mset_map)
    also have "map (\<lambda>j. the (map_of by_id j)) (map fst by_id) = map snd by_id"
      using assms(1) by (auto simp: map_of_eq_Some_iff)
    finally show ?thesis .
  qed
  ultimately show ?thesis by blast
qed

definition accounted :: "expected_job list \<Rightarrow> job_observation list \<Rightarrow> bool" where
  "accounted jobs obs \<longleftrightarrow> distinct (map xj_expected_job_id jobs) \<and>
    mset (map jo_expected_job_id obs) = mset (map xj_expected_job_id jobs)"

lemma accounted_iff:
  "accounted jobs obs \<longleftrightarrow> distinct (map xj_expected_job_id jobs) \<and>
    distinct (map jo_expected_job_id obs) \<and>
    jo_expected_job_id ` set obs = xj_expected_job_id ` set jobs"
  unfolding accounted_def
  by (metis list.set_map mset_eq_imp_distinct_iff mset_eq_setD set_eq_iff_mset_eq_distinct)

lemma by_id_facts:
  "map fst (map (\<lambda>x. (jo_expected_job_id x, x)) obs) = map jo_expected_job_id obs"
  "map snd (map (\<lambda>x. (jo_expected_job_id x, x)) obs) = obs"
  by (simp_all add: comp_def)

lemma summarize_ledger_Inr:
  "summarize_ledger jobs obs extra = Inr s \<longleftrightarrow> 0 \<le> extra \<and> accounted jobs obs \<and>
    s = fold (\<lambda>j. case map_of (map (\<lambda>x. (jo_expected_job_id x, x)) obs) j of
        None \<Rightarrow> id | Some x \<Rightarrow> count_observation x) (map xj_expected_job_id jobs)
      \<lparr>cs_expected_jobs = length jobs, cs_correct_on_time_zero_touch = 0, cs_human_touch_jobs = 0,
       cs_arrived_jobs = 0, cs_out_of_contract_arrivals = extra, cs_by_outcome = []\<rparr>"
  by (auto simp: summarize_ledger_def ebind_Inr collect_job_ids_Inr index_observations_Inr accounted_iff
      Let_def filter_empty_conv image_iff comp_def split: if_splits)

lemma summarize_ledger_counts:
  assumes "summarize_ledger jobs obs extra = Inr s"
  shows "0 \<le> extra \<and> accounted jobs obs \<and>
      cs_expected_jobs s = length jobs \<and> length obs = length jobs \<and> cs_out_of_contract_arrivals s = extra \<and>
      cs_correct_on_time_zero_touch s = length (filter unattended_success obs) \<and>
      cs_human_touch_jobs s = length (filter jo_human_intervention obs) \<and>
      cs_arrived_jobs s = length (filter jo_arrived obs) \<and>
      (\<forall>k. outcome_count k (cs_by_outcome s) = length (filter (\<lambda>x. jo_outcome x = k) obs))"
proof -
  note Inr = assms
  from assms have ok: "0 \<le> extra" "accounted jobs obs" by (simp_all add: summarize_ledger_Inr)
  let ?by_id = "map (\<lambda>x. (jo_expected_job_id x, x)) obs"
  have "distinct (map fst ?by_id)" "set (map fst ?by_id) = set (map xj_expected_job_id jobs)"
    "distinct (map xj_expected_job_id jobs)"
    using ok(2) unfolding by_id_facts accounted_iff by auto
  from fold_lookup [OF this, of count_observation] obtain os where os: "mset os = mset obs"
    and fold: "fold (\<lambda>j. case map_of ?by_id j of None \<Rightarrow> id | Some x \<Rightarrow> count_observation x)
      (map xj_expected_job_id jobs) = fold count_observation os"
    unfolding by_id_facts by blast
  have count: "length (filter P os) = length (filter P obs)" for P
    by (metis os mset_filter size_mset)
  have "length obs = length jobs"
    using ok(2) unfolding accounted_def by (metis length_map size_mset)
  moreover have "s = fold count_observation os
      \<lparr>cs_expected_jobs = length jobs, cs_correct_on_time_zero_touch = 0, cs_human_touch_jobs = 0,
       cs_arrived_jobs = 0, cs_out_of_contract_arrivals = extra, cs_by_outcome = []\<rparr>"
    using Inr unfolding summarize_ledger_Inr fold by blast
  ultimately show ?thesis
    using ok by (simp add: fold_count_observation count)
qed

text \<open>the summary of a cohort exists exactly when the count of stray arrivals is not negative, no
  job is listed twice, and every job has exactly one observation and no observation is foreign; then
  every figure counts the observations of the whole cohort, so nothing can leave the denominator and
  the outcomes partition it.\<close>

theorem summarize_ledger_exact:
  "case summarize_ledger jobs obs extra of
     Inl _ \<Rightarrow> \<not> (0 \<le> extra \<and> accounted jobs obs)
   | Inr s \<Rightarrow> 0 \<le> extra \<and> accounted jobs obs \<and>
      cs_expected_jobs s = length jobs \<and> length obs = length jobs \<and> cs_out_of_contract_arrivals s = extra \<and>
      cs_correct_on_time_zero_touch s = length (filter unattended_success obs) \<and>
      cs_human_touch_jobs s = length (filter jo_human_intervention obs) \<and>
      cs_arrived_jobs s = length (filter jo_arrived obs) \<and>
      (\<forall>k. outcome_count k (cs_by_outcome s) = length (filter (\<lambda>x. jo_outcome x = k) obs))"
proof (cases "summarize_ledger jobs obs extra")
  case (Inl e)
  with summarize_ledger_Inr [of jobs obs extra] show ?thesis by force
next
  case (Inr s)
  from summarize_ledger_counts [OF this] show ?thesis unfolding Inr by simp
qed

text \<open>Missing work is never a success, and the classification never counts a job that did not arrive
  as correct.\<close>

lemma classify_outcome_success:
  "classify_outcome supported arrived resolved correct on_time late = JO_CORRECT_ON_TIME \<longleftrightarrow>
    supported \<and> arrived \<and> resolved \<and> correct \<and> on_time"
  by (simp add: classify_outcome_def)

text \<open>The headline rate never exceeds one, nor the diagnostic that is taken over the arrived jobs when
  every success arrived.\<close>

lemma headline_at_most_one:
  assumes "summarize_ledger jobs obs extra = Inr s" and "completion_rate s = Some q"
  shows "q \<le> 1"
proof -
  from summarize_ledger_counts [OF assms(1)] have "cs_correct_on_time_zero_touch s \<le> cs_expected_jobs s"
    by (metis length_filter_le)
  moreover from assms(2) have "q = fl (of_nat (cs_correct_on_time_zero_touch s) / of_nat (cs_expected_jobs s))"
    by (auto simp: completion_rate_def ratio_def split: if_splits)
  ultimately have "q \<le> fl (of_int 1)" by (auto intro!: fl_mono simp: divide_le_eq_1)
  then show ?thesis using fl_int [of 1] by simp
qed

end
