(* ===== verification/ReadModel.thy ===== *)
theory ReadModel
  imports PyDecimal_Facts PyValues Float64 "HOL-Library.Product_Lexorder" "HOL-Library.AList"
begin

text \<open>
  The presentation rules of the private fleet report
  (\<open>packages/shared/eastmed_shared/reconciliation/read_model.py\<close>): how statuses roll up to one
  visible outcome, the labelling of values, totals over compatible quantities, and the choice of the
  empty state. Statuses arrive as strings, as in the code.
\<close>

section \<open>Constants and enumerations\<close>

definition READ_MODEL_VERSION :: string where "READ_MODEL_VERSION = ''recon_read_model_v1''"
definition CUSTOMER_ACTIONS :: "string list" where "CUSTOMER_ACTIONS = []"

datatype presentation_status =
  PS_COMPLETE | PS_IN_PROGRESS | PS_AWAITING_DATA | PS_UNRESOLVED | PS_DEGRADED | PS_DISABLED

primrec presentation_status_value :: "presentation_status \<Rightarrow> string" where
  "presentation_status_value PS_COMPLETE = ''complete''"
| "presentation_status_value PS_IN_PROGRESS = ''in_progress''"
| "presentation_status_value PS_AWAITING_DATA = ''awaiting_data''"
| "presentation_status_value PS_UNRESOLVED = ''unresolved''"
| "presentation_status_value PS_DEGRADED = ''degraded''"
| "presentation_status_value PS_DISABLED = ''disabled''"

datatype evidence_status = EV_CONFIRMED | EV_PENDING | EV_INCOMPLETE | EV_UNAVAILABLE

primrec evidence_status_value :: "evidence_status \<Rightarrow> string" where
  "evidence_status_value EV_CONFIRMED = ''confirmed''"
| "evidence_status_value EV_PENDING = ''pending''"
| "evidence_status_value EV_INCOMPLETE = ''incomplete''"
| "evidence_status_value EV_UNAVAILABLE = ''unavailable''"

datatype empty_state =
    ES_NONE
  | ES_NO_EXPECTED_JOBS
  | ES_NO_AUTHORIZED_FEED
  | ES_FEED_DELAYED
  | ES_NO_RELEVANT_DIFFERENCES
  | ES_INVALID_INPUTS
  | ES_CALCULATIONS_UNAVAILABLE
  | ES_DISABLED_SERVICE

primrec empty_state_value :: "empty_state \<Rightarrow> string" where
  "empty_state_value ES_NONE = ''none''"
| "empty_state_value ES_NO_EXPECTED_JOBS = ''no_expected_jobs''"
| "empty_state_value ES_NO_AUTHORIZED_FEED = ''no_authorized_feed''"
| "empty_state_value ES_FEED_DELAYED = ''feed_delayed''"
| "empty_state_value ES_NO_RELEVANT_DIFFERENCES = ''no_relevant_differences''"
| "empty_state_value ES_INVALID_INPUTS = ''invalid_inputs''"
| "empty_state_value ES_CALCULATIONS_UNAVAILABLE = ''calculations_unavailable''"
| "empty_state_value ES_DISABLED_SERVICE = ''disabled_service''"

section \<open>Statuses\<close>

definition AWAITING :: "string list" where
  "AWAITING = [''awaiting_arrival'', ''waiting_for_machine_data'']"

definition IN_PROGRESS :: "string list" where
  "IN_PROGRESS = [''received'', ''validated'', ''reconciled'', ''calculated'', ''publication_ready'', ''published'']"

definition NEXT_STEP :: "(string \<times> string option) list" where
  "NEXT_STEP =
    [(''awaiting_arrival'', Some ''await_authorized_report''),
     (''received'', Some ''validate''),
     (''validated'', Some ''reconcile''),
     (''reconciled'', Some ''calculate''),
     (''calculated'', Some ''verify''),
     (''publication_ready'', Some ''publish''),
     (''published'', Some ''confirm_read_back''),
     (''verified_complete'', None),
     (''waiting_for_machine_data'', Some ''await_machine_data''),
     (''recovering'', Some ''recover''),
     (''unresolved'', Some ''await_authorized_correction''),
     (''disabled'', None)]"

definition presented_status :: "string \<Rightarrow> string \<Rightarrow> presentation_status" where
  "presented_status automation_status business_status =
    (if automation_status = ''disabled'' then PS_DISABLED
     else if business_status = ''unresolved'' \<or> automation_status = ''unresolved'' then PS_UNRESOLVED
     else if automation_status = ''recovering'' then PS_DEGRADED
     else if automation_status \<in> set AWAITING then PS_AWAITING_DATA
     else if automation_status = ''verified_complete'' then PS_COMPLETE
     else if automation_status \<in> set IN_PROGRESS then PS_IN_PROGRESS
     else PS_IN_PROGRESS)"

definition next_machine_step :: "string \<Rightarrow> string option" where
  "next_machine_step automation_status =
    (case map_of NEXT_STEP automation_status of None \<Rightarrow> Some ''await_machine_data'' | Some s \<Rightarrow> s)"

definition is_completed :: "presentation_status \<Rightarrow> bool" where
  "is_completed status \<longleftrightarrow> status = PS_COMPLETE"

section \<open>Labelled values\<close>

definition ORIGIN_BY_FIELD :: "(string \<times> string) list" where
  "ORIGIN_BY_FIELD =
    [(''actual'', ''reported''), (''planned'', ''reported''), (''delta'', ''calculated''),
     (''delta_unrounded'', ''calculated''), (''percent'', ''calculated''),
     (''percent_unrounded'', ''calculated'')]"

record material_value =
  mv_name :: string
  mv_value :: string
  mv_origin :: string

record vessel_result_view =
  vr_fuel_grade :: string
  vr_unit :: "string option"
  vr_period_start :: "string option"
  vr_period_end :: "string option"
  vr_result_status :: string
  vr_values :: "material_value list"
  vr_reason :: "string option"

definition opt_text :: "string option \<Rightarrow> json" where
  "opt_text x = (case x of None \<Rightarrow> JNull | Some s \<Rightarrow> JStr s)"

definition material_value_render :: "material_value \<Rightarrow> json" where
  "material_value_render v = JObj
    [(''name'', JStr (mv_name v)), (''value'', JStr (mv_value v)), (''origin'', JStr (mv_origin v))]"

definition vessel_result_render :: "vessel_result_view \<Rightarrow> json" where
  "vessel_result_render v = JObj
    [(''fuel_grade'', JStr (vr_fuel_grade v)), (''unit'', opt_text (vr_unit v)),
     (''period_start'', opt_text (vr_period_start v)), (''period_end'', opt_text (vr_period_end v)),
     (''status'', JStr (vr_result_status v)), (''reason'', opt_text (vr_reason v)),
     (''values'', JList (map material_value_render (vr_values v)))]"

text \<open>\<open>None if x is None else str(x)\<close> of a value read with \<open>get\<close>.\<close>

definition str_or_none :: "json \<Rightarrow> string option" where
  "str_or_none v = (if v = JNull then None else Some (py_str v))"

definition material_values :: "(string \<times> json) list \<Rightarrow> material_value list" where
  "material_values entry =
    map (\<lambda>(name, origin). \<lparr>mv_name = name, mv_value = py_str (obj_get entry name), mv_origin = origin\<rparr>)
      (filter (\<lambda>(name, _). name \<noteq> ''delta_unrounded'' \<and> name \<noteq> ''percent_unrounded'' \<and>
         obj_get entry name \<noteq> JNull) ORIGIN_BY_FIELD)"

definition reconciled_view :: "(string \<times> json) list \<Rightarrow> vessel_result_view" where
  "reconciled_view entry =
    \<lparr>vr_fuel_grade = py_str (obj_get_default entry ''fuel_grade'' (JStr [])),
     vr_unit = str_or_none (obj_get entry ''unit''),
     vr_period_start = str_or_none (obj_get entry ''period_start''),
     vr_period_end = str_or_none (obj_get entry ''period_end''),
     vr_result_status = ''reconciled'', vr_values = material_values entry, vr_reason = None\<rparr>"

definition unresolved_view :: "(string \<times> json) list \<Rightarrow> vessel_result_view" where
  "unresolved_view entry =
    (let status = py_str (obj_get_default entry ''status'' (JStr []))
     in \<lparr>vr_fuel_grade = py_str (obj_get_default entry ''fuel_grade'' (JStr [])), vr_unit = None,
         vr_period_start = None, vr_period_end = None,
         vr_result_status = (if status = [] then ''unresolved'' else status), vr_values = [],
         vr_reason = str_or_none (obj_get entry ''reason'')\<rparr>)"

definition label_entry ::
  "(string \<times> json) list \<Rightarrow> vessel_result_view list \<times> string list \<Rightarrow>
    vessel_result_view list \<times> string list" where
  "label_entry entry acc =
    (let grade = py_str (obj_get_default entry ''fuel_grade'' (JStr []))
     in if py_str (obj_get_default entry ''status'' (JStr [])) \<noteq> ''reconciled''
        then (fst acc @ [unresolved_view entry], snd acc @ [if grade = [] then ''unknown'' else grade])
        else (fst acc @ [reconciled_view entry], snd acc))"

definition label_variances ::
  "(string \<times> json) list list \<Rightarrow> vessel_result_view list \<times> string list" where
  "label_variances variances = fold label_entry variances ([], [])"

section \<open>Fleet totals\<close>

text \<open>Decimals read back from text may be special values. \<open>None\<close> is \<open>InvalidOperation\<close>; sign and
  diagnostic digits of a NaN are not modelled.\<close>

definition decimal_add :: "decimal \<Rightarrow> decimal \<Rightarrow> decimal option" where
  "decimal_add a b =
    (case (a, b) of
       (SNaN, _) \<Rightarrow> None
     | (_, SNaN) \<Rightarrow> None
     | (NaN, _) \<Rightarrow> Some NaN
     | (_, NaN) \<Rightarrow> Some NaN
     | (Infinity s, Infinity t) \<Rightarrow> if s = t then Some (Infinity s) else None
     | (Infinity s, Finite _) \<Rightarrow> Some (Infinity s)
     | (Finite _, Infinity t) \<Rightarrow> Some (Infinity t)
     | (Finite x, Finite y) \<Rightarrow> Some (Finite (dec_add x y)))"

definition decimal_str :: "decimal \<Rightarrow> string" where
  "decimal_str d =
    (case d of Finite x \<Rightarrow> dec_str x | Infinity s \<Rightarrow> if s then ''-Infinity'' else ''Infinity''
     | NaN \<Rightarrow> ''NaN'' | SNaN \<Rightarrow> ''sNaN'')"

record fleet_total_group =
  fg_fuel_grade :: string
  fg_unit :: string
  fg_total_delta :: string
  fg_vessel_count :: nat

record fleet_total =
  ft_groups :: "fleet_total_group list"
  ft_excluded_unresolved :: nat
  ft_missing_reports :: nat

definition fleet_total_complete :: "fleet_total \<Rightarrow> bool" where
  "fleet_total_complete t \<longleftrightarrow> ft_excluded_unresolved t = 0 \<and> ft_missing_reports t = 0"

definition fleet_total_group_render :: "fleet_total_group \<Rightarrow> json" where
  "fleet_total_group_render g = JObj
    [(''fuel_grade'', JStr (fg_fuel_grade g)), (''unit'', JStr (fg_unit g)),
     (''total_delta'', JStr (fg_total_delta g)), (''vessel_count'', JInt (int (fg_vessel_count g)))]"

definition fleet_total_render :: "fleet_total \<Rightarrow> json" where
  "fleet_total_render t = JObj
    [(''complete'', JBool (fleet_total_complete t)),
     (''groups'', JList (map fleet_total_group_render (ft_groups t))),
     (''excluded_unresolved'', JInt (int (ft_excluded_unresolved t))),
     (''missing_reports'', JInt (int (ft_missing_reports t)))]"

type_synonym group_delta = "string \<times> string \<times> decimal"

text \<open>\<open>totals\<close> and \<open>counts\<close> are updated together, so one association list carries both.\<close>

definition add_delta ::
  "((string \<times> string) \<times> decimal \<times> nat) list \<Rightarrow> group_delta \<Rightarrow>
    unit + ((string \<times> string) \<times> decimal \<times> nat) list" where
  "add_delta totals row =
    (case row of (grade, unit, delta) \<Rightarrow>
     case (case map_of totals (grade, unit) of None \<Rightarrow> (Finite dec_zero, 0) | Some t \<Rightarrow> t) of
       (running, count) \<Rightarrow>
         (case decimal_add running delta of
            None \<Rightarrow> Inl ()
          | Some amount \<Rightarrow> Inr (AList.update (grade, unit) (amount, count + 1) totals)))"

definition build_fleet_total :: "group_delta list \<Rightarrow> nat \<Rightarrow> nat \<Rightarrow> unit + fleet_total" where
  "build_fleet_total reconciled excluded_unresolved missing_reports =
    ebind (efold add_delta [] reconciled) (\<lambda>totals. Inr
      \<lparr>ft_groups = map (\<lambda>((grade, unit), amount, count). \<lparr>fg_fuel_grade = grade, fg_unit = unit,
           fg_total_delta = decimal_str amount, fg_vessel_count = count\<rparr>) (sort_key fst totals),
       ft_excluded_unresolved = excluded_unresolved, ft_missing_reports = missing_reports\<rparr>)"

section \<open>The empty state\<close>

definition daily_report_empty_state ::
  "nat \<Rightarrow> bool \<Rightarrow> bool \<Rightarrow> bool \<Rightarrow> bool \<Rightarrow> bool \<Rightarrow> nat \<Rightarrow> nat \<Rightarrow> nat \<Rightarrow> empty_state" where
  "daily_report_empty_state expected_jobs feed_authorized feed_delayed service_disabled invalid_inputs
      calculations_unavailable arrived_jobs complete_jobs variance_count =
    (if service_disabled then ES_DISABLED_SERVICE
     else if \<not> feed_authorized then ES_NO_AUTHORIZED_FEED
     else if expected_jobs = 0 then ES_NO_EXPECTED_JOBS
     else if invalid_inputs then ES_INVALID_INPUTS
     else if calculations_unavailable then ES_CALCULATIONS_UNAVAILABLE
     else if feed_delayed \<or> arrived_jobs < expected_jobs then ES_FEED_DELAYED
     else if complete_jobs = expected_jobs \<and> variance_count = 0 then ES_NO_RELEVANT_DIFFERENCES
     else ES_NONE)"

end
