(* ===== verification/ReadViews.thy ===== *)
theory ReadViews
  imports ReadModel Dispatch
begin

text \<open>
  The views of the private fleet report over the durable records
  (\<open>packages/pipeline/eastmed_pipeline/reconciliation_read.py\<close>) and the recompute request. The
  \<open>created_at\<close> columns are filled by the database and written by no modelled operation: the views
  that read them take them as a function of the row identifier.
\<close>

text \<open>What a view may raise: \<open>AttributeError\<close> of a variance entry that is no mapping, \<open>ValueError\<close>
  of a cursor that is no UUID, and \<open>InvalidOperation\<close> of the decimal library.\<close>

datatype read_error = NotAMapping | BadCursor | ReadDecimalError

section \<open>Composite views\<close>

record case_view =
  cw_case_id :: uid
  cw_expected_job_id :: uid
  cw_result_contract_version :: string
  cw_revision :: int
  cw_business_status :: string
  cw_automation_status :: string
  cw_presentation_status :: presentation_status
  cw_evidence_status :: evidence_status
  cw_data_as_of :: "string option"
  cw_deadline_at :: "string option"
  cw_next_machine_step :: "string option"
  cw_results :: "vessel_result_view list"
  cw_unresolved_fields :: "string list"
  cw_assumptions :: "string list"
  cw_receipts :: "(string \<times> json) list"
  cw_supersedes_version :: "string option"

definition case_view_is_completed :: "case_view \<Rightarrow> bool" where
  "case_view_is_completed v \<longleftrightarrow> cw_presentation_status v = PS_COMPLETE"

definition case_view_render :: "case_view \<Rightarrow> (string \<times> json) list" where
  "case_view_render v =
    [(''read_model_version'', JStr READ_MODEL_VERSION),
     (''case_id'', JStr (uuid_str (cw_case_id v))),
     (''expected_job_id'', JStr (uuid_str (cw_expected_job_id v))),
     (''result_contract_version'', JStr (cw_result_contract_version v)),
     (''revision'', JInt (cw_revision v)),
     (''business_status'', JStr (cw_business_status v)),
     (''automation_status'', JStr (cw_automation_status v)),
     (''presentation_status'', JStr (presentation_status_value (cw_presentation_status v))),
     (''evidence_status'', JStr (evidence_status_value (cw_evidence_status v))),
     (''data_as_of'', opt_text (cw_data_as_of v)),
     (''deadline'', opt_text (cw_deadline_at v)),
     (''next_machine_step'', opt_text (cw_next_machine_step v)),
     (''result'', JObj [(''vessels'', JList (map vessel_result_render (cw_results v)))]),
     (''unresolved_fields'', JList (map JStr (cw_unresolved_fields v))),
     (''assumptions'', JList (map JStr (cw_assumptions v))),
     (''receipts'', JObj (cw_receipts v)),
     (''supersedes_version'', opt_text (cw_supersedes_version v)),
     (''customer_actions'', JList (map JStr CUSTOMER_ACTIONS))]"

record case_summary =
  cm_case_id :: uid
  cm_expected_job_id :: uid
  cm_revision :: int
  cm_business_status :: string
  cm_automation_status :: string
  cm_presentation_status :: presentation_status
  cm_deadline_at :: "string option"

definition case_summary_render :: "case_summary \<Rightarrow> json" where
  "case_summary_render s = JObj
    [(''case_id'', JStr (uuid_str (cm_case_id s))),
     (''expected_job_id'', JStr (uuid_str (cm_expected_job_id s))),
     (''revision'', JInt (cm_revision s)),
     (''business_status'', JStr (cm_business_status s)),
     (''automation_status'', JStr (cm_automation_status s)),
     (''presentation_status'', JStr (presentation_status_value (cm_presentation_status s))),
     (''deadline'', opt_text (cm_deadline_at s))]"

record case_page =
  cp_items :: "case_summary list"
  cp_next_cursor :: "string option"

definition case_page_render :: "case_page \<Rightarrow> json" where
  "case_page_render p = JObj
    [(''items'', JList (map case_summary_render (cp_items p))), (''next_cursor'', opt_text (cp_next_cursor p))]"

record timeline_entry =
  te_kind :: string
  te_at :: "string option"
  te_revision :: "int option"
  te_reason_code :: "string option"
  te_content_hash :: "string option"

definition timeline_entry_render :: "timeline_entry \<Rightarrow> json" where
  "timeline_entry_render e = JObj
    [(''kind'', JStr (te_kind e)), (''at'', opt_text (te_at e)),
     (''revision'', case te_revision e of None \<Rightarrow> JNull | Some r \<Rightarrow> JInt r),
     (''reason_code'', opt_text (te_reason_code e)), (''content_hash'', opt_text (te_content_hash e))]"

record timeline_view =
  tv_case_id :: uid
  tv_entries :: "timeline_entry list"

definition timeline_view_render :: "timeline_view \<Rightarrow> json" where
  "timeline_view_render v = JObj
    [(''case_id'', JStr (uuid_str (tv_case_id v))), (''entries'', JList (map timeline_entry_render (tv_entries v)))]"

record daily_report_view =
  dr_period_start :: string
  dr_period_end :: string
  dr_expected_jobs :: nat
  dr_complete_jobs :: nat
  dr_unresolved_jobs :: nat
  dr_awaiting_jobs :: nat
  dr_in_progress_jobs :: nat
  dr_latest_source_at :: "string option"
  dr_empty_state :: empty_state
  dr_fleet_total :: fleet_total
  dr_cases :: "case_summary list"

definition daily_report_render :: "daily_report_view \<Rightarrow> json" where
  "daily_report_render v = JObj
    [(''read_model_version'', JStr READ_MODEL_VERSION),
     (''period_start'', JStr (dr_period_start v)), (''period_end'', JStr (dr_period_end v)),
     (''counts'', JObj
       [(''expected'', JInt (int (dr_expected_jobs v))), (''complete'', JInt (int (dr_complete_jobs v))),
        (''unresolved'', JInt (int (dr_unresolved_jobs v))), (''awaiting'', JInt (int (dr_awaiting_jobs v))),
        (''in_progress'', JInt (int (dr_in_progress_jobs v)))]),
     (''latest_source_at'', opt_text (dr_latest_source_at v)),
     (''empty_state'', JStr (empty_state_value (dr_empty_state v))),
     (''fleet_total'', fleet_total_render (dr_fleet_total v)),
     (''cases'', JList (map case_summary_render (dr_cases v)))]"

record capability_health =
  ch_capability :: string
  ch_available :: bool
  ch_last_success_at :: "string option"
  ch_lag_seconds :: "int option"
  ch_disabled_reason :: "string option"

definition capability_health_render :: "capability_health \<Rightarrow> json" where
  "capability_health_render c = JObj
    [(''capability'', JStr (ch_capability c)), (''available'', JBool (ch_available c)),
     (''last_success_at'', opt_text (ch_last_success_at c)),
     (''lag_seconds'', case ch_lag_seconds c of None \<Rightarrow> JNull | Some n \<Rightarrow> JInt n),
     (''disabled_reason'', opt_text (ch_disabled_reason c))]"

datatype recompute_status = RQ_ACCEPTED | RQ_CONFLICT | RQ_FORBIDDEN | RQ_NOT_FOUND

record recompute_result =
  rq_status :: recompute_status
  rq_detail :: string
  rq_current_revision :: "int option"
  rq_run_id :: "uid option"

section \<open>Loaders\<close>

definition load_case :: "store \<Rightarrow> uid \<Rightarrow> uid \<Rightarrow> case_row option" where
  "load_case st account_id case_id =
    find (\<lambda>c. oc_account c = account_id \<and> oc_id c = case_id) (st_cases st)"

definition load_version :: "store \<Rightarrow> uid \<Rightarrow> uid \<Rightarrow> int option \<Rightarrow> case_version_row option" where
  "load_version st account_id case_id revision =
    (case revision of
       Some r \<Rightarrow> find (\<lambda>v. cv_revision v = r) (versions_of_case st account_id case_id)
     | None \<Rightarrow> first_desc cv_revision (versions_of_case st account_id case_id))"

definition read_current_revision :: "store \<Rightarrow> uid \<Rightarrow> uid \<Rightarrow> int option" where
  "read_current_revision st account_id case_id =
    map_option cv_revision (first_desc cv_revision (versions_of_case st account_id case_id))"

text \<open>\<open>max(captured_at)\<close> over the join of the observations of a job with their captures.\<close>

definition capture_times :: "store \<Rightarrow> uid \<Rightarrow> uid \<Rightarrow> instant list" where
  "capture_times st account_id job_id =
    concat (map (\<lambda>o'. map sc_captured_at
        (filter (\<lambda>c. sc_account c = ob_account o' \<and> sc_id c = ob_capture o') (st_captures st)))
      (filter (\<lambda>o'. ob_account o' = account_id \<and> ob_expected_job o' = Some job_id) (st_observations st)))"

definition data_as_of :: "store \<Rightarrow> uid \<Rightarrow> uid \<Rightarrow> instant option" where
  "data_as_of st account_id job_id =
    (case capture_times st account_id job_id of [] \<Rightarrow> None | t # ts \<Rightarrow> Some (fold max ts t))"

definition evidence_status_of :: "presentation_status \<Rightarrow> evidence_status" where
  "evidence_status_of status =
    (if status = PS_COMPLETE then EV_CONFIRMED
     else if status = PS_UNRESOLVED then EV_INCOMPLETE
     else if status = PS_DISABLED then EV_UNAVAILABLE
     else EV_PENDING)"

definition shown_publication :: "store \<Rightarrow> uid \<Rightarrow> uid \<Rightarrow> int \<Rightarrow> publication_row option" where
  "shown_publication st account_id case_id revision =
    find (\<lambda>p. pb_account p = account_id \<and> pb_case p = case_id \<and> pb_case_revision p = revision)
      (st_publications st)"

definition case_status :: "case_row \<Rightarrow> presentation_status" where
  "case_status c = presented_status (automation_status_value (oc_automation_status c))
    (business_status_value (oc_business_status c))"

section \<open>The case view\<close>

text \<open>The entries of a list of mappings; \<open>None\<close> when one of them is none.\<close>

fun mappings :: "json list \<Rightarrow> (string \<times> json) list list option" where
  "mappings [] = Some []"
| "mappings (JObj kvs # rest) = map_option ((#) kvs) (mappings rest)"
| "mappings (_ # rest) = None"

definition version_receipts ::
  "store \<Rightarrow> uid \<Rightarrow> uid \<Rightarrow> presentation_status \<Rightarrow> case_version_row \<Rightarrow> (string \<times> json) list" where
  "version_receipts st account_id case_id status version =
    (let pub = shown_publication st account_id case_id (cv_revision version)
     in [(''content_hash'', JStr (cv_content_hash version)),
         (''evidence_hash'', JStr (cv_evidence_hash version)),
         (''publication_reference'', opt_text (map_option (\<lambda>p. uuid_str (pb_id p)) pub)),
         (''read_back_confirmed'', JBool (pub \<noteq> None \<and> status = PS_COMPLETE))])"

definition get_case_view :: "store \<Rightarrow> uid \<Rightarrow> uid \<Rightarrow> int option \<Rightarrow> read_error + case_view option" where
  "get_case_view st account_id case_id revision =
    (case load_case st account_id case_id of
       None \<Rightarrow> Inr None
     | Some opcase \<Rightarrow>
        let job = find (\<lambda>j. ej_account j = account_id \<and> ej_id j = oc_expected_job opcase) (st_jobs st);
            status = case_status opcase;
            view = (\<lambda>results unresolved receipts contract supersedes shown. Inr (Some
              \<lparr>cw_case_id = oc_id opcase, cw_expected_job_id = oc_expected_job opcase,
               cw_result_contract_version = contract, cw_revision = shown,
               cw_business_status = business_status_value (oc_business_status opcase),
               cw_automation_status = automation_status_value (oc_automation_status opcase),
               cw_presentation_status = status, cw_evidence_status = evidence_status_of status,
               cw_data_as_of = map_option isoformat (data_as_of st account_id (oc_expected_job opcase)),
               cw_deadline_at = Some (isoformat (oc_deadline_at opcase)),
               cw_next_machine_step = next_machine_step (automation_status_value (oc_automation_status opcase)),
               cw_results = results, cw_unresolved_fields = unresolved, cw_assumptions = [],
               cw_receipts = receipts, cw_supersedes_version = supersedes\<rparr>))
        in case load_version st account_id case_id revision of
             None \<Rightarrow> view [] [] [(''read_back_confirmed'', JBool False)]
               (case job of None \<Rightarrow> [] | Some j \<Rightarrow> ej_result_contract_version j) None 0
           | Some version \<Rightarrow>
              (case mappings (case obj_get_default (cv_result_json version) ''variances'' (JList []) of
                   JList xs \<Rightarrow> xs | _ \<Rightarrow> []) of
                 None \<Rightarrow> Inl NotAMapping
               | Some variances \<Rightarrow>
                  (case label_variances variances of (results, unresolved) \<Rightarrow>
                     view results unresolved (version_receipts st account_id case_id status version)
                       (py_str (obj_get_default (cv_result_json version) ''result_contract_version'' (JStr [])))
                       (map_option uuid_str (cv_supersedes version)) (cv_revision version))))"

section \<open>The case list\<close>

definition AWAITING_STATES :: "automation_status list" where
  "AWAITING_STATES = [AS_AWAITING_ARRIVAL, AS_WAITING_FOR_MACHINE_DATA]"

definition IN_PROGRESS_STATES :: "automation_status list" where
  "IN_PROGRESS_STATES = [AS_RECEIVED, AS_VALIDATED, AS_RECONCILED, AS_CALCULATED,
    AS_PUBLICATION_READY, AS_PUBLISHED]"

definition status_filter :: "presentation_status \<Rightarrow> case_row \<Rightarrow> bool" where
  "status_filter status c =
    (if status = PS_COMPLETE then oc_automation_status c = AS_VERIFIED_COMPLETE
     else if status = PS_UNRESOLVED then
       oc_business_status c = BS_UNRESOLVED \<or> oc_automation_status c = AS_UNRESOLVED
     else if status = PS_AWAITING_DATA then oc_automation_status c \<in> set AWAITING_STATES
     else if status = PS_DEGRADED then oc_automation_status c = AS_RECOVERING
     else if status = PS_DISABLED then oc_automation_status c = AS_DISABLED
     else oc_automation_status c \<in> set IN_PROGRESS_STATES)"

definition summary_of :: "case_row \<Rightarrow> case_summary" where
  "summary_of c = \<lparr>cm_case_id = oc_id c, cm_expected_job_id = oc_expected_job c,
    cm_revision = oc_revision c, cm_business_status = business_status_value (oc_business_status c),
    cm_automation_status = automation_status_value (oc_automation_status c),
    cm_presentation_status = case_status c, cm_deadline_at = Some (isoformat (oc_deadline_at c))\<rparr>"

definition case_selected ::
  "(uid \<Rightarrow> instant) \<Rightarrow> uid \<Rightarrow> presentation_status option \<Rightarrow> instant option \<Rightarrow> instant option \<Rightarrow> case_row \<Rightarrow> bool" where
  "case_selected created account_id status since til c \<longleftrightarrow> oc_account c = account_id \<and>
    (case status of None \<Rightarrow> True | Some s \<Rightarrow> status_filter s c) \<and>
    (case since of None \<Rightarrow> True | Some t \<Rightarrow> t \<le> created (oc_id c)) \<and>
    (case til of None \<Rightarrow> True | Some t \<Rightarrow> created (oc_id c) \<le> t)"

definition case_query :: "store \<Rightarrow> (case_row \<Rightarrow> bool) \<Rightarrow> uid option \<Rightarrow> case_row list" where
  "case_query st selected after = sort_key oc_id
    (filter (\<lambda>c. selected c \<and> (case after of None \<Rightarrow> True | Some i \<Rightarrow> i < oc_id c)) (st_cases st))"

definition cut_page :: "case_row list \<Rightarrow> nat \<Rightarrow> case_page" where
  "cut_page found limit =
    (let rows = take (limit + 1) found; has_more = limit < length rows; page = take limit rows
     in \<lparr>cp_items = map summary_of page,
         cp_next_cursor = (if has_more \<and> page \<noteq> [] then Some (uuid_str (oc_id (last page))) else None)\<rparr>)"

definition list_cases ::
  "store \<Rightarrow> (uid \<Rightarrow> instant) \<Rightarrow> uid \<Rightarrow> presentation_status option \<Rightarrow> instant option \<Rightarrow> instant option \<Rightarrow>
    string option \<Rightarrow> int \<Rightarrow> read_error + case_page" where
  "list_cases st created account_id status since til cursor limit0 =
    (let limit = nat (max 1 (min limit0 200));
         selected = case_selected created account_id status since til
     in case cursor of
          None \<Rightarrow> Inr (cut_page (case_query st selected None) limit)
        | Some text \<Rightarrow>
           (case uuid_parse text of
              None \<Rightarrow> Inl BadCursor
            | Some i \<Rightarrow> Inr (cut_page (case_query st selected (Some i)) limit)))"

section \<open>The timeline\<close>

definition version_entry :: "(uid \<Rightarrow> instant) \<Rightarrow> bool \<Rightarrow> case_version_row \<Rightarrow> timeline_entry" where
  "version_entry created superseded version =
    \<lparr>te_kind = ''version_committed'', te_at = Some (isoformat (created (cv_id version))),
     te_revision = Some (cv_revision version),
     te_reason_code = Some (if superseded then ''superseded'' else ''current''),
     te_content_hash = Some (cv_content_hash version)\<rparr>"

definition publication_entry :: "store \<Rightarrow> uid \<Rightarrow> publication_row \<Rightarrow> timeline_entry" where
  "publication_entry st account_id pub =
    \<lparr>te_kind = ''published'', te_at = Some (isoformat (pb_published_at pub)),
     te_revision = Some (pb_case_revision pub),
     te_reason_code = map_option (\<lambda>x. outbox_status_value (ox_status x))
       (load_outbox st account_id (pb_intent pub)),
     te_content_hash = Some (pb_content_hash pub)\<rparr>"

definition timeline_key :: "timeline_entry \<Rightarrow> string \<times> int" where
  "timeline_key e = ((case te_at e of None \<Rightarrow> [] | Some t \<Rightarrow> t), (case te_revision e of None \<Rightarrow> 0 | Some r \<Rightarrow> r))"

definition get_case_timeline :: "store \<Rightarrow> (uid \<Rightarrow> instant) \<Rightarrow> uid \<Rightarrow> uid \<Rightarrow> timeline_view option" where
  "get_case_timeline st created account_id case_id =
    (case load_case st account_id case_id of
       None \<Rightarrow> None
     | Some _ \<Rightarrow>
        let versions = sort_key cv_revision (versions_of_case st account_id case_id);
            publications = sort_key pb_case_revision
              (filter (\<lambda>p. pb_account p = account_id \<and> pb_case p = case_id) (st_publications st));
            entries = map (\<lambda>(index, v). version_entry created (index + 1 < length versions) v)
                (enumerate 0 versions) @ map (publication_entry st account_id) publications
        in Some \<lparr>tv_case_id = case_id, tv_entries = sort_key timeline_key entries\<rparr>)"

section \<open>The daily report\<close>

definition note_delta :: "json \<Rightarrow> group_delta list \<times> nat \<Rightarrow> group_delta list \<times> nat" where
  "note_delta entry acc =
    (case entry of
       JObj kvs \<Rightarrow>
         if obj_get kvs ''status'' \<noteq> JStr ''reconciled'' then (fst acc, snd acc + 1)
         else (case parse_decimal (py_str (obj_get_default kvs ''delta'' (JStr ''0''))) of
            None \<Rightarrow> (fst acc, snd acc + 1)
          | Some delta \<Rightarrow> (fst acc @ [(py_str (obj_get_default kvs ''fuel_grade'' (JStr [])),
              py_str (obj_get_default kvs ''unit'' (JStr [])), delta)], snd acc))
     | _ \<Rightarrow> acc)"

definition reconciled_deltas :: "case_version_row option \<Rightarrow> group_delta list \<times> nat" where
  "reconciled_deltas version =
    (case version of
       None \<Rightarrow> ([], 0)
     | Some v \<Rightarrow>
        (case obj_get_default (cv_result_json v) ''variances'' (JList []) of
           JList entries \<Rightarrow> fold note_delta entries ([], 0)
         | _ \<Rightarrow> ([], 0)))"

text \<open>\<open>sum(1 for _g, _u, d in deltas if d != Decimal("0"))\<close>; a signalling NaN raises.\<close>

definition count_nonzero :: "group_delta list \<Rightarrow> read_error + nat" where
  "count_nonzero deltas = efold (\<lambda>n (_, _, d). case decimal_ne d dec_zero of
     None \<Rightarrow> Inl ReadDecimalError | Some ne \<Rightarrow> Inr (if ne then n + 1 else n)) 0 deltas"

record report_acc =
  ra_complete :: nat
  ra_unresolved :: nat
  ra_awaiting :: nat
  ra_in_progress :: nat
  ra_arrived :: nat
  ra_reconciled :: "group_delta list"
  ra_excluded :: nat
  ra_variances :: nat
  ra_summaries :: "case_summary list"
  ra_latest :: "instant option"

definition empty_acc :: report_acc where
  "empty_acc = \<lparr>ra_complete = 0, ra_unresolved = 0, ra_awaiting = 0, ra_in_progress = 0, ra_arrived = 0,
    ra_reconciled = [], ra_excluded = 0, ra_variances = 0, ra_summaries = [], ra_latest = None\<rparr>"

definition count_status :: "presentation_status \<Rightarrow> report_acc \<Rightarrow> report_acc" where
  "count_status status acc =
    (if status = PS_COMPLETE then acc\<lparr>ra_complete := ra_complete acc + 1\<rparr>
     else if status = PS_UNRESOLVED then acc\<lparr>ra_unresolved := ra_unresolved acc + 1\<rparr>
     else if status = PS_AWAITING_DATA then acc\<lparr>ra_awaiting := ra_awaiting acc + 1\<rparr>
     else acc\<lparr>ra_in_progress := ra_in_progress acc + 1\<rparr>)"

definition note_arrival :: "instant option \<Rightarrow> report_acc \<Rightarrow> report_acc" where
  "note_arrival as_of acc =
    (case as_of of
       None \<Rightarrow> acc
     | Some t \<Rightarrow> acc\<lparr>ra_arrived := ra_arrived acc + 1,
         ra_latest := (case ra_latest acc of None \<Rightarrow> Some t | Some l \<Rightarrow> if l < t then Some t else Some l)\<rparr>)"

definition case_of_job :: "store \<Rightarrow> uid \<Rightarrow> uid \<Rightarrow> case_row option" where
  "case_of_job st account_id job_id =
    find (\<lambda>c. oc_account c = account_id \<and> oc_expected_job c = job_id) (st_cases st)"

definition report_job :: "store \<Rightarrow> uid \<Rightarrow> report_acc \<Rightarrow> expected_job_row \<Rightarrow> read_error + report_acc" where
  "report_job st account_id acc job =
    (case case_of_job st account_id (ej_id job) of
       None \<Rightarrow> Inr (acc\<lparr>ra_awaiting := ra_awaiting acc + 1\<rparr>)
     | Some c \<Rightarrow>
        let acc1 = count_status (case_status c) (acc\<lparr>ra_summaries := ra_summaries acc @ [summary_of c]\<rparr>);
            acc2 = note_arrival (data_as_of st account_id (ej_id job)) acc1
        in case reconciled_deltas (load_version st account_id (oc_id c) None) of (deltas, excluded) \<Rightarrow>
             ebind (count_nonzero deltas) (\<lambda>n. Inr (acc2\<lparr>
               ra_reconciled := ra_reconciled acc2 @ deltas, ra_excluded := ra_excluded acc2 + excluded,
               ra_variances := ra_variances acc2 + n\<rparr>)))"

definition jobs_of_period :: "store \<Rightarrow> uid \<Rightarrow> instant \<Rightarrow> instant \<Rightarrow> expected_job_row list" where
  "jobs_of_period st account_id period_start period_end =
    filter (\<lambda>j. ej_account j = account_id \<and> period_start \<le> ej_period_start j \<and> ej_period_end j \<le> period_end)
      (st_jobs st)"

record report_flags =
  rf_feed_authorized :: bool
  rf_feed_delayed :: bool
  rf_service_disabled :: bool
  rf_invalid_inputs :: bool
  rf_calculations_unavailable :: bool

definition get_daily_report ::
  "store \<Rightarrow> uid \<Rightarrow> instant \<Rightarrow> instant \<Rightarrow> report_flags \<Rightarrow> read_error + daily_report_view" where
  "get_daily_report st account_id period_start period_end flags =
    (let jobs = jobs_of_period st account_id period_start period_end in
     ebind (efold (report_job st account_id) empty_acc jobs) (\<lambda>acc.
     case build_fleet_total (ra_reconciled acc) (ra_excluded acc) (length jobs - ra_arrived acc) of
       Inl _ \<Rightarrow> Inl ReadDecimalError
     | Inr fleet_total \<Rightarrow> Inr
        \<lparr>dr_period_start = isoformat period_start, dr_period_end = isoformat period_end,
         dr_expected_jobs = length jobs, dr_complete_jobs = ra_complete acc,
         dr_unresolved_jobs = ra_unresolved acc, dr_awaiting_jobs = ra_awaiting acc,
         dr_in_progress_jobs = ra_in_progress acc,
         dr_latest_source_at = map_option isoformat (ra_latest acc),
         dr_empty_state = daily_report_empty_state (length jobs) (rf_feed_authorized flags)
           (rf_feed_delayed flags) (rf_service_disabled flags) (rf_invalid_inputs flags)
           (rf_calculations_unavailable flags) (ra_arrived acc) (ra_complete acc) (ra_variances acc),
         dr_fleet_total = fleet_total, dr_cases = ra_summaries acc\<rparr>))"

section \<open>Service health\<close>

definition active_grant :: "store \<Rightarrow> uid \<Rightarrow> string \<Rightarrow> instant \<Rightarrow> grant_row option" where
  "active_grant st account_id capability now =
    (case first_desc sg_policy_revision
        (filter (\<lambda>g. sg_account g = account_id \<and> sg_capability g = capability \<and> sg_active g) (st_grants st)) of
       None \<Rightarrow> None
     | Some grant \<Rightarrow> if \<not> (sg_valid_from grant \<le> now \<and> now < sg_valid_to grant) then None else Some grant)"

text \<open>\<open>int(delta.total_seconds())\<close> truncates towards zero.\<close>

definition whole_seconds :: "int \<Rightarrow> int" where
  "whole_seconds us = float_trunc (total_seconds us)"

definition get_service_health ::
  "store \<Rightarrow> uid \<Rightarrow> instant \<Rightarrow> string list option \<Rightarrow> capability_health list" where
  "get_service_health st account_id now capabilities =
    (let caps = (case capabilities of None \<Rightarrow> sort KNOWN_CAPABILITIES
           | Some cs \<Rightarrow> if cs = [] then sort KNOWN_CAPABILITIES else cs);
         last_success = (case map pb_published_at (filter (\<lambda>p. pb_account p = account_id) (st_publications st)) of
           [] \<Rightarrow> None | t # ts \<Rightarrow> Some (fold max ts t))
     in map (\<lambda>capability.
          let available = (active_grant st account_id capability now \<noteq> None)
          in \<lparr>ch_capability = capability, ch_available = available,
              ch_last_success_at = (if available then map_option isoformat last_success else None),
              ch_lag_seconds = (if available then map_option (\<lambda>t. whole_seconds (now - t)) last_success else None),
              ch_disabled_reason = (if available then None else Some ''no_active_grant'')\<rparr>) caps)"

section \<open>Recompute\<close>

definition request_recompute ::
  "store \<Rightarrow> uid \<Rightarrow> uid \<Rightarrow> int \<Rightarrow> string \<Rightarrow> string \<Rightarrow> string \<Rightarrow> int \<Rightarrow> instant \<Rightarrow> instant \<Rightarrow>
    store \<times> recompute_result" where
  "request_recompute st account_id case_id expected_revision subject workflow_version fingerprint
      budget_units deadline_at now =
    (case resolve_principal st account_id subject of
       None \<Rightarrow> (st, \<lparr>rq_status = RQ_FORBIDDEN,
         rq_detail = ''recompute is restricted to an authorized service identity'',
         rq_current_revision = None, rq_run_id = None\<rparr>)
     | Some p \<Rightarrow>
        if \<not> sp_active p then (st, \<lparr>rq_status = RQ_FORBIDDEN,
          rq_detail = ''recompute is restricted to an authorized service identity'',
          rq_current_revision = None, rq_run_id = None\<rparr>)
        else
          (case load_case st account_id case_id of
             None \<Rightarrow> (st, \<lparr>rq_status = RQ_NOT_FOUND, rq_detail = ''case not found'',
               rq_current_revision = None, rq_run_id = None\<rparr>)
           | Some opcase \<Rightarrow>
              let current = (case read_current_revision st account_id case_id of
                    None \<Rightarrow> oc_revision opcase | Some r \<Rightarrow> r)
              in if expected_revision \<noteq> current then
                   (st, \<lparr>rq_status = RQ_CONFLICT,
                     rq_detail = ''expected revision '' @ str_int expected_revision @ '', current is '' @ str_int current,
                     rq_current_revision = Some current, rq_run_id = None\<rparr>)
                 else
                   (case create_run st account_id opcase workflow_version fingerprint budget_units deadline_at of
                      (st1, run) \<Rightarrow>
                        (fst (enqueue_task st1 account_id run WS_RECONCILE 0 None 3 now),
                         \<lparr>rq_status = RQ_ACCEPTED, rq_detail = ''fresh run enqueued'',
                          rq_current_revision = Some current, rq_run_id = Some (wr_id run)\<rparr>))))"

end
