(* ===== verification/ReadViews_Props.thy ===== *)
theory ReadViews_Props
  imports ReadViews Dispatch_Props
begin

text \<open>
  The properties of the views: a view reads nothing of another tenant, completion is shown only for
  verified cases, walking the case list neither skips nor repeats a case, the daily report accounts
  for every expected job and its reassuring empty state is earned.
\<close>

section \<open>What a tenant can see\<close>

text \<open>The rows of one account in the tables the views read.\<close>

definition tenant_part :: "uid \<Rightarrow> store \<Rightarrow> store" where
  "tenant_part acc st = st\<lparr>
    st_jobs := filter (\<lambda>r. ej_account r = acc) (st_jobs st),
    st_captures := filter (\<lambda>r. sc_account r = acc) (st_captures st),
    st_observations := filter (\<lambda>r. ob_account r = acc) (st_observations st),
    st_cases := filter (\<lambda>r. oc_account r = acc) (st_cases st),
    st_versions := filter (\<lambda>r. cv_account r = acc) (st_versions st),
    st_grants := filter (\<lambda>r. sg_account r = acc) (st_grants st),
    st_outbox := filter (\<lambda>r. ox_account r = acc) (st_outbox st),
    st_publications := filter (\<lambda>r. pb_account r = acc) (st_publications st),
    st_next := 0, st_verdicts := [], st_runs := [], st_tasks := [], st_attempts := [], st_ledgers := [],
    st_global_ledgers := [], st_reservations := [], st_principals := [], st_attestations := [],
    st_intents := []\<rparr>"

lemma find_tenant: "find (\<lambda>r. acct r = acc \<and> P r) (filter (\<lambda>r. acct r = acc) rows) =
    find (\<lambda>r. acct r = acc \<and> P r) rows"
  by (induction rows) auto

lemma filter_tenant: "filter (\<lambda>r. acct r = acc \<and> P r) (filter (\<lambda>r. acct r = acc) rows) =
    filter (\<lambda>r. acct r = acc \<and> P r) rows"
  by (induction rows) auto

lemma versions_of_tenant: "versions_of_case (tenant_part acc st) acc k = versions_of_case st acc k"
  by (simp add: versions_of_case_def tenant_part_def filter_tenant)

lemma capture_times_tenant: "capture_times (tenant_part acc st) acc j = capture_times st acc j"
proof -
  have "concat (map (\<lambda>r. map sc_captured_at (filter (\<lambda>c. sc_account c = ob_account r \<and> sc_id c = ob_capture r)
        (filter (\<lambda>c. sc_account c = acc) cs))) (filter (\<lambda>r. ob_account r = acc \<and> ob_expected_job r = Some j) os)) =
      concat (map (\<lambda>r. map sc_captured_at (filter (\<lambda>c. sc_account c = ob_account r \<and> sc_id c = ob_capture r) cs))
        (filter (\<lambda>r. ob_account r = acc \<and> ob_expected_job r = Some j) os))" for cs os
    by (induction os) (auto simp: filter_tenant)
  then show ?thesis by (simp add: capture_times_def tenant_part_def filter_tenant)
qed

lemmas tenant_reads =
  versions_of_tenant capture_times_tenant

lemma loads_tenant [simp]:
  "load_case (tenant_part acc st) acc k = load_case st acc k"
  "load_version (tenant_part acc st) acc k r = load_version st acc k r"
  "data_as_of (tenant_part acc st) acc j = data_as_of st acc j"
  "shown_publication (tenant_part acc st) acc k n = shown_publication st acc k n"
  "load_outbox (tenant_part acc st) acc i = load_outbox st acc i"
  "case_of_job (tenant_part acc st) acc j = case_of_job st acc j"
  "active_grant (tenant_part acc st) acc c now = active_grant st acc c now"
  "jobs_of_period (tenant_part acc st) acc s e = jobs_of_period st acc s e"
  unfolding load_case_def load_version_def data_as_of_def shown_publication_def load_outbox_def
    case_of_job_def active_grant_def jobs_of_period_def tenant_reads
  by (simp_all add: tenant_part_def find_tenant filter_tenant)

lemma report_job_tenant [simp]: "report_job (tenant_part acc st) acc = report_job st acc"
  by (intro ext) (simp only: report_job_def loads_tenant)

lemma case_query_tenant:
  "case_query (tenant_part acc st) (case_selected created acc s since til) after =
    case_query st (case_selected created acc s since til) after"
proof -
  have "filter (\<lambda>c. case_selected created acc s since til c \<and> R c) (filter (\<lambda>c. oc_account c = acc) rows) =
      filter (\<lambda>c. case_selected created acc s since til c \<and> R c) rows" for R rows
    by (induction rows) (auto simp: case_selected_def)
  then show ?thesis by (simp add: case_query_def tenant_part_def)
qed

text \<open>C26: every view of an account is a function of that account's rows alone: on the store reduced to
  them it returns the same value or raises the same error. So nothing of another tenant, not even the
  existence of a case, shows in a case view, a case list, a timeline, a daily report or the service
  health.\<close>

theorem views_tenant_isolated:
  "get_case_view st acc k revn = get_case_view (tenant_part acc st) acc k revn \<and>
    list_cases st created acc status since til cursor n =
      list_cases (tenant_part acc st) created acc status since til cursor n \<and>
    get_case_timeline st created acc k = get_case_timeline (tenant_part acc st) created acc k \<and>
    get_daily_report st acc s e flags = get_daily_report (tenant_part acc st) acc s e flags \<and>
    get_service_health st acc now caps = get_service_health (tenant_part acc st) acc now caps"
proof (intro conjI)
  have job: "find (\<lambda>j. ej_account j = acc \<and> ej_id j = i) (st_jobs (tenant_part acc st)) =
      find (\<lambda>j. ej_account j = acc \<and> ej_id j = i) (st_jobs st)" for i
    by (simp add: tenant_part_def find_tenant)
  show "get_case_view st acc k revn = get_case_view (tenant_part acc st) acc k revn"
    by (simp only: get_case_view_def version_receipts_def job loads_tenant)
  show "list_cases st created acc status since til cursor n =
      list_cases (tenant_part acc st) created acc status since til cursor n"
    by (simp only: list_cases_def Let_def case_query_tenant)
  have pubs: "filter (\<lambda>p. pb_account p = acc \<and> P p) (st_publications (tenant_part acc st)) =
      filter (\<lambda>p. pb_account p = acc \<and> P p) (st_publications st)" for P
    by (simp add: tenant_part_def filter_tenant)
  show "get_case_timeline st created acc k = get_case_timeline (tenant_part acc st) created acc k"
    by (simp only: get_case_timeline_def publication_entry_def [abs_def] versions_of_tenant pubs loads_tenant)
  show "get_daily_report st acc s e flags = get_daily_report (tenant_part acc st) acc s e flags"
    by (simp only: get_daily_report_def report_job_tenant loads_tenant)
  show "get_service_health st acc now caps = get_service_health (tenant_part acc st) acc now caps"
    using pubs [of "\<lambda>_. True"] unfolding get_service_health_def loads_tenant by simp
qed

section \<open>Completion\<close>

lemma case_status_complete:
  "case_status c = PS_COMPLETE \<longleftrightarrow> oc_automation_status c = AS_VERIFIED_COMPLETE \<and> oc_business_status c \<noteq> BS_UNRESOLVED"
  by (cases "oc_automation_status c"; cases "oc_business_status c")
    (simp_all add: case_status_def presented_status_def AWAITING_def IN_PROGRESS_def)

text \<open>filtering the case list by a status and presenting a case disagree exactly for cases with an
  unresolved business outcome whose automation is neither disabled nor unresolved, which are presented
  as unresolved and listed under the status of their automation too (a case the dispatcher left waiting
  is listed as awaiting data), and for disabled ones, which are listed as unresolved.\<close>

theorem status_filter_disagrees:
  "(status_filter s c \<noteq> (case_status c = s)) \<longleftrightarrow> oc_business_status c = BS_UNRESOLVED \<and>
    (if oc_automation_status c = AS_DISABLED then s = PS_UNRESOLVED
     else oc_automation_status c \<noteq> AS_UNRESOLVED \<and> s = case_status (c\<lparr>oc_business_status := BS_PENDING\<rparr>))"
  by (cases s; cases "oc_automation_status c"; cases "oc_business_status c")
    (simp_all add: status_filter_def case_status_def presented_status_def AWAITING_def IN_PROGRESS_def
      AWAITING_STATES_def IN_PROGRESS_STATES_def)

section \<open>Walking the case list\<close>

text \<open>A client follows the cursors; every page is read from the store of its own moment.\<close>

fun walk_cases ::
  "(uid \<Rightarrow> instant) \<Rightarrow> uid \<Rightarrow> presentation_status option \<Rightarrow> instant option \<Rightarrow> instant option \<Rightarrow> int \<Rightarrow>
    store list \<Rightarrow> string option \<Rightarrow> case_summary list \<times> bool" where
  "walk_cases created acc status since til n [] cursor = ([], False)"
| "walk_cases created acc status since til n (st # sts) cursor =
    (case list_cases st created acc status since til cursor n of
       Inl _ \<Rightarrow> ([], False)
     | Inr page \<Rightarrow>
        (case cp_next_cursor page of
           None \<Rightarrow> (cp_items page, True)
         | Some c \<Rightarrow>
            (case walk_cases created acc status since til n sts (Some c) of
               (items, ended) \<Rightarrow> (cp_items page @ items, ended))))"

definition ids_ok :: "store \<Rightarrow> bool" where
  "ids_ok st \<longleftrightarrow> distinct (map oc_id (st_cases st)) \<and> list_all (\<lambda>c. oc_id c < 2 ^ 128) (st_cases st)"

definition after_cursor :: "uid option \<Rightarrow> uid \<Rightarrow> bool" where
  "after_cursor after i \<longleftrightarrow> (case after of None \<Rightarrow> True | Some a \<Rightarrow> a < i)"

lemma case_query_set:
  "c \<in> set (case_query st sel after) \<longleftrightarrow> c \<in> set (st_cases st) \<and> sel c \<and> after_cursor after (oc_id c)"
  by (auto simp: case_query_def after_cursor_def)

lemma case_query_sorted:
  assumes "ids_ok st"
  shows "sorted_wrt (<) (map oc_id (case_query st sel after))"
proof -
  let ?found = "filter (\<lambda>c. sel c \<and> (case after of None \<Rightarrow> True | Some i \<Rightarrow> i < oc_id c)) (st_cases st)"
  have "distinct (map oc_id ?found)" using assms by (simp add: ids_ok_def distinct_map_filter)
  then have "distinct (map oc_id (sort_key oc_id ?found))"
    by (simp add: distinct_map)
  then show ?thesis by (simp add: case_query_def strict_sorted_iff)
qed

lemma ascending_last: "sorted_wrt (<) (map oc_id rows) \<Longrightarrow> r \<in> set rows \<Longrightarrow> oc_id r \<le> oc_id (last rows)"
  by (induction rows) (auto intro: less_imp_le)

lemma cut_page_exact:
  assumes "0 < k" and "sorted_wrt (<) (map oc_id rows)"
  shows "cp_items (cut_page rows k) = map summary_of (take k rows)"
    and "cp_next_cursor (cut_page rows k) = None \<longleftrightarrow> length rows \<le> k"
    and "cp_next_cursor (cut_page rows k) = Some t \<Longrightarrow> \<exists>c \<in> set (take k rows). t = uuid_str (oc_id c) \<and>
      (\<forall>r \<in> set (take k rows). oc_id r \<le> oc_id c) \<and> (\<forall>r \<in> set (drop k rows). oc_id c < oc_id r)"
proof -
  show "cp_items (cut_page rows k) = map summary_of (take k rows)"
    by (simp add: cut_page_def Let_def min_def)
  show "cp_next_cursor (cut_page rows k) = None \<longleftrightarrow> length rows \<le> k"
    using assms(1) by (auto simp: cut_page_def Let_def)
  assume "cp_next_cursor (cut_page rows k) = Some t"
  with assms(1) have more: "k < length rows" and t: "t = uuid_str (oc_id (last (take k rows)))"
    by (auto simp: cut_page_def Let_def min_def split: if_splits)
  with assms(1) have ne: "take k rows \<noteq> []" by auto
  have "rows = take k rows @ drop k rows" by simp
  then have "sorted_wrt (<) (map oc_id (take k rows @ drop k rows))" using assms(2) by simp
  then have s: "sorted_wrt (<) (map oc_id (take k rows))"
      "\<forall>x \<in> set (take k rows). \<forall>y \<in> set (drop k rows). oc_id x < oc_id y"
    by (simp_all only: map_append sorted_wrt_append) (auto simp: sorted_wrt_map)
  have "\<forall>r \<in> set (take k rows). oc_id r \<le> oc_id (last (take k rows))"
    using ascending_last [OF s(1)] by blast
  with s(2) t last_in_set [OF ne] show "\<exists>c \<in> set (take k rows). t = uuid_str (oc_id c) \<and>
      (\<forall>r \<in> set (take k rows). oc_id r \<le> oc_id c) \<and> (\<forall>r \<in> set (drop k rows). oc_id c < oc_id r)"
    by blast
qed

lemma list_cases_after:
  assumes "\<And>a. after = Some a \<Longrightarrow> a < 2 ^ 128"
  shows "list_cases st created acc status since til (map_option uuid_str after) n =
    Inr (cut_page (case_query st (case_selected created acc status since til) after)
      (nat (max 1 (min n 200))))"
  using assms by (cases after) (auto simp: list_cases_def Let_def uuid_parse_str)

lemma take_ids_exact:
  assumes "0 < k" and "ids_ok st"
    and "cut_page (case_query st sel after) k = p"
  shows "sorted_wrt (<) (map cm_case_id (cp_items p)) \<and> (\<forall>i \<in> set (map cm_case_id (cp_items p)). after_cursor after i)"
    and "cp_next_cursor p = None \<Longrightarrow> c \<in> set (case_query st sel after) \<Longrightarrow> oc_id c \<in> set (map cm_case_id (cp_items p))"
    and "cp_next_cursor p = Some t \<Longrightarrow> \<exists>m < 2 ^ 128. t = uuid_str m \<and> after_cursor after m \<and>
      m \<in> oc_id ` set (case_query st sel after) \<and>
      (\<forall>i \<in> set (map cm_case_id (cp_items p)). i \<le> m) \<and>
      (\<forall>c \<in> set (case_query st sel after). oc_id c \<le> m \<longrightarrow> oc_id c \<in> set (map cm_case_id (cp_items p)))"
proof -
  let ?rows = "case_query st sel after"
  note s = case_query_sorted [OF assms(2), of sel after]
  note page = cut_page_exact [OF assms(1) s, unfolded assms(3)]
  have ids: "map cm_case_id (cp_items p) = map oc_id (take k ?rows)"
    by (simp add: page(1) comp_def summary_of_def)
  have sub: "c \<in> set ?rows" if "c \<in> set (take k ?rows)" for c using that by (rule in_set_takeD)
  have "sorted_wrt (<) (take k (map oc_id ?rows))" using s by (rule sorted_wrt_take)
  then show "sorted_wrt (<) (map cm_case_id (cp_items p)) \<and>
      (\<forall>i \<in> set (map cm_case_id (cp_items p)). after_cursor after i)"
    unfolding ids using sub by (auto simp: take_map case_query_set)
  show "oc_id c \<in> set (map cm_case_id (cp_items p))"
    if "cp_next_cursor p = None" and "c \<in> set ?rows"
    using that page(2) unfolding ids by simp
  show "\<exists>m < 2 ^ 128. t = uuid_str m \<and> after_cursor after m \<and> m \<in> oc_id ` set ?rows \<and>
      (\<forall>i \<in> set (map cm_case_id (cp_items p)). i \<le> m) \<and>
      (\<forall>c \<in> set ?rows. oc_id c \<le> m \<longrightarrow> oc_id c \<in> set (map cm_case_id (cp_items p)))"
    if "cp_next_cursor p = Some t"
  proof -
    from page(3) [OF that] obtain c where c: "c \<in> set (take k ?rows)" "t = uuid_str (oc_id c)"
      "\<forall>r \<in> set (take k ?rows). oc_id r \<le> oc_id c" "\<forall>r \<in> set (drop k ?rows). oc_id c < oc_id r" by blast
    have "oc_id c < 2 ^ 128" "after_cursor after (oc_id c)"
      using sub [OF c(1)] assms(2) by (auto simp: case_query_set ids_ok_def list_all_iff)
    moreover have "r \<in> set (take k ?rows)" if "r \<in> set ?rows" "oc_id r \<le> oc_id c" for r
      using that c(4) by (metis Un_iff append_take_drop_id leD set_append)
    ultimately show ?thesis using sub [OF c(1)] c(2,3) unfolding ids by (intro exI [of _ "oc_id c"]) auto
  qed
qed

lemma walk_cases_from:
  assumes "list_all ids_ok sts" and "\<And>a. after = Some a \<Longrightarrow> a < 2 ^ 128"
    and "walk_cases created acc status since til n sts (map_option uuid_str after) = (items, ended)"
  shows "sorted_wrt (<) (map cm_case_id items) \<and> (\<forall>i \<in> set (map cm_case_id items). after_cursor after i) \<and>
    (ended \<longrightarrow> after_cursor after k \<longrightarrow>
      list_all (\<lambda>st. \<exists>c \<in> set (st_cases st). oc_id c = k \<and> case_selected created acc status since til c) sts \<longrightarrow>
      k \<in> set (map cm_case_id items))"
  using assms
proof (induction sts arbitrary: after items)
  case Nil
  then show ?case by simp
next
  case (Cons st sts)
  let ?sel = "case_selected created acc status since til" and ?lim = "nat (max 1 (min n 200))"
  let ?p = "cut_page (case_query st ?sel after) ?lim"
  have lim: "0 < ?lim" by simp
  from Cons.prems(1) have ok: "ids_ok st" by simp
  note page = list_cases_after [OF Cons.prems(2), where st = st and created = created and acc = acc and status = status and since = since and til = til and n = n]
  note cut = take_ids_exact [OF lim ok refl, of ?sel after]
  show ?case
  proof (cases "cp_next_cursor ?p")
    case None
    with Cons.prems(3) page have r: "items = cp_items ?p" "ended" by auto
    have "k \<in> set (map cm_case_id items)"
      if "after_cursor after k" "\<exists>c \<in> set (st_cases st). oc_id c = k \<and> ?sel c"
      using that cut(2) [OF None] unfolding r(1) by (auto simp: case_query_set)
    with cut(1) r(1) show ?thesis by auto
  next
    case (Some t)
    from cut(3) [OF this] obtain m where m: "m < 2 ^ 128" "t = uuid_str m" "after_cursor after m"
      "\<forall>i \<in> set (map cm_case_id (cp_items ?p)). i \<le> m"
      "\<forall>c \<in> set (case_query st ?sel after). oc_id c \<le> m \<longrightarrow> oc_id c \<in> set (map cm_case_id (cp_items ?p))" by blast
    from Some page Cons.prems(3) obtain rest where
      rest: "walk_cases created acc status since til n sts (map_option uuid_str (Some m)) = (rest, ended)"
      and items: "items = cp_items ?p @ rest" by (auto simp: m(2) split: prod.splits)
    have IH: "sorted_wrt (<) (map cm_case_id rest)" "\<forall>i \<in> set (map cm_case_id rest). m < i"
      "ended \<Longrightarrow> m < k \<Longrightarrow> list_all (\<lambda>st. \<exists>c \<in> set (st_cases st). oc_id c = k \<and> ?sel c) sts \<Longrightarrow>
        k \<in> set (map cm_case_id rest)"
      using Cons.IH [OF _ _ rest] Cons.prems(1) m(1) by (simp_all add: after_cursor_def)
    have "after_cursor after i" if "m < i" for i
      using that m(3) by (auto simp: after_cursor_def split: option.splits)
    moreover have "i < j" if "i \<in> set (map cm_case_id (cp_items ?p))" "j \<in> set (map cm_case_id rest)" for i j
      using that m(4) IH(2) by (meson le_less_trans)
    ultimately have "sorted_wrt (<) (map cm_case_id items) \<and> (\<forall>i \<in> set (map cm_case_id items). after_cursor after i)"
      using cut(1) IH(1,2) by (auto simp: items sorted_wrt_append)
    moreover have "k \<in> set (map cm_case_id items)" if "ended" "after_cursor after k"
      "list_all (\<lambda>st. \<exists>c \<in> set (st_cases st). oc_id c = k \<and> ?sel c) (st # sts)"
      using that IH(3) m(5) by (cases "k \<le> m") (auto simp: items case_query_set)
    ultimately show ?thesis by blast
  qed
qed

text \<open>C30: a client that follows the cursors, every page read from the store as it is at that moment, gets
  strictly ascending case identifiers, so no case twice however the tables change in between; and when
  the walk ends, it has listed every case that satisfied the filter in all the stores it read.\<close>

theorem walk_skips_and_repeats_nothing:
  assumes "list_all ids_ok sts"
    and "walk_cases created acc status since til n sts None = (items, ended)"
  shows "sorted_wrt (<) (map cm_case_id items) \<and>
    (ended \<longrightarrow> (\<forall>k. list_all (\<lambda>st. \<exists>c \<in> set (st_cases st). oc_id c = k \<and>
        case_selected created acc status since til c) sts \<longrightarrow>
      k \<in> set (map cm_case_id items)))"
  using walk_cases_from [OF assms(1), of None] assms(2) by (simp add: after_cursor_def)

text \<open>On tables that stay as they are, the walk ends after at most one page per case and one more.\<close>

lemma case_query_shrinks:
  assumes "m \<in> oc_id ` set (case_query st sel after)"
  shows "length (case_query st sel (Some m)) < length (case_query st sel after)"
proof -
  let ?rows = "filter (\<lambda>c. sel c \<and> after_cursor after (oc_id c)) (st_cases st)"
  from assms obtain c where c: "c \<in> set ?rows" "oc_id c = m" by (auto simp: case_query_set)
  then have "after_cursor after m" by auto
  then have "filter (\<lambda>c. sel c \<and> m < oc_id c) (st_cases st) = filter (\<lambda>c. m < oc_id c) ?rows"
    by (auto simp: after_cursor_def intro!: filter_cong split: option.splits)
  moreover have "length (filter (\<lambda>c. m < oc_id c) ?rows) < length ?rows"
    using c by (intro length_filter_less) auto
  ultimately show ?thesis by (simp add: case_query_def after_cursor_def)
qed

lemma walk_ends:
  assumes "ids_ok st" and "\<And>a. after = Some a \<Longrightarrow> a < 2 ^ 128"
    and "length (case_query st (case_selected created acc status since til) after) < j"
  shows "snd (walk_cases created acc status since til n (replicate j st) (map_option uuid_str after))"
  using assms(2,3)
proof (induction j arbitrary: after)
  case 0
  then show ?case by simp
next
  case (Suc j)
  let ?sel = "case_selected created acc status since til" and ?lim = "nat (max 1 (min n 200))"
  let ?p = "cut_page (case_query st ?sel after) ?lim"
  note page = list_cases_after [OF Suc.prems(1), where st = st and created = created and acc = acc
      and status = status and since = since and til = til and n = n]
  show ?case
  proof (cases "cp_next_cursor ?p")
    case None
    with page show ?thesis by simp
  next
    case (Some t)
    have "0 < ?lim" by simp
    from take_ids_exact(3) [OF this assms(1) refl Some] obtain m where
      m: "m < 2 ^ 128" "t = uuid_str m" "m \<in> oc_id ` set (case_query st ?sel after)" by blast
    have "snd (walk_cases created acc status since til n (replicate j st) (map_option uuid_str (Some m)))"
      using case_query_shrinks [OF m(3)] Suc.prems(2) m(1) by (intro Suc.IH) auto
    with Some page m(2) show ?thesis by (auto split: prod.splits)
  qed
qed

section \<open>The daily report\<close>

definition job_verified :: "store \<Rightarrow> uid \<Rightarrow> expected_job_row \<Rightarrow> bool" where
  "job_verified st acc j \<longleftrightarrow> (case case_of_job st acc (ej_id j) of None \<Rightarrow> False | Some c \<Rightarrow>
    oc_automation_status c = AS_VERIFIED_COMPLETE \<and> oc_business_status c \<noteq> BS_UNRESOLVED)"

definition job_arrived :: "store \<Rightarrow> uid \<Rightarrow> expected_job_row \<Rightarrow> bool" where
  "job_arrived st acc j \<longleftrightarrow> case_of_job st acc (ej_id j) \<noteq> None \<and> data_as_of st acc (ej_id j) \<noteq> None"

text \<open>Every reconciled variance of the newest version of the job's case is zero as displayed (rounded to two places).\<close>

definition job_level :: "store \<Rightarrow> uid \<Rightarrow> expected_job_row \<Rightarrow> bool" where
  "job_level st acc j \<longleftrightarrow> (case case_of_job st acc (ej_id j) of None \<Rightarrow> True | Some c \<Rightarrow>
    list_all (\<lambda>(_, _, d). decimal_ne d dec_zero = Some False)
      (fst (reconciled_deltas (load_version st acc (oc_id c) None))))"

lemma count_nonzero_zero:
  assumes "count_nonzero deltas = Inr n"
  shows "n = 0 \<longleftrightarrow> list_all (\<lambda>(_, _, d). decimal_ne d dec_zero = Some False) deltas"
proof -
  have "m \<le> n \<and> (n = m \<longleftrightarrow> list_all (\<lambda>(_, _, d). decimal_ne d dec_zero = Some False) deltas)"
    if "efold (\<lambda>n (_, _, d). case decimal_ne d dec_zero of
     None \<Rightarrow> Inl ReadDecimalError | Some ne \<Rightarrow> Inr (if ne then n + 1 else n)) m deltas = Inr n" for m
    using that by (induction deltas arbitrary: m)
      (fastforce simp: ebind_Inr split: option.splits if_splits prod.splits)+
  from this [of 0] assms show ?thesis by (simp add: count_nonzero_def)
qed

definition acc_total :: "report_acc \<Rightarrow> nat" where
  "acc_total a = ra_complete a + ra_unresolved a + ra_awaiting a + ra_in_progress a"

lemma report_job_counts:
  assumes "report_job st acc a j = Inr a'"
  shows "acc_total a' = acc_total a + 1 \<and>
    ra_complete a' = ra_complete a + (if job_verified st acc j then 1 else 0) \<and>
    ra_arrived a' = ra_arrived a + (if job_arrived st acc j then 1 else 0) \<and>
    ra_variances a \<le> ra_variances a' \<and> (ra_variances a' = ra_variances a \<longleftrightarrow> job_level st acc j)"
proof (cases "case_of_job st acc (ej_id j)")
  case None
  with assms show ?thesis
    by (auto simp: report_job_def acc_total_def job_verified_def job_arrived_def job_level_def)
next
  case (Some c)
  let ?deltas = "fst (reconciled_deltas (load_version st acc (oc_id c) None))"
  from assms Some obtain n where n: "count_nonzero ?deltas = Inr n" and
    v: "ra_variances a' = ra_variances a + n" and rest: "acc_total a' = acc_total a + 1"
      "ra_complete a' = ra_complete a + (if case_status c = PS_COMPLETE then 1 else 0)"
      "ra_arrived a' = ra_arrived a + (if data_as_of st acc (ej_id j) = None then 0 else 1)"
    by (cases "case_status c") (auto simp: report_job_def Let_def ebind_Inr count_status_def note_arrival_def acc_total_def
        split: prod.splits option.splits if_splits)
  have "n = 0 \<longleftrightarrow> job_level st acc j"
    using count_nonzero_zero [OF n] Some by (simp add: job_level_def)
  with v rest Some show ?thesis by (simp add: job_verified_def job_arrived_def case_status_complete)
qed

lemma report_loop_counts:
  assumes "efold (report_job st acc) a js = Inr a'"
  shows "acc_total a' = acc_total a + length js \<and>
    ra_complete a' = ra_complete a + length (filter (job_verified st acc) js) \<and>
    ra_arrived a' = ra_arrived a + length (filter (job_arrived st acc) js) \<and>
    ra_variances a \<le> ra_variances a' \<and> (ra_variances a' = ra_variances a \<longleftrightarrow> list_all (job_level st acc) js)"
  using assms
proof (induction js arbitrary: a)
  case Nil
  then show ?case by simp
next
  case (Cons j js)
  from Cons.prems obtain b where b: "report_job st acc a j = Inr b" "efold (report_job st acc) b js = Inr a'"
    by (auto simp: ebind_Inr)
  from report_job_counts [OF b(1)] Cons.IH [OF b(2)] show ?case by auto
qed

lemma no_differences_iff:
  "daily_report_empty_state n authorized delayed disabled invalid unavailable arrived finished changes =
      ES_NO_RELEVANT_DIFFERENCES \<longleftrightarrow>
    \<not> disabled \<and> authorized \<and> n \<noteq> 0 \<and> \<not> invalid \<and> \<not> unavailable \<and> \<not> delayed \<and>
    n \<le> arrived \<and> finished = n \<and> changes = 0"
  by (auto simp: daily_report_empty_state_def)

text \<open>C29: the daily report accounts for every expected job of the period exactly once, counts as complete
  exactly those whose case was verified, and shows "no relevant differences" only when there is
  expected work, every job has a verified case and received data, and every reconciled variance the
  newest version of a job's case displays is zero. The displayed variance is rounded to two places: a
  difference below half a hundredth counts as none.\<close>

theorem daily_report_honest:
  assumes "get_daily_report st acc s e flags = Inr v"
  shows "dr_complete_jobs v + dr_unresolved_jobs v + dr_awaiting_jobs v + dr_in_progress_jobs v = dr_expected_jobs v \<and>
    dr_expected_jobs v = length (jobs_of_period st acc s e) \<and>
    dr_complete_jobs v = length (filter (job_verified st acc) (jobs_of_period st acc s e)) \<and>
    (dr_empty_state v = ES_NO_RELEVANT_DIFFERENCES \<longrightarrow> jobs_of_period st acc s e \<noteq> [] \<and>
      list_all (\<lambda>j. job_verified st acc j \<and> job_arrived st acc j \<and> job_level st acc j) (jobs_of_period st acc s e))"
proof -
  let ?js = "jobs_of_period st acc s e"
  from assms obtain a where a: "efold (report_job st acc) empty_acc ?js = Inr a"
    and built: "(case build_fleet_total (ra_reconciled a) (ra_excluded a) (length ?js - ra_arrived a) of
       Inl _ \<Rightarrow> Inl ReadDecimalError
     | Inr fleet_total \<Rightarrow> Inr
        \<lparr>dr_period_start = isoformat s, dr_period_end = isoformat e,
         dr_expected_jobs = length ?js, dr_complete_jobs = ra_complete a,
         dr_unresolved_jobs = ra_unresolved a, dr_awaiting_jobs = ra_awaiting a,
         dr_in_progress_jobs = ra_in_progress a,
         dr_latest_source_at = map_option isoformat (ra_latest a),
         dr_empty_state = daily_report_empty_state (length ?js) (rf_feed_authorized flags)
           (rf_feed_delayed flags) (rf_service_disabled flags) (rf_invalid_inputs flags)
           (rf_calculations_unavailable flags) (ra_arrived a) (ra_complete a) (ra_variances a),
         dr_fleet_total = fleet_total, dr_cases = ra_summaries a\<rparr>) = Inr v"
    unfolding get_daily_report_def Let_def ebind_Inr by blast
  from built obtain ft where
    ft: "build_fleet_total (ra_reconciled a) (ra_excluded a) (length ?js - ra_arrived a) = Inr ft"
    by (cases "build_fleet_total (ra_reconciled a) (ra_excluded a) (length ?js - ra_arrived a)") simp_all
  note w = built [unfolded ft sum.case sum.inject, symmetric]
  have v: "dr_complete_jobs v = ra_complete a" "dr_unresolved_jobs v = ra_unresolved a"
      "dr_awaiting_jobs v = ra_awaiting a" "dr_in_progress_jobs v = ra_in_progress a"
      "dr_expected_jobs v = length ?js"
      "dr_empty_state v = daily_report_empty_state (length ?js) (rf_feed_authorized flags)
           (rf_feed_delayed flags) (rf_service_disabled flags) (rf_invalid_inputs flags)
           (rf_calculations_unavailable flags) (ra_arrived a) (ra_complete a) (ra_variances a)"
    by (simp_all add: w)
  note c = report_loop_counts [OF a]
  have full: "list_all P ?js" if "length (filter P ?js) = length ?js \<or> \<not> length (filter P ?js) < length ?js" for P
    using that length_filter_less [of _ ?js P] by (fastforce simp: list_all_iff)
  have "?js \<noteq> [] \<and> list_all (\<lambda>j. job_verified st acc j \<and> job_arrived st acc j \<and> job_level st acc j) ?js"
    if "dr_empty_state v = ES_NO_RELEVANT_DIFFERENCES"
  proof -
    from that [unfolded v(6) no_differences_iff] have d: "length ?js \<noteq> 0" "length ?js \<le> ra_arrived a"
      "ra_complete a = length ?js" "ra_variances a = 0" by blast+
    from c have n: "ra_complete a = length (filter (job_verified st acc) ?js)"
      "ra_arrived a = length (filter (job_arrived st acc) ?js)" "ra_variances a = 0 \<longleftrightarrow> list_all (job_level st acc) ?js"
      by (simp_all add: empty_acc_def)
    have "list_all (job_verified st acc) ?js" by (rule full) (use n(1) d(3) in simp)
    moreover have "list_all (job_arrived st acc) ?js" by (rule full) (use n(2) d(2) in simp)
    ultimately show ?thesis using n(3) d(1,4) by (simp add: list_all_iff)
  qed
  with c v show ?thesis by (simp add: empty_acc_def acc_total_def)
qed

section \<open>The recompute request\<close>

text \<open>a recompute is accepted exactly for an active principal of the account, an own case and its
  current revision; then it adds one run and one ready reconcile task of that run and changes no other
  row, in particular no version. Otherwise it says why (forbidden before not found before conflict, a
  conflict telling the current revision) and changes nothing.\<close>

theorem request_recompute_exact:
  "case request_recompute st acc k expected subject wv fp units deadline now of (st', r) \<Rightarrow>
    (case resolve_principal st acc subject of
       None \<Rightarrow> rq_status r = RQ_FORBIDDEN \<and> st' = st
     | Some p \<Rightarrow>
        if \<not> sp_active p then rq_status r = RQ_FORBIDDEN \<and> st' = st
        else (case load_case st acc k of
          None \<Rightarrow> rq_status r = RQ_NOT_FOUND \<and> st' = st
        | Some c \<Rightarrow>
           if Some expected = (case current_revision st acc k of None \<Rightarrow> Some (oc_revision c) | Some n \<Rightarrow> Some n)
           then rq_status r = RQ_ACCEPTED \<and> (\<exists>run task. st' = st\<lparr>st_runs := st_runs st @ [run],
               st_tasks := st_tasks st @ [task], st_next := st_next st + 2\<rparr> \<and>
             wr_account run = acc \<and> wr_case run = oc_id c \<and> rq_run_id r = Some (wr_id run) \<and>
             wt_account task = acc \<and> wt_run task = wr_id run \<and> wt_stage task = WS_RECONCILE \<and>
             wt_status task = TS_READY \<and> wt_next_attempt_at task = now)
           else rq_status r = RQ_CONFLICT \<and> st' = st \<and> rq_current_revision r \<noteq> Some expected))"
  by (auto simp: request_recompute_def read_current_revision_def current_revision_def create_run_def
      enqueue_task_def Let_def split: option.splits) (intro exI conjI, rule refl, simp_all)+

lemma simulates_recompute:
  "simulates sha256 (st, cs) (fst (request_recompute st acc k expected subject wv fp units deadline now), cs)"
proof (cases "rq_status (snd (request_recompute st acc k expected subject wv fp units deadline now)) = RQ_ACCEPTED")
  case False
  then have "fst (request_recompute st acc k expected subject wv fp units deadline now) = st"
    by (auto simp: request_recompute_def Let_def split: option.splits prod.splits if_splits)
  then show ?thesis by simp
next
  case True
  then have "\<exists>c. fst (request_recompute st acc k expected subject wv fp units deadline now) =
      fst (enqueue_task (fst (create_run st acc c wv fp units deadline)) acc
        (snd (create_run st acc c wv fp units deadline)) WS_RECONCILE 0 None 3 now)"
    by (auto simp: request_recompute_def Let_def split: option.splits prod.splits if_splits)
      (metis fst_conv snd_conv)+
  then obtain c where c: "fst (request_recompute st acc k expected subject wv fp units deadline now) =
      fst (enqueue_task (fst (create_run st acc c wv fp units deadline)) acc
        (snd (create_run st acc c wv fp units deadline)) WS_RECONCILE 0 None 3 now)" ..
  let ?st1 = "fst (create_run st acc c wv fp units deadline)"
  have "simulates sha256 (st, cs) (?st1, cs)"
    by (rule simulates_elsewhere) (simp_all add: create_run_def Let_def same_queue_def same_publication_def)
  moreover have "simulates sha256 (?st1, cs) (fst (enqueue_task ?st1 acc
      (snd (create_run st acc c wv fp units deadline)) WS_RECONCILE 0 None 3 now), cs)"
    by (rule simulates_queue [OF wf_enqueue [OF _ prod.collapse [symmetric]] enqueue_frame [OF prod.collapse [symmetric]]]) simp
  ultimately show ?thesis unfolding c by (rule simulates_trans)
qed

section \<open>Concrete views\<close>

definition sample_reported :: store where
  "sample_reported = empty_store\<lparr>st_jobs := [sample_job],
    st_cases := [sample_opcase\<lparr>oc_automation_status := AS_VERIFIED_COMPLETE, oc_business_status := BS_RECONCILED\<rparr>],
    st_captures := [sample_capture 40 RK_DAILY_REPORT sample_report],
    st_observations := [sample_obs 50 40 (Some 30) ''fuel_consumed'' FG_VLSFO 1050],
    st_versions := [sample_version\<lparr>cv_result_json := [(''variances'', JList [JObj
      [(''status'', JStr ''reconciled''), (''fuel_grade'', JStr ''VLSFO''), (''unit'', JStr ''tonne''),
       (''delta'', JStr ''0.00'')]])]\<rparr>]\<rparr>"

definition sample_flags :: report_flags where
  "sample_flags = \<lparr>rf_feed_authorized = True, rf_feed_delayed = False, rf_service_disabled = False,
    rf_invalid_inputs = False, rf_calculations_unavailable = False\<rparr>"

theorem daily_report_honest_witness:
  "\<exists>v. get_daily_report sample_reported 7 0 86400000000 sample_flags = Inr v \<and>
    dr_empty_state v = ES_NO_RELEVANT_DIFFERENCES \<and>
    list_all (job_verified sample_reported 7) (jobs_of_period sample_reported 7 0 86400000000)"
proof -
  have "case get_daily_report sample_reported 7 0 86400000000 sample_flags of
      Inl _ \<Rightarrow> False | Inr v \<Rightarrow> dr_empty_state v = ES_NO_RELEVANT_DIFFERENCES"
    by code_simp
  then obtain v where v: "get_daily_report sample_reported 7 0 86400000000 sample_flags = Inr v"
    "dr_empty_state v = ES_NO_RELEVANT_DIFFERENCES" by (auto split: sum.splits)
  with daily_report_honest [OF v(1)] show ?thesis by (auto simp: list_all_iff)
qed

definition sample_list :: store where
  "sample_list = empty_store\<lparr>st_cases := [sample_opcase\<lparr>oc_id := 12\<rparr>, sample_opcase]\<rparr>"

theorem walk_skips_and_repeats_nothing_witness:
  "\<exists>items. walk_cases (\<lambda>_. 0) 7 None None None 1 [sample_list, sample_list] None = (items, True) \<and>
    9 \<in> set (map cm_case_id items) \<and> 12 \<in> set (map cm_case_id items)"
proof -
  have "snd (walk_cases (\<lambda>_. 0) 7 None None None 1 [sample_list, sample_list] None)" by code_simp
  then obtain items where w: "walk_cases (\<lambda>_. 0) 7 None None None 1 [sample_list, sample_list] None = (items, True)"
    by (metis prod.collapse)
  have ok: "list_all ids_ok [sample_list, sample_list]" by code_simp
  have "list_all (\<lambda>st. \<exists>c \<in> set (st_cases st). oc_id c = k \<and> case_selected (\<lambda>_. 0) 7 None None None c)
      [sample_list, sample_list]" if "k = 9 \<or> k = 12" for k
    using that by (auto simp: sample_list_def sample_opcase_def case_selected_def)
  with walk_skips_and_repeats_nothing [OF ok w] w show ?thesis by blast
qed

end
