(* ===== verification/RecordImport.thy ===== *)
theory RecordImport
  imports Contract Policy Schema
begin

text \<open>
  The deterministic importer (\<open>packages/pipeline/eastmed_pipeline/reconciliation_import.py\<close>): one
  decoded contract record becomes an immutable capture and observations, bound to its source revision
  and to the expected job. The three tables only the importer touches extend the store;
  \<open>captured_at\<close> is the database clock, an argument. A constraint of those tables that the importer
  does not check itself is an \<open>IntegrityError\<close>, an assertion that fails an \<open>AssertionError\<close>.
\<close>

section \<open>Tables\<close>

record membership_row =
  vm_id :: uid
  vm_account :: uid
  vm_vessel_ref :: string
  vm_authority_role :: authority_role
  vm_valid_from :: instant
  vm_valid_to :: instant

record voyage_row =
  vy_id :: uid
  vy_account :: uid
  vy_voyage_ref :: string
  vy_vessel_ref :: string
  vy_source_system :: string

record voyage_version_row =
  yv_id :: uid
  yv_account :: uid
  yv_voyage :: uid
  yv_plan_revision :: string
  yv_source_revision :: string
  yv_effective_from :: instant
  yv_effective_to :: instant
  yv_plan_json :: json

record feed_store = store +
  fs_memberships :: "membership_row list"
  fs_voyages :: "voyage_row list"
  fs_voyage_versions :: "voyage_version_row list"

section \<open>Outcomes\<close>

datatype import_status =
  IM_ACCEPTED | IM_IDEMPOTENT | IM_REVISION_CONFLICT | IM_REJECTED | IM_MEMBERSHIP_DENIED | IM_OUT_OF_CONTRACT

record import_outcome =
  io_status :: import_status
  io_capture_id :: "uid option"
  io_expected_job_id :: "uid option"
  io_case_id :: "uid option"
  io_observation_ids :: "uid list"
  io_rejection :: "rejection option"
  io_detail :: "string option"

definition outcome :: "import_status \<Rightarrow> import_outcome" where
  "outcome status = \<lparr>io_status = status, io_capture_id = None, io_expected_job_id = None,
    io_case_id = None, io_observation_ids = [], io_rejection = None, io_detail = None\<rparr>"

datatype import_error = ImportTypeError | ImportIntegrityError | ImportAssertionError

definition canonical_hash :: "hash \<Rightarrow> json \<Rightarrow> string" where
  "canonical_hash sha256 payload = sha256 (json_dumps payload)"

section \<open>Lookups\<close>

definition membership_covers :: "feed_store \<Rightarrow> uid \<Rightarrow> string \<Rightarrow> instant \<Rightarrow> instant \<Rightarrow> bool" where
  "membership_covers st account_id vessel_ref period_start period_end =
    list_ex (\<lambda>m. vm_valid_from m \<le> period_start \<and> period_end \<le> vm_valid_to m)
      (filter (\<lambda>m. vm_account m = account_id \<and> vm_vessel_ref m = vessel_ref) (fs_memberships st))"

definition same_revision :: "uid \<Rightarrow> normalized_record \<Rightarrow> source_capture_row \<Rightarrow> bool" where
  "same_revision account_id r c \<longleftrightarrow> sc_account c = account_id \<and> sc_source_system c = nr_source_system r \<and>
    sc_external_ref c = nr_external_ref r \<and> sc_source_revision c = nr_source_revision r"

definition existing_capture :: "feed_store \<Rightarrow> uid \<Rightarrow> normalized_record \<Rightarrow> source_capture_row option" where
  "existing_capture st account_id r = find (same_revision account_id r) (st_captures st)"

definition find_job :: "feed_store \<Rightarrow> uid \<Rightarrow> normalized_record \<Rightarrow> import_error + expected_job_row option" where
  "find_job st account_id r =
    (case (nr_interval_start r, nr_interval_end r) of
       (Some s, Some e) \<Rightarrow> Inr (find (\<lambda>j. ej_account j = account_id \<and> ej_vessel_ref j = nr_vessel_ref r \<and>
         (ej_voyage_ref j = None \<or> ej_voyage_ref j = nr_voyage_ref r) \<and>
         ej_required_record_kind j = RK_DAILY_REPORT \<and> ej_period_start j = nt_utc s \<and>
         ej_period_end j = nt_utc e) (st_jobs st))
     | _ \<Rightarrow> Inl ImportAssertionError)"

section \<open>Observations\<close>

definition observation_row_of ::
  "uid \<Rightarrow> normalized_record \<Rightarrow> uid \<Rightarrow> uid option \<Rightarrow> uid \<Rightarrow> normalized_observation \<Rightarrow> observation_row" where
  "observation_row_of account_id r capture_id job_id i ob =
    \<lparr>ob_id = i, ob_account = account_id, ob_capture = capture_id, ob_expected_job = job_id,
     ob_field = no_field ob, ob_item_key = no_item_key ob, ob_fuel_grade = no_fuel_grade ob,
     ob_value = no_value ob, ob_unit = no_unit ob, ob_origin = no_origin ob,
     ob_period_start = nt_utc (no_period_start ob), ob_period_end = nt_utc (no_period_end ob),
     ob_source_pointer = no_source_pointer ob, ob_normalization_version = no_normalization_version ob,
     ob_recorded_at = nt_utc (nr_recorded_at r)\<rparr>"

fun store_rows ::
  "uid \<Rightarrow> normalized_record \<Rightarrow> uid \<Rightarrow> uid option \<Rightarrow> normalized_observation list \<Rightarrow> feed_store \<times> uid list \<Rightarrow>
    feed_store \<times> uid list" where
  "store_rows account_id r capture_id job_id [] s = s"
| "store_rows account_id r capture_id job_id (ob # obs) (st, ids) =
    store_rows account_id r capture_id job_id obs
      (st\<lparr>st_observations := st_observations st @ [observation_row_of account_id r capture_id job_id (st_next st) ob],
          st_next := st_next st + 1\<rparr>, ids @ [st_next st])"

definition store_observations ::
  "feed_store \<Rightarrow> uid \<Rightarrow> normalized_record \<Rightarrow> source_capture_row \<Rightarrow> uid option \<Rightarrow> feed_store \<times> uid list" where
  "store_observations st account_id r capture job_id =
    store_rows account_id r (sc_id capture) job_id (nr_observations r) (st, [])"

section \<open>The three kinds\<close>

definition import_membership ::
  "feed_store \<Rightarrow> uid \<Rightarrow> normalized_record \<Rightarrow> source_capture_row \<Rightarrow> import_error + (feed_store \<times> import_outcome)" where
  "import_membership st account_id r capture =
    (case (nr_authority_role r, nr_interval_start r, nr_interval_end r) of
       (Some role, Some s, Some e) \<Rightarrow>
         if list_ex (\<lambda>m. vm_account m = account_id \<and> vm_vessel_ref m = nr_vessel_ref r \<and>
             vm_valid_from m = nt_utc s) (fs_memberships st)
         then Inl ImportIntegrityError
         else Inr (st\<lparr>fs_memberships := fs_memberships st @
             [\<lparr>vm_id = st_next st, vm_account = account_id, vm_vessel_ref = nr_vessel_ref r,
               vm_authority_role = role, vm_valid_from = nt_utc s, vm_valid_to = nt_utc e\<rparr>],
             st_next := st_next st + 1\<rparr>,
           (outcome IM_ACCEPTED)\<lparr>io_capture_id := Some (sc_id capture)\<rparr>)
     | _ \<Rightarrow> Inl ImportAssertionError)"

definition voyage_for :: "feed_store \<Rightarrow> uid \<Rightarrow> normalized_record \<Rightarrow> string \<Rightarrow> feed_store \<times> uid" where
  "voyage_for st account_id r ref =
    (case find (\<lambda>v. vy_account v = account_id \<and> vy_source_system v = nr_source_system r \<and>
        vy_voyage_ref v = ref) (fs_voyages st) of
       Some v \<Rightarrow> (st, vy_id v)
     | None \<Rightarrow> (st\<lparr>fs_voyages := fs_voyages st @
         [\<lparr>vy_id = st_next st, vy_account = account_id, vy_voyage_ref = ref,
           vy_vessel_ref = nr_vessel_ref r, vy_source_system = nr_source_system r\<rparr>],
         st_next := st_next st + 1\<rparr>, st_next st))"

definition import_voyage_plan ::
  "feed_store \<Rightarrow> uid \<Rightarrow> normalized_record \<Rightarrow> source_capture_row \<Rightarrow> import_error + (feed_store \<times> import_outcome)" where
  "import_voyage_plan st account_id r capture =
    (case (nr_voyage_ref r, nr_plan_revision r, nr_interval_start r, nr_interval_end r) of
       (Some ref, Some plan, Some s, Some e) \<Rightarrow>
         (case voyage_for st account_id r ref of
            (st1, voyage) \<Rightarrow>
              if list_ex (\<lambda>v. yv_account v = account_id \<and> yv_voyage v = voyage \<and>
                  yv_plan_revision v = plan) (fs_voyage_versions st1)
              then Inl ImportIntegrityError
              else
                let st2 = st1\<lparr>fs_voyage_versions := fs_voyage_versions st1 @
                      [\<lparr>yv_id = st_next st1, yv_account = account_id, yv_voyage = voyage,
                        yv_plan_revision = plan, yv_source_revision = nr_source_revision r,
                        yv_effective_from = nt_utc s, yv_effective_to = nt_utc e,
                        yv_plan_json = sc_payload_json capture\<rparr>],
                      st_next := st_next st1 + 1\<rparr>
                in case store_observations st2 account_id r capture None of
                     (st3, ids) \<Rightarrow> Inr (st3, (outcome IM_ACCEPTED)
                       \<lparr>io_capture_id := Some (sc_id capture), io_observation_ids := ids\<rparr>))
     | _ \<Rightarrow> Inl ImportAssertionError)"

definition case_for :: "feed_store \<Rightarrow> uid \<Rightarrow> expected_job_row \<Rightarrow> feed_store \<times> uid" where
  "case_for st account_id job =
    (case find (\<lambda>c. oc_account c = account_id \<and> oc_expected_job c = ej_id job) (st_cases st) of
       Some c \<Rightarrow> (st, oc_id c)
     | None \<Rightarrow> (st\<lparr>st_cases := st_cases st @
         [\<lparr>oc_id = st_next st, oc_account = account_id, oc_expected_job = ej_id job,
           oc_automation_status = AS_VALIDATED, oc_business_status = BS_PENDING, oc_revision = 1,
           oc_deadline_at = ej_due_at job\<rparr>],
         st_next := st_next st + 1\<rparr>, st_next st))"

definition import_daily_report ::
  "feed_store \<Rightarrow> uid \<Rightarrow> normalized_record \<Rightarrow> source_capture_row \<Rightarrow> import_error + (feed_store \<times> import_outcome)" where
  "import_daily_report st account_id r capture =
    ebind (find_job st account_id r) (\<lambda>found.
    case found of
      None \<Rightarrow>
        (case store_observations st account_id r capture None of
           (st1, ids) \<Rightarrow> Inr (st1, (outcome IM_OUT_OF_CONTRACT)
             \<lparr>io_capture_id := Some (sc_id capture), io_observation_ids := ids\<rparr>))
    | Some job \<Rightarrow>
        (case store_observations st account_id r capture (Some (ej_id job)) of
           (st1, ids) \<Rightarrow>
             (case case_for st1 account_id job of
                (st2, case_id) \<Rightarrow> Inr (st2, (outcome IM_ACCEPTED)
                  \<lparr>io_capture_id := Some (sc_id capture), io_expected_job_id := Some (ej_id job),
                   io_case_id := Some case_id, io_observation_ids := ids\<rparr>))))"

section \<open>Import\<close>

definition capture_of ::
  "hash \<Rightarrow> uid \<Rightarrow> uid \<Rightarrow> normalized_record \<Rightarrow> json \<Rightarrow> instant \<Rightarrow> source_capture_row" where
  "capture_of sha256 i account_id r payload clock =
    \<lparr>sc_id = i, sc_account = account_id, sc_record_kind = nr_record_kind r,
     sc_source_system = nr_source_system r, sc_external_ref = nr_external_ref r,
     sc_source_revision = nr_source_revision r, sc_raw_hash = canonical_hash sha256 payload,
     sc_payload_json = payload, sc_captured_at = clock\<rparr>"

definition record_period :: "normalized_record \<Rightarrow> instant \<times> instant" where
  "record_period r =
    (case nr_interval_start r of Some s \<Rightarrow> nt_utc s | None \<Rightarrow> nt_utc (nr_recorded_at r),
     case nr_interval_end r of Some e \<Rightarrow> nt_utc e | None \<Rightarrow> nt_utc (nr_recorded_at r))"

definition import_new ::
  "hash \<Rightarrow> feed_store \<Rightarrow> uid \<Rightarrow> normalized_record \<Rightarrow> json \<Rightarrow> instant \<Rightarrow> import_error + (feed_store \<times> import_outcome)" where
  "import_new sha256 st account_id r payload clock =
    (let capture = capture_of sha256 (st_next st) account_id r payload clock;
         st1 = st\<lparr>st_captures := st_captures st @ [capture], st_next := st_next st + 1\<rparr>
     in case nr_record_kind r of
          RK_FLEET_MEMBERSHIP \<Rightarrow> import_membership st1 account_id r capture
        | RK_VOYAGE_PLAN \<Rightarrow> import_voyage_plan st1 account_id r capture
        | RK_DAILY_REPORT \<Rightarrow> import_daily_report st1 account_id r capture)"

definition import_record ::
  "isoparser \<Rightarrow> hash \<Rightarrow> feed_store \<Rightarrow> uid \<Rightarrow> json \<Rightarrow> instant \<Rightarrow> import_error + (feed_store \<times> import_outcome)" where
  "import_record fromiso sha256 st account_id payload clock =
    (case validate_record fromiso payload of
       RaisedTypeError \<Rightarrow> Inl ImportTypeError
     | Rejected rejection \<Rightarrow> Inr (st, (outcome IM_REJECTED)\<lparr>io_rejection := Some rejection\<rparr>)
     | Accepted r \<Rightarrow>
        (case existing_capture st account_id r of
           Some existing \<Rightarrow>
             if sc_raw_hash existing = canonical_hash sha256 payload
             then Inr (st, (outcome IM_IDEMPOTENT)\<lparr>io_capture_id := Some (sc_id existing)\<rparr>)
             else Inr (st, (outcome IM_REVISION_CONFLICT)\<lparr>io_capture_id := Some (sc_id existing),
               io_detail := Some (''source_revision '' @ repr_str (nr_source_revision r) @
                 '' already stored with a different payload hash'')\<rparr>)
         | None \<Rightarrow>
             if nr_record_kind r \<noteq> RK_FLEET_MEMBERSHIP \<and>
               \<not> membership_covers st account_id (nr_vessel_ref r) (fst (record_period r)) (snd (record_period r))
             then Inr (st, (outcome IM_MEMBERSHIP_DENIED)\<lparr>io_detail := Some (''vessel '' @
               repr_str (nr_vessel_ref r) @ '' is not a current member for this period'')\<rparr>)
             else import_new sha256 st account_id r payload clock))"

section \<open>The service in front of the importer\<close>

text \<open>\<open>apps/api/eastmed_api/reconciliation_service.py\<close>: the receipt of an ingestion and the statuses
  the route turns into client errors, for which the caller commits nothing.\<close>

definition CLIENT_ERROR_CODE :: "(import_status \<times> int) list" where
  "CLIENT_ERROR_CODE = [(IM_REJECTED, 422), (IM_MEMBERSHIP_DENIED, 403), (IM_REVISION_CONFLICT, 409)]"

record ingest_receipt =
  rr_status :: import_status
  rr_capture_id :: "uid option"
  rr_expected_job_id :: "uid option"
  rr_case_id :: "uid option"
  rr_observation_ids :: "uid list"
  rr_detail :: "string option"

definition is_client_error :: "ingest_receipt \<Rightarrow> bool" where
  "is_client_error r \<longleftrightarrow> rr_status r \<in> fst ` set CLIENT_ERROR_CODE"

definition http_status :: "ingest_receipt \<Rightarrow> int" where
  "http_status r = (case map_of CLIENT_ERROR_CODE (rr_status r) of None \<Rightarrow> 200 | Some code \<Rightarrow> code)"

primrec import_status_value :: "import_status \<Rightarrow> string" where
  "import_status_value IM_ACCEPTED = ''accepted''"
| "import_status_value IM_IDEMPOTENT = ''idempotent''"
| "import_status_value IM_REVISION_CONFLICT = ''revision_conflict''"
| "import_status_value IM_REJECTED = ''rejected''"
| "import_status_value IM_MEMBERSHIP_DENIED = ''membership_denied''"
| "import_status_value IM_OUT_OF_CONTRACT = ''out_of_contract''"

definition opt_uuid :: "uid option \<Rightarrow> json" where
  "opt_uuid x = (case x of None \<Rightarrow> JNull | Some i \<Rightarrow> JStr (uuid_str i))"

definition receipt_render :: "ingest_receipt \<Rightarrow> json" where
  "receipt_render r = JObj
    [(''status'', JStr (import_status_value (rr_status r))), (''capture_id'', opt_uuid (rr_capture_id r)),
     (''expected_job_id'', opt_uuid (rr_expected_job_id r)), (''case_id'', opt_uuid (rr_case_id r)),
     (''observation_ids'', JList (map (\<lambda>i. JStr (uuid_str i)) (rr_observation_ids r))),
     (''detail'', case rr_detail r of None \<Rightarrow> JNull | Some d \<Rightarrow> JStr d)]"

definition receipt :: "import_outcome \<Rightarrow> ingest_receipt" where
  "receipt out =
    (let detail = (if io_detail out = None \<and> io_rejection out \<noteq> None
       then Some ''record failed contract validation'' else io_detail out)
     in \<lparr>rr_status = io_status out, rr_capture_id = io_capture_id out,
         rr_expected_job_id = io_expected_job_id out, rr_case_id = io_case_id out,
         rr_observation_ids = io_observation_ids out, rr_detail = detail\<rparr>)"

definition ingest_reconciliation_record ::
  "isoparser \<Rightarrow> hash \<Rightarrow> feed_store \<Rightarrow> uid \<Rightarrow> json \<Rightarrow> instant \<Rightarrow> import_error + (feed_store \<times> ingest_receipt)" where
  "ingest_reconciliation_record fromiso sha256 st account_id payload clock =
    (case import_record fromiso sha256 st account_id payload clock of
       Inl e \<Rightarrow> Inl e
     | Inr (st', out) \<Rightarrow> Inr (st', receipt out))"

end
