(* ===== verification/RecordImport_Props.thy ===== *)
theory RecordImport_Props
  imports RecordImport Dispatch_Props
begin

text \<open>
  The properties of the importer: it only appends rows of its tenant, a repeat of a payload is
  recognised, another payload under a bound revision is refused, and an accepted record never trips an
  assertion.
\<close>

section \<open>What an import may add\<close>

definition feeds :: "uid \<Rightarrow> uid \<Rightarrow> feed_store \<Rightarrow> feed_store \<Rightarrow> bool" where
  "feeds acc cid st st' \<longleftrightarrow> (\<exists>os ks n. st_next st \<le> n \<and>
    list_all (\<lambda>x. ob_account x = acc \<and> ob_capture x = cid) os \<and>
    list_all (\<lambda>c. oc_account c = acc \<and> oc_automation_status c = AS_VALIDATED) ks \<and> length ks \<le> 1 \<and>
    store.truncate st' = (store.truncate st)\<lparr>st_observations := st_observations st @ os,
      st_cases := st_cases st @ ks, st_next := n\<rparr>)"

lemma store_rows_exact:
  "store_rows acc r cid job obs (st, ids) =
    (st\<lparr>st_observations := st_observations st @
         map (\<lambda>(i, ob). observation_row_of acc r cid job i ob) (enumerate (st_next st) obs),
       st_next := st_next st + length obs\<rparr>, ids @ [st_next st ..< st_next st + length obs])"
  by (induction obs arbitrary: st ids) (auto simp: upt_conv_Cons Suc_le_eq)

lemma store_observations_exact:
  "store_observations st acc r c job =
    (st\<lparr>st_observations := st_observations st @
         map (\<lambda>(i, ob). observation_row_of acc r (sc_id c) job i ob) (enumerate (st_next st) (nr_observations r)),
       st_next := st_next st + length (nr_observations r)\<rparr>,
     [st_next st ..< st_next st + length (nr_observations r)])"
  by (simp add: store_observations_def store_rows_exact)

lemma observation_rows_own:
  "list_all (\<lambda>x. ob_account x = acc \<and> ob_capture x = cid)
    (map (\<lambda>(i, ob). observation_row_of acc r cid job i ob) (enumerate n obs))"
  by (auto simp: list_all_iff observation_row_of_def)

lemma import_membership_feeds:
  "import_membership st acc r c = Inr (st', out) \<Longrightarrow> feeds acc (sc_id c) st st' \<and> io_status out = IM_ACCEPTED \<and>
    io_capture_id out = Some (sc_id c)"
  unfolding feeds_def
  by (intro conjI exI [of _ "[]"] exI [of _ "st_next st + 1"])
    (auto simp: import_membership_def outcome_def store.defs split: option.splits if_splits)

lemma voyage_for_frame:
  "voyage_for st acc r ref = (st', i) \<Longrightarrow> \<exists>n \<ge> st_next st. store.truncate st' = (store.truncate st)\<lparr>st_next := n\<rparr> \<and>
    st_next st' = n \<and> st_observations st' = st_observations st \<and> st_cases st' = st_cases st"
  by (auto simp: voyage_for_def store.defs split: option.splits)

lemma import_voyage_plan_feeds:
  assumes "import_voyage_plan st acc r c = Inr (st', out)"
  shows "feeds acc (sc_id c) st st' \<and> io_status out = IM_ACCEPTED \<and> io_capture_id out = Some (sc_id c)"
proof -
  from assms obtain ref st1 i where v: "voyage_for st acc r ref = (st1, i)"
    and out: "io_status out = IM_ACCEPTED" "io_capture_id out = Some (sc_id c)"
    and st': "st_observations st' = st_observations st1 @
        map (\<lambda>(i, ob). observation_row_of acc r (sc_id c) None i ob) (enumerate (st_next st1 + 1) (nr_observations r))"
      "st_next st' = st_next st1 + 1 + length (nr_observations r)"
      "store.truncate st' = (store.truncate st1)\<lparr>st_observations := st_observations st', st_next := st_next st'\<rparr>"
    by (fastforce simp: import_voyage_plan_def Let_def store_observations_exact outcome_def store.defs
        split: option.splits if_splits prod.splits)
  from voyage_for_frame [OF v] st' observation_rows_own [of acc "sc_id c" r None "st_next st1 + 1" "nr_observations r"]
  show ?thesis unfolding feeds_def
    by (intro conjI exI [of _ "map (\<lambda>(i, ob). observation_row_of acc r (sc_id c) None i ob)
        (enumerate (st_next st1 + 1) (nr_observations r))"] exI [of _ "[]"] exI [of _ "st_next st'"] out)
      (auto simp: store.defs)
qed

lemma case_for_frame:
  assumes "case_for st acc job = (st', i)"
  shows "\<exists>ks n. st_next st \<le> n \<and> list_all (\<lambda>c. oc_account c = acc \<and> oc_automation_status c = AS_VALIDATED) ks \<and>
      length ks \<le> 1 \<and> store.truncate st' = (store.truncate st)\<lparr>st_cases := st_cases st @ ks, st_next := n\<rparr>"
    and "\<exists>c \<in> set (st_cases st'). oc_id c = i \<and> oc_account c = acc \<and> oc_expected_job c = ej_id job"
proof -
  show "\<exists>ks n. st_next st \<le> n \<and> list_all (\<lambda>c. oc_account c = acc \<and> oc_automation_status c = AS_VALIDATED) ks \<and>
      length ks \<le> 1 \<and> store.truncate st' = (store.truncate st)\<lparr>st_cases := st_cases st @ ks, st_next := n\<rparr>"
  proof (cases "find (\<lambda>c. oc_account c = acc \<and> oc_expected_job c = ej_id job) (st_cases st)")
    case None
    with assms show ?thesis
      by (intro exI [of _ "[\<lparr>oc_id = st_next st, oc_account = acc, oc_expected_job = ej_id job,
           oc_automation_status = AS_VALIDATED, oc_business_status = BS_PENDING, oc_revision = 1,
           oc_deadline_at = ej_due_at job\<rparr>]"] exI [of _ "st_next st + 1"]) (auto simp: case_for_def store.defs)
  next
    case (Some c)
    with assms show ?thesis
      by (intro exI [of _ "[]"] exI [of _ "st_next st"]) (auto simp: case_for_def store.defs)
  qed
  from assms show "\<exists>c \<in> set (st_cases st'). oc_id c = i \<and> oc_account c = acc \<and> oc_expected_job c = ej_id job"
    by (auto simp: case_for_def find_Some_iff split: option.splits)
qed

lemma find_job_total: "interval_ok r \<Longrightarrow> \<exists>j. find_job st acc r = Inr j"
  by (auto simp: interval_ok_def find_job_def)

lemma import_daily_report_feeds:
  assumes "import_daily_report st acc r c = Inr (st', out)"
  shows "feeds acc (sc_id c) st st' \<and> io_status out \<in> {IM_ACCEPTED, IM_OUT_OF_CONTRACT} \<and>
    io_capture_id out = Some (sc_id c)"
proof -
  from assms obtain found where found: "find_job st acc r = Inr found" by (auto simp: import_daily_report_def ebind_Inr)
  let ?os = "map (\<lambda>(i, ob). observation_row_of acc r (sc_id c) (map_option ej_id found) i ob)
    (enumerate (st_next st) (nr_observations r))"
  let ?st1 = "st\<lparr>st_observations := st_observations st @ ?os, st_next := st_next st + length (nr_observations r)\<rparr>"
  note own = observation_rows_own [of acc "sc_id c" r "map_option ej_id found" "st_next st" "nr_observations r"]
  show ?thesis
  proof (cases found)
    case None
    with assms found have "st' = ?st1" and out: "io_status out = IM_OUT_OF_CONTRACT" "io_capture_id out = Some (sc_id c)"
      by (auto simp: import_daily_report_def store_observations_exact outcome_def)
    with own show ?thesis unfolding feeds_def
      by (intro conjI exI [of _ ?os] exI [of _ "[]"] exI [of _ "st_next st + length (nr_observations r)"])
        (auto simp: store.defs)
  next
    case (Some job)
    with assms found obtain i where cf: "case_for ?st1 acc job = (st', i)"
      and out: "io_status out = IM_ACCEPTED" "io_capture_id out = Some (sc_id c)"
      by (auto simp: import_daily_report_def store_observations_exact outcome_def split: prod.splits)
    from case_for_frame(1) [OF cf] obtain ks n where k: "st_next ?st1 \<le> n"
      "list_all (\<lambda>c. oc_account c = acc \<and> oc_automation_status c = AS_VALIDATED) ks" "length ks \<le> 1"
      "store.truncate st' = (store.truncate ?st1)\<lparr>st_cases := st_cases ?st1 @ ks, st_next := n\<rparr>" by blast
    have "feeds acc (sc_id c) st st'" unfolding feeds_def
      by (intro exI [of _ ?os] exI [of _ ks] exI [of _ n]) (use k own in \<open>simp add: store.defs\<close>)
    with out show ?thesis by simp
  qed
qed

lemma feeds_capture:
  assumes "feeds acc cid (st\<lparr>st_captures := st_captures st @ [c], st_next := st_next st + 1\<rparr>) st'"
  shows "st_captures st' = st_captures st @ [c]"
    and "\<exists>os ks n. st_next st \<le> n \<and> list_all (\<lambda>x. ob_account x = acc \<and> ob_capture x = cid) os \<and>
      list_all (\<lambda>c. oc_account c = acc \<and> oc_automation_status c = AS_VALIDATED) ks \<and> length ks \<le> 1 \<and>
      store.truncate st' = (store.truncate st)\<lparr>st_captures := st_captures st @ [c],
        st_observations := st_observations st @ os, st_cases := st_cases st @ ks, st_next := n\<rparr>"
proof -
  from assms obtain os ks n where f: "st_next st + 1 \<le> n" "list_all (\<lambda>x. ob_account x = acc \<and> ob_capture x = cid) os"
    "list_all (\<lambda>c. oc_account c = acc \<and> oc_automation_status c = AS_VALIDATED) ks" "length ks \<le> 1"
    "store.truncate st' = (store.truncate (st\<lparr>st_captures := st_captures st @ [c], st_next := st_next st + 1\<rparr>))
      \<lparr>st_observations := st_observations st @ os, st_cases := st_cases st @ ks, st_next := n\<rparr>"
    by (auto simp: feeds_def)
  from arg_cong [OF f(5), of st_captures] show "st_captures st' = st_captures st @ [c]" by (simp add: store.defs)
  show "\<exists>os ks n. st_next st \<le> n \<and> list_all (\<lambda>x. ob_account x = acc \<and> ob_capture x = cid) os \<and>
      list_all (\<lambda>c. oc_account c = acc \<and> oc_automation_status c = AS_VALIDATED) ks \<and> length ks \<le> 1 \<and>
      store.truncate st' = (store.truncate st)\<lparr>st_captures := st_captures st @ [c],
        st_observations := st_observations st @ os, st_cases := st_cases st @ ks, st_next := n\<rparr>"
    by (intro exI [of _ os] exI [of _ ks] exI [of _ n]) (use f in \<open>simp add: store.defs\<close>)
qed

lemma import_new_feeds:
  assumes "import_new sha256 st acc r payload clock = Inr (st', out)"
  shows "feeds acc (st_next st) (st\<lparr>st_captures := st_captures st @ [capture_of sha256 (st_next st) acc r payload clock],
      st_next := st_next st + 1\<rparr>) st' \<and>
    io_status out \<in> {IM_ACCEPTED, IM_OUT_OF_CONTRACT} \<and> io_capture_id out = Some (st_next st)"
proof -
  have id: "sc_id (capture_of sha256 (st_next st) acc r payload clock) = st_next st" by (simp add: capture_of_def)
  from assms show ?thesis
    unfolding import_new_def Let_def
    by (cases "nr_record_kind r")
      (auto dest!: import_membership_feeds import_voyage_plan_feeds import_daily_report_feeds simp: id)
qed

text \<open>An import either changes nothing or adds one capture under a revision that was free.\<close>

lemma import_record_cases:
  assumes "import_record fromiso sha256 st acc payload clock = Inr (st', out)"
  obtains (unchanged) "st' = st" "io_status out \<notin> {IM_ACCEPTED, IM_OUT_OF_CONTRACT}"
  | (new) r where "validate_record fromiso payload = Accepted r" "existing_capture st acc r = None"
      "import_new sha256 st acc r payload clock = Inr (st', out)"
  using assms
  by (auto simp: import_record_def outcome_def split: validation.split_asm option.split_asm if_split_asm)

section \<open>Properties\<close>

definition revision_keys :: "'a store_scheme \<Rightarrow> (uid \<times> string \<times> string \<times> string) list" where
  "revision_keys st = map (\<lambda>c. (sc_account c, sc_source_system c, sc_external_ref c, sc_source_revision c))
    (st_captures st)"

lemma capture_of_key: "same_revision acc r (capture_of sha256 i acc r payload clock)"
  by (simp add: same_revision_def capture_of_def)

lemma find_None_key:
  "existing_capture st acc r = None \<Longrightarrow>
    (acc, nr_source_system r, nr_external_ref r, nr_source_revision r) \<notin> set (revision_keys st)"
  by (auto simp: existing_capture_def same_revision_def revision_keys_def find_None_iff)

lemma import_record_frame:
  assumes "import_record fromiso sha256 st acc payload clock = Inr (st', out)"
  shows "\<exists>cs os ks n. st_next st \<le> n \<and> length cs \<le> 1 \<and> length ks \<le> 1 \<and>
      list_all (\<lambda>c. sc_account c = acc) cs \<and>
      list_all (\<lambda>x. ob_account x = acc \<and> ob_capture x \<in> sc_id ` set cs) os \<and>
      list_all (\<lambda>c. oc_account c = acc \<and> oc_automation_status c = AS_VALIDATED) ks \<and>
      store.truncate st' = (store.truncate st)\<lparr>st_captures := st_captures st @ cs,
        st_observations := st_observations st @ os, st_cases := st_cases st @ ks, st_next := n\<rparr>"
  using assms
proof (cases rule: import_record_cases)
  case unchanged
  show ?thesis
    by (intro exI [of _ "[]"] exI [of _ "st_next st"]) (simp add: unchanged(1) store.defs)
next
  case (new r)
  let ?c = "capture_of sha256 (st_next st) acc r payload clock"
  from feeds_capture(2) [OF conjunct1 [OF import_new_feeds [OF new(3)]]] obtain os ks n where k: "st_next st \<le> n"
    "list_all (\<lambda>x. ob_account x = acc \<and> ob_capture x = st_next st) os"
    "list_all (\<lambda>c. oc_account c = acc \<and> oc_automation_status c = AS_VALIDATED) ks" "length ks \<le> 1"
    "store.truncate st' = (store.truncate st)\<lparr>st_captures := st_captures st @ [?c],
      st_observations := st_observations st @ os, st_cases := st_cases st @ ks, st_next := n\<rparr>" by blast
  have "sc_account ?c = acc" "sc_id ?c = st_next st" by (simp_all add: capture_of_def)
  with k show ?thesis by (intro exI [of _ "[?c]"] exI [of _ os] exI [of _ ks] exI [of _ n]) simp
qed

text \<open>The three tables only the importer writes grow by rows of the tenant.\<close>

definition extends_feed :: "uid \<Rightarrow> feed_store \<Rightarrow> feed_store \<Rightarrow> bool" where
  "extends_feed acc st st' \<longleftrightarrow> (\<exists>ms vs ys.
    fs_memberships st' = fs_memberships st @ ms \<and> fs_voyages st' = fs_voyages st @ vs \<and>
    fs_voyage_versions st' = fs_voyage_versions st @ ys \<and> length ms + length ys \<le> 1 \<and> length vs \<le> length ys \<and>
    list_all (\<lambda>m. vm_account m = acc) ms \<and> list_all (\<lambda>v. vy_account v = acc) vs \<and>
    list_all (\<lambda>y. yv_account y = acc \<and>
      (\<exists>v \<in> set (fs_voyages st'). vy_id v = yv_voyage y \<and> vy_account v = acc)) ys)"

lemma extends_feed_same:
  "fs_memberships st' = fs_memberships st \<Longrightarrow> fs_voyages st' = fs_voyages st \<Longrightarrow>
    fs_voyage_versions st' = fs_voyage_versions st \<Longrightarrow> extends_feed acc st st'"
  by (simp add: extends_feed_def)

lemma import_membership_extends: "import_membership st acc r c = Inr (st', out) \<Longrightarrow> extends_feed acc st st'"
  by (auto simp: import_membership_def extends_feed_def split: option.split_asm if_split_asm)

lemma voyage_for_extends:
  assumes "voyage_for st acc r ref = (st', i)"
  obtains vs where "fs_voyages st' = fs_voyages st @ vs" and "length vs \<le> 1" and "list_all (\<lambda>v. vy_account v = acc) vs"
    and "\<exists>v \<in> set (fs_voyages st'). vy_id v = i \<and> vy_account v = acc"
    and "fs_memberships st' = fs_memberships st" and "fs_voyage_versions st' = fs_voyage_versions st"
proof (cases "find (\<lambda>v. vy_account v = acc \<and> vy_source_system v = nr_source_system r \<and> vy_voyage_ref v = ref) (fs_voyages st)")
  case None
  with assms show thesis by (auto simp: voyage_for_def intro!: that)
next
  case (Some v)
  with assms show thesis by (auto simp: voyage_for_def find_Some_iff intro!: that [of "[]"])
qed

lemma import_voyage_plan_extends:
  assumes "import_voyage_plan st acc r c = Inr (st', out)"
  shows "extends_feed acc st st'"
proof -
  from assms obtain ref st1 i y where v: "voyage_for st acc r ref = (st1, i)"
    and y: "yv_account y = acc" "yv_voyage y = i" and k: "fs_voyage_versions st' = fs_voyage_versions st1 @ [y]"
      "fs_voyages st' = fs_voyages st1" "fs_memberships st' = fs_memberships st1"
    by (fastforce simp: import_voyage_plan_def Let_def store_observations_exact
        split: option.splits if_splits prod.splits)
  from v obtain vs where vs: "fs_voyages st1 = fs_voyages st @ vs" "length vs \<le> 1" "list_all (\<lambda>v. vy_account v = acc) vs"
    "\<exists>v \<in> set (fs_voyages st1). vy_id v = i \<and> vy_account v = acc" "fs_memberships st1 = fs_memberships st"
    "fs_voyage_versions st1 = fs_voyage_versions st" by (rule voyage_for_extends)
  then show ?thesis unfolding extends_feed_def
    by (intro exI [of _ "[]"] exI [of _ vs] exI [of _ "[y]"]) (simp add: k y)
qed

lemma case_for_extends: "case_for st acc job = (st', i) \<Longrightarrow> extends_feed acc st st'"
  by (rule extends_feed_same) (auto simp: case_for_def split: option.split_asm)

lemma import_daily_report_extends:
  assumes "import_daily_report st acc r c = Inr (st', out)"
  shows "extends_feed acc st st'"
proof -
  from assms obtain found where found: "find_job st acc r = Inr found" by (auto simp: import_daily_report_def ebind_Inr)
  show ?thesis
  proof (cases found)
    case None
    with assms found show ?thesis
      by (intro extends_feed_same) (auto simp: import_daily_report_def store_observations_exact)
  next
    case (Some job)
    let ?st1 = "fst (store_observations st acc r c (Some (ej_id job)))"
    from Some assms found have "\<exists>i. case_for ?st1 acc job = (st', i)"
      by (auto simp: import_daily_report_def split: prod.splits)
    then have "extends_feed acc ?st1 st'" by (blast intro: case_for_extends)
    then show ?thesis by (simp add: extends_feed_def store_observations_exact)
  qed
qed

lemma import_record_extends:
  assumes "import_record fromiso sha256 st acc payload clock = Inr (st', out)"
  shows "extends_feed acc st st'"
  using assms
proof (cases rule: import_record_cases)
  case unchanged
  then show ?thesis by (simp add: extends_feed_same)
next
  case (new r)
  let ?st = "st\<lparr>st_captures := st_captures st @ [capture_of sha256 (st_next st) acc r payload clock], st_next := st_next st + 1\<rparr>"
  from new(3) have "extends_feed acc ?st st'"
    by (auto simp: import_new_def Let_def import_membership_extends import_voyage_plan_extends
        import_daily_report_extends split: record_kind.split_asm)
  then show ?thesis by (simp add: extends_feed_def)
qed

text \<open>C27: an import only appends, and only rows of its own tenant: at most one capture, observations of
  that capture, at most one fresh case, and either at most one membership or at most one voyage version
  with at most one voyage, the version being of a voyage of the tenant; every other table of the engine
  and every earlier row stays as it is, a source revision is bound at most once, and a client error
  stores nothing.\<close>

theorem import_appends_only:
  assumes "ingest_reconciliation_record fromiso sha256 st acc payload clock = Inr (st', rc)"
  shows "(\<exists>cs os ks n. st_next st \<le> n \<and> length cs \<le> 1 \<and> length ks \<le> 1 \<and>
      list_all (\<lambda>c. sc_account c = acc) cs \<and>
      list_all (\<lambda>x. ob_account x = acc \<and> ob_capture x \<in> sc_id ` set cs) os \<and>
      list_all (\<lambda>c. oc_account c = acc \<and> oc_automation_status c = AS_VALIDATED) ks \<and>
      store.truncate st' = (store.truncate st)\<lparr>st_captures := st_captures st @ cs,
        st_observations := st_observations st @ os, st_cases := st_cases st @ ks, st_next := n\<rparr>) \<and>
    (\<exists>ms vs ys. fs_memberships st' = fs_memberships st @ ms \<and> fs_voyages st' = fs_voyages st @ vs \<and>
      fs_voyage_versions st' = fs_voyage_versions st @ ys \<and> length ms + length ys \<le> 1 \<and> length vs \<le> length ys \<and>
      list_all (\<lambda>m. vm_account m = acc) ms \<and> list_all (\<lambda>v. vy_account v = acc) vs \<and>
      list_all (\<lambda>y. yv_account y = acc \<and>
        (\<exists>v \<in> set (fs_voyages st'). vy_id v = yv_voyage y \<and> vy_account v = acc)) ys) \<and>
    (distinct (revision_keys st) \<longrightarrow> distinct (revision_keys st')) \<and>
    (is_client_error rc \<longrightarrow> st' = st)"
proof -
  from assms obtain out where eq: "import_record fromiso sha256 st acc payload clock = Inr (st', out)"
    and status: "rr_status rc = io_status out"
    by (auto simp: ingest_reconciliation_record_def receipt_def Let_def split: sum.splits prod.splits)
  have "(distinct (revision_keys st) \<longrightarrow> distinct (revision_keys st')) \<and> (is_client_error rc \<longrightarrow> st' = st)"
    using eq
  proof (cases rule: import_record_cases)
    case (new r)
    note f = import_new_feeds [OF new(3)]
    have "distinct (revision_keys st) \<longrightarrow> distinct (revision_keys st')"
      using find_None_key [OF new(2)] feeds_capture(1) [OF conjunct1 [OF f]]
      by (simp add: revision_keys_def capture_of_def)
    moreover have "\<not> is_client_error rc"
      using f status by (auto simp: is_client_error_def CLIENT_ERROR_CODE_def)
    ultimately show ?thesis by blast
  qed simp
  with import_record_frame [OF eq] import_record_extends [OF eq] show ?thesis unfolding extends_feed_def by blast
qed

text \<open>C28: once a record is stored, its source revision is bound to its payload: the same payload again is
  recognised as a repeat, any other payload under the same source, reference and revision is refused as
  a conflict, both point at the stored capture and neither changes anything.\<close>

theorem import_binds_revision:
  assumes "import_record fromiso sha256 st acc payload clock = Inr (st', out)"
    and "io_status out \<in> {IM_ACCEPTED, IM_OUT_OF_CONTRACT}"
    and "validate_record fromiso payload = Accepted r" and "validate_record fromiso payload' = Accepted r'"
    and "nr_source_system r' = nr_source_system r" and "nr_external_ref r' = nr_external_ref r"
    and "nr_source_revision r' = nr_source_revision r"
  shows "\<exists>out'. import_record fromiso sha256 st' acc payload' clock' = Inr (st', out') \<and>
    io_capture_id out' = io_capture_id out \<and>
    io_status out' = (if canonical_hash sha256 payload' = canonical_hash sha256 payload
      then IM_IDEMPOTENT else IM_REVISION_CONFLICT)"
  using assms(1)
proof (cases rule: import_record_cases)
  case unchanged
  with assms(2) show ?thesis by blast
next
  case (new q)
  with assms(3) have [simp]: "q = r" by simp
  let ?c = "capture_of sha256 (st_next st) acc r payload clock"
  note f = import_new_feeds [OF new(3)]
  have "st_captures st' = st_captures st @ [?c]"
    using feeds_capture(1) [OF conjunct1 [OF f]] by simp
  moreover have "same_revision acc r' = same_revision acc r"
    using assms(5-7) by (intro ext) (simp add: same_revision_def)
  ultimately have "existing_capture st' acc r' = Some ?c"
    using new(2) capture_of_key [of acc r] by (simp add: existing_capture_def find_append)
  with f assms(4) show ?thesis
    by (auto simp: import_record_def capture_of_def outcome_def)
qed

lemma record_ok_parts:
  assumes "record_ok r"
  shows "\<exists>s e. nr_interval_start r = Some s \<and> nr_interval_end r = Some e"
    and "nr_record_kind r = RK_FLEET_MEMBERSHIP \<Longrightarrow> \<exists>a. nr_authority_role r = Some a"
    and "nr_record_kind r = RK_VOYAGE_PLAN \<Longrightarrow> \<exists>v p. nr_voyage_ref r = Some v \<and> nr_plan_revision r = Some p"
  using assms by (auto simp: record_ok_def interval_ok_def)

text \<open>what an import may raise: a payload that is no mapping is a type error and nothing else is; a
  stored membership start or plan revision under a new source revision is an integrity error; the
  assertions behind the contract never fail, and a daily report never raises.\<close>

theorem import_errors_exact:
  "case import_record fromiso sha256 st acc payload clock of
     Inr _ \<Rightarrow> \<exists>obj. payload = JObj obj
   | Inl e \<Rightarrow> (e = ImportTypeError \<and> (\<nexists>obj. payload = JObj obj)) \<or>
      (e = ImportIntegrityError \<and> (\<exists>r. validate_record fromiso payload = Accepted r \<and>
         nr_record_kind r \<noteq> RK_DAILY_REPORT))"
proof (cases "validate_record fromiso payload")
  case RaisedTypeError
  then show ?thesis by (cases payload) (auto simp: import_record_def validate_record_def split: sum.split_asm)
next
  case (Rejected x)
  then show ?thesis by (cases payload) (auto simp: import_record_def validate_record_def split: sum.split_asm)
next
  case (Accepted r)
  then have obj: "\<exists>obj. payload = JObj obj" and "record_ok r"
    by (cases payload; auto simp: validate_record_def validate_Inr split: sum.split_asm)+
  note r = record_ok_parts [OF this(2)]
  have new: "case import_new sha256 st acc r payload clock of Inr _ \<Rightarrow> True
      | Inl e \<Rightarrow> e = ImportIntegrityError \<and> nr_record_kind r \<noteq> RK_DAILY_REPORT"
    using r(1) by (cases "nr_record_kind r"; use r(2,3) in simp)
      (auto simp: import_new_def Let_def import_membership_def import_voyage_plan_def import_daily_report_def
        find_job_def ebind_def split: sum.splits option.splits prod.splits)
  then show ?thesis
    using Accepted obj
    by (auto simp: import_record_def split: option.splits sum.splits if_splits)
qed

lemma find_SomeD: "find P xs = Some x \<Longrightarrow> x \<in> set xs \<and> P x"
  by (auto simp: find_Some_iff)

lemma import_new_cases:
  assumes "import_new sha256 st acc r payload clock = Inr (st', out)"
    and "\<forall>j \<in> set (st_jobs st). ej_account j = acc \<longrightarrow>
      (\<exists>c \<in> set (st_cases st). oc_account c = acc \<and> oc_expected_job c = ej_id j)"
  shows "st_cases st' = st_cases st"
proof (cases "nr_record_kind r")
  case RK_FLEET_MEMBERSHIP
  with assms(1) show ?thesis
    by (auto simp: import_new_def import_membership_def Let_def split: option.splits if_splits)
next
  case RK_VOYAGE_PLAN
  with assms(1) show ?thesis
    by (auto simp: import_new_def import_voyage_plan_def voyage_for_def Let_def store_observations_exact
        split: option.splits if_splits prod.splits)
next
  case RK_DAILY_REPORT
  have found: "\<exists>c. find (\<lambda>c. oc_account c = acc \<and> oc_expected_job c = ej_id j) (st_cases st) = Some c"
    if "j \<in> set (st_jobs st)" "ej_account j = acc" for j
    using assms(2) that by (auto simp: find_None_iff simp flip: not_None_eq)
  with assms(1) RK_DAILY_REPORT show ?thesis
    by (auto simp: import_new_def import_daily_report_def find_job_def case_for_def Let_def ebind_Inr
        store_observations_exact dest!: find_SomeD split: option.split_asm) (use found in fastforce)+
qed

text \<open>data that arrive after every case of the tenant was scheduled start no work: a corrected report
  or a late plan is stored, but no case becomes ready, so the next pass schedules nothing and the case
  stays as the first computation left it until somebody asks for a recompute.\<close>

theorem late_data_schedule_nothing:
  assumes "import_record fromiso sha256 st acc payload clock = Inr (st', out)"
    and "\<forall>j \<in> set (st_jobs st). ej_account j = acc \<longrightarrow>
      (\<exists>c \<in> set (st_cases st). oc_account c = acc \<and> oc_expected_job c = ej_id j)"
    and "ready_cases (store.truncate st) acc = []"
  shows "enqueue_ready_cases (store.truncate st') acc fp units wv now = (store.truncate st', 0)"
proof -
  from assms(1) have "st_cases st' = st_cases st"
  proof (cases rule: import_record_cases)
    case (new r)
    from import_new_cases [OF new(3) assms(2)] show ?thesis .
  qed simp
  with assms(3) have "ready_cases (store.truncate st') acc = []"
    by (simp add: ready_cases_def store.defs)
  then show ?thesis by (simp add: enqueue_ready_cases_def)
qed

section \<open>A concrete feed\<close>

definition sample_membership :: membership_row where
  "sample_membership = \<lparr>vm_id = 3, vm_account = 7, vm_vessel_ref = ''V1'', vm_authority_role = AR_OWNER,
    vm_valid_from = 0, vm_valid_to = 86400000000\<rparr>"

definition sample_feed :: feed_store where
  "sample_feed = store.extend (empty_store\<lparr>st_next := 60, st_jobs := [sample_job]\<rparr>)
    (feed_store.fields [sample_membership] [] [])"

definition sample_import :: "import_error + (feed_store \<times> import_outcome)" where
  "sample_import = import_record sample_iso sample_hash sample_feed 7 sample_report 5"

lemma sample_import_Inr:
  obtains st out where "import_record sample_iso sample_hash sample_feed 7 sample_report 5 = Inr (st, out)"
    "io_status out = IM_ACCEPTED" "length (st_observations st) = 1" "io_case_id out = Some 62"
proof -
  have "case sample_import of Inl _ \<Rightarrow> False | Inr (st, out) \<Rightarrow> io_status out = IM_ACCEPTED \<and>
      length (st_observations st) = 1 \<and> io_case_id out = Some 62"
    by code_simp
  then show thesis using that by (auto simp: sample_import_def split: sum.splits)
qed

theorem import_binds_revision_witness:
  "\<exists>st out'. import_record sample_iso sample_hash st 7 sample_report 9 = Inr (st, out') \<and>
    io_status out' = IM_IDEMPOTENT \<and> length (st_observations st) = 1"
proof -
  obtain st out where s: "import_record sample_iso sample_hash sample_feed 7 sample_report 5 = Inr (st, out)"
    "io_status out = IM_ACCEPTED" "length (st_observations st) = 1" by (rule sample_import_Inr)
  obtain r where r: "validate_record sample_iso sample_report = Accepted r"
    using sample_report_accepted by blast
  from import_binds_revision [OF s(1) _ r r refl refl refl, of 9] s(2,3) show ?thesis by auto
qed

theorem import_appends_only_witness:
  "\<exists>st rc. ingest_reconciliation_record sample_iso sample_hash sample_feed 7 sample_report 5 = Inr (st, rc) \<and>
    distinct (revision_keys st) \<and> length (st_observations st) = 1"
proof -
  obtain st out where s: "import_record sample_iso sample_hash sample_feed 7 sample_report 5 = Inr (st, out)"
    "length (st_observations st) = 1" by (rule sample_import_Inr)
  then have g: "ingest_reconciliation_record sample_iso sample_hash sample_feed 7 sample_report 5 = Inr (st, receipt out)"
    by (simp add: ingest_reconciliation_record_def)
  have "distinct (revision_keys sample_feed)"
    by (simp add: revision_keys_def sample_feed_def store.defs empty_store_def)
  with import_appends_only [OF g] g s(2) show ?thesis by blast
qed

definition sample_settled_feed :: feed_store where
  "sample_settled_feed = sample_feed\<lparr>st_cases := [sample_opcase\<lparr>oc_automation_status := AS_WAITING_FOR_MACHINE_DATA\<rparr>]\<rparr>"

theorem late_data_schedule_nothing_witness:
  "\<exists>st out. import_record sample_iso sample_hash sample_settled_feed 7 sample_report 5 = Inr (st, out) \<and>
    io_status out = IM_ACCEPTED \<and>
    snd (enqueue_ready_cases (store.truncate st) 7 ''fp'' 10 ''w'' 6) = 0"
proof -
  have "case import_record sample_iso sample_hash sample_settled_feed 7 sample_report 5 of
      Inl _ \<Rightarrow> False | Inr (_, out) \<Rightarrow> io_status out = IM_ACCEPTED"
    by code_simp
  then obtain st out where s: "import_record sample_iso sample_hash sample_settled_feed 7 sample_report 5 = Inr (st, out)"
    "io_status out = IM_ACCEPTED" by (auto split: sum.splits)
  have jobs: "\<forall>j \<in> set (st_jobs sample_settled_feed). ej_account j = 7 \<longrightarrow>
      (\<exists>c \<in> set (st_cases sample_settled_feed). oc_account c = 7 \<and> oc_expected_job c = ej_id j)"
    by (simp add: sample_settled_feed_def sample_feed_def store.defs empty_store_def sample_opcase_def sample_job_def)
  have ready: "ready_cases (store.truncate sample_settled_feed) 7 = []"
    by (simp add: ready_cases_def sample_settled_feed_def sample_feed_def store.defs sample_opcase_def)
  from late_data_schedule_nothing [OF s(1) jobs ready, of "''fp''" 10 "''w''" 6] s show ?thesis by auto
qed

end
