(* ===== verification/Release.thy ===== *)
theory Release
  imports Float64 PyValues
begin

text \<open>
  The release gates (\<open>packages/shared/eastmed_shared/reconciliation/release.py\<close>): the exact binomial
  lower bound, percentiles and the predeclared thresholds, computed in floating point as the code does.
  The functions of the C mathematics library and the shortest representation of a float are the
  parameter \<open>float_lib\<close>.
\<close>

record float_lib =
  lib_lgamma :: "float64 \<Rightarrow> float64"
  lib_exp :: "float64 \<Rightarrow> float64"
  lib_log :: "float64 \<Rightarrow> float64"
  lib_pow :: "float64 \<Rightarrow> float64 \<Rightarrow> float64"
  lib_repr :: "float64 \<Rightarrow> string"

section \<open>The operations of the language\<close>

definition fadd :: "float64 \<Rightarrow> float64 \<Rightarrow> float64" where "fadd x y = fl (x + y)"
definition fsub :: "float64 \<Rightarrow> float64 \<Rightarrow> float64" where "fsub x y = fl (x - y)"
definition fmul :: "float64 \<Rightarrow> float64 \<Rightarrow> float64" where "fmul x y = fl (x * y)"
definition fdiv :: "float64 \<Rightarrow> float64 \<Rightarrow> float64" where "fdiv x y = fl (x / y)"

text \<open>\<open>format(x, ".kf")\<close>: the exact value rounded half to even.\<close>

definition format_fixed :: "nat \<Rightarrow> float64 \<Rightarrow> string" where
  "format_fixed k x =
    (let n = nat (half_even (\<bar>x\<bar> * 10 ^ k)); d = digits_of (n mod 10 ^ k)
     in (if x < 0 then ''-'' else []) @ digits_of (n div 10 ^ k) @ ''.'' @ replicate (k - length d) CHR ''0'' @ d)"

section \<open>The binomial bound\<close>

definition TINY :: float64 where "TINY = fl (1 / 10 ^ 30)"

definition guard_tiny :: "float64 \<Rightarrow> float64" where
  "guard_tiny x = (if \<bar>x\<bar> < TINY then TINY else x)"

text \<open>One half step of the continued fraction: the coefficient \<open>aa\<close> enters \<open>c\<close> and \<open>d\<close>.\<close>

definition fraction_step :: "float64 \<Rightarrow> float64 \<times> float64 \<Rightarrow> float64 \<times> float64" where
  "fraction_step aa cd =
    (let d = guard_tiny (fadd 1 (fmul aa (snd cd)));
         c = guard_tiny (fadd 1 (fdiv aa (fst cd)))
     in (c, fdiv 1 d))"

fun betacf_loop ::
  "nat \<Rightarrow> nat \<Rightarrow> float64 \<Rightarrow> float64 \<Rightarrow> float64 \<Rightarrow> float64 \<times> float64 \<Rightarrow> float64 \<Rightarrow> float64" where
  "betacf_loop 0 m a b x cd h = h"
| "betacf_loop (Suc fuel) m a b x cd h =
    (let qab = fadd a b; qap = fadd a 1; qam = fsub a 1; mf = of_nat m; m2 = of_nat (2 * m);
         cd1 = fraction_step (fdiv (fmul (fmul mf (fsub b mf)) x) (fmul (fadd qam m2) (fadd a m2))) cd;
         h1 = fmul h (fmul (snd cd1) (fst cd1));
         cd2 = fraction_step (fdiv (fmul (fmul (- fadd a mf) (fadd qab mf)) x)
           (fmul (fadd a m2) (fadd qap m2))) cd1;
         delta = fmul (snd cd2) (fst cd2);
         h2 = fmul h1 delta
     in if \<bar>fsub delta 1\<bar> < fl (1 / 10 ^ 14) then h2
        else betacf_loop fuel (m + 1) a b x cd2 h2)"

definition betacf :: "float64 \<Rightarrow> float64 \<Rightarrow> float64 \<Rightarrow> float64" where
  "betacf a b x =
    (let qab = fadd a b; qap = fadd a 1;
         d = fdiv 1 (guard_tiny (fsub 1 (fdiv (fmul qab x) qap)))
     in betacf_loop 299 1 a b x (1, d) d)"

definition regularized_incomplete_beta :: "float_lib \<Rightarrow> float64 \<Rightarrow> float64 \<Rightarrow> float64 \<Rightarrow> float64" where
  "regularized_incomplete_beta lib a b x =
    (if x \<le> 0 then 0
     else if 1 \<le> x then 1
     else
       let ln_beta = fsub (fsub (lib_lgamma lib (fadd a b)) (lib_lgamma lib a)) (lib_lgamma lib b);
           front = lib_exp lib (fadd (fadd ln_beta (fmul a (lib_log lib x)))
             (fmul b (lib_log lib (fsub 1 x))))
       in if x < fdiv (fadd a 1) (fadd (fadd a b) 2)
          then fdiv (fmul front (betacf a b x)) a
          else fsub 1 (fdiv (fmul front (betacf b a (fsub 1 x))) b))"

definition bisect_step :: "(float64 \<Rightarrow> bool) \<Rightarrow> float64 \<times> float64 \<Rightarrow> float64 \<times> float64" where
  "bisect_step below s =
    (case s of (lo, hi) \<Rightarrow>
       let mid = fdiv (fadd lo hi) 2 in if below mid then (mid, hi) else (lo, mid))"

definition clopper_pearson_lower :: "float_lib \<Rightarrow> int \<Rightarrow> int \<Rightarrow> float64 \<Rightarrow> string + float64" where
  "clopper_pearson_lower lib successes n confidence =
    (if n \<le> 0 then Inl ''n must be positive''
     else if \<not> (0 \<le> successes \<and> successes \<le> n) then Inl ''successes must be within [0, n]''
     else
       let alpha = fsub 1 confidence
       in if successes = 0 then Inr 0
          else if successes = n then Inr (lib_pow lib alpha (fdiv 1 (of_int n)))
          else
            let a = fl (of_int successes); b = fl (of_int (n - successes + 1));
                below = (\<lambda>mid. regularized_incomplete_beta lib a b mid < alpha)
            in case (bisect_step below ^^ 200) (0, 1) of (lo, hi) \<Rightarrow> Inr (fdiv (fadd lo hi) 2))"

definition percentile :: "float64 list \<Rightarrow> float64 \<Rightarrow> float64 option" where
  "percentile values fraction =
    (if values = [] then None
     else
       let ordered = sort values;
           rank = max 0 (\<lceil>fmul fraction (of_nat (length ordered))\<rceil> - 1)
       in Some (ordered ! min (nat rank) (length ordered - 1)))"

section \<open>Thresholds\<close>

record release_thresholds =
  th_min_completion_rate :: float64
  th_max_runtime_interventions :: int
  th_min_precision_lower_bound :: float64
  th_min_precision_cases :: int
  th_max_p95_latency_seconds :: float64
  th_min_benefit_multiple :: float64
  th_min_continuing_pilots :: int
  th_confidence :: float64

definition default_thresholds :: release_thresholds where
  "default_thresholds = \<lparr>th_min_completion_rate = fl (90 / 100), th_max_runtime_interventions = 0,
    th_min_precision_lower_bound = fl (99 / 100), th_min_precision_cases = 300,
    th_max_p95_latency_seconds = 300, th_min_benefit_multiple = 3, th_min_continuing_pilots = 2,
    th_confidence = fl (95 / 100)\<rparr>"

record release_metrics =
  rm_expected_jobs :: int
  rm_correct_on_time :: int
  rm_runtime_interventions :: int
  rm_precision_successes :: int
  rm_precision_cases :: int
  rm_p95_latency_seconds :: float64
  rm_arithmetic_fixtures_pass :: bool
  rm_controls_intact :: bool
  rm_benefit_multiple :: float64
  rm_continuing_pilots :: int

text \<open>\<open>a / b\<close> of two integers is rounded once; the code guards a zero divisor.\<close>

definition int_ratio :: "int \<Rightarrow> int \<Rightarrow> float64" where
  "int_ratio a b = (if b = 0 then 0 else fl (of_int a / of_int b))"

definition metrics_completion_rate :: "release_metrics \<Rightarrow> float64" where
  "metrics_completion_rate m = int_ratio (rm_correct_on_time m) (rm_expected_jobs m)"

record release_check =
  rk_name :: string
  rk_passed :: bool
  rk_detail :: string

definition check :: "string \<Rightarrow> bool \<Rightarrow> string \<Rightarrow> release_check" where
  "check name passed detail = \<lparr>rk_name = name, rk_passed = passed, rk_detail = detail\<rparr>"

definition release_check_render :: "release_check \<Rightarrow> json" where
  "release_check_render c = JObj
    [(''name'', JStr (rk_name c)), (''passed'', JBool (rk_passed c)), (''detail'', JStr (rk_detail c))]"

record release_verdict =
  rv_passed :: bool
  rv_checks :: "release_check list"
  rv_precision_lower_bound :: float64

definition release_verdict_render :: "float_lib \<Rightarrow> release_verdict \<Rightarrow> json" where
  "release_verdict_render lib v = JObj
    [(''passed'', JBool (rv_passed v)),
     (''precision_lower_bound'', JFloat (lib_repr lib (rv_precision_lower_bound v))),
     (''checks'', JList (map release_check_render (rv_checks v)))]"

definition release_checks ::
  "float_lib \<Rightarrow> release_metrics \<Rightarrow> release_thresholds \<Rightarrow> float64 \<Rightarrow> release_check list" where
  "release_checks lib m t lower =
    (let rate = metrics_completion_rate m;
         enough_cases = th_min_precision_cases t \<le> rm_precision_cases m
     in [check ''completion_rate'' (th_min_completion_rate t \<le> rate)
           (''C/N='' @ format_fixed 4 rate @ '' vs >= '' @ lib_repr lib (th_min_completion_rate t)),
         check ''zero_runtime_interventions'' (rm_runtime_interventions m \<le> th_max_runtime_interventions t)
           (str_int (rm_runtime_interventions m) @ '' interventions vs <= '' @
             str_int (th_max_runtime_interventions t)),
         check ''precision_sample_size'' enough_cases
           (str_int (rm_precision_cases m) @ '' cases vs >= '' @ str_int (th_min_precision_cases t)),
         check ''precision_lower_bound'' (enough_cases \<and> th_min_precision_lower_bound t \<le> lower)
           (''lower='' @ format_fixed 4 lower @ '' vs >= '' @ lib_repr lib (th_min_precision_lower_bound t)),
         check ''p95_latency'' (rm_p95_latency_seconds m < th_max_p95_latency_seconds t)
           (''p95='' @ format_fixed 1 (rm_p95_latency_seconds m) @ ''s vs < '' @
             lib_repr lib (th_max_p95_latency_seconds t) @ ''s''),
         check ''arithmetic_fixtures'' (rm_arithmetic_fixtures_pass m) ''independent fixtures'',
         check ''controls_intact'' (rm_controls_intact m) ''governance controls'',
         check ''measured_benefit'' (th_min_benefit_multiple t \<le> rm_benefit_multiple m)
           (format_fixed 2 (rm_benefit_multiple m) @ ''x vs >= '' @
             lib_repr lib (th_min_benefit_multiple t) @ ''x''),
         check ''continuing_pilots'' (th_min_continuing_pilots t \<le> rm_continuing_pilots m)
           (str_int (rm_continuing_pilots m) @ '' pilots vs >= '' @ str_int (th_min_continuing_pilots t))])"

definition evaluate_release ::
  "float_lib \<Rightarrow> release_metrics \<Rightarrow> release_thresholds option \<Rightarrow> string + release_verdict" where
  "evaluate_release lib m thresholds =
    (let t = (case thresholds of None \<Rightarrow> default_thresholds | Some t \<Rightarrow> t)
     in ebind (if 0 < rm_precision_cases m
               then clopper_pearson_lower lib (rm_precision_successes m) (rm_precision_cases m) (th_confidence t)
               else Inr 0) (\<lambda>lower.
        let checks = release_checks lib m t lower
        in Inr \<lparr>rv_passed = list_all rk_passed checks, rv_checks = checks, rv_precision_lower_bound = lower\<rparr>))"

record sealed_manifest =
  sm_manifest_id :: string
  sm_reference_case_ids :: "string list"
  sm_decision_time_evidence_hash :: string
  sm_expected_job_ids :: "string list"

definition evaluate_sealed ::
  "float_lib \<Rightarrow> sealed_manifest \<Rightarrow> release_metrics \<Rightarrow> release_thresholds option \<Rightarrow> string + release_verdict" where
  "evaluate_sealed lib manifest m thresholds = evaluate_release lib m thresholds"

end
