(* ===== verification/Release_Props.thy ===== *)
theory Release_Props
  imports Release
begin

text \<open>
  What the release gates decide: the floating-point thresholds coincide with the rational conditions
  they state, the bisection of the binomial bound keeps its bracket, and the percentile is the nearest
  rank.
\<close>

section \<open>Thresholds of a ratio\<close>

text \<open>Below \<open>10\<^sup>1\<^sup>2\<close> jobs the rounding of a quotient never crosses a threshold of two decimals.\<close>

lemma fl_ratio_reaches:
  fixes c n k :: int
  assumes "0 < n" and "n \<le> 10 ^ 12" and "0 < k" and "k \<le> 100"
  shows "fl (of_int k / 100) \<le> fl (of_int c / of_int n) \<longleftrightarrow> k * n \<le> 100 * c"
proof
  assume "k * n \<le> 100 * c"
  then have "(of_int (k * n) :: rat) \<le> of_int (100 * c)" by (simp only: of_int_le_iff)
  then have "(of_int k :: rat) / 100 \<le> of_int c / of_int n"
    using assms(1) by (simp add: field_simps)
  then show "fl (of_int k / 100) \<le> fl (of_int c / of_int n)" by (rule fl_mono)
next
  assume le: "fl (of_int k / 100) \<le> fl (of_int c / of_int n)"
  show "k * n \<le> 100 * c"
  proof (rule ccontr)
    assume "\<not> k * n \<le> 100 * c"
    then have "100 * c + 1 \<le> k * n" by simp
    then have "(of_int (100 * c + 1) :: rat) \<le> of_int (k * n)" by (simp only: of_int_le_iff)
    then have gap: "(of_int c :: rat) / of_int n \<le> of_int k / 100 - 1 / (100 * of_int n)"
      using assms(1) by (simp add: field_simps)
    have n: "(of_int n :: rat) \<le> of_int (10 ^ 12)" using assms(2) by (simp only: of_int_le_iff)
    have small: "(1 :: rat) / 10 ^ 14 \<le> 1 / (100 * of_int n)"
      by (rule frac_le) (use n assms(1) in simp_all)
    have k: "(of_int k :: rat) \<le> of_int 100" using assms(4) by (simp only: of_int_le_iff)
    let ?k = "of_int k / 100 :: rat" and ?c = "of_int c / of_int n :: rat"
    have "\<bar>?k\<bar> \<le> 1" using k assms(3) by simp
    note klo = fl_near(1) [OF this]
    have "fl ?c < fl ?k"
    proof (cases "0 < ?c")
      case True
      then have "\<bar>?c\<bar> \<le> 1" using gap small k by simp
      have eps: "2 * (1 / 2 ^ 53) < (1 / 10 ^ 14 :: rat)" by simp
      from fl_near(2) [OF \<open>\<bar>?c\<bar> \<le> 1\<close>] klo gap order.strict_trans2 [OF eps small] show ?thesis
        by (simp only: mult_2)
    next
      case False
      then have "fl ?c \<le> fl 0" by (intro fl_mono) linarith
      with fl_positive [of ?k] assms(3) show ?thesis by simp
    qed
    with le show False by simp
  qed
qed

section \<open>The bisection\<close>

lemma exponent2_double: "0 < q \<Longrightarrow> exponent2 (2 * q) = exponent2 q + 1"
  using exponent2_bounds [of q] by (intro exponent2_unique) (simp_all add: power_int_add)

lemma fl_double: "fl (2 * q) = 2 * fl q"
proof -
  have pos: "fl (2 * q) = 2 * fl q" if "0 < q" for q
  proof -
    have "ulp (2 * q) = 2 * ulp q"
      using exponent2_double [OF that] by (simp add: ulp_def power_int_add power_int_diff)
    then show ?thesis using that by (simp add: fl_pos)
  qed
  consider "0 < q" | "q = 0" | "0 < - q" by linarith
  then show ?thesis
  proof cases
    case 3
    with pos [of "- q"] show ?thesis by (simp add: fl_minus)
  qed (use pos in simp_all)
qed

lemma fl_idem: "fl (fl q) = fl q"
proof -
  have pos: "fl (fl q) = fl q" if "0 < q" for q
  proof -
    have "of_int (half_even (q / ulp q)) * ulp q \<le> of_int (2 ^ 53) * ulp q"
      using fl_bounds(2) [OF that] by (simp add: fl_pos that ulp_def power_int_diff power_int_add)
    then have "half_even (q / ulp q) \<le> 2 ^ 53" by (simp only: mult_le_cancel_right_pos ulp_pos of_int_le_iff)
    moreover have "0 \<le> half_even (q / ulp q)"
      using half_even_mono [of 0 "q / ulp q"] half_even_int [of 0] that by simp
    ultimately show ?thesis
      using fl_exact [of "half_even (q / ulp q)" "exponent2 q - 52"] by (simp add: fl_pos that ulp_def)
  qed
  consider "0 < q" | "q = 0" | "0 < - q" by linarith
  then show ?thesis
  proof cases
    case 3
    with pos [of "- q"] show ?thesis by (simp add: fl_minus)
  qed (use pos in simp_all)
qed

lemma midpoint_between:
  assumes "fl lo = lo" and "fl hi = hi" and "lo \<le> hi"
  shows "lo \<le> fdiv (fadd lo hi) 2" and "fdiv (fadd lo hi) 2 \<le> hi"
    and "fl (fdiv (fadd lo hi) 2) = fdiv (fadd lo hi) 2"
proof -
  have mid: "2 * fdiv (fadd lo hi) 2 = fl (lo + hi)"
    using fl_double [of "fl (lo + hi) / 2"] by (simp add: fdiv_def fadd_def fl_idem)
  have "2 * lo \<le> fl (lo + hi)" "fl (lo + hi) \<le> 2 * hi"
    using fl_mono [of "2 * lo" "lo + hi"] fl_mono [of "lo + hi" "2 * hi"] assms by (simp_all add: fl_double)
  then show "lo \<le> fdiv (fadd lo hi) 2" and "fdiv (fadd lo hi) 2 \<le> hi" unfolding mid [symmetric] by simp_all
  show "fl (fdiv (fadd lo hi) 2) = fdiv (fadd lo hi) 2" by (simp add: fdiv_def fl_idem)
qed

text \<open>The bracket: floats of the unit interval, the lower end still below the level (or untouched), the
  upper end not.\<close>

definition bracket :: "(float64 \<Rightarrow> bool) \<Rightarrow> float64 \<times> float64 \<Rightarrow> bool" where
  "bracket below s \<longleftrightarrow> fl (fst s) = fst s \<and> fl (snd s) = snd s \<and> 0 \<le> fst s \<and> fst s \<le> snd s \<and> snd s \<le> 1 \<and>
    (fst s = 0 \<or> below (fst s)) \<and> (snd s = 1 \<or> \<not> below (snd s))"

lemma bisect_step_bracket:
  assumes "bracket below s"
  shows "bracket below (bisect_step below s)" and "fst s \<le> fst (bisect_step below s)"
    and "snd (bisect_step below s) \<le> snd s"
  using midpoint_between [of "fst s" "snd s"] assms
  by (auto simp: bracket_def bisect_step_def Let_def split: prod.split)

lemma bisect_bracket: "bracket below s \<Longrightarrow> bracket below ((bisect_step below ^^ k) s)"
  by (induction k) (simp_all add: bisect_step_bracket)


lemma clopper_pearson_lower_Inl:
  "clopper_pearson_lower lib successes n confidence = Inl e \<Longrightarrow> \<not> (0 < n \<and> 0 \<le> successes \<and> successes \<le> n)"
  by (auto simp: clopper_pearson_lower_def Let_def split: if_splits prod.splits)

text \<open>the lower bound of a mixed sample is the middle of a bracket inside the unit interval: the
  probability of so many successes is below the level at its lower end, unless that is still 0, and not
  at its upper end, unless that is still 1; the two trivial samples take their closed form, and any
  other input is refused.\<close>

theorem clopper_pearson_lower_bracket:
  "case clopper_pearson_lower lib successes n confidence of
     Inl e \<Rightarrow> \<not> (0 < n \<and> 0 \<le> successes \<and> successes \<le> n)
   | Inr lower \<Rightarrow> 0 < n \<and> 0 \<le> successes \<and> successes \<le> n \<and>
      (if successes = 0 then lower = 0
       else if successes = n then lower = lib_pow lib (fsub 1 confidence) (fdiv 1 (of_int n))
       else \<exists>lo hi. lo \<le> lower \<and> lower \<le> hi \<and> bracket (\<lambda>p. regularized_incomplete_beta lib
         (fl (of_int successes)) (fl (of_int (n - successes + 1))) p < fsub 1 confidence) (lo, hi))"
proof (cases "0 < n \<and> 0 < successes \<and> successes < n")
  case True
  let ?below = "\<lambda>p. regularized_incomplete_beta lib (fl (of_int successes)) (fl (of_int (n - successes + 1))) p
    < fsub 1 confidence"
  obtain lo hi where s: "(bisect_step ?below ^^ 200) (0, 1) = (lo, hi)" by fastforce
  have "bracket ?below (0, 1)" using fl_int [of 1] by (simp add: bracket_def)
  from bisect_bracket [OF this, of 200] have b: "bracket ?below (lo, hi)" by (simp only: s)
  then have "lo \<le> fdiv (fadd lo hi) 2" "fdiv (fadd lo hi) 2 \<le> hi"
    using midpoint_between [of lo hi] by (simp_all add: bracket_def)
  with b True show ?thesis
    unfolding clopper_pearson_lower_def Let_def s prod.case by auto
qed (auto simp: clopper_pearson_lower_def Let_def split: prod.split)

section \<open>Percentiles\<close>

lemma ninety_five: "fl (95 / 100) \<le> 95 / 100" "95 / 100 - 1 / 2 ^ 54 \<le> fl (95 / 100)"
  by code_simp+

text \<open>The rank of the 95th percentile is exact: the product in floating point has the ceiling of the
  rational one.\<close>

lemma p95_rank:
  fixes n :: nat
  assumes "0 < n" and "n \<le> 10 ^ 12"
  shows "\<lceil>fmul (fl (95 / 100)) (of_nat n)\<rceil> = \<lceil>95 * rat_of_nat n / 100\<rceil>"
proof -
  let ?x = "95 * rat_of_nat n / 100" and ?y = "fl (95 / 100) * rat_of_nat n"
  define k where "k = \<lceil>?x\<rceil>"
  have n: "rat_of_nat n \<le> rat_of_nat (10 ^ 12)" using assms(2) by (simp only: of_nat_le_iff)
  have yx: "?y \<le> ?x" "?x - rat_of_nat n / 2 ^ 54 \<le> ?y"
    using mult_right_mono [OF ninety_five(1), of "rat_of_nat n"] mult_right_mono [OF ninety_five(2), of "rat_of_nat n"]
    by (simp_all add: algebra_simps)
  have xk: "?x \<le> of_int k" unfolding k_def by (rule le_of_int_ceiling)
  have k: "0 \<le> k" "k \<le> 10 ^ 12"
    unfolding k_def using n by (simp_all add: ceiling_le_iff le_ceiling_iff)
  have "fl ?y \<le> fl (of_int k)" using yx(1) xk by (intro fl_mono) linarith
  then have up: "fl ?y \<le> of_int k" using fl_int [of k] k by simp
  have "of_int k < ?x + 1" unfolding k_def by linarith
  then have "100 * of_int k < 95 * rat_of_nat n + 100" by simp
  then have "of_int (100 * k) < (of_int (95 * int n + 100) :: rat)" by simp
  then have "20 * k < 19 * int n + 20" unfolding of_int_less_iff by presburger
  then have "20 * k + 1 \<le> 19 * int n + 20" by simp
  then have "(of_int (20 * k + 1) :: rat) \<le> of_int (19 * int n + 20)" unfolding of_int_le_iff .
  then have low: "of_int k - 1 + 1 / 20 \<le> ?x" by simp
  have "\<bar>?y\<bar> \<le> rat_of_nat n" using yx(1) ninety_five by (simp add: abs_le_iff)
  from fl_near(1) [OF this] have "?y - rat_of_nat n / 2 ^ 53 \<le> fl ?y" .
  moreover have "rat_of_nat n / 2 ^ 53 + rat_of_nat n / 2 ^ 54 < 1 / 20" using n by simp
  ultimately have "of_int k - 1 < fl ?y" using low yx(2) by linarith
  with up show ?thesis unfolding fmul_def k_def [symmetric] by (simp add: ceiling_eq_iff)
qed


lemma sorted_rank:
  assumes "sorted xs" and "i < length xs"
  shows "i + 1 \<le> length (filter (\<lambda>v. v \<le> xs ! i) xs)" and "length (filter (\<lambda>v. v < xs ! i) xs) \<le> i"
proof -
  have "filter (\<lambda>v. v \<le> xs ! i) (take (i + 1) xs) = take (i + 1) xs"
    using assms by (auto simp: filter_id_conv in_set_conv_nth less_Suc_eq_le intro!: sorted_nth_mono)
  then have "length (take (i + 1) xs) \<le> length (filter (\<lambda>v. v \<le> xs ! i) (take (i + 1) xs @ drop (i + 1) xs))"
    unfolding filter_append by simp
  then show "i + 1 \<le> length (filter (\<lambda>v. v \<le> xs ! i) xs)" using assms(2) by simp
  have "filter (\<lambda>v. v < xs ! i) (drop i xs) = []"
    using assms by (auto simp: filter_empty_conv in_set_conv_nth not_less less_diff_conv intro!: sorted_nth_mono)
  then have "length (filter (\<lambda>v. v < xs ! i) (take i xs @ drop i xs)) \<le> length (take i xs)"
    unfolding filter_append by (simp only: append_Nil2 length_filter_le)
  then show "length (filter (\<lambda>v. v < xs ! i) xs) \<le> i" using assms(2) by simp
qed

text \<open>the 95th percentile of a sample is one of its values, at least 95 in 100 values do not exceed
  it and fewer than 95 in 100 are below it: rounding the rank in floating point never picks a neighbour.
  It is missing exactly for the empty sample.\<close>

theorem p95_nearest_rank:
  assumes "length values \<le> 10 ^ 12"
  shows "case percentile values (fl (95 / 100)) of
      None \<Rightarrow> values = []
    | Some p \<Rightarrow> p \<in> set values \<and> 95 * length values \<le> 100 * length (filter (\<lambda>v. v \<le> p) values) \<and>
        100 * length (filter (\<lambda>v. v < p) values) < 95 * length values"
proof (cases "values = []")
  case False
  let ?n = "length values" and ?xs = "sort values"
  define k where "k = \<lceil>95 * rat_of_nat ?n / 100\<rceil>"
  have "rat_of_nat ?n > 0" using False by simp
  then have "95 * rat_of_nat ?n / 100 \<le> of_int k" "of_int k < 95 * rat_of_nat ?n / 100 + 1" "0 < k"
    unfolding k_def by (linarith, linarith, simp)
  then have "95 * rat_of_nat ?n \<le> 100 * of_int k" "100 * of_int k < 95 * rat_of_nat ?n + 100" by simp_all
  then have "of_int (95 * int ?n) \<le> (of_int (100 * k) :: rat)" "(of_int (100 * k) :: rat) < of_int (95 * int ?n + 100)"
    by simp_all
  then have k: "95 * int ?n \<le> 100 * k" "100 * k < 95 * int ?n + 100"
    unfolding of_int_le_iff of_int_less_iff by simp_all
  define i where "i = nat (k - 1)"
  have i: "i < length ?xs" "int i = k - 1" using k \<open>0 < k\<close> False by (simp_all add: i_def nat_less_iff)
  have rank: "\<lceil>fmul (fl (95 / 100)) (of_nat ?n)\<rceil> = k"
    unfolding k_def by (rule p95_rank) (use False assms in simp_all)
  have "percentile values (fl (95 / 100)) = Some (?xs ! i)"
    unfolding percentile_def Let_def length_sort rank using False i(1) \<open>0 < k\<close> by (simp add: i_def min_def)
  moreover have "length (filter P ?xs) = length (filter P values)" for P
    by (simp add: filter_sort)
  ultimately show ?thesis
    using sorted_rank [OF sorted_sort i(1)] i k nth_mem [OF i(1)] by simp
qed (simp add: percentile_def)

theorem p95_nearest_rank_witness:
  "\<exists>values. length values = 20 \<and> percentile values (fl (95 / 100)) = Some 19 \<and>
    95 * length values \<le> 100 * length (filter (\<lambda>v. v \<le> 19) values)"
proof -
  have p: "percentile (map of_nat [1..<21]) (fl (95 / 100)) = Some 19" by code_simp
  have "length (map rat_of_nat [1..<21]) \<le> 10 ^ 12" by simp
  from p95_nearest_rank [OF this] p show ?thesis
    by (intro exI [of _ "map rat_of_nat [1..<21]"]) simp
qed

section \<open>The gates\<close>

text \<open>with the predeclared thresholds a release of at most \<open>10\<^sup>1\<^sup>2\<close> expected jobs passes exactly when
  at least nine of ten expected jobs were correct and on time, nobody intervened, at least 300
  held-out cases reach the lower bound, latency, benefit and pilots meet their limits and fixtures and
  controls are intact; the only error is a count of precision successes outside its sample.\<close>

theorem evaluate_release_exact:
  assumes "0 \<le> rm_expected_jobs m" and "rm_expected_jobs m \<le> 10 ^ 12"
  shows "case evaluate_release lib m None of
      Inl _ \<Rightarrow> 0 < rm_precision_cases m \<and>
        \<not> (0 \<le> rm_precision_successes m \<and> rm_precision_successes m \<le> rm_precision_cases m)
    | Inr v \<Rightarrow> rv_passed v =
        (0 < rm_expected_jobs m \<and> 9 * rm_expected_jobs m \<le> 10 * rm_correct_on_time m \<and>
         rm_runtime_interventions m \<le> 0 \<and> 300 \<le> rm_precision_cases m \<and>
         fl (99 / 100) \<le> rv_precision_lower_bound v \<and> rm_p95_latency_seconds m < 300 \<and>
         rm_arithmetic_fixtures_pass m \<and> rm_controls_intact m \<and>
         3 \<le> rm_benefit_multiple m \<and> 2 \<le> rm_continuing_pilots m)"
proof (cases "evaluate_release lib m None")
  case (Inl e)
  then show ?thesis
    by (auto simp: evaluate_release_def ebind_Inl Let_def dest: clopper_pearson_lower_Inl split: if_splits)
next
  case (Inr v)
  have rate: "fl (90 / 100) \<le> metrics_completion_rate m \<longleftrightarrow>
      0 < rm_expected_jobs m \<and> 9 * rm_expected_jobs m \<le> 10 * rm_correct_on_time m"
    using fl_ratio_reaches [of "rm_expected_jobs m" 90 "rm_correct_on_time m"] fl_positive [of "90 / 100"] assms
    by (auto simp: metrics_completion_rate_def int_ratio_def)
  from Inr obtain lower where v: "v = \<lparr>rv_passed = list_all rk_passed (release_checks lib m default_thresholds lower),
      rv_checks = release_checks lib m default_thresholds lower, rv_precision_lower_bound = lower\<rparr>"
    by (auto simp: evaluate_release_def ebind_Inr Let_def)
  show ?thesis
    unfolding Inr v using rate
    by (auto simp: release_checks_def check_def Let_def default_thresholds_def)
qed


definition sample_lib :: float_lib where
  "sample_lib = \<lparr>lib_lgamma = (\<lambda>_. 0), lib_exp = (\<lambda>_. 1), lib_log = (\<lambda>_. 0), lib_pow = (\<lambda>_ _. fl (9901 / 10000)),
    lib_repr = (\<lambda>_. ''0.0'')\<rparr>"

definition sample_metrics :: release_metrics where
  "sample_metrics = \<lparr>rm_expected_jobs = 10, rm_correct_on_time = 9, rm_runtime_interventions = 0,
    rm_precision_successes = 300, rm_precision_cases = 300, rm_p95_latency_seconds = 20,
    rm_arithmetic_fixtures_pass = True, rm_controls_intact = True, rm_benefit_multiple = 3,
    rm_continuing_pilots = 2\<rparr>"

theorem evaluate_release_exact_witness:
  "case evaluate_release sample_lib sample_metrics None of Inl _ \<Rightarrow> False | Inr v \<Rightarrow> rv_passed v"
proof -
  have "fl (99 / 100) \<le> fl (9901 / 10000)" by (rule fl_mono) simp
  moreover have "case evaluate_release sample_lib sample_metrics None of Inl _ \<Rightarrow> False
      | Inr v \<Rightarrow> rv_precision_lower_bound v = fl (9901 / 10000)"
    by (simp add: evaluate_release_def sample_metrics_def sample_lib_def clopper_pearson_lower_def Let_def)
  ultimately show ?thesis
    using evaluate_release_exact [of sample_metrics sample_lib] by (auto simp: sample_metrics_def split: sum.splits)
qed

end
