(* ===== verification/Qualification.thy ===== *)
theory Qualification
  imports Release_Props
begin

text \<open>
  The canary policy (\<open>packages/shared/eastmed_shared/reconciliation/canary.py\<close>) and the acceptance of
  a pilot (\<open>pilot.py\<close> of the same package): scope and admission of a canary, regression against the
  release thresholds, and the technical and field gates of one measured run.
\<close>

section \<open>Canary\<close>

datatype canary_prereq = CP_SCHEMA | CP_ARITHMETIC | CP_ISOLATION | CP_AUTHORITY | CP_DURABILITY | CP_FAULT

primrec canary_prereq_value :: "canary_prereq \<Rightarrow> string" where
  "canary_prereq_value CP_SCHEMA = ''schema''"
| "canary_prereq_value CP_ARITHMETIC = ''arithmetic''"
| "canary_prereq_value CP_ISOLATION = ''isolation''"
| "canary_prereq_value CP_AUTHORITY = ''authority''"
| "canary_prereq_value CP_DURABILITY = ''durability''"
| "canary_prereq_value CP_FAULT = ''fault''"

definition REQUIRED_PREREQS :: "canary_prereq list" where
  "REQUIRED_PREREQS = [CP_SCHEMA, CP_ARITHMETIC, CP_ISOLATION, CP_AUTHORITY, CP_DURABILITY, CP_FAULT]"

definition ROLLBACK_CANARY_RUNBOOK :: string where "ROLLBACK_CANARY_RUNBOOK = ''rollback_canary''"

record canary_manifest =
  cx_tenants :: "string list"
  cx_workflows :: "string list"
  cx_sources :: "string list"
  cx_max_writes :: int
  cx_qualified_manifest_id :: string
  cx_rollback_runbook_id :: string

record canary_admission_result =
  ca_admitted :: bool
  ca_reason :: string
  ca_missing_prereqs :: "string list"

definition canary_admission ::
  "canary_manifest \<Rightarrow> canary_prereq list \<Rightarrow> bool \<Rightarrow> canary_admission_result" where
  "canary_admission manifest passed_prereqs release_arithmetic_ok =
    (let missing = filter (\<lambda>p. p \<notin> set passed_prereqs) REQUIRED_PREREQS in
     if missing \<noteq> [] then
       \<lparr>ca_admitted = False, ca_reason = ''deployment prerequisites incomplete'',
        ca_missing_prereqs = sort (map canary_prereq_value missing)\<rparr>
     else if \<not> release_arithmetic_ok then
       \<lparr>ca_admitted = False, ca_reason = ''independent arithmetic fixtures must pass'', ca_missing_prereqs = []\<rparr>
     else if cx_max_writes manifest < 0 then
       \<lparr>ca_admitted = False, ca_reason = ''write limit must be non-negative'', ca_missing_prereqs = []\<rparr>
     else \<lparr>ca_admitted = True, ca_reason = ''canary admitted within its declared scope'', ca_missing_prereqs = []\<rparr>)"

definition canary_scope_ok :: "canary_manifest \<Rightarrow> string \<Rightarrow> string \<Rightarrow> string \<Rightarrow> int \<Rightarrow> bool" where
  "canary_scope_ok manifest tenant workflow source writes_used \<longleftrightarrow>
    tenant \<in> set (cx_tenants manifest) \<and> workflow \<in> set (cx_workflows manifest) \<and>
    source \<in> set (cx_sources manifest) \<and> 0 \<le> writes_used \<and> writes_used \<le> cx_max_writes manifest"

record rollback_decision =
  rb_rollback :: bool
  rb_runbook_id :: "string option"
  rb_reason :: string

definition check_canary_regression ::
  "float_lib \<Rightarrow> release_metrics \<Rightarrow> release_thresholds option \<Rightarrow> string + rollback_decision" where
  "check_canary_regression lib metrics thresholds =
    ebind (evaluate_release lib metrics thresholds) (\<lambda>verdict. Inr
      (if rv_passed verdict
       then \<lparr>rb_rollback = False, rb_runbook_id = None, rb_reason = ''within release thresholds''\<rparr>
       else \<lparr>rb_rollback = True, rb_runbook_id = Some ROLLBACK_CANARY_RUNBOOK,
             rb_reason = ''objective regression: '' @
               join '', '' (map rk_name (filter (\<lambda>c. \<not> rk_passed c) (rv_checks verdict)))\<rparr>))"

record config_package =
  cf_operations_enabled :: bool
  cf_operations_effects_enabled :: bool
  cf_qualified_manifest_id :: string
  cf_allowed_connector_ids :: "string list"
  cf_per_case_budget :: int
  cf_concurrent_attempt_cap :: int
  cf_analysis_deadline_seconds :: int
  cf_data_wait_deadline_seconds :: int
  cf_outbox_lease_seconds :: int
  cf_recovery_runbook_version :: string

definition action_permitted :: "config_package \<Rightarrow> bool \<Rightarrow> bool \<Rightarrow> bool" where
  "action_permitted config effect authority_granted =
    (if \<not> cf_operations_enabled config then False
     else if effect \<and> \<not> cf_operations_effects_enabled config then False
     else authority_granted)"

section \<open>Pilot acceptance\<close>

datatype gate_tier = TECHNICAL | FIELD

primrec gate_tier_value :: "gate_tier \<Rightarrow> string" where
  "gate_tier_value TECHNICAL = ''technical''"
| "gate_tier_value FIELD = ''field''"

datatype gate_status = GATE_PASS | GATE_FAIL | PENDING_FIELD_EVIDENCE

primrec gate_status_value :: "gate_status \<Rightarrow> string" where
  "gate_status_value GATE_PASS = ''pass''"
| "gate_status_value GATE_FAIL = ''fail''"
| "gate_status_value PENDING_FIELD_EVIDENCE = ''pending_field_evidence''"

datatype pilot_readiness = QUALIFIED | TECHNICAL_PREREQS_MET | NOT_READY

primrec pilot_readiness_value :: "pilot_readiness \<Rightarrow> string" where
  "pilot_readiness_value QUALIFIED = ''qualified''"
| "pilot_readiness_value TECHNICAL_PREREQS_MET = ''technical_prereqs_met''"
| "pilot_readiness_value NOT_READY = ''not_ready''"

definition ACCEPTANCE_CAVEAT :: string where
  "ACCEPTANCE_CAVEAT =
    ''A single successful demonstration does not qualify the service or establish market '' @
    ''leadership. Field gates require a completed 30-day unattended trial, at least 300 '' @
    ''independent held-out cases, at least 3x measured benefit and two continuing paying '' @
    ''pilots (blueprint 05, 33).''"

record pilot_observations =
  po_expected_jobs :: int
  po_correct_on_time :: int
  po_incorrect :: int
  po_unresolved :: int
  po_missing :: int
  po_human_interventions :: int
  po_arithmetic_fixtures_pass :: bool
  po_control_integrity_pass :: bool
  po_one_logical_effect :: bool
  po_worker_recovery_ok :: bool
  po_correction_propagation_ok :: bool
  po_read_back_confirmed :: bool
  po_p95_latency_seconds :: float64
  po_observed_consecutive_days :: int
  po_independent_precision_cases :: int
  po_precision_successes :: int
  po_benefit_multiple :: float64
  po_continuing_paying_pilots :: int
  po_correct_late :: int
  po_unsupported :: int
  po_latency_measured :: bool

definition accounted_jobs :: "pilot_observations \<Rightarrow> int" where
  "accounted_jobs obs = po_correct_on_time obs + po_correct_late obs + po_incorrect obs +
    po_unresolved obs + po_missing obs + po_unsupported obs"

definition pilot_completion_rate :: "pilot_observations \<Rightarrow> float64" where
  "pilot_completion_rate obs = int_ratio (po_correct_on_time obs) (po_expected_jobs obs)"

definition pilot_human_touch_rate :: "pilot_observations \<Rightarrow> float64" where
  "pilot_human_touch_rate obs = int_ratio (po_human_interventions obs) (po_expected_jobs obs)"

record decision_record =
  de_expected_jobs :: int
  de_completion_rate :: float64
  de_human_touch_rate :: float64
  de_incorrect :: int
  de_unresolved :: int
  de_missing :: int
  de_p50_latency_seconds :: "float64 option"
  de_p95_latency_seconds :: "float64 option"
  de_source_delay_p95_seconds :: "float64 option"
  de_correction_propagation_ok :: bool
  de_cost_per_correct_result :: "float64 option"
  de_setup_effort_hours :: "float64 option"
  de_measured_benefit_multiple :: float64
  de_evidence_kind :: string
  de_correct_late :: int
  de_unsupported :: int

definition opt_float :: "float_lib \<Rightarrow> float64 option \<Rightarrow> json" where
  "opt_float lib x = (case x of None \<Rightarrow> JNull | Some v \<Rightarrow> JFloat (lib_repr lib v))"

definition decision_record_render :: "float_lib \<Rightarrow> decision_record \<Rightarrow> json" where
  "decision_record_render lib d = JObj
    [(''expected_jobs'', JInt (de_expected_jobs d)),
     (''completion_rate'', JFloat (lib_repr lib (de_completion_rate d))),
     (''human_touch_rate'', JFloat (lib_repr lib (de_human_touch_rate d))),
     (''incorrect'', JInt (de_incorrect d)), (''unresolved'', JInt (de_unresolved d)),
     (''missing'', JInt (de_missing d)), (''correct_late'', JInt (de_correct_late d)),
     (''unsupported'', JInt (de_unsupported d)), (''evidence_kind'', JStr (de_evidence_kind d)),
     (''latency'', JObj
       [(''p50_seconds'', opt_float lib (de_p50_latency_seconds d)),
        (''p95_seconds'', opt_float lib (de_p95_latency_seconds d)),
        (''source_delay_p95_seconds'', opt_float lib (de_source_delay_p95_seconds d))]),
     (''correction_propagation_ok'', JBool (de_correction_propagation_ok d)),
     (''cost_per_correct_result'', opt_float lib (de_cost_per_correct_result d)),
     (''setup_effort_hours'', opt_float lib (de_setup_effort_hours d)),
     (''measured_benefit_multiple'', JFloat (lib_repr lib (de_measured_benefit_multiple d)))]"

record pilot_gate =
  pg_name :: string
  pg_tier :: gate_tier
  pg_status :: gate_status
  pg_detail :: string

definition pilot_gate_render :: "pilot_gate \<Rightarrow> json" where
  "pilot_gate_render g = JObj
    [(''name'', JStr (pg_name g)), (''tier'', JStr (gate_tier_value (pg_tier g))),
     (''status'', JStr (gate_status_value (pg_status g))), (''detail'', JStr (pg_detail g))]"

record pilot_acceptance =
  pc_readiness :: pilot_readiness
  pc_gates :: "pilot_gate list"
  pc_decision_record :: decision_record
  pc_precision_lower_bound :: float64
  pc_caveat :: string

definition pilot_qualified :: "pilot_acceptance \<Rightarrow> bool" where
  "pilot_qualified a \<longleftrightarrow> pc_readiness a = QUALIFIED"

definition gates_by_tier :: "pilot_acceptance \<Rightarrow> gate_tier \<Rightarrow> pilot_gate list" where
  "gates_by_tier a tier = filter (\<lambda>g. pg_tier g = tier) (pc_gates a)"

definition pilot_acceptance_render :: "float_lib \<Rightarrow> pilot_acceptance \<Rightarrow> json" where
  "pilot_acceptance_render lib a = JObj
    [(''readiness'', JStr (pilot_readiness_value (pc_readiness a))),
     (''precision_lower_bound'', JFloat (lib_repr lib (pc_precision_lower_bound a))),
     (''gates'', JList (map pilot_gate_render (pc_gates a))),
     (''decision_record'', decision_record_render lib (pc_decision_record a)),
     (''caveat'', JStr (pc_caveat a))]"

definition tech :: "string \<Rightarrow> bool \<Rightarrow> string \<Rightarrow> pilot_gate" where
  "tech name passed detail = \<lparr>pg_name = name, pg_tier = TECHNICAL,
    pg_status = (if passed then GATE_PASS else GATE_FAIL), pg_detail = detail\<rparr>"

definition field_gate :: "string \<Rightarrow> bool \<Rightarrow> string \<Rightarrow> pilot_gate" where
  "field_gate name passed detail = \<lparr>pg_name = name, pg_tier = FIELD,
    pg_status = (if passed then GATE_PASS else PENDING_FIELD_EVIDENCE), pg_detail = detail\<rparr>"

definition pilot_gates ::
  "float_lib \<Rightarrow> pilot_observations \<Rightarrow> release_thresholds \<Rightarrow> float64 \<Rightarrow> pilot_gate list" where
  "pilot_gates lib obs t lower =
    [tech ''unattended_operation_over_run'' (po_human_interventions obs \<le> th_max_runtime_interventions t)
       (str_int (po_human_interventions obs) @ '' runtime interventions in the measured run''),
     tech ''analytical_completion'' (th_min_completion_rate t \<le> pilot_completion_rate obs)
       (''C/N='' @ format_fixed 4 (pilot_completion_rate obs) @ '' vs >= '' @ lib_repr lib (th_min_completion_rate t)),
     tech ''expected_job_accounting'' (accounted_jobs obs = po_expected_jobs obs)
       (str_int (accounted_jobs obs) @ '' accounted of '' @ str_int (po_expected_jobs obs) @ '' expected''),
     tech ''calculation_correctness'' (po_arithmetic_fixtures_pass obs) ''independent fixtures match'',
     tech ''control_integrity''
       (po_control_integrity_pass obs \<and> po_one_logical_effect obs \<and> po_worker_recovery_ok obs \<and> po_read_back_confirmed obs)
       ''tenant/authority/retry/crash scenarios, one logical effect, read-back'',
     tech ''preparation_latency''
       (po_latency_measured obs \<and> po_p95_latency_seconds obs < th_max_p95_latency_seconds t)
       (if po_latency_measured obs
        then ''p95='' @ format_fixed 1 (po_p95_latency_seconds obs) @ ''s vs < '' @
          lib_repr lib (th_max_p95_latency_seconds t) @ ''s''
        else ''real processing latency not measured''),
     tech ''correction_propagation'' (po_correction_propagation_ok obs) ''supersession + invalidation'',
     field_gate ''unattended_30_consecutive_days'' (30 \<le> po_observed_consecutive_days obs)
       (str_int (po_observed_consecutive_days obs) @ '' consecutive days observed vs >= 30''),
     field_gate ''routine_result_precision''
       (th_min_precision_cases t \<le> po_independent_precision_cases obs \<and> th_min_precision_lower_bound t \<le> lower)
       (str_int (po_independent_precision_cases obs) @ '' independent cases, lower bound '' @ format_fixed 4 lower),
     field_gate ''commercial_benefit'' (th_min_benefit_multiple t \<le> po_benefit_multiple obs)
       (format_fixed 2 (po_benefit_multiple obs) @ ''x measured benefit vs >= '' @
         lib_repr lib (th_min_benefit_multiple t) @ ''x''),
     field_gate ''two_paying_pilots'' (th_min_continuing_pilots t \<le> po_continuing_paying_pilots obs)
       (str_int (po_continuing_paying_pilots obs) @ '' continuing paying pilots vs >= '' @
         str_int (th_min_continuing_pilots t))]"

definition evaluate_pilot ::
  "float_lib \<Rightarrow> pilot_observations \<Rightarrow> decision_record \<Rightarrow> release_thresholds option \<Rightarrow> string + pilot_acceptance" where
  "evaluate_pilot lib obs d thresholds =
    (let t = (case thresholds of None \<Rightarrow> default_thresholds | Some t \<Rightarrow> t)
     in ebind (if 0 < po_independent_precision_cases obs
               then clopper_pearson_lower lib (po_precision_successes obs)
                 (po_independent_precision_cases obs) (fl (95 / 100))
               else Inr 0) (\<lambda>lower.
        let gates = pilot_gates lib obs t lower;
            technical = filter (\<lambda>g. pg_tier g = TECHNICAL) gates;
            field_gates = filter (\<lambda>g. pg_tier g = FIELD) gates
        in Inr
          \<lparr>pc_readiness =
             (if list_ex (\<lambda>g. pg_status g = GATE_FAIL) technical then NOT_READY
              else if list_all (\<lambda>g. pg_status g = GATE_PASS) field_gates then QUALIFIED
              else TECHNICAL_PREREQS_MET),
           pc_gates = gates, pc_decision_record = d, pc_precision_lower_bound = lower,
           pc_caveat = ACCEPTANCE_CAVEAT\<rparr>))"


section \<open>What the gates decide\<close>

text \<open>A canary runs only with every prerequisite, its fixtures and a declared write limit; the flags of a
  configuration never replace an authority decision.\<close>

lemma canary_admission_exact:
  "ca_admitted (canary_admission manifest passed ok) \<longleftrightarrow>
    (\<forall>p. p \<in> set passed) \<and> ok \<and> 0 \<le> cx_max_writes manifest"
proof -
  have "p \<in> set REQUIRED_PREREQS" for p by (cases p) (simp_all add: REQUIRED_PREREQS_def)
  then show ?thesis by (auto simp: canary_admission_def Let_def filter_empty_conv)
qed

lemma action_permitted_needs_authority:
  "action_permitted config effect authority \<Longrightarrow> authority \<and> cf_operations_enabled config"
  by (simp add: action_permitted_def split: if_splits)

text \<open>Regression is decided by the release gates, and a rollback names a failed one.\<close>

lemma check_canary_regression_exact:
  assumes "check_canary_regression lib m t = Inr r"
  shows "\<exists>v. evaluate_release lib m t = Inr v \<and> rb_rollback r = (\<not> rv_passed v) \<and>
    rb_runbook_id r = (if rv_passed v then None else Some ''rollback_canary'')"
  using assms by (auto simp: check_canary_regression_def ebind_Inr ROLLBACK_CANARY_RUNBOOK_def)

definition technical_met :: "pilot_observations \<Rightarrow> bool" where
  "technical_met obs \<longleftrightarrow> po_human_interventions obs \<le> 0 \<and>
    0 < po_expected_jobs obs \<and> 9 * po_expected_jobs obs \<le> 10 * po_correct_on_time obs \<and>
    accounted_jobs obs = po_expected_jobs obs \<and> po_arithmetic_fixtures_pass obs \<and>
    po_control_integrity_pass obs \<and> po_one_logical_effect obs \<and> po_worker_recovery_ok obs \<and>
    po_read_back_confirmed obs \<and> po_latency_measured obs \<and> po_p95_latency_seconds obs < 300 \<and>
    po_correction_propagation_ok obs"

definition field_met :: "pilot_observations \<Rightarrow> float64 \<Rightarrow> bool" where
  "field_met obs lower \<longleftrightarrow> 30 \<le> po_observed_consecutive_days obs \<and>
    300 \<le> po_independent_precision_cases obs \<and> fl (99 / 100) \<le> lower \<and>
    3 \<le> po_benefit_multiple obs \<and> 2 \<le> po_continuing_paying_pilots obs"

lemma evaluate_pilot_gates:
  assumes "evaluate_pilot lib obs d None = Inr a"
  shows "pc_gates a = pilot_gates lib obs default_thresholds (pc_precision_lower_bound a)"
    and "pc_readiness a =
      (if list_ex (\<lambda>g. pg_status g = GATE_FAIL) (gates_by_tier a TECHNICAL) then NOT_READY
       else if list_all (\<lambda>g. pg_status g = GATE_PASS) (gates_by_tier a FIELD) then QUALIFIED
       else TECHNICAL_PREREQS_MET)"
  using assms by (auto simp: evaluate_pilot_def gates_by_tier_def Let_def ebind_Inr)

text \<open>a pilot of at most \<open>10\<^sup>1\<^sup>2\<close> jobs is not ready exactly when a technical gate fails, qualified
  exactly when every technical and every field gate is met, and otherwise has met the technical
  prerequisites; the only error is a count of precision successes outside its sample.\<close>

theorem evaluate_pilot_exact:
  assumes "0 \<le> po_expected_jobs obs" and "po_expected_jobs obs \<le> 10 ^ 12"
  shows "case evaluate_pilot lib obs d None of
      Inl _ \<Rightarrow> 0 < po_independent_precision_cases obs \<and>
        \<not> (0 \<le> po_precision_successes obs \<and> po_precision_successes obs \<le> po_independent_precision_cases obs)
    | Inr a \<Rightarrow> pc_readiness a =
        (if technical_met obs
         then if field_met obs (pc_precision_lower_bound a) then QUALIFIED else TECHNICAL_PREREQS_MET
         else NOT_READY)"
proof (cases "evaluate_pilot lib obs d None")
  case (Inl e)
  then show ?thesis
    by (auto simp: evaluate_pilot_def ebind_Inl Let_def dest: clopper_pearson_lower_Inl split: if_splits)
next
  case (Inr a)
  have rate: "fl (90 / 100) \<le> pilot_completion_rate obs \<longleftrightarrow>
      0 < po_expected_jobs obs \<and> 9 * po_expected_jobs obs \<le> 10 * po_correct_on_time obs"
    using fl_ratio_reaches [of "po_expected_jobs obs" 90 "po_correct_on_time obs"] fl_positive [of "90 / 100"] assms
    by (auto simp: pilot_completion_rate_def int_ratio_def)
  note g = evaluate_pilot_gates [OF Inr]
  have t: "list_ex (\<lambda>g. pg_status g = GATE_FAIL) (gates_by_tier a TECHNICAL) \<longleftrightarrow> \<not> technical_met obs"
    unfolding gates_by_tier_def g(1) technical_met_def using rate
    by (auto simp: pilot_gates_def tech_def field_gate_def default_thresholds_def)
  have f: "list_all (\<lambda>g. pg_status g = GATE_PASS) (gates_by_tier a FIELD) \<longleftrightarrow> field_met obs (pc_precision_lower_bound a)"
    unfolding gates_by_tier_def g(1) field_met_def
    by (auto simp: pilot_gates_def tech_def field_gate_def default_thresholds_def)
  show ?thesis unfolding Inr sum.case g(2) t f by simp
qed


definition sample_pilot :: pilot_observations where
  "sample_pilot = \<lparr>po_expected_jobs = 10, po_correct_on_time = 9, po_incorrect = 0, po_unresolved = 1,
    po_missing = 0, po_human_interventions = 0, po_arithmetic_fixtures_pass = True,
    po_control_integrity_pass = True, po_one_logical_effect = True, po_worker_recovery_ok = True,
    po_correction_propagation_ok = True, po_read_back_confirmed = True, po_p95_latency_seconds = 20,
    po_observed_consecutive_days = 0, po_independent_precision_cases = 0, po_precision_successes = 0,
    po_benefit_multiple = 0, po_continuing_paying_pilots = 0, po_correct_late = 0, po_unsupported = 0,
    po_latency_measured = True\<rparr>"

theorem evaluate_pilot_exact_witness:
  "\<forall>d. case evaluate_pilot sample_lib sample_pilot d None of Inl _ \<Rightarrow> False
    | Inr a \<Rightarrow> pc_readiness a = TECHNICAL_PREREQS_MET"
proof
  fix d
  have "technical_met sample_pilot" "\<not> field_met sample_pilot l" for l
    by (simp_all add: technical_met_def field_met_def accounted_jobs_def sample_pilot_def)
  then show "case evaluate_pilot sample_lib sample_pilot d None of Inl _ \<Rightarrow> False
      | Inr a \<Rightarrow> pc_readiness a = TECHNICAL_PREREQS_MET"
    using evaluate_pilot_exact [of sample_pilot sample_lib d] by (auto simp: sample_pilot_def split: sum.splits)
qed

end
