(* ===== verification/Reliability.thy ===== *)
theory Reliability
  imports Release Recovery ReadViews
begin

text \<open>
  Execution of the reliability runbooks and the telemetry snapshot
  (\<open>packages/pipeline/eastmed_pipeline/reconciliation_reliability.py\<close>), with the metric aggregation of
  \<open>packages/shared/eastmed_shared/reconciliation/telemetry.py\<close>. The \<open>created_at\<close> columns of tasks and
  versions are a function of the row identifier.
\<close>

section \<open>Runbooks\<close>

datatype runbook_exec_status = RX_EXECUTED | RX_REJECTED | RX_NOOP | RX_REQUIRES_OPERATOR

record runbook_outcome =
  rx_status :: runbook_exec_status
  rx_runbook_id :: string
  rx_probe_passed :: bool
  rx_detail :: string
  rx_affected :: nat

definition rejected_outcome :: "runbook_admission \<Rightarrow> runbook_outcome" where
  "rejected_outcome admission = \<lparr>rx_status = RX_REJECTED, rx_runbook_id = ra_runbook_id admission,
    rx_probe_passed = False, rx_detail = ra_reason admission, rx_affected = 0\<rparr>"

definition run_recover_expired_task ::
  "store \<Rightarrow> uid \<Rightarrow> instant \<Rightarrow> store \<times> runbook_outcome \<times> task_claim option" where
  "run_recover_expired_task st account_id now =
    (let admission = authorize_runbook ''recover_expired_task'' LEASE_EXPIRED [CLAIM_EXPIRED] 1 in
     if \<not> ra_admitted admission then (st, rejected_outcome admission, None)
     else
       (case claim_task st account_id now DEFAULT_LEASE of
          (st1, None) \<Rightarrow> (st1, \<lparr>rx_status = RX_NOOP, rx_runbook_id = ''recover_expired_task'',
            rx_probe_passed = False, rx_detail = ''no due or expired task to recover'', rx_affected = 0\<rparr>, None)
        | (st1, Some claim) \<Rightarrow> (st1, \<lparr>rx_status = RX_EXECUTED, rx_runbook_id = ''recover_expired_task'',
            rx_probe_passed = True,
            rx_detail = ''claimed task '' @ uuid_str (tc_task_id claim) @ '' at epoch '' @ str_int (tc_lease_epoch claim),
            rx_affected = 1\<rparr>, Some claim)))"

definition run_renew_task_lease :: "store \<Rightarrow> uid \<Rightarrow> task_claim \<Rightarrow> instant \<Rightarrow> store \<times> runbook_outcome" where
  "run_renew_task_lease st account_id claim now =
    (let admission = authorize_runbook ''renew_task_lease'' HEALTHY_HEARTBEAT_CURRENT_EPOCH [RENEW_LEASE] 1 in
     if \<not> ra_admitted admission then (st, rejected_outcome admission)
     else
       (case heartbeat st account_id claim now DEFAULT_LEASE of
          (st1, renewed) \<Rightarrow> (st1, \<lparr>rx_status = (if renewed then RX_EXECUTED else RX_NOOP),
            rx_runbook_id = ''renew_task_lease'', rx_probe_passed = renewed,
            rx_detail = (if renewed then ''lease renewed at current epoch'' else ''epoch no longer current''),
            rx_affected = (if renewed then 1 else 0)\<rparr>)))"

definition run_rebuild_wakeups :: "store \<Rightarrow> uid \<Rightarrow> instant \<Rightarrow> int \<Rightarrow> runbook_outcome" where
  "run_rebuild_wakeups st account_id now limit =
    (let admission = authorize_runbook ''rebuild_wakeups'' QUEUE_LOSS_TASKS_DURABLE [SCAN_DUE_TASKS] limit in
     if \<not> ra_admitted admission then rejected_outcome admission
     else
       let due = find_due_tasks st account_id now (nat limit)
       in \<lparr>rx_status = RX_EXECUTED, rx_runbook_id = ''rebuild_wakeups'', rx_probe_passed = True,
           rx_detail = ''reconciled '' @ str_int (int (length due)) @ '' due task(s) from the durable store'',
           rx_affected = length due\<rparr>)"

definition disable_case :: "uid \<Rightarrow> case_row \<Rightarrow> case_row" where
  "disable_case account_id c =
    (if oc_account c = account_id
     then c\<lparr>oc_automation_status := AS_DISABLED, oc_business_status := BS_UNRESOLVED\<rparr> else c)"

definition quarantine_case :: "uid \<Rightarrow> int \<Rightarrow> uid \<Rightarrow> store \<times> nat \<Rightarrow> store \<times> nat" where
  "quarantine_case account_id revision case_id s =
    (case load_case (fst s) account_id case_id of
       None \<Rightarrow> s
     | Some c \<Rightarrow> (upd_case case_id (disable_case account_id)
         (fst (invalidate_pending_publications (fst s) account_id case_id revision)), snd s + 1))"

definition run_quarantine_source :: "store \<Rightarrow> uid \<Rightarrow> uid list \<Rightarrow> int \<Rightarrow> store \<times> runbook_outcome" where
  "run_quarantine_source st account_id case_ids revision =
    (let admission = authorize_runbook ''quarantine_source'' COMPROMISED_EVIDENCE_OR_REVOKED_RIGHTS
           [BLOCK_SOURCE, INVALIDATE_DEPENDENT_CASES] (int (length case_ids))
     in if \<not> ra_admitted admission then (st, rejected_outcome admission)
     else
       (case fold (quarantine_case account_id revision) case_ids (st, 0) of
          (st1, affected) \<Rightarrow> (st1, \<lparr>rx_status = RX_EXECUTED, rx_runbook_id = ''quarantine_source'',
            rx_probe_passed = True,
            rx_detail = ''blocked source and invalidated '' @ str_int (int affected) @ '' dependent case(s)'',
            rx_affected = affected\<rparr>)))"

definition OPERATOR_RUNBOOKS :: "(string \<times> runbook_precondition \<times> runbook_api_call) list" where
  "OPERATOR_RUNBOOKS =
    [(''restart_worker'', MISSING_HEARTBEAT_UNHEALTHY, RESTART_PROCESS),
     (''failover_model'', PROVIDER_UNAVAILABLE_ALTERNATE_QUALIFIED, SELECT_ALTERNATE_PROVIDER),
     (''rollback_canary'', OBJECTIVE_REGRESSION, RESTORE_PREVIOUS_PACKAGE)]"

definition dispatch_operator_runbook :: "string \<Rightarrow> runbook_outcome" where
  "dispatch_operator_runbook runbook_id =
    (case map_of OPERATOR_RUNBOOKS runbook_id of
       None \<Rightarrow> rejected_outcome (authorize_runbook runbook_id OBJECTIVE_REGRESSION [] 0)
     | Some (precondition, api_call) \<Rightarrow>
        let admission = authorize_runbook runbook_id precondition [api_call] 1
        in if \<not> ra_admitted admission then rejected_outcome admission
           else \<lparr>rx_status = RX_REQUIRES_OPERATOR, rx_runbook_id = runbook_id, rx_probe_passed = False,
                 rx_detail = ''admitted; execution handed to the operator/provider surface'', rx_affected = 0\<rparr>)"

section \<open>Telemetry\<close>

record trace_context =
  tx_case_id :: string
  tx_run_id :: string
  tx_task_attempt_id :: string
  tx_action_key :: string

definition trace_context_render :: "trace_context \<Rightarrow> json" where
  "trace_context_render t = JObj
    [(''case_id'', JStr (tx_case_id t)), (''run_id'', JStr (tx_run_id t)),
     (''task_attempt_id'', JStr (tx_task_attempt_id t)), (''action_key'', JStr (tx_action_key t))]"

record telemetry_snapshot =
  tn_connector_lag_seconds :: "float64 list"
  tn_task_ages_seconds :: "float64 list"
  tn_lease_epochs :: "int list"
  tn_expected_jobs :: int
  tn_completed_cases :: int
  tn_unresolved_cases :: int
  tn_prep_latencies_seconds :: "float64 list"
  tn_provider_effect_lag_seconds :: "float64 list"
  tn_correction_propagation_seconds :: "float64 list"
  tn_cost_reservations :: int
  tn_disabled_capabilities :: "string list"
  tn_manual_touch_events :: "int option"

record metric_set =
  ms_connector_lag_p95 :: "float64 option"
  ms_max_task_age :: "float64 option"
  ms_lease_churn :: int
  ms_expected_jobs :: int
  ms_completed_cases :: int
  ms_unresolved_cases :: int
  ms_completion_rate :: "float64 option"
  ms_prep_latency_p95 :: "float64 option"
  ms_provider_effect_lag_p95 :: "float64 option"
  ms_correction_propagation_p95 :: "float64 option"
  ms_cost_reservations :: int
  ms_disabled_capabilities :: int
  ms_manual_touch_events :: "int option"

definition opt_number :: "float_lib \<Rightarrow> float64 option \<Rightarrow> json" where
  "opt_number lib x = (case x of None \<Rightarrow> JNull | Some v \<Rightarrow> JFloat (lib_repr lib v))"

definition metric_set_render :: "float_lib \<Rightarrow> metric_set \<Rightarrow> json" where
  "metric_set_render lib m = JObj
    [(''connector_lag_p95'', opt_number lib (ms_connector_lag_p95 m)),
     (''max_task_age'', opt_number lib (ms_max_task_age m)),
     (''lease_churn'', JInt (ms_lease_churn m)),
     (''expected_jobs'', JInt (ms_expected_jobs m)),
     (''completed_cases'', JInt (ms_completed_cases m)),
     (''unresolved_cases'', JInt (ms_unresolved_cases m)),
     (''completion_rate'', opt_number lib (ms_completion_rate m)),
     (''prep_latency_p95'', opt_number lib (ms_prep_latency_p95 m)),
     (''provider_effect_lag_p95'', opt_number lib (ms_provider_effect_lag_p95 m)),
     (''correction_propagation_p95'', opt_number lib (ms_correction_propagation_p95 m)),
     (''cost_reservations'', JInt (ms_cost_reservations m)),
     (''disabled_capabilities'', JInt (ms_disabled_capabilities m)),
     (''manual_touch_events'', case ms_manual_touch_events m of None \<Rightarrow> JNull | Some n \<Rightarrow> JInt n)]"

definition lease_churn :: "int list \<Rightarrow> int" where
  "lease_churn lease_epochs = sum_list (map (\<lambda>epoch. max 0 (epoch - 1)) lease_epochs)"

definition build_metrics :: "telemetry_snapshot \<Rightarrow> metric_set" where
  "build_metrics s =
    (let p95 = (\<lambda>values. percentile values (fl (95 / 100)))
     in \<lparr>ms_connector_lag_p95 = p95 (tn_connector_lag_seconds s),
         ms_max_task_age = (case tn_task_ages_seconds s of [] \<Rightarrow> None | a # as \<Rightarrow> Some (fold max as a)),
         ms_lease_churn = lease_churn (tn_lease_epochs s),
         ms_expected_jobs = tn_expected_jobs s,
         ms_completed_cases = tn_completed_cases s,
         ms_unresolved_cases = tn_unresolved_cases s,
         ms_completion_rate = (if tn_expected_jobs s = 0 then None
           else Some (int_ratio (tn_completed_cases s) (tn_expected_jobs s))),
         ms_prep_latency_p95 = p95 (tn_prep_latencies_seconds s),
         ms_provider_effect_lag_p95 = p95 (tn_provider_effect_lag_seconds s),
         ms_correction_propagation_p95 = p95 (tn_correction_propagation_seconds s),
         ms_cost_reservations = tn_cost_reservations s,
         ms_disabled_capabilities = int (length (tn_disabled_capabilities s)),
         ms_manual_touch_events = tn_manual_touch_events s\<rparr>)"

definition seconds_since :: "instant \<Rightarrow> instant list \<Rightarrow> float64 list" where
  "seconds_since moment values = map (\<lambda>v. max 0 (total_seconds (moment - v))) values"

definition effect_lags :: "store \<Rightarrow> (uid \<Rightarrow> instant) \<Rightarrow> uid \<Rightarrow> float64 list" where
  "effect_lags st created account_id =
    concat (map (\<lambda>p. case find (\<lambda>v. cv_revision v = pb_case_revision p)
          (versions_of_case st account_id (pb_case p)) of
        None \<Rightarrow> []
      | Some v \<Rightarrow> [max 0 (total_seconds (pb_published_at p - created (cv_id v)))])
      (filter (\<lambda>p. pb_account p = account_id) (st_publications st)))"

definition gather_snapshot :: "store \<Rightarrow> (uid \<Rightarrow> instant) \<Rightarrow> uid \<Rightarrow> instant \<Rightarrow> telemetry_snapshot" where
  "gather_snapshot st created account_id moment =
    (let tasks = filter (\<lambda>t. wt_account t = account_id) (st_tasks st);
         own_cases = filter (\<lambda>c. oc_account c = account_id) (st_cases st)
     in \<lparr>tn_connector_lag_seconds = seconds_since moment
           (map sc_captured_at (filter (\<lambda>c. sc_account c = account_id) (st_captures st))),
         tn_task_ages_seconds = seconds_since moment (map (\<lambda>t. created (wt_id t)) tasks),
         tn_lease_epochs = map wt_lease_epoch tasks,
         tn_expected_jobs = int (length (filter (\<lambda>j. ej_account j = account_id) (st_jobs st))),
         tn_completed_cases = int (length (filter (\<lambda>c. oc_automation_status c = AS_VERIFIED_COMPLETE) own_cases)),
         tn_unresolved_cases = int (length (filter (\<lambda>c. oc_business_status c = BS_UNRESOLVED) own_cases)),
         tn_prep_latencies_seconds = [],
         tn_provider_effect_lag_seconds = effect_lags st created account_id,
         tn_correction_propagation_seconds = [],
         tn_cost_reservations = int (length (filter (\<lambda>r. br_account r = account_id) (st_reservations st))),
         tn_disabled_capabilities =
           filter (\<lambda>cap. active_grant st account_id cap moment = None) (sort KNOWN_CAPABILITIES),
         tn_manual_touch_events = None\<rparr>)"

definition gather_telemetry :: "store \<Rightarrow> (uid \<Rightarrow> instant) \<Rightarrow> uid \<Rightarrow> instant \<Rightarrow> metric_set" where
  "gather_telemetry st created account_id moment = build_metrics (gather_snapshot st created account_id moment)"

end
