(* ===== verification/Reliability_Props.thy ===== *)
theory Reliability_Props
  imports Reliability ReadViews_Props
begin

text \<open>
  What the runbooks do to the store: the exact effect of a quarantine and what it spares, recovery as a
  step of the queue, and both as runs of the composed systems.
\<close>

section \<open>Admission\<close>

lemma own_runbooks_admitted:
  "ra_admitted (authorize_runbook ''recover_expired_task'' LEASE_EXPIRED [CLAIM_EXPIRED] 1)"
  "ra_admitted (authorize_runbook ''renew_task_lease'' HEALTHY_HEARTBEAT_CURRENT_EPOCH [RENEW_LEASE] 1)"
  "ra_admitted (authorize_runbook ''quarantine_source'' COMPROMISED_EVIDENCE_OR_REVOKED_RIGHTS
     [BLOCK_SOURCE, INVALIDATE_DEPENDENT_CASES] n) \<longleftrightarrow> 0 \<le> n \<and> n \<le> 100000"
  "ra_admitted (authorize_runbook ''rebuild_wakeups'' QUEUE_LOSS_TASKS_DURABLE [SCAN_DUE_TASKS] n) \<longleftrightarrow>
     0 \<le> n \<and> n \<le> 100000"
  by (simp_all add: authorize_runbook_admitted RUNBOOK_REGISTRY_def spec_of_def)

lemma run_recover_claims:
  "fst (run_recover_expired_task st acc now) = fst (claim_task st acc now DEFAULT_LEASE) \<and>
    snd (snd (run_recover_expired_task st acc now)) = snd (claim_task st acc now DEFAULT_LEASE)"
  by (simp add: run_recover_expired_task_def own_runbooks_admitted split: prod.split option.split)

lemma run_renew_beats:
  "fst (run_renew_task_lease st acc claim now) = fst (heartbeat st acc claim now DEFAULT_LEASE)"
  by (simp add: run_renew_task_lease_def own_runbooks_admitted split: prod.split)

section \<open>Quarantine\<close>

definition own_case :: "store \<Rightarrow> uid \<Rightarrow> uid \<Rightarrow> bool" where
  "own_case st acc k \<longleftrightarrow> (\<exists>c \<in> set (st_cases st). oc_account c = acc \<and> oc_id c = k)"

lemma load_case_None: "load_case st acc k = None \<longleftrightarrow> \<not> own_case st acc k"
  by (auto simp: load_case_def own_case_def find_None_iff)

lemma quarantine_case_eq:
  "quarantine_case acc revn k (st, n) =
    (if own_case st acc k
     then (st\<lparr>st_cases := map (\<lambda>c. if oc_id c = k then disable_case acc c else c) (st_cases st),
              st_outbox := map (\<lambda>x. if pending_of_older st acc k revn x then supersede_outbox x else x) (st_outbox st)\<rparr>,
           n + 1)
     else (st, n))"
  using load_case_None [of st acc k]
  by (auto simp: quarantine_case_def upd_case_def row_upd_def invalidate_pending_publications_def
      split: option.splits)

definition quarantined :: "uid \<Rightarrow> uid list \<Rightarrow> int \<Rightarrow> store \<Rightarrow> store" where
  "quarantined acc ids revn st = st\<lparr>
    st_cases := map (\<lambda>c. if oc_account c = acc \<and> oc_id c \<in> set ids
      then c\<lparr>oc_automation_status := AS_DISABLED, oc_business_status := BS_UNRESOLVED\<rparr> else c) (st_cases st),
    st_outbox := map (\<lambda>x. if \<exists>k \<in> set ids. own_case st acc k \<and> pending_of_older st acc k revn x
      then supersede_outbox x else x) (st_outbox st)\<rparr>"

lemma quarantined_cases: "st_cases (quarantined acc ids revn st) =
    map (\<lambda>c. if oc_account c = acc \<and> oc_id c \<in> set ids
      then c\<lparr>oc_automation_status := AS_DISABLED, oc_business_status := BS_UNRESOLVED\<rparr> else c) (st_cases st)"
  by (simp add: quarantined_def)

lemma own_case_quarantined [simp]: "own_case (quarantined acc ids revn st) acc' k = own_case st acc' k"
  unfolding own_case_def quarantined_cases set_map bex_simps by (rule bex_cong) simp_all

lemma pending_superseded [simp]: "\<not> pending_of_older st acc k revn (supersede_outbox x)"
  by (simp add: pending_of_older_def supersede_outbox_def)

lemma pending_quarantined [simp]:
  "pending_of_older (quarantined acc ids revn st) acc k r x = pending_of_older st acc k r x"
  by (simp add: pending_of_older_def quarantined_def)

lemma quarantined_outbox: "st_outbox (quarantined acc ids revn st) =
    map (\<lambda>x. if \<exists>k \<in> set ids. own_case st acc k \<and> pending_of_older st acc k revn x
      then supersede_outbox x else x) (st_outbox st)"
  by (simp add: quarantined_def)

lemma quarantined_again:
  "(quarantined acc ids revn st)\<lparr>st_cases := st_cases (quarantined acc ids' revn st),
    st_outbox := st_outbox (quarantined acc ids' revn st)\<rparr> = quarantined acc ids' revn st"
  by (simp add: quarantined_def)

lemma quarantine_step:
  "quarantine_case acc revn k (quarantined acc ids revn st, n) =
    (quarantined acc (ids @ [k]) revn st, n + (if own_case st acc k then 1 else 0))"
proof (cases "own_case st acc k")
  case True
  have "map (\<lambda>c. if oc_id c = k then disable_case acc c else c) (st_cases (quarantined acc ids revn st)) =
      st_cases (quarantined acc (ids @ [k]) revn st)"
    by (auto simp: quarantined_cases disable_case_def)
  moreover have "map (\<lambda>x. if pending_of_older st acc k revn x then supersede_outbox x else x)
      (st_outbox (quarantined acc ids revn st)) = st_outbox (quarantined acc (ids @ [k]) revn st)"
    using True by (auto simp: quarantined_outbox)
  ultimately show ?thesis
    by (simp only: quarantine_case_eq own_case_quarantined pending_quarantined True if_True quarantined_again)
next
  case False
  have "st_cases (quarantined acc (ids @ [k]) revn st) = st_cases (quarantined acc ids revn st)"
    unfolding quarantined_cases by (intro map_cong refl) (use False in \<open>auto simp: own_case_def\<close>)
  moreover have "st_outbox (quarantined acc (ids @ [k]) revn st) = st_outbox (quarantined acc ids revn st)"
    using False by (simp add: quarantined_outbox)
  ultimately have "quarantined acc (ids @ [k]) revn st = quarantined acc ids revn st"
    by (metis quarantined_again)
  then show ?thesis
    using False by (simp only: quarantine_case_eq own_case_quarantined if_False add_0_right)
qed

lemma quarantine_fold:
  "fold (quarantine_case acc revn) ids (st, 0) =
    (quarantined acc ids revn st, length (filter (own_case st acc) ids))"
proof (induction ids rule: rev_induct)
  case Nil
  show ?case by (simp add: quarantined_def)
next
  case (snoc k ids)
  then show ?case by (simp add: quarantine_step)
qed

text \<open>a quarantine of at most 100000 cases disables exactly the listed cases of the account and
  supersedes exactly their undispatched outbox entries of a revision below the one it is given; it
  changes nothing else, counts the cases it found, and a wider one is refused without any effect.\<close>

theorem run_quarantine_source_exact:
  "case run_quarantine_source st acc ids revn of (st', out) \<Rightarrow>
    if length ids \<le> 100000
    then rx_status out = RX_EXECUTED \<and> rx_affected out = length (filter (own_case st acc) ids) \<and>
      st' = quarantined acc ids revn st
    else rx_status out = RX_REJECTED \<and> rx_affected out = 0 \<and> st' = st"
  by (simp add: run_quarantine_source_def own_runbooks_admitted quarantine_fold rejected_outcome_def)

section \<open>What a quarantine spares\<close>

lemma find_map_other:
  "(\<And>x. x \<in> set xs \<Longrightarrow> P (f x) = P x) \<Longrightarrow> (\<And>x. x \<in> set xs \<Longrightarrow> P x \<Longrightarrow> f x = x) \<Longrightarrow>
    find P (map f xs) = find P xs"
  by (induction xs) auto

lemma quarantined_reads [simp]:
  "current_revision (quarantined acc ids revn st) a k = current_revision st a k"
  "find_attestation (quarantined acc ids revn st) a i = find_attestation st a i"
  "dispatch_grant (quarantined acc ids revn st) x = dispatch_grant st x"
  "already_dispatched (quarantined acc ids revn st) a key = already_dispatched st a key"
  by (simp_all add: quarantined_def current_revision_def versions_of_case_def find_attestation_def
      dispatch_grant_def already_dispatched_def split: option.split)

lemma authorize_dispatch_reads:
  assumes "st_attestations st' = st_attestations st" and "st_grants st' = st_grants st"
  shows "snd (authorize_dispatch sha256 st' acc a p r now stop) = snd (authorize_dispatch sha256 st acc a p r now stop)"
proof -
  have "find_attestation st' = find_attestation st" "dispatch_grant st' = dispatch_grant st"
    "already_dispatched st' = already_dispatched st"
    using assms by (auto simp: fun_eq_iff find_attestation_def dispatch_grant_def already_dispatched_def split: option.split)
  then show ?thesis by (simp add: authorize_dispatch_def split: option.split)
qed

lemma load_outbox_quarantined:
  assumes "row_get ai_id (ai_id i) (st_intents st) = Some i" and "revn \<le> ai_case_revision i"
  shows "load_outbox (quarantined acc ids revn st) acc (ai_id i) = load_outbox st acc (ai_id i)"
  unfolding load_outbox_def quarantined_outbox
  by (rule find_map_other) (use assms in \<open>auto simp: pending_of_older_def supersede_outbox_def\<close>)

lemma publish_case_published:
  "pu_published (snd (publish_case sha256 st acc i payload now stop)) =
    (case load_outbox st acc (ai_id i) of
       None \<Rightarrow> False
     | Some x \<Rightarrow> ox_status x \<notin> {OS_DISPATCHED, OS_RECONCILED, OS_INVALIDATED, OS_EFFECT_UNKNOWN} \<and>
        da_authorized (snd (authorize_dispatch sha256 (upd_outbox (ox_id x) (claim_outbox now) st) acc
          (ai_attestation i) (JObj payload)
          (case current_revision (upd_outbox (ox_id x) (claim_outbox now) st) acc (ai_case i) of
             None \<Rightarrow> ai_case_revision i | Some r \<Rightarrow> r) now stop)))"
  by (auto simp: publish_case_def Let_def refuse_publish_def split: option.splits prod.splits)

text \<open>a quarantine given the revision a pending publication already has does not stop it: the
  publication goes out exactly as it would have without the quarantine, and the case it disabled is
  published.\<close>

theorem quarantine_spares_current_revision:
  assumes "row_get ai_id (ai_id i) (st_intents st) = Some i" and "revn \<le> ai_case_revision i"
    and "run_quarantine_source st acc ids revn = (st', out)"
  shows "pu_published (snd (publish_case sha256 st' acc i payload now stop)) =
    pu_published (snd (publish_case sha256 st acc i payload now stop))"
proof -
  have "st' = quarantined acc ids revn st \<or> st' = st"
    using assms(3) by (auto simp: run_quarantine_source_def own_runbooks_admitted quarantine_fold split: if_splits)
  then show ?thesis
  proof
    assume st': "st' = quarantined acc ids revn st"
    let ?up = "\<lambda>s (x :: outbox_row). upd_outbox (ox_id x) (claim_outbox now) s"
    have "current_revision (?up st' x) acc k = current_revision (?up st x) acc k" for x k
      by (simp add: st' quarantined_def upd_outbox_def current_revision_def versions_of_case_def)
    moreover have "snd (authorize_dispatch sha256 (?up st' x) acc a p r now stop) =
        snd (authorize_dispatch sha256 (?up st x) acc a p r now stop)" for x a p r
      by (rule authorize_dispatch_reads) (simp_all add: st' quarantined_def upd_outbox_def)
    ultimately show ?thesis
      using load_outbox_quarantined [OF assms(1,2), of acc ids]
      unfolding publish_case_published st' by (simp only: cong: option.case_cong)
  qed simp
qed

section \<open>Runs of the systems\<close>

lemma simulates_recover:
  "\<exists>cs'. simulates sha256 (st, cs) (fst (run_recover_expired_task st acc now), cs')"
proof -
  obtain st' c where c: "claim_task st acc now DEFAULT_LEASE = (st', c)" by fastforce
  have frame: "same_publication st st'" using claim_frame [OF c] .
  have st': "fst (run_recover_expired_task st acc now) = st'" using run_recover_claims [of st acc now] c by simp
  show ?thesis unfolding st'
  proof (cases c)
    case None
    from simulates_queue [OF wf_idle frame] c None show "\<exists>cs'. simulates sha256 (st, cs) (st', cs')" by blast
  next
    case (Some x)
    from simulates_queue [OF wf_claim frame] c Some show "\<exists>cs'. simulates sha256 (st, cs) (st', cs')" by blast
  qed
qed


lemma simulates_invalidate:
  "simulates sha256 (st, cs) (fst (invalidate_pending_publications st acc k revn), cs)"
  by (rule simulates_publication [OF pb_invalidate [OF prod.collapse [symmetric]] _ authority_run [OF au_provision]])
    (simp_all add: invalidate_pending_publications_def same_queue_def)

lemma simulates_quarantine_fold:
  "simulates sha256 (st, cs) (fst (fold (quarantine_case acc revn) ids (st, n)), cs)"
proof (induction ids arbitrary: st n)
  case (Cons k ids)
  obtain st1 n1 where s: "quarantine_case acc revn k (st, n) = (st1, n1)" by fastforce
  have "simulates sha256 (st, cs) (st1, cs)"
  proof (cases "load_case st acc k")
    case None
    with s show ?thesis by (simp add: quarantine_case_def)
  next
    case (Some c)
    let ?st = "fst (invalidate_pending_publications st acc k revn)"
    have "simulates sha256 (?st, cs) (upd_case k (disable_case acc) ?st, cs)" by (rule simulates_elsewhere) simp_all
    with simulates_invalidate have "simulates sha256 (st, cs) (upd_case k (disable_case acc) ?st, cs)"
      by (rule simulates_trans)
    with s Some show ?thesis by (simp add: quarantine_case_def)
  qed
  moreover have "simulates sha256 (st1, cs) (fst (fold (quarantine_case acc revn) ids (st1, n1)), cs)" by (rule Cons)
  ultimately have "simulates sha256 (st, cs) (fst (fold (quarantine_case acc revn) ids (st1, n1)), cs)"
    by (rule simulates_trans)
  then show ?case by (simp add: s)
qed simp

lemma simulates_quarantine:
  "simulates sha256 (st, cs) (fst (run_quarantine_source st acc ids revn), cs)"
  using simulates_quarantine_fold [of sha256 st cs acc revn ids 0]
  by (cases "fold (quarantine_case acc revn) ids (st, 0)") (simp add: run_quarantine_source_def Let_def)

section \<open>A concrete quarantine\<close>

theorem quarantine_spares_current_revision_witness:
  "pu_published (snd (publish_case sample_hash (fst (run_quarantine_source (fst sample_propose) 7 [9] 1)) 7
    sample_intent sample_result 6 False))"
proof -
  have "row_get ai_id (ai_id sample_intent) (st_intents (fst sample_propose)) = Some sample_intent"
    by (simp add: row_get_def sample_intents(1))
  moreover have "1 \<le> ai_case_revision sample_intent" by code_simp
  moreover have "pu_published (snd (publish_case sample_hash (fst sample_propose) 7 sample_intent sample_result 6 False))"
    by code_simp
  ultimately show ?thesis
    using quarantine_spares_current_revision [OF _ _ prod.collapse [symmetric]] by blast
qed

end
