(* ===== verification/Explanation.thy ===== *)
theory Explanation
  imports ReadModel
begin

text \<open>
  The optional explanation agent (\<open>packages/shared/eastmed_shared/reconciliation/explanation.py\<close>). A
  language model is a port of the program: a fingerprint and a function from the number of the attempt
  and the request to a failure or a response. \<open>json.loads\<close> is a parameter, \<open>None\<close> being its
  \<open>JSONDecodeError\<close>. The frozen sets of permitted references and numbers are lists without order.
\<close>

definition PROMPT_FINGERPRINT :: string where "PROMPT_FINGERPRINT = ''recon_explanation_prompt_v1''"
definition SCHEMA_FINGERPRINT :: string where "SCHEMA_FINGERPRINT = ''recon_explanation_schema_v1''"
definition ALLOWED_KINDS :: "string list" where "ALLOWED_KINDS = [''reported'', ''calculated'', ''assumed'']"
definition MAX_SENTENCES :: nat where "MAX_SENTENCES = 20"
definition MAX_SENTENCE_CHARS :: nat where "MAX_SENTENCE_CHARS = 400"

datatype model_failure_kind =
  MF_REFUSAL | MF_INVALID_JSON | MF_TRUNCATION | MF_TOOL_MISUSE | MF_PROVIDER_OUTAGE

primrec model_failure_value :: "model_failure_kind \<Rightarrow> string" where
  "model_failure_value MF_REFUSAL = ''refusal''"
| "model_failure_value MF_INVALID_JSON = ''invalid_json''"
| "model_failure_value MF_TRUNCATION = ''truncation''"
| "model_failure_value MF_TOOL_MISUSE = ''tool_misuse''"
| "model_failure_value MF_PROVIDER_OUTAGE = ''provider_outage''"

record model_request =
  mq_prompt_fingerprint :: string
  mq_schema_fingerprint :: string
  mq_scope :: string
  mq_payload :: json

record model_response =
  mp_text :: string
  mp_model_fingerprint :: string
  mp_cost_units :: int

record explanation_model =
  em_fingerprint :: string
  em_generate :: "nat \<Rightarrow> model_request \<Rightarrow> model_failure_kind + model_response"

record explanation_context =
  ec_allowed_references :: "string list"
  ec_allowed_numbers :: "string list"
  ec_scope :: string

record explanation_sentence =
  es_text :: string
  es_references :: "string list"
  es_kind :: string

datatype explanation_status = EX_PRODUCED | EX_WITHHELD

record explanation_outcome =
  eo_status :: explanation_status
  eo_sentences :: "explanation_sentence list"
  eo_withheld_reason :: "string option"
  eo_attempts :: nat
  eo_cost_units :: int
  eo_model_fingerprint :: "string option"
  eo_failures :: "string list"

definition withheld :: "explanation_outcome \<Rightarrow> bool" where
  "withheld o' \<longleftrightarrow> eo_status o' = EX_WITHHELD"

section \<open>Grounding\<close>

definition canonical_number :: "string \<Rightarrow> string option" where
  "canonical_number token = map_option decimal_str (parse_decimal token)"

text \<open>The matches of \<open>-?\d+(?:\.\d+)?\<close>, leftmost and greedy.\<close>

definition take_number :: "string \<Rightarrow> string \<times> string" where
  "take_number s =
    (let whole = takeWhile is_digit s; after = dropWhile is_digit s
     in case after of
          [] \<Rightarrow> (whole, after)
        | c # cs \<Rightarrow>
            if c = CHR ''.'' \<and> cs \<noteq> [] \<and> is_digit (hd cs)
            then (whole @ c # takeWhile is_digit cs, dropWhile is_digit cs) else (whole, after))"

lemma take_number_shorter: "length (snd (take_number s)) \<le> length (dropWhile is_digit s)"
  by (auto simp: take_number_def Let_def split: list.split) (meson le_SucI length_dropWhile_le)

function find_numbers :: "string \<Rightarrow> string list" where
  "find_numbers [] = []"
| "find_numbers (c # cs) =
    (if is_digit c then fst (take_number (c # cs)) # find_numbers (snd (take_number (c # cs)))
     else if c = CHR ''-'' \<and> cs \<noteq> [] \<and> is_digit (hd cs)
     then (c # fst (take_number cs)) # find_numbers (snd (take_number cs))
     else find_numbers cs)"
  by pat_completeness auto

termination
proof (relation "measure length")
  fix c cs assume "is_digit c"
  then have "length (snd (take_number (c # cs))) \<le> length (dropWhile is_digit cs)"
    using take_number_shorter [of "c # cs"] by simp
  also have "\<dots> \<le> length cs" by (rule length_dropWhile_le)
  finally show "(snd (take_number (c # cs)), c # cs) \<in> measure length" by simp
next
  fix c cs
  have "length (snd (take_number cs)) \<le> length cs"
    using take_number_shorter [of cs] length_dropWhile_le [of is_digit cs] by linarith
  then show "(snd (take_number cs), c # cs) \<in> measure length" by simp
qed simp_all

definition numbers_supported :: "string \<Rightarrow> string list \<Rightarrow> bool" where
  "numbers_supported text allowed =
    list_all (\<lambda>token. canonical_number token \<noteq> None \<and>
      canonical_number token \<in> canonical_number ` set allowed) (find_numbers text)"

definition sentence_supported :: "explanation_context \<Rightarrow> explanation_sentence \<Rightarrow> bool" where
  "sentence_supported ctx s =
    (if es_kind s \<notin> set ALLOWED_KINDS then False
     else if es_references s = [] then False
     else if list_ex (\<lambda>r. r \<notin> set (ec_allowed_references ctx)) (es_references s) then False
     else numbers_supported (es_text s) (ec_allowed_numbers ctx))"

section \<open>Parsing\<close>

text \<open>The message of \<open>_ParseError\<close>.\<close>

type_synonym parse_error = string

definition json_str :: "json \<Rightarrow> string option" where
  "json_str v = (case v of JStr s \<Rightarrow> Some s | _ \<Rightarrow> None)"

definition string_items :: "json \<Rightarrow> string list option" where
  "string_items v =
    (case v of JList xs \<Rightarrow> if list_all (\<lambda>x. json_str x \<noteq> None) xs then Some (map (the \<circ> json_str) xs) else None
     | _ \<Rightarrow> None)"

definition parse_item :: "explanation_sentence list \<Rightarrow> json \<Rightarrow> parse_error + explanation_sentence list" where
  "parse_item sentences item =
    (case item of
       JObj kvs \<Rightarrow>
         (case (json_str (obj_get kvs ''text''), json_str (obj_get kvs ''kind'')) of
            (Some text, Some kind) \<Rightarrow>
              if text = [] \<or> MAX_SENTENCE_CHARS < length text then Inl ''sentence text length out of bounds''
              else (case string_items (obj_get kvs ''references'') of
                 None \<Rightarrow> Inl ''references must be a list of strings''
               | Some references \<Rightarrow>
                   Inr (sentences @ [\<lparr>es_text = text, es_references = references, es_kind = kind\<rparr>]))
          | _ \<Rightarrow> Inl ''sentence missing text/kind'')
     | _ \<Rightarrow> Inl ''sentence is not an object'')"

definition parse_sentences ::
  "(string \<Rightarrow> json option) \<Rightarrow> string \<Rightarrow> parse_error + explanation_sentence list" where
  "parse_sentences loads text =
    (case loads text of
       None \<Rightarrow> Inl ''not valid JSON''
     | Some (JList items) \<Rightarrow>
         if MAX_SENTENCES < length items then Inl ''too many sentences'' else efold parse_item [] items
     | Some _ \<Rightarrow> Inl ''expected a list of sentences'')"

section \<open>The attempt loop\<close>

definition build_request :: "(string \<times> json) list \<Rightarrow> explanation_context \<Rightarrow> model_request" where
  "build_request result_json ctx =
    \<lparr>mq_prompt_fingerprint = PROMPT_FINGERPRINT, mq_schema_fingerprint = SCHEMA_FINGERPRINT,
     mq_scope = ec_scope ctx,
     mq_payload = JObj
       [(''result'', JObj result_json),
        (''allowed_references'', JList (map JStr (sort (remdups (ec_allowed_references ctx))))),
        (''allowed_numbers'', JList (map JStr (sort (remdups (ec_allowed_numbers ctx))))),
        (''instructions'', JStr ''Describe only supplied facts; cite a reference per sentence.'')]\<rparr>"

record explanation_limits =
  el_qualified_fingerprints :: "string list"
  el_max_attempts :: nat
  el_cost_budget :: int

text \<open>The variables of the loop: attempts, cost and failures.\<close>

record explanation_progress =
  ep_attempts :: nat
  ep_cost :: int
  ep_failures :: "string list"

definition withhold :: "string \<Rightarrow> explanation_progress \<Rightarrow> explanation_outcome" where
  "withhold reason p = \<lparr>eo_status = EX_WITHHELD, eo_sentences = [], eo_withheld_reason = Some reason,
    eo_attempts = ep_attempts p, eo_cost_units = ep_cost p, eo_model_fingerprint = None,
    eo_failures = ep_failures p\<rparr>"

definition note_failure :: "string \<Rightarrow> explanation_progress \<Rightarrow> explanation_progress" where
  "note_failure why p = p\<lparr>ep_failures := ep_failures p @ [why]\<rparr>"

text \<open>What one attempt leads to: return, the next model, or the same model again.\<close>

datatype attempt_end = Return explanation_outcome | NextModel explanation_progress | Again explanation_progress

definition attempt_model ::
  "(string \<Rightarrow> json option) \<Rightarrow> explanation_context \<Rightarrow> explanation_model \<Rightarrow> model_request \<Rightarrow>
    explanation_progress \<Rightarrow> attempt_end" where
  "attempt_model loads ctx model request p0 =
    (let p = p0\<lparr>ep_attempts := ep_attempts p0 + 1\<rparr> in
     case em_generate model (ep_attempts p) request of
       Inl kind \<Rightarrow>
         let p1 = note_failure (model_failure_value kind) p in
         if kind = MF_TOOL_MISUSE then Return (withhold ''tool_misuse'' p1)
         else if kind = MF_REFUSAL \<or> kind = MF_PROVIDER_OUTAGE then NextModel p1
         else Again p1
     | Inr response \<Rightarrow>
         let p1 = p\<lparr>ep_cost := ep_cost p + mp_cost_units response\<rparr> in
         (case parse_sentences loads (mp_text response) of
            Inl _ \<Rightarrow> Again (note_failure (model_failure_value MF_INVALID_JSON) p1)
          | Inr sentences \<Rightarrow>
              let supported = filter (sentence_supported ctx) sentences in
              if supported \<noteq> []
              then Return \<lparr>eo_status = EX_PRODUCED, eo_sentences = supported, eo_withheld_reason = None,
                eo_attempts = ep_attempts p1, eo_cost_units = ep_cost p1,
                eo_model_fingerprint = Some (em_fingerprint model), eo_failures = ep_failures p1\<rparr>
              else NextModel (note_failure ''unsupported'' p1)))"

lemma attempt_model_counts:
  "attempt_model loads ctx model request p = Again p' \<Longrightarrow> ep_attempts p' = ep_attempts p + 1"
  "attempt_model loads ctx model request p = NextModel p' \<Longrightarrow> ep_attempts p' = ep_attempts p + 1"
  by (auto simp: attempt_model_def Let_def note_failure_def split: sum.splits if_splits)

function try_model ::
  "(string \<Rightarrow> json option) \<Rightarrow> explanation_context \<Rightarrow> explanation_limits \<Rightarrow> explanation_model \<Rightarrow>
    model_request \<Rightarrow> explanation_progress \<Rightarrow> explanation_outcome + explanation_progress" where
  "try_model loads ctx limits model request p =
    (if ep_attempts p < el_max_attempts limits \<and> ep_cost p < el_cost_budget limits then
       (case attempt_model loads ctx model request p of
          Return out \<Rightarrow> Inl out
        | NextModel p' \<Rightarrow> Inr p'
        | Again p' \<Rightarrow> try_model loads ctx limits model request p')
     else Inr p)"
  by pat_completeness auto

termination
  by (relation "measure (\<lambda>(loads, ctx, limits, model, request, p). el_max_attempts limits - ep_attempts p)")
    (auto dest: attempt_model_counts(1))

definition explain_model ::
  "(string \<Rightarrow> json option) \<Rightarrow> explanation_context \<Rightarrow> explanation_limits \<Rightarrow> model_request \<Rightarrow>
    explanation_progress \<Rightarrow> explanation_model \<Rightarrow> explanation_outcome + explanation_progress" where
  "explain_model loads ctx limits request p model =
    (if em_fingerprint model \<notin> set (el_qualified_fingerprints limits)
     then Inr (note_failure ''unqualified_denied'' p)
     else try_model loads ctx limits model request p)"

definition explain_case ::
  "(string \<Rightarrow> json option) \<Rightarrow> (string \<times> json) list \<Rightarrow> explanation_context \<Rightarrow> explanation_model list \<Rightarrow>
    explanation_limits \<Rightarrow> explanation_outcome" where
  "explain_case loads result_json ctx models limits =
    (case efold (explain_model loads ctx limits (build_request result_json ctx))
        \<lparr>ep_attempts = 0, ep_cost = 0, ep_failures = []\<rparr> models of
       Inl out \<Rightarrow> out
     | Inr p \<Rightarrow> withhold (if ep_failures p \<noteq> [] \<and> last (ep_failures p) = ''unsupported''
         then ''no_supported_sentences'' else ''exhausted'') p)"


section \<open>What an explanation may say and cost\<close>

lemma sentence_supported_iff:
  "sentence_supported ctx s \<longleftrightarrow> es_kind s \<in> set ALLOWED_KINDS \<and> es_references s \<noteq> [] \<and>
    list_all (\<lambda>r. r \<in> set (ec_allowed_references ctx)) (es_references s) \<and>
    numbers_supported (es_text s) (ec_allowed_numbers ctx)"
  by (auto simp: sentence_supported_def list_ex_iff list_all_iff)

text \<open>An outcome that keeps the rules: a produced narrative has only supported sentences, at least one,
  of a qualified model; a withheld one says nothing and gives its reason.\<close>

definition honest :: "explanation_context \<Rightarrow> explanation_limits \<Rightarrow> explanation_model list \<Rightarrow> explanation_outcome \<Rightarrow> bool" where
  "honest ctx limits models out \<longleftrightarrow>
    (if eo_status out = EX_PRODUCED
     then eo_sentences out \<noteq> [] \<and> list_all (sentence_supported ctx) (eo_sentences out) \<and>
       list_ex (\<lambda>m. eo_model_fingerprint out = Some (em_fingerprint m) \<and>
         em_fingerprint m \<in> set (el_qualified_fingerprints limits)) models
     else eo_sentences out = [] \<and> eo_model_fingerprint out = None \<and> eo_withheld_reason out \<noteq> None)"

definition in_limits :: "explanation_limits \<Rightarrow> int \<Rightarrow> nat \<Rightarrow> int \<Rightarrow> bool" where
  "in_limits limits c attempts cost \<longleftrightarrow> attempts \<le> el_max_attempts limits \<and> cost \<le> el_cost_budget limits + c"

definition call_cost :: "int \<Rightarrow> explanation_model \<Rightarrow> bool" where
  "call_cost c m \<longleftrightarrow> (\<forall>n q. case em_generate m n q of Inl _ \<Rightarrow> True | Inr r \<Rightarrow> mp_cost_units r \<le> c)"

lemma call_costD: "call_cost c m \<Longrightarrow> em_generate m n q = Inr r \<Longrightarrow> mp_cost_units r \<le> c"
  unfolding call_cost_def by (metis sum.simps(6))

lemma attempt_model_ok:
  assumes "call_cost c m" and "0 \<le> c" and "ep_attempts p < el_max_attempts limits"
    and "ep_cost p < el_cost_budget limits" and "em_fingerprint m \<in> set (el_qualified_fingerprints limits)"
    and "m \<in> set models"
  shows "case attempt_model loads ctx m q p of
      Return out \<Rightarrow> honest ctx limits models out \<and> in_limits limits c (eo_attempts out) (eo_cost_units out)
    | NextModel p' \<Rightarrow> in_limits limits c (ep_attempts p') (ep_cost p')
    | Again p' \<Rightarrow> in_limits limits c (ep_attempts p') (ep_cost p')"
proof (cases "em_generate m (ep_attempts p + 1) q")
  case (Inl k)
  with assms show ?thesis
    by (simp add: attempt_model_def Let_def note_failure_def withhold_def honest_def in_limits_def)
next
  case (Inr r)
  from call_costD [OF assms(1) this] have "ep_cost p + mp_cost_units r \<le> el_cost_budget limits + c"
    using assms(4) by linarith
  moreover have "list_ex (\<lambda>m'. em_fingerprint m = em_fingerprint m' \<and>
      em_fingerprint m' \<in> set (el_qualified_fingerprints limits)) models"
    using assms(5,6) by (auto simp: list_ex_iff)
  ultimately show ?thesis
    using Inr assms(3)
    by (simp add: attempt_model_def Let_def note_failure_def honest_def in_limits_def list_all_iff split: sum.split)
qed

lemma try_model_ok:
  assumes "call_cost c m" and "0 \<le> c" and "em_fingerprint m \<in> set (el_qualified_fingerprints limits)"
    and "m \<in> set models" and "in_limits limits c (ep_attempts p) (ep_cost p)"
  shows "case try_model loads ctx limits m q p of
      Inl out \<Rightarrow> honest ctx limits models out \<and> in_limits limits c (eo_attempts out) (eo_cost_units out)
    | Inr p' \<Rightarrow> in_limits limits c (ep_attempts p') (ep_cost p')"
  using assms
proof (induction loads ctx limits m q p rule: try_model.induct)
  case (1 loads ctx limits m q p)
  show ?case
  proof (cases "ep_attempts p < el_max_attempts limits \<and> ep_cost p < el_cost_budget limits")
    case True
    note ok = attempt_model_ok [OF 1(2,3) conjunct1 [OF True] conjunct2 [OF True] 1(4,5), of ctx loads q]
    show ?thesis
    proof (cases "attempt_model loads ctx m q p")
      case (Again p')
      with ok have "in_limits limits c (ep_attempts p') (ep_cost p')" by simp
      from 1(1) [OF True Again 1(2,3,4,5) this] True Again show ?thesis by (subst try_model.simps) simp
    qed (use ok True in \<open>(subst try_model.simps, simp)\<close>)+
  next
    case False
    with 1(6) show ?thesis by (subst try_model.simps) (simp only: if_False sum.case)
  qed
qed

lemma explain_models_ok:
  assumes "list_all (call_cost c) ms" and "0 \<le> c" and "set ms \<subseteq> set models"
    and "in_limits limits c (ep_attempts p) (ep_cost p)"
  shows "case efold (explain_model loads ctx limits q) p ms of
      Inl out \<Rightarrow> honest ctx limits models out \<and> in_limits limits c (eo_attempts out) (eo_cost_units out)
    | Inr p' \<Rightarrow> in_limits limits c (ep_attempts p') (ep_cost p')"
  using assms
proof (induction ms arbitrary: p)
  case (Cons m ms)
  have step: "case explain_model loads ctx limits q p m of
      Inl out \<Rightarrow> honest ctx limits models out \<and> in_limits limits c (eo_attempts out) (eo_cost_units out)
    | Inr p' \<Rightarrow> in_limits limits c (ep_attempts p') (ep_cost p')"
  proof (cases "em_fingerprint m \<in> set (el_qualified_fingerprints limits)")
    case True
    with try_model_ok [OF _ Cons.prems(2) True _ Cons.prems(4)] Cons.prems(1,3) show ?thesis
      by (simp add: explain_model_def)
  next
    case False
    with Cons.prems(4) show ?thesis by (simp add: explain_model_def note_failure_def)
  qed
  show ?case
  proof (cases "explain_model loads ctx limits q p m")
    case (Inl out)
    with step show ?thesis by simp
  next
    case (Inr p')
    with step Cons.prems Cons.IH [of p'] show ?thesis by simp
  qed
qed simp

text \<open>C40: an explanation is produced only from a qualified model and with sentences that all cite permitted
  references and whose numbers, as the code's pattern finds them, are all among the supplied ones (the
  pattern splits at a thousands separator: 1,050 is the two numbers 1 and 050); otherwise it is withheld
  with a reason and no sentence. Whatever the models answer, there are at most the permitted attempts,
  and when no call costs more than some amount the total exceeds the budget by at most that amount.\<close>

theorem explain_case_grounded:
  assumes "list_all (call_cost c) models" and "0 \<le> c" and "0 \<le> el_cost_budget limits"
  shows "honest ctx limits models (explain_case loads result_json ctx models limits) \<and>
    eo_attempts (explain_case loads result_json ctx models limits) \<le> el_max_attempts limits \<and>
    eo_cost_units (explain_case loads result_json ctx models limits) \<le> el_cost_budget limits + c"
proof -
  have "in_limits limits c (ep_attempts \<lparr>ep_attempts = 0, ep_cost = 0, ep_failures = []\<rparr>)
      (ep_cost \<lparr>ep_attempts = 0, ep_cost = 0, ep_failures = []\<rparr>)"
    using assms(2,3) by (simp add: in_limits_def)
  from explain_models_ok [OF assms(1,2) subset_refl this, where loads = loads and ctx = ctx and q = "build_request result_json ctx"]
  show ?thesis
    by (auto simp: explain_case_def withhold_def honest_def in_limits_def split: sum.splits)
qed

section \<open>Numbers\<close>

text \<open>A supported sentence of a produced narrative has every number of its text among the permitted
  ones, digit for digit up to the canonical form of a decimal.\<close>

lemma numbers_supported_canonical:
  "numbers_supported text allowed \<Longrightarrow> token \<in> set (find_numbers text) \<Longrightarrow>
    \<exists>a \<in> set allowed. canonical_number a = canonical_number token"
  by (fastforce simp: numbers_supported_def list_all_iff image_iff)

text \<open>A thousands separator splits a number into permitted parts.\<close>

lemma separated_number_supported: "numbers_supported ''a total of 1,050 t'' [''1'', ''50'']"
  by code_simp


section \<open>A concrete explanation\<close>

definition sample_model :: explanation_model where
  "sample_model = \<lparr>em_fingerprint = ''m1'', em_generate = (\<lambda>n _.
    if n = 1 then Inl MF_TRUNCATION
    else Inr \<lparr>mp_text = ''reply'', mp_model_fingerprint = ''m1'', mp_cost_units = 7\<rparr>)\<rparr>"

definition sample_loads :: "string \<Rightarrow> json option" where
  "sample_loads text = Some (JList
    [JObj [(''text'', JStr ''Delta 1.50 t''), (''references'', JList [JStr ''r1'']), (''kind'', JStr ''calculated'')],
     JObj [(''text'', JStr ''About 2 t''), (''references'', JList [JStr ''r1'']), (''kind'', JStr ''calculated'')]])"

definition sample_context :: explanation_context where
  "sample_context = \<lparr>ec_allowed_references = [''r1''], ec_allowed_numbers = [''1.50''], ec_scope = ''supported_variance''\<rparr>"

definition sample_limits :: explanation_limits where
  "sample_limits = \<lparr>el_qualified_fingerprints = [''m1''], el_max_attempts = 2, el_cost_budget = 1000\<rparr>"

theorem explain_case_grounded_witness:
  "eo_status (explain_case sample_loads [] sample_context [sample_model] sample_limits) = EX_PRODUCED \<and>
    honest sample_context sample_limits [sample_model]
      (explain_case sample_loads [] sample_context [sample_model] sample_limits)"
proof -
  have "list_all (call_cost 7) [sample_model]" by (simp add: call_cost_def sample_model_def)
  moreover have "0 \<le> el_cost_budget sample_limits" by (simp add: sample_limits_def)
  moreover have "eo_status (explain_case sample_loads [] sample_context [sample_model] sample_limits) = EX_PRODUCED"
    by code_simp
  ultimately show ?thesis
    using explain_case_grounded [of 7 "[sample_model]" sample_limits sample_context sample_loads "[]"] by simp
qed

end
