(* ===== verification/Pilot.thy ===== *)
theory Pilot
  imports Qualification Ledger Reliability RecordImport
begin

text \<open>
  The replay harness (\<open>packages/pipeline/eastmed_pipeline/reconciliation_pilot.py\<close>): a frozen cohort of
  jobs is driven through import, computation, verification and publication, the drills are injected,
  and the observed run is handed to the acceptance gates. The clock of the database is the argument
  \<open>db_now\<close>; the time of the replay advances by \<open>STEP\<close>. An exception is a value and leaves no store.
\<close>

definition STEP :: int where "STEP = 10 * SECOND"
definition DAY :: int where "DAY = 86400 * SECOND"
definition HOUR :: int where "HOUR = 3600 * SECOND"

datatype pilot_error =
    PilotIntegrityError
  | PilotImportFailed import_error
  | PilotCaseFailed case_error
  | PilotAttestationError
  | PilotAssertion
  | PilotLedgerError ledger_error
  | PilotReadFailed read_error
  | PilotIndexError
  | PilotPrecisionError string

record pilot_job =
  pj_vessel_ref :: string
  pj_plan_payload :: json
  pj_report_payload :: json
  pj_period_start :: instant
  pj_period_end :: instant
  pj_due_at :: instant
  pj_corrected_report_payload :: "json option"

record pilot_run_result =
  pz_acceptance :: pilot_acceptance
  pz_completion :: completion_summary
  pz_verified_cases :: nat
  pz_published_effects :: nat
  pz_latencies :: "float64 list"

text \<open>A service that works on the reconciliation tables, applied to the store with the feed tables.\<close>

definition with_store :: "feed_store \<Rightarrow> store \<Rightarrow> feed_store" where
  "with_store feed st = store.extend st
    (feed_store.fields (fs_memberships feed) (fs_voyages feed) (fs_voyage_versions feed))"

section \<open>Preparation\<close>

definition ensure_membership :: "feed_store \<Rightarrow> uid \<Rightarrow> pilot_job \<Rightarrow> feed_store" where
  "ensure_membership feed account_id job =
    (if list_ex (\<lambda>m. vm_account m = account_id \<and> vm_vessel_ref m = pj_vessel_ref job) (fs_memberships feed) then feed
     else feed\<lparr>fs_memberships := fs_memberships feed @
       [\<lparr>vm_id = st_next feed, vm_account = account_id, vm_vessel_ref = pj_vessel_ref job,
         vm_authority_role = AR_OPERATOR, vm_valid_from = pj_period_start job - 365 * DAY,
         vm_valid_to = pj_period_end job + 365 * DAY\<rparr>], st_next := st_next feed + 1\<rparr>)"

definition expected_row :: "uid \<Rightarrow> uid \<Rightarrow> pilot_job \<Rightarrow> expected_job_row" where
  "expected_row i account_id job =
    \<lparr>ej_id = i, ej_account = account_id, ej_vessel_ref = pj_vessel_ref job, ej_voyage_ref = None,
     ej_period_start = pj_period_start job, ej_period_end = pj_period_end job, ej_due_at = pj_due_at job,
     ej_contract_version = ''fleet_reconciliation_v1'', ej_result_contract_version = ''result_contract_v1'',
     ej_required_record_kind = RK_DAILY_REPORT\<rparr>"

text \<open>The natural key and the order of the period are constraints of the table.\<close>

definition lock_expected_job :: "feed_store \<Rightarrow> uid \<Rightarrow> pilot_job \<Rightarrow> pilot_error + (feed_store \<times> expected_job_row)" where
  "lock_expected_job feed account_id job =
    (let row = expected_row (st_next feed) account_id job in
     if pj_period_end job \<le> pj_period_start job \<or>
       list_ex (\<lambda>j. ej_account j = account_id \<and> ej_vessel_ref j = ej_vessel_ref row \<and>
         ej_required_record_kind j = RK_DAILY_REPORT \<and> ej_period_start j = ej_period_start row \<and>
         ej_period_end j = ej_period_end row) (st_jobs feed)
     then Inl PilotIntegrityError
     else Inr (feed\<lparr>st_jobs := st_jobs feed @ [row], st_next := st_next feed + 1\<rparr>, row))"

text \<open>\<open>expected_by_vessel\<close> keeps the last job of a vessel.\<close>

definition lock_job ::
  "uid \<Rightarrow> feed_store \<times> (string \<times> expected_job_row) list \<Rightarrow> pilot_job \<Rightarrow>
    pilot_error + (feed_store \<times> (string \<times> expected_job_row) list)" where
  "lock_job account_id s job =
    ebind (lock_expected_job (ensure_membership (fst s) account_id job) account_id job) (\<lambda>(feed, row).
      Inr (feed, AList.update (pj_vessel_ref job) row (snd s)))"

section \<open>One job\<close>

record pilot_progress =
  pr_feed :: feed_store
  pr_observations :: "job_observation list"
  pr_ledger_jobs :: "expected_job list"
  pr_latencies :: "float64 list"
  pr_verified_cases :: nat
  pr_published_effects :: nat
  pr_all_verified :: bool
  pr_read_back_all :: bool
  pr_one_effect_all :: bool
  pr_completed_cases :: "uid list"

definition observe :: "uid \<Rightarrow> job_outcome \<Rightarrow> bool \<Rightarrow> job_observation" where
  "observe job_id out arrived = \<lparr>jo_expected_job_id = uuid_str job_id, jo_outcome = out,
    jo_human_intervention = False, jo_arrived = arrived\<rparr>"

definition ledger_job :: "uid \<Rightarrow> uid \<Rightarrow> pilot_job \<Rightarrow> expected_job" where
  "ledger_job account_id job_id job =
    \<lparr>xj_expected_job_id = uuid_str job_id, xj_tenant_id = uuid_str account_id,
     xj_vessel_ref = pj_vessel_ref job, xj_period_start = pj_period_start job,
     xj_period_end = pj_period_end job, xj_due_at = pj_due_at job, xj_contract_version = CONTRACT_VERSION,
     xj_result_contract_version = ''result_contract_v1'', xj_required_record_kind = RK_DAILY_REPORT\<rparr>"

text \<open>Publication and read-back at the given time: the store, whether it was published and confirmed,
  and the clock after it.\<close>

definition pilot_publish ::
  "hash \<Rightarrow> store \<Rightarrow> uid \<Rightarrow> string \<Rightarrow> string \<Rightarrow> case_row \<Rightarrow> case_version_row \<Rightarrow> instant \<Rightarrow>
    pilot_error + (store \<times> bool \<times> bool \<times> instant)" where
  "pilot_publish sha256 st account_id subject fingerprint opcase version clock =
    (case propose_publication sha256 st account_id opcase version subject fingerprint PRIVATE_PORTAL
        DEFAULT_CASE_TYPE clock False of
       None \<Rightarrow> Inl PilotAttestationError
     | Some (st1, proposed) \<Rightarrow>
        (case (pp_ready proposed, pp_intent proposed) of
           (True, Some intent_id) \<Rightarrow>
             (case row_get ai_id intent_id (st_intents st1) of
                None \<Rightarrow> Inl PilotAssertion
              | Some intent \<Rightarrow>
                 (case publish_case sha256 st1 account_id intent (cv_result_json version) (clock + STEP) False of
                    (st2, pub) \<Rightarrow>
                      (case reconcile_publication sha256 st2 account_id intent of
                         (st3, verdict) \<Rightarrow> Inr (st3, pu_published pub, pc_confirmed verdict, clock + 2 * STEP))))
         | _ \<Rightarrow> Inr (st1, False, False, clock)))"

definition note_publication ::
  "pilot_job \<Rightarrow> uid \<Rightarrow> uid \<Rightarrow> instant \<Rightarrow> pilot_progress \<Rightarrow> store \<times> bool \<times> bool \<times> instant \<Rightarrow> pilot_progress" where
  "note_publication job job_id case_id arrival p published_at =
    (case published_at of (st, published, confirmed, clock) \<Rightarrow> p\<lparr>
      pr_feed := with_store (pr_feed p) st,
      pr_published_effects := pr_published_effects p + (if published then 1 else 0),
      pr_one_effect_all := pr_one_effect_all p \<and> published,
      pr_read_back_all := pr_read_back_all p \<and> confirmed,
      pr_verified_cases := pr_verified_cases p + (if confirmed then 1 else 0),
      pr_completed_cases := pr_completed_cases p @ (if confirmed then [case_id] else []),
      pr_latencies := pr_latencies p @ (if confirmed then [total_seconds (clock - arrival)] else []),
      pr_observations := pr_observations p @ [observe job_id
        (if \<not> confirmed then JO_UNRESOLVED
         else if clock \<le> pj_due_at job then JO_CORRECT_ON_TIME else JO_CORRECT_LATE) True]\<rparr>)"

definition pilot_case ::
  "isoparser \<Rightarrow> hash \<Rightarrow> uid \<Rightarrow> string \<Rightarrow> string \<Rightarrow> pilot_job \<Rightarrow> expected_job_row \<Rightarrow> uid \<Rightarrow> instant \<Rightarrow>
    pilot_progress \<Rightarrow> pilot_error + pilot_progress" where
  "pilot_case fromiso sha256 account_id subject fingerprint job expected case_id arrival p =
    (let st = store.truncate (pr_feed p) in
     case row_get oc_id case_id (st_cases st) of
       None \<Rightarrow> Inl PilotAssertion
     | Some opcase \<Rightarrow>
        (case compute_case_result fromiso sha256 st account_id expected of
           Inl e \<Rightarrow> Inl (PilotCaseFailed e)
         | Inr result \<Rightarrow>
            (case commit_case_version st account_id opcase result of (st1, version) \<Rightarrow>
            (case record_verification_verdict fromiso st1 account_id expected opcase version result of
               Inl e \<Rightarrow> Inl (PilotCaseFailed e)
             | Inr (st2, verdict) \<Rightarrow>
                let p1 = p\<lparr>pr_feed := with_store (pr_feed p) st2,
                      pr_all_verified := pr_all_verified p \<and>
                        vd_status verdict = verification_status_value VERIFIED\<rparr>
                in if \<not> vd_completes verdict then
                     Inr (p1\<lparr>pr_observations := pr_observations p1 @ [observe (ej_id expected) JO_UNRESOLVED True]\<rparr>)
                   else
                     ebind (pilot_publish sha256 st2 account_id subject fingerprint opcase version (arrival + 3 * STEP))
                       (\<lambda>published_at. Inr (note_publication job (ej_id expected) (oc_id opcase) arrival p1 published_at))))))"

definition pilot_step ::
  "isoparser \<Rightarrow> hash \<Rightarrow> uid \<Rightarrow> string \<Rightarrow> string \<Rightarrow> instant \<Rightarrow> instant \<Rightarrow> (string \<times> expected_job_row) list \<Rightarrow>
    pilot_progress \<Rightarrow> pilot_job \<Rightarrow> pilot_error + pilot_progress" where
  "pilot_step fromiso sha256 account_id subject fingerprint now db_now by_vessel p job =
    (case map_of by_vessel (pj_vessel_ref job) of
       None \<Rightarrow> Inl PilotIndexError
     | Some expected \<Rightarrow>
        (case import_record fromiso sha256 (pr_feed p) account_id (pj_plan_payload job) db_now of
           Inl e \<Rightarrow> Inl (PilotImportFailed e)
         | Inr (feed1, _) \<Rightarrow>
            (case import_record fromiso sha256 feed1 account_id (pj_report_payload job) db_now of
               Inl e \<Rightarrow> Inl (PilotImportFailed e)
             | Inr (feed2, report) \<Rightarrow>
                let p1 = p\<lparr>pr_feed := feed2,
                      pr_ledger_jobs := pr_ledger_jobs p @ [ledger_job account_id (ej_id expected) job]\<rparr>
                in (case io_case_id report of
                      Some case_id \<Rightarrow>
                        if io_status report \<noteq> IM_ACCEPTED
                        then Inr (p1\<lparr>pr_observations := pr_observations p1 @ [observe (ej_id expected) JO_MISSING False]\<rparr>)
                        else pilot_case fromiso sha256 account_id subject fingerprint job expected case_id (now + STEP) p1
                    | None \<Rightarrow>
                        Inr (p1\<lparr>pr_observations := pr_observations p1 @ [observe (ej_id expected) JO_MISSING False]\<rparr>)))))"

section \<open>The drills\<close>

definition worker_recovery_drill :: "store \<Rightarrow> uid \<Rightarrow> case_row \<Rightarrow> instant \<Rightarrow> (store \<times> bool) option" where
  "worker_recovery_drill st account_id opcase now =
    (case create_run st account_id opcase ''wf-pilot'' ''fp1'' 100 (now + HOUR) of (st1, run) \<Rightarrow>
     case claim_task (fst (enqueue_task st1 account_id run WS_VERIFY 0 None 3 now)) account_id now DEFAULT_LEASE of
       (st2, None) \<Rightarrow> Some (st2, False)
     | (st2, Some crashed) \<Rightarrow>
        (case run_recover_expired_task st2 account_id (now + 10 * MINUTE) of
           (st3, _, None) \<Rightarrow> Some (st3, False)
         | (st3, _, Some recovered) \<Rightarrow>
            if tc_lease_epoch recovered \<le> tc_lease_epoch crashed then Some (st3, False)
            else map_option (\<lambda>(st4, out). (st4, so_status out = CS_FENCED))
              (commit_stage st3 account_id crashed (now + 10 * MINUTE) None None None)))"

definition versions_of_account :: "store \<Rightarrow> uid \<Rightarrow> nat" where
  "versions_of_account st account_id = length (filter (\<lambda>v. cv_account v = account_id) (st_versions st))"

definition correction_drill ::
  "isoparser \<Rightarrow> hash \<Rightarrow> feed_store \<Rightarrow> uid \<Rightarrow> pilot_job \<Rightarrow> expected_job_row \<Rightarrow> instant \<Rightarrow>
    pilot_error + (feed_store \<times> bool)" where
  "correction_drill fromiso sha256 feed account_id job expected db_now =
    (case pj_corrected_report_payload job of
       None \<Rightarrow> Inr (feed, True)
     | Some payload \<Rightarrow>
        (case import_record fromiso sha256 feed account_id payload db_now of
           Inl e \<Rightarrow> Inl (PilotImportFailed e)
         | Inr (feed1, out) \<Rightarrow>
            (case (io_status out, io_case_id out) of
               (IM_ACCEPTED, Some case_id) \<Rightarrow>
                 let st = store.truncate feed1 in
                 (case row_get oc_id case_id (st_cases st) of
                    None \<Rightarrow> Inr (feed1, False)
                  | Some opcase \<Rightarrow>
                     (case compute_case_result fromiso sha256 st account_id expected of
                        Inl e \<Rightarrow> Inl (PilotCaseFailed e)
                      | Inr result \<Rightarrow>
                         (case commit_case_version st account_id opcase result of (st1, version) \<Rightarrow>
                          let st2 = fst (invalidate_pending_publications st1 account_id (oc_id opcase) (cv_revision version))
                          in Inr (with_store feed1 st2, 2 \<le> cv_revision version \<and>
                               versions_of_account (store.truncate feed) account_id < versions_of_account st2 account_id))))
             | _ \<Rightarrow> Inr (feed1, False))))"

text \<open>\<open>all(...)\<close> over the corrected jobs stops at the first drill that fails.\<close>

fun correction_drills ::
  "isoparser \<Rightarrow> hash \<Rightarrow> uid \<Rightarrow> (string \<times> expected_job_row) list \<Rightarrow> instant \<Rightarrow> feed_store \<Rightarrow> pilot_job list \<Rightarrow>
    pilot_error + (feed_store \<times> bool)" where
  "correction_drills fromiso sha256 account_id by_vessel db_now feed [] = Inr (feed, True)"
| "correction_drills fromiso sha256 account_id by_vessel db_now feed (job # jobs) =
    (if pj_corrected_report_payload job = None
     then correction_drills fromiso sha256 account_id by_vessel db_now feed jobs
     else (case map_of by_vessel (pj_vessel_ref job) of
        None \<Rightarrow> Inl PilotIndexError
      | Some expected \<Rightarrow>
         ebind (correction_drill fromiso sha256 feed account_id job expected db_now) (\<lambda>(feed1, ok).
           if ok then correction_drills fromiso sha256 account_id by_vessel db_now feed1 jobs
           else Inr (feed1, False))))"

section \<open>The run\<close>

definition drill_recovery ::
  "feed_store \<Rightarrow> uid \<Rightarrow> (string \<times> expected_job_row) list \<Rightarrow> pilot_job list \<Rightarrow> instant \<Rightarrow>
    pilot_error + (feed_store \<times> bool)" where
  "drill_recovery feed account_id by_vessel jobs now =
    (case jobs of
       [] \<Rightarrow> Inl PilotIndexError
     | first # _ \<Rightarrow>
        (case map_of by_vessel (pj_vessel_ref first) of
           None \<Rightarrow> Inl PilotIndexError
         | Some expected \<Rightarrow>
            (case find (\<lambda>c. oc_account c = account_id \<and> oc_expected_job c = ej_id expected) (st_cases feed) of
               None \<Rightarrow> Inr (feed, False)
             | Some opcase \<Rightarrow>
                (case worker_recovery_drill (store.truncate feed) account_id opcase now of
                   None \<Rightarrow> Inl PilotAssertion
                 | Some (st, ok) \<Rightarrow> Inr (with_store feed st, ok)))))"

definition no_cross_tenant :: "feed_store \<Rightarrow> uid option \<Rightarrow> uid list \<Rightarrow> pilot_error + bool" where
  "no_cross_tenant feed foreign completed =
    (case (foreign, completed) of
       (Some other, case_id # _) \<Rightarrow>
         (case get_case_view (store.truncate feed) other case_id None of
            Inl e \<Rightarrow> Inl (PilotReadFailed e)
          | Inr view \<Rightarrow> Inr (view = None))
     | _ \<Rightarrow> Inr True)"

definition count_value :: "(job_outcome \<times> nat) list \<Rightarrow> string \<Rightarrow> int" where
  "count_value by_outcome value =
    int (sum_list (map snd (filter (\<lambda>(k, _). job_outcome_value k = value) by_outcome)))"

definition pilot_obs :: "completion_summary \<Rightarrow> pilot_progress \<Rightarrow> bool \<Rightarrow> bool \<Rightarrow> bool \<Rightarrow> pilot_observations" where
  "pilot_obs s p isolated recovery_ok correction_ok =
    \<lparr>po_expected_jobs = int (cs_expected_jobs s), po_correct_on_time = int (cs_correct_on_time_zero_touch s),
     po_incorrect = count_value (cs_by_outcome s) ''incorrect'',
     po_unresolved = count_value (cs_by_outcome s) ''unresolved'',
     po_missing = count_value (cs_by_outcome s) ''missing'',
     po_human_interventions = int (cs_human_touch_jobs s),
     po_arithmetic_fixtures_pass = pr_all_verified p, po_control_integrity_pass = isolated,
     po_one_logical_effect = pr_one_effect_all p, po_worker_recovery_ok = recovery_ok,
     po_correction_propagation_ok = correction_ok, po_read_back_confirmed = pr_read_back_all p,
     po_p95_latency_seconds = (case percentile (pr_latencies p) (fl (95 / 100)) of None \<Rightarrow> 0 | Some x \<Rightarrow> x),
     po_observed_consecutive_days = 0, po_independent_precision_cases = 0, po_precision_successes = 0,
     po_benefit_multiple = 0, po_continuing_paying_pilots = 0,
     po_correct_late = count_value (cs_by_outcome s) ''correct_late'',
     po_unsupported = count_value (cs_by_outcome s) ''unsupported'', po_latency_measured = False\<rparr>"

definition pilot_decision :: "pilot_observations \<Rightarrow> float64 list \<Rightarrow> decision_record" where
  "pilot_decision obs latencies =
    \<lparr>de_expected_jobs = po_expected_jobs obs, de_completion_rate = pilot_completion_rate obs,
     de_human_touch_rate = pilot_human_touch_rate obs, de_incorrect = po_incorrect obs,
     de_unresolved = po_unresolved obs, de_missing = po_missing obs,
     de_p50_latency_seconds = percentile latencies (fl (50 / 100)),
     de_p95_latency_seconds = percentile latencies (fl (95 / 100)),
     de_source_delay_p95_seconds = None, de_correction_propagation_ok = po_correction_propagation_ok obs,
     de_cost_per_correct_result = None, de_setup_effort_hours = None, de_measured_benefit_multiple = 0,
     de_evidence_kind = ''synthetic_replay_simulated_clock'', de_correct_late = po_correct_late obs,
     de_unsupported = po_unsupported obs\<rparr>"

definition start_progress :: "feed_store \<Rightarrow> pilot_progress" where
  "start_progress feed = \<lparr>pr_feed = feed, pr_observations = [], pr_ledger_jobs = [], pr_latencies = [],
    pr_verified_cases = 0, pr_published_effects = 0, pr_all_verified = True, pr_read_back_all = True,
    pr_one_effect_all = True, pr_completed_cases = []\<rparr>"

definition run_pilot ::
  "float_lib \<Rightarrow> isoparser \<Rightarrow> hash \<Rightarrow> feed_store \<Rightarrow> uid \<Rightarrow> string \<Rightarrow> string \<Rightarrow> pilot_job list \<Rightarrow> instant \<Rightarrow> instant \<Rightarrow>
    uid option \<Rightarrow> pilot_error + (feed_store \<times> pilot_run_result)" where
  "run_pilot lib fromiso sha256 feed0 account_id subject fingerprint jobs now db_now foreign =
    ebind (efold (lock_job account_id) (feed0, []) jobs) (\<lambda>(feed1, by_vessel).
    ebind (efold (pilot_step fromiso sha256 account_id subject fingerprint now db_now by_vessel)
      (start_progress feed1) jobs) (\<lambda>p.
    case summarize_ledger (pr_ledger_jobs p) (pr_observations p) 0 of
      Inl e \<Rightarrow> Inl (PilotLedgerError e)
    | Inr completion \<Rightarrow>
       ebind (drill_recovery (pr_feed p) account_id by_vessel jobs now) (\<lambda>(feed2, recovery_ok).
       ebind (correction_drills fromiso sha256 account_id by_vessel db_now feed2 jobs) (\<lambda>(feed3, correction_ok).
       ebind (no_cross_tenant feed3 foreign (pr_completed_cases p)) (\<lambda>isolated.
       let obs = pilot_obs completion p isolated recovery_ok correction_ok in
       case evaluate_pilot lib obs (pilot_decision obs (pr_latencies p)) None of
         Inl e \<Rightarrow> Inl (PilotPrecisionError e)
       | Inr acceptance \<Rightarrow> Inr (feed3,
           \<lparr>pz_acceptance = acceptance, pz_completion = completion,
            pz_verified_cases = pr_verified_cases p, pz_published_effects = pr_published_effects p,
            pz_latencies = pr_latencies p\<rparr>))))))"

end
