(* ===== verification/Pilot_Props.thy ===== *)
theory Pilot_Props
  imports Pilot
begin

text \<open>
  What one replay can establish: the cohort is accounted for job by job, a job counts as a success only
  with a confirmed read-back, and the acceptance of a replay is never ready.
\<close>

section \<open>The accounting of a job\<close>

definition accounts_for :: "uid \<Rightarrow> pilot_progress \<Rightarrow> pilot_progress \<Rightarrow> bool" where
  "accounts_for job_id p p' \<longleftrightarrow> pr_ledger_jobs p' = pr_ledger_jobs p \<and>
    (\<exists>ob. pr_observations p' = pr_observations p @ [ob] \<and> jo_expected_job_id ob = uuid_str job_id \<and>
      pr_verified_cases p + (if unattended_success ob then 1 else 0) \<le> pr_verified_cases p')"

lemma accounts_for_missing:
  "accounts_for i p (p\<lparr>pr_observations := pr_observations p @ [observe i JO_MISSING a]\<rparr>)"
  "accounts_for i p (p\<lparr>pr_feed := f, pr_all_verified := v, pr_observations := pr_observations p @ [observe i JO_UNRESOLVED a]\<rparr>)"
  by (simp_all add: accounts_for_def observe_def unattended_success_def)

lemma accounts_for_feed:
  "accounts_for i (p\<lparr>pr_feed := f, pr_all_verified := v\<rparr>) q = accounts_for i p q"
  "accounts_for i (p\<lparr>pr_feed := f\<rparr>) q = accounts_for i p q"
  by (simp_all add: accounts_for_def)

lemma note_publication_accounts: "accounts_for i p (note_publication job i k arrival p r)"
  by (cases r) (simp add: note_publication_def accounts_for_def observe_def unattended_success_def)

lemma pilot_case_accounts:
  assumes "pilot_case fromiso sha256 acc subject fp job e k arrival p = Inr p'"
  shows "accounts_for (ej_id e) p p'"
proof -
  from assms obtain f v c r where "p' = p\<lparr>pr_feed := f, pr_all_verified := v,
        pr_observations := pr_observations p @ [observe (ej_id e) JO_UNRESOLVED True]\<rparr> \<or>
      p' = note_publication job (ej_id e) c arrival (p\<lparr>pr_feed := f, pr_all_verified := v\<rparr>) r"
    unfolding pilot_case_def Let_def ebind_def
    by (simp split: option.splits sum.splits prod.splits if_splits) (blast | metis)+
  then show ?thesis
    using note_publication_accounts [of "ej_id e" "p\<lparr>pr_feed := f, pr_all_verified := v\<rparr>" job c arrival r]
    by (auto simp: accounts_for_feed intro: accounts_for_missing)
qed


lemma pilot_step_accounts:
  assumes "pilot_step fromiso sha256 acc subject fp now db by_vessel p job = Inr p'"
  shows "\<exists>e. map_of by_vessel (pj_vessel_ref job) = Some e \<and>
    accounts_for (ej_id e) (p\<lparr>pr_ledger_jobs := pr_ledger_jobs p @ [ledger_job acc (ej_id e) job]\<rparr>) p'"
proof -
  from assms obtain e f k where e: "map_of by_vessel (pj_vessel_ref job) = Some e" and
    "let p1 = p\<lparr>pr_feed := f, pr_ledger_jobs := pr_ledger_jobs p @ [ledger_job acc (ej_id e) job]\<rparr> in
      p' = p1\<lparr>pr_observations := pr_observations p1 @ [observe (ej_id e) JO_MISSING False]\<rparr> \<or>
      pilot_case fromiso sha256 acc subject fp job e k (now + STEP) p1 = Inr p'"
    unfolding pilot_step_def Let_def
    by (simp split: option.splits sum.splits prod.splits if_splits) (blast | metis)+
  then have "accounts_for (ej_id e) (p\<lparr>pr_feed := f, pr_ledger_jobs := pr_ledger_jobs p @ [ledger_job acc (ej_id e) job]\<rparr>) p'"
    unfolding Let_def
    by (auto dest: pilot_case_accounts) (simp add: accounts_for_def observe_def unattended_success_def)
  then have "accounts_for (ej_id e) (p\<lparr>pr_ledger_jobs := pr_ledger_jobs p @ [ledger_job acc (ej_id e) job]\<rparr>) p'"
    by (simp add: accounts_for_def)
  with e show ?thesis by blast
qed

text \<open>Over the whole cohort: one ledger row and one observation per job, both under the identifier of
  the job locked for its vessel.\<close>

definition locked_ids :: "(string \<times> expected_job_row) list \<Rightarrow> pilot_job list \<Rightarrow> string list" where
  "locked_ids by_vessel jobs = map (\<lambda>j. uuid_str (ej_id (the (map_of by_vessel (pj_vessel_ref j))))) jobs"

lemma pilot_steps_account:
  assumes "efold (pilot_step fromiso sha256 acc subject fp now db by_vessel) p jobs = Inr p'"
  shows "map xj_expected_job_id (pr_ledger_jobs p') =
      map xj_expected_job_id (pr_ledger_jobs p) @ locked_ids by_vessel jobs \<and>
    (\<exists>obs. pr_observations p' = pr_observations p @ obs \<and>
      pr_verified_cases p + length (filter unattended_success obs) \<le> pr_verified_cases p')"
  using assms
proof (induction jobs arbitrary: p)
  case Nil
  then show ?case by (simp add: locked_ids_def)
next
  case (Cons job jobs)
  then obtain q where q: "pilot_step fromiso sha256 acc subject fp now db by_vessel p job = Inr q"
    and rest: "efold (pilot_step fromiso sha256 acc subject fp now db by_vessel) q jobs = Inr p'"
    by (auto simp: ebind_Inr)
  from pilot_step_accounts [OF q] obtain e ob where e: "map_of by_vessel (pj_vessel_ref job) = Some e"
    and ledger: "pr_ledger_jobs q = pr_ledger_jobs p @ [ledger_job acc (ej_id e) job]"
    and ob: "pr_observations q = pr_observations p @ [ob]"
    and v: "pr_verified_cases p + (if unattended_success ob then 1 else 0) \<le> pr_verified_cases q"
    by (auto simp: accounts_for_def)
  from Cons.IH [OF rest] obtain obs where
    "map xj_expected_job_id (pr_ledger_jobs p') = map xj_expected_job_id (pr_ledger_jobs q) @ locked_ids by_vessel jobs"
    and obs: "pr_observations p' = pr_observations q @ obs"
      "pr_verified_cases q + length (filter unattended_success obs) \<le> pr_verified_cases p'" by blast
  then have "map xj_expected_job_id (pr_ledger_jobs p') =
      map xj_expected_job_id (pr_ledger_jobs p) @ locked_ids by_vessel (job # jobs)"
    using e by (simp add: ledger locked_ids_def ledger_job_def)
  moreover have "pr_observations p' = pr_observations p @ (ob # obs)" by (simp add: ob obs(1))
  moreover have "pr_verified_cases p + length (filter unattended_success (ob # obs)) \<le> pr_verified_cases p'"
    using v obs(2) by (simp split: if_splits)
  ultimately show ?case by blast
qed

lemma locked_ids_distinct: "distinct (locked_ids by_vessel jobs) \<Longrightarrow> distinct (map pj_vessel_ref jobs)"
  unfolding locked_ids_def distinct_map inj_on_def by metis

section \<open>The verdict on a replay\<close>

lemma replay_not_ready:
  assumes "evaluate_pilot lib (pilot_obs s p isolated recovery correction) d None = Inr a"
  shows "pc_readiness a = NOT_READY"
proof -
  have "list_ex (\<lambda>g. pg_status g = GATE_FAIL) (gates_by_tier a TECHNICAL)"
    unfolding gates_by_tier_def evaluate_pilot_gates(1) [OF assms]
    by (simp add: pilot_gates_def tech_def field_gate_def pilot_obs_def)
  with evaluate_pilot_gates(2) [OF assms] show ?thesis by simp
qed

text \<open>C39: a replay that returns covers a cohort of at least one job with one job per vessel, its ledger
  accounts for every job, it counts at most as many unattended successes as publications confirmed by
  read-back, and its acceptance is never ready, because the latency of a simulated clock is no
  measurement.\<close>

theorem run_pilot_never_ready:
  assumes "run_pilot lib fromiso sha256 feed acc subject fp jobs now db foreign = Inr (feed', r)"
  shows "jobs \<noteq> [] \<and> distinct (map pj_vessel_ref jobs) \<and>
    cs_expected_jobs (pz_completion r) = length jobs \<and>
    cs_correct_on_time_zero_touch (pz_completion r) \<le> pz_verified_cases r \<and>
    pc_readiness (pz_acceptance r) = NOT_READY"
proof -
  from assms obtain feed1 by_vessel p s feed2 ok where
    steps: "efold (pilot_step fromiso sha256 acc subject fp now db by_vessel) (start_progress feed1) jobs = Inr p"
    and s: "summarize_ledger (pr_ledger_jobs p) (pr_observations p) 0 = Inr s"
    and drill: "drill_recovery (pr_feed p) acc by_vessel jobs now = Inr (feed2, ok)"
    and r: "pz_completion r = s" "pz_verified_cases r = pr_verified_cases p"
    and a: "\<exists>isolated c d. evaluate_pilot lib (pilot_obs s p isolated ok c) d None = Inr (pz_acceptance r)"
    unfolding run_pilot_def Let_def ebind_def
    by (simp split: sum.splits prod.splits) (metis pilot_run_result.select_convs)+
  from pilot_steps_account [OF steps] have ids: "map xj_expected_job_id (pr_ledger_jobs p) = locked_ids by_vessel jobs"
    and v: "length (filter unattended_success (pr_observations p)) \<le> pr_verified_cases p"
    by (auto simp: start_progress_def)
  from summarize_ledger_counts [OF s] have "distinct (locked_ids by_vessel jobs)"
    and n: "cs_expected_jobs s = length (pr_ledger_jobs p)"
    and c: "cs_correct_on_time_zero_touch s = length (filter unattended_success (pr_observations p))"
    by (auto simp: accounted_def ids)
  then have "distinct (map pj_vessel_ref jobs)" by (blast intro: locked_ids_distinct)
  moreover have "jobs \<noteq> []" using drill by (auto simp: drill_recovery_def)
  moreover have "length (pr_ledger_jobs p) = length jobs"
    using arg_cong [OF ids, of length] by (simp add: locked_ids_def)
  ultimately show ?thesis using a v n c by (auto simp: r replay_not_ready)
qed


section \<open>A concrete replay\<close>

definition empty_feed :: feed_store where
  "empty_feed = store.extend empty_store (feed_store.fields [] [] [])"

text \<open>The report of the only job is no contract record: the job is missing.\<close>

definition sample_pilot_job :: pilot_job where
  "sample_pilot_job = \<lparr>pj_vessel_ref = ''IMO1'', pj_plan_payload = JObj [], pj_report_payload = JObj [],
    pj_period_start = 0, pj_period_end = 86400000000, pj_due_at = 90000000000,
    pj_corrected_report_payload = None\<rparr>"

definition no_iso :: isoparser where "no_iso s = None"
definition no_hash :: hash where "no_hash s = []"

theorem run_pilot_never_ready_witness:
  "case run_pilot sample_lib no_iso no_hash empty_feed 7 ''svc'' ''fp'' [sample_pilot_job] 5 5 None of
     Inl _ \<Rightarrow> False
   | Inr (_, r) \<Rightarrow> pc_readiness (pz_acceptance r) = NOT_READY \<and> cs_expected_jobs (pz_completion r) = 1"
proof -
  have "case run_pilot sample_lib no_iso no_hash empty_feed 7 ''svc'' ''fp'' [sample_pilot_job] 5 5 None of
      Inl _ \<Rightarrow> False | Inr _ \<Rightarrow> True" by code_simp
  then obtain feed r where r: "run_pilot sample_lib no_iso no_hash empty_feed 7 ''svc'' ''fp'' [sample_pilot_job] 5 5 None = Inr (feed, r)"
    by (auto split: sum.splits)
  from run_pilot_never_ready [OF this] show ?thesis unfolding r by simp
qed

end
