(* ===== verification/DeskSchema.thy ===== *)
theory DeskSchema
  imports Schema Policy Float64
begin

text \<open>
  The tables of the editorial desk (\<open>packages/schema/eastmed_schema/models.py\<close> and \<open>enums.py\<close>) as
  records, gathered in the record \<open>desk\<close>, with the conventions of \<open>Schema\<close>: identifiers come from the
  counter \<open>dk_next\<close>, a table lists its rows in insertion order, a date is its day number. A geography column is its GeoJSON
  value, and the full-text column the database computes is left out. Strings are ASCII, so
  \<open>str.casefold\<close> is lower case.
\<close>

section \<open>Enumerations\<close>

subsection \<open>SourceTier\<close>

datatype source_tier = TIER_A | TIER_B | TIER_C | TIER_D | TIER_E

primrec source_tier_value :: "source_tier \<Rightarrow> string" where
  "source_tier_value TIER_A = ''A''"
| "source_tier_value TIER_B = ''B''"
| "source_tier_value TIER_C = ''C''"
| "source_tier_value TIER_D = ''D''"
| "source_tier_value TIER_E = ''E''"

subsection \<open>SourceType\<close>

datatype source_type = SY_OFFICIAL | SY_CLUB | SY_PRESS | SY_UNION | SY_AGENT | SY_OSINT | SY_COMPETITOR | SY_OTHER

primrec source_type_value :: "source_type \<Rightarrow> string" where
  "source_type_value SY_OFFICIAL = ''official''"
| "source_type_value SY_CLUB = ''club''"
| "source_type_value SY_PRESS = ''press''"
| "source_type_value SY_UNION = ''union''"
| "source_type_value SY_AGENT = ''agent''"
| "source_type_value SY_OSINT = ''osint''"
| "source_type_value SY_COMPETITOR = ''competitor''"
| "source_type_value SY_OTHER = ''other''"

subsection \<open>AccessMethod\<close>

datatype access_method = AX_RSS | AX_WATCH | AX_EMAIL | AX_MANUAL | AX_TELEGRAM

primrec access_method_value :: "access_method \<Rightarrow> string" where
  "access_method_value AX_RSS = ''rss''"
| "access_method_value AX_WATCH = ''watch''"
| "access_method_value AX_EMAIL = ''email''"
| "access_method_value AX_MANUAL = ''manual''"
| "access_method_value AX_TELEGRAM = ''telegram''"

subsection \<open>RightsBasis\<close>

datatype rights_basis = RB_PUBLIC_ADVISORY | RB_LICENSED | RB_ATTRIBUTE_QUOTE_MIN | RB_VERIFY_ONLY_NO_REPUBLISH | RB_DISCOVERY_ONLY

primrec rights_basis_value :: "rights_basis \<Rightarrow> string" where
  "rights_basis_value RB_PUBLIC_ADVISORY = ''public-advisory''"
| "rights_basis_value RB_LICENSED = ''licensed''"
| "rights_basis_value RB_ATTRIBUTE_QUOTE_MIN = ''attribute-quote-min''"
| "rights_basis_value RB_VERIFY_ONLY_NO_REPUBLISH = ''verify-only-no-republish''"
| "rights_basis_value RB_DISCOVERY_ONLY = ''discovery-only''"

subsection \<open>EventType\<close>

datatype event_type = ET_SECURITY_INCIDENT | ET_PORT_DISRUPTION | ET_LABOR_ACTION | ET_REGULATORY_SANCTIONS | ET_WEATHER_HAZARD | ET_INFRASTRUCTURE | ET_INSURANCE_MARKET | ET_NAVIGATION_WARNING

primrec event_type_value :: "event_type \<Rightarrow> string" where
  "event_type_value ET_SECURITY_INCIDENT = ''security_incident''"
| "event_type_value ET_PORT_DISRUPTION = ''port_disruption''"
| "event_type_value ET_LABOR_ACTION = ''labor_action''"
| "event_type_value ET_REGULATORY_SANCTIONS = ''regulatory_sanctions''"
| "event_type_value ET_WEATHER_HAZARD = ''weather_hazard''"
| "event_type_value ET_INFRASTRUCTURE = ''infrastructure''"
| "event_type_value ET_INSURANCE_MARKET = ''insurance_market''"
| "event_type_value ET_NAVIGATION_WARNING = ''navigation_warning''"

subsection \<open>Corridor\<close>

datatype corridor = CO_HORMUZ_GULF | CO_RED_SEA_BEM_SUEZ | CO_EAST_MED | CO_PORT_SPECIFIC

primrec corridor_value :: "corridor \<Rightarrow> string" where
  "corridor_value CO_HORMUZ_GULF = ''hormuz_gulf''"
| "corridor_value CO_RED_SEA_BEM_SUEZ = ''red_sea_bem_suez''"
| "corridor_value CO_EAST_MED = ''east_med''"
| "corridor_value CO_PORT_SPECIFIC = ''port_specific''"

subsection \<open>EventStatus\<close>

datatype event_status = ES_MONITORING | ES_DEVELOPING | ES_STABILIZED | ES_CLOSED

primrec event_status_value :: "event_status \<Rightarrow> string" where
  "event_status_value ES_MONITORING = ''monitoring''"
| "event_status_value ES_DEVELOPING = ''developing''"
| "event_status_value ES_STABILIZED = ''stabilized''"
| "event_status_value ES_CLOSED = ''closed''"

subsection \<open>ClaimState\<close>

datatype claim_state = CL_CONFIRMED | CL_REPORTED | CL_UNVERIFIED | CL_CORROBORATED_2X | CL_SINGLE_OFFICIAL | CL_DISPUTED

primrec claim_state_value :: "claim_state \<Rightarrow> string" where
  "claim_state_value CL_CONFIRMED = ''confirmed''"
| "claim_state_value CL_REPORTED = ''reported''"
| "claim_state_value CL_UNVERIFIED = ''unverified''"
| "claim_state_value CL_CORROBORATED_2X = ''corroborated_2_independent''"
| "claim_state_value CL_SINGLE_OFFICIAL = ''single_source_official''"
| "claim_state_value CL_DISPUTED = ''disputed''"

subsection \<open>Directness\<close>

datatype directness = DI_PRIMARY | DI_SECONDARY

primrec directness_value :: "directness \<Rightarrow> string" where
  "directness_value DI_PRIMARY = ''primary''"
| "directness_value DI_SECONDARY = ''secondary''"

subsection \<open>CorrectionType\<close>

datatype correction_type = CT_UPDATE | CT_CLARIFICATION | CT_CORRECTION

primrec correction_type_value :: "correction_type \<Rightarrow> string" where
  "correction_type_value CT_UPDATE = ''update''"
| "correction_type_value CT_CLARIFICATION = ''clarification''"
| "correction_type_value CT_CORRECTION = ''correction''"

subsection \<open>CorrectionImpact\<close>

datatype correction_impact = CI_NON_OPERATIONAL | CI_OPERATIONALLY_RELEVANT

primrec correction_impact_value :: "correction_impact \<Rightarrow> string" where
  "correction_impact_value CI_NON_OPERATIONAL = ''non_operational''"
| "correction_impact_value CI_OPERATIONALLY_RELEVANT = ''operationally_relevant''"

subsection \<open>AccountTier\<close>

datatype account_tier = ACT_WATCH | ACT_DESK | ACT_DESK_PRO | ACT_DATA

primrec account_tier_value :: "account_tier \<Rightarrow> string" where
  "account_tier_value ACT_WATCH = ''watch''"
| "account_tier_value ACT_DESK = ''desk''"
| "account_tier_value ACT_DESK_PRO = ''desk_pro''"
| "account_tier_value ACT_DATA = ''data''"

subsection \<open>BriefStatus\<close>

datatype brief_status = BST_DRAFT | BST_FINALIZED

primrec brief_status_value :: "brief_status \<Rightarrow> string" where
  "brief_status_value BST_DRAFT = ''draft''"
| "brief_status_value BST_FINALIZED = ''finalized''"

subsection \<open>ClaimExtractionRunStatus\<close>

datatype claim_extraction_run_status = XR_QUEUED | XR_RUNNING | XR_SUCCEEDED | XR_FAILED | XR_SKIPPED

primrec claim_extraction_run_status_value :: "claim_extraction_run_status \<Rightarrow> string" where
  "claim_extraction_run_status_value XR_QUEUED = ''queued''"
| "claim_extraction_run_status_value XR_RUNNING = ''running''"
| "claim_extraction_run_status_value XR_SUCCEEDED = ''succeeded''"
| "claim_extraction_run_status_value XR_FAILED = ''failed''"
| "claim_extraction_run_status_value XR_SKIPPED = ''skipped''"

subsection \<open>ClaimExtractionProposalStatus\<close>

datatype claim_extraction_proposal_status = XP_PENDING | XP_ACCEPTED | XP_EDITED | XP_REJECTED

primrec claim_extraction_proposal_status_value :: "claim_extraction_proposal_status \<Rightarrow> string" where
  "claim_extraction_proposal_status_value XP_PENDING = ''pending''"
| "claim_extraction_proposal_status_value XP_ACCEPTED = ''accepted''"
| "claim_extraction_proposal_status_value XP_EDITED = ''edited''"
| "claim_extraction_proposal_status_value XP_REJECTED = ''rejected''"

subsection \<open>ClaimExtractionDecision\<close>

datatype claim_extraction_decision = XD_ACCEPT | XD_EDIT | XD_REJECT

primrec claim_extraction_decision_value :: "claim_extraction_decision \<Rightarrow> string" where
  "claim_extraction_decision_value XD_ACCEPT = ''accept''"
| "claim_extraction_decision_value XD_EDIT = ''edit''"
| "claim_extraction_decision_value XD_REJECT = ''reject''"

subsection \<open>DeliveryChannel\<close>

datatype delivery_channel = DCH_EMAIL | DCH_TELEGRAM | DCH_WHATSAPP | DCH_PORTAL

primrec delivery_channel_value :: "delivery_channel \<Rightarrow> string" where
  "delivery_channel_value DCH_EMAIL = ''email''"
| "delivery_channel_value DCH_TELEGRAM = ''telegram''"
| "delivery_channel_value DCH_WHATSAPP = ''whatsapp''"
| "delivery_channel_value DCH_PORTAL = ''portal''"

subsection \<open>DeliveryStatus\<close>

datatype delivery_status = DST_QUEUED | DST_SENT | DST_DELIVERED | DST_FAILED

primrec delivery_status_value :: "delivery_status \<Rightarrow> string" where
  "delivery_status_value DST_QUEUED = ''queued''"
| "delivery_status_value DST_SENT = ''sent''"
| "delivery_status_value DST_DELIVERED = ''delivered''"
| "delivery_status_value DST_FAILED = ''failed''"

subsection \<open>DeskAlertKind\<close>

datatype desk_alert_kind = DAK_DEAD_POLLER | DAK_INGEST_FAILURE | DAK_SOURCE_QUARANTINE

primrec desk_alert_kind_value :: "desk_alert_kind \<Rightarrow> string" where
  "desk_alert_kind_value DAK_DEAD_POLLER = ''dead_poller''"
| "desk_alert_kind_value DAK_INGEST_FAILURE = ''ingest_failure''"
| "desk_alert_kind_value DAK_SOURCE_QUARANTINE = ''source_quarantine''"

subsection \<open>DeskAlertStatus\<close>

datatype desk_alert_status = DAS_OPEN | DAS_NOTIFIED | DAS_RESOLVED

primrec desk_alert_status_value :: "desk_alert_status \<Rightarrow> string" where
  "desk_alert_status_value DAS_OPEN = ''open''"
| "desk_alert_status_value DAS_NOTIFIED = ''notified''"
| "desk_alert_status_value DAS_RESOLVED = ''resolved''"

subsection \<open>LineageProposalStatus\<close>

datatype lineage_proposal_status = LP_PENDING | LP_ACCEPTED | LP_REJECTED | LP_SUPERSEDED

primrec lineage_proposal_status_value :: "lineage_proposal_status \<Rightarrow> string" where
  "lineage_proposal_status_value LP_PENDING = ''pending''"
| "lineage_proposal_status_value LP_ACCEPTED = ''accepted''"
| "lineage_proposal_status_value LP_REJECTED = ''rejected''"
| "lineage_proposal_status_value LP_SUPERSEDED = ''superseded''"

subsection \<open>LineageReviewDecision\<close>

datatype lineage_review_decision = LD_ACCEPT | LD_REJECT

primrec lineage_review_decision_value :: "lineage_review_decision \<Rightarrow> string" where
  "lineage_review_decision_value LD_ACCEPT = ''accept''"
| "lineage_review_decision_value LD_REJECT = ''reject''"

subsection \<open>TriageStatus\<close>

datatype triage_status = TR_PENDING | TR_ATTACHED | TR_NEW_EVENT | TR_DISMISSED

primrec triage_status_value :: "triage_status \<Rightarrow> string" where
  "triage_status_value TR_PENDING = ''pending''"
| "triage_status_value TR_ATTACHED = ''attached''"
| "triage_status_value TR_NEW_EVENT = ''new_event''"
| "triage_status_value TR_DISMISSED = ''dismissed''"

subsection \<open>TriageAction\<close>

datatype triage_action = TA_ATTACH | TA_NEW_EVENT | TA_DISMISS

primrec triage_action_value :: "triage_action \<Rightarrow> string" where
  "triage_action_value TA_ATTACH = ''attach''"
| "triage_action_value TA_NEW_EVENT = ''new_event''"
| "triage_action_value TA_DISMISS = ''dismiss''"

subsection \<open>DeskRole\<close>

datatype desk_role = DR_ANALYST | DR_SENIOR_ANALYST | DR_ADMINISTRATOR | DR_SECURITY | DR_COMPLIANCE | DR_SERVICE

primrec desk_role_value :: "desk_role \<Rightarrow> string" where
  "desk_role_value DR_ANALYST = ''analyst''"
| "desk_role_value DR_SENIOR_ANALYST = ''senior_analyst''"
| "desk_role_value DR_ADMINISTRATOR = ''administrator''"
| "desk_role_value DR_SECURITY = ''security''"
| "desk_role_value DR_COMPLIANCE = ''compliance''"
| "desk_role_value DR_SERVICE = ''service''"

subsection \<open>AuthAssurance\<close>

datatype auth_assurance = AU_PASSWORD | AU_MFA | AU_PHISHING_RESISTANT | AU_SERVICE

primrec auth_assurance_value :: "auth_assurance \<Rightarrow> string" where
  "auth_assurance_value AU_PASSWORD = ''password''"
| "auth_assurance_value AU_MFA = ''mfa''"
| "auth_assurance_value AU_PHISHING_RESISTANT = ''phishing_resistant''"
| "auth_assurance_value AU_SERVICE = ''service''"

subsection \<open>AICapabilityMode\<close>

datatype ai_capability_mode = AM_DISABLED | AM_SHADOW | AM_ASSISTED | AM_AUTOMATED

primrec ai_capability_mode_value :: "ai_capability_mode \<Rightarrow> string" where
  "ai_capability_mode_value AM_DISABLED = ''disabled''"
| "ai_capability_mode_value AM_SHADOW = ''shadow''"
| "ai_capability_mode_value AM_ASSISTED = ''assisted''"
| "ai_capability_mode_value AM_AUTOMATED = ''automated''"

section \<open>Rows\<close>

record source_row =
  src_id :: uid
  src_name :: string
  src_legal_entity :: "string option"
  src_source_type :: source_type
  src_tier :: source_tier
  src_language :: string
  src_country :: "string option"
  src_access_method :: access_method
  src_feed_url :: "string option"
  src_inbound_mailbox_hash :: "string option"
  src_rights_basis :: rights_basis
  src_rights_notes :: "string option"
  src_rights_reviewed_by :: "string option"
  src_automation_approved_at :: "instant option"
  src_model_processing_approved_at :: "instant option"
  src_model_processing_approved_by :: "string option"
  src_syndicates_from_id :: "uid option"
  src_state_affiliation :: "string option"
  src_notes :: "string option"
  src_last_reviewed_at :: "instant option"
  src_active :: bool
  src_etag :: "string option"
  src_last_modified :: "string option"
  src_last_successful_poll_at :: "instant option"
  src_last_poll_started_at :: "instant option"
  src_next_poll_at :: "instant option"
  src_poll_interval_seconds :: int
  src_consecutive_failures :: int
  src_last_poll_error :: "string option"

record source_record_row =
  rec_id :: uid
  rec_source_id :: uid
  rec_url :: string
  rec_canonical_url :: string
  rec_content_hash :: string
  rec_raw_ref_r2 :: "string option"
  rec_extracted_text :: string
  rec_title :: "string option"
  rec_author :: "string option"
  rec_lang :: "string option"
  rec_published_at :: "instant option"
  rec_modified_at :: "instant option"
  rec_fetched_at :: instant
  rec_parser_version :: string
  rec_security_scan :: "(string \<times> json) list"

record triage_item_row =
  tri_id :: uid
  tri_source_record_id :: uid
  tri_status :: triage_status
  tri_detected_corridors :: "string list"
  tri_detected_ports :: "(string \<times> json) list list"
  tri_suggested_event_types :: "string list"
  tri_assigned_event_id :: "uid option"
  tri_created_at :: instant
  tri_reviewed_at :: "instant option"
  tri_reviewed_by :: "string option"
  tri_dismissal_reason :: "string option"

record triage_decision_row =
  trd_id :: uid
  trd_triage_item_id :: uid
  trd_action :: triage_action
  trd_reviewer :: string
  trd_reason :: "string option"
  trd_event_id :: "uid option"
  trd_payload_json :: "(string \<times> json) list"
  trd_at :: instant

record lineage_proposal_row =
  lpr_id :: uid
  lpr_proposal_key :: string
  lpr_subject_record_id :: uid
  lpr_candidate_record_id :: "uid option"
  lpr_proposed_origin_source_id :: "uid option"
  lpr_proposed_origin_name :: "string option"
  lpr_score :: float64
  lpr_signals_json :: "(string \<times> json) list"
  lpr_status :: lineage_proposal_status
  lpr_component_version :: string
  lpr_created_at :: instant

record lineage_review_row =
  lrv_id :: uid
  lrv_proposal_id :: uid
  lrv_decision :: lineage_review_decision
  lrv_reviewer :: string
  lrv_reason :: "string option"
  lrv_reviewed_at :: instant

record record_lineage_row =
  srl_source_record_id :: uid
  srl_lineage_root_id :: uid
  srl_proposal_id :: "uid option"
  srl_assigned_by :: string
  srl_assigned_at :: instant

record event_row =
  evn_id :: uid
  evn_slug :: string
  evn_event_type :: event_type
  evn_corridor :: corridor
  evn_geo :: "json option"
  evn_geo_precision :: "string option"
  evn_status :: event_status
  evn_severity :: int
  evn_occurred_start :: "instant option"
  evn_occurred_end :: "instant option"
  evn_created_at :: instant
  evn_closed_at :: "instant option"

record event_version_row =
  evv_id :: uid
  evv_event_id :: uid
  evv_version_no :: int
  evv_title :: string
  evv_summary_confirmed :: string
  evv_summary_reported :: string
  evv_summary_unknown :: string
  evv_whats_changed :: string
  evv_sentence_claim_map :: "(string \<times> string list) list"
  evv_event_snapshot_json :: "(string \<times> json) list"
  evv_claim_snapshot_json :: "(string \<times> json) list list"
  evv_evidence_snapshot_json :: "(string \<times> json) list list"
  evv_published_at :: instant
  evv_published_by :: string
  evv_signed_off_by :: "string option"
  evv_publication_approval_id :: "uid option"
  evv_policy_version :: string
  evv_model_versions :: "(string \<times> string) list"
  evv_content_hash :: string

record claim_row =
  clm_id :: uid
  clm_event_id :: uid
  clm_text :: string
  clm_claimant :: "string option"
  clm_claim_state :: claim_state
  clm_occurred_at :: "instant option"
  clm_geo :: "json option"
  clm_quantity_json :: "(string \<times> json) list list"
  clm_proposed_by :: string
  clm_reviewed_by :: "string option"
  clm_second_reviewed_by :: "string option"
  clm_second_review_approval_id :: "uid option"
  clm_reviewed_at :: "instant option"
  clm_sensitivity_flags :: "string list"
  clm_first_seen_at :: instant

record extraction_run_row =
  exr_id :: uid
  exr_source_record_id :: uid
  exr_prompt_version :: string
  exr_model_version :: string
  exr_language :: string
  exr_mode :: string
  exr_status :: claim_extraction_run_status
  exr_started_at :: instant
  exr_finished_at :: "instant option"
  exr_request_hash :: string
  exr_response_hash :: "string option"
  exr_input_tokens :: "int option"
  exr_output_tokens :: "int option"
  exr_document_char_count :: int
  exr_processed_char_count :: int
  exr_segment_count :: int
  exr_segment_manifest_json :: "(string \<times> json) list list"
  exr_coverage_complete :: bool
  exr_injection_suspected :: bool
  exr_error_type :: "string option"
  exr_error_message :: "string option"

record extraction_proposal_row =
  exp_id :: uid
  exp_run_id :: uid
  exp_source_record_id :: uid
  exp_proposal_index :: int
  exp_text :: string
  exp_claimant :: "string option"
  exp_occurred_time :: "instant option"
  exp_location_json :: "(string \<times> json) list option"
  exp_quantities_json :: "(string \<times> json) list list"
  exp_hedging_language :: bool
  exp_source_sentence_quote :: string
  exp_source_start :: int
  exp_source_end :: int
  exp_segment_index :: int
  exp_status :: claim_extraction_proposal_status

record extraction_review_row =
  exv_id :: uid
  exv_proposal_id :: uid
  exv_decision :: claim_extraction_decision
  exv_event_id :: "uid option"
  exv_reviewer :: string
  exv_claim_state :: "claim_state option"
  exv_final_claim_json :: "(string \<times> json) list option"
  exv_reason_codes :: "string list"
  exv_note :: "string option"
  exv_baseline_seconds :: int
  exv_review_seconds :: int
  exv_mode :: string
  exv_resulting_claim_id :: "uid option"
  exv_reviewed_at :: instant

record extraction_qa_row =
  exq_id :: uid
  exq_review_id :: uid
  exq_evaluator :: string
  exq_error_found :: bool
  exq_error_codes :: "string list"
  exq_note :: "string option"
  exq_evaluated_at :: instant

record lineage_root_row =
  lrt_id :: uid
  lrt_description :: string
  lrt_origin_source_id :: "uid option"
  lrt_origin_url :: "string option"
  lrt_first_seen_at :: instant

record evidence_row =
  evd_id :: uid
  evd_source_record_id :: uid
  evd_claim_id :: uid
  evd_directness :: directness
  evd_lineage_root_id :: uid
  evd_excerpt :: "string option"
  evd_capture_snapshot_r2 :: "string option"
  evd_rights_decision :: "(string \<times> json) list"

record correction_row =
  cor_id :: uid
  cor_event_id :: uid
  cor_version_from_id :: "uid option"
  cor_version_to_id :: "uid option"
  cor_version_from :: int
  cor_version_to :: int
  cor_correction_type :: correction_type
  cor_note :: string
  cor_propagated_channels_json :: "(string \<times> json) list"
  cor_impact :: "correction_impact option"
  cor_root_cause :: "string option"
  cor_corrective_action :: "string option"
  cor_drafted_by :: "string option"
  cor_signed_off_by :: "string option"
  cor_correction_approval_id :: "uid option"
  cor_preview_hash :: "string option"
  cor_propagation_deadline_at :: "instant option"
  cor_detected_at :: instant
  cor_issued_at :: "instant option"
  cor_issued_by :: string

record correction_delivery_row =
  cod_id :: uid
  cod_correction_id :: uid
  cod_account_id :: uid
  cod_user_id :: uid
  cod_channel :: delivery_channel
  cod_recipient :: string
  cod_status :: delivery_status
  cod_queued_at :: instant
  cod_sent_at :: "instant option"
  cod_delivered_at :: "instant option"
  cod_attempt_count :: int
  cod_last_attempt_at :: "instant option"
  cod_next_attempt_at :: "instant option"
  cod_last_error :: "string option"
  cod_provider_ref :: "string option"
  cod_message_snapshot_json :: "(string \<times> json) list"
  cod_updated_at :: instant

record alert_row =
  alr_id :: uid
  alr_event_version_id :: uid
  alr_severity :: int
  alr_created_at :: instant
  alr_released_by :: string
  alr_channels_json :: "string list"
  alr_audience_snapshot_json :: "(string \<times> json) list"
  alr_message_json :: "(string \<times> json) list"

record delivery_row =
  dlv_id :: uid
  dlv_alert_id :: uid
  dlv_account_id :: uid
  dlv_user_id :: uid
  dlv_channel :: delivery_channel
  dlv_recipient :: string
  dlv_sent_at :: "instant option"
  dlv_delivered_at :: "instant option"
  dlv_status :: delivery_status
  dlv_queued_at :: instant
  dlv_attempt_count :: int
  dlv_last_attempt_at :: "instant option"
  dlv_next_attempt_at :: "instant option"
  dlv_last_error :: "string option"
  dlv_provider_ref :: "string option"
  dlv_updated_at :: instant

record audit_row =
  aud_id :: uid
  aud_actor :: string
  aud_action :: string
  aud_entity :: string
  aud_entity_id :: "uid option"
  aud_payload_json :: "(string \<times> json) list"
  aud_at :: instant

record desk_user_row =
  dus_id :: uid
  dus_auth_issuer :: string
  dus_auth_subject :: string
  dus_email :: string
  dus_display_name :: string
  dus_role :: desk_role
  dus_active :: bool
  dus_created_by :: string

record desk_approval_row =
  dap_id :: uid
  dap_approval_type :: string
  dap_target_id :: uid
  dap_binding_hash :: string
  dap_binding_payload_json :: "(string \<times> json) list"
  dap_primary_user_id :: uid
  dap_approved_by_user_id :: uid
  dap_auth_assurance :: auth_assurance
  dap_reason :: string
  dap_approved_at :: instant
  dap_expires_at :: instant

record approval_request_row =
  dar_id :: uid
  dar_request_type :: string
  dar_target_id :: uid
  dar_request_hash :: string
  dar_request_payload_json :: "(string \<times> json) list"
  dar_primary_user_id :: uid
  dar_status :: string
  dar_request_reason :: string
  dar_requested_at :: instant
  dar_expires_at :: instant
  dar_decided_at :: "instant option"
  dar_decided_by_user_id :: "uid option"
  dar_decision_reason :: "string option"
  dar_approval_id :: "uid option"

record ai_system_row =
  ais_id :: uid
  ais_name :: string
  ais_purpose :: string
  ais_manifest_schema_version :: string
  ais_manifest_json :: "(string \<times> json) list"
  ais_fingerprint :: string
  ais_created_by_user_id :: uid
  ais_created_at :: instant

record ai_control_row =
  aic_id :: uid
  aic_scope :: string
  aic_revision :: int
  aic_mode :: ai_capability_mode
  aic_risk_tier :: int
  aic_system_version_id :: "uid option"
  aic_reason :: string
  aic_approval_refs_json :: "(string \<times> string) list"
  aic_changed_by_user_id :: uid
  aic_auth_assurance :: auth_assurance
  aic_previous_control_id :: "uid option"
  aic_expires_at :: "instant option"
  aic_changed_at :: instant

record ai_incident_row =
  inc_id :: uid
  inc_title :: string
  inc_capability_scope :: string
  inc_system_version_id :: "uid option"
  inc_detected_at :: instant
  inc_reported_by_user_id :: uid
  inc_created_at :: instant

record ai_incident_event_row =
  ine_id :: uid
  ine_incident_id :: uid
  ine_sequence :: int
  ine_status :: string
  ine_severity :: string
  ine_summary :: string
  ine_containment_action :: "string option"
  ine_evidence_refs_json :: "string list"
  ine_changed_by_user_id :: uid
  ine_auth_assurance :: auth_assurance
  ine_at :: instant

record evaluation_row =
  pev_id :: uid
  pev_component :: string
  pev_component_version :: string
  pev_language :: string
  pev_metric_name :: string
  pev_metric_value :: float64
  pev_sample_size :: int
  pev_evaluated_at :: instant
  pev_graduated :: bool

record embedding_row =
  emb_id :: uid
  emb_source_record_id :: uid
  emb_model_version :: string
  emb_embedding :: "float64 list"
  emb_created_at :: instant

record desk_alert_row =
  dal_id :: uid
  dal_source_id :: "uid option"
  dal_kind :: desk_alert_kind
  dal_status :: desk_alert_status
  dal_detected_at :: instant
  dal_notified_at :: "instant option"
  dal_resolved_at :: "instant option"
  dal_detail :: "(string \<times> json) list"
  dal_notification_error :: "string option"

record account_row =
  acc_id :: uid
  acc_company :: string
  acc_tier :: account_tier
  acc_contract_start :: int
  acc_contract_end :: int
  acc_billing_ref :: "string option"

record api_key_row =
  aky_id :: uid
  aky_account_id :: uid
  aky_name :: string
  aky_key_prefix :: string
  aky_secret_hash :: string
  aky_scopes_json :: "string list"
  aky_created_at :: instant
  aky_created_by :: string
  aky_expires_at :: "instant option"
  aky_last_used_at :: "instant option"
  aky_revoked_at :: "instant option"
  aky_revoked_by :: "string option"

record user_row =
  usr_id :: uid
  usr_account_id :: uid
  usr_email :: string
  usr_phone :: "string option"
  usr_channels_json :: "(string \<times> json) list"
  usr_role :: string
  usr_auth_subject :: "string option"
  usr_active :: bool
  usr_portal_enabled :: bool

record watch_profile_row =
  wpr_id :: uid
  wpr_account_id :: uid
  wpr_name :: string
  wpr_corridors :: "string list"
  wpr_event_types :: "string list"
  wpr_min_severity :: int
  wpr_ports :: "string list"
  wpr_custom_geo :: "json option"
  wpr_active :: bool
  wpr_configured_by :: "string option"
  wpr_configured_with_customer_at :: "instant option"

record knowledge_report_row =
  skr_id :: uid
  skr_event_id :: uid
  skr_event_version_id :: uid
  skr_account_id :: "uid option"
  skr_requested_timestamp :: instant
  skr_requested_by :: string
  skr_generated_at :: instant
  skr_version_content_hash :: string
  skr_snapshot_json :: "(string \<times> json) list"
  skr_content_hash :: string

record ttv_row =
  ttv_id :: uid
  ttv_event_id :: uid
  ttv_first_credible_signal_at :: instant
  ttv_signal_source_record_id :: "uid option"
  ttv_holding_line_at :: "instant option"
  ttv_verified_update_at :: "instant option"
  ttv_coverage_window :: bool
  ttv_notes :: "string option"
  ttv_created_by :: "string option"
  ttv_updated_by :: "string option"
  ttv_created_at :: "instant option"
  ttv_updated_at :: "instant option"

record brief_row =
  brf_id :: uid
  brf_brief_date :: int
  brf_title :: string
  brf_introduction :: string
  brf_forward_watch :: string
  brf_status :: brief_status
  brf_items_json :: "(string \<times> json) list list"
  brf_source_version_ids :: "string list"
  brf_corrections_json :: "(string \<times> json) list list"
  brf_compiled_at :: instant
  brf_compiled_by :: string
  brf_finalized_at :: "instant option"
  brf_finalized_by :: "string option"
  brf_content_hash :: string

section \<open>The store\<close>

record desk =
  dk_next :: uid
  dk_sources :: "source_row list"
  dk_records :: "source_record_row list"
  dk_triage :: "triage_item_row list"
  dk_triage_decisions :: "triage_decision_row list"
  dk_lineage_proposals :: "lineage_proposal_row list"
  dk_lineage_reviews :: "lineage_review_row list"
  dk_record_lineage :: "record_lineage_row list"
  dk_events :: "event_row list"
  dk_versions :: "event_version_row list"
  dk_claims :: "claim_row list"
  dk_extraction_runs :: "extraction_run_row list"
  dk_extraction_proposals :: "extraction_proposal_row list"
  dk_extraction_reviews :: "extraction_review_row list"
  dk_extraction_qa :: "extraction_qa_row list"
  dk_lineage_roots :: "lineage_root_row list"
  dk_evidence :: "evidence_row list"
  dk_corrections :: "correction_row list"
  dk_correction_deliveries :: "correction_delivery_row list"
  dk_alerts :: "alert_row list"
  dk_deliveries :: "delivery_row list"
  dk_audit :: "audit_row list"
  dk_users :: "desk_user_row list"
  dk_approvals :: "desk_approval_row list"
  dk_requests :: "approval_request_row list"
  dk_ai_systems :: "ai_system_row list"
  dk_ai_controls :: "ai_control_row list"
  dk_ai_incidents :: "ai_incident_row list"
  dk_ai_incident_events :: "ai_incident_event_row list"
  dk_evaluations :: "evaluation_row list"
  dk_embeddings :: "embedding_row list"
  dk_desk_alerts :: "desk_alert_row list"
  dk_accounts :: "account_row list"
  dk_api_keys :: "api_key_row list"
  dk_account_users :: "user_row list"
  dk_watch_profiles :: "watch_profile_row list"
  dk_knowledge_reports :: "knowledge_report_row list"
  dk_ttv :: "ttv_row list"
  dk_briefs :: "brief_row list"
  dk_version_claims :: "(uid \<times> uid) list"
  dk_version_evidence :: "(uid \<times> uid) list"

text \<open>\<open>session.get\<close> of an optional identifier.\<close>

definition get_opt :: "('r \<Rightarrow> uid) \<Rightarrow> uid option \<Rightarrow> 'r list \<Rightarrow> 'r option" where
  "get_opt key i rows = Option.bind i (\<lambda>k. row_get key k rows)"

text \<open>The row with the greatest key (\<open>ORDER BY key DESC LIMIT 1\<close> on a unique key).\<close>

definition max_row :: "('r \<Rightarrow> 'k::linorder) \<Rightarrow> 'r list \<Rightarrow> 'r option" where
  "max_row f rows = (case rows of [] \<Rightarrow> None | _ \<Rightarrow> find (\<lambda>r. f r = Max (f ` set rows)) rows)"

lemma max_row_in: "max_row f rows = Some r \<Longrightarrow> r \<in> set rows"
  by (cases rows) (auto simp: max_row_def find_Some_iff in_set_conv_nth split: if_splits)

lemma max_row_greatest: "max_row f rows = Some r \<Longrightarrow> q \<in> set rows \<Longrightarrow> f q \<le> f r"
proof -
  assume r: "max_row f rows = Some r" and q: "q \<in> set rows"
  from r have "f r = Max (f ` set rows)" by (cases rows) (auto simp: max_row_def find_Some_iff split: if_splits)
  with q show ?thesis by simp
qed

lemma max_row_None: "max_row f rows = None \<longleftrightarrow> rows = []"
proof (cases rows)
  case (Cons r rs)
  then have "Max (f ` set rows) \<in> f ` set rows" by (intro Max_in) auto
  then have "find (\<lambda>r. f r = Max (f ` set rows)) rows \<noteq> None" by (auto simp: find_None_iff)
  with Cons show ?thesis by (simp add: max_row_def)
qed (simp add: max_row_def)

section \<open>Values\<close>

definition casefold :: "string \<Rightarrow> string" where "casefold s = map to_lower s"

definition starts_with :: "string \<Rightarrow> string \<Rightarrow> bool" where
  "starts_with p s \<longleftrightarrow> take (length p) s = p"

definition to_upper :: "char \<Rightarrow> char" where
  "to_upper c = (let n = (of_char c :: nat) in if 97 \<le> n \<and> n \<le> 122 then char_of (n - 32) else c)"

definition upper :: "string \<Rightarrow> string" where "upper s = map to_upper s"

text \<open>A \<open>model:\<close> actor, which no human decision may name.\<close>

definition is_model :: "string \<Rightarrow> bool" where
  "is_model actor \<longleftrightarrow> starts_with ''model:'' (casefold actor)"

text \<open>Truth of an optional string and of a JSON value.\<close>

definition truthy :: "string option \<Rightarrow> bool" where
  "truthy s \<longleftrightarrow> (case s of None \<Rightarrow> False | Some t \<Rightarrow> t \<noteq> [])"

lemma truthy_simps [simp]: "truthy None = False" "truthy (Some t) = (t \<noteq> [])"
  by (simp_all add: truthy_def)

definition json_true :: "json \<Rightarrow> bool" where
  "json_true v = (case v of JNull \<Rightarrow> False | JBool b \<Rightarrow> b | JInt i \<Rightarrow> i \<noteq> 0 | JFloat t \<Rightarrow> t \<noteq> ''0.0'' \<and> t \<noteq> ''-0.0''
    | JStr s \<Rightarrow> s \<noteq> [] | JList xs \<Rightarrow> xs \<noteq> [] | JObj kvs \<Rightarrow> kvs \<noteq> [])"

definition j_opt :: "('a \<Rightarrow> json) \<Rightarrow> 'a option \<Rightarrow> json" where
  "j_opt f x = (case x of None \<Rightarrow> JNull | Some v \<Rightarrow> f v)"

definition j_uid :: "uid \<Rightarrow> json" where "j_uid u = JStr (uuid_str u)"
definition j_time :: "instant \<Rightarrow> json" where "j_time t = JStr (isoformat t)"
definition j_strs :: "string list \<Rightarrow> json" where "j_strs xs = JList (map JStr xs)"
definition j_objs :: "(string \<times> json) list list \<Rightarrow> json" where "j_objs xs = JList (map JObj xs)"

text \<open>\<open>list(dict.fromkeys(xs))\<close>: duplicates dropped, first occurrences kept.\<close>

definition dedup :: "'a list \<Rightarrow> 'a list" where "dedup xs = rev (remdups (rev xs))"

lemma set_dedup [simp]: "set (dedup xs) = set xs"
  by (simp add: dedup_def)

lemma dedup_Nil_iff [simp]: "dedup xs = [] \<longleftrightarrow> xs = []"
  by (simp add: dedup_def)

section \<open>Errors and actors\<close>

text \<open>One constructor per exception class of the desk services.\<close>

datatype desk_error =
    LookupFailed string
  | WorkflowFailed string
  | AuthorizationFailed string
  | PolicyFailed string
  | CorrectionFailed string
  | GovernanceFailed string
  | WorkspaceFailed string
  | TriageFailed string
  | LineageFailed string
  | RightsFailed string
  | ContractFailed string
  | DeskIntegrityError

record desk_principal =
  dp_user_id :: uid
  dp_issuer :: string
  dp_subject :: string
  dp_email :: string
  dp_display_name :: string
  dp_role :: desk_role
  dp_assurance :: auth_assurance

definition desk_actor :: "uid \<Rightarrow> string" where
  "desk_actor user_id = ''desk:'' @ uuid_str user_id"

definition principal_actor :: "desk_principal \<Rightarrow> string" where
  "principal_actor p = ''desk:'' @ uuid_str (dp_user_id p)"

lemma principal_actor: "principal_actor p = desk_actor (dp_user_id p)"
  by (simp add: principal_actor_def desk_actor_def)

text \<open>A row of the audit log is appended by every operation of the desk.\<close>

definition audit_entry ::
  "uid \<Rightarrow> string \<Rightarrow> string \<Rightarrow> string \<Rightarrow> uid option \<Rightarrow> (string \<times> json) list \<Rightarrow> instant \<Rightarrow> audit_row" where
  "audit_entry i actor action entity entity_id payload db_now =
    \<lparr>aud_id = i, aud_actor = actor, aud_action = action, aud_entity = entity, aud_entity_id = entity_id,
     aud_payload_json = payload, aud_at = db_now\<rparr>"

definition log_audit ::
  "desk \<Rightarrow> string \<Rightarrow> string \<Rightarrow> string \<Rightarrow> uid \<Rightarrow> (string \<times> json) list \<Rightarrow> instant \<Rightarrow> desk" where
  "log_audit dk actor action entity entity_id payload db_now =
    dk\<lparr>dk_audit := dk_audit dk @ [audit_entry (dk_next dk) actor action entity (Some entity_id) payload db_now],
       dk_next := dk_next dk + 1\<rparr>"

text \<open>An entry about no single entity.\<close>

definition log_batch :: "desk \<Rightarrow> string \<Rightarrow> string \<Rightarrow> string \<Rightarrow> (string \<times> json) list \<Rightarrow> instant \<Rightarrow> desk" where
  "log_batch dk actor action entity payload db_now =
    dk\<lparr>dk_audit := dk_audit dk @ [audit_entry (dk_next dk) actor action entity None payload db_now],
       dk_next := dk_next dk + 1\<rparr>"

end
