(* ===== verification/DeskContracts.thy ===== *)
theory DeskContracts
  imports DeskSchema
begin

text \<open>
  The request and response models of the publication and correction workflows
  (\<open>apps/api/eastmed_api/contracts.py\<close>): data as records, and the declared constraints as
  validators that return the normalised value or the name of the model that refused it. How the
  validation library writes and reads a timestamp is the parameter \<open>datetime_codec\<close>.
\<close>

record datetime_codec =
  dtc_dump :: "pydatetime \<Rightarrow> string"
  dtc_load :: "string \<Rightarrow> pydatetime option"

definition length_within :: "nat \<Rightarrow> nat \<Rightarrow> string \<Rightarrow> bool" where
  "length_within lo hi s \<longleftrightarrow> lo \<le> length s \<and> length s \<le> hi"

section \<open>Publication drafts\<close>

datatype pub_section = SEC_CONFIRMED | SEC_REPORTED | SEC_UNKNOWN | SEC_CHANGED

primrec pub_section_value :: "pub_section \<Rightarrow> string" where
  "pub_section_value SEC_CONFIRMED = ''confirmed''"
| "pub_section_value SEC_REPORTED = ''reported''"
| "pub_section_value SEC_UNKNOWN = ''unknown''"
| "pub_section_value SEC_CHANGED = ''changed''"

definition pub_sections :: "pub_section list" where
  "pub_sections = [SEC_CONFIRMED, SEC_REPORTED, SEC_UNKNOWN, SEC_CHANGED]"

interpretation section_enum: str_enum pub_sections pub_section_value
  by unfold_locales (simp add: pub_sections_def, case_tac e, simp_all add: pub_sections_def)

record publication_sentence =
  pse_section :: pub_section
  pse_text :: string
  pse_claim_ids :: "uid list"

record event_content =
  ec_title :: string
  ec_sentences :: "publication_sentence list"
  ec_evidence_ids :: "uid list"
  ec_policy_version :: string
  ec_model_versions :: "(string \<times> string) list"

record event_draft =
  edr_content :: event_content
  edr_published_by :: string
  edr_signed_off_by :: "string option"

record event_create =
  evc_draft :: event_draft
  evc_preview_hash :: string

text \<open>The length of the text is checked before it is stripped.\<close>

definition has_line_break :: "string \<Rightarrow> bool" where
  "has_line_break s \<longleftrightarrow> CHR 0x0A \<in> set s \<or> CHR 0x0D \<in> set s"

definition validate_sentence :: "publication_sentence \<Rightarrow> desk_error + publication_sentence" where
  "validate_sentence s =
    (let text = py_strip (pse_text s) in
     if length_within 1 5000 (pse_text s) \<and> pse_claim_ids s \<noteq> [] \<and> length (pse_claim_ids s) \<le> 50
       \<and> \<not> has_line_break text
     then Inr (s\<lparr>pse_text := text\<rparr>) else Inl (ContractFailed ''PublicationSentence''))"

definition validate_event_content :: "event_content \<Rightarrow> desk_error + event_content" where
  "validate_event_content c =
    (if length_within 3 500 (ec_title c) \<and> ec_sentences c \<noteq> [] \<and> length (ec_sentences c) \<le> 200
       \<and> length (ec_evidence_ids c) \<le> 1000 \<and> length (ec_policy_version c) \<le> 64
     then ebind (efold (\<lambda>ss s. ebind (validate_sentence s) (\<lambda>t. Inr (ss @ [t]))) [] (ec_sentences c)) (\<lambda>sentences.
       if distinct (ec_evidence_ids c) \<and> list_all (\<lambda>s. distinct (pse_claim_ids s)) sentences
       then Inr (c\<lparr>ec_sentences := sentences\<rparr>)
       else Inl (ContractFailed ''EventVersionContentDraft''))
     else Inl (ContractFailed ''EventVersionContentDraft''))"

text \<open>\<open>EventVersionDraft(**draft.model_dump(), published_by=..., signed_off_by=...)\<close>.\<close>

definition make_event_draft :: "event_content \<Rightarrow> string \<Rightarrow> string option \<Rightarrow> desk_error + event_draft" where
  "make_event_draft c published_by signed_off_by =
    ebind (validate_event_content c) (\<lambda>content.
      if length_within 2 255 published_by \<and> (case signed_off_by of None \<Rightarrow> True | Some s \<Rightarrow> length_within 2 255 s)
      then Inr \<lparr>edr_content = content, edr_published_by = published_by, edr_signed_off_by = signed_off_by\<rparr>
      else Inl (ContractFailed ''EventVersionDraft''))"

section \<open>JSON of a publication draft\<close>

text \<open>\<open>model_dump(mode="json")\<close>, fields in the order of their declaration.\<close>

definition sentence_json :: "publication_sentence \<Rightarrow> json" where
  "sentence_json s = JObj [(''section'', JStr (pub_section_value (pse_section s))), (''text'', JStr (pse_text s)),
     (''claim_ids'', JList (map j_uid (pse_claim_ids s)))]"

definition str_map :: "(string \<times> string) list \<Rightarrow> json" where
  "str_map m = JObj (map (\<lambda>(k, v). (k, JStr v)) m)"

definition event_content_fields :: "event_content \<Rightarrow> (string \<times> json) list" where
  "event_content_fields c =
    [(''title'', JStr (ec_title c)), (''sentences'', JList (map sentence_json (ec_sentences c))),
     (''evidence_ids'', JList (map j_uid (ec_evidence_ids c))),
     (''policy_version'', JStr (ec_policy_version c)), (''model_versions'', str_map (ec_model_versions c))]"

definition event_draft_json :: "event_draft \<Rightarrow> json" where
  "event_draft_json d = JObj (event_content_fields (edr_content d) @
    [(''published_by'', JStr (edr_published_by d)), (''signed_off_by'', j_opt JStr (edr_signed_off_by d))])"

text \<open>\<open>EventVersionContentDraft.model_validate\<close> of the stored dictionary.\<close>

definition str_of_json :: "json \<Rightarrow> string option" where
  "str_of_json v = (case v of JStr s \<Rightarrow> Some s | _ \<Rightarrow> None)"

definition uid_of_json :: "json \<Rightarrow> uid option" where
  "uid_of_json v = Option.bind (str_of_json v) uuid_parse"

fun all_of :: "('a \<Rightarrow> 'b option) \<Rightarrow> 'a list \<Rightarrow> 'b list option" where
  "all_of f [] = Some []"
| "all_of f (x # xs) = (case f x of None \<Rightarrow> None | Some y \<Rightarrow> map_option ((#) y) (all_of f xs))"

definition list_of_json :: "(json \<Rightarrow> 'b option) \<Rightarrow> json \<Rightarrow> 'b list option" where
  "list_of_json f v = (case v of JList xs \<Rightarrow> all_of f xs | _ \<Rightarrow> None)"

definition str_map_of_json :: "json \<Rightarrow> (string \<times> string) list option" where
  "str_map_of_json v = (case v of JObj kvs \<Rightarrow> all_of (\<lambda>(k, w). map_option (Pair k) (str_of_json w)) kvs | _ \<Rightarrow> None)"

definition sentence_of_json :: "json \<Rightarrow> publication_sentence option" where
  "sentence_of_json v =
    (case v of
       JObj kvs \<Rightarrow>
         (case (Option.bind (str_of_json (obj_get kvs ''section'')) (enum_parse pub_sections pub_section_value),
                str_of_json (obj_get kvs ''text''), list_of_json uid_of_json (obj_get kvs ''claim_ids'')) of
            (Some sec, Some text, Some claim_ids) \<Rightarrow>
              Some \<lparr>pse_section = sec, pse_text = text, pse_claim_ids = claim_ids\<rparr>
          | _ \<Rightarrow> None)
     | _ \<Rightarrow> None)"

definition load_event_content :: "(string \<times> json) list \<Rightarrow> desk_error + event_content" where
  "load_event_content kvs =
    (case (str_of_json (obj_get kvs ''title''), list_of_json sentence_of_json (obj_get kvs ''sentences''),
           list_of_json uid_of_json (obj_get kvs ''evidence_ids''),
           str_of_json (obj_get_default kvs ''policy_version'' (JStr ''publication-policy-v1'')),
           str_map_of_json (obj_get_default kvs ''model_versions'' (JObj []))) of
       (Some title, Some sentences, Some evidence_ids, Some policy_version, Some model_versions) \<Rightarrow>
         validate_event_content \<lparr>ec_title = title, ec_sentences = sentences, ec_evidence_ids = evidence_ids,
           ec_policy_version = policy_version, ec_model_versions = model_versions\<rparr>
     | _ \<Rightarrow> Inl (ContractFailed ''EventVersionContentDraft''))"

section \<open>Correction drafts\<close>

definition correction_types :: "correction_type list" where
  "correction_types = [CT_UPDATE, CT_CLARIFICATION, CT_CORRECTION]"

interpretation correction_type_enum: str_enum correction_types correction_type_value
  by unfold_locales (simp add: correction_types_def, case_tac e, simp_all add: correction_types_def)

definition correction_impacts :: "correction_impact list" where
  "correction_impacts = [CI_NON_OPERATIONAL, CI_OPERATIONALLY_RELEVANT]"

interpretation correction_impact_enum: str_enum correction_impacts correction_impact_value
  by unfold_locales (simp add: correction_impacts_def, case_tac e, simp_all add: correction_impacts_def)

record correction_content =
  cc_event_id :: uid
  cc_version_from_id :: uid
  cc_version_to_id :: uid
  cc_correction_type :: correction_type
  cc_impact :: correction_impact
  cc_note :: string
  cc_root_cause :: string
  cc_corrective_action :: string
  cc_detected_at :: pydatetime

record correction_draft =
  cdr_content :: correction_content
  cdr_drafted_by :: string
  cdr_signed_off_by :: string

record correction_issue =
  cis_draft :: correction_draft
  cis_preview_hash :: string

definition validate_correction_content :: "correction_content \<Rightarrow> desk_error + correction_content" where
  "validate_correction_content c =
    (if length_within 1 20000 (cc_note c) \<and> length_within 1 20000 (cc_root_cause c)
       \<and> length_within 1 20000 (cc_corrective_action c)
     then Inr c else Inl (ContractFailed ''CorrectionContentDraft''))"

definition make_correction_draft :: "correction_content \<Rightarrow> string \<Rightarrow> string \<Rightarrow> desk_error + correction_draft" where
  "make_correction_draft c drafted_by signed_off_by =
    ebind (validate_correction_content c) (\<lambda>content.
      if length_within 2 255 drafted_by \<and> length_within 2 255 signed_off_by
      then Inr \<lparr>cdr_content = content, cdr_drafted_by = drafted_by, cdr_signed_off_by = signed_off_by\<rparr>
      else Inl (ContractFailed ''CorrectionDraft''))"

definition correction_content_fields :: "datetime_codec \<Rightarrow> correction_content \<Rightarrow> (string \<times> json) list" where
  "correction_content_fields codec c =
    [(''event_id'', j_uid (cc_event_id c)), (''version_from_id'', j_uid (cc_version_from_id c)),
     (''version_to_id'', j_uid (cc_version_to_id c)),
     (''correction_type'', JStr (correction_type_value (cc_correction_type c))),
     (''impact'', JStr (correction_impact_value (cc_impact c))), (''note'', JStr (cc_note c)),
     (''root_cause'', JStr (cc_root_cause c)), (''corrective_action'', JStr (cc_corrective_action c)),
     (''detected_at'', JStr (dtc_dump codec (cc_detected_at c)))]"

definition correction_draft_json :: "datetime_codec \<Rightarrow> correction_draft \<Rightarrow> json" where
  "correction_draft_json codec d = JObj (correction_content_fields codec (cdr_content d) @
    [(''drafted_by'', JStr (cdr_drafted_by d)), (''signed_off_by'', JStr (cdr_signed_off_by d))])"

definition load_correction_content ::
  "datetime_codec \<Rightarrow> (string \<times> json) list \<Rightarrow> desk_error + correction_content" where
  "load_correction_content codec kvs =
    (case (uid_of_json (obj_get kvs ''event_id''), uid_of_json (obj_get kvs ''version_from_id''),
           uid_of_json (obj_get kvs ''version_to_id''),
           Option.bind (str_of_json (obj_get kvs ''correction_type'')) (enum_parse correction_types correction_type_value),
           Option.bind (str_of_json (obj_get kvs ''impact'')) (enum_parse correction_impacts correction_impact_value),
           str_of_json (obj_get kvs ''note''), str_of_json (obj_get kvs ''root_cause''),
           str_of_json (obj_get kvs ''corrective_action''),
           Option.bind (str_of_json (obj_get kvs ''detected_at'')) (dtc_load codec)) of
       (Some event_id, Some from_id, Some to_id, Some ctype, Some impact, Some note, Some cause, Some action, Some detected) \<Rightarrow>
         validate_correction_content \<lparr>cc_event_id = event_id, cc_version_from_id = from_id, cc_version_to_id = to_id,
           cc_correction_type = ctype, cc_impact = impact, cc_note = note, cc_root_cause = cause,
           cc_corrective_action = action, cc_detected_at = detected\<rparr>
     | _ \<Rightarrow> Inl (ContractFailed ''CorrectionContentDraft''))"

section \<open>Requests and responses of the workflows\<close>

record gate_check =
  gck_key :: string
  gck_label :: string
  gck_passed :: bool
  gck_detail :: string

record field_diff =
  fdf_before :: string
  fdf_after :: string
  fdf_changed :: bool

record version_preview =
  vpr_previous_version_no :: "int option"
  vpr_next_version_no :: int
  vpr_preview_hash :: string
  vpr_ready :: bool
  vpr_checks :: "gate_check list"
  vpr_diff :: "(string \<times> field_diff) list"

definition version_preview_json :: "version_preview \<Rightarrow> json" where
  "version_preview_json p = JObj
    [(''previous_version_no'', j_opt JInt (vpr_previous_version_no p)), (''next_version_no'', JInt (vpr_next_version_no p)),
     (''preview_hash'', JStr (vpr_preview_hash p)), (''ready'', JBool (vpr_ready p)),
     (''checks'', JList (map (\<lambda>c. JObj [(''key'', JStr (gck_key c)), (''label'', JStr (gck_label c)),
        (''passed'', JBool (gck_passed c)), (''detail'', JStr (gck_detail c))]) (vpr_checks p))),
     (''diff'', JObj (map (\<lambda>(k, d). (k, JObj [(''before'', JStr (fdf_before d)), (''after'', JStr (fdf_after d)),
        (''changed'', JBool (fdf_changed d))])) (vpr_diff p)))]"

record event_version_read =
  evr_id :: uid
  evr_event_id :: uid
  evr_version_no :: int
  evr_content_hash :: string
  evr_published_at :: instant
  evr_publication_approval_id :: "uid option"

definition event_version_read_of :: "event_version_row \<Rightarrow> event_version_read" where
  "event_version_read_of v =
    \<lparr>evr_id = evv_id v, evr_event_id = evv_event_id v, evr_version_no = evv_version_no v,
     evr_content_hash = evv_content_hash v, evr_published_at = evv_published_at v,
     evr_publication_approval_id = evv_publication_approval_id v\<rparr>"

record publication_approval_create =
  pac_publisher_user_id :: uid
  pac_draft :: event_content
  pac_reason :: string

record correction_approval_create =
  cac_drafter_user_id :: uid
  cac_draft :: correction_content
  cac_reason :: string

text \<open>The bodies of both kinds of approval request: a draft and a reason.\<close>

record publication_request_create =
  prc_draft :: event_content
  prc_reason :: string

record correction_request_create =
  crc_draft :: correction_content
  crc_reason :: string

datatype approval_choice = CHOICE_APPROVE | CHOICE_REJECT

record decision_create =
  dec_decision :: approval_choice
  dec_reason :: string

end
