(* ===== verification/EventPublication.thy ===== *)
theory EventPublication
  imports DeskContracts "HOL-Library.AList"
begin

text \<open>
  Publication of an event version (\<open>apps/api/eastmed_api/publication.py\<close>) and the binding of a
  second claim review to its content (\<open>approval_bindings.py\<close>). The current time is the argument
  \<open>now\<close>; \<open>db_now\<close> is the time the database writes.
\<close>

section \<open>Content-bound reviews\<close>

definition SECOND_REVIEWER_ROLES :: "desk_role list" where
  "SECOND_REVIEWER_ROLES = [DR_SENIOR_ANALYST, DR_ADMINISTRATOR]"

definition PRIMARY_REVIEWER_ROLES :: "desk_role list" where
  "PRIMARY_REVIEWER_ROLES = [DR_ANALYST, DR_SENIOR_ANALYST, DR_ADMINISTRATOR]"

definition STRONG_ASSURANCE :: "auth_assurance list" where
  "STRONG_ASSURANCE = [AU_MFA, AU_PHISHING_RESISTANT]"

definition CLAIM_SECOND_REVIEW_APPROVAL :: string where
  "CLAIM_SECOND_REVIEW_APPROVAL = ''claim_second_review''"

definition desk_actor_user_id :: "string option \<Rightarrow> uid option" where
  "desk_actor_user_id actor =
    (case actor of None \<Rightarrow> None
     | Some a \<Rightarrow> if starts_with ''desk:'' a then uuid_parse (drop 5 a) else None)"

definition evidence_fields :: "evidence_row \<Rightarrow> (string \<times> json) list" where
  "evidence_fields e =
    [(''directness'', JStr (directness_value (evd_directness e))),
     (''lineage_root_id'', j_uid (evd_lineage_root_id e)), (''excerpt'', j_opt JStr (evd_excerpt e)),
     (''capture_snapshot_r2'', j_opt JStr (evd_capture_snapshot_r2 e)),
     (''rights_decision'', JObj (evd_rights_decision e))]"

definition claim_review_snapshot :: "desk \<Rightarrow> claim_row \<Rightarrow> (string \<times> json) list" where
  "claim_review_snapshot dk c =
    [(''claim_id'', j_uid (clm_id c)), (''event_id'', j_uid (clm_event_id c)), (''text'', JStr (clm_text c)),
     (''claimant'', j_opt JStr (clm_claimant c)), (''claim_state'', JStr (claim_state_value (clm_claim_state c))),
     (''occurred_at'', j_opt j_time (clm_occurred_at c)), (''quantity'', j_objs (clm_quantity_json c)),
     (''proposed_by'', JStr (clm_proposed_by c)), (''reviewed_by'', j_opt JStr (clm_reviewed_by c)),
     (''reviewed_at'', j_opt j_time (clm_reviewed_at c)), (''sensitivity_flags'', j_strs (clm_sensitivity_flags c)),
     (''evidence'', JList (map (\<lambda>e. JObj ([(''id'', j_uid (evd_id e)),
         (''source_record_id'', j_uid (evd_source_record_id e))] @ evidence_fields e))
       (sort_key evd_id (filter (\<lambda>e. evd_claim_id e = clm_id c) (dk_evidence dk)))))]"

definition binding_hash :: "hash \<Rightarrow> (string \<times> json) list \<Rightarrow> string" where
  "binding_hash sha256 payload = sha256 (json_dumps (JObj payload))"

text \<open>An active member of the desk with one of the given roles.\<close>

definition active_with :: "desk_role list \<Rightarrow> desk_user_row option \<Rightarrow> bool" where
  "active_with roles u = (case u of None \<Rightarrow> False | Some x \<Rightarrow> dus_active x \<and> dus_role x \<in> set roles)"

definition claim_second_review_is_valid :: "hash \<Rightarrow> desk \<Rightarrow> instant \<Rightarrow> claim_row \<Rightarrow> bool" where
  "claim_second_review_is_valid sha256 dk now c =
    (case get_opt dap_id (clm_second_review_approval_id c) (dk_approvals dk) of
       None \<Rightarrow> False
     | Some a \<Rightarrow>
        (case (desk_actor_user_id (clm_reviewed_by c), desk_actor_user_id (clm_second_reviewed_by c)) of
           (Some primary_id, Some approver_id) \<Rightarrow>
             if dap_approval_type a \<noteq> CLAIM_SECOND_REVIEW_APPROVAL \<or> dap_target_id a \<noteq> clm_id c
               \<or> dap_primary_user_id a \<noteq> primary_id \<or> dap_approved_by_user_id a \<noteq> approver_id
               \<or> primary_id = approver_id \<or> dap_auth_assurance a \<notin> set STRONG_ASSURANCE
               \<or> dap_expires_at a \<le> now
               \<or> \<not> active_with PRIMARY_REVIEWER_ROLES (row_get dus_id primary_id (dk_users dk))
               \<or> \<not> active_with SECOND_REVIEWER_ROLES (row_get dus_id approver_id (dk_users dk))
             then False
             else dap_binding_hash a = binding_hash sha256 (claim_review_snapshot dk c)
         | _ \<Rightarrow> False))"

section \<open>Publication policy\<close>

record claim_policy_view =
  cpv_id :: uid
  cpv_event_id :: uid
  cpv_state :: claim_state
  cpv_proposed_by :: string
  cpv_reviewed_by :: "string option"
  cpv_second_reviewed_by :: "string option"
  cpv_sensitivity_flags :: "string list"
  cpv_evidence_count :: nat
  cpv_second_review_valid :: bool

definition allowed_by_section :: "pub_section \<Rightarrow> claim_state list" where
  "allowed_by_section s =
    (case s of SEC_CONFIRMED \<Rightarrow> [CL_CONFIRMED, CL_CORROBORATED_2X, CL_SINGLE_OFFICIAL]
     | SEC_REPORTED \<Rightarrow> [CL_REPORTED, CL_DISPUTED]
     | SEC_UNKNOWN \<Rightarrow> [CL_UNVERIFIED, CL_DISPUTED]
     | SEC_CHANGED \<Rightarrow> [CL_CONFIRMED, CL_REPORTED, CL_UNVERIFIED, CL_CORROBORATED_2X, CL_SINGLE_OFFICIAL, CL_DISPUTED])"

definition EVIDENCED_STATES :: "claim_state list" where
  "EVIDENCED_STATES = [CL_CONFIRMED, CL_CORROBORATED_2X, CL_SINGLE_OFFICIAL]"

definition err_if :: "bool \<Rightarrow> string \<Rightarrow> string list" where
  "err_if b s = (if b then [s] else [])"

lemma err_if_Nil [simp]: "err_if b s = [] \<longleftrightarrow> \<not> b"
  by (simp add: err_if_def)

definition same_actor :: "string \<Rightarrow> string \<Rightarrow> bool" where
  "same_actor a b \<longleftrightarrow> casefold a = casefold b"

definition signoff_errors :: "event_row \<Rightarrow> event_draft \<Rightarrow> string list" where
  "signoff_errors e d =
    err_if (is_model (edr_published_by d)) ''A model cannot publish an event version'' @
    err_if (3 \<le> evn_severity e \<and> \<not> truthy (edr_signed_off_by d)) ''Severity 3-4 publications require human sign-off'' @
    err_if (truthy (edr_signed_off_by d) \<and> is_model (the (edr_signed_off_by d))) ''A model cannot sign off a publication'' @
    err_if (truthy (edr_signed_off_by d) \<and> same_actor (the (edr_signed_off_by d)) (edr_published_by d))
      ''Publication sign-off must be performed by a distinct human''"

definition claim_errors :: "event_row \<Rightarrow> pub_section \<Rightarrow> claim_policy_view \<Rightarrow> string list" where
  "claim_errors e sec c =
    (let cid = uuid_str (cpv_id c); sensitive = cpv_sensitivity_flags c \<noteq> [];
         second = cpv_second_reviewed_by c; reviewer = cpv_reviewed_by c in
     err_if (cpv_event_id c \<noteq> evn_id e) ''Publication cannot include a claim from another event'' @
     err_if (cpv_state c \<notin> set (allowed_by_section sec))
       (''Claim '' @ cid @ '' state '' @ claim_state_value (cpv_state c) @ '' conflicts with section '' @ pub_section_value sec) @
     err_if (cpv_state c \<in> set EVIDENCED_STATES \<and> cpv_evidence_count c = 0)
       (''Confirmed claim '' @ cid @ '' has no safe selected evidence'') @
     err_if (is_model (cpv_proposed_by c) \<and> \<not> truthy reviewer)
       (''Model-proposed claim '' @ cid @ '' lacks human review'') @
     err_if (truthy reviewer \<and> is_model (the reviewer)) (''Claim '' @ cid @ '' has a non-human primary reviewer'') @
     err_if (sensitive \<and> \<not> truthy second) (''Sensitive claim '' @ cid @ '' requires a second analyst review'') @
     (if sensitive \<and> truthy second then
        err_if (is_model (the second)) (''Sensitive claim '' @ cid @ '' has a non-human second reviewer'') @
        err_if (truthy reviewer \<and> same_actor (the second) (the reviewer))
          (''Sensitive claim '' @ cid @ '' requires a distinct second analyst'') @
        err_if (\<not> cpv_second_review_valid c)
          (''Sensitive claim '' @ cid @ '' lacks an authenticated content-bound second review'')
      else []))"

definition referenced_claims :: "event_draft \<Rightarrow> uid list" where
  "referenced_claims d = remdups (concat (map pse_claim_ids (ec_sentences (edr_content d))))"

definition publication_errors :: "event_row \<Rightarrow> event_draft \<Rightarrow> claim_policy_view list \<Rightarrow> string list" where
  "publication_errors e d claims =
    (let missing = filter (\<lambda>i. row_get cpv_id i claims = None) (referenced_claims d) in dedup
      (err_if (missing \<noteq> []) (''Unknown claims referenced: '' @ py_repr (j_strs (sort (map uuid_str missing)))) @
       signoff_errors e d @
       concat (map (\<lambda>s. concat (map (\<lambda>i.
         case row_get cpv_id i claims of None \<Rightarrow> [] | Some c \<Rightarrow> claim_errors e (pse_section s) c)
           (pse_claim_ids s))) (ec_sentences (edr_content d)))))"

definition validate_publication :: "event_row \<Rightarrow> event_draft \<Rightarrow> claim_policy_view list \<Rightarrow> desk_error + unit" where
  "validate_publication e d claims =
    (case publication_errors e d claims of [] \<Rightarrow> Inr () | err # _ \<Rightarrow> Inl (PolicyFailed err))"

section \<open>The context of a publication\<close>

record publication_context =
  pxc_event :: event_row
  pxc_event_snapshot :: "(string \<times> json) list"
  pxc_claim_rows :: "claim_row list"
  pxc_evidence_rows :: "evidence_row list"
  pxc_policy_views :: "claim_policy_view list"
  pxc_latest_version :: "event_version_row option"
  pxc_next_version_no :: int

definition unsafe_scan :: "(string \<times> json) list \<Rightarrow> bool" where
  "unsafe_scan scan \<longleftrightarrow> json_true (obj_get scan ''quarantined'') \<or> json_true (obj_get scan ''injection_suspected'')"

definition evidence_scan :: "desk \<Rightarrow> evidence_row \<Rightarrow> (string \<times> json) list" where
  "evidence_scan dk e =
    (case row_get rec_id (evd_source_record_id e) (dk_records dk) of None \<Rightarrow> [] | Some r \<Rightarrow> rec_security_scan r)"

definition count_for :: "uid \<Rightarrow> evidence_row list \<Rightarrow> nat" where
  "count_for claim_id rows = length (filter (\<lambda>e. evd_claim_id e = claim_id) rows)"

definition policy_view :: "hash \<Rightarrow> desk \<Rightarrow> instant \<Rightarrow> evidence_row list \<Rightarrow> claim_row \<Rightarrow> claim_policy_view" where
  "policy_view sha256 dk now requested c =
    \<lparr>cpv_id = clm_id c, cpv_event_id = clm_event_id c, cpv_state = clm_claim_state c,
     cpv_proposed_by = clm_proposed_by c, cpv_reviewed_by = clm_reviewed_by c,
     cpv_second_reviewed_by = clm_second_reviewed_by c, cpv_sensitivity_flags = clm_sensitivity_flags c,
     cpv_evidence_count = min (count_for (clm_id c) (dk_evidence dk))
       (count_for (clm_id c) (filter (\<lambda>e. \<not> unsafe_scan (evidence_scan dk e)) requested)),
     cpv_second_review_valid =
       (if clm_sensitivity_flags c \<noteq> [] then claim_second_review_is_valid sha256 dk now c else False)\<rparr>"

definition port_text :: "json \<Rightarrow> string" where
  "port_text v = (if json_true v then py_strip (py_str v) else [])"

definition port_step ::
  "((string \<times> string) \<times> json) list \<Rightarrow> (string \<times> json) list \<Rightarrow> ((string \<times> string) \<times> json) list" where
  "port_step ports port =
    (let name = port_text (obj_get port ''name''); unlocode = upper (port_text (obj_get port ''unlocode'')) in
     if name \<noteq> [] \<or> unlocode \<noteq> []
     then AList.update (unlocode, casefold name) (JObj [(''name'', JStr name), (''unlocode'', JStr unlocode)]) ports
     else ports)"

definition detected_ports :: "desk \<Rightarrow> uid \<Rightarrow> json" where
  "detected_ports dk event_id = JList (map snd (sort_key fst (foldl port_step []
    (concat (map tri_detected_ports (filter (\<lambda>t. tri_assigned_event_id t = Some event_id) (dk_triage dk)))))))"

definition event_snapshot :: "desk \<Rightarrow> event_row \<Rightarrow> (string \<times> json) list" where
  "event_snapshot dk e =
    [(''id'', j_uid (evn_id e)), (''slug'', JStr (evn_slug e)),
     (''event_type'', JStr (event_type_value (evn_event_type e))), (''corridor'', JStr (corridor_value (evn_corridor e))),
     (''status'', JStr (event_status_value (evn_status e))), (''severity'', JInt (evn_severity e)),
     (''geojson'', j_opt id (evn_geo e)), (''geo_precision'', j_opt JStr (evn_geo_precision e)),
     (''occurred_start'', j_opt j_time (evn_occurred_start e)), (''occurred_end'', j_opt j_time (evn_occurred_end e)),
     (''ports'', detected_ports dk (evn_id e))]"

definition latest_event_version :: "desk \<Rightarrow> uid \<Rightarrow> event_version_row option" where
  "latest_event_version dk event_id =
    max_row evv_version_no (filter (\<lambda>v. evv_event_id v = event_id) (dk_versions dk))"

definition load_context ::
  "hash \<Rightarrow> desk \<Rightarrow> instant \<Rightarrow> uid \<Rightarrow> event_draft \<Rightarrow> desk_error + publication_context" where
  "load_context sha256 dk now event_id d =
    (case row_get evn_id event_id (dk_events dk) of
       None \<Rightarrow> Inl (LookupFailed ''Event not found'')
     | Some e \<Rightarrow>
        let claim_rows = filter (\<lambda>c. clm_id c \<in> set (referenced_claims d)) (dk_claims dk);
            requested = filter (\<lambda>x. evd_id x \<in> set (ec_evidence_ids (edr_content d))) (dk_evidence dk);
            latest = latest_event_version dk event_id
        in if evd_id ` set requested \<noteq> set (ec_evidence_ids (edr_content d))
           then Inl (PolicyFailed ''Publication references unknown evidence'')
           else if list_ex (\<lambda>x. evd_claim_id x \<notin> set (referenced_claims d)) requested
           then Inl (PolicyFailed ''Publication evidence must belong to its exact claim set'')
           else Inr \<lparr>pxc_event = e, pxc_event_snapshot = event_snapshot dk e, pxc_claim_rows = claim_rows,
             pxc_evidence_rows = requested, pxc_policy_views = map (policy_view sha256 dk now requested) claim_rows,
             pxc_latest_version = latest,
             pxc_next_version_no = (case latest of None \<Rightarrow> 0 | Some v \<Rightarrow> evv_version_no v) + 1\<rparr>)"

section \<open>Snapshots and the canonical draft\<close>

definition claim_snapshot :: "claim_row \<Rightarrow> (string \<times> json) list" where
  "claim_snapshot c =
    [(''id'', j_uid (clm_id c)), (''text'', JStr (clm_text c)), (''claimant'', j_opt JStr (clm_claimant c)),
     (''state'', JStr (claim_state_value (clm_claim_state c))), (''occurred_at'', j_opt j_time (clm_occurred_at c)),
     (''quantity'', j_objs (clm_quantity_json c)), (''proposed_by'', JStr (clm_proposed_by c)),
     (''reviewed_by'', j_opt JStr (clm_reviewed_by c)), (''reviewed_at'', j_opt j_time (clm_reviewed_at c)),
     (''second_reviewed_by'', j_opt JStr (clm_second_reviewed_by c)),
     (''second_review_approval_id'', j_opt j_uid (clm_second_review_approval_id c)),
     (''sensitivity_flags'', j_strs (clm_sensitivity_flags c)), (''first_seen_at'', j_time (clm_first_seen_at c))]"

definition claim_snapshots :: "claim_row list \<Rightarrow> (string \<times> json) list list" where
  "claim_snapshots rows = sort_key (\<lambda>s. py_str (obj_get s ''id'')) (map claim_snapshot rows)"

definition evidence_snapshot :: "evidence_row \<Rightarrow> (string \<times> json) list" where
  "evidence_snapshot e = [(''id'', j_uid (evd_id e)), (''claim_id'', j_uid (evd_claim_id e)),
     (''source_record_id'', j_uid (evd_source_record_id e))] @ evidence_fields e"

definition evidence_snapshots :: "evidence_row list \<Rightarrow> (string \<times> json) list list" where
  "evidence_snapshots rows = sort_key (\<lambda>s. py_str (obj_get s ''id'')) (map evidence_snapshot rows)"

definition section_texts :: "event_draft \<Rightarrow> pub_section \<Rightarrow> string list" where
  "section_texts d sec = map pse_text (filter (\<lambda>s. pse_section s = sec) (ec_sentences (edr_content d)))"

definition sections_json :: "event_draft \<Rightarrow> json" where
  "sections_json d = JObj (map (\<lambda>sec. (pub_section_value sec, j_strs (section_texts d sec))) pub_sections)"

text \<open>Every sentence is numbered within its section.\<close>

fun number_sentences :: "(pub_section \<Rightarrow> nat) \<Rightarrow> publication_sentence list \<Rightarrow> (string \<times> publication_sentence) list" where
  "number_sentences index [] = []"
| "number_sentences index (s # ss) =
    (pub_section_value (pse_section s) @ '':'' @ digits_of (index (pse_section s)), s) #
    number_sentences (index(pse_section s := index (pse_section s) + 1)) ss"

definition sentence_claim_map :: "event_draft \<Rightarrow> (string \<times> string list) list" where
  "sentence_claim_map d =
    map (\<lambda>(key, s). (key, map uuid_str (pse_claim_ids s))) (number_sentences (\<lambda>_. 0) (ec_sentences (edr_content d)))"

definition sentence_snapshots :: "event_draft \<Rightarrow> json" where
  "sentence_snapshots d = JList (map (\<lambda>(key, s). JObj [(''key'', JStr key),
     (''section'', JStr (pub_section_value (pse_section s))), (''text'', JStr (pse_text s)),
     (''claim_ids'', j_strs (map uuid_str (pse_claim_ids s)))])
     (number_sentences (\<lambda>_. 0) (ec_sentences (edr_content d))))"

definition canonical_draft :: "uid \<Rightarrow> publication_context \<Rightarrow> event_draft \<Rightarrow> (string \<times> json) list" where
  "canonical_draft event_id ctx d =
    [(''event_id'', j_uid event_id), (''version_no'', JInt (pxc_next_version_no ctx)),
     (''previous_content_hash'', j_opt (\<lambda>v. JStr (evv_content_hash v)) (pxc_latest_version ctx)),
     (''event_snapshot'', JObj (pxc_event_snapshot ctx)), (''title'', JStr (ec_title (edr_content d))),
     (''sections'', sections_json d), (''sentences'', sentence_snapshots d),
     (''claim_ids'', j_strs (sort (map (uuid_str \<circ> clm_id) (pxc_claim_rows ctx)))),
     (''evidence_ids'', j_strs (sort (map (uuid_str \<circ> evd_id) (pxc_evidence_rows ctx)))),
     (''claim_snapshots'', j_objs (claim_snapshots (pxc_claim_rows ctx))),
     (''evidence_snapshots'', j_objs (evidence_snapshots (pxc_evidence_rows ctx))),
     (''published_by'', JStr (edr_published_by d)), (''signed_off_by'', j_opt JStr (edr_signed_off_by d)),
     (''policy_version'', JStr (ec_policy_version (edr_content d))),
     (''model_versions'', str_map (ec_model_versions (edr_content d)))]"

definition hash_canonical :: "hash \<Rightarrow> (string \<times> json) list \<Rightarrow> string" where
  "hash_canonical sha256 canonical = sha256 (json_dumps (JObj canonical))"

section \<open>Preview\<close>

fun contains :: "string \<Rightarrow> string \<Rightarrow> bool" where
  "contains needle [] = (needle = [])"
| "contains needle (c # s) = (starts_with needle (c # s) \<or> contains needle s)"

definition gate_groups :: "nat \<Rightarrow> event_row \<Rightarrow> (string \<times> string \<times> string list \<times> string) list" where
  "gate_groups sentence_count e =
    [(''sentence-mapping'', ''Every material sentence maps to a claim'', [''Unknown claims'', ''another event''],
      digits_of sentence_count @ '' material sentence(s) carry explicit claim IDs.''),
     (''public-labels'', ''Claim states match public labels'', [''conflicts with section''],
      ''Confirmed, Reported, and Unknown sections match editorial claim states.''),
     (''evidence'', ''Confirmed claims have selected evidence'',
      [''has no safe selected evidence'', ''unknown evidence'', ''exact claim set''],
      ''Every confirmed claim has evidence in this exact version snapshot.''),
     (''human-review'', ''Model and sensitive claims have human review'', [''Model-proposed'', ''second analyst''],
      ''All model proposals and sensitivity flags satisfy human review policy.''),
     (''severity-signoff'', ''Severity release has human sign-off'',
      [''human sign-off'', ''model cannot'', ''model cannot publish''],
      if 3 \<le> evn_severity e then ''Named human sign-off is present.''
      else ''Severity 1-2 does not require an additional sign-off.'')]"

definition gate_checks :: "string list \<Rightarrow> nat \<Rightarrow> event_row \<Rightarrow> gate_check list" where
  "gate_checks errors sentence_count e =
    map (\<lambda>(key, label, needles, success).
      let failures = filter (\<lambda>err. list_ex (\<lambda>n. contains (casefold n) (casefold err)) needles) errors
      in \<lparr>gck_key = key, gck_label = label, gck_passed = (failures = []),
          gck_detail = (if failures \<noteq> [] then join ''; '' failures else success)\<rparr>) (gate_groups sentence_count e)"

definition lines_of :: "string list \<Rightarrow> string" where "lines_of xs = join [CHR 0x0A] xs"

definition preview_diff :: "publication_context \<Rightarrow> event_draft \<Rightarrow> (string \<times> field_diff) list" where
  "preview_diff ctx d =
    (let field = \<lambda>key before after. (key, \<lparr>fdf_before = before, fdf_after = after, fdf_changed = (before \<noteq> after)\<rparr>);
         prev = \<lambda>f. (case pxc_latest_version ctx of None \<Rightarrow> [] | Some v \<Rightarrow> f v);
         text = \<lambda>sec. lines_of (section_texts d sec)
     in [field ''title'' (prev evv_title) (ec_title (edr_content d)),
         field ''confirmed'' (prev evv_summary_confirmed) (text SEC_CONFIRMED),
         field ''reported'' (prev evv_summary_reported) (text SEC_REPORTED),
         field ''unknown'' (prev evv_summary_unknown) (text SEC_UNKNOWN),
         field ''changed'' (prev evv_whats_changed) (text SEC_CHANGED)])"

definition preview_event_version ::
  "hash \<Rightarrow> desk \<Rightarrow> instant \<Rightarrow> uid \<Rightarrow> event_draft \<Rightarrow> desk_error + version_preview" where
  "preview_event_version sha256 dk now event_id d =
    ebind (load_context sha256 dk now event_id d) (\<lambda>ctx.
      let errors = publication_errors (pxc_event ctx) d (pxc_policy_views ctx) in
      Inr \<lparr>vpr_previous_version_no = map_option evv_version_no (pxc_latest_version ctx),
        vpr_next_version_no = pxc_next_version_no ctx,
        vpr_preview_hash = hash_canonical sha256 (canonical_draft event_id ctx d), vpr_ready = (errors = []),
        vpr_checks = gate_checks errors (length (ec_sentences (edr_content d))) (pxc_event ctx),
        vpr_diff = preview_diff ctx d\<rparr>)"

section \<open>Publication\<close>

definition release_approved ::
  "desk \<Rightarrow> instant \<Rightarrow> uid \<Rightarrow> string \<Rightarrow> event_draft \<Rightarrow> desk_approval_row option \<Rightarrow> bool" where
  "release_approved dk now event_id content_hash d approval =
    (case approval of
       None \<Rightarrow> False
     | Some a \<Rightarrow> dap_approval_type a = ''event_publication'' \<and> dap_target_id a = event_id
         \<and> dap_binding_hash a = content_hash
         \<and> edr_published_by d = ''desk:'' @ uuid_str (dap_primary_user_id a)
         \<and> edr_signed_off_by d = Some (''desk:'' @ uuid_str (dap_approved_by_user_id a))
         \<and> dap_primary_user_id a \<noteq> dap_approved_by_user_id a
         \<and> active_with [DR_ANALYST, DR_SENIOR_ANALYST, DR_ADMINISTRATOR]
             (row_get dus_id (dap_primary_user_id a) (dk_users dk))
         \<and> active_with [DR_SENIOR_ANALYST, DR_ADMINISTRATOR]
             (row_get dus_id (dap_approved_by_user_id a) (dk_users dk))
         \<and> dap_auth_assurance a \<in> set [AU_MFA, AU_PHISHING_RESISTANT] \<and> now < dap_expires_at a)"

definition release_gate ::
  "desk \<Rightarrow> instant \<Rightarrow> uid \<Rightarrow> event_row \<Rightarrow> string \<Rightarrow> event_draft \<Rightarrow> uid option \<Rightarrow> desk_error + unit" where
  "release_gate dk now event_id e content_hash d approval_id =
    (if evn_severity e < 3 then Inr ()
     else if approval_id = None
     then Inl (PolicyFailed ''Severity 3-4 publication requires a content-bound approval record'')
     else if \<not> release_approved dk now event_id content_hash d (get_opt dap_id approval_id (dk_approvals dk))
     then Inl (PolicyFailed ''Publication approval is missing, expired, or not bound to this exact release'')
     else Inr ())"

definition new_version ::
  "uid \<Rightarrow> uid \<Rightarrow> publication_context \<Rightarrow> event_draft \<Rightarrow> uid option \<Rightarrow> string \<Rightarrow> instant \<Rightarrow> event_version_row" where
  "new_version i event_id ctx d approval_id content_hash db_now =
    \<lparr>evv_id = i, evv_event_id = event_id, evv_version_no = pxc_next_version_no ctx,
     evv_title = ec_title (edr_content d), evv_summary_confirmed = lines_of (section_texts d SEC_CONFIRMED),
     evv_summary_reported = lines_of (section_texts d SEC_REPORTED),
     evv_summary_unknown = lines_of (section_texts d SEC_UNKNOWN),
     evv_whats_changed = lines_of (section_texts d SEC_CHANGED), evv_sentence_claim_map = sentence_claim_map d,
     evv_event_snapshot_json = pxc_event_snapshot ctx,
     evv_claim_snapshot_json = claim_snapshots (pxc_claim_rows ctx),
     evv_evidence_snapshot_json = evidence_snapshots (pxc_evidence_rows ctx),
     evv_published_at = db_now, evv_published_by = edr_published_by d, evv_signed_off_by = edr_signed_off_by d,
     evv_publication_approval_id = approval_id, evv_policy_version = ec_policy_version (edr_content d),
     evv_model_versions = ec_model_versions (edr_content d), evv_content_hash = content_hash\<rparr>"

text \<open>An approval is spent by one version (unique column), and a version number is unique for its event.\<close>

definition version_conflict :: "desk \<Rightarrow> event_version_row \<Rightarrow> bool" where
  "version_conflict dk v = list_ex (\<lambda>w. (evv_event_id w = evv_event_id v \<and> evv_version_no w = evv_version_no v) \<or>
     (evv_publication_approval_id v \<noteq> None \<and> evv_publication_approval_id w = evv_publication_approval_id v))
     (dk_versions dk)"

definition publish_event_version ::
  "hash \<Rightarrow> desk \<Rightarrow> instant \<Rightarrow> instant \<Rightarrow> uid \<Rightarrow> event_create \<Rightarrow> uid option \<Rightarrow>
    desk_error + (desk \<times> event_version_read)" where
  "publish_event_version sha256 dk now db_now event_id payload approval_id =
    (let d = evc_draft payload in
     ebind (load_context sha256 dk now event_id d) (\<lambda>ctx.
     ebind (validate_publication (pxc_event ctx) d (pxc_policy_views ctx)) (\<lambda>_.
     let canonical = canonical_draft event_id ctx d; content_hash = hash_canonical sha256 canonical in
     if evc_preview_hash payload \<noteq> content_hash
     then Inl (PolicyFailed ''Preview is stale; regenerate the version diff before publishing'')
     else ebind (release_gate dk now event_id (pxc_event ctx) content_hash d approval_id) (\<lambda>_.
     let version = new_version (dk_next dk) event_id ctx d approval_id content_hash db_now in
     if version_conflict dk version then Inl DeskIntegrityError
     else let dk1 = dk\<lparr>dk_next := dk_next dk + 1, dk_versions := dk_versions dk @ [version],
            dk_version_claims := dk_version_claims dk @ map (\<lambda>c. (evv_id version, clm_id c)) (pxc_claim_rows ctx),
            dk_version_evidence := dk_version_evidence dk @ map (\<lambda>x. (evv_id version, evd_id x)) (pxc_evidence_rows ctx)\<rparr>
          in Inr (log_audit dk1 (edr_published_by d) ''event_version.published'' ''event_version'' (evv_id version)
                (canonical @ [(''content_hash'', JStr content_hash),
                  (''publication_approval_id'', j_opt j_uid approval_id)]) db_now,
              event_version_read_of version)))))"

end
