(* ===== verification/DeskCorrection.thy ===== *)
theory DeskCorrection
  imports EventPublication
begin

text \<open>
  Corrections of published event versions (\<open>apps/api/eastmed_api/corrections.py\<close>): the plan that fixes
  message, recipients and release hash, and the issue of the correction with its deliveries.
\<close>

section \<open>The plan\<close>

record correction_recipient =
  crp_account_id :: uid
  crp_user_id :: uid
  crp_channel :: delivery_channel
  crp_recipient :: string

record correction_plan =
  cpl_event :: event_row
  cpl_version_from :: event_version_row
  cpl_version_to :: event_version_row
  cpl_recipients :: "correction_recipient list"
  cpl_channels :: "delivery_channel list"
  cpl_preview_hash :: string
  cpl_message :: "(string \<times> json) list"

definition human :: "string \<Rightarrow> string \<Rightarrow> desk_error + string" where
  "human value action =
    (let actor = py_strip value in
     if \<not> length_within 2 255 actor \<or> is_model actor
     then Inl (CorrectionFailed (''a named human must '' @ action @ '' the correction''))
     else Inr actor)"

definition correction_versions ::
  "desk \<Rightarrow> uid \<Rightarrow> uid \<Rightarrow> uid \<Rightarrow> desk_error + (event_row \<times> event_version_row \<times> event_version_row)" where
  "correction_versions dk event_id from_id to_id =
    (case row_get evn_id event_id (dk_events dk) of
       None \<Rightarrow> Inl (LookupFailed ''Event not found'')
     | Some e \<Rightarrow>
        (case (row_get evv_id from_id (dk_versions dk), row_get evv_id to_id (dk_versions dk)) of
           (Some v1, Some v2) \<Rightarrow>
             if evv_event_id v1 \<noteq> event_id \<or> evv_event_id v2 \<noteq> event_id
             then Inl (CorrectionFailed ''correction versions must belong to the selected event'')
             else if evv_version_no v2 \<le> evv_version_no v1
             then Inl (CorrectionFailed ''corrected version must be newer than the affected version'')
             else Inr (e, v1, v2)
         | _ \<Rightarrow> Inl (LookupFailed ''Correction version not found'')))"

definition recipient_of :: "delivery_row \<Rightarrow> correction_recipient" where
  "recipient_of d = \<lparr>crp_account_id = dlv_account_id d, crp_user_id = dlv_user_id d, crp_channel = dlv_channel d,
     crp_recipient = dlv_recipient d\<rparr>"

definition original_recipients :: "desk \<Rightarrow> uid \<Rightarrow> correction_recipient list" where
  "original_recipients dk version_from_id =
    sort_key (\<lambda>r. (uuid_str (crp_account_id r), uuid_str (crp_user_id r), delivery_channel_value (crp_channel r)))
      (map snd (foldl (\<lambda>m d. AList.update (dlv_user_id d, dlv_channel d) (recipient_of d) m) []
        (filter (\<lambda>d. dlv_status d = DST_DELIVERED \<and>
           list_ex (\<lambda>a. alr_id a = dlv_alert_id d \<and> alr_event_version_id a = version_from_id) (dk_alerts dk))
          (dk_deliveries dk))))"

definition recipient_json :: "correction_recipient \<Rightarrow> json" where
  "recipient_json r = JObj [(''account_id'', j_uid (crp_account_id r)), (''user_id'', j_uid (crp_user_id r)),
     (''channel'', JStr (delivery_channel_value (crp_channel r))), (''recipient'', JStr (crp_recipient r))]"

definition version_ref :: "event_version_row \<Rightarrow> json" where
  "version_ref v = JObj [(''id'', j_uid (evv_id v)), (''number'', JInt (evv_version_no v)),
     (''content_hash'', JStr (evv_content_hash v))]"

definition correction_message ::
  "correction_content \<Rightarrow> string \<Rightarrow> event_row \<Rightarrow> event_version_row \<Rightarrow> event_version_row \<Rightarrow> (string \<times> json) list" where
  "correction_message c clean_note e v1 v2 =
    [(''label'', JStr (upper (correction_type_value (cc_correction_type c)))),
     (''correction_type'', JStr (correction_type_value (cc_correction_type c))),
     (''event_id'', j_uid (evn_id e)), (''event_slug'', JStr (evn_slug e)), (''title'', JStr (evv_title v2)),
     (''note'', JStr clean_note), (''affected_version'', version_ref v1), (''corrected_version'', version_ref v2)]"

definition correction_canonical ::
  "correction_content \<Rightarrow> string \<Rightarrow> string \<Rightarrow> (string \<times> json) list \<Rightarrow> correction_recipient list \<Rightarrow> json" where
  "correction_canonical c drafter signer message recipients = JObj
    [(''message'', JObj message), (''impact'', JStr (correction_impact_value (cc_impact c))),
     (''detected_at'', j_time (as_utc (cc_detected_at c))), (''drafted_by'', JStr drafter), (''signed_off_by'', JStr signer),
     (''root_cause'', JStr (py_strip (cc_root_cause c))), (''corrective_action'', JStr (py_strip (cc_corrective_action c))),
     (''recipients'', JList (map recipient_json recipients)), (''portal'', JBool True)]"

definition is_aware :: "pydatetime \<Rightarrow> bool" where
  "is_aware t = (case t of Aware _ \<Rightarrow> True | Naive _ \<Rightarrow> False)"

definition build_correction_plan :: "hash \<Rightarrow> desk \<Rightarrow> correction_draft \<Rightarrow> desk_error + correction_plan" where
  "build_correction_plan sha256 dk d =
    (let c = cdr_content d in
     ebind (human (cdr_drafted_by d) ''draft'') (\<lambda>drafter.
     ebind (human (cdr_signed_off_by d) ''sign off'') (\<lambda>signer.
     if cc_impact c = CI_OPERATIONALLY_RELEVANT \<and> same_actor drafter signer
     then Inl (CorrectionFailed ''operationally relevant corrections require a distinct human sign-off'')
     else if \<not> is_aware (cc_detected_at c)
     then Inl (CorrectionFailed ''correction detection time must include a timezone'')
     else if py_strip (cc_note c) = [] \<or> py_strip (cc_root_cause c) = [] \<or> py_strip (cc_corrective_action c) = []
     then Inl (CorrectionFailed ''note, root cause, and corrective action are required'')
     else ebind (correction_versions dk (cc_event_id c) (cc_version_from_id c) (cc_version_to_id c)) (\<lambda>(e, v1, v2).
       let recipients = original_recipients dk (cc_version_from_id c);
           message = correction_message c (py_strip (cc_note c)) e v1 v2
       in Inr \<lparr>cpl_event = e, cpl_version_from = v1, cpl_version_to = v2, cpl_recipients = recipients,
            cpl_channels = sort_key delivery_channel_value (remdups (map crp_channel recipients)),
            cpl_preview_hash = sha256 (json_dumps (correction_canonical c drafter signer message recipients)),
            cpl_message = message\<rparr>))))"

section \<open>Issue\<close>

definition correction_approved ::
  "desk \<Rightarrow> instant \<Rightarrow> correction_draft \<Rightarrow> string \<Rightarrow> string option \<Rightarrow> desk_approval_row option \<Rightarrow> bool" where
  "correction_approved dk now d preview_hash released_by approval =
    (case approval of
       None \<Rightarrow> False
     | Some a \<Rightarrow> dap_approval_type a = ''operational_correction'' \<and> dap_target_id a = cc_event_id (cdr_content d)
         \<and> dap_binding_hash a = preview_hash
         \<and> cdr_drafted_by d = ''desk:'' @ uuid_str (dap_primary_user_id a)
         \<and> cdr_signed_off_by d = ''desk:'' @ uuid_str (dap_approved_by_user_id a)
         \<and> dap_primary_user_id a \<noteq> dap_approved_by_user_id a
         \<and> (if truthy released_by then the released_by else cdr_drafted_by d) = cdr_drafted_by d
         \<and> active_with [DR_ANALYST, DR_SENIOR_ANALYST, DR_ADMINISTRATOR]
             (row_get dus_id (dap_primary_user_id a) (dk_users dk))
         \<and> active_with [DR_SENIOR_ANALYST, DR_ADMINISTRATOR]
             (row_get dus_id (dap_approved_by_user_id a) (dk_users dk))
         \<and> dap_auth_assurance a \<in> set [AU_MFA, AU_PHISHING_RESISTANT] \<and> now < dap_expires_at a)"

definition correction_gate ::
  "desk \<Rightarrow> instant \<Rightarrow> correction_draft \<Rightarrow> string \<Rightarrow> uid option \<Rightarrow> string option \<Rightarrow> desk_error + unit" where
  "correction_gate dk now d preview_hash approval_id released_by =
    (if cc_impact (cdr_content d) = CI_OPERATIONALLY_RELEVANT then
       if approval_id = None
       then Inl (CorrectionFailed ''Operational correction requires a content-bound approval record'')
       else if \<not> correction_approved dk now d preview_hash released_by (get_opt dap_id approval_id (dk_approvals dk))
       then Inl (CorrectionFailed ''Correction approval is missing, expired, or not bound to this exact release'')
       else Inr ()
     else if approval_id \<noteq> None
     then Inl (CorrectionFailed ''Non-operational corrections must not attach an unrelated approval record'')
     else Inr ())"

definition channel_snapshot :: "correction_plan \<Rightarrow> (string \<times> json) list" where
  "channel_snapshot p =
    [(''portal'', JBool True), (''channels'', j_strs (map delivery_channel_value (cpl_channels p))),
     (''recipient_count'', JInt (int (length (cpl_recipients p)))),
     (''recipients'', JList (map recipient_json (cpl_recipients p)))]"

definition HOUR_60 :: int where "HOUR_60 = 60 * MINUTE"

definition correction_row_of ::
  "uid \<Rightarrow> correction_plan \<Rightarrow> correction_draft \<Rightarrow> string \<Rightarrow> uid option \<Rightarrow> string option \<Rightarrow> instant \<Rightarrow> correction_row" where
  "correction_row_of i p d preview_hash approval_id released_by issued_at =
    (let c = cdr_content d; detected = as_utc (cc_detected_at c) in
     \<lparr>cor_id = i, cor_event_id = cc_event_id c, cor_version_from_id = Some (evv_id (cpl_version_from p)),
      cor_version_to_id = Some (evv_id (cpl_version_to p)), cor_version_from = evv_version_no (cpl_version_from p),
      cor_version_to = evv_version_no (cpl_version_to p), cor_correction_type = cc_correction_type c,
      cor_note = py_strip (cc_note c), cor_propagated_channels_json = channel_snapshot p,
      cor_impact = Some (cc_impact c), cor_root_cause = Some (py_strip (cc_root_cause c)),
      cor_corrective_action = Some (py_strip (cc_corrective_action c)),
      cor_drafted_by = Some (py_strip (cdr_drafted_by d)), cor_signed_off_by = Some (py_strip (cdr_signed_off_by d)),
      cor_correction_approval_id = approval_id, cor_preview_hash = Some preview_hash,
      cor_propagation_deadline_at = Some (detected + HOUR_60), cor_detected_at = detected,
      cor_issued_at = Some issued_at,
      cor_issued_by = py_strip (if truthy released_by then the released_by else cdr_signed_off_by d)\<rparr>)"

definition queued_delivery ::
  "uid \<Rightarrow> uid \<Rightarrow> correction_plan \<Rightarrow> instant \<Rightarrow> instant \<Rightarrow> correction_recipient \<Rightarrow> correction_delivery_row" where
  "queued_delivery i correction_id p issued_at db_now r =
    \<lparr>cod_id = i, cod_correction_id = correction_id, cod_account_id = crp_account_id r, cod_user_id = crp_user_id r,
     cod_channel = crp_channel r, cod_recipient = crp_recipient r, cod_status = DST_QUEUED, cod_queued_at = issued_at,
     cod_sent_at = None, cod_delivered_at = None, cod_attempt_count = 0, cod_last_attempt_at = None,
     cod_next_attempt_at = None, cod_last_error = None, cod_provider_ref = None,
     cod_message_snapshot_json = cpl_message p, cod_updated_at = db_now\<rparr>"

definition queue_deliveries :: "desk \<Rightarrow> uid \<Rightarrow> correction_plan \<Rightarrow> instant \<Rightarrow> instant \<Rightarrow> desk" where
  "queue_deliveries dk correction_id p issued_at db_now =
    foldl (\<lambda>dk r. dk\<lparr>dk_correction_deliveries := dk_correction_deliveries dk @
        [queued_delivery (dk_next dk) correction_id p issued_at db_now r], dk_next := dk_next dk + 1\<rparr>)
      dk (cpl_recipients p)"

definition correction_audit ::
  "correction_plan \<Rightarrow> correction_draft \<Rightarrow> correction_row \<Rightarrow> instant \<Rightarrow> (string \<times> json) list" where
  "correction_audit p d row issued_at =
    (let c = cdr_content d in
     [(''event_id'', j_uid (cc_event_id c)), (''version_from_id'', j_uid (cc_version_from_id c)),
      (''version_to_id'', j_uid (cc_version_to_id c)), (''type'', JStr (correction_type_value (cc_correction_type c))),
      (''impact'', JStr (correction_impact_value (cc_impact c))), (''preview_hash'', j_opt JStr (cor_preview_hash row)),
      (''correction_approval_id'', j_opt j_uid (cor_correction_approval_id row)),
      (''drafted_by'', j_opt JStr (cor_drafted_by row)), (''signed_off_by'', j_opt JStr (cor_signed_off_by row)),
      (''released_by'', JStr (cor_issued_by row)), (''recipient_count'', JInt (int (length (cpl_recipients p)))),
      (''channels'', j_strs (map delivery_channel_value (cpl_channels p))),
      (''issued_within_60_minutes'', JBool (issued_at \<le> as_utc (cc_detected_at c) + HOUR_60))])"

text \<open>A correction already issued under the same hash is returned; an approval serves one correction.\<close>

definition issue_correction ::
  "hash \<Rightarrow> desk \<Rightarrow> instant \<Rightarrow> instant \<Rightarrow> correction_issue \<Rightarrow> uid option \<Rightarrow> string option \<Rightarrow>
    desk_error + (desk \<times> correction_row)" where
  "issue_correction sha256 dk now db_now payload approval_id released_by =
    (let d = cis_draft payload; preview_hash = cis_preview_hash payload in
     ebind (build_correction_plan sha256 dk d) (\<lambda>plan.
     if preview_hash \<noteq> cpl_preview_hash plan
     then Inl (CorrectionFailed ''correction preview is stale or does not match the release'')
     else ebind (correction_gate dk now d preview_hash approval_id released_by) (\<lambda>_.
     case find (\<lambda>c. cor_preview_hash c = Some preview_hash) (dk_corrections dk) of
       Some existing \<Rightarrow> Inr (dk, existing)
     | None \<Rightarrow>
        if now < as_utc (cc_detected_at (cdr_content d))
        then Inl (CorrectionFailed ''correction detection time cannot be in the future'')
        else let row = correction_row_of (dk_next dk) plan d preview_hash approval_id released_by now in
        if approval_id \<noteq> None \<and> list_ex (\<lambda>c. cor_correction_approval_id c = approval_id) (dk_corrections dk)
        then Inl DeskIntegrityError
        else let dk1 = dk\<lparr>dk_next := dk_next dk + 1, dk_corrections := dk_corrections dk @ [row]\<rparr>;
                 dk2 = queue_deliveries dk1 (cor_id row) plan now db_now
             in Inr (log_audit dk2 (cor_issued_by row) ''correction.issued'' ''correction'' (cor_id row)
                  (correction_audit plan d row now) db_now, row))))"

end
