(* ===== verification/DeskApproval.thy ===== *)
theory DeskApproval
  imports DeskCorrection
begin

text \<open>
  Second-person approval at the desk (\<open>apps/api/eastmed_api/approvals.py\<close>) and the inbox of approval
  requests (\<open>approval_requests.py\<close>). An operation that raises leaves the store as it was, except
  where it commits first.
\<close>

section \<open>Roles and results\<close>

definition EVENT_PUBLICATION_APPROVAL :: string where "EVENT_PUBLICATION_APPROVAL = ''event_publication''"
definition OPERATIONAL_CORRECTION_APPROVAL :: string where
  "OPERATIONAL_CORRECTION_APPROVAL = ''operational_correction''"
definition PUBLICATION_APPROVAL_VALIDITY :: int where "PUBLICATION_APPROVAL_VALIDITY = 15 * MINUTE"
definition APPROVER_ROLES :: "desk_role list" where "APPROVER_ROLES = [DR_SENIOR_ANALYST, DR_ADMINISTRATOR]"
definition PUBLISHER_ROLES :: "desk_role list" where
  "PUBLISHER_ROLES = [DR_ANALYST, DR_SENIOR_ANALYST, DR_ADMINISTRATOR]"

record publication_approval_result =
  par_approval :: desk_approval_row
  par_approved_draft :: event_draft
  par_preview :: version_preview

record publication_authorization =
  pau_approval_id :: "uid option"
  pau_signed_off_by :: "string option"

record correction_approval_result =
  car_approval :: desk_approval_row
  car_approved_draft :: correction_draft
  car_plan :: correction_plan

record correction_authorization =
  cau_approval_id :: "uid option"
  cau_drafted_by :: string
  cau_signed_off_by :: string

text \<open>The row of an approval; both a sufficient role and strong authentication are required for one.\<close>

definition new_approval ::
  "uid \<Rightarrow> string \<Rightarrow> uid \<Rightarrow> string \<Rightarrow> (string \<times> json) list \<Rightarrow> uid \<Rightarrow> desk_principal \<Rightarrow> string \<Rightarrow> instant \<Rightarrow>
    desk_approval_row" where
  "new_approval i kind target hash payload primary_id p reason now =
    \<lparr>dap_id = i, dap_approval_type = kind, dap_target_id = target, dap_binding_hash = hash,
     dap_binding_payload_json = payload, dap_primary_user_id = primary_id,
     dap_approved_by_user_id = dp_user_id p, dap_auth_assurance = dp_assurance p, dap_reason = reason,
     dap_approved_at = now, dap_expires_at = now + PUBLICATION_APPROVAL_VALIDITY\<rparr>"

definition add_approval :: "desk \<Rightarrow> desk_approval_row \<Rightarrow> desk" where
  "add_approval dk a = dk\<lparr>dk_approvals := dk_approvals dk @ [a], dk_next := dk_next dk + 1\<rparr>"

section \<open>Operational corrections\<close>

definition approve_operational_correction ::
  "hash \<Rightarrow> datetime_codec \<Rightarrow> desk \<Rightarrow> instant \<Rightarrow> instant \<Rightarrow> correction_approval_create \<Rightarrow> desk_principal \<Rightarrow>
    desk_error + (desk \<times> correction_approval_result)" where
  "approve_operational_correction sha256 codec dk now db_now payload p =
    (if dp_role p \<notin> set APPROVER_ROLES
     then Inl (AuthorizationFailed ''Correction approval requires a senior analyst or administrator'')
     else if dp_assurance p \<notin> set STRONG_ASSURANCE
     then Inl (AuthorizationFailed ''Correction approval requires MFA'')
     else if cc_impact (cac_draft payload) \<noteq> CI_OPERATIONALLY_RELEVANT
     then Inl (WorkflowFailed ''Only operationally relevant corrections require second-person approval'')
     else if \<not> active_with PUBLISHER_ROLES (row_get dus_id (cac_drafter_user_id payload) (dk_users dk))
     then Inl (WorkflowFailed ''The correction drafter is not an active desk analyst'')
     else if cac_drafter_user_id payload = dp_user_id p
     then Inl (AuthorizationFailed ''Operational correction approval must be distinct from the drafter'')
     else ebind (make_correction_draft (cac_draft payload) (desk_actor (cac_drafter_user_id payload)) (principal_actor p))
       (\<lambda>draft. ebind (build_correction_plan sha256 dk draft) (\<lambda>plan.
       let event_id = cc_event_id (cac_draft payload);
           a = new_approval (dk_next dk) OPERATIONAL_CORRECTION_APPROVAL event_id (cpl_preview_hash plan)
             [(''approved_draft'', correction_draft_json codec draft), (''preview_hash'', JStr (cpl_preview_hash plan))]
             (cac_drafter_user_id payload) p (cac_reason payload) now
       in Inr (log_audit (add_approval dk a) (principal_actor p) ''operational_correction.approved'' ''desk_approval''
            (dap_id a) [(''event_id'', j_uid event_id), (''preview_hash'', JStr (cpl_preview_hash plan)),
              (''drafter_user_id'', j_uid (cac_drafter_user_id payload)), (''approved_by_user_id'', j_uid (dp_user_id p)),
              (''auth_assurance'', JStr (auth_assurance_value (dp_assurance p))),
              (''expires_at'', j_time (dap_expires_at a)), (''reason'', JStr (cac_reason payload))] db_now,
            \<lparr>car_approval = a, car_approved_draft = draft, car_plan = plan\<rparr>))))"

text \<open>The latest approval of this kind, target and hash given for this publisher.\<close>

definition latest_approval :: "desk \<Rightarrow> string \<Rightarrow> uid \<Rightarrow> string \<Rightarrow> uid \<Rightarrow> desk_approval_row option" where
  "latest_approval dk kind target hash primary_id =
    max_row (\<lambda>a. (dap_approved_at a, dap_id a)) (filter (\<lambda>a. dap_approval_type a = kind \<and> dap_target_id a = target \<and>
      dap_binding_hash a = hash \<and> dap_primary_user_id a = primary_id) (dk_approvals dk))"

definition stored_draft :: "desk_approval_row \<Rightarrow> (string \<times> json) list option" where
  "stored_draft a = (case obj_get (dap_binding_payload_json a) ''approved_draft'' of JObj kvs \<Rightarrow> Some kvs | _ \<Rightarrow> None)"

definition authorize_correction_issue ::
  "desk \<Rightarrow> instant \<Rightarrow> uid \<Rightarrow> correction_impact \<Rightarrow> string \<Rightarrow> desk_principal \<Rightarrow> desk_error + correction_authorization" where
  "authorize_correction_issue dk now event_id impact preview_hash p =
    (if impact \<noteq> CI_OPERATIONALLY_RELEVANT then
       if dp_role p \<notin> set APPROVER_ROLES
       then Inl (AuthorizationFailed ''Non-operational correction issuance requires a senior analyst'')
       else Inr \<lparr>cau_approval_id = None, cau_drafted_by = principal_actor p, cau_signed_off_by = principal_actor p\<rparr>
     else (case latest_approval dk OPERATIONAL_CORRECTION_APPROVAL event_id preview_hash (dp_user_id p) of
       None \<Rightarrow> Inl (AuthorizationFailed ''No second-person approval exists for this exact operational correction'')
     | Some a \<Rightarrow>
        if dap_expires_at a \<le> now
        then Inl (AuthorizationFailed ''The operational correction approval has expired; request a new approval'')
        else if dap_auth_assurance a \<notin> set STRONG_ASSURANCE
        then Inl (AuthorizationFailed ''The correction approval was not authenticated with MFA'')
        else if \<not> active_with APPROVER_ROLES (row_get dus_id (dap_approved_by_user_id a) (dk_users dk))
        then Inl (AuthorizationFailed ''The correction approver is no longer authorized'')
        else if dap_approved_by_user_id a = dp_user_id p
        then Inl (AuthorizationFailed ''Operational correction approval must be distinct from the drafter'')
        else (case stored_draft a of
            None \<Rightarrow> Inl (AuthorizationFailed ''The correction approval record is malformed'')
          | Some d \<Rightarrow>
             if obj_get d ''drafted_by'' \<noteq> JStr (principal_actor p)
             then Inl (AuthorizationFailed ''The correction approval is bound to another drafter'')
             else if obj_get d ''signed_off_by'' \<noteq> JStr (desk_actor (dap_approved_by_user_id a))
             then Inl (AuthorizationFailed ''The correction approval signer binding is invalid'')
             else Inr \<lparr>cau_approval_id = Some (dap_id a), cau_drafted_by = principal_actor p,
               cau_signed_off_by = desk_actor (dap_approved_by_user_id a)\<rparr>)))"

section \<open>Sensitive claims\<close>

definition approve_sensitive_claim ::
  "hash \<Rightarrow> desk \<Rightarrow> instant \<Rightarrow> instant \<Rightarrow> uid \<Rightarrow> uid \<Rightarrow> string \<Rightarrow> desk_principal \<Rightarrow>
    desk_error + (desk \<times> desk_approval_row)" where
  "approve_sensitive_claim sha256 dk now db_now event_id claim_id reason p =
    (if dp_role p \<notin> set APPROVER_ROLES
     then Inl (AuthorizationFailed ''Claim second review requires a senior analyst or administrator'')
     else if dp_assurance p \<notin> set STRONG_ASSURANCE
     then Inl (AuthorizationFailed ''Claim second review requires MFA'')
     else (case row_get clm_id claim_id (dk_claims dk) of
       None \<Rightarrow> Inl (LookupFailed ''Claim not found'')
     | Some c \<Rightarrow>
        if clm_event_id c \<noteq> event_id then Inl (LookupFailed ''Claim not found'')
        else if clm_sensitivity_flags c = []
        then Inl (WorkflowFailed ''Only sensitivity-flagged claims require second review'')
        else if clm_second_review_approval_id c \<noteq> None
        then Inl (WorkflowFailed ''This exact claim already has a second review'')
        else (case desk_actor_user_id (clm_reviewed_by c) of
            None \<Rightarrow> Inl (WorkflowFailed ''Claim primary review is not bound to an authenticated desk identity'')
          | Some primary_id \<Rightarrow>
             if \<not> active_with PUBLISHER_ROLES (row_get dus_id primary_id (dk_users dk))
             then Inl (WorkflowFailed ''Claim primary reviewer is not an active desk analyst'')
             else if primary_id = dp_user_id p
             then Inl (AuthorizationFailed ''Claim second review must be performed by a distinct analyst'')
             else let snapshot = claim_review_snapshot dk c;
                a = new_approval (dk_next dk) CLAIM_SECOND_REVIEW_APPROVAL (clm_id c) (binding_hash sha256 snapshot)
                  [(''claim_snapshot'', JObj snapshot)] primary_id p reason now;
                dk1 = (add_approval dk a)\<lparr>dk_claims := row_upd clm_id (clm_id c) (\<lambda>c. c\<lparr>
                  clm_second_reviewed_by := Some (principal_actor p),
                  clm_second_review_approval_id := Some (dap_id a)\<rparr>) (dk_claims dk)\<rparr>
              in Inr (log_audit dk1 (principal_actor p) ''claim.second_reviewed'' ''claim'' (clm_id c)
                   [(''event_id'', j_uid event_id), (''approval_id'', j_uid (dap_id a)),
                    (''binding_hash'', JStr (dap_binding_hash a)), (''primary_reviewer'', j_opt JStr (clm_reviewed_by c)),
                    (''second_reviewer'', JStr (principal_actor p)),
                    (''auth_assurance'', JStr (auth_assurance_value (dp_assurance p))), (''reason'', JStr reason)] db_now, a))))"

section \<open>Event publications\<close>

definition first_failure :: "version_preview \<Rightarrow> string" where
  "first_failure preview =
    (case find (\<lambda>c. \<not> gck_passed c) (vpr_checks preview) of
       Some c \<Rightarrow> if gck_detail c \<noteq> [] then gck_detail c else ''Publication policy checks did not pass''
     | None \<Rightarrow> ''Publication policy checks did not pass'')"

definition approve_event_publication ::
  "hash \<Rightarrow> desk \<Rightarrow> instant \<Rightarrow> instant \<Rightarrow> uid \<Rightarrow> publication_approval_create \<Rightarrow> desk_principal \<Rightarrow>
    desk_error + (desk \<times> publication_approval_result)" where
  "approve_event_publication sha256 dk now db_now event_id payload p =
    (if dp_role p \<notin> set APPROVER_ROLES
     then Inl (AuthorizationFailed ''Publication approval requires a senior analyst or administrator'')
     else if dp_assurance p \<notin> set STRONG_ASSURANCE
     then Inl (AuthorizationFailed ''Publication approval requires MFA'')
     else (case row_get evn_id event_id (dk_events dk) of
       None \<Rightarrow> Inl (LookupFailed ''Event not found'')
     | Some e \<Rightarrow>
        let publisher_id = pac_publisher_user_id payload in
        if evn_severity e < 3
        then Inl (WorkflowFailed ''Severity 1-2 publications do not require a second-person approval'')
        else if \<not> active_with PUBLISHER_ROLES (row_get dus_id publisher_id (dk_users dk))
        then Inl (WorkflowFailed ''The named publisher is not an active desk publisher'')
        else if publisher_id = dp_user_id p
        then Inl (AuthorizationFailed ''The publication approver must be distinct from the publisher'')
        else ebind (make_event_draft (pac_draft payload) (desk_actor publisher_id) (Some (principal_actor p))) (\<lambda>draft.
          ebind (preview_event_version sha256 dk now event_id draft) (\<lambda>preview.
          if \<not> vpr_ready preview then Inl (WorkflowFailed (first_failure preview))
          else let a = new_approval (dk_next dk) EVENT_PUBLICATION_APPROVAL event_id (vpr_preview_hash preview)
                [(''event_id'', j_uid event_id), (''approved_draft'', event_draft_json draft),
                 (''preview'', version_preview_json preview)] publisher_id p (pac_reason payload) now
            in Inr (log_audit (add_approval dk a) (principal_actor p) ''event_publication.approved'' ''desk_approval''
                 (dap_id a) [(''event_id'', j_uid event_id), (''preview_hash'', JStr (vpr_preview_hash preview)),
                   (''publisher_user_id'', j_uid publisher_id), (''approved_by_user_id'', j_uid (dp_user_id p)),
                   (''auth_assurance'', JStr (auth_assurance_value (dp_assurance p))),
                   (''approved_at'', j_time now), (''expires_at'', j_time (dap_expires_at a)),
                   (''reason'', JStr (pac_reason payload))] db_now,
                 \<lparr>par_approval = a, par_approved_draft = draft, par_preview = preview\<rparr>)))))"

definition authorize_event_publication ::
  "desk \<Rightarrow> instant \<Rightarrow> uid \<Rightarrow> string \<Rightarrow> desk_principal \<Rightarrow> desk_error + publication_authorization" where
  "authorize_event_publication dk now event_id preview_hash p =
    (case row_get evn_id event_id (dk_events dk) of
       None \<Rightarrow> Inl (LookupFailed ''Event not found'')
     | Some e \<Rightarrow>
        if evn_severity e < 3 then Inr \<lparr>pau_approval_id = None, pau_signed_off_by = None\<rparr>
        else (case latest_approval dk EVENT_PUBLICATION_APPROVAL event_id preview_hash (dp_user_id p) of
            None \<Rightarrow> Inl (AuthorizationFailed ''No second-person approval exists for this exact publication preview'')
          | Some a \<Rightarrow>
             if dap_expires_at a \<le> now
             then Inl (AuthorizationFailed ''The second-person publication approval has expired; request a new approval'')
             else if dap_auth_assurance a \<notin> set STRONG_ASSURANCE
             then Inl (AuthorizationFailed ''The publication approval was not authenticated with MFA'')
             else if \<not> active_with APPROVER_ROLES (row_get dus_id (dap_approved_by_user_id a) (dk_users dk))
             then Inl (AuthorizationFailed ''The publication approver is no longer authorized'')
             else if dap_approved_by_user_id a = dp_user_id p
             then Inl (AuthorizationFailed ''The publication approver must be distinct from the publisher'')
             else (case stored_draft a of
                 None \<Rightarrow> Inl (AuthorizationFailed ''The publication approval record is malformed'')
               | Some d \<Rightarrow>
                  if obj_get d ''published_by'' \<noteq> JStr (principal_actor p)
                  then Inl (AuthorizationFailed ''The publication approval is bound to another publisher'')
                  else if obj_get d ''signed_off_by'' \<noteq> JStr (desk_actor (dap_approved_by_user_id a))
                  then Inl (AuthorizationFailed ''The publication approval signer binding is invalid'')
                  else Inr \<lparr>pau_approval_id = Some (dap_id a),
                    pau_signed_off_by = Some (desk_actor (dap_approved_by_user_id a))\<rparr>)))"

end
