(* ===== verification/ApprovalRequest.thy ===== *)
theory ApprovalRequest
  imports DeskApproval
begin

text \<open>
  The inbox of approval requests (\<open>apps/api/eastmed_api/approval_requests.py\<close>). A decision on an
  expired request records the expiry before it raises, so \<open>decide_approval_request\<close> returns the store
  beside its result.
\<close>

definition REQUEST_VALIDITY :: int where "REQUEST_VALIDITY = 24 * 60 * MINUTE"
definition PENDING :: string where "PENDING = ''pending''"
definition APPROVED :: string where "APPROVED = ''approved''"
definition REJECTED :: string where "REJECTED = ''rejected''"
definition CANCELLED :: string where "CANCELLED = ''cancelled''"
definition EXPIRED :: string where "EXPIRED = ''expired''"
definition REQUEST_STATUSES :: "string list" where
  "REQUEST_STATUSES = [PENDING, APPROVED, REJECTED, CANCELLED, EXPIRED]"

lemmas request_states = PENDING_def APPROVED_def REJECTED_def CANCELLED_def EXPIRED_def

definition effective_status :: "approval_request_row \<Rightarrow> instant \<Rightarrow> string" where
  "effective_status r now = (if dar_status r = PENDING \<and> dar_expires_at r \<le> now then EXPIRED else dar_status r)"

definition request_hash :: "hash \<Rightarrow> string \<Rightarrow> uid \<Rightarrow> uid \<Rightarrow> (string \<times> json) list \<Rightarrow> string" where
  "request_hash sha256 request_type target_id primary_user_id draft =
    binding_hash sha256 [(''request_type'', JStr request_type), (''target_id'', j_uid target_id),
      (''primary_user_id'', j_uid primary_user_id), (''draft'', JObj draft)]"

definition supersede :: "instant \<Rightarrow> approval_request_row \<Rightarrow> approval_request_row" where
  "supersede now r = r\<lparr>dar_status := CANCELLED, dar_decided_at := Some now,
     dar_decision_reason := Some ''Superseded by a newer request''\<rparr>"

definition supersede_pending_requests :: "desk \<Rightarrow> string \<Rightarrow> uid \<Rightarrow> uid \<Rightarrow> instant \<Rightarrow> desk" where
  "supersede_pending_requests dk request_type target_id primary_user_id now =
    dk\<lparr>dk_requests := map (\<lambda>r.
      if dar_request_type r = request_type \<and> dar_target_id r = target_id \<and> dar_primary_user_id r = primary_user_id
        \<and> dar_status r = PENDING then supersede now r else r) (dk_requests dk)\<rparr>"

definition new_request ::
  "uid \<Rightarrow> string \<Rightarrow> uid \<Rightarrow> string \<Rightarrow> (string \<times> json) list \<Rightarrow> uid \<Rightarrow> string \<Rightarrow> instant \<Rightarrow> approval_request_row" where
  "new_request i request_type target_id hash payload primary_id reason now =
    \<lparr>dar_id = i, dar_request_type = request_type, dar_target_id = target_id, dar_request_hash = hash,
     dar_request_payload_json = payload, dar_primary_user_id = primary_id, dar_status = PENDING,
     dar_request_reason = reason, dar_requested_at = now, dar_expires_at = now + REQUEST_VALIDITY,
     dar_decided_at = None, dar_decided_by_user_id = None, dar_decision_reason = None, dar_approval_id = None\<rparr>"

definition open_request :: "desk \<Rightarrow> instant \<Rightarrow> string \<Rightarrow> approval_request_row option" where
  "open_request dk now hash =
    (case find (\<lambda>r. dar_request_hash r = hash \<and> dar_status r = PENDING) (dk_requests dk) of
       Some r \<Rightarrow> if effective_status r now = PENDING then Some r else None
     | None \<Rightarrow> None)"

text \<open>The common tail of both requests: an open request with the same content is returned, otherwise
  the requester's pending requests for the target are superseded and a new one is filed.\<close>

definition file_request ::
  "desk \<Rightarrow> instant \<Rightarrow> instant \<Rightarrow> string \<Rightarrow> string \<Rightarrow> uid \<Rightarrow> string \<Rightarrow> (string \<times> json) list \<Rightarrow> string \<Rightarrow>
    desk_principal \<Rightarrow> desk \<times> approval_request_row" where
  "file_request dk now db_now request_type action target_id hash payload reason p =
    (case open_request dk now hash of
       Some existing \<Rightarrow> (dk, existing)
     | None \<Rightarrow>
        let dk1 = supersede_pending_requests dk request_type target_id (dp_user_id p) now;
            r = new_request (dk_next dk1) request_type target_id hash payload (dp_user_id p) reason now;
            dk2 = dk1\<lparr>dk_requests := dk_requests dk1 @ [r], dk_next := dk_next dk1 + 1\<rparr>
        in (log_audit dk2 (principal_actor p) action ''desk_approval_request'' (dar_id r)
              [(''event_id'', j_uid target_id), (''request_hash'', JStr hash),
               (''expires_at'', j_time (dar_expires_at r)), (''reason'', JStr reason)] db_now, r))"

definition create_publication_request ::
  "hash \<Rightarrow> desk \<Rightarrow> instant \<Rightarrow> instant \<Rightarrow> uid \<Rightarrow> publication_request_create \<Rightarrow> desk_principal \<Rightarrow>
    desk_error + (desk \<times> approval_request_row)" where
  "create_publication_request sha256 dk now db_now event_id payload p =
    (if dp_role p \<notin> set PUBLISHER_ROLES
     then Inl (AuthorizationFailed ''Desk role cannot request publication approval'')
     else (case row_get evn_id event_id (dk_events dk) of
       None \<Rightarrow> Inl (LookupFailed ''Event not found'')
     | Some e \<Rightarrow>
        if evn_severity e < 3
        then Inl (WorkflowFailed ''Severity 1-2 publications do not require approval requests'')
        else ebind (make_event_draft (prc_draft payload) (principal_actor p) (Some ''approval:pending'')) (\<lambda>draft.
          ebind (preview_event_version sha256 dk now event_id draft) (\<lambda>preview.
          if \<not> vpr_ready preview then Inl (WorkflowFailed (first_failure preview))
          else let draft_json = event_content_fields (prc_draft payload);
                   hash = request_hash sha256 EVENT_PUBLICATION_APPROVAL event_id (dp_user_id p) draft_json
            in Inr (file_request dk now db_now EVENT_PUBLICATION_APPROVAL ''event_publication.approval_requested''
                 event_id hash [(''draft'', JObj draft_json), (''preapproval_preview'', version_preview_json preview)]
                 (prc_reason payload) p)))))"

definition create_correction_request ::
  "hash \<Rightarrow> datetime_codec \<Rightarrow> desk \<Rightarrow> instant \<Rightarrow> instant \<Rightarrow> correction_request_create \<Rightarrow> desk_principal \<Rightarrow>
    desk_error + (desk \<times> approval_request_row)" where
  "create_correction_request sha256 codec dk now db_now payload p =
    (let c = crc_draft payload in
     if dp_role p \<notin> set PUBLISHER_ROLES
     then Inl (AuthorizationFailed ''Desk role cannot request correction approval'')
     else if cc_impact c \<noteq> CI_OPERATIONALLY_RELEVANT
     then Inl (WorkflowFailed ''Only operationally relevant corrections use the approval inbox'')
     else ebind (make_correction_draft c (principal_actor p) ''approval:pending'') (\<lambda>draft.
       ebind (build_correction_plan sha256 dk draft) (\<lambda>plan.
       let draft_json = correction_content_fields codec c;
           hash = request_hash sha256 OPERATIONAL_CORRECTION_APPROVAL (cc_event_id c) (dp_user_id p) draft_json
       in Inr (file_request dk now db_now OPERATIONAL_CORRECTION_APPROVAL ''operational_correction.approval_requested''
            (cc_event_id c) hash
            [(''draft'', JObj draft_json), (''preapproval_preview'', JObj [(''preview_hash'', JStr (cpl_preview_hash plan)),
              (''channels'', j_strs (map delivery_channel_value (cpl_channels plan))),
              (''recipient_count'', JInt (int (length (cpl_recipients plan)))), (''message'', JObj (cpl_message plan))])]
            (crc_reason payload) p))))"

section \<open>Decisions\<close>

definition decide_row ::
  "string \<Rightarrow> instant \<Rightarrow> uid option \<Rightarrow> string \<Rightarrow> uid option \<Rightarrow> approval_request_row \<Rightarrow> approval_request_row" where
  "decide_row status now decider reason approval_id r =
    r\<lparr>dar_status := status, dar_decided_at := Some now,
      dar_decided_by_user_id := (if decider = None then dar_decided_by_user_id r else decider),
      dar_decision_reason := Some reason,
      dar_approval_id := (if approval_id = None then dar_approval_id r else approval_id)\<rparr>"

definition decide_in :: "desk \<Rightarrow> uid \<Rightarrow> (approval_request_row \<Rightarrow> approval_request_row) \<Rightarrow> desk" where
  "decide_in dk request_id f = dk\<lparr>dk_requests := row_upd dar_id request_id f (dk_requests dk)\<rparr>"

text \<open>Approval of the stored draft by the service of its kind.\<close>

definition approve_stored_draft ::
  "hash \<Rightarrow> datetime_codec \<Rightarrow> desk \<Rightarrow> instant \<Rightarrow> instant \<Rightarrow> approval_request_row \<Rightarrow> string \<Rightarrow> desk_principal \<Rightarrow>
    desk_error + (desk \<times> desk_approval_row)" where
  "approve_stored_draft sha256 codec dk now db_now r reason p =
    (case obj_get (dar_request_payload_json r) ''draft'' of
       JObj draft \<Rightarrow>
         if dar_request_type r = EVENT_PUBLICATION_APPROVAL then
           ebind (load_event_content draft) (\<lambda>content.
           ebind (approve_event_publication sha256 dk now db_now (dar_target_id r)
              \<lparr>pac_publisher_user_id = dar_primary_user_id r, pac_draft = content, pac_reason = reason\<rparr> p)
             (\<lambda>(dk1, res). Inr (dk1, par_approval res)))
         else if dar_request_type r = OPERATIONAL_CORRECTION_APPROVAL then
           ebind (load_correction_content codec draft) (\<lambda>content.
           ebind (approve_operational_correction sha256 codec dk now db_now
              \<lparr>cac_drafter_user_id = dar_primary_user_id r, cac_draft = content, cac_reason = reason\<rparr> p)
             (\<lambda>(dk1, res). Inr (dk1, car_approval res)))
         else Inl (WorkflowFailed ''Approval request type is not supported'')
     | _ \<Rightarrow> Inl (WorkflowFailed ''Approval request payload is malformed''))"

definition decide_approval_request ::
  "hash \<Rightarrow> datetime_codec \<Rightarrow> desk \<Rightarrow> instant \<Rightarrow> instant \<Rightarrow> uid \<Rightarrow> decision_create \<Rightarrow> desk_principal \<Rightarrow>
    desk \<times> (desk_error + approval_request_row)" where
  "decide_approval_request sha256 codec dk now db_now request_id payload p =
    (if dp_role p \<notin> set APPROVER_ROLES
     then (dk, Inl (AuthorizationFailed ''Approval requests require a senior analyst or administrator''))
     else if dp_assurance p \<notin> set STRONG_ASSURANCE
     then (dk, Inl (AuthorizationFailed ''Approval decisions require MFA''))
     else (case row_get dar_id request_id (dk_requests dk) of
       None \<Rightarrow> (dk, Inl (LookupFailed ''Approval request not found''))
     | Some r \<Rightarrow>
        if effective_status r now = EXPIRED
        then (decide_in dk (dar_id r) (decide_row EXPIRED now None ''Request expired before a decision'' None),
              Inl (WorkflowFailed ''Approval request has expired''))
        else if dar_status r \<noteq> PENDING then (dk, Inl (WorkflowFailed ''Approval request has already been decided''))
        else if dar_primary_user_id r = dp_user_id p
        then (dk, Inl (AuthorizationFailed ''Approver must be distinct from the requester''))
        else if dec_decision payload = CHOICE_REJECT then
          let f = decide_row REJECTED now (Some (dp_user_id p)) (dec_reason payload) None
          in (log_audit (decide_in dk (dar_id r) f) (principal_actor p) ''desk_approval_request.rejected''
                ''desk_approval_request'' (dar_id r)
                [(''request_hash'', JStr (dar_request_hash r)), (''reason'', JStr (dec_reason payload))] db_now,
              Inr (f r))
        else (case approve_stored_draft sha256 codec dk now db_now r (dec_reason payload) p of
            Inl e \<Rightarrow> (dk, Inl e)
          | Inr (dk1, a) \<Rightarrow>
             let f = decide_row APPROVED now (Some (dp_user_id p)) (dec_reason payload) (Some (dap_id a))
             in (log_audit (decide_in dk1 (dar_id r) f) (principal_actor p) ''desk_approval_request.approved''
                   ''desk_approval_request'' (dar_id r)
                   [(''approval_id'', j_uid (dap_id a)), (''release_hash'', JStr (dap_binding_hash a)),
                    (''release_expires_at'', j_time (dap_expires_at a)), (''reason'', JStr (dec_reason payload))] db_now,
                 Inr (f r)))))"

section \<open>Queue and rendering\<close>

definition status_matches :: "instant \<Rightarrow> string \<Rightarrow> approval_request_row \<Rightarrow> bool" where
  "status_matches now status r =
    (if status = EXPIRED then dar_status r = EXPIRED \<or> (dar_status r = PENDING \<and> dar_expires_at r \<le> now)
     else dar_status r = status)"

definition list_approval_requests ::
  "desk \<Rightarrow> instant \<Rightarrow> desk_principal \<Rightarrow> string option \<Rightarrow> nat \<Rightarrow> desk_error + approval_request_row list" where
  "list_approval_requests dk now p status limit =
    (case status of
       Some s \<Rightarrow>
         if s \<notin> set REQUEST_STATUSES then Inl (WorkflowFailed ''Approval request status is invalid'')
         else Inr (take limit (rev (sort_key (\<lambda>r. (dar_requested_at r, dar_id r)) (filter (\<lambda>r.
           (dp_role p \<in> set APPROVER_ROLES \<or> dar_primary_user_id r = dp_user_id p) \<and> status_matches now s r)
           (dk_requests dk)))))
     | None \<Rightarrow>
         Inr (take limit (rev (sort_key (\<lambda>r. (dar_requested_at r, dar_id r)) (filter (\<lambda>r.
           dp_role p \<in> set APPROVER_ROLES \<or> dar_primary_user_id r = dp_user_id p) (dk_requests dk))))))"

record approval_request_read =
  arr_request :: approval_request_row
  arr_primary_display_name :: string
  arr_status :: string
  arr_decided_by_display_name :: "string option"
  arr_release_hash :: "string option"
  arr_release_expires_at :: "instant option"
  arr_approved_payload :: "(string \<times> json) list option"

definition approval_request_read_of :: "desk \<Rightarrow> instant \<Rightarrow> approval_request_row \<Rightarrow> approval_request_read" where
  "approval_request_read_of dk now r =
    (let primary = row_get dus_id (dar_primary_user_id r) (dk_users dk);
         decider = get_opt dus_id (dar_decided_by_user_id r) (dk_users dk);
         approval = get_opt dap_id (dar_approval_id r) (dk_approvals dk)
     in \<lparr>arr_request = r,
         arr_primary_display_name = (case primary of None \<Rightarrow> ''Unknown user'' | Some u \<Rightarrow> dus_display_name u),
         arr_status = effective_status r now, arr_decided_by_display_name = map_option dus_display_name decider,
         arr_release_hash = map_option dap_binding_hash approval,
         arr_release_expires_at = map_option dap_expires_at approval,
         arr_approved_payload = Option.bind approval stored_draft\<rparr>)"

end
