(* ===== verification/AIGovernance.thy ===== *)
theory AIGovernance
  imports DeskContracts
begin

text \<open>
  Control of the AI capabilities (\<open>apps/api/eastmed_api/ai_governance.py\<close>) and the lifecycle of AI
  incidents (\<open>ai_incidents.py\<close>): versioned kill switches, the decision whether a capability may run,
  registered system versions and desk identities. A manifest is its JSON.
\<close>

definition GLOBAL_AI_SCOPE :: string where "GLOBAL_AI_SCOPE = ''all_model_calls''"
definition CLAIM_EXTRACTION_SCOPE :: string where "CLAIM_EXTRACTION_SCOPE = ''claim_extraction''"
definition HUMAN_ROLES :: "desk_role list" where
  "HUMAN_ROLES = [DR_ANALYST, DR_SENIOR_ANALYST, DR_ADMINISTRATOR, DR_SECURITY, DR_COMPLIANCE]"
definition CONTROL_ROLES :: "desk_role list" where "CONTROL_ROLES = [DR_SENIOR_ANALYST, DR_ADMINISTRATOR, DR_SECURITY]"
definition PRIVILEGED_CONTROL_ROLES :: "desk_role list" where
  "PRIVILEGED_CONTROL_ROLES = [DR_ADMINISTRATOR, DR_SECURITY]"
definition MFA_ASSURANCE :: "auth_assurance list" where "MFA_ASSURANCE = [AU_MFA, AU_PHISHING_RESISTANT]"
definition MIN_CONTROL_VALIDITY :: int where "MIN_CONTROL_VALIDITY = 5 * MINUTE"
definition MAX_CONTROL_VALIDITY :: int where "MAX_CONTROL_VALIDITY = 30 * 24 * 60 * MINUTE"

text \<open>\<open>^[a-z][a-z0-9_.:-]{2,127}$\<close>, matched in full.\<close>

definition is_lower :: "char \<Rightarrow> bool" where
  "is_lower c \<longleftrightarrow> 97 \<le> (of_char c :: nat) \<and> (of_char c :: nat) \<le> 122"

definition scope_char :: "char \<Rightarrow> bool" where
  "scope_char c \<longleftrightarrow> is_lower c \<or> is_digit c \<or> c \<in> set ''_.:-''"

definition scope_pattern :: "string \<Rightarrow> bool" where
  "scope_pattern s = (case s of [] \<Rightarrow> False
    | c # t \<Rightarrow> is_lower c \<and> list_all scope_char t \<and> 2 \<le> length t \<and> length t \<le> 127)"

section \<open>Registered systems and identities\<close>

definition canonical_manifest_json :: "(string \<times> json) list \<Rightarrow> string" where
  "canonical_manifest_json manifest = json_dumps (JObj manifest)"

definition fingerprint_manifest :: "hash \<Rightarrow> (string \<times> json) list \<Rightarrow> string" where
  "fingerprint_manifest sha256 manifest = sha256 (canonical_manifest_json manifest)"

definition register_ai_system_version ::
  "hash \<Rightarrow> desk \<Rightarrow> instant \<Rightarrow> instant \<Rightarrow> string \<Rightarrow> string \<Rightarrow> (string \<times> json) list \<Rightarrow> desk_principal \<Rightarrow>
    desk_error + (desk \<times> ai_system_row)" where
  "register_ai_system_version sha256 dk now db_now name purpose manifest p =
    (if dp_role p \<notin> set PRIVILEGED_CONTROL_ROLES
     then Inl (GovernanceFailed ''Only administrators or security can register AI systems'')
     else if dp_assurance p \<notin> set MFA_ASSURANCE then Inl (GovernanceFailed ''AI system registration requires MFA'')
     else let fingerprint = fingerprint_manifest sha256 manifest;
              schema_version = py_str (obj_get manifest ''schema_version'') in
     (case find (\<lambda>v. ais_fingerprint v = fingerprint) (dk_ai_systems dk) of
        Some existing \<Rightarrow>
          if ais_name existing \<noteq> name \<or> ais_purpose existing \<noteq> purpose
          then Inl (GovernanceFailed ''AI system fingerprint already exists with different immutable metadata'')
          else Inr (dk, existing)
      | None \<Rightarrow>
         let row = \<lparr>ais_id = dk_next dk, ais_name = name, ais_purpose = purpose,
               ais_manifest_schema_version = schema_version, ais_manifest_json = manifest,
               ais_fingerprint = fingerprint, ais_created_by_user_id = dp_user_id p, ais_created_at = now\<rparr>;
             dk1 = dk\<lparr>dk_ai_systems := dk_ai_systems dk @ [row], dk_next := dk_next dk + 1\<rparr>
         in Inr (log_audit dk1 (principal_actor p) ''ai_system_version.registered'' ''ai_system_version'' (ais_id row)
              [(''name'', JStr name), (''fingerprint'', JStr fingerprint),
               (''manifest_schema_version'', JStr schema_version),
               (''auth_assurance'', JStr (auth_assurance_value (dp_assurance p)))] db_now, row)))"

definition list_ai_system_versions :: "desk \<Rightarrow> ai_system_row list" where
  "list_ai_system_versions dk = rev (sort_key (\<lambda>v. (ais_created_at v, ais_id v)) (dk_ai_systems dk))"

record desk_identity =
  idn_auth_issuer :: string
  idn_auth_subject :: string
  idn_email :: string
  idn_display_name :: string
  idn_role :: desk_role

definition identity_row :: "uid \<Rightarrow> desk_identity \<Rightarrow> string \<Rightarrow> desk_user_row" where
  "identity_row i x created_by = \<lparr>dus_id = i, dus_auth_issuer = idn_auth_issuer x, dus_auth_subject = idn_auth_subject x,
     dus_email = casefold (idn_email x), dus_display_name = idn_display_name x, dus_role = idn_role x,
     dus_active = True, dus_created_by = created_by\<rparr>"

definition same_subject :: "desk_identity \<Rightarrow> desk_user_row \<Rightarrow> bool" where
  "same_subject x u \<longleftrightarrow> dus_auth_issuer u = idn_auth_issuer x \<and> dus_auth_subject u = idn_auth_subject x"

definition identity_audit :: "desk_identity \<Rightarrow> string \<Rightarrow> (string \<times> json) list" where
  "identity_audit x email = [(''auth_issuer'', JStr (idn_auth_issuer x)), (''auth_subject'', JStr (idn_auth_subject x)),
     (''email'', JStr email), (''role'', JStr (desk_role_value (idn_role x)))]"

text \<open>\<open>identity\<close> is the request after the checks of its model; the audit row of a creation quotes the
  request as it was given.\<close>

definition bootstrap_first_desk_user ::
  "desk \<Rightarrow> instant \<Rightarrow> desk_identity \<Rightarrow> desk_error + (desk \<times> desk_user_row)" where
  "bootstrap_first_desk_user dk db_now x =
    (case find (same_subject x) (dk_users dk) of
       Some u \<Rightarrow>
         if dus_email u = casefold (idn_email x) \<and> dus_display_name u = idn_display_name x \<and> dus_role u = idn_role x
           \<and> dus_active u
         then Inr (dk, u)
         else Inl (GovernanceFailed ''Bootstrap identity already exists with different attributes'')
     | None \<Rightarrow>
        if dk_users dk \<noteq> [] then Inl (GovernanceFailed ''Bootstrap is disabled after the first desk identity exists'')
        else let u = identity_row (dk_next dk) x ''bootstrap'';
                 dk1 = dk\<lparr>dk_users := dk_users dk @ [u], dk_next := dk_next dk + 1\<rparr>
          in Inr (log_audit dk1 ''bootstrap'' ''desk_user.bootstrapped'' ''desk_user'' (dus_id u)
               (identity_audit x (casefold (idn_email x))) db_now, u))"

definition create_desk_user ::
  "desk \<Rightarrow> instant \<Rightarrow> desk_identity \<Rightarrow> desk_identity \<Rightarrow> desk_principal \<Rightarrow> desk_error + (desk \<times> desk_user_row)" where
  "create_desk_user dk db_now given x p =
    (if dp_role p \<noteq> DR_ADMINISTRATOR then Inl (GovernanceFailed ''Only an administrator can create a desk identity'')
     else if dp_assurance p \<noteq> AU_PHISHING_RESISTANT
     then Inl (GovernanceFailed ''Desk identity creation requires phishing-resistant authentication'')
     else if list_ex (\<lambda>u. same_subject x u \<or> dus_email u = casefold (idn_email x)) (dk_users dk)
     then Inl (GovernanceFailed ''Desk identity subject or email already exists'')
     else let u = identity_row (dk_next dk) x (principal_actor p);
              dk1 = dk\<lparr>dk_users := dk_users dk @ [u], dk_next := dk_next dk + 1\<rparr>
       in Inr (log_audit dk1 (principal_actor p) ''desk_user.created'' ''desk_user'' (dus_id u)
            (identity_audit given (idn_email given) @ [(''auth_assurance'', JStr (auth_assurance_value (dp_assurance p)))])
            db_now, u))"

section \<open>Capability controls\<close>

record capability_control_create =
  ccr_mode :: ai_capability_mode
  ccr_risk_tier :: int
  ccr_system_version_id :: "uid option"
  ccr_reason :: string
  ccr_approval_refs :: "(string \<times> string) list"
  ccr_expires_at :: "instant option"

text \<open>Validation of the request model.\<close>

definition make_control_create :: "capability_control_create \<Rightarrow> desk_error + capability_control_create" where
  "make_control_create c =
    (if 0 \<le> ccr_risk_tier c \<and> ccr_risk_tier c \<le> 4 \<and> length_within 10 2000 (py_strip (ccr_reason c))
       \<and> (if ccr_mode c = AM_DISABLED then ccr_expires_at c = None else ccr_expires_at c \<noteq> None)
     then Inr (c\<lparr>ccr_reason := py_strip (ccr_reason c)\<rparr>)
     else Inl (ContractFailed ''AICapabilityControlCreate''))"

definition latest_capability_control :: "desk \<Rightarrow> string \<Rightarrow> ai_control_row option" where
  "latest_capability_control dk scope = max_row aic_revision (filter (\<lambda>c. aic_scope c = scope) (dk_ai_controls dk))"

definition list_latest_capability_controls :: "desk \<Rightarrow> ai_control_row list" where
  "list_latest_capability_controls dk = sort_key aic_scope (filter (\<lambda>c.
     list_all (\<lambda>d. aic_scope d = aic_scope c \<longrightarrow> aic_revision d \<le> aic_revision c) (dk_ai_controls dk)) (dk_ai_controls dk))"

definition validate_control_transition ::
  "instant \<Rightarrow> string \<Rightarrow> capability_control_create \<Rightarrow> desk_principal \<Rightarrow> desk_error + unit" where
  "validate_control_transition now scope c p =
    (if \<not> scope_pattern scope then Inl (GovernanceFailed ''Invalid AI capability scope'')
     else if ccr_mode c = AM_DISABLED then
       if dp_role p \<notin> set HUMAN_ROLES
       then Inl (GovernanceFailed ''A service identity cannot change a kill switch'') else Inr ()
     else if ccr_mode c = AM_AUTOMATED
     then Inl (GovernanceFailed ''Automated mode is locked until signed approvals and graduation evidence are implemented'')
     else if dp_role p \<notin> set CONTROL_ROLES then Inl (GovernanceFailed ''Desk role cannot enable an AI capability'')
     else if dp_assurance p \<notin> set MFA_ASSURANCE
     then Inl (GovernanceFailed ''Enabling an AI capability requires MFA'')
     else (case ccr_expires_at c of
       None \<Rightarrow> Inl (GovernanceFailed ''An enabled AI capability requires an expiry'')
     | Some expires_at \<Rightarrow>
        if expires_at < now + MIN_CONTROL_VALIDITY
        then Inl (GovernanceFailed ''AI capability authorization must remain valid for five minutes'')
        else if now + MAX_CONTROL_VALIDITY < expires_at
        then Inl (GovernanceFailed ''AI capability authorization cannot exceed 30 days'')
        else if scope = GLOBAL_AI_SCOPE then
          if ccr_system_version_id c \<noteq> None
          then Inl (GovernanceFailed ''The global AI switch cannot bind one system version'')
          else if ccr_risk_tier c \<noteq> 0 then Inl (GovernanceFailed ''The global AI switch must use risk tier 0'')
          else Inr ()
        else if ccr_system_version_id c = None
        then Inl (GovernanceFailed ''An enabled capability requires an AI system version'')
        else Inr ()))"

definition new_control ::
  "uid \<Rightarrow> string \<Rightarrow> capability_control_create \<Rightarrow> ai_control_row option \<Rightarrow> desk_principal \<Rightarrow> instant \<Rightarrow> ai_control_row" where
  "new_control i scope c previous p now =
    \<lparr>aic_id = i, aic_scope = scope, aic_revision = (case previous of None \<Rightarrow> 1 | Some q \<Rightarrow> aic_revision q + 1),
     aic_mode = ccr_mode c, aic_risk_tier = ccr_risk_tier c, aic_system_version_id = ccr_system_version_id c,
     aic_reason = ccr_reason c, aic_approval_refs_json = ccr_approval_refs c, aic_changed_by_user_id = dp_user_id p,
     aic_auth_assurance = dp_assurance p, aic_previous_control_id = map_option aic_id previous,
     aic_expires_at = ccr_expires_at c, aic_changed_at = now\<rparr>"

definition set_capability_control ::
  "desk \<Rightarrow> instant \<Rightarrow> instant \<Rightarrow> string \<Rightarrow> capability_control_create \<Rightarrow> desk_principal \<Rightarrow>
    desk_error + (desk \<times> ai_control_row)" where
  "set_capability_control dk now db_now scope c p =
    (let normalized_scope = casefold (py_strip scope) in
     ebind (validate_control_transition now normalized_scope c p) (\<lambda>_.
     if ccr_system_version_id c \<noteq> None \<and> get_opt ais_id (ccr_system_version_id c) (dk_ai_systems dk) = None
     then Inl (GovernanceFailed ''AI system version not found'')
     else let row = new_control (dk_next dk) normalized_scope c (latest_capability_control dk normalized_scope) p now;
              dk1 = dk\<lparr>dk_ai_controls := dk_ai_controls dk @ [row], dk_next := dk_next dk + 1\<rparr>
       in Inr (log_audit dk1 (principal_actor p) ''ai_capability_control.changed'' ''ai_capability_control'' (aic_id row)
            [(''scope'', JStr normalized_scope), (''revision'', JInt (aic_revision row)),
             (''mode'', JStr (ai_capability_mode_value (aic_mode row))), (''risk_tier'', JInt (aic_risk_tier row)),
             (''system_version_id'', j_opt j_uid (aic_system_version_id row)),
             (''previous_control_id'', j_opt j_uid (aic_previous_control_id row)), (''reason'', JStr (aic_reason row)),
             (''auth_assurance'', JStr (auth_assurance_value (dp_assurance p))),
             (''expires_at'', j_opt j_time (aic_expires_at row))] db_now, row)))"

record capability_decision_result =
  cde_allowed :: bool
  cde_reason :: string
  cde_mode :: ai_capability_mode
  cde_control_id :: "uid option"
  cde_system_version_id :: "uid option"

definition control_is_expired :: "instant \<Rightarrow> ai_control_row \<Rightarrow> bool" where
  "control_is_expired now c = (case aic_expires_at c of None \<Rightarrow> True | Some t \<Rightarrow> t \<le> now)"

definition refuse_capability :: "string \<Rightarrow> uid option \<Rightarrow> uid option \<Rightarrow> capability_decision_result" where
  "refuse_capability reason control_id version_id = \<lparr>cde_allowed = False, cde_reason = reason, cde_mode = AM_DISABLED,
     cde_control_id = control_id, cde_system_version_id = version_id\<rparr>"

definition capability_decision ::
  "desk \<Rightarrow> instant \<Rightarrow> string \<Rightarrow> string option \<Rightarrow> capability_decision_result" where
  "capability_decision dk now scope expected_fingerprint =
    (let normalized_scope = casefold (py_strip scope) in
     if \<not> scope_pattern normalized_scope then refuse_capability ''invalid-scope'' None None
     else (case latest_capability_control dk GLOBAL_AI_SCOPE of
       None \<Rightarrow> refuse_capability ''global-control-missing'' None None
     | Some g \<Rightarrow>
        if aic_mode g = AM_DISABLED then refuse_capability ''global-kill-switch-active'' (Some (aic_id g)) None
        else if control_is_expired now g then refuse_capability ''global-control-expired'' (Some (aic_id g)) None
        else if normalized_scope = GLOBAL_AI_SCOPE then
          \<lparr>cde_allowed = True, cde_reason = ''global-enabled'', cde_mode = aic_mode g, cde_control_id = Some (aic_id g),
           cde_system_version_id = None\<rparr>
        else (case latest_capability_control dk normalized_scope of
            None \<Rightarrow> refuse_capability ''scope-control-missing'' None None
          | Some c \<Rightarrow>
             if aic_mode c = AM_DISABLED then refuse_capability ''scope-kill-switch-active'' (Some (aic_id c)) None
             else if control_is_expired now c then refuse_capability ''scope-control-expired'' (Some (aic_id c)) None
             else if aic_system_version_id c = None \<or> expected_fingerprint = None
             then refuse_capability ''system-fingerprint-missing'' (Some (aic_id c)) None
             else if map_option ais_fingerprint (get_opt ais_id (aic_system_version_id c) (dk_ai_systems dk))
               \<noteq> expected_fingerprint
             then refuse_capability ''system-fingerprint-mismatch'' (Some (aic_id c)) (aic_system_version_id c)
             else \<lparr>cde_allowed = True, cde_reason = ''enabled-and-fingerprint-matched'', cde_mode = aic_mode c,
                cde_control_id = Some (aic_id c), cde_system_version_id = aic_system_version_id c\<rparr>)))"

section \<open>Incidents\<close>

definition HIGH_SEVERITIES :: "string list" where "HIGH_SEVERITIES = [''high'', ''critical'']"

record incident_create =
  icr_title :: string
  icr_capability_scope :: string
  icr_system_version_id :: "uid option"
  icr_detected_at :: instant
  icr_severity :: string
  icr_summary :: string
  icr_containment_action :: "string option"
  icr_evidence_refs :: "string list"

record incident_event_create =
  iec_status :: string
  iec_severity :: string
  iec_summary :: string
  iec_containment_action :: "string option"
  iec_evidence_refs :: "string list"

record incident_read =
  ird_incident :: ai_incident_row
  ird_status :: string
  ird_severity :: string
  ird_events :: "ai_incident_event_row list"

definition incident_events :: "desk \<Rightarrow> uid \<Rightarrow> ai_incident_event_row list" where
  "incident_events dk incident_id =
    sort_key ine_sequence (filter (\<lambda>e. ine_incident_id e = incident_id) (dk_ai_incident_events dk))"

definition read_incident :: "desk \<Rightarrow> ai_incident_row \<Rightarrow> desk_error + incident_read" where
  "read_incident dk row =
    (let events = incident_events dk (inc_id row) in
     if events = [] then Inl (GovernanceFailed ''AI incident has no lifecycle event'')
     else Inr \<lparr>ird_incident = row, ird_status = ine_status (last events), ird_severity = ine_severity (last events),
       ird_events = events\<rparr>)"

definition list_ai_incidents :: "desk \<Rightarrow> bool \<Rightarrow> desk_error + incident_read list" where
  "list_ai_incidents dk include_resolved =
    ebind (efold (\<lambda>rs row. ebind (read_incident dk row) (\<lambda>r. Inr (rs @ [r]))) []
      (rev (sort_key inc_created_at (rev (dk_ai_incidents dk))))) (\<lambda>incidents.
      Inr (if include_resolved then incidents else filter (\<lambda>r. ird_status r \<noteq> ''resolved'') incidents))"

definition append_event ::
  "desk \<Rightarrow> instant \<Rightarrow> instant \<Rightarrow> uid \<Rightarrow> int \<Rightarrow> incident_event_create \<Rightarrow> desk_principal \<Rightarrow> desk" where
  "append_event dk now db_now incident_id sequence e p =
    (let row = \<lparr>ine_id = dk_next dk, ine_incident_id = incident_id, ine_sequence = sequence, ine_status = iec_status e,
           ine_severity = iec_severity e, ine_summary = iec_summary e,
           ine_containment_action = iec_containment_action e, ine_evidence_refs_json = iec_evidence_refs e,
           ine_changed_by_user_id = dp_user_id p, ine_auth_assurance = dp_assurance p, ine_at = now\<rparr>;
         dk1 = dk\<lparr>dk_ai_incident_events := dk_ai_incident_events dk @ [row], dk_next := dk_next dk + 1\<rparr>
     in log_audit dk1 (principal_actor p) ''ai_incident.lifecycle_event'' ''ai_incident'' incident_id
          [(''event_id'', j_uid (ine_id row)), (''sequence'', JInt sequence), (''status'', JStr (iec_status e)),
           (''severity'', JStr (iec_severity e)), (''summary'', JStr (iec_summary e)),
           (''containment_action'', j_opt JStr (iec_containment_action e)),
           (''evidence_refs'', j_strs (iec_evidence_refs e)),
           (''auth_assurance'', JStr (auth_assurance_value (dp_assurance p)))] db_now)"

text \<open>Automatic containment: a high severity disables the capability scope in the same transaction.\<close>

definition containment_control :: "incident_create \<Rightarrow> capability_control_create" where
  "containment_control x = \<lparr>ccr_mode = AM_DISABLED, ccr_risk_tier = (if icr_severity x = ''critical'' then 4 else 3),
     ccr_system_version_id = None,
     ccr_reason = ''Automatic incident containment: '' @ icr_title x @ ''. '' @ icr_summary x,
     ccr_approval_refs = [], ccr_expires_at = None\<rparr>"

definition contain_scope ::
  "desk \<Rightarrow> instant \<Rightarrow> instant \<Rightarrow> string \<Rightarrow> incident_create \<Rightarrow> desk_principal \<Rightarrow>
    desk_error + (desk \<times> string \<times> string option)" where
  "contain_scope dk now db_now scope x p =
    (if icr_severity x \<in> set HIGH_SEVERITIES then
       ebind (make_control_create (containment_control x)) (\<lambda>control.
       ebind (set_capability_control dk now db_now scope control p) (\<lambda>(dk1, _).
       Inr (dk1, ''contained'', Some (if truthy (icr_containment_action x) then the (icr_containment_action x)
         else ''Automatically disabled AI capability scope '' @ scope @ '' at incident creation.''))))
     else Inr (dk, ''open'', icr_containment_action x))"

definition create_ai_incident ::
  "desk \<Rightarrow> instant \<Rightarrow> instant \<Rightarrow> incident_create \<Rightarrow> desk_principal \<Rightarrow> desk_error + (desk \<times> incident_read)" where
  "create_ai_incident dk now db_now x p =
    (let scope = casefold (icr_capability_scope x) in
     if dp_role p \<notin> set HUMAN_ROLES then Inl (GovernanceFailed ''A service identity cannot report an AI incident'')
     else if \<not> scope_pattern scope then Inl (GovernanceFailed ''Invalid AI capability scope'')
     else if icr_system_version_id x \<noteq> None \<and> get_opt ais_id (icr_system_version_id x) (dk_ai_systems dk) = None
     then Inl (GovernanceFailed ''AI system version not found'')
     else ebind (contain_scope dk now db_now scope x p) (\<lambda>(dk1, status, action).
       let row = \<lparr>inc_id = dk_next dk1, inc_title = icr_title x, inc_capability_scope = scope,
             inc_system_version_id = icr_system_version_id x, inc_detected_at = icr_detected_at x,
             inc_reported_by_user_id = dp_user_id p, inc_created_at = now\<rparr>;
           dk2 = dk1\<lparr>dk_ai_incidents := dk_ai_incidents dk1 @ [row], dk_next := dk_next dk1 + 1\<rparr>;
           dk3 = append_event dk2 now db_now (inc_id row) 1 \<lparr>iec_status = status, iec_severity = icr_severity x,
             iec_summary = icr_summary x, iec_containment_action = action,
             iec_evidence_refs = icr_evidence_refs x\<rparr> p
       in ebind (read_incident dk3 row) (\<lambda>r. Inr (dk3, r))))"

definition append_ai_incident_event ::
  "desk \<Rightarrow> instant \<Rightarrow> instant \<Rightarrow> uid \<Rightarrow> incident_event_create \<Rightarrow> desk_principal \<Rightarrow> desk_error + (desk \<times> incident_read)" where
  "append_ai_incident_event dk now db_now incident_id e p =
    (if dp_role p \<notin> set HUMAN_ROLES then Inl (GovernanceFailed ''A service identity cannot update an AI incident'')
     else (case row_get inc_id incident_id (dk_ai_incidents dk) of
       None \<Rightarrow> Inl (GovernanceFailed ''AI incident not found'')
     | Some row \<Rightarrow>
        let existing = incident_events dk (inc_id row) in
        if existing = [] then Inl (GovernanceFailed ''AI incident has no lifecycle event'')
        else if ine_status (last existing) = ''resolved''
        then Inl (GovernanceFailed ''A resolved AI incident is immutable'')
        else if iec_status e = ''contained'' \<and> \<not> truthy (iec_containment_action e)
        then Inl (GovernanceFailed ''Containment requires an explicit containment action'')
        else if iec_status e = ''resolved'' \<and> (dp_role p \<notin> set CONTROL_ROLES \<or> dp_assurance p \<notin> set MFA_ASSURANCE)
        then Inl (GovernanceFailed ''Resolving an AI incident requires an MFA-authenticated control owner'')
        else if iec_status e = ''resolved'' \<and> iec_severity e \<in> set HIGH_SEVERITIES \<and>
          \<not> list_ex (\<lambda>x. ine_status x = ''contained'' \<and> truthy (ine_containment_action x)) existing
        then Inl (GovernanceFailed ''A high-severity AI incident must be contained before resolution'')
        else let dk1 = append_event dk now db_now (inc_id row) (ine_sequence (last existing) + 1) e p
          in ebind (read_incident dk1 row) (\<lambda>r. Inr (dk1, r))))"

definition count_open_ai_incidents :: "desk \<Rightarrow> nat" where
  "count_open_ai_incidents dk = length (filter (\<lambda>e. ine_status e \<noteq> ''resolved'' \<and>
     list_all (\<lambda>d. ine_incident_id d = ine_incident_id e \<longrightarrow> ine_sequence d \<le> ine_sequence e) (dk_ai_incident_events dk))
     (dk_ai_incident_events dk))"

end
