(* ===== verification/DeskWorkspace.thy ===== *)
theory DeskWorkspace
  imports EventPublication
begin

text \<open>
  The analyst's workspace (\<open>apps/api/eastmed_api/workspace.py\<close>), the rights policy of a source
  (\<open>packages/pipeline/eastmed_pipeline/rights.py\<close>) and triage (\<open>triage.py\<close>). The signals the gazetteer
  finds in a record are an argument of \<open>ensure_triage_item\<close>.
\<close>

section \<open>Rights\<close>

record rights_decision =
  rdc_basis :: rights_basis
  rdc_automation_approved_at :: instant
  rdc_reviewer :: string
  rdc_may_publish_excerpt :: bool
  rdc_may_republish :: bool
  rdc_attribution_required :: bool

definition rights_as_dict :: "rights_decision \<Rightarrow> (string \<times> json) list" where
  "rights_as_dict r =
    [(''basis'', JStr (rights_basis_value (rdc_basis r))),
     (''automation_approved_at'', j_time (rdc_automation_approved_at r)), (''reviewer'', JStr (rdc_reviewer r)),
     (''may_publish_excerpt'', JBool (rdc_may_publish_excerpt r)), (''may_republish'', JBool (rdc_may_republish r)),
     (''attribution_required'', JBool (rdc_attribution_required r))]"

definition authorize_automation :: "source_row \<Rightarrow> desk_error + rights_decision" where
  "authorize_automation s =
    (let named = ''Source '' @ repr_str (src_name s); basis = src_rights_basis s in
     if \<not> src_active s then Inl (RightsFailed (named @ '' is inactive''))
     else (case src_automation_approved_at s of
       Some approved_at \<Rightarrow>
         if truthy (src_rights_reviewed_by s) then
           Inr \<lparr>rdc_basis = basis, rdc_automation_approved_at = approved_at,
             rdc_reviewer = the (src_rights_reviewed_by s),
             rdc_may_publish_excerpt = (basis \<in> {RB_PUBLIC_ADVISORY, RB_LICENSED, RB_ATTRIBUTE_QUOTE_MIN}),
             rdc_may_republish = (basis = RB_LICENSED), rdc_attribution_required = (basis \<noteq> RB_LICENSED)\<rparr>
         else Inl (RightsFailed (named @ '' has not been approved for automated ingestion''))
     | None \<Rightarrow> Inl (RightsFailed (named @ '' has not been approved for automated ingestion''))))"

definition authorize_public_excerpt :: "source_row \<Rightarrow> desk_error + rights_decision" where
  "authorize_public_excerpt s =
    ebind (authorize_automation s) (\<lambda>r.
      if \<not> rdc_may_publish_excerpt r
      then Inl (RightsFailed (''Source '' @ repr_str (src_name s) @ '' may verify claims but cannot be excerpted publicly''))
      else Inr r)"

section \<open>Reading a version back\<close>

text \<open>\<open>str.splitlines\<close> on ASCII text.\<close>

definition line_boundary :: "char \<Rightarrow> bool" where
  "line_boundary c \<longleftrightarrow> (let n = (of_char c :: nat) in (10 \<le> n \<and> n \<le> 13) \<or> (28 \<le> n \<and> n \<le> 30))"

fun split_lines :: "string \<Rightarrow> string \<Rightarrow> string list" where
  "split_lines acc [] = (if acc = [] then [] else [rev acc])"
| "split_lines acc (c # s) =
    (if line_boundary c then
       rev acc # split_lines [] (if c = CHR 0x0D \<and> s \<noteq> [] \<and> hd s = CHR 0x0A then tl s else s)
     else split_lines (c # acc) s)"

definition section_summary :: "event_version_row \<Rightarrow> pub_section \<Rightarrow> string" where
  "section_summary v sec = (case sec of SEC_CONFIRMED \<Rightarrow> evv_summary_confirmed v | SEC_REPORTED \<Rightarrow> evv_summary_reported v
     | SEC_UNKNOWN \<Rightarrow> evv_summary_unknown v | SEC_CHANGED \<Rightarrow> evv_whats_changed v)"

text \<open>\<open>claim_ids\<close> of the sentence at a position: by its key, else by its text (older versions), else none.\<close>

definition claims_of_line :: "(string \<times> string list) list \<Rightarrow> pub_section \<Rightarrow> nat \<Rightarrow> string \<Rightarrow> string list" where
  "claims_of_line m sec index text =
    (case map_of m (pub_section_value sec @ '':'' @ digits_of index) of
       Some ids \<Rightarrow> ids
     | None \<Rightarrow> (case map_of m text of Some ids \<Rightarrow> ids | None \<Rightarrow> []))"

fun read_lines ::
  "(string \<times> string list) list \<Rightarrow> pub_section \<Rightarrow> nat \<Rightarrow> string list \<Rightarrow> publication_sentence list option" where
  "read_lines m sec index [] = Some []"
| "read_lines m sec index (text # ts) =
    (case all_of uuid_parse (claims_of_line m sec index text) of
       None \<Rightarrow> None
     | Some ids \<Rightarrow>
        (case validate_sentence \<lparr>pse_section = sec, pse_text = text, pse_claim_ids = ids\<rparr> of
           Inl _ \<Rightarrow> None
         | Inr s \<Rightarrow> map_option ((#) s) (read_lines m sec (index + 1) ts)))"

definition section_sentences :: "event_version_row \<Rightarrow> pub_section \<Rightarrow> publication_sentence list option" where
  "section_sentences v sec = read_lines (evv_sentence_claim_map v) sec 0
     (filter (\<lambda>t. t \<noteq> []) (split_lines [] (section_summary v sec)))"

text \<open>\<open>None\<close> when an identifier does not parse or a sentence fails its model.\<close>

definition version_sentences :: "event_version_row \<Rightarrow> publication_sentence list option" where
  "version_sentences v = map_option concat (all_of (section_sentences v) pub_sections)"

section \<open>The workspace view\<close>

record workspace_evidence =
  wev_id :: uid
  wev_source_record_id :: uid
  wev_source_name :: string
  wev_source_tier :: source_tier
  wev_url :: string
  wev_directness :: directness
  wev_lineage_root_id :: uid
  wev_excerpt :: "string option"
  wev_rights_basis :: rights_basis

record workspace_claim =
  wcl_claim :: claim_row
  wcl_evidence :: "workspace_evidence list"

record workspace_source =
  wso_id :: uid
  wso_source_name :: string
  wso_source_tier :: source_tier
  wso_rights_basis :: rights_basis
  wso_url :: string
  wso_title :: "string option"
  wso_text :: string
  wso_published_at :: "instant option"
  wso_fetched_at :: instant
  wso_lineage_root_id :: "uid option"
  wso_linked_claim_ids :: "uid list"

record workspace_version =
  wvr_id :: uid
  wvr_version_no :: int
  wvr_title :: string
  wvr_sentences :: "publication_sentence list"
  wvr_published_at :: instant
  wvr_published_by :: string
  wvr_signed_off_by :: "string option"
  wvr_policy_version :: string
  wvr_model_versions :: "(string \<times> string) list"
  wvr_content_hash :: string

record event_workspace =
  wsp_event :: event_row
  wsp_title :: string
  wsp_claims :: "workspace_claim list"
  wsp_sources :: "workspace_source list"
  wsp_versions :: "workspace_version list"

primrec tier_rank :: "source_tier \<Rightarrow> nat" where
  "tier_rank TIER_A = 0" | "tier_rank TIER_B = 1" | "tier_rank TIER_C = 2" | "tier_rank TIER_D = 3" | "tier_rank TIER_E = 4"

definition record_with_source :: "desk \<Rightarrow> uid \<Rightarrow> (source_record_row \<times> source_row) option" where
  "record_with_source dk record_id = Option.bind (row_get rec_id record_id (dk_records dk)) (\<lambda>r.
     map_option (Pair r) (row_get src_id (rec_source_id r) (dk_sources dk)))"

text \<open>Evidence joined with its record and source; an inner join drops what has no partner.\<close>

definition evidence_join :: "desk \<Rightarrow> uid list \<Rightarrow> (evidence_row \<times> source_record_row \<times> source_row) list" where
  "evidence_join dk claim_ids =
    sort_key (\<lambda>(e, r, s). (tier_rank (src_tier s), rec_fetched_at r))
      (concat (map (\<lambda>e. case record_with_source dk (evd_source_record_id e) of None \<Rightarrow> [] | Some rs \<Rightarrow> [(e, rs)])
        (filter (\<lambda>e. evd_claim_id e \<in> set claim_ids) (dk_evidence dk))))"

definition workspace_evidence_of :: "evidence_row \<times> source_record_row \<times> source_row \<Rightarrow> workspace_evidence" where
  "workspace_evidence_of x = (case x of (e, r, s) \<Rightarrow>
    \<lparr>wev_id = evd_id e, wev_source_record_id = rec_id r, wev_source_name = src_name s, wev_source_tier = src_tier s,
     wev_url = rec_url r, wev_directness = evd_directness e, wev_lineage_root_id = evd_lineage_root_id e,
     wev_excerpt = evd_excerpt e, wev_rights_basis = src_rights_basis s\<rparr>)"

definition workspace_source_of ::
  "desk \<Rightarrow> (evidence_row \<times> source_record_row \<times> source_row) list \<Rightarrow> source_record_row \<times> source_row \<Rightarrow>
    workspace_source" where
  "workspace_source_of dk joined x = (case x of (r, s) \<Rightarrow>
    \<lparr>wso_id = rec_id r, wso_source_name = src_name s, wso_source_tier = src_tier s,
     wso_rights_basis = src_rights_basis s, wso_url = rec_url r, wso_title = rec_title r,
     wso_text = take 50000 (rec_extracted_text r), wso_published_at = rec_published_at r,
     wso_fetched_at = rec_fetched_at r,
     wso_lineage_root_id = map_option srl_lineage_root_id (row_get srl_source_record_id (rec_id r) (dk_record_lineage dk)),
     wso_linked_claim_ids = sort_key uuid_str (remdups (map (\<lambda>(e, _, _). evd_claim_id e)
       (filter (\<lambda>(_, q, _). rec_id q = rec_id r) joined)))\<rparr>)"

definition record_time :: "source_record_row \<Rightarrow> instant" where
  "record_time r = (case rec_published_at r of Some t \<Rightarrow> t | None \<Rightarrow> rec_fetched_at r)"

definition workspace_sources ::
  "desk \<Rightarrow> uid \<Rightarrow> (evidence_row \<times> source_record_row \<times> source_row) list \<Rightarrow> workspace_source list" where
  "workspace_sources dk event_id joined =
    (let assigned = concat (map (\<lambda>t. case record_with_source dk (tri_source_record_id t) of None \<Rightarrow> [] | Some rs \<Rightarrow> [rs])
           (filter (\<lambda>t. tri_assigned_event_id t = Some event_id) (dk_triage dk)));
         rows = map snd (foldl (\<lambda>m (r, s). AList.update (rec_id r) (r, s) m) [] (map snd joined @ assigned))
     in map (workspace_source_of dk joined) (rev (sort_key (\<lambda>(r, _). record_time r) (rev rows))))"

definition workspace_version_of :: "event_version_row \<Rightarrow> workspace_version option" where
  "workspace_version_of v = map_option (\<lambda>ss.
    \<lparr>wvr_id = evv_id v, wvr_version_no = evv_version_no v, wvr_title = evv_title v, wvr_sentences = ss,
     wvr_published_at = evv_published_at v, wvr_published_by = evv_published_by v,
     wvr_signed_off_by = evv_signed_off_by v, wvr_policy_version = evv_policy_version v,
     wvr_model_versions = evv_model_versions v, wvr_content_hash = evv_content_hash v\<rparr>) (version_sentences v)"

definition get_event_workspace :: "desk \<Rightarrow> uid \<Rightarrow> desk_error + event_workspace" where
  "get_event_workspace dk event_id =
    (case row_get evn_id event_id (dk_events dk) of
       None \<Rightarrow> Inl (LookupFailed ''Event not found'')
     | Some e \<Rightarrow>
        let claims = sort_key clm_first_seen_at (filter (\<lambda>c. clm_event_id c = event_id) (dk_claims dk));
            joined = evidence_join dk (map clm_id claims)
        in (case all_of workspace_version_of (rev (sort_key evv_version_no
               (filter (\<lambda>v. evv_event_id v = event_id) (dk_versions dk)))) of
              None \<Rightarrow> Inl (ContractFailed ''PublicationSentence'')
            | Some versions \<Rightarrow> Inr
                \<lparr>wsp_event = e,
                 wsp_title = (case versions of v # _ \<Rightarrow> wvr_title v
                   | [] \<Rightarrow> map (\<lambda>c. if c = CHR ''-'' then CHR '' '' else c) (evn_slug e)),
                 wsp_claims = map (\<lambda>c. \<lparr>wcl_claim = c, wcl_evidence = map workspace_evidence_of
                   (filter (\<lambda>(x, _, _). evd_claim_id x = clm_id c) joined)\<rparr>) claims,
                 wsp_sources = workspace_sources dk event_id joined, wsp_versions = versions\<rparr>))"

section \<open>Claims\<close>

record claim_create =
  ccl_text :: string
  ccl_claimant :: "string option"
  ccl_claim_state :: claim_state
  ccl_occurred_at :: "instant option"
  ccl_reviewer :: string
  ccl_sensitivity_flags :: "string list"

text \<open>\<open>reviewer_is_human\<close> of the request models.\<close>

definition make_claim_create :: "claim_create \<Rightarrow> desk_error + claim_create" where
  "make_claim_create c =
    (if length_within 3 10000 (ccl_text c) \<and> (case ccl_claimant c of None \<Rightarrow> True | Some s \<Rightarrow> length s \<le> 255)
       \<and> length_within 2 255 (ccl_reviewer c) \<and> length (ccl_sensitivity_flags c) \<le> 20 \<and> \<not> is_model (ccl_reviewer c)
     then Inr c else Inl (ContractFailed ''ClaimCreate''))"

definition create_claim ::
  "desk \<Rightarrow> instant \<Rightarrow> instant \<Rightarrow> uid \<Rightarrow> claim_create \<Rightarrow> desk_error + (desk \<times> claim_row)" where
  "create_claim dk now db_now event_id x =
    (if row_get evn_id event_id (dk_events dk) = None then Inl (LookupFailed ''Event not found'')
     else let c = \<lparr>clm_id = dk_next dk, clm_event_id = event_id, clm_text = ccl_text x, clm_claimant = ccl_claimant x,
              clm_claim_state = ccl_claim_state x, clm_occurred_at = ccl_occurred_at x, clm_geo = None,
              clm_quantity_json = [], clm_proposed_by = ccl_reviewer x, clm_reviewed_by = Some (ccl_reviewer x),
              clm_second_reviewed_by = None, clm_second_review_approval_id = None, clm_reviewed_at = Some now,
              clm_sensitivity_flags = ccl_sensitivity_flags x, clm_first_seen_at = now\<rparr>;
            dk1 = dk\<lparr>dk_claims := dk_claims dk @ [c], dk_next := dk_next dk + 1\<rparr>
       in Inr (log_audit dk1 (ccl_reviewer x) ''claim.created'' ''claim'' (clm_id c)
            [(''event_id'', j_uid event_id), (''text'', JStr (clm_text c)), (''claimant'', j_opt JStr (clm_claimant c)),
             (''claim_state'', JStr (claim_state_value (clm_claim_state c))),
             (''sensitivity_flags'', j_strs (clm_sensitivity_flags c))] db_now, c))"

text \<open>An update names the fields it sets: \<open>None\<close> is a field left out of the request. A null for the
  list of flags, which would leave the row outside its declared type, is not modelled.\<close>

record claim_update =
  clu_text :: "string option option"
  clu_claimant :: "string option option"
  clu_claim_state :: "claim_state option option"
  clu_occurred_at :: "instant option option"
  clu_sensitivity_flags :: "string list option"
  clu_reviewer :: string
  clu_second_reviewed_by :: "string option option"

definition sets_content :: "claim_update \<Rightarrow> bool" where
  "sets_content u \<longleftrightarrow> clu_text u \<noteq> None \<or> clu_claimant u \<noteq> None \<or> clu_claim_state u \<noteq> None
     \<or> clu_occurred_at u \<noteq> None \<or> clu_sensitivity_flags u \<noteq> None"

definition make_claim_update :: "claim_update \<Rightarrow> desk_error + claim_update" where
  "make_claim_update u =
    (let opt_within = \<lambda>lo hi x. (case x of Some (Some s) \<Rightarrow> length_within lo hi s | _ \<Rightarrow> True) in
     if opt_within 3 10000 (clu_text u) \<and> opt_within 0 255 (clu_claimant u)
       \<and> (case clu_sensitivity_flags u of Some fs \<Rightarrow> length fs \<le> 20 | None \<Rightarrow> True)
       \<and> length_within 2 255 (clu_reviewer u) \<and> opt_within 2 255 (clu_second_reviewed_by u)
       \<and> \<not> is_model (clu_reviewer u)
       \<and> \<not> (case clu_second_reviewed_by u of Some (Some s) \<Rightarrow> is_model s | _ \<Rightarrow> False)
       \<and> (sets_content u \<or> clu_second_reviewed_by u \<noteq> None)
     then Inr u else Inl (ContractFailed ''ClaimUpdate''))"

definition claim_audit_view :: "claim_row \<Rightarrow> json" where
  "claim_audit_view c = JObj
    [(''text'', JStr (clm_text c)), (''claimant'', j_opt JStr (clm_claimant c)),
     (''claim_state'', JStr (claim_state_value (clm_claim_state c))), (''occurred_at'', j_opt j_time (clm_occurred_at c)),
     (''sensitivity_flags'', j_strs (clm_sensitivity_flags c)),
     (''second_reviewed_by'', j_opt JStr (clm_second_reviewed_by c)),
     (''second_review_approval_id'', j_opt j_uid (clm_second_review_approval_id c))]"

definition updated_claim :: "claim_update \<Rightarrow> instant \<Rightarrow> claim_row \<Rightarrow> claim_row" where
  "updated_claim u now c =
    (let c1 = c\<lparr>clm_text := (case clu_text u of Some (Some t) \<Rightarrow> t | _ \<Rightarrow> clm_text c),
           clm_claimant := (case clu_claimant u of Some v \<Rightarrow> v | None \<Rightarrow> clm_claimant c),
           clm_claim_state := (case clu_claim_state u of Some (Some s) \<Rightarrow> s | _ \<Rightarrow> clm_claim_state c),
           clm_occurred_at := (case clu_occurred_at u of Some v \<Rightarrow> v | None \<Rightarrow> clm_occurred_at c),
           clm_sensitivity_flags := (case clu_sensitivity_flags u of Some fs \<Rightarrow> fs | None \<Rightarrow> clm_sensitivity_flags c),
           clm_reviewed_by := Some (clu_reviewer u), clm_reviewed_at := Some now\<rparr>;
         c2 = (if sets_content u then c1\<lparr>clm_second_reviewed_by := None, clm_second_review_approval_id := None\<rparr> else c1)
     in (case clu_second_reviewed_by u of
           Some s \<Rightarrow> c2\<lparr>clm_second_reviewed_by := s, clm_second_review_approval_id := None\<rparr>
         | None \<Rightarrow> c2))"

text \<open>A null text or state breaks the row before it is stored.\<close>

definition update_claim ::
  "desk \<Rightarrow> instant \<Rightarrow> instant \<Rightarrow> uid \<Rightarrow> uid \<Rightarrow> claim_update \<Rightarrow> desk_error + (desk \<times> claim_row)" where
  "update_claim dk now db_now event_id claim_id u =
    (case row_get clm_id claim_id (dk_claims dk) of
       None \<Rightarrow> Inl (LookupFailed ''Claim not found'')
     | Some c \<Rightarrow>
        if clm_event_id c \<noteq> event_id then Inl (LookupFailed ''Claim not found'')
        else if clu_second_reviewed_by u = Some (Some (clu_reviewer u)) \<and> clu_reviewer u \<noteq> []
        then Inl (WorkspaceFailed ''Second review must be performed by another analyst'')
        else if clu_text u = Some None \<or> clu_claim_state u = Some None then Inl DeskIntegrityError
        else let dk1 = dk\<lparr>dk_claims := row_upd clm_id claim_id (updated_claim u now) (dk_claims dk)\<rparr>
          in Inr (log_audit dk1 (clu_reviewer u) ''claim.updated'' ''claim'' claim_id
               [(''event_id'', j_uid event_id), (''before'', claim_audit_view c),
                (''after'', claim_audit_view (updated_claim u now c))] db_now, updated_claim u now c))"

section \<open>Evidence\<close>

record evidence_link_create =
  elc_source_record_id :: uid
  elc_directness :: directness
  elc_excerpt :: "string option"
  elc_reviewer :: string

definition make_evidence_link :: "evidence_link_create \<Rightarrow> desk_error + evidence_link_create" where
  "make_evidence_link x =
    (if (case elc_excerpt x of None \<Rightarrow> True | Some s \<Rightarrow> length s \<le> 5000) \<and> length_within 2 255 (elc_reviewer x)
       \<and> \<not> is_model (elc_reviewer x)
     then Inr x else Inl (ContractFailed ''EvidenceLinkCreate''))"

text \<open>The lineage of a record, created on first use.\<close>

definition ensure_lineage ::
  "desk \<Rightarrow> instant \<Rightarrow> source_record_row \<Rightarrow> source_row \<Rightarrow> string \<Rightarrow> desk \<times> record_lineage_row" where
  "ensure_lineage dk now r s reviewer =
    (case row_get srl_source_record_id (rec_id r) (dk_record_lineage dk) of
       Some l \<Rightarrow> (dk, l)
     | None \<Rightarrow>
        let new_root = \<lparr>lrt_id = dk_next dk, lrt_description = ''Single-source lineage for '' @ rec_canonical_url r,
              lrt_origin_source_id = Some (src_id s), lrt_origin_url = Some (rec_canonical_url r),
              lrt_first_seen_at = record_time r\<rparr>;
            l = \<lparr>srl_source_record_id = rec_id r, srl_lineage_root_id = lrt_id new_root, srl_proposal_id = None,
              srl_assigned_by = reviewer, srl_assigned_at = now\<rparr>
        in (dk\<lparr>dk_lineage_roots := dk_lineage_roots dk @ [new_root], dk_next := dk_next dk + 1,
              dk_record_lineage := dk_record_lineage dk @ [l]\<rparr>, l))"

definition add_evidence ::
  "desk \<Rightarrow> instant \<Rightarrow> instant \<Rightarrow> uid \<Rightarrow> claim_row \<Rightarrow> source_record_row \<Rightarrow> source_row \<Rightarrow> rights_decision \<Rightarrow>
    evidence_link_create \<Rightarrow> desk \<times> evidence_row" where
  "add_evidence dk now db_now event_id c r s rights x =
    (case ensure_lineage dk now r s (elc_reviewer x) of (dk1, l) \<Rightarrow>
     let e = \<lparr>evd_id = dk_next dk1, evd_source_record_id = rec_id r, evd_claim_id = clm_id c,
           evd_directness = elc_directness x, evd_lineage_root_id = srl_lineage_root_id l, evd_excerpt = elc_excerpt x,
           evd_capture_snapshot_r2 = rec_raw_ref_r2 r, evd_rights_decision = rights_as_dict rights\<rparr>;
         dk2 = dk1\<lparr>dk_claims := row_upd clm_id (clm_id c) (\<lambda>c. c\<lparr>clm_second_reviewed_by := None,
             clm_second_review_approval_id := None\<rparr>) (dk_claims dk1),
           dk_evidence := dk_evidence dk1 @ [e], dk_next := dk_next dk1 + 1\<rparr>
     in (log_audit dk2 (elc_reviewer x) ''evidence.linked'' ''evidence'' (evd_id e)
          [(''event_id'', j_uid event_id), (''claim_id'', j_uid (clm_id c)), (''source_record_id'', j_uid (rec_id r)),
           (''directness'', JStr (directness_value (evd_directness e))),
           (''lineage_root_id'', j_uid (evd_lineage_root_id e)), (''rights_decision'', JObj (evd_rights_decision e))] db_now,
         e))"

definition link_evidence ::
  "desk \<Rightarrow> instant \<Rightarrow> instant \<Rightarrow> uid \<Rightarrow> uid \<Rightarrow> evidence_link_create \<Rightarrow> desk_error + (desk \<times> evidence_row)" where
  "link_evidence dk now db_now event_id claim_id x =
    (case row_get clm_id claim_id (dk_claims dk) of
       None \<Rightarrow> Inl (LookupFailed ''Claim not found'')
     | Some c \<Rightarrow>
        if clm_event_id c \<noteq> event_id then Inl (LookupFailed ''Claim not found'')
        else (case row_get rec_id (elc_source_record_id x) (dk_records dk) of
            None \<Rightarrow> Inl (LookupFailed ''Source record not found'')
          | Some r \<Rightarrow>
             (case row_get src_id (rec_source_id r) (dk_sources dk) of
                None \<Rightarrow> Inl (LookupFailed ''Source not found'')
              | Some s \<Rightarrow>
                 if unsafe_scan (rec_security_scan r)
                 then Inl (WorkspaceFailed ''Quarantined source records cannot be linked as evidence'')
                 else if \<not> list_ex (\<lambda>t. tri_source_record_id t = rec_id r \<and> tri_assigned_event_id t = Some event_id)
                   (dk_triage dk)
                 then Inl (WorkspaceFailed ''Source record is not assigned to this event'')
                 else if list_ex (\<lambda>e. evd_claim_id e = claim_id \<and> evd_source_record_id e = rec_id r) (dk_evidence dk)
                 then Inl (WorkspaceFailed ''Source record is already linked to this claim'')
                 else ebind (if truthy (elc_excerpt x) \<and> py_strip (the (elc_excerpt x)) \<noteq> []
                      then authorize_public_excerpt s else authorize_automation s) (\<lambda>rights.
                   Inr (add_evidence dk now db_now event_id c r s rights x)))))"

section \<open>Triage\<close>

record gazetteer_signals =
  gzs_corridors :: "corridor list"
  gzs_ports :: "(string \<times> json) list list"
  gzs_event_types :: "event_type list"

definition ensure_triage_item ::
  "desk \<Rightarrow> instant \<Rightarrow> (source_record_row \<Rightarrow> gazetteer_signals) \<Rightarrow> source_record_row \<Rightarrow> desk \<times> triage_item_row" where
  "ensure_triage_item dk db_now detect r =
    (case find (\<lambda>t. tri_source_record_id t = rec_id r) (dk_triage dk) of
       Some t \<Rightarrow> (dk, t)
     | None \<Rightarrow>
        let t = \<lparr>tri_id = dk_next dk, tri_source_record_id = rec_id r, tri_status = TR_PENDING,
              tri_detected_corridors = map corridor_value (gzs_corridors (detect r)),
              tri_detected_ports = gzs_ports (detect r),
              tri_suggested_event_types = map event_type_value (gzs_event_types (detect r)),
              tri_assigned_event_id = None, tri_created_at = db_now, tri_reviewed_at = None, tri_reviewed_by = None,
              tri_dismissal_reason = None\<rparr>
        in (dk\<lparr>dk_triage := dk_triage dk @ [t], dk_next := dk_next dk + 1\<rparr>, t))"

definition backfill_triage_items ::
  "desk \<Rightarrow> instant \<Rightarrow> (source_record_row \<Rightarrow> gazetteer_signals) \<Rightarrow> nat \<Rightarrow> desk \<times> nat" where
  "backfill_triage_items dk db_now detect limit =
    (let rows = take limit (sort_key (\<lambda>r. (rec_fetched_at r, rec_id r)) (filter (\<lambda>r.
           \<not> list_ex (\<lambda>t. tri_source_record_id t = rec_id r) (dk_triage dk)) (dk_records dk)))
     in (foldl (\<lambda>dk r. fst (ensure_triage_item dk db_now detect r)) dk rows, length rows))"

record triage_action_input =
  tai_action :: triage_action
  tai_reviewer :: string
  tai_reason :: "string option"
  tai_event_id :: "uid option"
  tai_title :: "string option"
  tai_event_type :: "event_type option"
  tai_corridor :: "corridor option"
  tai_severity :: "int option"
  tai_occurred_start :: "instant option"

text \<open>\<open>re.sub(r"[^a-z0-9]+", "-", title.casefold()).strip("-")[:220]\<close>.\<close>

definition slug_char :: "char \<Rightarrow> bool" where
  "slug_char c \<longleftrightarrow> is_digit c \<or> (97 \<le> (of_char c :: nat) \<and> (of_char c :: nat) \<le> 122)"

fun dashes :: "bool \<Rightarrow> string \<Rightarrow> string" where
  "dashes pending [] = (if pending then ''-'' else [])"
| "dashes pending (c # s) =
    (if slug_char c then (if pending then [CHR ''-'', c] else [c]) @ dashes False s else dashes True s)"

definition strip_dashes :: "string \<Rightarrow> string" where
  "strip_dashes s = rev (dropWhile (\<lambda>c. c = CHR ''-'') (rev (dropWhile (\<lambda>c. c = CHR ''-'') s)))"

definition event_slug :: "string \<Rightarrow> uid \<Rightarrow> string" where
  "event_slug title item_id =
    (let stem = take 220 (strip_dashes (dashes False (casefold title)))
     in (if stem = [] then ''event'' else stem) @ ''-'' @ take 8 (uuid_str item_id))"

definition triaged ::
  "triage_status \<Rightarrow> uid option \<Rightarrow> instant \<Rightarrow> string \<Rightarrow> string option \<Rightarrow> triage_item_row \<Rightarrow> triage_item_row" where
  "triaged status event_id now reviewer dismissal t =
    t\<lparr>tri_status := status, tri_assigned_event_id := event_id, tri_reviewed_at := Some now,
      tri_reviewed_by := Some reviewer,
      tri_dismissal_reason := (if dismissal = None then tri_dismissal_reason t else dismissal)\<rparr>"

definition new_event :: "uid \<Rightarrow> triage_action_input \<Rightarrow> uid \<Rightarrow> instant \<Rightarrow> event_row" where
  "new_event i x item_id db_now =
    \<lparr>evn_id = i, evn_slug = event_slug (the (tai_title x)) item_id, evn_event_type = the (tai_event_type x),
     evn_corridor = the (tai_corridor x), evn_geo = None, evn_geo_precision = None, evn_status = ES_MONITORING,
     evn_severity = the (tai_severity x), evn_occurred_start = tai_occurred_start x, evn_occurred_end = None,
     evn_created_at = db_now, evn_closed_at = None\<rparr>"

text \<open>The effect of an action: the store with a new event if any, the event, the status, the payload
  and the reason of a dismissal.\<close>

definition triage_effect ::
  "desk \<Rightarrow> instant \<Rightarrow> triage_item_row \<Rightarrow> triage_action_input \<Rightarrow>
    desk_error + (desk \<times> uid option \<times> triage_status \<times> (string \<times> json) list \<times> string option)" where
  "triage_effect dk db_now t x =
    (case tai_action x of
       TA_ATTACH \<Rightarrow>
         (case tai_event_id x of
            None \<Rightarrow> Inl (TriageFailed ''Attach requires an event_id'')
          | Some i \<Rightarrow>
             if row_get evn_id i (dk_events dk) = None then Inl (LookupFailed ''Event not found'')
             else Inr (dk, Some i, TR_ATTACHED, [], None))
     | TA_NEW_EVENT \<Rightarrow>
         if \<not> truthy (tai_title x) \<or> tai_event_type x = None \<or> tai_corridor x = None \<or> tai_severity x = None
         then Inl (TriageFailed ''New event requires title, event_type, corridor, and severity'')
         else if the (tai_severity x) < 1 \<or> 4 < the (tai_severity x)
         then Inl (TriageFailed ''Severity must be between 1 and 4'')
         else let e = new_event (dk_next dk) x (tri_id t) db_now in
           if list_ex (\<lambda>q. evn_slug q = evn_slug e) (dk_events dk) then Inl DeskIntegrityError
           else Inr (dk\<lparr>dk_events := dk_events dk @ [e], dk_next := dk_next dk + 1\<rparr>, Some (evn_id e), TR_NEW_EVENT,
             [(''title'', j_opt JStr (tai_title x)), (''event_type'', JStr (event_type_value (evn_event_type e))),
              (''corridor'', JStr (corridor_value (evn_corridor e))), (''severity'', JInt (evn_severity e)),
              (''occurred_start'', j_opt j_time (tai_occurred_start x))], None)
     | TA_DISMISS \<Rightarrow>
         if \<not> truthy (tai_reason x) \<or> py_strip (the (tai_reason x)) = []
         then Inl (TriageFailed ''Dismiss requires a reason'')
         else Inr (dk, None, TR_DISMISSED, [], Some (py_strip (the (tai_reason x)))))"

definition apply_triage_action ::
  "desk \<Rightarrow> instant \<Rightarrow> instant \<Rightarrow> uid \<Rightarrow> triage_action_input \<Rightarrow> desk_error + (desk \<times> triage_decision_row)" where
  "apply_triage_action dk now db_now item_id x =
    (if is_model (tai_reviewer x) then Inl (TriageFailed ''A model cannot make a triage decision'')
     else (case row_get tri_id item_id (dk_triage dk) of
       None \<Rightarrow> Inl (LookupFailed ''Triage item not found'')
     | Some t \<Rightarrow>
        if tri_status t \<noteq> TR_PENDING
        then Inl (TriageFailed (''Triage item is already '' @ triage_status_value (tri_status t)))
        else (case row_get rec_id (tri_source_record_id t) (dk_records dk) of
            None \<Rightarrow> Inl (LookupFailed ''Source record not found'')
          | Some r \<Rightarrow>
             if unsafe_scan (rec_security_scan r) \<and> tai_action x \<noteq> TA_DISMISS
             then Inl (TriageFailed ''Quarantined source records must be dismissed or cleared through the security runbook'')
             else ebind (triage_effect dk db_now t x) (\<lambda>(dk1, event_id, status, payload, dismissal).
               let d = \<lparr>trd_id = dk_next dk1, trd_triage_item_id = tri_id t, trd_action = tai_action x,
                     trd_reviewer = tai_reviewer x, trd_reason = tai_reason x, trd_event_id = event_id,
                     trd_payload_json = payload, trd_at = now\<rparr>;
                   dk2 = dk1\<lparr>dk_triage := row_upd tri_id item_id
                       (triaged status event_id now (tai_reviewer x) dismissal) (dk_triage dk1),
                     dk_triage_decisions := dk_triage_decisions dk1 @ [d], dk_next := dk_next dk1 + 1\<rparr>
               in Inr (log_audit dk2 (tai_reviewer x) (''triage.'' @ triage_action_value (tai_action x)) ''triage_item''
                    (tri_id t) ([(''source_record_id'', j_uid (tri_source_record_id t)),
                      (''event_id'', j_opt j_uid event_id), (''reason'', j_opt JStr (tai_reason x))] @ payload) db_now,
                  d)))))"

end
