(* ===== verification/DeskLineage.thy ===== *)
theory DeskLineage
  imports DeskWorkspace Release
begin

text \<open>
  Lineage of source records (\<open>packages/pipeline/eastmed_pipeline/lineage.py\<close>): token features and
  near-duplicate scores, credit lines, generation of proposals, their human review and the graduation
  of a component. The keyed digest of the standard library and the square root of the C library are
  the parameters \<open>blake\<close> and \<open>sqrt_lib\<close>; on ASCII text the Unicode normalisation is the identity and
  the pattern of Greek letters matches nothing.
\<close>

definition REGISTRY_COMPONENT_VERSION :: string where "REGISTRY_COMPONENT_VERSION = ''registry-lineage-v1''"
definition CREDIT_COMPONENT_VERSION :: string where "CREDIT_COMPONENT_VERSION = ''credit-line-v1''"
definition LEXICAL_COMPONENT_VERSION :: string where "LEXICAL_COMPONENT_VERSION = ''lexical-near-dup-v1''"
definition MINHASH_PERMUTATIONS :: nat where "MINHASH_PERMUTATIONS = 64"
definition MINIMUM_TOKEN_COUNT :: nat where "MINIMUM_TOKEN_COUNT = 20"
definition COSINE_THRESHOLD :: float64 where "COSINE_THRESHOLD = fl (92 / 100)"
definition MINHASH_THRESHOLD :: float64 where "MINHASH_THRESHOLD = fl (75 / 100)"

section \<open>Text features\<close>

definition is_alnum :: "char \<Rightarrow> bool" where
  "is_alnum c \<longleftrightarrow> is_digit c \<or> (let n = (of_char c :: nat) in (65 \<le> n \<and> n \<le> 90) \<or> (97 \<le> n \<and> n \<le> 122))"

definition is_word :: "char \<Rightarrow> bool" where "is_word c \<longleftrightarrow> is_alnum c \<or> c = CHR ''_''"

text \<open>\<open>[^\W_]+\<close>, all matches.\<close>

fun alnum_runs :: "string \<Rightarrow> string \<Rightarrow> string list" where
  "alnum_runs acc [] = (if acc = [] then [] else [rev acc])"
| "alnum_runs acc (c # s) =
    (if is_alnum c then alnum_runs (c # acc) s
     else (if acc = [] then [] else [rev acc]) @ alnum_runs [] s)"

definition normalize_tokens :: "string \<Rightarrow> string list" where
  "normalize_tokens text = alnum_runs [] (casefold text)"

definition shingles :: "string list \<Rightarrow> string list" where
  "shingles tokens =
    (if tokens = [] then [] else if length tokens < 5 then [join '' '' tokens]
     else map (\<lambda>i. join '' '' (take 5 (drop i tokens))) [0..<length tokens - 4])"

text \<open>\<open>blake seed item\<close> is the number read from the digest of the two seed bytes and the item.\<close>

definition minhash_signature :: "(nat \<Rightarrow> string \<Rightarrow> nat) \<Rightarrow> string list \<Rightarrow> nat list" where
  "minhash_signature blake tokens =
    (let ss = shingles tokens in
     if ss = [] then [] else map (\<lambda>seed. Min (blake seed ` set ss)) [0..<MINHASH_PERMUTATIONS])"

record text_features =
  tfe_tokens :: "string list"
  tfe_counts :: "(string \<times> nat) list"
  tfe_minhash :: "nat list"

text \<open>\<open>Counter(tokens)\<close>, in order of first occurrence.\<close>

definition counter :: "string list \<Rightarrow> (string \<times> nat) list" where
  "counter tokens = map (\<lambda>t. (t, count_list tokens t)) (dedup tokens)"

definition build_text_features :: "(nat \<Rightarrow> string \<Rightarrow> nat) \<Rightarrow> string \<Rightarrow> text_features" where
  "build_text_features blake text =
    (let tokens = normalize_tokens text in
     \<lparr>tfe_tokens = tokens, tfe_counts = counter tokens, tfe_minhash = minhash_signature blake tokens\<rparr>)"

definition count_of :: "(string \<times> nat) list \<Rightarrow> string \<Rightarrow> nat" where
  "count_of m t = (case map_of m t of Some n \<Rightarrow> n | None \<Rightarrow> 0)"

definition cosine_similarity ::
  "(float64 \<Rightarrow> float64) \<Rightarrow> (string \<times> nat) list \<Rightarrow> (string \<times> nat) list \<Rightarrow> float64" where
  "cosine_similarity sqrt_lib left right =
    (if left = [] \<or> right = [] then 0
     else let dot = sum_list (map (\<lambda>(t, n). n * count_of right t) left);
              norm = \<lambda>m. sqrt_lib (fl (of_nat (sum_list (map (\<lambda>(t, n). n * n) m))))
          in if norm left \<noteq> 0 \<and> norm right \<noteq> 0 then fdiv (fl (of_nat dot)) (fmul (norm left) (norm right)) else 0)"

definition float_sum :: "float64 list \<Rightarrow> float64" where "float_sum xs = foldl fadd 0 xs"

definition vector_cosine_similarity :: "(float64 \<Rightarrow> float64) \<Rightarrow> float64 list \<Rightarrow> float64 list \<Rightarrow> float64" where
  "vector_cosine_similarity sqrt_lib left right =
    (if left = [] \<or> length left \<noteq> length right then 0
     else let dot = float_sum (map2 fmul left right); norm = \<lambda>xs. sqrt_lib (float_sum (map (\<lambda>x. fmul x x) xs))
          in if norm left \<noteq> 0 \<and> norm right \<noteq> 0 then fdiv dot (fmul (norm left) (norm right)) else 0)"

definition minhash_similarity :: "nat list \<Rightarrow> nat list \<Rightarrow> float64" where
  "minhash_similarity left right =
    (if left = [] \<or> length left \<noteq> length right then 0
     else int_ratio (int (length (filter (\<lambda>(a, b). a = b) (zip left right)))) (int (length left)))"

record near_duplicate_score =
  nds_cosine :: float64
  nds_minhash :: float64

definition score_qualifies :: "near_duplicate_score \<Rightarrow> bool" where
  "score_qualifies s \<longleftrightarrow> COSINE_THRESHOLD \<le> nds_cosine s \<and> MINHASH_THRESHOLD \<le> nds_minhash s"

definition score_near_duplicate :: "(float64 \<Rightarrow> float64) \<Rightarrow> text_features \<Rightarrow> text_features \<Rightarrow> near_duplicate_score" where
  "score_near_duplicate sqrt_lib left right =
    \<lparr>nds_cosine = cosine_similarity sqrt_lib (tfe_counts left) (tfe_counts right),
     nds_minhash = minhash_similarity (tfe_minhash left) (tfe_minhash right)\<rparr>"

section \<open>Credit lines\<close>

text \<open>\<open>\b(?:...)\b\<close> with \<open>IGNORECASE\<close>: one of the phrases between word boundaries.\<close>

fun has_phrase :: "bool \<Rightarrow> string list \<Rightarrow> string \<Rightarrow> bool" where
  "has_phrase after_word phrases [] = False"
| "has_phrase after_word phrases (c # s) =
    ((\<not> after_word \<and> list_ex (\<lambda>p. starts_with p (c # s) \<and>
        (case drop (length p) (c # s) of [] \<Rightarrow> True | d # _ \<Rightarrow> \<not> is_word d)) phrases) \<or>
     has_phrase (is_word c) phrases s)"

definition CREDIT_PATTERNS :: "(string \<times> string list) list" where
  "CREDIT_PATTERNS =
    [(''Reuters'', [''reuters'']), (''Associated Press'', [''associated press'', ''ap'']),
     (''Agence France-Presse'', [''agence france-presse'', ''agence france presse'', ''afp'']),
     (''Athens-Macedonian News Agency'', []), (''Anadolu Agency'', [''anadolu agency'', ''aa''])]"

definition parse_credit_lines :: "string \<Rightarrow> string list" where
  "parse_credit_lines text =
    map fst (filter (\<lambda>(_, phrases). has_phrase False phrases (casefold text)) CREDIT_PATTERNS)"

section \<open>Proposals\<close>

definition proposal_key ::
  "hash \<Rightarrow> uid \<Rightarrow> uid option \<Rightarrow> uid option \<Rightarrow> string option \<Rightarrow> string \<Rightarrow> string" where
  "proposal_key sha256 subject candidate origin_source origin_name component =
    (let opt = \<lambda>u. (case u of None \<Rightarrow> [] | Some i \<Rightarrow> uuid_str i) in
     sha256 (join ''|'' [uuid_str subject, opt candidate, opt origin_source,
       (case origin_name of None \<Rightarrow> [] | Some n \<Rightarrow> n), component]))"

record proposal_draft =
  pdr_subject :: uid
  pdr_candidate :: "uid option"
  pdr_origin_source :: "uid option"
  pdr_origin_name :: "string option"
  pdr_score :: float64
  pdr_signals :: "(string \<times> json) list"
  pdr_component :: string

definition add_proposal :: "hash \<Rightarrow> instant \<Rightarrow> desk \<Rightarrow> proposal_draft \<Rightarrow> desk \<times> bool" where
  "add_proposal sha256 db_now dk d =
    (let key = proposal_key sha256 (pdr_subject d) (pdr_candidate d) (pdr_origin_source d) (pdr_origin_name d)
           (pdr_component d) in
     if list_ex (\<lambda>p. lpr_proposal_key p = key) (dk_lineage_proposals dk) then (dk, False)
     else (dk\<lparr>dk_lineage_proposals := dk_lineage_proposals dk @
        [\<lparr>lpr_id = dk_next dk, lpr_proposal_key = key, lpr_subject_record_id = pdr_subject d,
          lpr_candidate_record_id = pdr_candidate d, lpr_proposed_origin_source_id = pdr_origin_source d,
          lpr_proposed_origin_name = pdr_origin_name d, lpr_score = max 0 (min 1 (pdr_score d)),
          lpr_signals_json = pdr_signals d, lpr_status = LP_PENDING, lpr_component_version = pdr_component d,
          lpr_created_at = db_now\<rparr>], dk_next := dk_next dk + 1\<rparr>, True))"

definition match_origin_source :: "source_row list \<Rightarrow> string \<Rightarrow> source_row option" where
  "match_origin_source sources canonical_name =
    (let needle = casefold canonical_name in
     find (\<lambda>s. let haystack = casefold (join '' '' (filter (\<lambda>p. p \<noteq> [])
         [src_name s, case src_legal_entity s of None \<Rightarrow> [] | Some l \<Rightarrow> l]))
       in contains needle haystack \<or> contains haystack needle) sources)"

text \<open>The proposals a record gives rise to by itself: syndication from the registry, then credit lines.\<close>

definition registry_drafts :: "desk \<Rightarrow> source_record_row \<Rightarrow> proposal_draft list" where
  "registry_drafts dk r =
    (case Option.bind (row_get src_id (rec_source_id r) (dk_sources dk)) src_syndicates_from_id of
       None \<Rightarrow> []
     | Some i \<Rightarrow> [\<lparr>pdr_subject = rec_id r, pdr_candidate = None, pdr_origin_source = Some i,
         pdr_origin_name = map_option src_name (row_get src_id i (dk_sources dk)), pdr_score = 1,
         pdr_signals = [(''registry_syndicates_from'', j_uid i)], pdr_component = REGISTRY_COMPONENT_VERSION\<rparr>])"

definition credit_drafts :: "desk \<Rightarrow> source_record_row \<Rightarrow> proposal_draft list" where
  "credit_drafts dk r =
    map (\<lambda>name. \<lparr>pdr_subject = rec_id r, pdr_candidate = None,
        pdr_origin_source = map_option src_id (match_origin_source (dk_sources dk) name),
        pdr_origin_name = Some name, pdr_score = fl (99 / 100), pdr_signals = [(''credit_line'', JStr name)],
        pdr_component = CREDIT_COMPONENT_VERSION\<rparr>)
      (parse_credit_lines ((case rec_title r of None \<Rightarrow> [] | Some t \<Rightarrow> t) @ [CHR 0x0A] @ rec_extracted_text r))"

record duplicate_candidate =
  dca_cosine :: float64
  dca_record :: source_record_row
  dca_score :: near_duplicate_score
  dca_component :: string
  dca_signal :: string

definition HOURS :: int where "HOURS = 60 * MINUTE"

definition embedding_of :: "desk \<Rightarrow> string option \<Rightarrow> uid \<Rightarrow> float64 list option" where
  "embedding_of dk model record_id =
    (case model of
       None \<Rightarrow> None
     | Some m \<Rightarrow> if m = [] then None else map_option emb_embedding
         (find (\<lambda>e. emb_model_version e = m \<and> emb_source_record_id e = record_id) (dk_embeddings dk)))"

definition comparable_records ::
  "int \<Rightarrow> source_record_row \<times> text_features \<Rightarrow> source_record_row \<times> text_features \<Rightarrow> bool" where
  "comparable_records window_hours subject candidate =
    (let n = length (tfe_tokens (snd subject)); m = length (tfe_tokens (snd candidate)) in
     rec_source_id (fst candidate) \<noteq> rec_source_id (fst subject)
     \<and> record_time (fst subject) - record_time (fst candidate) \<le> window_hours * HOURS
     \<and> MINIMUM_TOKEN_COUNT \<le> m \<and> fl (7 / 10) \<le> int_ratio (int (min n m)) (int (max n m)))"

definition score_candidate ::
  "(float64 \<Rightarrow> float64) \<Rightarrow> desk \<Rightarrow> string option \<Rightarrow> source_record_row \<times> text_features \<Rightarrow>
    source_record_row \<times> text_features \<Rightarrow> duplicate_candidate" where
  "score_candidate sqrt_lib dk model subject candidate =
    (case (embedding_of dk model (rec_id (fst subject)), embedding_of dk model (rec_id (fst candidate))) of
       (Some x, Some y) \<Rightarrow>
         let s = \<lparr>nds_cosine = vector_cosine_similarity sqrt_lib x y,
               nds_minhash = minhash_similarity (tfe_minhash (snd subject)) (tfe_minhash (snd candidate))\<rparr>
         in \<lparr>dca_cosine = nds_cosine s, dca_record = fst candidate, dca_score = s,
             dca_component = take 64 (the model @ ''-near-dup-v1''), dca_signal = ''embedding_cosine''\<rparr>
     | _ \<Rightarrow>
         let s = score_near_duplicate sqrt_lib (snd subject) (snd candidate)
         in \<lparr>dca_cosine = nds_cosine s, dca_record = fst candidate, dca_score = s,
             dca_component = LEXICAL_COMPONENT_VERSION, dca_signal = ''token_cosine''\<rparr>)"

text \<open>\<open>round6\<close> prints a score rounded to six places. The three best candidates, stable for equal scores.\<close>

definition duplicate_draft ::
  "(float64 \<Rightarrow> string) \<Rightarrow> string option \<Rightarrow> int \<Rightarrow> source_record_row \<Rightarrow> duplicate_candidate \<Rightarrow> proposal_draft" where
  "duplicate_draft round6 model window_hours subject c =
    \<lparr>pdr_subject = rec_id subject, pdr_candidate = Some (rec_id (dca_record c)), pdr_origin_source = None,
     pdr_origin_name = None, pdr_score = dca_cosine c,
     pdr_signals = [(dca_signal c, JFloat (round6 (nds_cosine (dca_score c)))),
       (''minhash_similarity'', JFloat (round6 (nds_minhash (dca_score c)))), (''window_hours'', JInt window_hours),
       (''shadow_only'', JBool True), (''embedding_model_version'',
         if dca_signal c = ''embedding_cosine'' then j_opt JStr model else JNull)],
     pdr_component = dca_component c\<rparr>"

definition duplicate_drafts ::
  "(float64 \<Rightarrow> float64) \<Rightarrow> (float64 \<Rightarrow> string) \<Rightarrow> desk \<Rightarrow> string option \<Rightarrow> int \<Rightarrow>
    (source_record_row \<times> text_features) list \<Rightarrow> source_record_row \<times> text_features \<Rightarrow> proposal_draft list" where
  "duplicate_drafts sqrt_lib round6 dk model window_hours earlier subject =
    (if length (tfe_tokens (snd subject)) < MINIMUM_TOKEN_COUNT then []
     else map (duplicate_draft round6 model window_hours (fst subject)) (take 3 (rev (sort_key dca_cosine (rev
       (filter (\<lambda>c. score_qualifies (dca_score c)) (map (score_candidate sqrt_lib dk model subject)
         (filter (comparable_records window_hours subject) earlier))))))))"

fun all_duplicates ::
  "(float64 \<Rightarrow> float64) \<Rightarrow> (float64 \<Rightarrow> string) \<Rightarrow> desk \<Rightarrow> string option \<Rightarrow> int \<Rightarrow>
    (source_record_row \<times> text_features) list \<Rightarrow> (source_record_row \<times> text_features) list \<Rightarrow> proposal_draft list" where
  "all_duplicates sqrt_lib round6 dk model window_hours earlier [] = []"
| "all_duplicates sqrt_lib round6 dk model window_hours earlier (x # xs) =
    duplicate_drafts sqrt_lib round6 dk model window_hours earlier x @
    all_duplicates sqrt_lib round6 dk model window_hours (earlier @ [x]) xs"

definition eligible_records :: "desk \<Rightarrow> instant \<Rightarrow> int \<Rightarrow> nat \<Rightarrow> source_record_row list" where
  "eligible_records dk now window_hours record_limit =
    filter (\<lambda>r. \<not> unsafe_scan (rec_security_scan r)) (sort_key record_time (take record_limit
      (rev (sort_key record_time (rev (filter (\<lambda>r. now - window_hours * HOURS \<le> record_time r) (dk_records dk)))))))"

definition add_proposals :: "hash \<Rightarrow> instant \<Rightarrow> desk \<Rightarrow> proposal_draft list \<Rightarrow> desk \<times> nat" where
  "add_proposals sha256 db_now dk drafts =
    foldl (\<lambda>(dk, n) d. case add_proposal sha256 db_now dk d of (dk', new) \<Rightarrow> (dk', if new then n + 1 else n))
      (dk, 0) drafts"

definition generate_lineage_proposals ::
  "hash \<Rightarrow> (nat \<Rightarrow> string \<Rightarrow> nat) \<Rightarrow> (float64 \<Rightarrow> float64) \<Rightarrow> (float64 \<Rightarrow> string) \<Rightarrow> desk \<Rightarrow> instant \<Rightarrow> instant \<Rightarrow>
    int \<Rightarrow> nat \<Rightarrow> string option \<Rightarrow> desk \<times> nat" where
  "generate_lineage_proposals sha256 blake sqrt_lib round6 dk now db_now window_hours record_limit model =
    (let eligible = eligible_records dk now window_hours record_limit;
         featured = map (\<lambda>r. (r, build_text_features blake (rec_extracted_text r))) eligible;
         drafts = concat (map (\<lambda>r. registry_drafts dk r @ credit_drafts dk r) eligible) @
           all_duplicates sqrt_lib round6 dk model window_hours [] featured
     in case add_proposals sha256 db_now dk drafts of (dk1, created) \<Rightarrow>
       (if created = 0 then dk1
        else log_batch dk1 ''lineage-shadow-job'' ''lineage.proposals_generated'' ''lineage_proposal_batch''
          [(''created'', JInt (int created)), (''records_scanned'', JInt (int (length eligible))),
           (''window_hours'', JInt window_hours)] db_now, created))"

section \<open>Review\<close>

definition record_lineage :: "desk \<Rightarrow> uid \<Rightarrow> record_lineage_row option" where
  "record_lineage dk record_id = row_get srl_source_record_id record_id (dk_record_lineage dk)"

definition assign_to_root ::
  "uid \<Rightarrow> uid \<Rightarrow> string \<Rightarrow> instant \<Rightarrow> desk \<Rightarrow> uid \<Rightarrow> desk_error + desk" where
  "assign_to_root root_id proposal_id reviewer now dk record_id =
    (case record_lineage dk record_id of
       Some l \<Rightarrow>
         if srl_lineage_root_id l \<noteq> root_id
         then Inl (LineageFailed ''Record already belongs to a different lineage root'') else Inr dk
     | None \<Rightarrow> Inr (dk\<lparr>dk_record_lineage := dk_record_lineage dk @
        [\<lparr>srl_source_record_id = record_id, srl_lineage_root_id = root_id, srl_proposal_id = Some proposal_id,
          srl_assigned_by = reviewer, srl_assigned_at = now\<rparr>]\<rparr>))"

text \<open>The dash of a root's description is written as its UTF-8 bytes.\<close>

definition proposed_root ::
  "uid \<Rightarrow> lineage_proposal_row \<Rightarrow> source_record_row \<Rightarrow> source_record_row option \<Rightarrow> lineage_root_row" where
  "proposed_root i p subject candidate =
    \<lparr>lrt_id = i,
     lrt_description = (if truthy (lpr_proposed_origin_name p) then the (lpr_proposed_origin_name p)
        else ''Lineage proposed from record '' @ uuid_str (rec_id subject)) @
       [CHR '' '', CHR 0xE2, CHR 0x80, CHR 0x94, CHR '' ''] @
       (if truthy (rec_title subject) then the (rec_title subject) else uuid_str (rec_id subject)),
     lrt_origin_source_id = Some (case lpr_proposed_origin_source_id p of Some s \<Rightarrow> s
       | None \<Rightarrow> rec_source_id (case candidate of Some c \<Rightarrow> c | None \<Rightarrow> subject)),
     lrt_origin_url = map_option rec_url candidate,
     lrt_first_seen_at = min (record_time subject)
       (case candidate of Some c \<Rightarrow> record_time c | None \<Rightarrow> record_time subject)\<rparr>"

definition root_for ::
  "desk \<Rightarrow> lineage_proposal_row \<Rightarrow> source_record_row \<Rightarrow> source_record_row option \<Rightarrow> desk_error + (desk \<times> uid)" where
  "root_for dk p subject candidate =
    (let ms = record_lineage dk (rec_id subject);
         mc = Option.bind candidate (\<lambda>c. record_lineage dk (rec_id c))
     in if ms \<noteq> None \<and> mc \<noteq> None \<and> srl_lineage_root_id (the ms) \<noteq> srl_lineage_root_id (the mc)
        then Inl (LineageFailed ''Proposal would merge two established lineage roots'')
        else (case (ms, mc) of
            (Some l, _) \<Rightarrow> Inr (dk, srl_lineage_root_id l)
          | (None, Some l) \<Rightarrow> Inr (dk, srl_lineage_root_id l)
          | (None, None) \<Rightarrow>
             let new_root = proposed_root (dk_next dk) p subject candidate
             in Inr (dk\<lparr>dk_lineage_roots := dk_lineage_roots dk @ [new_root], dk_next := dk_next dk + 1\<rparr>, lrt_id new_root)))"

definition accept_proposal ::
  "desk \<Rightarrow> instant \<Rightarrow> lineage_proposal_row \<Rightarrow> string \<Rightarrow> desk_error + desk" where
  "accept_proposal dk now p reviewer =
    (let candidate = get_opt rec_id (lpr_candidate_record_id p) (dk_records dk) in
     case row_get rec_id (lpr_subject_record_id p) (dk_records dk) of
       None \<Rightarrow> Inl (LineageFailed ''A proposed source record no longer exists'')
     | Some subject \<Rightarrow>
        if lpr_candidate_record_id p \<noteq> None \<and> candidate = None
        then Inl (LineageFailed ''A proposed source record no longer exists'')
        else ebind (root_for dk p subject candidate) (\<lambda>(dk1, root_id).
          ebind (assign_to_root root_id (lpr_id p) reviewer now dk1 (rec_id subject)) (\<lambda>dk2.
          case candidate of None \<Rightarrow> Inr dk2
          | Some c \<Rightarrow> assign_to_root root_id (lpr_id p) reviewer now dk2 (rec_id c))))"

definition review_lineage_proposal ::
  "desk \<Rightarrow> instant \<Rightarrow> instant \<Rightarrow> uid \<Rightarrow> lineage_review_decision \<Rightarrow> string \<Rightarrow> string option \<Rightarrow>
    desk_error + (desk \<times> lineage_review_row)" where
  "review_lineage_proposal dk now db_now proposal_id decision reviewer reason =
    (if is_model reviewer then Inl (LineageFailed ''A model cannot review a lineage proposal'')
     else if decision = LD_REJECT \<and> \<not> truthy reason
     then Inl (LineageFailed ''Rejected lineage proposals require a reason'')
     else (case row_get lpr_id proposal_id (dk_lineage_proposals dk) of
       None \<Rightarrow> Inl (LookupFailed ''Lineage proposal not found'')
     | Some p \<Rightarrow>
        if lpr_status p \<noteq> LP_PENDING
        then Inl (LineageFailed (''Lineage proposal is already '' @ lineage_proposal_status_value (lpr_status p)))
        else ebind (if decision = LD_ACCEPT then accept_proposal dk now p reviewer else Inr dk) (\<lambda>dk1.
          let status = (if decision = LD_ACCEPT then LP_ACCEPTED else LP_REJECTED);
              review = \<lparr>lrv_id = dk_next dk1, lrv_proposal_id = lpr_id p, lrv_decision = decision,
                lrv_reviewer = reviewer, lrv_reason = reason, lrv_reviewed_at = now\<rparr>;
              dk2 = dk1\<lparr>dk_lineage_proposals := row_upd lpr_id (lpr_id p) (\<lambda>p. p\<lparr>lpr_status := status\<rparr>)
                  (dk_lineage_proposals dk1),
                dk_lineage_reviews := dk_lineage_reviews dk1 @ [review], dk_next := dk_next dk1 + 1\<rparr>
          in Inr (log_audit dk2 reviewer (''lineage.proposal_'' @ lineage_review_decision_value decision @ ''ed'')
               ''lineage_proposal'' (lpr_id p)
               [(''decision'', JStr (lineage_review_decision_value decision)), (''reason'', j_opt JStr reason),
                (''component_version'', JStr (lpr_component_version p))] db_now, review))))"

section \<open>Graduation\<close>

definition lineage_component_graduates :: "float64 \<Rightarrow> nat \<Rightarrow> float64 \<Rightarrow> bool" where
  "lineage_component_graduates precision sample_size shadow_days \<longleftrightarrow>
    100 \<le> sample_size \<and> fl (97 / 100) \<le> precision \<and> 21 \<le> shadow_days"

definition component_reviews :: "desk \<Rightarrow> string \<Rightarrow> lineage_review_row list" where
  "component_reviews dk component = filter (\<lambda>r. list_ex (\<lambda>p. lpr_id p = lrv_proposal_id r \<and>
     lpr_component_version p = component) (dk_lineage_proposals dk)) (dk_lineage_reviews dk)"

definition evaluate_lineage_component ::
  "float_lib \<Rightarrow> desk \<Rightarrow> instant \<Rightarrow> instant \<Rightarrow> string \<Rightarrow> desk \<times> evaluation_row option" where
  "evaluate_lineage_component lib dk now db_now component =
    (let rows = component_reviews dk component in
     if rows = [] then (dk, None)
     else let times = map lrv_reviewed_at rows;
        precision = int_ratio (int (length (filter (\<lambda>r. lrv_decision r = LD_ACCEPT) rows))) (int (length rows));
        shadow_days = fdiv (total_seconds (Max (set times) - Min (set times))) 86400;
        graduated = lineage_component_graduates precision (length rows) shadow_days;
        ev = \<lparr>pev_id = dk_next dk, pev_component = ''lineage'', pev_component_version = component,
          pev_language = ''all'', pev_metric_name = ''analyst_acceptance_precision'', pev_metric_value = precision,
          pev_sample_size = int (length rows), pev_evaluated_at = now, pev_graduated = graduated\<rparr>;
        dk1 = dk\<lparr>dk_evaluations := dk_evaluations dk @ [ev], dk_next := dk_next dk + 1\<rparr>
      in (log_audit dk1 ''lineage-evaluator'' ''lineage.component_evaluated'' ''pipeline_evaluation'' (pev_id ev)
            [(''component_version'', JStr component), (''precision'', JFloat (lib_repr lib precision)),
             (''sample_size'', JInt (int (length rows))), (''shadow_days'', JFloat (lib_repr lib shadow_days)),
             (''graduated'', JBool graduated)] db_now, Some ev))"

end
