(* ===== verification/Desk_Facts.thy ===== *)
theory Desk_Facts
  imports ApprovalRequest AIGovernance DeskLineage
begin

text \<open>
  Facts about the operations of the desk that several properties share: which tables an operation
  leaves alone, what a successful release, approval and decision did, and the order of controls.
\<close>

named_theorems desk_frame \<open>operations that leave releases, approvals and requests alone\<close>

lemma guard_Inr: "(if b then Inl e else m) = Inr y \<longleftrightarrow> \<not> b \<and> m = Inr y"
  by simp

section \<open>Tables left alone\<close>

text \<open>The released versions, the corrections, the approvals and the requests are the same, and the counter has
  not gone back.\<close>

definition same_release :: "desk \<Rightarrow> desk \<Rightarrow> bool" where
  "same_release dk dk' \<longleftrightarrow> dk_versions dk' = dk_versions dk \<and> dk_approvals dk' = dk_approvals dk \<and>
     dk_requests dk' = dk_requests dk \<and> dk_corrections dk' = dk_corrections dk \<and> dk_next dk \<le> dk_next dk'"

lemma same_release_refl [simp]: "same_release dk dk"
  by (simp add: same_release_def)

lemma same_release_trans: "same_release a b \<Longrightarrow> same_release b c \<Longrightarrow> same_release a c"
  by (auto simp: same_release_def)

lemma log_audit_tables [simp]:
  "dk_versions (log_audit dk a b c i p t) = dk_versions dk" "dk_approvals (log_audit dk a b c i p t) = dk_approvals dk"
  "dk_requests (log_audit dk a b c i p t) = dk_requests dk" "dk_next (log_audit dk a b c i p t) = dk_next dk + 1"
  "dk_claims (log_audit dk a b c i p t) = dk_claims dk" "dk_evidence (log_audit dk a b c i p t) = dk_evidence dk"
  "dk_records (log_audit dk a b c i p t) = dk_records dk" "dk_users (log_audit dk a b c i p t) = dk_users dk"
  "dk_events (log_audit dk a b c i p t) = dk_events dk" "dk_triage (log_audit dk a b c i p t) = dk_triage dk"
  "dk_ai_controls (log_audit dk a b c i p t) = dk_ai_controls dk"
  "dk_ai_incident_events (log_audit dk a b c i p t) = dk_ai_incident_events dk"
  "dk_record_lineage (log_audit dk a b c i p t) = dk_record_lineage dk"
  "dk_corrections (log_audit dk a b c i p t) = dk_corrections dk"
  "dk_correction_deliveries (log_audit dk a b c i p t) = dk_correction_deliveries dk"
  "dk_lineage_proposals (log_audit dk a b c i p t) = dk_lineage_proposals dk"
  "dk_triage_decisions (log_audit dk a b c i p t) = dk_triage_decisions dk"
  by (simp_all add: log_audit_def)

lemma foldl_frame:
  assumes "\<And>dk x. same_release dk (f dk x)"
  shows "same_release dk (foldl f dk xs)"
proof (induction xs arbitrary: dk)
  case (Cons x xs)
  have "same_release (f dk x) (foldl f (f dk x) xs)" by (rule Cons.IH)
  with assms [of dk x] show ?case by (auto intro: same_release_trans)
qed simp

lemma queue_deliveries_frame: "same_release dk (queue_deliveries dk i p t u)"
  unfolding queue_deliveries_def by (rule foldl_frame) (simp add: same_release_def)

lemma create_claim_frame [desk_frame]:
  "create_claim dk now db_now event_id x = Inr (dk', c) \<Longrightarrow> same_release dk dk'"
  by (auto simp: create_claim_def Let_def same_release_def split: if_splits option.splits)

lemma update_claim_frame [desk_frame]:
  "update_claim dk now db_now event_id claim_id u = Inr (dk', c) \<Longrightarrow> same_release dk dk'"
  by (auto simp: update_claim_def Let_def same_release_def split: if_splits option.splits)

lemma add_evidence_frame: "add_evidence dk now db_now event_id c r s rights x = (dk', e) \<Longrightarrow> same_release dk dk'"
  by (auto simp: add_evidence_def ensure_lineage_def Let_def same_release_def split: option.splits)

lemma link_evidence_frame [desk_frame]:
  "link_evidence dk now db_now event_id claim_id x = Inr (dk', e) \<Longrightarrow> same_release dk dk'"
  by (auto simp: link_evidence_def ebind_Inr dest: add_evidence_frame split: if_splits option.splits)

lemma backfill_frame [desk_frame]:
  "backfill_triage_items dk db_now detect limit = (dk', n) \<Longrightarrow> same_release dk dk'"
  by (auto simp: backfill_triage_items_def Let_def ensure_triage_item_def same_release_def
      intro!: foldl_frame [unfolded same_release_def] split: option.splits)

lemma triage_effect_frame: "triage_effect dk db_now t x = Inr (dk', r) \<Longrightarrow> same_release dk dk'"
  by (auto simp: triage_effect_def Let_def same_release_def split: triage_action.splits if_splits option.splits)

lemma apply_triage_frame [desk_frame]:
  "apply_triage_action dk now db_now item_id x = Inr (dk', d) \<Longrightarrow> same_release dk dk'"
  by (fastforce simp: apply_triage_action_def Let_def ebind_Inr same_release_def
      dest: triage_effect_frame [unfolded same_release_def] split: if_splits option.splits prod.splits)

lemma add_proposal_frame: "same_release dk (fst (add_proposal sha256 db_now dk d))"
  by (simp add: add_proposal_def Let_def same_release_def)

lemma add_proposals_frame: "same_release dk (fst (add_proposals sha256 db_now dk drafts))"
proof -
  have "same_release dk (fst (foldl (\<lambda>(dk, n) d. case add_proposal sha256 db_now dk d of
      (dk', new) \<Rightarrow> (dk', if new then n + 1 else n)) (dk, n) drafts))" for n
  proof (induction drafts arbitrary: dk n)
    case (Cons d ds)
    obtain dk1 b where a: "add_proposal sha256 db_now dk d = (dk1, b)" by fastforce
    with add_proposal_frame [of dk sha256 db_now d] have "same_release dk dk1" by simp
    moreover note Cons.IH [of dk1 "if b then n + 1 else n"]
    ultimately show ?case using a by (auto intro: same_release_trans)
  qed simp
  then show ?thesis by (simp add: add_proposals_def)
qed

lemma add_proposals_same: "add_proposals sha256 db_now dk drafts = (dk', n) \<Longrightarrow> same_release dk dk'"
  using add_proposals_frame [of dk sha256 db_now drafts] by simp

lemma generate_frame [desk_frame]:
  "generate_lineage_proposals sha256 blake sq r6 dk now db_now w l m = (dk', n) \<Longrightarrow> same_release dk dk'"
  by (auto simp: generate_lineage_proposals_def Let_def log_batch_def same_release_def
      dest!: add_proposals_same split: prod.split_asm if_split_asm)

lemma assign_frame: "assign_to_root r p w now dk i = Inr dk' \<Longrightarrow> same_release dk dk'"
  by (auto simp: assign_to_root_def same_release_def split: option.splits if_splits)

lemma root_for_frame: "root_for dk p s c = Inr (dk', r) \<Longrightarrow> same_release dk dk'"
  by (auto simp: root_for_def Let_def same_release_def split: option.splits if_splits)

lemma accept_frame:
  assumes "accept_proposal dk now p w = Inr dk'"
  shows "same_release dk dk'"
proof -
  let ?c = "get_opt rec_id (lpr_candidate_record_id p) (dk_records dk)"
  from assms obtain s where s: "row_get rec_id (lpr_subject_record_id p) (dk_records dk) = Some s"
    by (cases "row_get rec_id (lpr_subject_record_id p) (dk_records dk)") (simp_all add: accept_proposal_def)
  with assms have "ebind (root_for dk p s ?c) (\<lambda>(dk1, root_id).
      ebind (assign_to_root root_id (lpr_id p) w now dk1 (rec_id s)) (\<lambda>dk2.
      case ?c of None \<Rightarrow> Inr dk2 | Some c \<Rightarrow> assign_to_root root_id (lpr_id p) w now dk2 (rec_id c))) = Inr dk'"
    unfolding accept_proposal_def Let_def by (simp only: option.case split: if_split_asm) simp
  then obtain x where x: "root_for dk p s ?c = Inr x" and "(case x of (dk1, root_id) \<Rightarrow>
      ebind (assign_to_root root_id (lpr_id p) w now dk1 (rec_id s)) (\<lambda>dk2.
      case ?c of None \<Rightarrow> Inr dk2 | Some c \<Rightarrow> assign_to_root root_id (lpr_id p) w now dk2 (rec_id c))) = Inr dk'"
    unfolding ebind_Inr by blast
  moreover obtain dk1 r where "x = (dk1, r)" by fastforce
  ultimately obtain dk2 where 1: "root_for dk p s ?c = Inr (dk1, r)"
    and 2: "assign_to_root r (lpr_id p) w now dk1 (rec_id s) = Inr dk2"
    and 3: "(case ?c of None \<Rightarrow> Inr dk2 | Some x \<Rightarrow> assign_to_root r (lpr_id p) w now dk2 (rec_id x)) = Inr dk'"
    by (auto simp only: prod.case ebind_Inr)
  from 3 have "same_release dk2 dk'" by (cases ?c) (auto dest: assign_frame)
  with root_for_frame [OF 1] assign_frame [OF 2] show ?thesis by (blast intro: same_release_trans)
qed

lemma review_frame [desk_frame]:
  assumes "review_lineage_proposal dk now db_now i decision w reason = Inr (dk', r)"
  shows "same_release dk dk'"
proof -
  show ?thesis
    using assms unfolding review_lineage_proposal_def Let_def
    by (auto simp: ebind_Inr same_release_def dest!: accept_frame split: option.splits if_splits)
qed

lemma set_control_frame [desk_frame]:
  "set_capability_control dk now db_now scope c p = Inr (dk', row) \<Longrightarrow> same_release dk dk'"
  by (auto simp: set_capability_control_def Let_def ebind_Inr same_release_def split: if_splits)

lemma append_event_frame: "same_release dk (append_event dk now db_now i n e p)"
  by (simp add: append_event_def Let_def same_release_def)

lemma contain_frame: "contain_scope dk now db_now scope x p = Inr (dk', status, action) \<Longrightarrow> same_release dk dk'"
  by (auto simp: contain_scope_def ebind_Inr dest: set_control_frame split: if_splits)

lemma create_incident_frame [desk_frame]:
  "create_ai_incident dk now db_now x p = Inr (dk', r) \<Longrightarrow> same_release dk dk'"
  by (auto simp: create_ai_incident_def Let_def ebind_Inr append_event_def same_release_def
      dest!: contain_frame split: if_splits)

lemma append_incident_frame [desk_frame]:
  "append_ai_incident_event dk now db_now i e p = Inr (dk', r) \<Longrightarrow> same_release dk dk'"
  by (auto simp: append_ai_incident_event_def Let_def ebind_Inr append_event_def same_release_def
      split: if_splits option.splits)

lemma create_user_frame [desk_frame]:
  "create_desk_user dk db_now given x p = Inr (dk', u) \<Longrightarrow> same_release dk dk'"
  by (auto simp: create_desk_user_def Let_def ebind_Inr same_release_def split: if_splits option.splits)

section \<open>A successful correction\<close>

lemma queue_deliveries_tables:
  "same_release dk (queue_deliveries dk i p t u) \<and>
    (\<exists>ds. dk_correction_deliveries (queue_deliveries dk i p t u) = dk_correction_deliveries dk @ ds \<and>
      map (\<lambda>d. (cod_account_id d, cod_user_id d, cod_channel d, cod_recipient d)) ds =
        map (\<lambda>r. (crp_account_id r, crp_user_id r, crp_channel r, crp_recipient r)) (cpl_recipients p) \<and>
      (\<forall>d \<in> set ds. cod_correction_id d = i \<and> cod_status d = DST_QUEUED))"
proof -
  have "\<exists>ds. dk_correction_deliveries (foldl (\<lambda>dk r. dk\<lparr>dk_correction_deliveries := dk_correction_deliveries dk @
        [queued_delivery (dk_next dk) i p t u r], dk_next := dk_next dk + 1\<rparr>) dk rs) = dk_correction_deliveries dk @ ds \<and>
      map (\<lambda>d. (cod_account_id d, cod_user_id d, cod_channel d, cod_recipient d)) ds =
        map (\<lambda>r. (crp_account_id r, crp_user_id r, crp_channel r, crp_recipient r)) rs \<and>
      (\<forall>d \<in> set ds. cod_correction_id d = i \<and> cod_status d = DST_QUEUED)" for rs
  proof (induction rs arbitrary: dk)
    case (Cons r rs)
    let ?d = "queued_delivery (dk_next dk) i p t u r"
    let ?dk = "dk\<lparr>dk_correction_deliveries := dk_correction_deliveries dk @ [?d], dk_next := dk_next dk + 1\<rparr>"
    from Cons.IH [of ?dk] obtain ds where
      "dk_correction_deliveries (foldl (\<lambda>dk r. dk\<lparr>dk_correction_deliveries := dk_correction_deliveries dk @
        [queued_delivery (dk_next dk) i p t u r], dk_next := dk_next dk + 1\<rparr>) ?dk rs) = dk_correction_deliveries dk @ ?d # ds"
      "map (\<lambda>d. (cod_account_id d, cod_user_id d, cod_channel d, cod_recipient d)) ds =
        map (\<lambda>r. (crp_account_id r, crp_user_id r, crp_channel r, crp_recipient r)) rs"
      "\<forall>d \<in> set ds. cod_correction_id d = i \<and> cod_status d = DST_QUEUED"
      by auto
    then show ?case by (intro exI [of _ "?d # ds"]) (simp_all add: queued_delivery_def)
  qed simp
  with queue_deliveries_frame show ?thesis by (simp add: queue_deliveries_def)
qed

text \<open>An issue returns the stored correction of the same preview hash, or stores one and queues its deliveries.\<close>

lemma issue_correction_cases:
  assumes "issue_correction sha256 dk now db_now payload approval_id released_by = Inr (dk', c)"
  obtains p where "build_correction_plan sha256 dk (cis_draft payload) = Inr p" "cis_preview_hash payload = cpl_preview_hash p"
      "find (\<lambda>c. cor_preview_hash c = Some (cis_preview_hash payload)) (dk_corrections dk) = Some c" "dk' = dk"
  | p ds where "build_correction_plan sha256 dk (cis_draft payload) = Inr p" "cis_preview_hash payload = cpl_preview_hash p"
      "find (\<lambda>c. cor_preview_hash c = Some (cis_preview_hash payload)) (dk_corrections dk) = None"
      "correction_gate dk now (cis_draft payload) (cis_preview_hash payload) approval_id released_by = Inr ()"
      "c = correction_row_of (dk_next dk) p (cis_draft payload) (cis_preview_hash payload) approval_id released_by now"
      "approval_id = None \<or> (\<forall>b \<in> set (dk_corrections dk). cor_correction_approval_id b \<noteq> approval_id)"
      "dk_corrections dk' = dk_corrections dk @ [c]" "dk_versions dk' = dk_versions dk"
      "dk_approvals dk' = dk_approvals dk" "dk_requests dk' = dk_requests dk" "dk_next dk < dk_next dk'"
      "dk_correction_deliveries dk' = dk_correction_deliveries dk @ ds"
      "map (\<lambda>d. (cod_account_id d, cod_user_id d, cod_channel d, cod_recipient d)) ds =
         map (\<lambda>r. (crp_account_id r, crp_user_id r, crp_channel r, crp_recipient r)) (cpl_recipients p)"
      "\<forall>d \<in> set ds. cod_correction_id d = cor_id c \<and> cod_status d = DST_QUEUED"
proof -
  let ?h = "cis_preview_hash payload"
  let ?found = "find (\<lambda>c. cor_preview_hash c = Some ?h) (dk_corrections dk)"
  let ?row = "\<lambda>p. correction_row_of (dk_next dk) p (cis_draft payload) ?h approval_id released_by now"
  let ?dk = "\<lambda>p. dk\<lparr>dk_next := dk_next dk + 1, dk_corrections := dk_corrections dk @ [?row p]\<rparr>"
  from assms(1) obtain p where p: "build_correction_plan sha256 dk (cis_draft payload) = Inr p" "?h = cpl_preview_hash p"
    and g: "correction_gate dk now (cis_draft payload) ?h approval_id released_by = Inr ()"
    and r: "(case ?found of
       Some existing \<Rightarrow> Inr (dk, existing)
     | None \<Rightarrow>
        if now < as_utc (cc_detected_at (cdr_content (cis_draft payload)))
        then Inl (CorrectionFailed ''correction detection time cannot be in the future'')
        else let row = ?row p in
        if approval_id \<noteq> None \<and> list_ex (\<lambda>c. cor_correction_approval_id c = approval_id) (dk_corrections dk)
        then Inl DeskIntegrityError
        else let dk1 = dk\<lparr>dk_next := dk_next dk + 1, dk_corrections := dk_corrections dk @ [row]\<rparr>;
                 dk2 = queue_deliveries dk1 (cor_id row) p now db_now
             in Inr (log_audit dk2 (cor_issued_by row) ''correction.issued'' ''correction'' (cor_id row)
                  (correction_audit p (cis_draft payload) row now) db_now, row)) = Inr (dk', c)"
    by (auto simp: issue_correction_def ebind_Inr Let_def split: if_split_asm)
  show thesis
  proof (cases ?found)
    case (Some q)
    with r have "dk' = dk" "c = q" by simp_all
    with that(1) [OF p] Some show thesis by simp
  next
    case None
    define q where "q = queue_deliveries (?dk p) (cor_id (?row p)) p now db_now"
    from r None have c: "c = ?row p"
      and u: "approval_id = None \<or> (\<forall>b \<in> set (dk_corrections dk). cor_correction_approval_id b \<noteq> approval_id)"
      and dk': "\<exists>t. dk' = log_audit q (cor_issued_by c) ''correction.issued'' ''correction'' (cor_id c) t db_now"
      by (auto simp: Let_def list_ex_iff q_def split: if_split_asm)
    have s: "same_release (?dk p) q" and "\<exists>ds. dk_correction_deliveries q = dk_correction_deliveries dk @ ds \<and>
        map (\<lambda>d. (cod_account_id d, cod_user_id d, cod_channel d, cod_recipient d)) ds =
          map (\<lambda>r. (crp_account_id r, crp_user_id r, crp_channel r, crp_recipient r)) (cpl_recipients p) \<and>
        (\<forall>d \<in> set ds. cod_correction_id d = cor_id c \<and> cod_status d = DST_QUEUED)"
      using queue_deliveries_tables [of "?dk p" "cor_id (?row p)" p now db_now] by (simp_all add: c q_def)
    then obtain ds where d: "dk_correction_deliveries q = dk_correction_deliveries dk @ ds"
      "map (\<lambda>d. (cod_account_id d, cod_user_id d, cod_channel d, cod_recipient d)) ds =
          map (\<lambda>r. (crp_account_id r, crp_user_id r, crp_channel r, crp_recipient r)) (cpl_recipients p)"
      "\<forall>d \<in> set ds. cod_correction_id d = cor_id c \<and> cod_status d = DST_QUEUED" by blast
    from s have t: "dk_corrections q = dk_corrections dk @ [c]" "dk_versions q = dk_versions dk"
      "dk_approvals q = dk_approvals dk" "dk_requests q = dk_requests dk" "dk_next dk < dk_next q"
      by (simp_all add: same_release_def c)
    from dk' obtain k where k: "dk' = log_audit q (cor_issued_by c) ''correction.issued'' ''correction'' (cor_id c) k db_now" ..
    show thesis by (rule that(2) [OF p None g c u _ _ _ _ _ _ d(2,3)]) (use t(5) in \<open>simp_all add: k t(1-4) d(1)\<close>)
  qed
qed

text \<open>What every release can rely on of a correction: an operational one carries its own approval.\<close>

definition properly_corrected :: "desk \<Rightarrow> correction_row \<Rightarrow> bool" where
  "properly_corrected dk c \<longleftrightarrow> cor_impact c = Some CI_OPERATIONALLY_RELEVANT \<longrightarrow>
     (\<exists>a \<in> set (dk_approvals dk). cor_correction_approval_id c = Some (dap_id a) \<and>
        dap_approval_type a = ''operational_correction'' \<and> dap_target_id a = cor_event_id c \<and>
        cor_preview_hash c = Some (dap_binding_hash a))"

lemma gate_corrects:
  assumes "correction_gate dk now d h approval_id released_by = Inr ()"
  shows "properly_corrected dk (correction_row_of i p d h approval_id released_by t)"
proof (cases "cc_impact (cdr_content d) = CI_OPERATIONALLY_RELEVANT")
  case True
  with assms obtain j a where "approval_id = Some j" "row_get dap_id j (dk_approvals dk) = Some a"
    and a: "correction_approved dk now d h released_by (Some a)"
    by (auto simp: correction_gate_def get_opt_def correction_approved_def split: if_split_asm option.split_asm)
  then have "a \<in> set (dk_approvals dk)" "approval_id = Some (dap_id a)" by (simp_all add: row_get_in row_get_key)
  with a show ?thesis
    by (auto simp: properly_corrected_def correction_row_of_def Let_def correction_approved_def)
qed (simp add: properly_corrected_def correction_row_of_def Let_def)

section \<open>A successful release\<close>

lemma load_context_Inr:
  assumes "load_context sha256 dk now event_id d = Inr ctx"
  obtains e where "row_get evn_id event_id (dk_events dk) = Some e" and "pxc_event ctx = e" and "evn_id e = event_id"
    and "pxc_claim_rows ctx = filter (\<lambda>c. clm_id c \<in> set (referenced_claims d)) (dk_claims dk)"
    and "pxc_evidence_rows ctx = filter (\<lambda>x. evd_id x \<in> set (ec_evidence_ids (edr_content d))) (dk_evidence dk)"
    and "pxc_policy_views ctx = map (policy_view sha256 dk now (pxc_evidence_rows ctx)) (pxc_claim_rows ctx)"
    and "pxc_event_snapshot ctx = event_snapshot dk e"
    and "pxc_latest_version ctx = latest_event_version dk event_id"
    and "pxc_next_version_no ctx = (case latest_event_version dk event_id of None \<Rightarrow> 0 | Some v \<Rightarrow> evv_version_no v) + 1"
  using assms by (auto simp: load_context_def Let_def dest: row_get_key split: option.splits if_splits)

lemma publish_Inr:
  assumes "publish_event_version sha256 dk now db_now event_id payload approval_id = Inr (dk', r)"
  obtains ctx v where "load_context sha256 dk now event_id (evc_draft payload) = Inr ctx"
    and "publication_errors (pxc_event ctx) (evc_draft payload) (pxc_policy_views ctx) = []"
    and "evc_preview_hash payload = hash_canonical sha256 (canonical_draft event_id ctx (evc_draft payload))"
    and "release_gate dk now event_id (pxc_event ctx) (evc_preview_hash payload) (evc_draft payload) approval_id = Inr ()"
    and "v = new_version (dk_next dk) event_id ctx (evc_draft payload) approval_id (evc_preview_hash payload) db_now"
    and "\<not> version_conflict dk v" and "dk_versions dk' = dk_versions dk @ [v]" and "dk_approvals dk' = dk_approvals dk"
    and "dk_requests dk' = dk_requests dk" and "dk_next dk' = dk_next dk + 2" and "r = event_version_read_of v"
    and "dk_corrections dk' = dk_corrections dk"
proof -
  from assms obtain ctx where c: "load_context sha256 dk now event_id (evc_draft payload) = Inr ctx"
    by (auto simp: publish_event_version_def Let_def ebind_Inr)
  note s = assms [unfolded publish_event_version_def Let_def c ebind_simps ebind_Inr guard_Inr]
  from s obtain u where "validate_publication (pxc_event ctx) (evc_draft payload) (pxc_policy_views ctx) = Inr u"
    by (elim exE conjE)
  then have e: "publication_errors (pxc_event ctx) (evc_draft payload) (pxc_policy_views ctx) = []"
    by (simp add: validate_publication_def split: list.split_asm)
  from s have h: "evc_preview_hash payload = hash_canonical sha256 (canonical_draft event_id ctx (evc_draft payload))"
    by (elim exE conjE) (simp only: not_not)
  note t = s [folded h]
  from t have g: "release_gate dk now event_id (pxc_event ctx) (evc_preview_hash payload) (evc_draft payload) approval_id = Inr ()"
    by (elim exE conjE) simp
  from t have n: "\<not> version_conflict dk (new_version (dk_next dk) event_id ctx (evc_draft payload) approval_id (evc_preview_hash payload) db_now)"
    by (elim exE conjE)
  from t have d: "dk_versions dk' = dk_versions dk @ [new_version (dk_next dk) event_id ctx (evc_draft payload) approval_id (evc_preview_hash payload) db_now]"
    "dk_approvals dk' = dk_approvals dk" "dk_requests dk' = dk_requests dk" "dk_next dk' = dk_next dk + 2"
    "r = event_version_read_of (new_version (dk_next dk) event_id ctx (evc_draft payload) approval_id (evc_preview_hash payload) db_now)" "dk_corrections dk' = dk_corrections dk"
    by (elim exE conjE, auto simp: log_audit_def)+
  show thesis by (rule that [OF c e h g refl n d])
qed

text \<open>Without policy errors every claim a sentence refers to is known and passes all the checks.\<close>

lemma publication_errors_Nil:
  "publication_errors e d views = [] \<longleftrightarrow> signoff_errors e d = [] \<and>
    (\<forall>s \<in> set (ec_sentences (edr_content d)). \<forall>i \<in> set (pse_claim_ids s).
      \<exists>c. row_get cpv_id i views = Some c \<and> claim_errors e (pse_section s) c = [])"
proof -
  have "(\<exists>c. x = Some c \<and> f c = []) \<longleftrightarrow> x \<noteq> None \<and> (case x of None \<Rightarrow> [] | Some c \<Rightarrow> f c) = []"
    for x :: "'a option" and f :: "'a \<Rightarrow> 'b list" by (cases x) auto
  note pt = this
  show ?thesis
    unfolding publication_errors_def Let_def pt
    by (simp add: referenced_claims_def filter_empty_conv) blast
qed

lemma signoff_errors_Nil:
  "signoff_errors e d = [] \<longleftrightarrow> \<not> is_model (edr_published_by d) \<and>
    (3 \<le> evn_severity e \<longrightarrow> truthy (edr_signed_off_by d)) \<and>
    (truthy (edr_signed_off_by d) \<longrightarrow> \<not> is_model (the (edr_signed_off_by d)) \<and>
       \<not> same_actor (the (edr_signed_off_by d)) (edr_published_by d))"
  by (auto simp: signoff_errors_def)

lemma claim_errors_Nil:
  "claim_errors e sec c = [] \<longleftrightarrow> cpv_event_id c = evn_id e \<and> cpv_state c \<in> set (allowed_by_section sec) \<and>
    (cpv_state c \<in> set EVIDENCED_STATES \<longrightarrow> 0 < cpv_evidence_count c) \<and>
    (is_model (cpv_proposed_by c) \<longrightarrow> truthy (cpv_reviewed_by c)) \<and>
    (truthy (cpv_reviewed_by c) \<longrightarrow> \<not> is_model (the (cpv_reviewed_by c))) \<and>
    (cpv_sensitivity_flags c \<noteq> [] \<longrightarrow> truthy (cpv_second_reviewed_by c) \<and>
       \<not> is_model (the (cpv_second_reviewed_by c)) \<and> cpv_second_review_valid c \<and>
       (truthy (cpv_reviewed_by c) \<longrightarrow> \<not> same_actor (the (cpv_second_reviewed_by c)) (the (cpv_reviewed_by c))))"
  by (auto simp: claim_errors_def Let_def)

lemma policy_view_of:
  assumes "row_get cpv_id i (map (policy_view sha256 dk now req) rows) = Some v"
  obtains c where "c \<in> set rows" and "clm_id c = i" and "v = policy_view sha256 dk now req c"
proof -
  from row_get_in [OF assms] obtain c where "c \<in> set rows" "v = policy_view sha256 dk now req c" by auto
  with row_get_key [OF assms] that show thesis by (auto simp: policy_view_def)
qed

lemma count_for_pos: "0 < count_for i rows \<longleftrightarrow> (\<exists>x \<in> set rows. evd_claim_id x = i)"
  by (auto simp: count_for_def filter_empty_conv)

text \<open>What the checks of a claim mean for the row it was read from.\<close>

definition releasable :: "hash \<Rightarrow> desk \<Rightarrow> instant \<Rightarrow> uid \<Rightarrow> event_draft \<Rightarrow> pub_section \<Rightarrow> claim_row \<Rightarrow> bool" where
  "releasable sha256 dk now event_id d sec c \<longleftrightarrow> clm_event_id c = event_id \<and>
     clm_claim_state c \<in> set (allowed_by_section sec) \<and>
     (clm_claim_state c \<in> set EVIDENCED_STATES \<longrightarrow>
       (\<exists>x \<in> set (dk_evidence dk). evd_claim_id x = clm_id c \<and> evd_id x \<in> set (ec_evidence_ids (edr_content d)) \<and>
         \<not> unsafe_scan (evidence_scan dk x))) \<and>
     (is_model (clm_proposed_by c) \<longrightarrow> truthy (clm_reviewed_by c)) \<and>
     (clm_sensitivity_flags c \<noteq> [] \<longrightarrow> claim_second_review_is_valid sha256 dk now c)"

lemma no_errors_releasable:
  assumes c: "load_context sha256 dk now event_id d = Inr ctx"
    and e: "publication_errors (pxc_event ctx) d (pxc_policy_views ctx) = []"
    and s: "s \<in> set (ec_sentences (edr_content d))" and i: "i \<in> set (pse_claim_ids s)"
  shows "\<exists>c \<in> set (dk_claims dk). clm_id c = i \<and> releasable sha256 dk now event_id d (pse_section s) c"
proof -
  from c obtain ev where ctx: "pxc_event ctx = ev" "evn_id ev = event_id"
    "pxc_claim_rows ctx = filter (\<lambda>c. clm_id c \<in> set (referenced_claims d)) (dk_claims dk)"
    "pxc_evidence_rows ctx = filter (\<lambda>x. evd_id x \<in> set (ec_evidence_ids (edr_content d))) (dk_evidence dk)"
    "pxc_policy_views ctx = map (policy_view sha256 dk now (pxc_evidence_rows ctx)) (pxc_claim_rows ctx)"
    by (rule load_context_Inr)
  from e s i obtain v where v: "row_get cpv_id i (pxc_policy_views ctx) = Some v"
    and ok: "claim_errors ev (pse_section s) v = []"
    unfolding publication_errors_Nil ctx(1) by blast
  from v obtain c where r: "c \<in> set (pxc_claim_rows ctx)" "clm_id c = i"
    "v = policy_view sha256 dk now (pxc_evidence_rows ctx) c"
    unfolding ctx(5) by (rule policy_view_of)
  from ok r(3) ctx(2) have "releasable sha256 dk now event_id d (pse_section s) c"
    unfolding claim_errors_Nil releasable_def ctx(4)
    by (simp add: policy_view_def count_for_pos) blast
  with r ctx(3) show ?thesis by auto
qed

section \<open>A successful approval\<close>

text \<open>An approval is given under a sufficient role and strong authentication by somebody else than the
  person it is given for, and lasts for a quarter of an hour.\<close>

definition four_eyes :: "desk_approval_row \<Rightarrow> bool" where
  "four_eyes a \<longleftrightarrow> dap_primary_user_id a \<noteq> dap_approved_by_user_id a \<and>
     dap_auth_assurance a \<in> {AU_MFA, AU_PHISHING_RESISTANT} \<and> dap_expires_at a = dap_approved_at a + 15 * MINUTE"

definition adds_approval :: "desk \<Rightarrow> desk \<Rightarrow> desk_approval_row \<Rightarrow> bool" where
  "adds_approval dk dk' a \<longleftrightarrow> dk_versions dk' = dk_versions dk \<and> dk_approvals dk' = dk_approvals dk @ [a] \<and>
     dk_requests dk' = dk_requests dk \<and> dk_corrections dk' = dk_corrections dk \<and> dap_id a = dk_next dk \<and> dk_next dk' = dk_next dk + 2 \<and> four_eyes a"

lemma new_approval_four_eyes:
  "dp_assurance p \<in> set STRONG_ASSURANCE \<Longrightarrow> primary_id \<noteq> dp_user_id p \<Longrightarrow>
    four_eyes (new_approval i kind target h payload primary_id p reason now)"
  by (auto simp: four_eyes_def new_approval_def STRONG_ASSURANCE_def PUBLICATION_APPROVAL_VALIDITY_def)

lemma approve_publication_adds:
  assumes "approve_event_publication sha256 dk now db_now event_id payload p = Inr (dk', res)"
  shows "adds_approval dk dk' (par_approval res)" and "dap_primary_user_id (par_approval res) = pac_publisher_user_id payload"
    and "dap_approved_by_user_id (par_approval res) = dp_user_id p" and "dap_target_id (par_approval res) = event_id"
  using assms unfolding approve_event_publication_def Let_def adds_approval_def
  by (auto simp: ebind_Inr add_approval_def new_approval_four_eyes split: option.splits if_splits)
     (auto simp: new_approval_def)

lemma approve_correction_adds:
  assumes "approve_operational_correction sha256 codec dk now db_now payload p = Inr (dk', res)"
  shows "adds_approval dk dk' (car_approval res)" and "dap_primary_user_id (car_approval res) = cac_drafter_user_id payload"
    and "dap_approved_by_user_id (car_approval res) = dp_user_id p"
    and "dap_target_id (car_approval res) = cc_event_id (cac_draft payload)"
  using assms unfolding approve_operational_correction_def Let_def adds_approval_def
  by (auto simp: ebind_Inr add_approval_def new_approval_four_eyes split: option.splits if_splits)
     (auto simp: new_approval_def)

lemma approve_claim_adds:
  assumes "approve_sensitive_claim sha256 dk now db_now event_id claim_id reason p = Inr (dk', a)"
  shows "adds_approval dk dk' a"
  using assms unfolding approve_sensitive_claim_def Let_def adds_approval_def
  by (auto simp: add_approval_def new_approval_four_eyes split: option.splits if_splits)
     (auto simp: new_approval_def)

end
