(* ===== verification/DeskSystem.thy ===== *)
theory DeskSystem
  imports Desk_Facts
begin

text \<open>
  The desk as a transition system: every operation of the services, and any change of the tables that
  are not releases, approvals or requests. Its invariant says what a released version, an approval and
  a decided request can be trusted for.
\<close>

section \<open>Steps\<close>

datatype desk_event = Release | Correct | Approve | Request | Decide | Edit | Govern | Elsewhere

inductive desk_step :: "hash \<Rightarrow> datetime_codec \<Rightarrow> desk \<Rightarrow> desk_event \<Rightarrow> desk \<Rightarrow> bool" for sha256 codec where
  ds_publish: "publish_event_version sha256 dk now db_now event_id payload approval_id = Inr (dk', v) \<Longrightarrow>
    desk_step sha256 codec dk Release dk'"
| ds_correct: "issue_correction sha256 dk now db_now correction approval_id released_by = Inr (dk', row) \<Longrightarrow>
    desk_step sha256 codec dk Correct dk'"
| ds_approve: "approve_event_publication sha256 dk now db_now event_id pub p = Inr (dk', res) \<Longrightarrow>
    desk_step sha256 codec dk Approve dk'"
| ds_approve_correction: "approve_operational_correction sha256 codec dk now db_now cor p = Inr (dk', cres) \<Longrightarrow>
    desk_step sha256 codec dk Approve dk'"
| ds_review_claim: "approve_sensitive_claim sha256 dk now db_now event_id claim_id reason p = Inr (dk', a) \<Longrightarrow>
    desk_step sha256 codec dk Approve dk'"
| ds_request: "create_publication_request sha256 dk now db_now event_id req p = Inr (dk', r) \<Longrightarrow>
    desk_step sha256 codec dk Request dk'"
| ds_request_correction: "create_correction_request sha256 codec dk now db_now creq p = Inr (dk', r) \<Longrightarrow>
    desk_step sha256 codec dk Request dk'"
| ds_decide: "decide_approval_request sha256 codec dk now db_now request_id choice p = (dk', out) \<Longrightarrow>
    desk_step sha256 codec dk Decide dk'"
| ds_create_claim: "create_claim dk now db_now event_id new = Inr (dk', c) \<Longrightarrow> desk_step sha256 codec dk Edit dk'"
| ds_update_claim: "update_claim dk now db_now event_id claim_id change = Inr (dk', c) \<Longrightarrow> desk_step sha256 codec dk Edit dk'"
| ds_link: "link_evidence dk now db_now event_id claim_id link = Inr (dk', e) \<Longrightarrow> desk_step sha256 codec dk Edit dk'"
| ds_triage: "apply_triage_action dk now db_now item_id action = Inr (dk', d) \<Longrightarrow> desk_step sha256 codec dk Edit dk'"
| ds_lineage: "review_lineage_proposal dk now db_now i decision who why = Inr (dk', lr) \<Longrightarrow> desk_step sha256 codec dk Edit dk'"
| ds_control: "set_capability_control dk now db_now scope control p = Inr (dk', row') \<Longrightarrow> desk_step sha256 codec dk Govern dk'"
| ds_incident: "create_ai_incident dk now db_now incident p = Inr (dk', ir) \<Longrightarrow> desk_step sha256 codec dk Govern dk'"
| ds_incident_event: "append_ai_incident_event dk now db_now i ie p = Inr (dk', ir) \<Longrightarrow> desk_step sha256 codec dk Govern dk'"
| ds_elsewhere: "same_release dk dk' \<Longrightarrow> desk_step sha256 codec dk Elsewhere dk'"

section \<open>The invariant\<close>

text \<open>A version released at severity 3 or above carries the approval of exactly its content.\<close>

definition properly_released :: "desk \<Rightarrow> event_version_row \<Rightarrow> bool" where
  "properly_released dk v \<longleftrightarrow> (\<forall>n. obj_get (evv_event_snapshot_json v) ''severity'' = JInt n \<longrightarrow> 3 \<le> n \<longrightarrow>
     (\<exists>a \<in> set (dk_approvals dk). evv_publication_approval_id v = Some (dap_id a) \<and>
        dap_approval_type a = ''event_publication'' \<and> dap_target_id a = evv_event_id v \<and>
        dap_binding_hash a = evv_content_hash v \<and> evv_published_by v = desk_actor (dap_primary_user_id a) \<and>
        evv_signed_off_by v = Some (desk_actor (dap_approved_by_user_id a))))"

text \<open>An approved request names an approval given for the requester by the person who decided.\<close>

definition properly_decided :: "desk \<Rightarrow> approval_request_row \<Rightarrow> bool" where
  "properly_decided dk r \<longleftrightarrow> dar_status r \<in> set REQUEST_STATUSES \<and> (dar_status r = ''approved'' \<longrightarrow>
     (\<exists>a \<in> set (dk_approvals dk). dar_approval_id r = Some (dap_id a) \<and>
        dap_primary_user_id a = dar_primary_user_id r \<and> dar_decided_by_user_id r = Some (dap_approved_by_user_id a)))"

definition spent_approvals :: "desk \<Rightarrow> uid list" where
  "spent_approvals dk = concat (map (\<lambda>v. case evv_publication_approval_id v of None \<Rightarrow> [] | Some i \<Rightarrow> [i]) (dk_versions dk))"

definition spent_on_corrections :: "desk \<Rightarrow> uid list" where
  "spent_on_corrections dk =
    concat (map (\<lambda>c. case cor_correction_approval_id c of None \<Rightarrow> [] | Some i \<Rightarrow> [i]) (dk_corrections dk))"

text \<open>The versions of an event are numbered from 1 without a gap.\<close>

definition numbered :: "desk \<Rightarrow> uid \<Rightarrow> bool" where
  "numbered dk i \<longleftrightarrow> (let vs = filter (\<lambda>v. evv_event_id v = i) (dk_versions dk)
     in map evv_version_no vs = map (\<lambda>k. int k + 1) [0..<length vs])"

definition approvals_inv :: "desk \<Rightarrow> bool" where
  "approvals_inv dk \<longleftrightarrow> (\<forall>a \<in> set (dk_approvals dk). four_eyes a \<and> dap_id a < dk_next dk) \<and>
     distinct (map dap_id (dk_approvals dk))"

definition versions_inv :: "desk \<Rightarrow> bool" where
  "versions_inv dk \<longleftrightarrow> (\<forall>v \<in> set (dk_versions dk). properly_released dk v) \<and> distinct (spent_approvals dk) \<and>
     (\<forall>i. numbered dk i)"

definition requests_inv :: "desk \<Rightarrow> bool" where
  "requests_inv dk \<longleftrightarrow> (\<forall>r \<in> set (dk_requests dk). properly_decided dk r \<and> dar_id r < dk_next dk) \<and>
     distinct (map dar_id (dk_requests dk))"

definition corrections_inv :: "desk \<Rightarrow> bool" where
  "corrections_inv dk \<longleftrightarrow> (\<forall>c \<in> set (dk_corrections dk). properly_corrected dk c) \<and> distinct (spent_on_corrections dk)"

definition desk_inv :: "desk \<Rightarrow> bool" where
  "desk_inv dk \<longleftrightarrow> approvals_inv dk \<and> versions_inv dk \<and> requests_inv dk"

lemmas inv_defs = desk_inv_def approvals_inv_def versions_inv_def requests_inv_def corrections_inv_def properly_released_def
  properly_decided_def properly_corrected_def numbered_def spent_approvals_def spent_on_corrections_def

lemma grows_keeps:
  assumes "set (dk_approvals dk) \<subseteq> set (dk_approvals dk')"
  shows "dk_versions dk' = dk_versions dk \<Longrightarrow> versions_inv dk \<Longrightarrow> versions_inv dk'"
    and "dk_requests dk' = dk_requests dk \<Longrightarrow> dk_next dk \<le> dk_next dk' \<Longrightarrow> requests_inv dk \<Longrightarrow> requests_inv dk'"
    and "dk_corrections dk' = dk_corrections dk \<Longrightarrow> corrections_inv dk \<Longrightarrow> corrections_inv dk'"
    and "properly_decided dk q \<Longrightarrow> properly_decided dk' q"
  using assms unfolding inv_defs by (simp, blast intro: less_le_trans)+

lemma frame_keeps: "same_release dk dk' \<Longrightarrow> desk_inv dk \<Longrightarrow> desk_inv dk'"
  by (auto simp: desk_inv_def same_release_def intro: grows_keeps)
     (auto simp: approvals_inv_def intro: less_le_trans)

lemma adds_keeps: "adds_approval dk dk' a \<Longrightarrow> desk_inv dk \<Longrightarrow> desk_inv dk'"
  by (auto simp: desk_inv_def adds_approval_def intro: grows_keeps)
     (auto simp: approvals_inv_def intro: less_SucI)

section \<open>Corrections keep it\<close>

lemma correction_keeps:
  assumes "issue_correction sha256 dk now db_now payload approval_id released_by = Inr (dk', row)" and "desk_inv dk"
  shows "desk_inv dk'"
  using assms(1)
proof (cases rule: issue_correction_cases)
  case (1 p)
  with assms(2) show ?thesis by simp
next
  case (2 p ds)
  with assms(2) show ?thesis by (auto simp: desk_inv_def approvals_inv_def intro: grows_keeps less_trans)
qed

lemma correction_keeps_corrections:
  assumes "issue_correction sha256 dk now db_now payload approval_id released_by = Inr (dk', row)" and "corrections_inv dk"
  shows "corrections_inv dk'"
  using assms(1)
proof (cases rule: issue_correction_cases)
  case (1 p)
  with assms(2) show ?thesis by simp
next
  case (2 p ds)
  have a: "cor_correction_approval_id row = approval_id" by (simp add: 2(5) correction_row_of_def Let_def)
  have "properly_corrected dk row" unfolding 2(5) by (rule gate_corrects [OF 2(4)])
  with assms(2) have "\<forall>c \<in> set (dk_corrections dk'). properly_corrected dk' c"
    by (auto simp: corrections_inv_def properly_corrected_def 2(7,9))
  moreover have "distinct (spent_on_corrections dk')"
    using assms(2) 2(6) by (auto simp: corrections_inv_def spent_on_corrections_def 2(7) a split: option.splits)
  ultimately show ?thesis by (simp add: corrections_inv_def)
qed

lemma correction_requests:
  "issue_correction sha256 dk now db_now payload approval_id released_by = Inr (dk', row) \<Longrightarrow>
    dk_requests dk' = dk_requests dk"
  by (erule issue_correction_cases) simp_all

section \<open>Releases keep it\<close>

lemma numbered_latest:
  assumes "numbered dk i"
  shows "(case latest_event_version dk i of None \<Rightarrow> 0 | Some v \<Rightarrow> evv_version_no v)
    = int (length (filter (\<lambda>v. evv_event_id v = i) (dk_versions dk)))"
proof -
  define vs where "vs = filter (\<lambda>v. evv_event_id v = i) (dk_versions dk)"
  from assms have m: "map evv_version_no vs = map (\<lambda>k. int k + 1) [0..<length vs]"
    by (simp add: numbered_def vs_def Let_def)
  then have nth: "evv_version_no (vs ! k) = int k + 1" if "k < length vs" for k
  proof -
    have "map evv_version_no vs ! k = map (\<lambda>k. int k + 1) [0..<length vs] ! k" by (simp only: m)
    then show ?thesis using that by simp
  qed
  show ?thesis
  proof (cases "max_row evv_version_no vs")
    case None
    then show ?thesis by (simp add: latest_event_version_def max_row_None flip: vs_def) (simp add: max_row_def)
  next
    case (Some v)
    then have v: "v \<in> set vs" and le: "\<And>w. w \<in> set vs \<Longrightarrow> evv_version_no w \<le> evv_version_no v"
      by (auto dest: max_row_in max_row_greatest)
    from v obtain k where k: "k < length vs" "v = vs ! k" by (auto simp: in_set_conv_nth)
    then have "vs ! (length vs - 1) \<in> set vs" and "evv_version_no (vs ! (length vs - 1)) = int (length vs)"
      by (auto simp: nth)
    with le [of "vs ! (length vs - 1)"] nth [OF k(1)] k have "evv_version_no v = int (length vs)" by simp
    with Some show ?thesis by (simp add: latest_event_version_def flip: vs_def)
  qed
qed

lemma snapshot_severity: "obj_get (event_snapshot dk e) ''severity'' = JInt (evn_severity e)"
  by (simp add: obj_get_def event_snapshot_def)

lemma release_gate_severe:
  assumes "release_gate dk now event_id e h d approval_id = Inr ()" and "3 \<le> evn_severity e"
  obtains a where "a \<in> set (dk_approvals dk)" and "approval_id = Some (dap_id a)"
    and "release_approved dk now event_id h d (Some a)"
  using assms by (auto simp: release_gate_def get_opt_def release_approved_def
      dest: row_get_in row_get_key split: if_split_asm option.split_asm)

lemma new_version_released:
  assumes c: "load_context sha256 dk now event_id d = Inr ctx"
    and g: "release_gate dk now event_id (pxc_event ctx) h d approval_id = Inr ()"
    and approvals: "dk_approvals dk' = dk_approvals dk"
  shows "properly_released dk' (new_version i event_id ctx d approval_id h db_now)"
proof -
  from c obtain e where e: "pxc_event ctx = e" "pxc_event_snapshot ctx = event_snapshot dk e"
    by (rule load_context_Inr)
  show ?thesis
  proof (cases "3 \<le> evn_severity e")
    case True
    with g [unfolded e(1)] obtain a where "a \<in> set (dk_approvals dk)" "approval_id = Some (dap_id a)"
      "release_approved dk now event_id h d (Some a)" by (rule release_gate_severe)
    then show ?thesis
      unfolding properly_released_def approvals
      by (intro allI impI bexI [of _ a]) (auto simp: new_version_def release_approved_def desk_actor_def)
  qed (simp add: properly_released_def new_version_def e(2) snapshot_severity)
qed

lemma version_release_keeps:
  assumes "publish_event_version sha256 dk now db_now event_id payload approval_id = Inr (dk', r)" and "desk_inv dk"
  shows "desk_inv dk'"
  using assms(1)
proof (rule publish_Inr)
  fix ctx v
  assume c: "load_context sha256 dk now event_id (evc_draft payload) = Inr ctx"
    and g: "release_gate dk now event_id (pxc_event ctx) (evc_preview_hash payload) (evc_draft payload) approval_id = Inr ()"
    and v: "v = new_version (dk_next dk) event_id ctx (evc_draft payload) approval_id (evc_preview_hash payload) db_now"
    and n: "\<not> version_conflict dk v" and dk': "dk_versions dk' = dk_versions dk @ [v]" "dk_approvals dk' = dk_approvals dk"
      "dk_requests dk' = dk_requests dk" "dk_next dk' = dk_next dk + 2"
  from assms(2) have inv: "approvals_inv dk" "versions_inv dk" "requests_inv dk" by (simp_all add: desk_inv_def)
  have new: "properly_released dk' v" unfolding v by (rule new_version_released [OF c g dk'(2)])
  have old: "properly_released dk' w" if "w \<in> set (dk_versions dk)" for w
    using inv(2) that by (simp add: versions_inv_def properly_released_def dk'(2))
  have spent: "distinct (spent_approvals dk')"
    using inv(2) n by (auto simp: versions_inv_def spent_approvals_def dk'(1) version_conflict_def list_ex_iff
        split: option.splits)
  have "numbered dk' i" for i
  proof -
    from inv(2) have o: "numbered dk i" by (simp add: versions_inv_def)
    show ?thesis
    proof (cases "i = event_id")
      case True
      from c have "pxc_next_version_no ctx =
          (case latest_event_version dk event_id of None \<Rightarrow> 0 | Some v \<Rightarrow> evv_version_no v) + 1"
        by (rule load_context_Inr)
      with numbered_latest [OF o] True o show ?thesis
        by (simp add: numbered_def Let_def dk'(1) v new_version_def)
    next
      case False
      with o show ?thesis by (simp add: numbered_def Let_def dk'(1) v new_version_def)
    qed
  qed
  with new old spent dk' inv(1,3) show ?thesis
    by (auto simp: desk_inv_def versions_inv_def approvals_inv_def requests_inv_def properly_decided_def
        intro: less_SucI)
qed

section \<open>Requests and decisions keep it\<close>

lemma request_status_simps: "''pending'' \<in> set REQUEST_STATUSES" "''approved'' \<in> set REQUEST_STATUSES"
  "''rejected'' \<in> set REQUEST_STATUSES" "''cancelled'' \<in> set REQUEST_STATUSES" "''expired'' \<in> set REQUEST_STATUSES"
  by (simp_all add: REQUEST_STATUSES_def request_states)

lemma file_request_tables:
  assumes "file_request dk now db_now kind action target h payload reason p = (dk', r)" and "open_request dk now h = None"
  shows "dk_versions dk' = dk_versions dk" and "dk_approvals dk' = dk_approvals dk" and "dk_next dk' = dk_next dk + 2"
    and "dk_corrections dk' = dk_corrections dk"
    and "dk_requests dk' = map (\<lambda>q. if dar_request_type q = kind \<and> dar_target_id q = target \<and>
        dar_primary_user_id q = dp_user_id p \<and> dar_status q = PENDING then supersede now q else q) (dk_requests dk) @ [r]"
    and "r = new_request (dk_next dk) kind target h payload (dp_user_id p) reason now"
  using assms by (auto simp: file_request_def Let_def supersede_pending_requests_def)

lemma supersede_keeps:
  "properly_decided dk q \<Longrightarrow> properly_decided dk (supersede now q)" "dar_id (supersede now q) = dar_id q"
  by (auto simp: properly_decided_def supersede_def request_states REQUEST_STATUSES_def)

lemma file_request_keeps:
  assumes f: "file_request dk now db_now kind action target h payload reason p = (dk', r)" and inv: "desk_inv dk"
  shows "desk_inv dk'"
proof (cases "open_request dk now h")
  case (Some q)
  with f inv show ?thesis by (simp add: file_request_def)
next
  case None
  note t = file_request_tables [OF f None]
  have pd: "properly_decided dk' = properly_decided dk" by (auto simp: properly_decided_def t(2) fun_eq_iff)
  have new: "properly_decided dk r" "dar_id r = dk_next dk"
    by (simp_all add: t(6) new_request_def properly_decided_def request_states REQUEST_STATUSES_def)
  have "requests_inv dk'"
    using inv new by (auto simp: desk_inv_def requests_inv_def t(3,5) pd supersede_keeps o_def if_distrib [of dar_id]
        cong: if_cong intro: less_SucI)
  moreover have "approvals_inv dk'" "versions_inv dk'"
    using inv by (auto simp: desk_inv_def approvals_inv_def t(1-4) intro: less_SucI grows_keeps)
  ultimately show ?thesis by (simp add: desk_inv_def)
qed

lemma create_request_keeps:
  "create_publication_request sha256 dk now db_now event_id req p = Inr (dk', r) \<Longrightarrow> desk_inv dk \<Longrightarrow> desk_inv dk'"
  by (auto simp: create_publication_request_def Let_def ebind_Inr intro: file_request_keeps
      split: option.split_asm if_split_asm)

lemma create_correction_request_keeps:
  "create_correction_request sha256 codec dk now db_now creq p = Inr (dk', r) \<Longrightarrow> desk_inv dk \<Longrightarrow> desk_inv dk'"
  by (auto simp: create_correction_request_def Let_def ebind_Inr intro: file_request_keeps split: if_split_asm)

lemma approve_stored_adds:
  assumes "approve_stored_draft sha256 codec dk now db_now r reason p = Inr (dk1, a)"
  shows "adds_approval dk dk1 a" and "dap_primary_user_id a = dar_primary_user_id r"
    and "dap_approved_by_user_id a = dp_user_id p"
  using assms unfolding approve_stored_draft_def
  by (auto simp: ebind_Inr split: json.split_asm if_split_asm
      dest: approve_publication_adds approve_correction_adds)

lemma same_release_log: "same_release dk dk1 \<Longrightarrow> same_release dk (log_audit dk1 a b c i p t)" "same_release dk (log_audit dk a b c i p t)"
  by (auto simp: same_release_def)

lemma decide_in_tables [simp]:
  "dk_versions (decide_in dk i f) = dk_versions dk" "dk_approvals (decide_in dk i f) = dk_approvals dk"
  "dk_next (decide_in dk i f) = dk_next dk" "dk_corrections (decide_in dk i f) = dk_corrections dk"
  "dk_requests (decide_in dk i f) = row_upd dar_id i f (dk_requests dk)"
  by (simp_all add: decide_in_def)

lemma decide_in_keeps:
  assumes inv: "desk_inv dk" and r: "row_get dar_id i (dk_requests dk) = Some r"
    and f: "properly_decided dk (f r)" "\<And>q. dar_id (f q) = dar_id q"
  shows "desk_inv (decide_in dk i f)"
proof -
  have q: "q = r" if "q \<in> set (dk_requests dk)" "dar_id q = i" for q
    using that row_get_in [OF r] row_get_key [OF r] inv
    by (auto simp: desk_inv_def requests_inv_def distinct_map inj_on_def)
  have "requests_inv (decide_in dk i f)"
    using inv f q
    by (auto simp: desk_inv_def requests_inv_def row_upd_map properly_decided_def o_def if_distrib [of dar_id]
        cong: if_cong)
  with inv show ?thesis by (auto simp: desk_inv_def approvals_inv_def intro: grows_keeps)
qed

text \<open>What a decision can do to the store.\<close>

lemma decide_outcome:
  assumes "decide_approval_request sha256 codec dk now db_now i choice p = (dk', out)"
  obtains (nothing) "dk' = dk"
  | (expired) r where "row_get dar_id i (dk_requests dk) = Some r" and "effective_status r now = EXPIRED"
      and "dk' = decide_in dk i (decide_row EXPIRED now None ''Request expired before a decision'' None)"
  | (rejected) r where "row_get dar_id i (dk_requests dk) = Some r" and "dar_status r = PENDING"
      and "same_release (decide_in dk i (decide_row REJECTED now (Some (dp_user_id p)) (dec_reason choice) None)) dk'"
  | (approved) r dk1 a where "row_get dar_id i (dk_requests dk) = Some r" and "dar_status r = PENDING"
      and "approve_stored_draft sha256 codec dk now db_now r (dec_reason choice) p = Inr (dk1, a)"
      and "same_release (decide_in dk1 i
        (decide_row APPROVED now (Some (dp_user_id p)) (dec_reason choice) (Some (dap_id a)))) dk'"
proof (cases "row_get dar_id i (dk_requests dk)")
  case None
  with assms have "dk' = dk" by (auto simp: decide_approval_request_def split: if_split_asm)
  then show thesis by (rule nothing)
next
  case (Some r)
  then have k: "dar_id r = i" by (rule row_get_key)
  show thesis
  proof (cases "dp_role p \<in> set APPROVER_ROLES \<and> dp_assurance p \<in> set STRONG_ASSURANCE")
    case False
    with assms have "dk' = dk" by (auto simp: decide_approval_request_def split: if_split_asm)
    then show thesis by (rule nothing)
  next
    case True
    note d = assms [unfolded decide_approval_request_def Some option.case k]
    show thesis
    proof (cases "effective_status r now = EXPIRED")
      case e: True
      with d True expired [OF Some] show thesis by simp
    next
      case e: False
      show thesis
      proof (cases "dar_status r \<noteq> PENDING \<or> dar_primary_user_id r = dp_user_id p")
        case b: True
        with d True e have "dk' = dk" by (auto split: if_split_asm)
        then show thesis by (rule nothing)
      next
        case b: False
        show thesis
        proof (cases "dec_decision choice = CHOICE_REJECT")
          case c: True
          from d b e True c have "same_release (decide_in dk i (decide_row REJECTED now (Some (dp_user_id p)) (dec_reason choice) None)) dk'"
            by (auto simp: Let_def same_release_log)
          with b show thesis by (intro rejected [OF Some]) auto
        next
          case c: False
          show thesis
          proof (cases "approve_stored_draft sha256 codec dk now db_now r (dec_reason choice) p")
            case (Inl err)
            with d b e True c have "dk' = dk" by simp
            then show thesis by (rule nothing)
          next
            case (Inr x)
            obtain dk1 a where x: "x = (dk1, a)" by fastforce
            with Inr d b e True c have "same_release (decide_in dk1 i
                (decide_row APPROVED now (Some (dp_user_id p)) (dec_reason choice) (Some (dap_id a)))) dk'"
              by (auto simp: Let_def same_release_log)
            with b x Inr show thesis by (intro approved [OF Some]) auto
          qed
        qed
      qed
    qed
  qed
qed

lemma decide_keeps:
  assumes d: "decide_approval_request sha256 codec dk now db_now i choice p = (dk', out)" and inv: "desk_inv dk"
  shows "desk_inv dk'"
  using d
proof (cases rule: decide_outcome)
  case nothing
  with inv show ?thesis by simp
next
  case (expired r)
  have "desk_inv (decide_in dk i (decide_row EXPIRED now None ''Request expired before a decision'' None))"
    by (rule decide_in_keeps [OF inv expired(1)])
       (simp_all add: decide_row_def properly_decided_def request_states REQUEST_STATUSES_def)
  with expired(3) show ?thesis by simp
next
  case (rejected r)
  have "desk_inv (decide_in dk i (decide_row REJECTED now (Some (dp_user_id p)) (dec_reason choice) None))"
    by (rule decide_in_keeps [OF inv rejected(1)])
       (simp_all add: decide_row_def properly_decided_def request_states REQUEST_STATUSES_def)
  with rejected(3) show ?thesis by (rule frame_keeps)
next
  case (approved r dk1 a)
  note a = approve_stored_adds [OF approved(3)]
  have r1: "row_get dar_id i (dk_requests dk1) = Some r" using a(1) approved(1) by (simp add: adds_approval_def)
  have "a \<in> set (dk_approvals dk1)" using a(1) by (simp add: adds_approval_def)
  then have "desk_inv (decide_in dk1 i (decide_row APPROVED now (Some (dp_user_id p)) (dec_reason choice) (Some (dap_id a))))"
    using a(2,3) by (intro decide_in_keeps [OF adds_keeps [OF a(1) inv] r1])
       (auto simp: decide_row_def properly_decided_def request_states REQUEST_STATUSES_def)
  with approved(4) show ?thesis by (rule frame_keeps)
qed

section \<open>Every run\<close>

lemma desk_step_keeps: "desk_step sha256 codec dk e dk' \<Longrightarrow> desk_inv dk \<Longrightarrow> desk_inv dk'"
  by (induction rule: desk_step.induct)
     (blast intro: version_release_keeps adds_keeps approve_publication_adds approve_correction_adds approve_claim_adds
        correction_keeps create_request_keeps create_correction_request_keeps decide_keeps frame_keeps dest: desk_frame)+

interpretation desk_runs: step_invariant "desk_step sha256 codec" desk_inv
  by unfold_locales (rule desk_step_keeps)

text \<open>Only an issue writes corrections; everything else at most adds an approval.\<close>

definition adds_no_correction :: "desk \<Rightarrow> desk \<Rightarrow> bool" where
  "adds_no_correction dk dk' \<longleftrightarrow> dk_corrections dk' = dk_corrections dk \<and> set (dk_approvals dk) \<subseteq> set (dk_approvals dk')"

lemma frame_adds_no_correction: "same_release dk dk' \<Longrightarrow> adds_no_correction dk dk'"
  by (simp add: adds_no_correction_def same_release_def)

lemma approval_adds_no_correction: "adds_approval dk dk' a \<Longrightarrow> adds_no_correction dk dk'"
  by (auto simp: adds_no_correction_def adds_approval_def)

lemma publish_adds_no_correction:
  "publish_event_version sha256 dk now db_now event_id payload approval_id = Inr (dk', v) \<Longrightarrow> adds_no_correction dk dk'"
  by (erule publish_Inr) (simp add: adds_no_correction_def)

lemma file_adds_no_correction:
  assumes "file_request dk now db_now kind action target h body reason p = (dk', r)"
  shows "adds_no_correction dk dk'"
proof (cases "open_request dk now h")
  case None
  from file_request_tables(2,4) [OF assms None] show ?thesis by (simp add: adds_no_correction_def)
next
  case (Some q)
  with assms show ?thesis by (simp add: file_request_def adds_no_correction_def)
qed

lemma create_request_adds_no_correction:
  "create_publication_request sha256 dk now db_now event_id req p = Inr (dk', r) \<Longrightarrow> adds_no_correction dk dk'"
  by (auto simp: create_publication_request_def Let_def ebind_Inr
      intro: file_adds_no_correction split: option.split_asm if_split_asm)

lemma create_correction_request_adds_no_correction:
  "create_correction_request sha256 codec dk now db_now creq p = Inr (dk', r) \<Longrightarrow> adds_no_correction dk dk'"
  by (auto simp: create_correction_request_def Let_def ebind_Inr intro: file_adds_no_correction split: if_split_asm)

lemma decide_adds_no_correction:
  assumes "decide_approval_request sha256 codec dk now db_now i choice p = (dk', out)"
  shows "adds_no_correction dk dk'"
  using assms
proof (cases rule: decide_outcome)
  case (approved r dk1 a)
  from approved(4) approve_stored_adds(1) [OF approved(3)] show ?thesis
    by (auto simp: adds_no_correction_def same_release_def adds_approval_def)
qed (simp_all add: adds_no_correction_def same_release_def)

lemma no_correction_keeps: "adds_no_correction dk dk' \<Longrightarrow> corrections_inv dk \<Longrightarrow> corrections_inv dk'"
  by (auto simp: adds_no_correction_def intro: grows_keeps(3))

lemma desk_step_keeps_corrections:
  "desk_step sha256 codec dk e dk' \<Longrightarrow> corrections_inv dk \<Longrightarrow> corrections_inv dk'"
  by (induction rule: desk_step.induct)
     (blast intro: correction_keeps_corrections no_correction_keeps frame_adds_no_correction approval_adds_no_correction
        publish_adds_no_correction create_request_adds_no_correction create_correction_request_adds_no_correction
        decide_adds_no_correction approve_publication_adds approve_correction_adds approve_claim_adds dest: desk_frame)+

interpretation correction_runs: step_invariant "desk_step sha256 codec" corrections_inv
  by unfold_locales (rule desk_step_keeps_corrections)

text \<open>A request that was approved, rejected or cancelled is never touched again.\<close>

definition request_closed :: "approval_request_row \<Rightarrow> bool" where
  "request_closed r \<longleftrightarrow> dar_status r \<in> {''approved'', ''rejected'', ''cancelled''}"

lemma decide_keeps_closed:
  assumes d: "decide_approval_request sha256 codec dk now db_now i choice p = (dk', out)" and inv: "desk_inv dk"
    and q: "q \<in> set (dk_requests dk)" "request_closed q"
  shows "q \<in> set (dk_requests dk')"
proof -
  have other: "dar_id q \<noteq> i" if "row_get dar_id i (dk_requests dk) = Some r" "\<not> request_closed r" for r
  proof
    assume "dar_id q = i"
    with q(1) inv row_get_in [OF that(1)] row_get_key [OF that(1)] have "q = r"
      by (auto simp: desk_inv_def requests_inv_def distinct_map inj_on_def)
    with q(2) that(2) show False by simp
  qed
  have kept: "q \<in> set (row_upd dar_id i f (dk_requests dk))" if "dar_id q \<noteq> i" for f
    using q(1) that by (force simp: row_upd_map)
  show ?thesis
    using d
  proof (cases rule: decide_outcome)
    case nothing
    with q show ?thesis by simp
  next
    case (expired r)
    from expired(2) have "\<not> request_closed r"
      by (auto simp: effective_status_def request_closed_def request_states split: if_split_asm)
    then have "dar_id q \<noteq> i" by (rule other [OF expired(1)])
    then show ?thesis by (simp add: expired(3) kept)
  next
    case (rejected r)
    from rejected(2) have "\<not> request_closed r" by (auto simp: request_closed_def request_states)
    then have "dar_id q \<noteq> i" by (rule other [OF rejected(1)])
    then show ?thesis using rejected(3) by (simp add: same_release_def kept)
  next
    case (approved r dk1 a)
    from approved(2) have "\<not> request_closed r" by (auto simp: request_closed_def request_states)
    then have "dar_id q \<noteq> i" by (rule other [OF approved(1)])
    then show ?thesis
      using approved(4) approve_stored_adds(1) [OF approved(3)] by (simp add: same_release_def adds_approval_def kept)
  qed
qed

lemma file_request_keeps_closed:
  assumes f: "file_request dk now db_now kind action target h payload reason p = (dk', r)"
    and q: "q \<in> set (dk_requests dk)" "request_closed q"
  shows "q \<in> set (dk_requests dk')"
proof (cases "open_request dk now h")
  case (Some x)
  with f q show ?thesis by (simp add: file_request_def)
next
  case None
  from q(2) have "dar_status q \<noteq> PENDING" by (auto simp: request_closed_def request_states)
  with q(1) show ?thesis by (force simp: file_request_tables(5) [OF f None])
qed

definition closed_inv :: "approval_request_row \<Rightarrow> desk \<Rightarrow> bool" where
  "closed_inv q dk \<longleftrightarrow> desk_inv dk \<and> request_closed q \<and> q \<in> set (dk_requests dk)"

lemma create_request_keeps_closed:
  "create_publication_request sha256 dk now db_now event_id req p = Inr (dk', r) \<Longrightarrow> q \<in> set (dk_requests dk) \<Longrightarrow>
    request_closed q \<Longrightarrow> q \<in> set (dk_requests dk')"
  by (auto simp: create_publication_request_def Let_def ebind_Inr intro: file_request_keeps_closed
      split: option.split_asm if_split_asm)

lemma create_correction_request_keeps_closed:
  "create_correction_request sha256 codec dk now db_now creq p = Inr (dk', r) \<Longrightarrow> q \<in> set (dk_requests dk) \<Longrightarrow>
    request_closed q \<Longrightarrow> q \<in> set (dk_requests dk')"
  by (auto simp: create_correction_request_def Let_def ebind_Inr intro: file_request_keeps_closed split: if_split_asm)

lemma same_release_requests: "same_release dk dk' \<Longrightarrow> dk_requests dk' = dk_requests dk"
  by (simp add: same_release_def)

lemma adds_approval_requests: "adds_approval dk dk' a \<Longrightarrow> dk_requests dk' = dk_requests dk"
  by (simp add: adds_approval_def)

lemma publish_requests:
  "publish_event_version sha256 dk now db_now event_id payload approval_id = Inr (dk', r) \<Longrightarrow>
    dk_requests dk' = dk_requests dk"
  by (erule publish_Inr)

lemma desk_step_keeps_closed:
  "desk_step sha256 codec dk e dk' \<Longrightarrow> desk_inv dk \<Longrightarrow> request_closed q \<Longrightarrow> q \<in> set (dk_requests dk) \<Longrightarrow>
    q \<in> set (dk_requests dk')"
  by (induction rule: desk_step.induct)
     (use decide_keeps_closed create_request_keeps_closed create_correction_request_keeps_closed in
       \<open>auto dest!: publish_requests correction_requests approve_publication_adds(1) approve_correction_adds(1) approve_claim_adds
         adds_approval_requests desk_frame same_release_requests\<close>)

interpretation closed_requests: step_invariant "desk_step sha256 codec" "closed_inv q"
  by unfold_locales (use desk_step_keeps desk_step_keeps_closed in \<open>auto simp: closed_inv_def\<close>)

end
