(* ===== verification/Desk_Props.thy ===== *)
theory Desk_Props
  imports DeskSystem PolicyService_Props
begin

text \<open>
  What the desk promises: releases are gated and bound to one content, approvals hold what they
  grant, decisions are final, and every run of the services keeps its records trustworthy.
\<close>

section \<open>Approval, then release\<close>

text \<open>The canonical draft and the latest version read none of the tables an approval writes.\<close>

definition same_content :: "desk \<Rightarrow> desk \<Rightarrow> bool" where
  "same_content dk dk' \<longleftrightarrow> dk_events dk' = dk_events dk \<and> dk_versions dk' = dk_versions dk \<and> dk_claims dk' = dk_claims dk \<and>
     dk_evidence dk' = dk_evidence dk \<and> dk_triage dk' = dk_triage dk \<and> dk_records dk' = dk_records dk"

lemma approve_Inr:
  assumes "approve_event_publication sha256 dk now db_now event_id payload p = Inr (dk', res)"
  obtains e d pv where "row_get evn_id event_id (dk_events dk) = Some e" and "3 \<le> evn_severity e"
    and "active_with PUBLISHER_ROLES (row_get dus_id (pac_publisher_user_id payload) (dk_users dk))"
    and "pac_publisher_user_id payload \<noteq> dp_user_id p" and "dp_assurance p \<in> set STRONG_ASSURANCE"
    and "make_event_draft (pac_draft payload) (desk_actor (pac_publisher_user_id payload)) (Some (principal_actor p)) = Inr d"
    and "preview_event_version sha256 dk now event_id d = Inr pv" and "vpr_ready pv"
    and "par_approved_draft res = d" and "par_preview res = pv"
    and "par_approval res = new_approval (dk_next dk) EVENT_PUBLICATION_APPROVAL event_id (vpr_preview_hash pv)
      [(''event_id'', j_uid event_id), (''approved_draft'', event_draft_json d), (''preview'', version_preview_json pv)]
      (pac_publisher_user_id payload) p (pac_reason payload) now"
    and "same_content dk dk'" and "dk_users dk' = dk_users dk" and "dk_approvals dk' = dk_approvals dk @ [par_approval res]"
proof -
  from assms obtain e where e: "row_get evn_id event_id (dk_events dk) = Some e"
    by (auto simp: approve_event_publication_def split: if_split_asm option.split_asm)
  note s = assms [unfolded approve_event_publication_def e option.case Let_def ebind_Inr guard_Inr]
  from s show thesis
    by (elim exE conjE) (rule that [OF e]; auto simp: same_content_def log_audit_def add_approval_def)
qed

lemma same_content_canonical:
  assumes "same_content dk dk'" and "load_context sha256 dk now i d = Inr ctx" and "load_context sha256 dk' t i d = Inr ctx'"
  shows "canonical_draft i ctx' d = canonical_draft i ctx d" and "pxc_event ctx' = pxc_event ctx"
proof -
  have "event_snapshot dk' e = event_snapshot dk e" for e
    using assms(1) by (simp add: event_snapshot_def detected_ports_def same_content_def)
  moreover have "latest_event_version dk' i = latest_event_version dk i"
    using assms(1) by (simp add: latest_event_version_def same_content_def)
  ultimately have "pxc_event_snapshot ctx' = pxc_event_snapshot ctx \<and> pxc_claim_rows ctx' = pxc_claim_rows ctx \<and>
      pxc_evidence_rows ctx' = pxc_evidence_rows ctx \<and> pxc_latest_version ctx' = pxc_latest_version ctx \<and>
      pxc_next_version_no ctx' = pxc_next_version_no ctx \<and> pxc_event ctx' = pxc_event ctx"
    using assms by (elim load_context_Inr) (auto simp: same_content_def)
  then show "canonical_draft i ctx' d = canonical_draft i ctx d" "pxc_event ctx' = pxc_event ctx"
    by (simp_all add: canonical_draft_def)
qed

lemma preview_Inr:
  assumes "preview_event_version sha256 dk now i d = Inr pv"
  obtains ctx where "load_context sha256 dk now i d = Inr ctx"
    and "vpr_preview_hash pv = hash_canonical sha256 (canonical_draft i ctx d)"
    and "vpr_ready pv \<longleftrightarrow> publication_errors (pxc_event ctx) d (pxc_policy_views ctx) = []"
  using assms by (auto simp: preview_event_version_def ebind_Inr Let_def)

lemma next_version_free:
  assumes "load_context sha256 dk now i d = Inr ctx" and "approval_id \<noteq> None \<Longrightarrow> the approval_id \<notin> set (spent_approvals dk)"
  shows "\<not> version_conflict dk (new_version n i ctx d approval_id h t)"
proof
  assume "version_conflict dk (new_version n i ctx d approval_id h t)"
  then obtain w where w: "w \<in> set (dk_versions dk)" and
    "(evv_event_id w = i \<and> evv_version_no w = pxc_next_version_no ctx) \<or>
     (approval_id \<noteq> None \<and> evv_publication_approval_id w = approval_id)"
    by (auto simp: version_conflict_def list_ex_iff new_version_def)
  moreover have "\<not> (evv_event_id w = i \<and> evv_version_no w = pxc_next_version_no ctx)"
  proof
    assume i: "evv_event_id w = i \<and> evv_version_no w = pxc_next_version_no ctx"
    with w obtain v where v: "latest_event_version dk i = Some v"
      by (cases "latest_event_version dk i") (auto simp: latest_event_version_def max_row_None filter_empty_conv)
    with w i have "evv_version_no w \<le> evv_version_no v"
      using max_row_greatest [of evv_version_no "filter (\<lambda>v. evv_event_id v = i) (dk_versions dk)" v w]
      by (simp add: latest_event_version_def)
    moreover from assms(1) v have "pxc_next_version_no ctx = evv_version_no v + 1"
      by (elim load_context_Inr) simp
    ultimately show False using i by simp
  qed
  moreover from w have "evv_publication_approval_id w = Some x \<Longrightarrow> x \<in> set (spent_approvals dk)" for x
    by (force simp: spent_approvals_def)
  ultimately show False using assms(2) by fastforce
qed

lemma ready_draft_publishes:
  assumes c: "load_context sha256 dk t i d = Inr ctx"
    and e: "publication_errors (pxc_event ctx) d (pxc_policy_views ctx) = []"
    and h: "h = hash_canonical sha256 (canonical_draft i ctx d)"
    and g: "release_gate dk t i (pxc_event ctx) h d approval_id = Inr ()"
    and n: "approval_id \<noteq> None \<Longrightarrow> the approval_id \<notin> set (spent_approvals dk)"
  shows "\<exists>dk' v. publish_event_version sha256 dk t db_t i \<lparr>evc_draft = d, evc_preview_hash = h\<rparr> approval_id = Inr (dk', v)"
  using e g next_version_free [OF c n]
  by (simp add: publish_event_version_def c Let_def validate_publication_def flip: h)

text \<open>An approval against any later desk in which it is still stored, unspent and in force.\<close>

lemma approval_serves:
  assumes a: "approve_event_publication sha256 dk now db_now i payload p = Inr (dk', res)"
    and t: "t < now + 15 * MINUTE"
    and look: "row_get dap_id (dap_id (par_approval res)) (dk_approvals later) = Some (par_approval res)"
    and n: "dap_id (par_approval res) \<notin> set (spent_approvals later)"
    and pub: "active_with PUBLISHER_ROLES (row_get dus_id (dap_primary_user_id (par_approval res)) (dk_users later))"
    and sen: "active_with [DR_SENIOR_ANALYST, DR_ADMINISTRATOR] (row_get dus_id (dp_user_id p) (dk_users later))"
    and r: "preview_event_version sha256 later t i (par_approved_draft res) = Inr pv" "vpr_ready pv"
  shows "if vpr_preview_hash pv = vpr_preview_hash (par_preview res)
    then \<exists>dk'' v. publish_event_version sha256 later t db_t i
      \<lparr>evc_draft = par_approved_draft res, evc_preview_hash = vpr_preview_hash (par_preview res)\<rparr>
      (Some (dap_id (par_approval res))) = Inr (dk'', v)
    else publish_event_version sha256 later t db_t i
      \<lparr>evc_draft = par_approved_draft res, evc_preview_hash = vpr_preview_hash (par_preview res)\<rparr>
      (Some (dap_id (par_approval res))) =
      Inl (PolicyFailed ''Preview is stale; regenerate the version diff before publishing'')"
  using a
proof (rule approve_Inr)
  fix d pv0
  assume ne: "pac_publisher_user_id payload \<noteq> dp_user_id p" and strong: "dp_assurance p \<in> set STRONG_ASSURANCE"
    and d: "make_event_draft (pac_draft payload) (desk_actor (pac_publisher_user_id payload)) (Some (principal_actor p)) = Inr d"
    and res: "par_approved_draft res = d" "par_preview res = pv0"
    and ap: "par_approval res = new_approval (dk_next dk) EVENT_PUBLICATION_APPROVAL i (vpr_preview_hash pv0)
      [(''event_id'', j_uid i), (''approved_draft'', event_draft_json d), (''preview'', version_preview_json pv0)]
      (pac_publisher_user_id payload) p (pac_reason payload) now"
  obtain ctx where c: "load_context sha256 later t i d = Inr ctx"
    and h: "vpr_preview_hash pv = hash_canonical sha256 (canonical_draft i ctx d)"
    and ok: "publication_errors (pxc_event ctx) d (pxc_policy_views ctx) = []"
    using r(1) [unfolded res(1)] by (rule preview_Inr) (use r(2) in simp)
  have who: "edr_published_by d = desk_actor (pac_publisher_user_id payload)" "edr_signed_off_by d = Some (principal_actor p)"
    using d by (auto simp: make_event_draft_def ebind_Inr split: if_split_asm)
  have "release_approved later t i (vpr_preview_hash pv0) d (Some (par_approval res))"
    using pub [unfolded ap] sen ne strong t
    by (simp add: release_approved_def ap new_approval_def who EVENT_PUBLICATION_APPROVAL_def desk_actor_def
        principal_actor_def PUBLISHER_ROLES_def STRONG_ASSURANCE_def PUBLICATION_APPROVAL_VALIDITY_def)
  then have g: "release_gate later t i (pxc_event ctx) (vpr_preview_hash pv0) d (Some (dap_id (par_approval res))) = Inr ()"
    by (simp add: release_gate_def get_opt_def look)
  show ?thesis
  proof (cases "vpr_preview_hash pv = vpr_preview_hash pv0")
    case True
    with h have "vpr_preview_hash pv0 = hash_canonical sha256 (canonical_draft i ctx d)" by simp
    from ready_draft_publishes [OF c ok this g] n True show ?thesis by (simp add: res)
  next
    case False
    with h have "vpr_preview_hash pv0 \<noteq> hash_canonical sha256 (canonical_draft i ctx d)" by simp
    with False show ?thesis
      by (simp add: res publish_event_version_def c ok validate_publication_def Let_def)
  qed
qed

text \<open>In the desk the approval left, only the clock can have moved.\<close>

lemma approval_left:
  assumes a: "approve_event_publication sha256 dk now db_now i payload p = Inr (dk', res)"
    and p: "active_with [DR_SENIOR_ANALYST, DR_ADMINISTRATOR] (row_get dus_id (dp_user_id p) (dk_users dk))"
    and f: "dk_next dk \<notin> set (spent_approvals dk)" "dk_next dk \<notin> dap_id ` set (dk_approvals dk)"
  shows "row_get dap_id (dap_id (par_approval res)) (dk_approvals dk') = Some (par_approval res)"
    and "dap_id (par_approval res) \<notin> set (spent_approvals dk')"
    and "active_with PUBLISHER_ROLES (row_get dus_id (dap_primary_user_id (par_approval res)) (dk_users dk'))"
    and "active_with [DR_SENIOR_ANALYST, DR_ADMINISTRATOR] (row_get dus_id (dp_user_id p) (dk_users dk'))"
    and "preview_event_version sha256 dk' t i (par_approved_draft res) = Inr pv \<Longrightarrow>
      vpr_preview_hash pv = vpr_preview_hash (par_preview res)"
proof -
  from a obtain d pv0
    where pub: "active_with PUBLISHER_ROLES (row_get dus_id (pac_publisher_user_id payload) (dk_users dk))"
    and pv0: "preview_event_version sha256 dk now i d = Inr pv0" and res: "par_approved_draft res = d" "par_preview res = pv0"
    and ap: "par_approval res = new_approval (dk_next dk) EVENT_PUBLICATION_APPROVAL i (vpr_preview_hash pv0)
      [(''event_id'', j_uid i), (''approved_draft'', event_draft_json d), (''preview'', version_preview_json pv0)]
      (pac_publisher_user_id payload) p (pac_reason payload) now"
    and dk': "same_content dk dk'" "dk_users dk' = dk_users dk" "dk_approvals dk' = dk_approvals dk @ [par_approval res]"
    by (rule approve_Inr)
  have "row_get dap_id (dk_next dk) (dk_approvals dk) = None" using f(2) by (simp add: row_get_None_iff)
  then show "row_get dap_id (dap_id (par_approval res)) (dk_approvals dk') = Some (par_approval res)"
    by (simp add: dk'(3) row_get_append_new ap new_approval_def)
  show "dap_id (par_approval res) \<notin> set (spent_approvals dk')"
    using f(1) dk'(1) by (simp add: ap new_approval_def spent_approvals_def same_content_def)
  show "active_with PUBLISHER_ROLES (row_get dus_id (dap_primary_user_id (par_approval res)) (dk_users dk'))"
    "active_with [DR_SENIOR_ANALYST, DR_ADMINISTRATOR] (row_get dus_id (dp_user_id p) (dk_users dk'))"
    using pub p by (simp_all add: dk'(2) ap new_approval_def)
  show "vpr_preview_hash pv = vpr_preview_hash (par_preview res)"
    if r: "preview_event_version sha256 dk' t i (par_approved_draft res) = Inr pv"
  proof -
    obtain ctx0 where c0: "load_context sha256 dk now i d = Inr ctx0"
      and h0: "vpr_preview_hash pv0 = hash_canonical sha256 (canonical_draft i ctx0 d)"
      using pv0 by (rule preview_Inr)
    obtain ctx where c: "load_context sha256 dk' t i d = Inr ctx"
      and h: "vpr_preview_hash pv = hash_canonical sha256 (canonical_draft i ctx d)"
      using r [unfolded res(1)] by (rule preview_Inr)
    from same_content_canonical(1) [OF dk'(1) c0 c] show ?thesis by (simp add: res h h0)
  qed
qed

lemma approved_draft_publishes:
  assumes a: "approve_event_publication sha256 dk now db_now i payload p = Inr (dk', res)"
    and t: "t < now + 15 * MINUTE"
    and r: "preview_event_version sha256 dk' t i (par_approved_draft res) = Inr pv" "vpr_ready pv"
    and p: "active_with [DR_SENIOR_ANALYST, DR_ADMINISTRATOR] (row_get dus_id (dp_user_id p) (dk_users dk))"
    and f: "dk_next dk \<notin> set (spent_approvals dk)" "dk_next dk \<notin> dap_id ` set (dk_approvals dk)"
  shows "\<exists>dk'' v. publish_event_version sha256 dk' t db_t i
    \<lparr>evc_draft = par_approved_draft res, evc_preview_hash = vpr_preview_hash (par_preview res)\<rparr>
    (Some (dap_id (par_approval res))) = Inr (dk'', v)"
  using approval_serves [OF a t approval_left(1-4) [OF a p f] r, of db_t] approval_left(5) [OF a p f r(1)] by simp

section \<open>A sample desk\<close>

definition empty_desk :: desk where
  "empty_desk = \<lparr>dk_next = 100, dk_sources = [], dk_records = [], dk_triage = [], dk_triage_decisions = [],
     dk_lineage_proposals = [], dk_lineage_reviews = [], dk_record_lineage = [], dk_events = [], dk_versions = [],
     dk_claims = [], dk_extraction_runs = [], dk_extraction_proposals = [], dk_extraction_reviews = [],
     dk_extraction_qa = [], dk_lineage_roots = [], dk_evidence = [], dk_corrections = [], dk_correction_deliveries = [],
     dk_alerts = [], dk_deliveries = [], dk_audit = [], dk_users = [], dk_approvals = [], dk_requests = [],
     dk_ai_systems = [], dk_ai_controls = [], dk_ai_incidents = [], dk_ai_incident_events = [], dk_evaluations = [],
     dk_embeddings = [], dk_desk_alerts = [], dk_accounts = [], dk_api_keys = [], dk_account_users = [],
     dk_watch_profiles = [], dk_knowledge_reports = [], dk_ttv = [], dk_briefs = [], dk_version_claims = [],
     dk_version_evidence = []\<rparr>"

definition sample_event :: event_row where
  "sample_event = \<lparr>evn_id = 1, evn_slug = ''strike'', evn_event_type = ET_PORT_DISRUPTION, evn_corridor = CO_EAST_MED,
     evn_geo = None, evn_geo_precision = None, evn_status = ES_MONITORING, evn_severity = 3,
     evn_occurred_start = None, evn_occurred_end = None, evn_created_at = 0, evn_closed_at = None\<rparr>"

definition sample_claim :: claim_row where
  "sample_claim = \<lparr>clm_id = 2, clm_event_id = 1, clm_text = ''The port is closed'', clm_claimant = None,
     clm_claim_state = CL_CONFIRMED, clm_occurred_at = None, clm_geo = None, clm_quantity_json = [],
     clm_proposed_by = ''desk:a'', clm_reviewed_by = Some ''desk:a'', clm_second_reviewed_by = None,
     clm_second_review_approval_id = None, clm_reviewed_at = Some 0, clm_sensitivity_flags = [], clm_first_seen_at = 0\<rparr>"

definition sample_source_record :: source_record_row where
  "sample_source_record = \<lparr>rec_id = 3, rec_source_id = 8, rec_url = ''u'', rec_canonical_url = ''u'', rec_content_hash = ''h'',
     rec_raw_ref_r2 = None, rec_extracted_text = ''t'', rec_title = None, rec_author = None, rec_lang = None,
     rec_published_at = None, rec_modified_at = None, rec_fetched_at = 0, rec_parser_version = ''1'', rec_security_scan = []\<rparr>"

definition sample_evidence :: evidence_row where
  "sample_evidence = \<lparr>evd_id = 4, evd_source_record_id = 3, evd_claim_id = 2, evd_directness = DI_PRIMARY,
     evd_lineage_root_id = 9, evd_excerpt = None, evd_capture_snapshot_r2 = None, evd_rights_decision = []\<rparr>"

definition sample_user :: "uid \<Rightarrow> desk_role \<Rightarrow> desk_user_row" where
  "sample_user i role = \<lparr>dus_id = i, dus_auth_issuer = ''idp'', dus_auth_subject = ''s'', dus_email = ''e'',
     dus_display_name = ''n'', dus_role = role, dus_active = True, dus_created_by = ''bootstrap''\<rparr>"

definition sample_desk :: desk where
  "sample_desk = empty_desk\<lparr>dk_events := [sample_event], dk_claims := [sample_claim], dk_evidence := [sample_evidence],
     dk_records := [sample_source_record], dk_users := [sample_user 5 DR_ANALYST, sample_user 6 DR_SENIOR_ANALYST]\<rparr>"

definition sample_content :: event_content where
  "sample_content = \<lparr>ec_title = ''Port closed'', ec_sentences = [\<lparr>pse_section = SEC_CONFIRMED,
     pse_text = ''The port is closed'', pse_claim_ids = [2]\<rparr>], ec_evidence_ids = [4],
     ec_policy_version = ''publication-policy-v1'', ec_model_versions = []\<rparr>"

definition sample_approver :: desk_principal where
  "sample_approver = \<lparr>dp_user_id = 6, dp_issuer = ''idp'', dp_subject = ''s'', dp_email = ''e'', dp_display_name = ''n'',
     dp_role = DR_SENIOR_ANALYST, dp_assurance = AU_MFA\<rparr>"

definition sample_draft :: event_draft where
  "sample_draft = \<lparr>edr_content = sample_content, edr_published_by = desk_actor 5, edr_signed_off_by = Some (desk_actor 6)\<rparr>"

lemmas sample_desk_defs = sample_desk_def empty_desk_def sample_event_def sample_claim_def sample_source_record_def
  sample_evidence_def sample_user_def sample_content_def sample_approver_def sample_draft_def

lemma sample_actors: "is_model (desk_actor 5) = False" "is_model (desk_actor 6) = False" "is_model ''desk:a'' = False"
    "same_actor (desk_actor 6) (desk_actor 5) = False" "is_model ''approval:pending'' = False"
    "same_actor ''approval:pending'' (desk_actor 5) = False"
  by code_simp+

lemma desk_actor_nonempty: "desk_actor i \<noteq> []"
  by (simp add: desk_actor_def)

lemma sample_context:
  assumes "same_content sample_desk dk" and "who \<noteq> []" and "\<not> is_model who" and "\<not> same_actor who (desk_actor 5)"
  shows "case load_context sha dk t 1 (sample_draft\<lparr>edr_signed_off_by := Some who\<rparr>) of
     Inl _ \<Rightarrow> False
   | Inr ctx \<Rightarrow> publication_errors (pxc_event ctx) (sample_draft\<lparr>edr_signed_off_by := Some who\<rparr>) (pxc_policy_views ctx) = [] \<and>
       pxc_event ctx = sample_event"
proof -
  from assms(1) have "dk_events dk = [sample_event]" "dk_claims dk = [sample_claim]" "dk_evidence dk = [sample_evidence]"
    "dk_records dk = [sample_source_record]"
    by (simp_all add: same_content_def sample_desk_def)
  then show ?thesis
    using assms(2-4)
    by (simp add: sample_desk_defs load_context_def row_get_def referenced_claims_def)
     (simp add: sample_draft_def sample_content_def sample_event_def publication_errors_def Let_def referenced_claims_def
      signoff_errors_def claim_errors_def policy_view_def truthy_def row_get_def sample_actors desk_actor_nonempty
      allowed_by_section_def EVIDENCED_STATES_def count_for_def unsafe_scan_def err_if_def
      evidence_scan_def obj_get_def json_true_def)
qed

lemma sample_ready:
  assumes "same_content sample_desk dk" and "who \<noteq> []" and "\<not> is_model who" and "\<not> same_actor who (desk_actor 5)"
  shows "\<exists>pv. preview_event_version sha dk t 1 (sample_draft\<lparr>edr_signed_off_by := Some who\<rparr>) = Inr pv \<and> vpr_ready pv"
  using sample_context [OF assms, of sha t] by (auto simp: preview_event_version_def Let_def split: sum.split_asm)

lemma sample_ready_6:
  "same_content sample_desk dk \<Longrightarrow> \<exists>pv. preview_event_version sha dk t 1 sample_draft = Inr pv \<and> vpr_ready pv"
  using sample_ready [of dk "desk_actor 6" sha t] by (simp add: sample_actors desk_actor_nonempty) (simp add: sample_draft_def)

lemma sample_make_draft:
  "make_event_draft sample_content (desk_actor 5) (Some (desk_actor 6)) = Inr sample_draft"
  "make_event_draft sample_content (desk_actor 5) (Some ''approval:pending'') =
    Inr (sample_draft\<lparr>edr_signed_off_by := Some ''approval:pending''\<rparr>)"
  by code_simp+

definition sample_approval :: publication_approval_create where
  "sample_approval = \<lparr>pac_publisher_user_id = 5, pac_draft = sample_content, pac_reason = ''reviewed''\<rparr>"

lemma sample_approves:
  obtains dk' res pv where "approve_event_publication sha sample_desk 5 5 1 sample_approval sample_approver = Inr (dk', res)"
    and "par_approved_draft res = sample_draft" and "same_content sample_desk dk'"
    and "preview_event_version sha dk' t 1 sample_draft = Inr pv" and "vpr_ready pv"
proof -
  obtain pv where pv: "preview_event_version sha sample_desk 5 1 sample_draft = Inr pv" "vpr_ready pv"
    using sample_ready_6 [of sample_desk sha 5] by (auto simp: same_content_def)
  have e: "row_get evn_id 1 (dk_events sample_desk) = Some sample_event" "evn_severity sample_event = 3"
    and u: "active_with PUBLISHER_ROLES (row_get dus_id 5 (dk_users sample_desk))"
    and p: "dp_role sample_approver \<in> set APPROVER_ROLES" "dp_assurance sample_approver \<in> set STRONG_ASSURANCE"
      "dp_user_id sample_approver = 6" "principal_actor sample_approver = desk_actor 6"
    by (simp_all add: sample_desk_defs row_get_def active_with_def PUBLISHER_ROLES_def APPROVER_ROLES_def
        STRONG_ASSURANCE_def principal_actor)
  have "\<exists>dk' res. approve_event_publication sha sample_desk 5 5 1 sample_approval sample_approver = Inr (dk', res)"
    by (simp add: approve_event_publication_def e u p pv sample_approval_def sample_make_draft Let_def del: One_nat_def)
  then obtain dk' res where a: "approve_event_publication sha sample_desk 5 5 1 sample_approval sample_approver = Inr (dk', res)"
    by blast
  then show thesis
  proof (rule approve_Inr)
    fix d pv0
    assume "make_event_draft (pac_draft sample_approval) (desk_actor (pac_publisher_user_id sample_approval))
        (Some (principal_actor sample_approver)) = Inr d" and r: "par_approved_draft res = d" and c: "same_content sample_desk dk'"
    then have "d = sample_draft" by (simp add: sample_approval_def p sample_make_draft)
    with sample_ready_6 [OF c, of sha t] that [OF a] r c show thesis by blast
  qed
qed

text \<open>The approved draft of the sample is published.\<close>

lemma sample_publishes:
  obtains dk0 dk' v h as where "publish_event_version sha dk0 6 6 1 \<lparr>evc_draft = sample_draft, evc_preview_hash = h\<rparr> as = Inr (dk', v)"
    and "same_content sample_desk dk0"
proof -
  obtain dk' res pv where a: "approve_event_publication sha sample_desk 5 5 1 sample_approval sample_approver = Inr (dk', res)"
    and d: "par_approved_draft res = sample_draft" and c: "same_content sample_desk dk'"
    and r: "preview_event_version sha dk' 6 1 sample_draft = Inr pv" "vpr_ready pv"
    by (rule sample_approves)
  have f: "dk_next sample_desk \<notin> set (spent_approvals sample_desk)" "dk_next sample_desk \<notin> dap_id ` set (dk_approvals sample_desk)"
    and p: "active_with [DR_SENIOR_ANALYST, DR_ADMINISTRATOR] (row_get dus_id (dp_user_id sample_approver) (dk_users sample_desk))"
    by (simp_all add: sample_desk_defs spent_approvals_def row_get_def active_with_def)
  have t: "6 < 5 + 15 * MINUTE" by (simp add: MINUTE_def SECOND_def)
  from approved_draft_publishes [OF a t r(1) [folded d] r(2) p f, of 6] d c that show thesis by metis
qed

section \<open>Properties\<close>

lemma no_errors_claims:
  assumes "load_context sha256 dk now event_id d = Inr ctx"
    and "publication_errors (pxc_event ctx) d (pxc_policy_views ctx) = []"
  shows "(\<forall>s \<in> set (ec_sentences (edr_content d)). \<forall>i \<in> set (pse_claim_ids s). \<exists>c \<in> set (dk_claims dk).
       clm_id c = i \<and> clm_event_id c = event_id \<and> clm_claim_state c \<in> set (allowed_by_section (pse_section s)) \<and>
       (clm_claim_state c \<in> set EVIDENCED_STATES \<longrightarrow> (\<exists>x \<in> set (dk_evidence dk). evd_claim_id x = i \<and>
          evd_id x \<in> set (ec_evidence_ids (edr_content d)) \<and> \<not> unsafe_scan (evidence_scan dk x))) \<and>
       (is_model (clm_proposed_by c) \<longrightarrow> truthy (clm_reviewed_by c)) \<and>
       (clm_sensitivity_flags c \<noteq> [] \<longrightarrow> claim_second_review_is_valid sha256 dk now c))"
  using no_errors_releasable [OF assms] unfolding releasable_def by blast

text \<open>C7: a publication goes out only when every claim its sentences refer to exists, belongs to the event
  and may stand in its section; a confirmed one has safe evidence in the version, a model's proposal
  was reviewed, a sensitive one has a valid second review bound to its content. From severity 3 on, an
  unexpired approval of exactly this content, given under strong authentication by an active senior
  other than the publisher, stands behind it.\<close>

theorem release_is_gated:
  assumes "publish_event_version sha256 dk now db_now event_id payload approval_id = Inr (dk', r)"
  shows "\<exists>e v. row_get evn_id event_id (dk_events dk) = Some e \<and> dk_versions dk' = dk_versions dk @ [v] \<and>
    evv_event_id v = event_id \<and> evv_content_hash v = evc_preview_hash payload \<and> \<not> is_model (evv_published_by v) \<and>
    (\<forall>s \<in> set (ec_sentences (edr_content (evc_draft payload))). \<forall>i \<in> set (pse_claim_ids s). \<exists>c \<in> set (dk_claims dk).
       clm_id c = i \<and> clm_event_id c = event_id \<and> clm_claim_state c \<in> set (allowed_by_section (pse_section s)) \<and>
       (clm_claim_state c \<in> set EVIDENCED_STATES \<longrightarrow> (\<exists>x \<in> set (dk_evidence dk). evd_claim_id x = i \<and>
          evd_id x \<in> set (ec_evidence_ids (edr_content (evc_draft payload))) \<and> \<not> unsafe_scan (evidence_scan dk x))) \<and>
       (is_model (clm_proposed_by c) \<longrightarrow> truthy (clm_reviewed_by c)) \<and>
       (clm_sensitivity_flags c \<noteq> [] \<longrightarrow> claim_second_review_is_valid sha256 dk now c)) \<and>
    (3 \<le> evn_severity e \<longrightarrow> (\<exists>a \<in> set (dk_approvals dk). approval_id = Some (dap_id a) \<and>
       dap_binding_hash a = evv_content_hash v \<and> dap_target_id a = event_id \<and>
       evv_published_by v = desk_actor (dap_primary_user_id a) \<and>
       evv_signed_off_by v = Some (desk_actor (dap_approved_by_user_id a)) \<and>
       dap_primary_user_id a \<noteq> dap_approved_by_user_id a \<and> dap_auth_assurance a \<in> {AU_MFA, AU_PHISHING_RESISTANT} \<and>
       active_with [DR_SENIOR_ANALYST, DR_ADMINISTRATOR] (row_get dus_id (dap_approved_by_user_id a) (dk_users dk)) \<and>
       now < dap_expires_at a))"
  using assms
proof (rule publish_Inr)
  fix ctx v
  let ?d = "evc_draft payload"
  assume c: "load_context sha256 dk now event_id ?d = Inr ctx"
    and ok: "publication_errors (pxc_event ctx) ?d (pxc_policy_views ctx) = []"
    and g: "release_gate dk now event_id (pxc_event ctx) (evc_preview_hash payload) ?d approval_id = Inr ()"
    and v: "v = new_version (dk_next dk) event_id ctx ?d approval_id (evc_preview_hash payload) db_now"
    and dk': "dk_versions dk' = dk_versions dk @ [v]"
  from c obtain e where e: "row_get evn_id event_id (dk_events dk) = Some e" "pxc_event ctx = e" by (rule load_context_Inr)
  from ok have "\<not> is_model (edr_published_by ?d)" unfolding publication_errors_Nil signoff_errors_Nil by blast
  moreover have "3 \<le> evn_severity e \<longrightarrow> (\<exists>a \<in> set (dk_approvals dk). approval_id = Some (dap_id a) \<and>
      release_approved dk now event_id (evc_preview_hash payload) ?d (Some a))"
    using g [unfolded e(2)] by (blast elim: release_gate_severe)
  ultimately show ?thesis
    using e(1) dk' no_errors_claims [OF c ok]
    by (intro exI [of _ e] exI [of _ v] conjI)
       (simp_all add: v new_version_def release_approved_def desk_actor_def, blast)
qed

theorem release_is_gated_witness:
  "\<exists>dk now payload approval_id dk' r e v. publish_event_version sample_hash dk now now 1 payload approval_id = Inr (dk', r) \<and>
    row_get evn_id 1 (dk_events dk) = Some e \<and> 3 \<le> evn_severity e \<and> dk_versions dk' = dk_versions dk @ [v] \<and>
    (\<exists>a \<in> set (dk_approvals dk). dap_binding_hash a = evv_content_hash v \<and> now < dap_expires_at a)"
proof -
  obtain dk0 dk' v h as where p: "publish_event_version sample_hash dk0 6 6 1
      \<lparr>evc_draft = sample_draft, evc_preview_hash = h\<rparr> as = Inr (dk', v)" and c: "same_content sample_desk dk0"
    by (rule sample_publishes)
  from c have "row_get evn_id 1 (dk_events dk0) = Some sample_event" "evn_severity sample_event = 3"
    by (simp_all add: same_content_def sample_desk_defs row_get_def)
  with release_is_gated [OF p] p show ?thesis by fastforce
qed

text \<open>C15: an approval holds what it grants: on any later desk, within its quarter of an hour, on which it is
  stored and unspent, its publisher may still publish, its approver is still an active senior and the
  approved draft previews as ready, the draft is published under it exactly when it still previews under
  the hash that was approved; when something the hash covers has changed since (a claim was edited), the
  publication is refused as stale.\<close>

theorem approval_holds:
  assumes "approve_event_publication sha256 dk now db_now event_id payload p = Inr (dk', res)"
    and "t < now + 15 * MINUTE"
    and "row_get dap_id (dap_id (par_approval res)) (dk_approvals later) = Some (par_approval res)"
    and "dap_id (par_approval res) \<notin> set (spent_approvals later)"
    and "active_with PUBLISHER_ROLES (row_get dus_id (dap_primary_user_id (par_approval res)) (dk_users later))"
    and "active_with [DR_SENIOR_ANALYST, DR_ADMINISTRATOR] (row_get dus_id (dp_user_id p) (dk_users later))"
    and "preview_event_version sha256 later t event_id (par_approved_draft res) = Inr pv" and "vpr_ready pv"
  shows "if vpr_preview_hash pv = vpr_preview_hash (par_preview res)
    then \<exists>dk'' v. publish_event_version sha256 later t db_t event_id
      \<lparr>evc_draft = par_approved_draft res, evc_preview_hash = vpr_preview_hash (par_preview res)\<rparr>
      (Some (dap_id (par_approval res))) = Inr (dk'', v)
    else publish_event_version sha256 later t db_t event_id
      \<lparr>evc_draft = par_approved_draft res, evc_preview_hash = vpr_preview_hash (par_preview res)\<rparr>
      (Some (dap_id (par_approval res))) =
      Inl (PolicyFailed ''Preview is stale; regenerate the version diff before publishing'')"
  using assms by (rule approval_serves)

theorem approval_holds_witness:
  "\<exists>dk' res dk'' v. approve_event_publication sample_hash sample_desk 5 5 1 sample_approval sample_approver = Inr (dk', res) \<and>
    publish_event_version sample_hash dk' (5 + 14 * MINUTE) 7 1
      \<lparr>evc_draft = par_approved_draft res, evc_preview_hash = vpr_preview_hash (par_preview res)\<rparr>
      (Some (dap_id (par_approval res))) = Inr (dk'', v)"
proof -
  obtain dk' res pv where a: "approve_event_publication sample_hash sample_desk 5 5 1 sample_approval sample_approver = Inr (dk', res)"
    and d: "par_approved_draft res = sample_draft"
    and r: "preview_event_version sample_hash dk' (5 + 14 * MINUTE) 1 sample_draft = Inr pv" "vpr_ready pv"
    by (rule sample_approves)
  have t: "5 + 14 * MINUTE < 5 + 15 * MINUTE" by (simp add: MINUTE_def SECOND_def)
  have f: "dk_next sample_desk \<notin> set (spent_approvals sample_desk)" "dk_next sample_desk \<notin> dap_id ` set (dk_approvals sample_desk)"
    and p: "active_with [DR_SENIOR_ANALYST, DR_ADMINISTRATOR] (row_get dus_id (dp_user_id sample_approver) (dk_users sample_desk))"
    by (simp_all add: sample_desk_defs spent_approvals_def row_get_def active_with_def)
  note left = approval_left [OF a p f]
  from approval_holds [OF a t left(1-4) r(1) [folded d] r(2), of 7] left(5) [OF r(1) [folded d]] a
  show ?thesis by simp
qed

lemma released_four_eyes:
  assumes "properly_released dk v" and "\<And>a. a \<in> set (dk_approvals dk) \<Longrightarrow> four_eyes a"
    and "obj_get (evv_event_snapshot_json v) ''severity'' = JInt n" and "3 \<le> n"
  shows "\<exists>a \<in> set (dk_approvals dk). evv_publication_approval_id v = Some (dap_id a) \<and>
        dap_approval_type a = ''event_publication'' \<and> dap_binding_hash a = evv_content_hash v \<and> evv_published_by v = desk_actor (dap_primary_user_id a) \<and>
        evv_signed_off_by v = Some (desk_actor (dap_approved_by_user_id a)) \<and>
        dap_primary_user_id a \<noteq> dap_approved_by_user_id a \<and> dap_auth_assurance a \<in> {AU_MFA, AU_PHISHING_RESISTANT}"
proof -
  from assms(1,3,4) obtain a where a: "a \<in> set (dk_approvals dk)" "evv_publication_approval_id v = Some (dap_id a)"
    "dap_approval_type a = ''event_publication''" "dap_binding_hash a = evv_content_hash v" "evv_published_by v = desk_actor (dap_primary_user_id a)"
    "evv_signed_off_by v = Some (desk_actor (dap_approved_by_user_id a))"
    unfolding properly_released_def by blast
  with assms(2) [OF a(1)] show ?thesis by (intro bexI [of _ a]) (auto simp: four_eyes_def)
qed

lemma corrected_four_eyes:
  assumes "properly_corrected dk c" and "\<And>a. a \<in> set (dk_approvals dk) \<Longrightarrow> four_eyes a"
    and "cor_impact c = Some CI_OPERATIONALLY_RELEVANT"
  shows "\<exists>a \<in> set (dk_approvals dk). cor_correction_approval_id c = Some (dap_id a) \<and>
        dap_approval_type a = ''operational_correction'' \<and> cor_preview_hash c = Some (dap_binding_hash a) \<and>
        dap_primary_user_id a \<noteq> dap_approved_by_user_id a \<and> dap_auth_assurance a \<in> {AU_MFA, AU_PHISHING_RESISTANT}"
proof -
  from assms(1,3) obtain a where a: "a \<in> set (dk_approvals dk)" "cor_correction_approval_id c = Some (dap_id a)"
    "dap_approval_type a = ''operational_correction''" "cor_preview_hash c = Some (dap_binding_hash a)"
    unfolding properly_corrected_def by blast
  with assms(2) [OF a(1)] show ?thesis by (intro bexI [of _ a]) (auto simp: four_eyes_def)
qed

lemma decided_four_eyes:
  assumes "properly_decided dk r" and "\<And>a. a \<in> set (dk_approvals dk) \<Longrightarrow> four_eyes a" and "dar_status r = ''approved''"
  shows "\<exists>a \<in> set (dk_approvals dk). dar_approval_id r = Some (dap_id a) \<and>
      dap_primary_user_id a = dar_primary_user_id r \<and> dar_decided_by_user_id r = Some (dap_approved_by_user_id a) \<and>
      dap_approved_by_user_id a \<noteq> dar_primary_user_id r"
proof -
  from assms(1,3) obtain a where a: "a \<in> set (dk_approvals dk)" "dar_approval_id r = Some (dap_id a)"
    "dap_primary_user_id a = dar_primary_user_id r" "dar_decided_by_user_id r = Some (dap_approved_by_user_id a)"
    unfolding properly_decided_def by blast
  with assms(2) [OF a(1)] show ?thesis by (intro bexI [of _ a]) (auto simp: four_eyes_def)
qed

text \<open>C6: whatever releases, corrections, approvals, requests, decisions and edits run in whatever order
  from a desk without records: a version released at severity 3 or above carries an approval of exactly
  its content given by somebody else than its publisher under strong authentication, and an operationally
  relevant correction one of exactly its preview hash; the two kinds of approval are different and no two
  approvals share an id, no two versions are released on the same approval and no two corrections are
  issued on the same approval; the versions of an event are numbered without a gap, and an approved
  request was decided by somebody else than the requester.\<close>

theorem desk_is_safe:
  assumes "reaches (desk_step sha256 codec) dk0 dk"
    and "dk_versions dk0 = []" and "dk_approvals dk0 = []" and "dk_requests dk0 = []" and "dk_corrections dk0 = []"
  shows "list_all (\<lambda>v. \<forall>n. obj_get (evv_event_snapshot_json v) ''severity'' = JInt n \<longrightarrow> 3 \<le> n \<longrightarrow>
      (\<exists>a \<in> set (dk_approvals dk). evv_publication_approval_id v = Some (dap_id a) \<and>
        dap_approval_type a = ''event_publication'' \<and> dap_binding_hash a = evv_content_hash v \<and>
        evv_published_by v = desk_actor (dap_primary_user_id a) \<and>
        evv_signed_off_by v = Some (desk_actor (dap_approved_by_user_id a)) \<and>
        dap_primary_user_id a \<noteq> dap_approved_by_user_id a \<and> dap_auth_assurance a \<in> {AU_MFA, AU_PHISHING_RESISTANT}))
      (dk_versions dk) \<and>
    list_all (\<lambda>c. cor_impact c = Some CI_OPERATIONALLY_RELEVANT \<longrightarrow>
      (\<exists>a \<in> set (dk_approvals dk). cor_correction_approval_id c = Some (dap_id a) \<and>
        dap_approval_type a = ''operational_correction'' \<and> cor_preview_hash c = Some (dap_binding_hash a) \<and>
        dap_primary_user_id a \<noteq> dap_approved_by_user_id a \<and> dap_auth_assurance a \<in> {AU_MFA, AU_PHISHING_RESISTANT}))
      (dk_corrections dk) \<and>
    distinct (map dap_id (dk_approvals dk)) \<and>
    distinct (concat (map (\<lambda>v. case evv_publication_approval_id v of None \<Rightarrow> [] | Some i \<Rightarrow> [i]) (dk_versions dk))) \<and>
    distinct (concat (map (\<lambda>c. case cor_correction_approval_id c of None \<Rightarrow> [] | Some i \<Rightarrow> [i]) (dk_corrections dk))) \<and>
    (\<forall>i. map evv_version_no (filter (\<lambda>v. evv_event_id v = i) (dk_versions dk)) =
      map (\<lambda>k. int k + 1) [0..<length (filter (\<lambda>v. evv_event_id v = i) (dk_versions dk))]) \<and>
    list_all (\<lambda>r. dar_status r = ''approved'' \<longrightarrow> (\<exists>a \<in> set (dk_approvals dk). dar_approval_id r = Some (dap_id a) \<and>
      dap_primary_user_id a = dar_primary_user_id r \<and> dar_decided_by_user_id r = Some (dap_approved_by_user_id a) \<and>
      dap_approved_by_user_id a \<noteq> dar_primary_user_id r)) (dk_requests dk)"
proof -
  have "desk_inv dk0" and "corrections_inv dk0"
    using assms(2-5) by (simp_all add: inv_defs)
  with assms(1) have inv: "desk_inv dk" and cor: "corrections_inv dk"
    by (blast intro: desk_runs.reaches_keeps correction_runs.reaches_keeps)+
  then have a: "\<And>a. a \<in> set (dk_approvals dk) \<Longrightarrow> four_eyes a" and i: "distinct (map dap_id (dk_approvals dk))"
    by (simp_all add: desk_inv_def approvals_inv_def)
  have v: "\<And>v. v \<in> set (dk_versions dk) \<Longrightarrow> properly_released dk v" and d: "distinct (spent_approvals dk)"
    and n: "\<forall>i. numbered dk i" and r: "\<And>r. r \<in> set (dk_requests dk) \<Longrightarrow> properly_decided dk r"
    and c: "\<And>c. c \<in> set (dk_corrections dk) \<Longrightarrow> properly_corrected dk c" and dc: "distinct (spent_on_corrections dk)"
    using inv cor by (simp_all add: desk_inv_def versions_inv_def requests_inv_def corrections_inv_def)
  show ?thesis
    unfolding list_all_iff
    by (intro conjI ballI allI impI, rule released_four_eyes [OF v a], assumption+,
        rule corrected_four_eyes [OF c a], assumption+, rule i,
        rule d [unfolded spent_approvals_def], rule dc [unfolded spent_on_corrections_def],
        rule n [unfolded numbered_def Let_def, rule_format],
        rule decided_four_eyes [OF r a])
qed

text \<open>A codec for the samples: microseconds, marked when they are of a timezone.\<close>

definition sample_codec :: datetime_codec where
  "sample_codec = \<lparr>dtc_dump = (\<lambda>t. case t of Aware n \<Rightarrow> CHR ''Z'' # digits_of (nat n) | Naive n \<Rightarrow> digits_of (nat n)),
     dtc_load = (\<lambda>s. case s of [] \<Rightarrow> None
       | c # t \<Rightarrow> Some (if c = CHR ''Z'' then Aware (int (nat_of_digits t)) else Naive (int (nat_of_digits s))))\<rparr>"

theorem desk_is_safe_witness:
  "\<exists>dk. reaches (desk_step sample_hash sample_codec) empty_desk dk \<and> length (dk_versions dk) = 1 \<and>
    distinct (concat (map (\<lambda>v. case evv_publication_approval_id v of None \<Rightarrow> [] | Some i \<Rightarrow> [i]) (dk_versions dk)))"
proof -
  obtain dk1 res pv where a: "approve_event_publication sample_hash sample_desk 5 5 1 sample_approval sample_approver = Inr (dk1, res)"
    and d: "par_approved_draft res = sample_draft"
    and r: "preview_event_version sample_hash dk1 6 1 sample_draft = Inr pv" "vpr_ready pv"
    by (rule sample_approves)
  have t: "6 < 5 + 15 * MINUTE" by (simp add: MINUTE_def SECOND_def)
  have f: "dk_next sample_desk \<notin> set (spent_approvals sample_desk)" "dk_next sample_desk \<notin> dap_id ` set (dk_approvals sample_desk)"
    and p: "active_with [DR_SENIOR_ANALYST, DR_ADMINISTRATOR] (row_get dus_id (dp_user_id sample_approver) (dk_users sample_desk))"
    by (simp_all add: sample_desk_defs spent_approvals_def row_get_def active_with_def)
  obtain payload as dk v where b: "publish_event_version sample_hash dk1 6 6 1 payload as = Inr (dk, v)"
    using approved_draft_publishes [OF a t r(1) [folded d] r(2) p f, of 6] by blast
  have "desk_step sample_hash sample_codec empty_desk Elsewhere sample_desk"
    by (rule ds_elsewhere) (simp add: same_release_def sample_desk_def empty_desk_def)
  with ds_approve [OF a] ds_publish [OF b] have runs: "reaches (desk_step sample_hash sample_codec) empty_desk dk"
    by (blast intro: reaches.intros)
  have e: "dk_versions empty_desk = []" "dk_approvals empty_desk = []" "dk_requests empty_desk = []" "dk_corrections empty_desk = []"
    by (simp_all add: empty_desk_def)
  have "dk_versions dk1 = []" using approve_publication_adds(1) [OF a] by (simp add: adds_approval_def sample_desk_def empty_desk_def)
  with b have "length (dk_versions dk) = 1" by (elim publish_Inr) simp
  with runs desk_is_safe [OF runs e] show ?thesis by blast
qed

text \<open>C14: decisions are final: once a request was approved, rejected or cancelled, no later operation
  changes anything of it.\<close>

theorem decisions_are_final:
  assumes "reaches (desk_step sha256 codec) dk0 dk1" and "dk_versions dk0 = []" and "dk_approvals dk0 = []"
    and "dk_requests dk0 = []" and "q \<in> set (dk_requests dk1)"
    and "dar_status q \<in> {''approved'', ''rejected'', ''cancelled''}" and "reaches (desk_step sha256 codec) dk1 dk2"
  shows "q \<in> set (dk_requests dk2)"
proof -
  have "desk_inv dk0" using assms(2-4) by (simp add: inv_defs)
  with assms(1) have "desk_inv dk1" by (rule desk_runs.reaches_keeps)
  with assms(5,6) have "closed_inv q dk1" by (simp add: closed_inv_def request_closed_def)
  with assms(7) have "closed_inv q dk2" by (rule closed_requests.reaches_keeps)
  then show ?thesis by (simp add: closed_inv_def)
qed

definition sample_publisher :: desk_principal where
  "sample_publisher = sample_approver\<lparr>dp_user_id := 5, dp_role := DR_ANALYST\<rparr>"

lemma sample_rejects:
  obtains dk1 dk2 q choice where "desk_step sha codec sample_desk Request dk1" and "desk_step sha codec dk1 Decide dk2"
    and "q \<in> set (dk_requests dk2)" and "dar_status q = ''rejected''"
proof -
  let ?req = "\<lparr>prc_draft = sample_content, prc_reason = ''please''\<rparr>"
  let ?choice = "\<lparr>dec_decision = CHOICE_REJECT, dec_reason = ''not yet''\<rparr>"
  obtain pv where pv: "preview_event_version sha sample_desk 5 1
      (sample_draft\<lparr>edr_signed_off_by := Some ''approval:pending''\<rparr>) = Inr pv" "vpr_ready pv"
    using sample_ready [of sample_desk "''approval:pending''" sha 5] by (auto simp: same_content_def sample_actors)
  have e: "row_get evn_id 1 (dk_events sample_desk) = Some sample_event" "evn_severity sample_event = 3"
    and p: "dp_role sample_publisher \<in> set PUBLISHER_ROLES" "principal_actor sample_publisher = desk_actor 5"
    by (simp_all add: sample_desk_defs row_get_def sample_publisher_def PUBLISHER_ROLES_def principal_actor)
  have "\<exists>dk1 r. create_publication_request sha sample_desk 5 5 1 ?req sample_publisher = Inr (dk1, r)"
    by (simp add: create_publication_request_def e p pv sample_make_draft Let_def del: One_nat_def)
  then obtain dk1 r where c: "create_publication_request sha sample_desk 5 5 1 ?req sample_publisher = Inr (dk1, r)" by blast
  then obtain h payload where "file_request sample_desk 5 5 EVENT_PUBLICATION_APPROVAL ''event_publication.approval_requested''
      1 h payload ''please'' sample_publisher = (dk1, r)"
    by (auto simp: create_publication_request_def e p pv sample_make_draft Let_def simp del: One_nat_def)
  moreover have "open_request sample_desk 5 h = None" by (simp add: open_request_def sample_desk_def empty_desk_def)
  ultimately have f: "dk_requests dk1 = [r]" and r: "r = new_request (dk_next sample_desk) EVENT_PUBLICATION_APPROVAL
      1 h payload (dp_user_id sample_publisher) ''please'' 5"
    by (auto dest: file_request_tables simp: sample_desk_def empty_desk_def)
  obtain dk2 out where d: "decide_approval_request sha codec dk1 6 6 (dar_id r) ?choice sample_approver = (dk2, out)" by fastforce
  have "dk_requests dk2 = [decide_row REJECTED 6 (Some 6) ''not yet'' None r]"
    using d by (auto simp: decide_approval_request_def sample_approver_def APPROVER_ROLES_def STRONG_ASSURANCE_def f row_get_def r
        new_request_def effective_status_def request_states REQUEST_VALIDITY_def MINUTE_def SECOND_def sample_publisher_def
        Let_def row_upd_map split: if_split_asm)
  then have "\<exists>q. q \<in> set (dk_requests dk2) \<and> dar_status q = ''rejected''"
    by (simp add: decide_row_def request_states)
  with that ds_request [OF c] ds_decide [OF d] show thesis by blast
qed

theorem decisions_are_final_witness:
  "\<exists>dk q. reaches (desk_step sample_hash sample_codec) empty_desk dk \<and> q \<in> set (dk_requests dk) \<and> dar_status q = ''rejected''"
proof -
  obtain dk1 dk2 q where s: "desk_step sample_hash sample_codec sample_desk Request dk1" "desk_step sample_hash sample_codec dk1 Decide dk2"
    and q: "q \<in> set (dk_requests dk2)" "dar_status q = ''rejected''"
    by (rule sample_rejects)
  have "desk_step sample_hash sample_codec empty_desk Elsewhere sample_desk"
    by (rule ds_elsewhere) (simp add: same_release_def sample_desk_def empty_desk_def)
  with s have runs: "reaches (desk_step sample_hash sample_codec) empty_desk dk2" by (blast intro: reaches.intros)
  have later: "reaches (desk_step sample_hash sample_codec) dk2 dk2" by (rule reaches_refl)
  have e: "dk_versions empty_desk = []" "dk_approvals empty_desk = []" "dk_requests empty_desk = []"
    by (simp_all add: empty_desk_def)
  from decisions_are_final [OF runs e q(1) _ later] q runs show ?thesis by blast
qed

end
