(* ===== verification/Governance_Props.thy ===== *)
theory Governance_Props
  imports Desk_Props
begin

text \<open>
  Kill switches and incidents: a disabled scope refuses whoever asks, an allowed one has two live
  controls and the recorded system behind it, a severe incident disables its scope at once - unless its
  text is too long to be the reason of a control.
\<close>

section \<open>The latest control\<close>

lemma set_control_latest:
  assumes "set_capability_control dk now db_now scope c p = Inr (dk', row)"
  shows "latest_capability_control dk' (casefold (py_strip scope)) = Some row" and "aic_mode row = ccr_mode c"
    and "dk_ai_controls dk' = dk_ai_controls dk @ [row]" and "aic_scope row = casefold (py_strip scope)"
proof -
  let ?s = "casefold (py_strip scope)"
  let ?old = "filter (\<lambda>c. aic_scope c = ?s) (dk_ai_controls dk)"
  from assms have row: "row = new_control (dk_next dk) ?s c (latest_capability_control dk ?s) p now"
    and dk': "dk_ai_controls dk' = dk_ai_controls dk @ [row]"
    by (auto simp: set_capability_control_def Let_def ebind_Inr log_audit_def split: if_split_asm)
  then show "aic_mode row = ccr_mode c" "dk_ai_controls dk' = dk_ai_controls dk @ [row]" "aic_scope row = ?s"
    by (simp_all add: new_control_def)
  then have rows: "filter (\<lambda>c. aic_scope c = ?s) (dk_ai_controls dk') = ?old @ [row]" by simp
  have less: "aic_revision q < aic_revision row" if q: "q \<in> set ?old" for q
  proof (cases "latest_capability_control dk ?s")
    case None
    with q show ?thesis by (auto simp: latest_capability_control_def max_row_None filter_empty_conv)
  next
    case (Some m)
    then have "max_row aic_revision ?old = Some m" by (simp add: latest_capability_control_def)
    from max_row_greatest [OF this q] Some show ?thesis by (simp add: row new_control_def)
  qed
  obtain m where m: "max_row aic_revision (?old @ [row]) = Some m"
    using max_row_None [of aic_revision "?old @ [row]"] by (cases "max_row aic_revision (?old @ [row])") auto
  then have "m \<in> set (?old @ [row])" "aic_revision row \<le> aic_revision m"
    by (auto dest: max_row_in max_row_greatest [where q = row])
  with less have "m = row" by (metis UnE empty_iff empty_set insert_iff leD list.simps(15) set_append)
  with m rows show "latest_capability_control dk' ?s = Some row" by (simp add: latest_capability_control_def)
qed

lemma disabled_refuses:
  assumes "latest_capability_control dk s = Some g" and "aic_mode g = AM_DISABLED"
    and "s = GLOBAL_AI_SCOPE \<or> casefold (py_strip asked) = s"
  shows "\<not> cde_allowed (capability_decision dk t asked fp)"
  using assms by (auto simp: capability_decision_def Let_def refuse_capability_def split: option.split)

section \<open>Properties\<close>

text \<open>C19: a kill switch works: after a scope was disabled no request for it is allowed, at no later time
  and for no system; after the global scope was disabled none is allowed for any scope.\<close>

theorem kill_switch_refuses:
  assumes "set_capability_control dk now db_now scope c p = Inr (dk', row)" and "ccr_mode c = AM_DISABLED"
    and "casefold (py_strip scope) = GLOBAL_AI_SCOPE \<or> casefold (py_strip asked) = casefold (py_strip scope)"
  shows "\<not> cde_allowed (capability_decision dk' t asked fp)"
  using set_control_latest(1,2) [OF assms(1)] assms(2,3) by (metis disabled_refuses)

theorem kill_switch_refuses_witness:
  "\<exists>dk' row. set_capability_control sample_desk 5 5 ''all_model_calls'' \<lparr>ccr_mode = AM_DISABLED, ccr_risk_tier = 4,
      ccr_system_version_id = None, ccr_reason = ''incident response'', ccr_approval_refs = [], ccr_expires_at = None\<rparr>
      sample_approver = Inr (dk', row) \<and> \<not> cde_allowed (capability_decision dk' 9 ''claim_extraction'' None)"
proof -
  let ?c = "\<lparr>ccr_mode = AM_DISABLED, ccr_risk_tier = 4, ccr_system_version_id = None, ccr_reason = ''incident response'',
    ccr_approval_refs = [], ccr_expires_at = None\<rparr>"
  have s: "casefold (py_strip ''all_model_calls'') = GLOBAL_AI_SCOPE" "scope_pattern GLOBAL_AI_SCOPE"
    "GLOBAL_AI_SCOPE = ''all_model_calls''" by code_simp+
  have "\<exists>dk' row. set_capability_control sample_desk 5 5 ''all_model_calls'' ?c sample_approver = Inr (dk', row)"
    by (simp add: set_capability_control_def Let_def s validate_control_transition_def sample_approver_def HUMAN_ROLES_def
        del: GLOBAL_AI_SCOPE_def)
  then obtain dk' row where c: "set_capability_control sample_desk 5 5 ''all_model_calls'' ?c sample_approver = Inr (dk', row)"
    by blast
  from kill_switch_refuses [OF c] s(1) c show ?thesis by simp
qed

text \<open>exactly when a capability is allowed: the latest global control is enabled and has not expired,
  and for another scope so is the latest control of the scope, which names a registered system with the
  fingerprint of the caller.\<close>

theorem capability_allowed_exact:
  "cde_allowed (capability_decision dk t asked fp) \<longleftrightarrow> scope_pattern (casefold (py_strip asked)) \<and>
    (\<exists>g e. latest_capability_control dk GLOBAL_AI_SCOPE = Some g \<and> aic_mode g \<noteq> AM_DISABLED \<and> aic_expires_at g = Some e \<and> t < e) \<and>
    (casefold (py_strip asked) = GLOBAL_AI_SCOPE \<or>
     (\<exists>c e v f. latest_capability_control dk (casefold (py_strip asked)) = Some c \<and> aic_mode c \<noteq> AM_DISABLED \<and>
        aic_expires_at c = Some e \<and> t < e \<and> aic_system_version_id c = Some v \<and> fp = Some f \<and>
        map_option ais_fingerprint (row_get ais_id v (dk_ai_systems dk)) = Some f))"
  by (auto simp: capability_decision_def Let_def refuse_capability_def control_is_expired_def get_opt_def
      split: option.split if_split)

section \<open>Incidents\<close>

lemma append_event_tables [simp]:
  "dk_ai_controls (append_event dk now db_now i n e p) = dk_ai_controls dk"
  "dk_ai_incidents (append_event dk now db_now i n e p) = dk_ai_incidents dk"
  by (simp_all add: append_event_def Let_def log_audit_def)

lemma to_lower_idem: "to_lower (to_lower c) = to_lower c"
proof (cases "65 \<le> (of_char c :: nat) \<and> (of_char c :: nat) \<le> 90")
  case True
  then have "of_char (char_of ((of_char c :: nat) + 32) :: char) = (of_char c :: nat) + 32" by simp
  with True show ?thesis by (simp add: to_lower_def Let_def)
qed (auto simp: to_lower_def Let_def)

lemma casefold_idem: "casefold (casefold s) = casefold s"
  by (simp add: casefold_def to_lower_idem)

lemma py_strip_ends: "s \<noteq> [] \<Longrightarrow> \<not> is_space (hd s) \<Longrightarrow> \<not> is_space (last s) \<Longrightarrow> py_strip s = s"
proof -
  assume s: "s \<noteq> []" "\<not> is_space (hd s)" "\<not> is_space (last s)"
  then have "dropWhile is_space s = s" by (cases s) simp_all
  moreover from s have "dropWhile is_space (rev s) = rev s" by (cases "rev s") (auto simp flip: hd_rev)
  ultimately show ?thesis by (simp add: py_strip_def)
qed

lemma scope_normal: "scope_pattern (casefold s) \<Longrightarrow> casefold (py_strip (casefold s)) = casefold s"
proof -
  assume "scope_pattern (casefold s)"
  then have "\<forall>c \<in> set (casefold s). \<not> is_space c"
    by (auto simp: scope_pattern_def list_all_iff scope_char_def is_lower_def is_digit_def is_space_def split: list.split_asm)
  then have "py_strip (casefold s) = casefold s" by (rule py_strip_id)
  then show ?thesis by (simp add: casefold_idem)
qed

lemma sort_key_Nil_iff: "sort_key f xs = [] \<longleftrightarrow> xs = []"
  by (metis length_0_conv length_sort)

text \<open>A report whose text fits is accepted.\<close>

lemma reported:
  assumes h: "dp_role p \<in> set HUMAN_ROLES" and s: "scope_pattern (casefold (icr_capability_scope x))"
    and v: "icr_system_version_id x = None"
    and r: "icr_severity x \<in> set HIGH_SEVERITIES \<Longrightarrow> length_within 10 2000 (py_strip (ccr_reason (containment_control x)))"
  shows "\<exists>dk' r. create_ai_incident dk now db_now x p = Inr (dk', r)"
proof -
  let ?s = "casefold (icr_capability_scope x)"
  have "\<exists>y. contain_scope dk now db_now ?s x p = Inr y"
  proof (cases "icr_severity x \<in> set HIGH_SEVERITIES")
    case True
    then have r: "length_within 10 2000 (py_strip (ccr_reason (containment_control x)))" by (rule r)
    have k: "ccr_mode (containment_control x) = AM_DISABLED" "ccr_expires_at (containment_control x) = None"
      "ccr_system_version_id (containment_control x) = None" "0 \<le> ccr_risk_tier (containment_control x)"
      "ccr_risk_tier (containment_control x) \<le> 4"
      by (simp_all add: containment_control_def)
    with r obtain ctl where "make_control_create (containment_control x) = Inr ctl" "ccr_mode ctl = AM_DISABLED"
      "ccr_system_version_id ctl = None"
      by (simp add: make_control_create_def)
    with True h s show ?thesis
      by (simp add: contain_scope_def set_capability_control_def Let_def scope_normal validate_control_transition_def)
  qed (simp add: contain_scope_def)
  then obtain dk1 status action where c: "contain_scope dk now db_now ?s x p = Inr (dk1, status, action)" by auto
  have ok: "\<exists>y. read_incident (append_event dk2 now db_now i 1 e p) row = Inr y" if "i = inc_id row" for dk2 e row i
    using that by (auto simp: read_incident_def incident_events_def append_event_def Let_def log_audit_def sort_key_Nil_iff)
  from h s v c show ?thesis
    by (simp add: create_ai_incident_def Let_def ebind_Inr) (rule ok, simp)
qed

lemma set_control_incidents:
  "set_capability_control dk now db_now scope c p = Inr (dk', row) \<Longrightarrow>
    dk_ai_incidents dk' = dk_ai_incidents dk \<and> dk_ai_incident_events dk' = dk_ai_incident_events dk \<and>
    dk_next dk \<le> dk_next dk'"
  by (auto simp: set_capability_control_def Let_def ebind_Inr log_audit_def split: if_split_asm)

text \<open>The steps of reporting a severe incident: the control, then the incident and its first event.\<close>

lemma severe_incident_steps:
  assumes "create_ai_incident dk now db_now x p = Inr (dk', r)" and "icr_severity x \<in> {''high'', ''critical''}"
  obtains ctl dk1 row inc e where "make_control_create (containment_control x) = Inr ctl"
    and "set_capability_control dk now db_now (casefold (icr_capability_scope x)) ctl p = Inr (dk1, row)"
    and "scope_pattern (casefold (icr_capability_scope x))"
    and "dk_ai_controls dk' = dk_ai_controls dk1" and "dk_ai_incidents dk' = dk_ai_incidents dk1 @ [inc]"
    and "dk_ai_incident_events dk' = dk_ai_incident_events dk1 @ [e]"
    and "inc_id inc = dk_next dk1" and "inc_capability_scope inc = casefold (icr_capability_scope x)"
    and "ine_incident_id e = dk_next dk1" and "ine_status e = ''contained''" and "ine_severity e = icr_severity x"
    and "ine_containment_action e = Some (if truthy (icr_containment_action x) then the (icr_containment_action x)
      else ''Automatically disabled AI capability scope '' @ casefold (icr_capability_scope x) @ '' at incident creation.'')"
    and "read_incident dk' inc = Inr r"
proof -
  let ?s = "casefold (icr_capability_scope x)"
  let ?action = "Some (if truthy (icr_containment_action x) then the (icr_containment_action x)
      else ''Automatically disabled AI capability scope '' @ ?s @ '' at incident creation.'')"
  let ?inc = "\<lambda>dk1. \<lparr>inc_id = dk_next dk1, inc_title = icr_title x, inc_capability_scope = ?s,
      inc_system_version_id = icr_system_version_id x, inc_detected_at = icr_detected_at x,
      inc_reported_by_user_id = dp_user_id p, inc_created_at = now\<rparr>"
  from assms(1) obtain dk1 status action where v: "scope_pattern ?s"
    and c: "contain_scope dk now db_now ?s x p = Inr (dk1, status, action)"
    and k: "dk_ai_controls dk' = dk_ai_controls dk1" "dk_ai_incidents dk' = dk_ai_incidents dk1 @ [?inc dk1]"
    and n: "\<exists>e. dk_ai_incident_events dk' = dk_ai_incident_events dk1 @ [e] \<and> ine_incident_id e = dk_next dk1 \<and>
      ine_status e = status \<and> ine_severity e = icr_severity x \<and> ine_containment_action e = action"
    and i: "read_incident dk' (?inc dk1) = Inr r"
    unfolding create_ai_incident_def Let_def ebind_Inr guard_Inr
    by (elim exE conjE) (auto simp: ebind_Inr append_event_def log_audit_def split: prod.split_asm)
  from c assms(2) obtain ctl row where s: "make_control_create (containment_control x) = Inr ctl"
    "set_capability_control dk now db_now ?s ctl p = Inr (dk1, row)" "status = ''contained''" "action = ?action"
    by (auto simp: contain_scope_def HIGH_SEVERITIES_def ebind_Inr split: if_split_asm)
  from n obtain e where "dk_ai_incident_events dk' = dk_ai_incident_events dk1 @ [e]" "ine_incident_id e = dk_next dk1"
    "ine_status e = ''contained''" "ine_severity e = icr_severity x" "ine_containment_action e = ?action"
    unfolding s(3,4) by blast
  then show thesis using i by (intro that [OF s(1,2) v k]) simp_all
qed

text \<open>C18: reporting an incident of high or critical severity disables its scope in the same transaction:
  the capability is refused from then on, whoever asks and for whichever system. The incident is stored
  with one event that says it is contained and names the action that was taken (the reporter's, or that
  the scope was disabled), and reads back as contained when its id is new.\<close>

theorem severe_incident_contained:
  assumes "create_ai_incident dk now db_now x p = Inr (dk', r)" and "icr_severity x \<in> {''high'', ''critical''}"
    and "casefold (py_strip asked) = casefold (icr_capability_scope x)"
  shows "\<not> cde_allowed (capability_decision dk' t asked fp) \<and>
    (\<exists>inc e. dk_ai_incidents dk' = dk_ai_incidents dk @ [inc] \<and> ird_incident r = inc \<and>
      inc_capability_scope inc = casefold (icr_capability_scope x) \<and>
      dk_ai_incident_events dk' = dk_ai_incident_events dk @ [e] \<and> ine_incident_id e = inc_id inc \<and>
      ine_status e = ''contained'' \<and> ine_severity e = icr_severity x \<and>
      ine_containment_action e = Some (if truthy (icr_containment_action x) then the (icr_containment_action x)
        else ''Automatically disabled AI capability scope '' @ casefold (icr_capability_scope x) @
          '' at incident creation.'') \<and>
      ((\<forall>q \<in> set (dk_ai_incident_events dk). ine_incident_id q < dk_next dk) \<longrightarrow>
        ird_status r = ''contained'' \<and> ird_events r = [e]))"
  using assms(1,2)
proof (rule severe_incident_steps)
  let ?s = "casefold (icr_capability_scope x)"
  fix ctl dk1 row inc e
  assume m: "make_control_create (containment_control x) = Inr ctl"
    and s: "set_capability_control dk now db_now ?s ctl p = Inr (dk1, row)" and v: "scope_pattern ?s"
    and k: "dk_ai_controls dk' = dk_ai_controls dk1"
    and i: "dk_ai_incidents dk' = dk_ai_incidents dk1 @ [inc]" "dk_ai_incident_events dk' = dk_ai_incident_events dk1 @ [e]"
      "inc_id inc = dk_next dk1" "inc_capability_scope inc = ?s" "ine_incident_id e = dk_next dk1"
      "ine_status e = ''contained''" "ine_severity e = icr_severity x"
      "ine_containment_action e = Some (if truthy (icr_containment_action x) then the (icr_containment_action x)
        else ''Automatically disabled AI capability scope '' @ ?s @ '' at incident creation.'')"
    and r: "read_incident dk' inc = Inr r"
  have "ccr_mode ctl = AM_DISABLED" using m by (auto simp: make_control_create_def containment_control_def split: if_split_asm)
  moreover have "casefold (py_strip ?s) = ?s" using v by (rule scope_normal)
  ultimately have refused: "\<not> cde_allowed (capability_decision dk' t asked fp)"
    using set_control_latest(1,2) [OF s] k assms(3)
    by (intro disabled_refuses [where s = ?s and g = row]) (simp_all add: latest_capability_control_def)
  from r have ri: "ird_incident r = inc" "ird_events r = incident_events dk' (inc_id inc)"
      "ird_status r = ine_status (last (ird_events r))"
    by (auto simp: read_incident_def Let_def split: if_split_asm)
  have new: "ird_status r = ''contained'' \<and> ird_events r = [e]"
    if fresh: "\<forall>q \<in> set (dk_ai_incident_events dk). ine_incident_id q < dk_next dk"
  proof -
    have "filter (\<lambda>q. ine_incident_id q = dk_next dk1) (dk_ai_incident_events dk) = []"
      using fresh set_control_incidents [OF s] by (fastforce simp: filter_empty_conv)
    then show ?thesis
      using set_control_incidents [OF s] ri(2,3) i by (simp add: incident_events_def)
  qed
  show ?thesis
    using refused set_control_incidents [OF s] i ri(1) new
    by (intro conjI exI [of _ inc] exI [of _ e]) simp_all
qed

theorem severe_incident_contained_witness:
  "\<exists>dk' r. create_ai_incident sample_desk 5 5 \<lparr>icr_title = ''Bad claims'', icr_capability_scope = ''claim_extraction'',
      icr_system_version_id = None, icr_detected_at = 4, icr_severity = ''high'', icr_summary = ''invented quotes'',
      icr_containment_action = None, icr_evidence_refs = []\<rparr> sample_approver = Inr (dk', r) \<and>
    \<not> cde_allowed (capability_decision dk' 9 '' claim_extraction'' (Some ''f'')) \<and> ird_status r = ''contained''"
proof -
  let ?x = "\<lparr>icr_title = ''Bad claims'', icr_capability_scope = ''claim_extraction'',
      icr_system_version_id = None, icr_detected_at = 4, icr_severity = ''high'', icr_summary = ''invented quotes'',
      icr_containment_action = None, icr_evidence_refs = []\<rparr>"
  have n: "casefold (py_strip '' claim_extraction'') = casefold (icr_capability_scope ?x)"
    and v: "scope_pattern (casefold (icr_capability_scope ?x))"
    and l: "length_within 10 2000 (py_strip (ccr_reason (containment_control ?x)))"
    by code_simp+
  have "dp_role sample_approver \<in> set HUMAN_ROLES" by code_simp
  from reported [OF this v] l obtain dk' r where c: "create_ai_incident sample_desk 5 5 ?x sample_approver = Inr (dk', r)"
    by fastforce
  have fresh: "\<forall>q \<in> set (dk_ai_incident_events sample_desk). ine_incident_id q < dk_next sample_desk"
    by (simp add: sample_desk_def empty_desk_def)
  from severe_incident_contained [OF c _ n, of 9 "Some ''f''"] fresh c show ?thesis by auto
qed

text \<open>the reason of the containing control is built from the title and the summary, which the report may
  make longer than a reason may be: such a report is refused as long as it names the severity it has,
  nothing is contained, and the same text passes as an incident of low severity.\<close>

theorem long_report_refused:
  assumes "dp_role p \<in> set HUMAN_ROLES" and "scope_pattern (casefold (icr_capability_scope x))"
    and "icr_system_version_id x = None" and "icr_severity x \<in> {''high'', ''critical''}"
    and "icr_summary x \<noteq> []" and "\<not> is_space (last (icr_summary x))"
    and "1966 < length (icr_title x) + length (icr_summary x)"
  shows "create_ai_incident dk now db_now x p = Inl (ContractFailed ''AICapabilityControlCreate'') \<and>
    (\<exists>dk' r. create_ai_incident dk now db_now (x\<lparr>icr_severity := ''low''\<rparr>) p = Inr (dk', r))"
proof -
  let ?r = "ccr_reason (containment_control x)"
  have "py_strip ?r = ?r"
    using assms(5,6) by (intro py_strip_ends) (simp_all add: containment_control_def is_space_def last_append)
  moreover have "length ?r = 34 + length (icr_title x) + length (icr_summary x)" by (simp add: containment_control_def)
  ultimately have "make_control_create (containment_control x) = Inl (ContractFailed ''AICapabilityControlCreate'')"
    using assms(7) by (simp add: make_control_create_def length_within_def)
  with assms(1-4) have "create_ai_incident dk now db_now x p = Inl (ContractFailed ''AICapabilityControlCreate'')"
    by (auto simp: create_ai_incident_def Let_def contain_scope_def HIGH_SEVERITIES_def)
  moreover have "\<exists>dk' r. create_ai_incident dk now db_now (x\<lparr>icr_severity := ''low''\<rparr>) p = Inr (dk', r)"
    by (rule reported) (use assms(1-3) in \<open>simp_all add: HIGH_SEVERITIES_def\<close>)
  ultimately show ?thesis by blast
qed

theorem long_report_refused_witness:
  "create_ai_incident sample_desk 5 5 \<lparr>icr_title = ''Bad claims'', icr_capability_scope = ''claim_extraction'',
      icr_system_version_id = None, icr_detected_at = 4, icr_severity = ''critical'', icr_summary = replicate 1957 (CHR ''x''),
      icr_containment_action = None, icr_evidence_refs = []\<rparr> sample_approver =
    Inl (ContractFailed ''AICapabilityControlCreate'')"
proof -
  let ?x = "\<lparr>icr_title = ''Bad claims'', icr_capability_scope = ''claim_extraction'',
      icr_system_version_id = None, icr_detected_at = 4, icr_severity = ''critical'', icr_summary = replicate 1957 (CHR ''x''),
      icr_containment_action = None, icr_evidence_refs = []\<rparr>"
  have r: "dp_role sample_approver \<in> set HUMAN_ROLES" by code_simp
  have "scope_pattern (casefold ''claim_extraction'')" by code_simp
  then have v: "scope_pattern (casefold (icr_capability_scope ?x))" by simp
  have l: "icr_summary ?x \<noteq> []" "\<not> is_space (last (icr_summary ?x))" "1966 < length (icr_title ?x) + length (icr_summary ?x)"
    by (simp_all add: is_space_def)
  from long_report_refused [OF r v _ _ l, of sample_desk 5 5] show ?thesis by simp
qed

end
