(* ===== verification/DeskWork_Props.thy ===== *)
theory DeskWork_Props
  imports Governance_Props
begin

text \<open>
  Work on the desk: what a released version reads back as, who may link what as evidence, reviews that
  expire, triage, lineage and corrections.
\<close>

section \<open>A released version reads back\<close>

lemma split_lines_block:
  "\<forall>c \<in> set t. \<not> line_boundary c \<Longrightarrow> split_lines acc (t @ s) = split_lines (rev t @ acc) s"
  by (induction t arbitrary: acc) auto

lemma split_lines_join:
  assumes "\<forall>t \<in> set ts. t \<noteq> [] \<and> (\<forall>c \<in> set t. \<not> line_boundary c)"
  shows "split_lines [] (join [CHR 0x0A] ts) = ts"
  using assms
proof (induction ts rule: induct_list012)
  case (2 t)
  then show ?case using split_lines_block [of t "[]" "[]"] by simp
next
  case (3 t u ts)
  have b: "line_boundary (CHR 0x0A)" by (simp add: line_boundary_def)
  from 3(3) have "split_lines [] (t @ CHR 0x0A # join [CHR 0x0A] (u # ts))
      = split_lines (rev t @ []) (CHR 0x0A # join [CHR 0x0A] (u # ts))"
    by (intro split_lines_block) simp
  also have "\<dots> = t # split_lines [] (join [CHR 0x0A] (u # ts))" using b by simp
  also have "\<dots> = t # u # ts" using 3 by simp
  finally show ?case by simp
qed simp

lemma key_inj: "pub_section_value a @ CHR '':'' # digits_of m = pub_section_value b @ CHR '':'' # digits_of n \<longleftrightarrow> a = b \<and> m = n"
  by (cases a; cases b) (simp_all add: digits_of_inj)

lemma number_sentences_lookup:
  assumes "k < length (filter (\<lambda>s. pse_section s = sec) ss)"
  shows "map_of (map (\<lambda>(key, s). (key, f s)) (number_sentences index ss))
      (pub_section_value sec @ '':'' @ digits_of (index sec + k)) = Some (f (filter (\<lambda>s. pse_section s = sec) ss ! k))"
  using assms
proof (induction ss arbitrary: index k)
  case (Cons s ss)
  define i where "i = index(pse_section s := index (pse_section s) + 1)"
  have next_s: "number_sentences index (s # ss) =
      (pub_section_value (pse_section s) @ CHR '':'' # digits_of (index (pse_section s)), s) # number_sentences i ss"
    by (simp add: i_def)
  show ?case
  proof (cases "pse_section s = sec")
    case False
    then have "i sec = index sec" by (simp add: i_def)
    with Cons.IH [of k i] Cons.prems False show ?thesis by (simp add: next_s key_inj del: number_sentences.simps)
  next
    case True
    then have i: "i sec = index sec + 1" by (simp add: i_def)
    show ?thesis
    proof (cases k)
      case 0
      with True show ?thesis by (simp add: next_s del: number_sentences.simps)
    next
      case (Suc j)
      with Cons.prems True have "j < length (filter (\<lambda>s. pse_section s = sec) ss)" by simp
      from Cons.IH [OF this, of i] True Suc i show ?thesis by (simp add: next_s key_inj digits_of_inj del: number_sentences.simps)
    qed
  qed
qed simp

text \<open>What a sentence of a released draft satisfies: it was validated, and its text is one line.\<close>

definition plain_sentence :: "publication_sentence \<Rightarrow> bool" where
  "plain_sentence s \<longleftrightarrow> validate_sentence s = Inr s \<and> (\<forall>c \<in> set (pse_text s). \<not> line_boundary c) \<and>
     (\<forall>i \<in> set (pse_claim_ids s). i < 2 ^ 128)"

lemma all_of_uuid: "\<forall>i \<in> set is. i < 2 ^ 128 \<Longrightarrow> all_of uuid_parse (map uuid_str is) = Some is"
  by (induction "is") (simp_all add: uuid_parse_str)

lemma read_lines_back:
  assumes "\<forall>k < length ss. map_of m (pub_section_value sec @ '':'' @ digits_of (index + k)) = Some (map uuid_str (pse_claim_ids (ss ! k)))"
    and "\<forall>s \<in> set ss. plain_sentence s \<and> pse_section s = sec"
  shows "read_lines m sec index (map pse_text ss) = Some ss"
  using assms
proof (induction ss arbitrary: index)
  case (Cons s ss)
  have "map_of m (pub_section_value sec @ '':'' @ digits_of index) = Some (map uuid_str (pse_claim_ids s))"
    using Cons.prems(1) [rule_format, of 0] by simp
  moreover have "read_lines m sec (index + 1) (map pse_text ss) = Some ss"
  proof (rule Cons.IH)
    show "\<forall>k < length ss. map_of m (pub_section_value sec @ '':'' @ digits_of (index + 1 + k)) = Some (map uuid_str (pse_claim_ids (ss ! k)))"
      using Cons.prems(1) by (auto dest: spec [of _ "Suc _"])
  qed (use Cons.prems(2) in simp)
  moreover have "validate_sentence \<lparr>pse_section = sec, pse_text = pse_text s, pse_claim_ids = pse_claim_ids s\<rparr> = Inr s"
    using Cons.prems(2) by (cases s) (simp add: plain_sentence_def)
  ultimately show ?case
    using Cons.prems(2) by (simp add: claims_of_line_def all_of_uuid plain_sentence_def)
qed simp

lemma section_reads_back:
  assumes "\<forall>s \<in> set (ec_sentences (edr_content d)). plain_sentence s"
  shows "section_sentences (new_version i event_id ctx d as h t) sec =
    Some (filter (\<lambda>s. pse_section s = sec) (ec_sentences (edr_content d)))"
proof -
  let ?ss = "filter (\<lambda>s. pse_section s = sec) (ec_sentences (edr_content d))"
  let ?v = "new_version i event_id ctx d as h t"
  have "pse_text s \<noteq> []" if "plain_sentence s" for s
    using that by (auto simp: plain_sentence_def validate_sentence_def length_within_def Let_def split: if_split_asm)
  with assms have "\<forall>t \<in> set (map pse_text ?ss). t \<noteq> [] \<and> (\<forall>c \<in> set t. \<not> line_boundary c)"
    by (auto simp: plain_sentence_def)
  moreover have "section_summary ?v sec = join [CHR 0x0A] (map pse_text ?ss)"
    by (cases sec) (simp_all add: section_summary_def new_version_def lines_of_def section_texts_def)
  ultimately have lines: "filter (\<lambda>t. t \<noteq> []) (split_lines [] (section_summary ?v sec)) = map pse_text ?ss"
    by (simp add: split_lines_join)
  have "evv_sentence_claim_map ?v = map (\<lambda>(key, s). (key, map uuid_str (pse_claim_ids s)))
      (number_sentences (\<lambda>_. 0) (ec_sentences (edr_content d)))"
    by (simp add: new_version_def sentence_claim_map_def)
  with number_sentences_lookup [where f = "\<lambda>s. map uuid_str (pse_claim_ids s)" and index = "\<lambda>_. 0"]
  have "\<forall>k < length ?ss. map_of (evv_sentence_claim_map ?v) (pub_section_value sec @ '':'' @ digits_of (0 + k))
      = Some (map uuid_str (pse_claim_ids (?ss ! k)))" by simp
  from read_lines_back [OF this] assms show ?thesis by (simp add: section_sentences_def lines)
qed

text \<open>C23: the workspace reads a released version back as it was drafted: section by section the sentences in
  their order, with the claims each was released with, as long as every sentence is as the request model
  leaves it on validation and is not blank, no sentence contains a line boundary, and claim ids are UUIDs
  (below 2 ^ 128).\<close>

theorem released_version_reads_back:
  assumes "publish_event_version sha256 dk now db_now event_id payload approval_id = Inr (dk', r)"
    and "\<forall>s \<in> set (ec_sentences (edr_content (evc_draft payload))). validate_sentence s = Inr s \<and>
      (\<forall>c \<in> set (pse_text s). \<not> line_boundary c) \<and> (\<forall>i \<in> set (pse_claim_ids s). i < 2 ^ 128)"
  shows "version_sentences (last (dk_versions dk')) = Some (concat (map (\<lambda>sec.
    filter (\<lambda>s. pse_section s = sec) (ec_sentences (edr_content (evc_draft payload)))) pub_sections))"
  using assms(1)
proof (rule publish_Inr)
  fix ctx v
  assume v: "v = new_version (dk_next dk) event_id ctx (evc_draft payload) approval_id (evc_preview_hash payload) db_now"
    and dk': "dk_versions dk' = dk_versions dk @ [v]"
  from assms(2) have "\<forall>s \<in> set (ec_sentences (edr_content (evc_draft payload))). plain_sentence s"
    by (simp add: plain_sentence_def)
  from section_reads_back [OF this] show ?thesis
    by (simp add: version_sentences_def dk' v pub_sections_def)
qed

theorem released_version_reads_back_witness:
  "\<exists>dk payload as dk' r. publish_event_version sample_hash dk 6 6 1 payload as = Inr (dk', r) \<and>
    version_sentences (last (dk_versions dk')) = Some (ec_sentences sample_content)"
proof -
  obtain dk0 dk' v h as where p: "publish_event_version sample_hash dk0 6 6 1
      \<lparr>evc_draft = sample_draft, evc_preview_hash = h\<rparr> as = Inr (dk', v)"
    by (rule sample_publishes)
  have "list_all (\<lambda>s. validate_sentence s = Inr s \<and> list_all (\<lambda>c. \<not> line_boundary c) (pse_text s) \<and>
      list_all (\<lambda>i. i < 2 ^ 128) (pse_claim_ids s)) (ec_sentences (edr_content sample_draft))"
    by code_simp
  then have "\<forall>s \<in> set (ec_sentences (edr_content (evc_draft \<lparr>evc_draft = sample_draft, evc_preview_hash = h\<rparr>))).
      validate_sentence s = Inr s \<and> (\<forall>c \<in> set (pse_text s). \<not> line_boundary c) \<and> (\<forall>i \<in> set (pse_claim_ids s). i < 2 ^ 128)"
    by (simp add: list_all_iff)
  from released_version_reads_back [OF p this]
  have "version_sentences (last (dk_versions dk')) = Some (ec_sentences sample_content)"
    by (simp add: sample_draft_def sample_content_def pub_sections_def)
  with p show ?thesis by blast
qed

section \<open>Reviews that expire\<close>

text \<open>C34: a second review of a sensitive claim runs out with its approval and cannot be given again while the
  claim carries it: from then on the claim cannot be reviewed by anybody, and no publication that refers
  to it goes out, until somebody edits the claim.\<close>

theorem expired_review_blocks:
  assumes "row_get clm_id i (dk_claims dk) = Some c" and "distinct (map clm_id (dk_claims dk))"
    and "clm_sensitivity_flags c \<noteq> []" and "clm_second_review_approval_id c = Some k"
    and "row_get dap_id k (dk_approvals dk) = Some a" and "dap_expires_at a \<le> t"
  shows "(\<forall>p event_id reason r. approve_sensitive_claim sha256 dk t db_t event_id i reason p \<noteq> Inr r) \<and>
    (i \<in> set (referenced_claims (evc_draft payload)) \<longrightarrow>
      (\<forall>r. publish_event_version sha256 dk t db_t event_id payload approval_id \<noteq> Inr r))"
proof (intro conjI allI impI)
  show "approve_sensitive_claim sha256 dk t db_t e i reason p \<noteq> Inr r" for p e reason r
    using assms by (simp add: approve_sensitive_claim_def)
next
  fix r
  assume i: "i \<in> set (referenced_claims (evc_draft payload))"
  have expired: "\<not> claim_second_review_is_valid sha256 dk t c"
    using assms(4-6) by (auto simp: claim_second_review_is_valid_def get_opt_def split: option.split)
  have only: "q = c" if "q \<in> set (dk_claims dk)" "clm_id q = i" for q
    using that row_get_in [OF assms(1)] row_get_key [OF assms(1)] assms(2) by (auto simp: distinct_map inj_on_def)
  show "publish_event_version sha256 dk t db_t event_id payload approval_id \<noteq> Inr r"
  proof
    assume "publish_event_version sha256 dk t db_t event_id payload approval_id = Inr r"
    moreover obtain dk' v where "r = (dk', v)" by fastforce
    ultimately have "publish_event_version sha256 dk t db_t event_id payload approval_id = Inr (dk', v)" by simp
    then show False
    proof (rule publish_Inr)
      fix ctx
      assume l: "load_context sha256 dk t event_id (evc_draft payload) = Inr ctx"
        and e: "publication_errors (pxc_event ctx) (evc_draft payload) (pxc_policy_views ctx) = []"
      from i obtain s where "s \<in> set (ec_sentences (edr_content (evc_draft payload)))" "i \<in> set (pse_claim_ids s)"
        by (auto simp: referenced_claims_def)
      from no_errors_releasable [OF l e this] obtain q where "q \<in> set (dk_claims dk)" "clm_id q = i"
        "clm_sensitivity_flags q \<noteq> [] \<longrightarrow> claim_second_review_is_valid sha256 dk t q"
        unfolding releasable_def by blast
      with only assms(3) expired show False by blast
    qed
  qed
qed

definition reviewed_desk :: desk where
  "reviewed_desk = sample_desk\<lparr>dk_claims := [sample_claim\<lparr>clm_sensitivity_flags := [''casualties''],
     clm_second_review_approval_id := Some 50\<rparr>],
     dk_approvals := [new_approval 50 CLAIM_SECOND_REVIEW_APPROVAL 2 ''h'' [] 5 sample_approver ''checked'' 0]\<rparr>"

theorem expired_review_blocks_witness:
  "\<forall>r. publish_event_version sample_hash reviewed_desk (16 * MINUTE) 0 1
    \<lparr>evc_draft = sample_draft, evc_preview_hash = ''h''\<rparr> None \<noteq> Inr r"
proof -
  let ?c = "sample_claim\<lparr>clm_sensitivity_flags := [''casualties''], clm_second_review_approval_id := Some 50\<rparr>"
  let ?a = "new_approval 50 CLAIM_SECOND_REVIEW_APPROVAL 2 ''h'' [] 5 sample_approver ''checked'' 0"
  have a: "row_get clm_id 2 (dk_claims reviewed_desk) = Some ?c" "distinct (map clm_id (dk_claims reviewed_desk))"
    "clm_sensitivity_flags ?c \<noteq> []" "clm_second_review_approval_id ?c = Some 50"
    "row_get dap_id 50 (dk_approvals reviewed_desk) = Some ?a" "dap_expires_at ?a \<le> 16 * MINUTE"
    by (simp_all add: reviewed_desk_def sample_claim_def row_get_def new_approval_def PUBLICATION_APPROVAL_VALIDITY_def
        MINUTE_def SECOND_def)
  have "2 \<in> set (referenced_claims (evc_draft \<lparr>evc_draft = sample_draft, evc_preview_hash = ''h''\<rparr>))"
    by (simp add: referenced_claims_def sample_draft_def sample_content_def)
  with expired_review_blocks [OF a] show ?thesis by blast
qed

section \<open>Gate checks\<close>

text \<open>the checks of a preview do not cover every error of the policy: a draft signed off by its own
  publisher is not ready, yet every check it lists has passed.\<close>

theorem gate_checks_miss_own_signoff:
  assumes "load_context sha256 dk now event_id d = Inr ctx"
    and "publication_errors (pxc_event ctx) d (pxc_policy_views ctx) =
      [''Publication sign-off must be performed by a distinct human'']"
  shows "\<exists>pv. preview_event_version sha256 dk now event_id d = Inr pv \<and> \<not> vpr_ready pv \<and> list_all gck_passed (vpr_checks pv)"
proof -
  have "list_all gck_passed (gate_checks [''Publication sign-off must be performed by a distinct human''] n e)" for n e
  proof -
    have "\<not> list_ex (\<lambda>k. contains (casefold k) (casefold ''Publication sign-off must be performed by a distinct human''))
      [''Unknown claims'', ''another event'', ''conflicts with section'', ''has no safe selected evidence'', ''unknown evidence'',
       ''exact claim set'', ''Model-proposed'', ''second analyst'', ''human sign-off'', ''model cannot'', ''model cannot publish'']"
      by code_simp
    then show ?thesis by (simp add: gate_checks_def gate_groups_def Let_def)
  qed
  with assms show ?thesis by (simp add: preview_event_version_def Let_def)
qed

lemma own_signoff:
  "case load_context sha sample_desk t 1 (sample_draft\<lparr>edr_signed_off_by := Some (desk_actor 5)\<rparr>) of
     Inl _ \<Rightarrow> False
   | Inr ctx \<Rightarrow> publication_errors (pxc_event ctx) (sample_draft\<lparr>edr_signed_off_by := Some (desk_actor 5)\<rparr>)
       (pxc_policy_views ctx) = [''Publication sign-off must be performed by a distinct human'']"
  by (simp add: sample_desk_defs load_context_def row_get_def referenced_claims_def)
     (simp add: sample_draft_def sample_content_def sample_event_def publication_errors_def Let_def referenced_claims_def
      signoff_errors_def claim_errors_def policy_view_def truthy_def row_get_def sample_actors desk_actor_nonempty
      same_actor_def allowed_by_section_def EVIDENCED_STATES_def count_for_def unsafe_scan_def err_if_def
      evidence_scan_def obj_get_def json_true_def dedup_def)

theorem gate_checks_miss_own_signoff_witness:
  "\<exists>pv. preview_event_version sample_hash sample_desk 5 1 (sample_draft\<lparr>edr_signed_off_by := Some (desk_actor 5)\<rparr>) = Inr pv \<and>
    \<not> vpr_ready pv \<and> list_all gck_passed (vpr_checks pv)"
proof -
  obtain ctx where "load_context sample_hash sample_desk 5 1 (sample_draft\<lparr>edr_signed_off_by := Some (desk_actor 5)\<rparr>) = Inr ctx"
    and "publication_errors (pxc_event ctx) (sample_draft\<lparr>edr_signed_off_by := Some (desk_actor 5)\<rparr>)
       (pxc_policy_views ctx) = [''Publication sign-off must be performed by a distinct human'']"
    using own_signoff [of sample_hash 5] by (auto split: sum.split_asm)
  then show ?thesis by (rule gate_checks_miss_own_signoff)
qed

section \<open>Evidence and triage\<close>

lemma cleared_review:
  "\<forall>q \<in> set (row_upd clm_id i (\<lambda>c. c\<lparr>clm_second_reviewed_by := None, clm_second_review_approval_id := None\<rparr>) rows).
    clm_id q = i \<longrightarrow> clm_second_review_approval_id q = None"
  by (induction rows) (simp_all add: row_upd_map)

text \<open>C22: evidence is linked only from a source that is active and approved for automation, with a quotation
  only where its basis allows one, from a record that is not quarantined and was assigned to the event;
  the claim loses its second review, which was bound to the evidence before, and the record has a
  lineage.\<close>

theorem evidence_needs_rights:
  assumes "link_evidence dk now db_now event_id claim_id x = Inr (dk', e)"
  shows "\<exists>c r s l. row_get clm_id claim_id (dk_claims dk) = Some c \<and> clm_event_id c = event_id \<and>
    row_get rec_id (elc_source_record_id x) (dk_records dk) = Some r \<and> \<not> unsafe_scan (rec_security_scan r) \<and>
    row_get src_id (rec_source_id r) (dk_sources dk) = Some s \<and> src_active s \<and> src_automation_approved_at s \<noteq> None \<and>
    (py_strip (case elc_excerpt x of None \<Rightarrow> [] | Some q \<Rightarrow> q) \<noteq> [] \<longrightarrow>
       src_rights_basis s \<in> {RB_PUBLIC_ADVISORY, RB_LICENSED, RB_ATTRIBUTE_QUOTE_MIN}) \<and>
    (\<exists>t \<in> set (dk_triage dk). tri_source_record_id t = rec_id r \<and> tri_assigned_event_id t = Some event_id) \<and>
    dk_evidence dk' = dk_evidence dk @ [e] \<and> evd_claim_id e = claim_id \<and>
    l \<in> set (dk_record_lineage dk') \<and> srl_source_record_id l = rec_id r \<and> evd_lineage_root_id e = srl_lineage_root_id l \<and>
    (\<forall>q \<in> set (dk_claims dk'). clm_id q = claim_id \<longrightarrow> clm_second_review_approval_id q = None)"
proof -
  from assms obtain c r s where c: "row_get clm_id claim_id (dk_claims dk) = Some c" "clm_event_id c = event_id"
    and r: "row_get rec_id (elc_source_record_id x) (dk_records dk) = Some r" "\<not> unsafe_scan (rec_security_scan r)"
    and s: "row_get src_id (rec_source_id r) (dk_sources dk) = Some s"
    and t: "list_ex (\<lambda>t. tri_source_record_id t = rec_id r \<and> tri_assigned_event_id t = Some event_id) (dk_triage dk)"
    by (auto simp: link_evidence_def split: option.split_asm if_split_asm)
  from assms obtain rights where g: "(if truthy (elc_excerpt x) \<and> py_strip (the (elc_excerpt x)) \<noteq> []
      then authorize_public_excerpt s else authorize_automation s) = Inr rights"
    and a: "add_evidence dk now db_now event_id c r s rights x = (dk', e)"
    by (auto simp: link_evidence_def c r s ebind_Inr split: if_split_asm)
  have auto: "authorize_automation s = Inr rights' \<Longrightarrow> src_active s \<and> src_automation_approved_at s \<noteq> None \<and>
      (rdc_may_publish_excerpt rights' \<longleftrightarrow> src_rights_basis s \<in> {RB_PUBLIC_ADVISORY, RB_LICENSED, RB_ATTRIBUTE_QUOTE_MIN})" for rights'
    by (auto simp: authorize_automation_def Let_def split: if_split_asm option.split_asm)
  have excerpt: "py_strip (case elc_excerpt x of None \<Rightarrow> [] | Some q \<Rightarrow> q) \<noteq> [] \<Longrightarrow>
      truthy (elc_excerpt x) \<and> py_strip (the (elc_excerpt x)) \<noteq> []"
    by (cases "elc_excerpt x") (auto simp: py_strip_def)
  obtain l dk1 where l: "ensure_lineage dk now r s (elc_reviewer x) = (dk1, l)" by fastforce
  then have l': "l \<in> set (dk_record_lineage dk1)" "srl_source_record_id l = rec_id r" "dk_evidence dk1 = dk_evidence dk"
    "dk_claims dk1 = dk_claims dk"
    by (auto simp: ensure_lineage_def Let_def dest: row_get_in row_get_key split: option.split_asm)
  have k: "clm_id c = claim_id" using c(1) by (rule row_get_key)
  from a l have e: "dk_evidence dk' = dk_evidence dk1 @ [e]" "evd_claim_id e = clm_id c"
    "evd_lineage_root_id e = srl_lineage_root_id l" "dk_record_lineage dk' = dk_record_lineage dk1"
    "dk_claims dk' = row_upd clm_id (clm_id c) (\<lambda>c. c\<lparr>clm_second_reviewed_by := None,
       clm_second_review_approval_id := None\<rparr>) (dk_claims dk1)"
    by (auto simp: add_evidence_def Let_def)
  have "\<forall>q \<in> set (dk_claims dk'). clm_id q = claim_id \<longrightarrow> clm_second_review_approval_id q = None"
    unfolding e(5) k by (rule cleared_review)
  moreover from e l' k have "dk_evidence dk' = dk_evidence dk @ [e]" "evd_claim_id e = claim_id"
    "l \<in> set (dk_record_lineage dk')" "evd_lineage_root_id e = srl_lineage_root_id l" by simp_all
  moreover obtain rights' where "authorize_automation s = Inr rights'"
    and "truthy (elc_excerpt x) \<and> py_strip (the (elc_excerpt x)) \<noteq> [] \<Longrightarrow> rdc_may_publish_excerpt rights'"
    using g by (auto simp: authorize_public_excerpt_def ebind_Inr split: if_split_asm)
  with auto [of rights'] excerpt have "src_active s" "src_automation_approved_at s \<noteq> None"
    "py_strip (case elc_excerpt x of None \<Rightarrow> [] | Some q \<Rightarrow> q) \<noteq> [] \<longrightarrow>
       src_rights_basis s \<in> {RB_PUBLIC_ADVISORY, RB_LICENSED, RB_ATTRIBUTE_QUOTE_MIN}"
    by blast+
  ultimately show ?thesis
    using c r s t l'(2) by (intro exI [of _ c] exI [of _ r] exI [of _ s] exI [of _ l]) (simp add: list_ex_iff)
qed

definition sample_source :: source_row where
  "sample_source = \<lparr>src_id = 8, src_name = ''port authority'', src_legal_entity = None, src_source_type = SY_OFFICIAL,
     src_tier = TIER_A, src_language = ''en'', src_country = None, src_access_method = AX_RSS, src_feed_url = None,
     src_inbound_mailbox_hash = None, src_rights_basis = RB_PUBLIC_ADVISORY, src_rights_notes = None,
     src_rights_reviewed_by = Some ''counsel'', src_automation_approved_at = Some 1, src_model_processing_approved_at = None,
     src_model_processing_approved_by = None, src_syndicates_from_id = None, src_state_affiliation = None, src_notes = None,
     src_last_reviewed_at = None, src_active = True, src_etag = None, src_last_modified = None,
     src_last_successful_poll_at = None, src_last_poll_started_at = None, src_next_poll_at = None,
     src_poll_interval_seconds = 300, src_consecutive_failures = 0, src_last_poll_error = None\<rparr>"

definition sample_item :: triage_item_row where
  "sample_item = \<lparr>tri_id = 20, tri_source_record_id = 3, tri_status = TR_ATTACHED, tri_detected_corridors = [],
     tri_detected_ports = [], tri_suggested_event_types = [], tri_assigned_event_id = Some 1, tri_created_at = 0,
     tri_reviewed_at = None, tri_reviewed_by = None, tri_dismissal_reason = None\<rparr>"

definition linking_desk :: desk where
  "linking_desk = sample_desk\<lparr>dk_evidence := [], dk_sources := [sample_source], dk_triage := [sample_item]\<rparr>"

theorem evidence_needs_rights_witness:
  "\<exists>dk' e. link_evidence linking_desk 5 5 1 2 \<lparr>elc_source_record_id = 3, elc_directness = DI_PRIMARY,
      elc_excerpt = Some ''closed'', elc_reviewer = ''desk:a''\<rparr> = Inr (dk', e) \<and> dk_evidence dk' = [e]"
proof -
  let ?x = "\<lparr>elc_source_record_id = 3, elc_directness = DI_PRIMARY, elc_excerpt = Some ''closed'', elc_reviewer = ''desk:a''\<rparr>"
  have d: "dk_claims linking_desk = [sample_claim]" "dk_records linking_desk = [sample_source_record]"
    "dk_sources linking_desk = [sample_source]" "dk_triage linking_desk = [sample_item]" "dk_evidence linking_desk = []"
    by (simp_all add: linking_desk_def sample_desk_def)
  have "py_strip ''closed'' \<noteq> []" by code_simp
  then have "\<exists>y. link_evidence linking_desk 5 5 1 2 ?x = Inr y"
    by (simp add: link_evidence_def d row_get_def sample_claim_def sample_source_record_def sample_source_def sample_item_def
        unsafe_scan_def obj_get_def json_true_def authorize_public_excerpt_def authorize_automation_def Let_def)
  then obtain dk' e where l: "link_evidence linking_desk 5 5 1 2 ?x = Inr (dk', e)" by auto
  from evidence_needs_rights [OF l] l d(5) show ?thesis by auto
qed

text \<open>C31: triage decides an item once: a decision is made by a human, on a pending item, and a record that is
  quarantined can only be dismissed; afterwards the item is no longer pending and every further decision
  on it is refused.\<close>

theorem triage_decides_once:
  assumes "apply_triage_action dk now db_now item_id x = Inr (dk', d)"
  shows "\<exists>t t' r. row_get tri_id item_id (dk_triage dk) = Some t \<and> tri_status t = TR_PENDING \<and> \<not> is_model (tai_reviewer x) \<and>
    row_get rec_id (tri_source_record_id t) (dk_records dk) = Some r \<and>
    (unsafe_scan (rec_security_scan r) \<longrightarrow> tai_action x = TA_DISMISS) \<and>
    row_get tri_id item_id (dk_triage dk') = Some t' \<and> tri_status t' = (case tai_action x of TA_ATTACH \<Rightarrow> TR_ATTACHED
      | TA_NEW_EVENT \<Rightarrow> TR_NEW_EVENT | TA_DISMISS \<Rightarrow> TR_DISMISSED) \<and>
    (\<forall>later db_later y out. apply_triage_action dk' later db_later item_id y \<noteq> Inr out)"
proof -
  from assms obtain t r where m: "\<not> is_model (tai_reviewer x)" and t: "row_get tri_id item_id (dk_triage dk) = Some t"
      "tri_status t = TR_PENDING" and r: "row_get rec_id (tri_source_record_id t) (dk_records dk) = Some r"
      "unsafe_scan (rec_security_scan r) \<longrightarrow> tai_action x = TA_DISMISS"
    by (auto simp: apply_triage_action_def split: option.split_asm if_split_asm)
  from assms obtain dk1 event_id status payload dismissal where e: "triage_effect dk db_now t x = Inr (dk1, event_id, status, payload, dismissal)"
    and dk': "dk_triage dk' = row_upd tri_id item_id (triaged status event_id now (tai_reviewer x) dismissal) (dk_triage dk1)"
    using m t r by (auto simp: apply_triage_action_def ebind_Inr Let_def split: if_split_asm)
  from e have s: "dk_triage dk1 = dk_triage dk" "status = (case tai_action x of TA_ATTACH \<Rightarrow> TR_ATTACHED
      | TA_NEW_EVENT \<Rightarrow> TR_NEW_EVENT | TA_DISMISS \<Rightarrow> TR_DISMISSED)"
    by (auto simp: triage_effect_def Let_def split: triage_action.split_asm option.split_asm if_split_asm)
  let ?t = "triaged status event_id now (tai_reviewer x) dismissal t"
  have t': "row_get tri_id item_id (dk_triage dk') = Some ?t"
    using t(1) by (simp add: dk' s(1) row_simps triaged_def)
  have "tri_status ?t = status" "status \<noteq> TR_PENDING"
    using s(2) by (simp_all add: triaged_def split: triage_action.split)
  then have "apply_triage_action dk' later db_later item_id y \<noteq> Inr out" for later db_later y out
    by (simp add: apply_triage_action_def t')
  with m t r t' s(2) \<open>tri_status ?t = status\<close> show ?thesis by (intro exI [of _ t] exI [of _ ?t] exI [of _ r]) simp
qed

definition triage_desk :: desk where
  "triage_desk = sample_desk\<lparr>dk_triage := [sample_item\<lparr>tri_status := TR_PENDING, tri_assigned_event_id := None\<rparr>]\<rparr>"

definition dismiss_action :: triage_action_input where
  "dismiss_action = \<lparr>tai_action = TA_DISMISS, tai_reviewer = ''desk:a'', tai_reason = Some ''noise'', tai_event_id = None,
     tai_title = None, tai_event_type = None, tai_corridor = None, tai_severity = None, tai_occurred_start = None\<rparr>"

theorem triage_decides_once_witness:
  "\<exists>dk' d. apply_triage_action triage_desk 5 5 20 dismiss_action = Inr (dk', d) \<and>
    (\<forall>out. apply_triage_action dk' 6 6 20 dismiss_action \<noteq> Inr out)"
proof -
  have d: "dk_triage triage_desk = [sample_item\<lparr>tri_status := TR_PENDING, tri_assigned_event_id := None\<rparr>]"
    "dk_records triage_desk = [sample_source_record]"
    by (simp_all add: triage_desk_def sample_desk_def)
  have "py_strip ''noise'' \<noteq> []" "is_model ''desk:a'' = False" by code_simp+
  then have "\<exists>y. apply_triage_action triage_desk 5 5 20 dismiss_action = Inr y"
    by (simp add: apply_triage_action_def triage_effect_def d row_get_def sample_item_def sample_source_record_def
        dismiss_action_def Let_def)
  then obtain dk' d where a: "apply_triage_action triage_desk 5 5 20 dismiss_action = Inr (dk', d)" by auto
  from triage_decides_once [OF a] a show ?thesis by blast
qed

section \<open>Lineage\<close>

lemma record_lineage_append:
  "record_lineage (dk\<lparr>dk_record_lineage := dk_record_lineage dk @ [l]\<rparr>) i =
    (case record_lineage dk i of Some q \<Rightarrow> Some q | None \<Rightarrow> if srl_source_record_id l = i then Some l else None)"
  by (simp add: record_lineage_def row_get_def find_append split: option.split)

lemma assign_lineage:
  assumes "assign_to_root root_id proposal_id who now dk i = Inr dk'"
  shows "map_option srl_lineage_root_id (record_lineage dk' i) = Some root_id"
    and "\<And>j l. record_lineage dk j = Some l \<Longrightarrow> record_lineage dk' j = Some l"
  using assms by (auto simp: assign_to_root_def record_lineage_append split: option.split_asm if_split_asm option.split)

lemma root_for_lineage: "root_for dk p s c = Inr (dk', r) \<Longrightarrow> dk_record_lineage dk' = dk_record_lineage dk"
  by (auto simp: root_for_def Let_def split: option.split_asm if_split_asm)

lemma assign_proposals:
  "assign_to_root root_id proposal_id who now dk i = Inr dk' \<Longrightarrow>
    dk_lineage_proposals dk' = dk_lineage_proposals dk \<and> dk_lineage_reviews dk' = dk_lineage_reviews dk"
  by (auto simp: assign_to_root_def split: option.split_asm if_split_asm)

lemma root_for_proposals:
  "root_for dk p s c = Inr (dk', r) \<Longrightarrow>
    dk_lineage_proposals dk' = dk_lineage_proposals dk \<and> dk_lineage_reviews dk' = dk_lineage_reviews dk"
  by (auto simp: root_for_def Let_def split: option.split_asm if_split_asm)

lemma accept_shares_root:
  assumes "accept_proposal dk now p who = Inr dk1"
  shows "\<forall>j l. record_lineage dk j = Some l \<longrightarrow> record_lineage dk1 j = Some l"
    and "\<exists>root_id. \<forall>j \<in> {lpr_subject_record_id p} \<union> set_option (lpr_candidate_record_id p).
       map_option srl_lineage_root_id (record_lineage dk1 j) = Some root_id"
    and "dk_lineage_proposals dk1 = dk_lineage_proposals dk \<and> dk_lineage_reviews dk1 = dk_lineage_reviews dk"
proof -
  let ?c = "get_opt rec_id (lpr_candidate_record_id p) (dk_records dk)"
  from assms obtain r where r: "row_get rec_id (lpr_subject_record_id p) (dk_records dk) = Some r"
    and c: "lpr_candidate_record_id p \<noteq> None \<longrightarrow> ?c \<noteq> None"
    and rest: "ebind (root_for dk p r ?c) (\<lambda>(dk1, root_id).
      ebind (assign_to_root root_id (lpr_id p) who now dk1 (rec_id r)) (\<lambda>dk2.
      case ?c of None \<Rightarrow> Inr dk2 | Some c \<Rightarrow> assign_to_root root_id (lpr_id p) who now dk2 (rec_id c))) = Inr dk1"
    by (auto simp: accept_proposal_def Let_def split: option.split_asm if_split_asm)
  from rest obtain dk0 dk2 root_id where 1: "root_for dk p r ?c = Inr (dk0, root_id)"
    and 2: "assign_to_root root_id (lpr_id p) who now dk0 (rec_id r) = Inr dk2"
    and 3: "(case ?c of None \<Rightarrow> Inr dk2 | Some c \<Rightarrow> assign_to_root root_id (lpr_id p) who now dk2 (rec_id c)) = Inr dk1"
    unfolding ebind_Inr by (auto simp only: prod.case split_paired_Ex ebind_Inr)
  have k: "rec_id r = lpr_subject_record_id p" using r by (rule row_get_key)
  have 0: "record_lineage dk0 j = record_lineage dk j" for j
    using root_for_lineage [OF 1] by (simp add: record_lineage_def)
  consider "?c = None" "lpr_candidate_record_id p = None" "dk1 = dk2"
    | q where "?c = Some q" "lpr_candidate_record_id p = Some (rec_id q)"
      "assign_to_root root_id (lpr_id p) who now dk2 (rec_id q) = Inr dk1"
    using c 3 by (cases ?c) (auto simp: get_opt_def dest: row_get_key split: bind_splits)
  note cases = this
  show "dk_lineage_proposals dk1 = dk_lineage_proposals dk \<and> dk_lineage_reviews dk1 = dk_lineage_reviews dk"
    using root_for_proposals [OF 1] assign_proposals [OF 2] assign_proposals by (cases rule: cases) auto
  show "\<forall>j l. record_lineage dk j = Some l \<longrightarrow> record_lineage dk1 j = Some l"
    using assign_lineage(2) [OF 2] assign_lineage(2) 0 by (cases rule: cases) auto
  show "\<exists>root_id. \<forall>j \<in> {lpr_subject_record_id p} \<union> set_option (lpr_candidate_record_id p).
       map_option srl_lineage_root_id (record_lineage dk1 j) = Some root_id"
  proof (cases rule: cases)
    case 1
    with assign_lineage(1) [OF 2] k show ?thesis by auto
  next
    case (2 q)
    from assign_lineage(1) [OF \<open>assign_to_root root_id (lpr_id p) who now dk0 (rec_id r) = Inr dk2\<close>]
    obtain l where "record_lineage dk2 (rec_id r) = Some l" "srl_lineage_root_id l = root_id" by auto
    with assign_lineage [OF 2(3)] 2(2) k show ?thesis by auto
  qed
qed

text \<open>C33: accepting a proposal puts the subject and the candidate under one lineage root; a record never changes
  the root it belongs to, and only a human decides, once: the review is stored, the proposal is from then
  on accepted or rejected, and every further review of it is refused.\<close>

theorem accepted_lineage_shares_root:
  assumes "review_lineage_proposal dk now db_now i decision who why = Inr (dk', review)"
    and "row_get lpr_id i (dk_lineage_proposals dk) = Some p"
  shows "lpr_status p = LP_PENDING \<and> \<not> is_model who \<and>
    (\<forall>j l. record_lineage dk j = Some l \<longrightarrow> record_lineage dk' j = Some l) \<and>
    (decision = LD_ACCEPT \<longrightarrow> (\<exists>root_id. \<forall>j \<in> {lpr_subject_record_id p} \<union> set_option (lpr_candidate_record_id p).
       map_option srl_lineage_root_id (record_lineage dk' j) = Some root_id)) \<and>
    dk_lineage_reviews dk' = dk_lineage_reviews dk @ [review] \<and> lrv_proposal_id review = i \<and>
    lrv_decision review = decision \<and> lrv_reviewer review = who \<and>
    row_get lpr_id i (dk_lineage_proposals dk') =
      Some (p\<lparr>lpr_status := if decision = LD_ACCEPT then LP_ACCEPTED else LP_REJECTED\<rparr>) \<and>
    (\<forall>later db_later decision' who' why' out.
      review_lineage_proposal dk' later db_later i decision' who' why' \<noteq> Inr out)"
proof -
  from assms have id: "lpr_id p = i" by (simp add: row_get_key)
  define status where "status = (if decision = LD_ACCEPT then LP_ACCEPTED else LP_REJECTED)"
  from assms obtain dk1 where s: "lpr_status p = LP_PENDING" "\<not> is_model who"
    and a: "(if decision = LD_ACCEPT then accept_proposal dk now p who else Inr dk) = Inr dk1"
    and dk': "dk_record_lineage dk' = dk_record_lineage dk1"
      "dk_lineage_proposals dk' = row_upd lpr_id i (\<lambda>p. p\<lparr>lpr_status := status\<rparr>) (dk_lineage_proposals dk1)"
      "dk_lineage_reviews dk' = dk_lineage_reviews dk1 @ [review]"
    and r: "lrv_proposal_id review = i" "lrv_decision review = decision" "lrv_reviewer review = who"
    by (auto simp: review_lineage_proposal_def ebind_Inr Let_def id status_def log_audit_def split: if_split_asm)
  then have same: "record_lineage dk' j = record_lineage dk1 j" for j by (simp add: record_lineage_def)
  from a have kept: "dk_lineage_proposals dk1 = dk_lineage_proposals dk" "dk_lineage_reviews dk1 = dk_lineage_reviews dk"
    by (auto dest: accept_shares_root(3) split: if_split_asm)
  have decided: "row_get lpr_id i (dk_lineage_proposals dk') = Some (p\<lparr>lpr_status := status\<rparr>)"
    using assms(2) by (simp add: dk'(2) kept row_get_upd)
  then have "review_lineage_proposal dk' later db_later i decision' who' why' \<noteq> Inr out" for later db_later decision' who' why' out
    by (simp add: review_lineage_proposal_def status_def)
  moreover have "(\<forall>j l. record_lineage dk j = Some l \<longrightarrow> record_lineage dk' j = Some l) \<and>
    (decision = LD_ACCEPT \<longrightarrow> (\<exists>root_id. \<forall>j \<in> {lpr_subject_record_id p} \<union> set_option (lpr_candidate_record_id p).
       map_option srl_lineage_root_id (record_lineage dk' j) = Some root_id))"
  proof (cases "decision = LD_ACCEPT")
    case True
    with a have "accept_proposal dk now p who = Inr dk1" by simp
    from accept_shares_root [OF this] show ?thesis by (simp only: same True simp_thms)
  qed (use a same in auto)
  ultimately show ?thesis using s r decided kept dk'(3) unfolding status_def by simp
qed

definition sample_proposal :: lineage_proposal_row where
  "sample_proposal = \<lparr>lpr_id = 60, lpr_proposal_key = ''k'', lpr_subject_record_id = 3, lpr_candidate_record_id = None,
     lpr_proposed_origin_source_id = None, lpr_proposed_origin_name = Some ''port authority'', lpr_score = fl 1,
     lpr_signals_json = [], lpr_status = LP_PENDING, lpr_component_version = ''v1'', lpr_created_at = 0\<rparr>"

definition lineage_desk :: desk where
  "lineage_desk = sample_desk\<lparr>dk_lineage_proposals := [sample_proposal]\<rparr>"

theorem accepted_lineage_shares_root_witness:
  "\<exists>dk' review root_id. review_lineage_proposal lineage_desk 5 5 60 LD_ACCEPT ''desk:a'' None = Inr (dk', review) \<and>
    map_option srl_lineage_root_id (record_lineage dk' 3) = Some root_id"
proof -
  have d: "dk_lineage_proposals lineage_desk = [sample_proposal]" "dk_records lineage_desk = [sample_source_record]"
    "dk_record_lineage lineage_desk = []"
    by (simp_all add: lineage_desk_def sample_desk_def empty_desk_def)
  have p: "row_get lpr_id 60 (dk_lineage_proposals lineage_desk) = Some sample_proposal"
    by (simp add: d row_get_def sample_proposal_def)
  have "\<exists>y. review_lineage_proposal lineage_desk 5 5 60 LD_ACCEPT ''desk:a'' None = Inr y"
    by (simp add: review_lineage_proposal_def p accept_proposal_def d row_get_def sample_proposal_def
        sample_source_record_def get_opt_def root_for_def record_lineage_def assign_to_root_def sample_actors Let_def)
  then obtain dk' review where r: "review_lineage_proposal lineage_desk 5 5 60 LD_ACCEPT ''desk:a'' None = Inr (dk', review)"
    by auto
  from accepted_lineage_shares_root [OF r p] r show ?thesis by (auto simp: sample_proposal_def)
qed

section \<open>Corrections\<close>

lemma plan_recipients:
  "build_correction_plan sha256 dk d = Inr p \<Longrightarrow>
    cpl_recipients p = original_recipients dk (cc_version_from_id (cdr_content d))"
  by (auto simp: build_correction_plan_def ebind_Inr Let_def split: if_split_asm prod.split_asm)

text \<open>C20: a correction is issued once: an issue that succeeds either returns the correction stored under the
  preview hash and changes nothing, or stores one correction and queues one delivery for every user and
  channel the alerts of the corrected version were delivered to. On any later desk, whose corrections continue
  those, every issue under the same preview hash that succeeds gives that correction back and changes nothing; the gate comes first, so it may instead
  be refused (an approval that has expired, a preview that is stale).\<close>

theorem correction_issued_once:
  assumes "issue_correction sha256 dk now db_now payload approval_id released_by = Inr (dk', c)"
  shows "\<exists>p. build_correction_plan sha256 dk (cis_draft payload) = Inr p \<and> cis_preview_hash payload = cpl_preview_hash p \<and>
    cor_preview_hash c = Some (cis_preview_hash payload) \<and>
    (c \<in> set (dk_corrections dk) \<and> dk' = dk \<or>
     (\<forall>b \<in> set (dk_corrections dk). cor_preview_hash b \<noteq> Some (cis_preview_hash payload)) \<and>
     dk_corrections dk' = dk_corrections dk @ [c] \<and>
     (\<exists>ds. dk_correction_deliveries dk' = dk_correction_deliveries dk @ ds \<and>
       map (\<lambda>d. (cod_account_id d, cod_user_id d, cod_channel d, cod_recipient d)) ds =
         map (\<lambda>r. (crp_account_id r, crp_user_id r, crp_channel r, crp_recipient r))
           (original_recipients dk (cc_version_from_id (cdr_content (cis_draft payload)))) \<and>
       (\<forall>d \<in> set ds. cod_correction_id d = cor_id c \<and> cod_status d = DST_QUEUED))) \<and>
    (\<forall>dk2 more later db_later payload' again releaser dk'' c'. dk_corrections dk2 = dk_corrections dk' @ more \<longrightarrow>
      cis_preview_hash payload' = cis_preview_hash payload \<longrightarrow>
      issue_correction sha256 dk2 later db_later payload' again releaser = Inr (dk'', c') \<longrightarrow> dk'' = dk2 \<and> c' = c)"
proof -
  have again: "dk'' = dk2 \<and> c' = c"
    if f: "find (\<lambda>c. cor_preview_hash c = Some (cis_preview_hash payload)) (dk_corrections dk') = Some c"
    and g: "dk_corrections dk2 = dk_corrections dk' @ more"
    and "cis_preview_hash y = cis_preview_hash payload" "issue_correction sha256 dk2 t u y a w = Inr (dk'', c')"
    for dk2 more t u y a w dk'' c'
  proof -
    have "find (\<lambda>c. cor_preview_hash c = Some (cis_preview_hash payload)) (dk_corrections dk2) = Some c"
      using f by (simp add: g find_append)
    with that(3,4) show ?thesis by (auto simp: issue_correction_def ebind_Inr Let_def split: if_split_asm)
  qed
  from assms show ?thesis
  proof (cases rule: issue_correction_cases)
    case (1 p)
    then have "c \<in> set (dk_corrections dk)" "cor_preview_hash c = Some (cis_preview_hash payload)"
      by (auto simp: find_Some_iff)
    with 1 again show ?thesis by simp
  next
    case (2 p ds)
    have h: "cor_preview_hash c = Some (cis_preview_hash payload)" by (simp add: 2(5) correction_row_of_def Let_def)
    have new: "\<forall>b \<in> set (dk_corrections dk). cor_preview_hash b \<noteq> Some (cis_preview_hash payload)"
      using 2(3) by (simp add: find_None_iff)
    from 2(3,7) h have "find (\<lambda>c. cor_preview_hash c = Some (cis_preview_hash payload)) (dk_corrections dk') = Some c"
      by (simp add: find_append)
    with h new 2(7,12,14) 2(13) [unfolded plan_recipients [OF 2(1)]] again show ?thesis
      by (intro exI [of _ p] conjI [OF 2(1)] conjI [OF 2(2)]) blast
  qed
qed

definition sample_version :: "uid \<Rightarrow> int \<Rightarrow> event_version_row" where
  "sample_version i n = \<lparr>evv_id = i, evv_event_id = 1, evv_version_no = n, evv_title = ''Port closed'',
     evv_summary_confirmed = [], evv_summary_reported = [], evv_summary_unknown = [], evv_whats_changed = [],
     evv_sentence_claim_map = [], evv_event_snapshot_json = [], evv_claim_snapshot_json = [],
     evv_evidence_snapshot_json = [], evv_published_at = 0, evv_published_by = ''desk:a'', evv_signed_off_by = None,
     evv_publication_approval_id = None, evv_policy_version = ''v'', evv_model_versions = [], evv_content_hash = ''h''\<rparr>"

definition correcting_desk :: desk where
  "correcting_desk = sample_desk\<lparr>dk_versions := [sample_version 30 1, sample_version 31 2],
     dk_alerts := [\<lparr>alr_id = 40, alr_event_version_id = 30, alr_severity = 3, alr_created_at = 0, alr_released_by = ''desk:a'',
       alr_channels_json = [], alr_audience_snapshot_json = [], alr_message_json = []\<rparr>],
     dk_deliveries := [\<lparr>dlv_id = 41, dlv_alert_id = 40, dlv_account_id = 42, dlv_user_id = 43, dlv_channel = DCH_EMAIL,
       dlv_recipient = ''r'', dlv_sent_at = None, dlv_delivered_at = None, dlv_status = DST_DELIVERED, dlv_queued_at = 0,
       dlv_attempt_count = 1, dlv_last_attempt_at = None, dlv_next_attempt_at = None, dlv_last_error = None,
       dlv_provider_ref = None, dlv_updated_at = 0\<rparr>]\<rparr>"

definition sample_correction :: correction_draft where
  "sample_correction = \<lparr>cdr_content = \<lparr>cc_event_id = 1, cc_version_from_id = 30, cc_version_to_id = 31,
     cc_correction_type = CT_CLARIFICATION, cc_impact = CI_NON_OPERATIONAL, cc_note = ''n'', cc_root_cause = ''c'',
     cc_corrective_action = ''a'', cc_detected_at = Aware 1\<rparr>, cdr_drafted_by = ''desk:a'', cdr_signed_off_by = ''desk:a''\<rparr>"

theorem correction_issued_once_witness:
  "\<exists>dk' c d h. issue_correction sample_hash correcting_desk 5 5 \<lparr>cis_draft = sample_correction, cis_preview_hash = h\<rparr> None None
      = Inr (dk', c) \<and>
    dk_corrections dk' = [c] \<and> dk_correction_deliveries dk' = [d] \<and> cod_recipient d = ''r'' \<and>
    (\<forall>out. issue_correction sample_hash dk' 6 6 \<lparr>cis_draft = sample_correction, cis_preview_hash = h\<rparr> None None = Inr out
      \<longrightarrow> out = (dk', c))"
proof -
  have s: "py_strip ''desk:a'' = ''desk:a''" "py_strip ''n'' \<noteq> []" "py_strip ''c'' \<noteq> []" "py_strip ''a'' \<noteq> []"
      "length_within 2 255 ''desk:a''"
    by code_simp+
  have d: "dk_versions correcting_desk = [sample_version 30 1, sample_version 31 2]" "dk_events correcting_desk = [sample_event]"
    "dk_corrections correcting_desk = []" "dk_correction_deliveries correcting_desk = []"
    by (simp_all add: correcting_desk_def sample_desk_def empty_desk_def)
  have rs: "original_recipients correcting_desk 30 =
      [\<lparr>crp_account_id = 42, crp_user_id = 43, crp_channel = DCH_EMAIL, crp_recipient = ''r''\<rparr>]"
    by (simp add: original_recipients_def correcting_desk_def recipient_of_def)
  have "\<exists>p. build_correction_plan sample_hash correcting_desk sample_correction = Inr p \<and>
      cpl_recipients p = original_recipients correcting_desk 30"
    by (simp add: build_correction_plan_def sample_correction_def human_def s sample_actors is_aware_def Let_def
        correction_versions_def d row_get_def sample_event_def sample_version_def)
  then obtain p where p: "build_correction_plan sample_hash correcting_desk sample_correction = Inr p"
    "cpl_recipients p = original_recipients correcting_desk 30" by blast
  let ?x = "\<lparr>cis_draft = sample_correction, cis_preview_hash = cpl_preview_hash p\<rparr>"
  have i: "cc_impact (cdr_content sample_correction) = CI_NON_OPERATIONAL" "as_utc (cc_detected_at (cdr_content sample_correction)) = 1"
    by (simp_all add: sample_correction_def)
  have "\<exists>y. issue_correction sample_hash correcting_desk 5 5 ?x None None = Inr y"
    by (simp add: issue_correction_def p correction_gate_def i d Let_def)
  then obtain dk' c where r: "issue_correction sample_hash correcting_desk 5 5 ?x None None = Inr (dk', c)" by auto
  have v: "cc_version_from_id (cdr_content sample_correction) = 30" by (simp add: sample_correction_def)
  note once = correction_issued_once [OF r]
  from once p rs d obtain e where "dk_corrections dk' = [c]" "dk_correction_deliveries dk' = [e]" "cod_recipient e = ''r''"
    by (auto simp: map_eq_Cons_conv v)
  moreover have "out = (dk', c)" if "issue_correction sample_hash dk' 6 6 ?x None None = Inr out" for out
  proof -
    from once have all: "\<forall>dk2 more later db_later payload' again releaser dk'' c'. dk_corrections dk2 = dk_corrections dk' @ more \<longrightarrow>
      cis_preview_hash payload' = cis_preview_hash ?x \<longrightarrow>
      issue_correction sample_hash dk2 later db_later payload' again releaser = Inr (dk'', c') \<longrightarrow> dk'' = dk2 \<and> c' = c"
      by (elim exE conjE) assumption
    have "dk_corrections dk' = dk_corrections dk' @ []" by simp
    moreover from that have "issue_correction sample_hash dk' 6 6 ?x None None = Inr (fst out, snd out)" by simp
    ultimately have "fst out = dk' \<and> snd out = c" using all by blast
    then show ?thesis by (simp add: prod_eq_iff)
  qed
  ultimately show ?thesis using r by blast
qed

end
