(* ===== verification/ClaimExtraction.thy ===== *)
theory ClaimExtraction
  imports DeskLineage Contract
begin

text \<open>
  Extraction of claims from source documents (\<open>packages/pipeline/eastmed_pipeline/claim_extraction.py\<close>):
  segmentation, grounding of the model's output, the run of a record, human review, quality control and
  graduation from shadow mode. The provider is a port; the settings, the rules and the prompt are
  arguments. The error a provider raises is its class name and the message kept of it. On ASCII text the
  stop words and negations of other scripts match nothing and are left out.
\<close>

definition PROMPT_VERSION :: string where "PROMPT_VERSION = ''claim_extraction_v2''"
definition COMPONENT :: string where "COMPONENT = ''claim_extraction''"
definition SEGMENTATION_VERSION :: string where "SEGMENTATION_VERSION = ''coverage_segmenter_v1''"

definition GROUNDING_STOPWORDS :: "string list" where
  "GROUNDING_STOPWORDS = [''the'', ''and'', ''that'', ''this'', ''with'', ''from'', ''for'', ''was'', ''were'', ''has'',
     ''have'', ''had'', ''are'', ''but'', ''its'', ''into'', ''bir'', ''ile'', ''ve'']"

definition NEGATION_TERMS :: "string list" where
  "NEGATION_TERMS = [''not'', ''no'', ''never'', ''without'', ''neither'', ''nor'', ''denied'', ''denies'', ''yok'',
     ''olmadan'']"

definition WORKER :: string where "WORKER = ''claim-extraction-worker''"

section \<open>Data\<close>

record claim_quantity =
  cq_value :: string
  cq_unit :: string
  cq_what :: string

record claim_location =
  cl_name :: string
  cl_unlocode :: "string option"

record extracted_claim =
  xc_text :: string
  xc_claimant :: "string option"
  xc_occurred_time :: "instant option"
  xc_location :: "claim_location option"
  xc_quantities :: "claim_quantity list"
  xc_hedging_language :: bool
  xc_source_sentence_quote :: string

record extraction_output =
  xo_claims :: "extracted_claim list"
  xo_injection_suspected :: bool

text \<open>The validators of the schema the model's output and an edited claim must satisfy; a naive time has
  no instant and is refused before.\<close>

definition optional_within :: "nat \<Rightarrow> nat \<Rightarrow> string option \<Rightarrow> bool" where
  "optional_within lo hi s \<longleftrightarrow> (case s of None \<Rightarrow> True | Some t \<Rightarrow> length_within lo hi t)"

definition valid_quantity :: "claim_quantity \<Rightarrow> bool" where
  "valid_quantity q \<longleftrightarrow> length_within 1 100 (cq_value q) \<and> length_within 1 100 (cq_unit q) \<and> length_within 1 500 (cq_what q)"

definition make_location :: "claim_location \<Rightarrow> claim_location option" where
  "make_location l =
    (if length_within 1 500 (cl_name l) \<and> optional_within 5 5 (cl_unlocode l)
     then Some (l\<lparr>cl_unlocode := map_option upper (cl_unlocode l)\<rparr>) else None)"

definition make_extracted_claim :: "extracted_claim \<Rightarrow> extracted_claim option" where
  "make_extracted_claim c =
    (let text = py_strip (xc_text c); quote = py_strip (xc_source_sentence_quote c) in
     if length_within 3 10000 (xc_text c) \<and> optional_within 1 255 (xc_claimant c) \<and> length (xc_quantities c) \<le> 50
        \<and> list_all valid_quantity (xc_quantities c) \<and> length_within 1 5000 (xc_source_sentence_quote c)
        \<and> text \<noteq> [] \<and> quote \<noteq> []
     then (case xc_location c of
         None \<Rightarrow> Some (c\<lparr>xc_text := text, xc_source_sentence_quote := quote\<rparr>)
       | Some l \<Rightarrow> map_option (\<lambda>l. c\<lparr>xc_text := text, xc_source_sentence_quote := quote, xc_location := Some l\<rparr>)
            (make_location l))
     else None)"

definition make_extraction_output :: "extraction_output \<Rightarrow> extraction_output option" where
  "make_extraction_output out =
    (let claims = map make_extracted_claim (xo_claims out) in
     if length claims \<le> 100 \<and> list_all (\<lambda>c. c \<noteq> None) claims
     then Some (out\<lparr>xo_claims := map the claims\<rparr>) else None)"

record provider_result =
  pvr_output :: extraction_output
  pvr_raw_text :: string
  pvr_input_tokens :: "int option"
  pvr_output_tokens :: "int option"

record document_segment =
  seg_index :: nat
  seg_start :: nat
  seg_end :: nat
  seg_text :: string

text \<open>The exceptions an extraction can meet; of a foreign one only the class matters.\<close>

datatype extraction_exception =
    ClaimExtractionError string
  | NotFound string
  | TimeoutException string
  | HTTPStatusError nat
  | RequestError string
  | OtherException string

primrec exception_name :: "extraction_exception \<Rightarrow> string" where
  "exception_name (ClaimExtractionError _) = ''ClaimExtractionError''"
| "exception_name (NotFound _) = ''LookupError''"
| "exception_name (TimeoutException name) = name"
| "exception_name (HTTPStatusError _) = ''HTTPStatusError''"
| "exception_name (RequestError name) = name"
| "exception_name (OtherException name) = name"

primrec safe_error_message :: "extraction_exception \<Rightarrow> string" where
  "safe_error_message (ClaimExtractionError message) = take 2000 message"
| "safe_error_message (NotFound _) = ''Unexpected claim-extraction failure''"
| "safe_error_message (TimeoutException _) = ''Anthropic request timed out''"
| "safe_error_message (HTTPStatusError status) = ''Anthropic request failed with HTTP '' @ digits_of status"
| "safe_error_message (RequestError _) = ''Anthropic request failed before a response was received''"
| "safe_error_message (OtherException _) = ''Unexpected claim-extraction failure''"

text \<open>The answer of the provider to its n-th call with a document and the system prompt.\<close>

type_synonym extraction_provider = "nat \<Rightarrow> string \<Rightarrow> string \<Rightarrow> extraction_exception + provider_result"

record extraction_rules =
  xru_version :: string
  xru_prompt_version :: string
  xru_mode :: string
  xru_minimum_shadow_days :: int
  xru_minimum_reviewed_per_language :: nat
  xru_minimum_qa_per_language :: nat
  xru_minimum_time_reduction_percent :: float64
  xru_baseline_error_rate_by_language :: "(string \<times> float64 option) list"

text \<open>The validators of the rules file.\<close>

definition valid_rules :: "extraction_rules \<Rightarrow> bool" where
  "valid_rules r \<longleftrightarrow> 60 \<le> xru_minimum_shadow_days r \<and> 1 \<le> xru_minimum_reviewed_per_language r
     \<and> 1 \<le> xru_minimum_qa_per_language r \<and> 0 \<le> xru_minimum_time_reduction_percent r
     \<and> xru_minimum_time_reduction_percent r \<le> 100 \<and> xru_mode r \<in> {''shadow'', ''production''}
     \<and> list_all (\<lambda>(_, rate). case rate of None \<Rightarrow> True | Some x \<Rightarrow> 0 \<le> x \<and> x \<le> 1) (xru_baseline_error_rate_by_language r)"

record extraction_settings =
  xs_model :: string
  xs_prompt :: string
  xs_max_chars :: int
  xs_overlap_chars :: int
  xs_max_segments :: nat
  xs_max_proposals :: nat

record extraction_metrics =
  xm_language :: string
  xm_prompt_version :: string
  xm_model_version :: string
  xm_reviewed :: nat
  xm_qa_reviewed :: nat
  xm_shadow_days :: float64
  xm_time_reduction_percent :: float64
  xm_error_rate :: float64
  xm_baseline_error_rate :: "float64 option"
  xm_graduated :: bool

section \<open>Segmentation\<close>

text \<open>\<open>document.rfind(sub, lo, hi)\<close>: the last position at which \<open>sub\<close> lies within the slice.\<close>

definition rfind :: "string \<Rightarrow> string \<Rightarrow> nat \<Rightarrow> nat \<Rightarrow> int" where
  "rfind sub document lo hi =
    (case find (\<lambda>i. starts_with sub (drop i (take hi document))) (rev [lo..<hi + 1 - length sub]) of
       Some i \<Rightarrow> int i | None \<Rightarrow> - 1)"

definition segment_end :: "nat \<Rightarrow> string \<Rightarrow> nat \<Rightarrow> nat" where
  "segment_end max_chars document start =
    (let hard_end = min (start + max_chars) (length document) in
     if hard_end < length document then
       let minimum_boundary = start + max_chars div 2;
           paragraph = rfind [CHR 0x0A, CHR 0x0A] document minimum_boundary hard_end;
           line = rfind [CHR 0x0A] document minimum_boundary hard_end;
           sentence = rfind ''. '' document minimum_boundary hard_end;
           boundary = max (paragraph + 2) (max (line + 1) (sentence + 2))
       in if int minimum_boundary < boundary then nat boundary else hard_end
     else hard_end)"

text \<open>One iteration cuts the segment at \<open>start\<close>; a start that does not advance ends the loop with an
  error, so the distance to the end of the document is a measure.\<close>

function segment_loop ::
  "nat \<Rightarrow> nat \<Rightarrow> string \<Rightarrow> nat \<Rightarrow> document_segment list \<Rightarrow> string + document_segment list" where
  "segment_loop max_chars overlap document start segments =
    (if length document \<le> start then Inr segments
     else let last_pos = segment_end max_chars document start;
              segments1 = segments @ [\<lparr>seg_index = length segments, seg_start = start, seg_end = last_pos,
                seg_text = take (last_pos - start) (drop start document)\<rparr>]
          in if last_pos = length document then Inr segments1
             else if int last_pos - int overlap \<le> int start then Inl ''segmenter failed to advance''
             else segment_loop max_chars overlap document (last_pos - overlap) segments1)"
  by pat_completeness auto

termination
  by (relation "measure (\<lambda>(max_chars, overlap, document, start, segments). length document - start)") auto

definition segment_document :: "string \<Rightarrow> int \<Rightarrow> int \<Rightarrow> string + document_segment list" where
  "segment_document document max_chars overlap_chars =
    (if max_chars \<le> 0 then Inl ''segment size must be positive''
     else if overlap_chars < 0 \<or> max_chars < overlap_chars * 4
     then Inl ''segment overlap must be between 0% and 25%''
     else if document = [] then Inr []
     else segment_loop (nat max_chars) (nat overlap_chars) document 0 [])"

definition segment_manifest :: "hash \<Rightarrow> document_segment list \<Rightarrow> (string \<times> json) list list" where
  "segment_manifest sha256 segments = map (\<lambda>s.
     [(''index'', JInt (int (seg_index s))), (''start'', JInt (int (seg_start s))), (''end'', JInt (int (seg_end s))),
      (''sha256'', JStr (sha256 (seg_text s)))]) segments"

definition total_tokens :: "int option list \<Rightarrow> int option" where
  "total_tokens values =
    (let present = concat (map (\<lambda>v. case v of None \<Rightarrow> [] | Some n \<Rightarrow> [n]) values)
     in if present = [] then None else Some (sum_list present))"

section \<open>Grounding\<close>

text \<open>The numbers of a text: \<open>(?<!\w)[+-]?\d+(?:[.,:/-]\d+)*(?!\w)\<close>. A greedy match that ends inside a
  word gives up its groups one by one; digits cannot be given up, as the digit left behind would be
  a word character. \<open>group_ends\<close> lists the positions a match may end at, the longest first.\<close>

definition at_word_end :: "string \<Rightarrow> bool" where
  "at_word_end s = (case s of [] \<Rightarrow> True | c # _ \<Rightarrow> \<not> is_word c)"

fun group_ends :: "nat \<Rightarrow> nat \<Rightarrow> string \<Rightarrow> nat list" where
  "group_ends 0 k s = [k]"
| "group_ends (Suc fuel) k s =
    (case drop k s of
       c # d # t \<Rightarrow>
         if c \<in> set ''.,:/-'' \<and> is_digit d
         then group_ends fuel (k + 1 + length (takeWhile is_digit (d # t))) s @ [k] else [k]
     | _ \<Rightarrow> [k])"

definition number_length :: "string \<Rightarrow> nat option" where
  "number_length s =
    (let sign = (case s of c # _ \<Rightarrow> if c = CHR ''+'' \<or> c = CHR ''-'' then 1 else 0 | [] \<Rightarrow> 0);
         digits = length (takeWhile is_digit (drop sign s))
     in if digits = 0 then None
        else find (\<lambda>k. at_word_end (drop k s)) (group_ends (length s) (sign + digits) s))"

lemma group_ends_ge: "k \<in> set (group_ends fuel j s) \<Longrightarrow> j \<le> k"
proof (induction fuel arbitrary: j)
  case (Suc fuel)
  from Suc.prems show ?case
    by (auto dest: Suc.IH split: list.split_asm if_split_asm)
qed simp

lemma find_in: "find P xs = Some x \<Longrightarrow> x \<in> set xs"
  by (auto simp: find_Some_iff)

lemma number_length_pos:
  assumes "number_length s = Some k"
  shows "0 < k"
proof -
  from assms obtain sign digits where "0 < digits" "k \<in> set (group_ends (length s) (sign + digits) s)"
    by (auto simp: number_length_def Let_def dest: find_in split: if_split_asm)
  then show ?thesis by (auto dest: group_ends_ge)
qed

text \<open>All matches from left to right; \<open>after_word\<close> tells whether the character before is part of a word.\<close>

function number_tokens :: "bool \<Rightarrow> string \<Rightarrow> string list" where
  "number_tokens after_word s =
    (case s of
       [] \<Rightarrow> []
     | c # t \<Rightarrow>
        (case (if after_word then None else number_length (c # t)) of
           Some k \<Rightarrow> take k (c # t) # number_tokens True (drop k (c # t))
         | None \<Rightarrow> number_tokens (is_word c) t))"
  by pat_completeness auto

termination
  by (relation "measure (\<lambda>(_, s). length s)") (auto dest: number_length_pos split: if_splits)

declare number_tokens.simps [simp del] segment_loop.simps [simp del]

definition folded_in :: "string \<Rightarrow> string \<Rightarrow> bool" where
  "folded_in part quote = contains (casefold part) quote"

definition location_error :: "claim_location \<Rightarrow> string \<Rightarrow> string option" where
  "location_error l quote =
    (if \<not> folded_in (cl_name l) quote then Some ''Model returned a location not supported by its source quote''
     else if truthy (cl_unlocode l) \<and> \<not> folded_in (the (cl_unlocode l)) quote
     then Some ''Model returned a UN/LOCODE not supported by its source quote'' else None)"

definition quantity_error :: "string \<Rightarrow> claim_quantity \<Rightarrow> string option" where
  "quantity_error quote q =
    (if \<not> folded_in (cq_value q) quote then Some ''Model returned a quantity value not supported by its source quote''
     else if \<not> folded_in (cq_unit q) quote then Some ''Model returned a quantity unit not supported by its source quote''
     else None)"

fun first_error :: "('a \<Rightarrow> string option) \<Rightarrow> 'a list \<Rightarrow> string option" where
  "first_error f [] = None"
| "first_error f (x # xs) = (case f x of Some e \<Rightarrow> Some e | None \<Rightarrow> first_error f xs)"

definition claim_tokens :: "string \<Rightarrow> string list" where
  "claim_tokens text = remdups (filter (\<lambda>t. 3 \<le> length t \<and> t \<notin> set GROUNDING_STOPWORDS) (normalize_tokens text))"

definition required_overlap :: "nat \<Rightarrow> nat" where
  "required_overlap n = min n (max 2 ((n + 2) div 3))"

definition support_error :: "string \<Rightarrow> string \<Rightarrow> string option" where
  "support_error text quote =
    (let tokens = claim_tokens text; quote_tokens = alnum_runs [] quote in
     if tokens \<noteq> [] \<and> length (filter (\<lambda>t. t \<in> set quote_tokens) tokens) < required_overlap (length tokens)
     then Some ''Model claim is not materially supported by its source quote''
     else if list_ex (\<lambda>t. t \<in> set NEGATION_TERMS) tokens \<noteq> list_ex (\<lambda>t. t \<in> set NEGATION_TERMS) quote_tokens
     then Some ''Model changed negation polarity relative to its source quote''
     else None)"

definition grounding_error :: "string \<Rightarrow> extracted_claim \<Rightarrow> string option" where
  "grounding_error document c =
    (let quote = casefold (xc_source_sentence_quote c) in
     if \<not> contains (xc_source_sentence_quote c) document
     then Some ''Model returned a source quote not present in the document''
     else if truthy (xc_claimant c) \<and> \<not> folded_in (the (xc_claimant c)) quote
     then Some ''Model returned a claimant not supported by its source quote''
     else (case (case xc_location c of None \<Rightarrow> None | Some l \<Rightarrow> location_error l quote) of
       Some e \<Rightarrow> Some e
     | None \<Rightarrow>
        if \<not> set (number_tokens False (casefold (xc_text c))) \<subseteq> set (number_tokens False quote)
        then Some ''Model introduced a number not present in its source quote''
        else (case first_error (quantity_error quote) (xc_quantities c) of
            Some e \<Rightarrow> Some e
          | None \<Rightarrow> support_error (xc_text c) quote)))"

definition validate_output_grounding :: "extraction_output \<Rightarrow> string \<Rightarrow> extraction_exception + unit" where
  "validate_output_grounding output document =
    (case first_error (grounding_error document) (xo_claims output) of
       Some e \<Rightarrow> Inl (ClaimExtractionError e) | None \<Rightarrow> Inr ())"

section \<open>The provider\<close>

text \<open>The body is read chunk by chunk up to two million bytes.\<close>

fun bounded_body :: "string \<Rightarrow> string list \<Rightarrow> extraction_exception + string" where
  "bounded_body body [] = Inr body"
| "bounded_body body (chunk # chunks) =
    (if 2000000 < length (body @ chunk)
     then Inl (ClaimExtractionError ''Anthropic response exceeded the 2 MB safety limit'')
     else bounded_body (body @ chunk) chunks)"

definition optional_int :: "json \<Rightarrow> int option" where
  "optional_int v = (case v of JInt n \<Rightarrow> Some n | _ \<Rightarrow> None)"

text \<open>What \<open>extract\<close> makes of the parsed response; \<open>parse_output\<close> is the validation of the structured text.\<close>

definition usable_text :: "(string \<times> json) list \<Rightarrow> extraction_exception + string" where
  "usable_text payload =
    (if obj_get payload ''stop_reason'' = JStr ''max_tokens''
     then Inl (ClaimExtractionError ''Anthropic stopped without a usable result: max_tokens'')
     else if obj_get payload ''stop_reason'' = JStr ''refusal''
     then Inl (ClaimExtractionError ''Anthropic stopped without a usable result: refusal'')
     else (case obj_get payload ''content'' of
       JList [block] \<Rightarrow>
         (case block of
            JObj kvs \<Rightarrow>
              if obj_get kvs ''type'' \<noteq> JStr ''text''
              then Inl (ClaimExtractionError ''Anthropic returned a non-text structured result'')
              else (case obj_get kvs ''text'' of
                  JStr raw_text \<Rightarrow> Inr raw_text
                | _ \<Rightarrow> Inl (ClaimExtractionError ''Anthropic returned no structured text''))
          | _ \<Rightarrow> Inl (ClaimExtractionError ''Anthropic returned a non-text structured result''))
     | _ \<Rightarrow> Inl (ClaimExtractionError ''Anthropic returned an unexpected content envelope'')))"

definition provider_result_of ::
  "(string \<Rightarrow> extraction_output option) \<Rightarrow> (string \<times> json) list \<Rightarrow> extraction_exception + provider_result" where
  "provider_result_of parse_output payload =
    ebind (usable_text payload) (\<lambda>raw_text.
    case Option.bind (parse_output raw_text) make_extraction_output of
      None \<Rightarrow> Inl (ClaimExtractionError ''Anthropic output failed the extraction schema'')
    | Some out \<Rightarrow>
       let usage = (case obj_get payload ''usage'' of JObj kvs \<Rightarrow> kvs | _ \<Rightarrow> [])
       in Inr \<lparr>pvr_output = out, pvr_raw_text = raw_text,
            pvr_input_tokens = optional_int (obj_get usage ''input_tokens''),
            pvr_output_tokens = optional_int (obj_get usage ''output_tokens'')\<rparr>)"

definition anthropic_extract ::
  "(string \<Rightarrow> (string \<times> json) list option) \<Rightarrow> (string \<Rightarrow> extraction_output option) \<Rightarrow> string list \<Rightarrow>
    extraction_exception + provider_result" where
  "anthropic_extract json_loads parse_output chunks =
    ebind (bounded_body [] chunks) (\<lambda>body.
    case json_loads body of
      None \<Rightarrow> Inl (ClaimExtractionError ''Anthropic returned malformed JSON'')
    | Some payload \<Rightarrow> provider_result_of parse_output payload)"

section \<open>Eligible records\<close>

definition model_approved :: "instant \<Rightarrow> source_row \<Rightarrow> bool" where
  "model_approved db_now s \<longleftrightarrow> src_active s \<and>
     (case src_model_processing_approved_at s of None \<Rightarrow> False | Some t \<Rightarrow> t \<le> db_now) \<and>
     src_model_processing_approved_by s \<noteq> None"

definition extraction_run_of :: "desk \<Rightarrow> string \<Rightarrow> string \<Rightarrow> uid \<Rightarrow> extraction_run_row option" where
  "extraction_run_of dk prompt_version model_version record_id =
    find (\<lambda>r. exr_source_record_id r = record_id \<and> exr_prompt_version r = prompt_version \<and>
      exr_model_version r = model_version) (dk_extraction_runs dk)"

definition candidate_records :: "desk \<Rightarrow> instant \<Rightarrow> string \<Rightarrow> string \<Rightarrow> source_record_row list" where
  "candidate_records dk db_now model_version prompt_version =
    sort_key rec_fetched_at (filter (\<lambda>r.
      (case row_get src_id (rec_source_id r) (dk_sources dk) of None \<Rightarrow> False | Some s \<Rightarrow> model_approved db_now s) \<and>
      extraction_run_of dk prompt_version model_version (rec_id r) = None) (dk_records dk))"

definition eligible_source_records :: "desk \<Rightarrow> instant \<Rightarrow> string \<Rightarrow> string \<Rightarrow> nat \<Rightarrow> uid list" where
  "eligible_source_records dk db_now model_version prompt_version limit =
    take limit (map rec_id (filter (\<lambda>r. \<not> unsafe_scan (rec_security_scan r))
      (take (limit * 2) (candidate_records dk db_now model_version prompt_version))))"

section \<open>The run of a record\<close>

definition quantity_json :: "claim_quantity \<Rightarrow> (string \<times> json) list" where
  "quantity_json q = [(''value'', JStr (cq_value q)), (''unit'', JStr (cq_unit q)), (''what'', JStr (cq_what q))]"

definition location_json :: "claim_location \<Rightarrow> (string \<times> json) list" where
  "location_json l = [(''name'', JStr (cl_name l)), (''unlocode'', j_opt JStr (cl_unlocode l))]"

definition claim_json :: "datetime_codec \<Rightarrow> extracted_claim \<Rightarrow> (string \<times> json) list" where
  "claim_json codec c =
    [(''text'', JStr (xc_text c)), (''claimant'', j_opt JStr (xc_claimant c)),
     (''occurred_time'', j_opt (\<lambda>t. JStr (dtc_dump codec (Aware t))) (xc_occurred_time c)),
     (''location'', j_opt (\<lambda>l. JObj (location_json l)) (xc_location c)),
     (''quantities'', j_objs (map quantity_json (xc_quantities c))),
     (''hedging_language'', JBool (xc_hedging_language c)),
     (''source_sentence_quote'', JStr (xc_source_sentence_quote c))]"

definition claim_key :: "hash \<Rightarrow> datetime_codec \<Rightarrow> extracted_claim \<Rightarrow> string" where
  "claim_key sha256 codec c = sha256 (json_dumps (JObj (claim_json codec c)))"

text \<open>The loop over the segments: what was completed, up to where, and the exception that ended it. The
  results stay, whatever is rolled back.\<close>

type_synonym completed_results = "(document_segment \<times> provider_result) list"

fun extract_segments ::
  "extraction_provider \<Rightarrow> string \<Rightarrow> document_segment list \<Rightarrow> completed_results \<Rightarrow> nat \<Rightarrow>
    completed_results \<times> nat \<times> extraction_exception option" where
  "extract_segments provider prompt [] done_so_far reached = (done_so_far, reached, None)"
| "extract_segments provider prompt (s # segments) done_so_far reached =
    (case provider (length done_so_far) (seg_text s) prompt of
       Inl e \<Rightarrow> (done_so_far, reached, Some e)
     | Inr r \<Rightarrow>
        let done1 = done_so_far @ [(s, r)]; reached1 = max reached (seg_end s) in
        if xo_injection_suspected (pvr_output r) then (done1, reached1, None)
        else (case validate_output_grounding (pvr_output r) (seg_text s) of
            Inl e \<Rightarrow> (done1, reached1, Some e)
          | Inr _ \<Rightarrow> extract_segments provider prompt segments done1 reached1))"

text \<open>\<open>str.find\<close>.\<close>

fun str_find :: "string \<Rightarrow> string \<Rightarrow> nat option" where
  "str_find needle [] = (if needle = [] then Some 0 else None)"
| "str_find needle (c # s) =
    (if starts_with needle (c # s) then Some 0 else map_option Suc (str_find needle s))"

record located_claim =
  lcm_segment :: document_segment
  lcm_claim :: extracted_claim
  lcm_start :: nat
  lcm_end :: nat

fun collect_proposals ::
  "(extracted_claim \<Rightarrow> string) \<Rightarrow> string list \<Rightarrow> (document_segment \<times> extracted_claim) list \<Rightarrow>
    extraction_exception + located_claim list" where
  "collect_proposals key seen [] = Inr []"
| "collect_proposals key seen ((s, c) # rest) =
    (if key c \<in> set seen then collect_proposals key seen rest
     else (case str_find (xc_source_sentence_quote c) (seg_text s) of
         None \<Rightarrow> Inl (ClaimExtractionError ''Model returned a source quote not present in the document'')
       | Some i \<Rightarrow> ebind (collect_proposals key (key c # seen) rest) (\<lambda>ps.
           Inr (\<lparr>lcm_segment = s, lcm_claim = c, lcm_start = seg_start s + i,
             lcm_end = seg_start s + i + length (xc_source_sentence_quote c)\<rparr> # ps))))"

definition claims_of :: "completed_results \<Rightarrow> (document_segment \<times> extracted_claim) list" where
  "claims_of results = concat (map (\<lambda>(s, r). map (Pair s) (xo_claims (pvr_output r))) results)"

definition proposal_row ::
  "uid \<Rightarrow> uid \<Rightarrow> uid \<Rightarrow> nat \<Rightarrow> located_claim \<Rightarrow> extraction_proposal_row" where
  "proposal_row i run_id record_id index p =
    (let c = lcm_claim p in
     \<lparr>exp_id = i, exp_run_id = run_id, exp_source_record_id = record_id, exp_proposal_index = int index,
      exp_text = xc_text c, exp_claimant = xc_claimant c, exp_occurred_time = xc_occurred_time c,
      exp_location_json = map_option location_json (xc_location c),
      exp_quantities_json = map quantity_json (xc_quantities c), exp_hedging_language = xc_hedging_language c,
      exp_source_sentence_quote = xc_source_sentence_quote c, exp_source_start = int (lcm_start p),
      exp_source_end = int (lcm_end p), exp_segment_index = int (seg_index (lcm_segment p)), exp_status = XP_PENDING\<rparr>)"

definition proposal_rows :: "uid \<Rightarrow> uid \<Rightarrow> uid \<Rightarrow> located_claim list \<Rightarrow> extraction_proposal_row list" where
  "proposal_rows next_id run_id record_id ps =
    map (\<lambda>k. proposal_row (next_id + k) run_id record_id k (ps ! k)) [0..<length ps]"

definition injection_alert :: "uid \<Rightarrow> instant \<Rightarrow> source_row \<Rightarrow> source_record_row \<Rightarrow> uid \<Rightarrow> desk_alert_row" where
  "injection_alert i clock s r run_id =
    \<lparr>dal_id = i, dal_source_id = Some (src_id s), dal_kind = DAK_SOURCE_QUARANTINE, dal_status = DAS_OPEN,
     dal_detected_at = clock, dal_notified_at = None, dal_resolved_at = None,
     dal_detail = [(''source_record_id'', j_uid (rec_id r)), (''claim_extraction_run_id'', j_uid run_id),
       (''reason'', JStr ''model_detected_prompt_injection'')], dal_notification_error = None\<rparr>"

text \<open>\<open>load_rules\<close> and \<open>load_prompt\<close> on the text of the files.\<close>

definition load_rules :: "extraction_rules \<Rightarrow> extraction_exception + extraction_rules" where
  "load_rules rules = (if valid_rules rules then Inr rules else Inl (OtherException ''ValidationError''))"

definition load_prompt :: "extraction_settings \<Rightarrow> extraction_exception + string" where
  "load_prompt cfg =
    (let prompt = py_strip (xs_prompt cfg) in
     if prompt = [] then Inl (ClaimExtractionError ''claim extraction prompt is empty'') else Inr prompt)"

text \<open>The checks of record and source, in the order of the code.\<close>

definition processable_source ::
  "desk \<Rightarrow> instant \<Rightarrow> uid \<Rightarrow> extraction_exception + (source_record_row \<times> source_row)" where
  "processable_source dk now record_id =
    (case row_get rec_id record_id (dk_records dk) of
       None \<Rightarrow> Inl (NotFound ''Source record not found'')
     | Some r \<Rightarrow>
        (case row_get src_id (rec_source_id r) (dk_sources dk) of
           None \<Rightarrow> Inl (NotFound ''Source record not found'')
         | Some s \<Rightarrow>
            if \<not> src_active s then Inl (ClaimExtractionError ''Source is inactive'')
            else if src_model_processing_approved_at s = None \<or> \<not> truthy (src_model_processing_approved_by s)
            then Inl (ClaimExtractionError ''Source is not approved for model processing'')
            else if now < the (src_model_processing_approved_at s)
            then Inl (ClaimExtractionError ''Source model-processing approval is not yet effective'')
            else if unsafe_scan (rec_security_scan r)
            then Inl (ClaimExtractionError ''Quarantined source records cannot be processed'')
            else if py_strip (rec_extracted_text r) = []
            then Inl (ClaimExtractionError ''Source record has no extracted text'')
            else Inr (r, s)))"

definition request_canonical ::
  "hash \<Rightarrow> extraction_settings \<Rightarrow> string \<Rightarrow> string \<Rightarrow> document_segment list \<Rightarrow> json" where
  "request_canonical sha256 cfg prompt document segments = JObj
    [(''document_sha256'', JStr (sha256 document)), (''document_char_count'', JInt (int (length document))),
     (''model'', JStr (xs_model cfg)), (''prompt'', JStr prompt), (''prompt_version'', JStr PROMPT_VERSION),
     (''segmentation_version'', JStr SEGMENTATION_VERSION), (''segments'', j_objs (segment_manifest sha256 segments))]"

definition new_run ::
  "hash \<Rightarrow> extraction_settings \<Rightarrow> extraction_rules \<Rightarrow> string \<Rightarrow> uid \<Rightarrow> instant \<Rightarrow> source_record_row \<Rightarrow> source_row \<Rightarrow>
    document_segment list \<Rightarrow> extraction_run_row" where
  "new_run sha256 cfg rules prompt i now r s segments =
    \<lparr>exr_id = i, exr_source_record_id = rec_id r, exr_prompt_version = PROMPT_VERSION, exr_model_version = xs_model cfg,
     exr_language = casefold (if truthy (rec_lang r) then the (rec_lang r) else src_language s),
     exr_mode = xru_mode rules, exr_status = XR_RUNNING, exr_started_at = now, exr_finished_at = None,
     exr_request_hash = sha256 (json_dumps (request_canonical sha256 cfg prompt (rec_extracted_text r) segments)),
     exr_response_hash = None, exr_input_tokens = None, exr_output_tokens = None,
     exr_document_char_count = int (length (rec_extracted_text r)), exr_processed_char_count = 0,
     exr_segment_count = int (length segments), exr_segment_manifest_json = segment_manifest sha256 segments,
     exr_coverage_complete = False, exr_injection_suspected = False, exr_error_type = None, exr_error_message = None\<rparr>"

definition put_run :: "desk \<Rightarrow> extraction_run_row \<Rightarrow> desk" where
  "put_run dk run = dk\<lparr>dk_extraction_runs := row_upd exr_id (exr_id run) (\<lambda>_. run) (dk_extraction_runs dk)\<rparr>"

definition skip_long_document ::
  "extraction_settings \<Rightarrow> desk \<Rightarrow> instant \<Rightarrow> instant \<Rightarrow> extraction_run_row \<Rightarrow> desk \<times> extraction_run_row" where
  "skip_long_document cfg dk clock db_now run =
    (let run1 = run\<lparr>exr_status := XR_SKIPPED, exr_finished_at := Some clock,
           exr_error_type := Some ''DocumentSegmentLimitExceeded'',
           exr_error_message := Some (''Document requires '' @ digits_of (nat (exr_segment_count run)) @
             '' segments; configured maximum is '' @ digits_of (xs_max_segments cfg))\<rparr>
     in (log_audit (put_run dk run1) WORKER ''claim_extraction.skipped'' ''claim_extraction_run'' (exr_id run)
           [(''reason'', JStr ''DocumentSegmentLimitExceeded''), (''document_char_count'', JInt (exr_document_char_count run)),
            (''segment_count'', JInt (exr_segment_count run)), (''coverage_complete'', JBool False)] db_now, run1))"

text \<open>The results of the calls written into the run; \<open>reached\<close> is the position the calls got to.\<close>

definition response_digest :: "hash \<Rightarrow> completed_results \<Rightarrow> string" where
  "response_digest sha256 results = sha256 (json_dumps (j_strs (map (\<lambda>(_, r). pvr_raw_text r) results)))"

definition with_tokens :: "completed_results \<Rightarrow> extraction_run_row \<Rightarrow> extraction_run_row" where
  "with_tokens results run = run\<lparr>exr_input_tokens := total_tokens (map (\<lambda>(_, r). pvr_input_tokens r) results),
     exr_output_tokens := total_tokens (map (\<lambda>(_, r). pvr_output_tokens r) results)\<rparr>"

definition answered_run ::
  "hash \<Rightarrow> completed_results \<Rightarrow> nat \<Rightarrow> instant \<Rightarrow> extraction_run_row \<Rightarrow> extraction_run_row" where
  "answered_run sha256 results reached clock run =
    (with_tokens results run)\<lparr>exr_response_hash := Some (response_digest sha256 results),
       exr_processed_char_count := int reached,
       exr_coverage_complete := exr_document_char_count run \<le> int reached,
       exr_injection_suspected := list_ex (\<lambda>(_, r). xo_injection_suspected (pvr_output r)) results,
       exr_finished_at := Some clock\<rparr>"

definition completed_audit :: "extraction_run_row \<Rightarrow> nat \<Rightarrow> (string \<times> json) list" where
  "completed_audit run proposal_count =
    [(''model_version'', JStr (exr_model_version run)), (''prompt_version'', JStr (exr_prompt_version run)),
     (''mode'', JStr (exr_mode run)), (''status'', JStr (claim_extraction_run_status_value (exr_status run))),
     (''claim_count'', JInt (int proposal_count)), (''injection_suspected'', JBool (exr_injection_suspected run)),
     (''request_hash'', JStr (exr_request_hash run)), (''response_hash'', j_opt JStr (exr_response_hash run)),
     (''document_char_count'', JInt (exr_document_char_count run)),
     (''processed_char_count'', JInt (exr_processed_char_count run)), (''segment_count'', JInt (exr_segment_count run)),
     (''coverage_complete'', JBool (exr_coverage_complete run)), (''segmentation_version'', JStr SEGMENTATION_VERSION)]"

definition complete_run ::
  "hash \<Rightarrow> datetime_codec \<Rightarrow> extraction_settings \<Rightarrow> desk \<Rightarrow> instant \<Rightarrow> instant \<Rightarrow> source_record_row \<Rightarrow> source_row \<Rightarrow>
    extraction_run_row \<Rightarrow> completed_results \<Rightarrow> nat \<Rightarrow> extraction_exception + (desk \<times> extraction_run_row)" where
  "complete_run sha256 codec cfg dk clock db_now r s run results reached =
    (let run1 = answered_run sha256 results reached clock run in
     if exr_injection_suspected run1 then
       let run2 = run1\<lparr>exr_status := XR_SKIPPED\<rparr>;
           dk1 = (put_run dk run2)\<lparr>dk_desk_alerts := dk_desk_alerts dk @ [injection_alert (dk_next dk) clock s r (exr_id run)],
             dk_next := dk_next dk + 1\<rparr>
       in Inr (log_audit dk1 WORKER ''claim_extraction.completed'' ''claim_extraction_run'' (exr_id run)
            (completed_audit run2 0) db_now, run2)
     else if \<not> exr_coverage_complete run1
     then Inl (ClaimExtractionError ''Claim extraction ended before document coverage completed'')
     else ebind (collect_proposals (claim_key sha256 codec) [] (claims_of results)) (\<lambda>ps.
       if xs_max_proposals cfg < length ps
       then Inl (ClaimExtractionError ''Claim extraction exceeded the configured proposal limit'')
       else let run2 = run1\<lparr>exr_status := XR_SUCCEEDED\<rparr>;
            dk1 = (put_run dk run2)\<lparr>dk_extraction_proposals := dk_extraction_proposals dk @
                proposal_rows (dk_next dk) (exr_id run) (rec_id r) ps, dk_next := dk_next dk + length ps\<rparr>
          in Inr (log_audit dk1 WORKER ''claim_extraction.completed'' ''claim_extraction_run'' (exr_id run)
               (completed_audit run2 (length ps)) db_now, run2)))"

definition fail_run ::
  "hash \<Rightarrow> desk \<Rightarrow> instant \<Rightarrow> instant \<Rightarrow> extraction_run_row \<Rightarrow> completed_results \<Rightarrow> nat \<Rightarrow> extraction_exception \<Rightarrow>
    desk \<times> extraction_run_row" where
  "fail_run sha256 dk clock db_now run results reached e =
    (let run1 = (with_tokens results run)\<lparr>exr_status := XR_FAILED, exr_finished_at := Some clock,
           exr_error_type := Some (take 255 (exception_name e)), exr_error_message := Some (safe_error_message e),
           exr_processed_char_count := int reached, exr_coverage_complete := False,
           exr_response_hash := (if results = [] then None else Some (response_digest sha256 results))\<rparr>
     in (log_audit (put_run dk run1) WORKER ''claim_extraction.failed'' ''claim_extraction_run'' (exr_id run)
           [(''model_version'', JStr (exr_model_version run)), (''prompt_version'', JStr (exr_prompt_version run)),
            (''error_type'', j_opt JStr (exr_error_type run1)),
            (''document_char_count'', JInt (exr_document_char_count run)),
            (''processed_char_count'', JInt (exr_processed_char_count run1)),
            (''segment_count'', JInt (exr_segment_count run)), (''coverage_complete'', JBool False)] db_now, run1))"

text \<open>The work on a stored run: an exception rolls back to the run as it was stored.\<close>

definition execute_run ::
  "hash \<Rightarrow> datetime_codec \<Rightarrow> extraction_provider \<Rightarrow> extraction_settings \<Rightarrow> string \<Rightarrow> desk \<Rightarrow> instant \<Rightarrow> instant \<Rightarrow>
    source_record_row \<Rightarrow> source_row \<Rightarrow> extraction_run_row \<Rightarrow> document_segment list \<Rightarrow> desk \<times> extraction_run_row" where
  "execute_run sha256 codec provider cfg prompt dk clock db_now r s run segments =
    (case extract_segments provider prompt segments [] 0 of
       (results, reached, Some e) \<Rightarrow> fail_run sha256 dk clock db_now run results reached e
     | (results, reached, None) \<Rightarrow>
        (case complete_run sha256 codec cfg dk clock db_now r s run results reached of
           Inl e \<Rightarrow> fail_run sha256 dk clock db_now run results reached e
         | Inr out \<Rightarrow> out))"

definition process_source_record ::
  "hash \<Rightarrow> datetime_codec \<Rightarrow> extraction_provider \<Rightarrow> extraction_settings \<Rightarrow> extraction_rules \<Rightarrow> desk \<Rightarrow> instant \<Rightarrow>
    instant \<Rightarrow> instant \<Rightarrow> uid \<Rightarrow> extraction_exception + (desk \<times> extraction_run_row)" where
  "process_source_record sha256 codec provider cfg rules_file dk now clock db_now record_id =
    ebind (load_rules rules_file) (\<lambda>rules.
    ebind (load_prompt cfg) (\<lambda>prompt.
    if xru_prompt_version rules \<noteq> PROMPT_VERSION
    then Inl (ClaimExtractionError ''rules and implementation prompt versions differ'')
    else (case extraction_run_of dk PROMPT_VERSION (xs_model cfg) record_id of
       Some existing \<Rightarrow> Inr (dk, existing)
     | None \<Rightarrow>
        ebind (processable_source dk now record_id) (\<lambda>(r, s).
        case segment_document (rec_extracted_text r) (xs_max_chars cfg) (xs_overlap_chars cfg) of
          Inl message \<Rightarrow> Inl (ClaimExtractionError message)
        | Inr segments \<Rightarrow>
           let run = new_run sha256 cfg rules prompt (dk_next dk) now r s segments;
               dk1 = dk\<lparr>dk_extraction_runs := dk_extraction_runs dk @ [run], dk_next := dk_next dk + 1\<rparr>
           in if xs_max_segments cfg < length segments
              then Inr (skip_long_document cfg dk1 clock db_now run)
              else Inr (execute_run sha256 codec provider cfg prompt dk1 clock db_now r s run segments)))))"

section \<open>Graduation\<close>

definition evaluation_version :: "hash \<Rightarrow> string \<Rightarrow> string \<Rightarrow> string" where
  "evaluation_version sha256 prompt_version model_version =
    take 64 (prompt_version @ '':'' @ take 16 (sha256 model_version))"

text \<open>The latest evaluation decides; among equally late ones the first stored is taken.\<close>

definition latest_graduation :: "hash \<Rightarrow> desk \<Rightarrow> string \<Rightarrow> string \<Rightarrow> string \<Rightarrow> bool" where
  "latest_graduation sha256 dk language prompt_version model_version =
    (case max_row pev_evaluated_at (filter (\<lambda>e. pev_component e = COMPONENT \<and>
        pev_component_version e = evaluation_version sha256 prompt_version model_version \<and> pev_language e = language)
        (dk_evaluations dk)) of
       None \<Rightarrow> False | Some e \<Rightarrow> pev_graduated e)"

section \<open>Human review\<close>

definition normalized_codes :: "string list \<Rightarrow> extraction_exception + string list" where
  "normalized_codes codes =
    (let normalized = map py_strip codes in
     if 20 < length codes then Inl (ClaimExtractionError ''No more than 20 reason codes are allowed'')
     else if list_ex (\<lambda>c. c = [] \<or> 64 < length c) normalized
     then Inl (ClaimExtractionError ''Reason codes must be non-empty and no longer than 64 characters'')
     else if \<not> distinct normalized then Inl (ClaimExtractionError ''Reason codes must be unique'')
     else Inr (sort normalized))"

record review_input =
  rvi_decision :: claim_extraction_decision
  rvi_reviewer :: string
  rvi_event_id :: "uid option"
  rvi_claim_state :: "claim_state option"
  rvi_edited_claim :: "extracted_claim option"
  rvi_reason_codes :: "string list"
  rvi_note :: "string option"
  rvi_baseline_seconds :: int
  rvi_review_seconds :: int

definition review_input_error :: "review_input \<Rightarrow> string list \<Rightarrow> string option" where
  "review_input_error x codes =
    (if rvi_baseline_seconds x \<le> 0 \<or> rvi_review_seconds x \<le> 0 then Some ''Review timings must be positive''
     else if rvi_decision x \<in> {XD_EDIT, XD_REJECT} \<and> codes = []
     then Some ''Edited and rejected proposals require a reason code''
     else if rvi_decision x \<in> {XD_ACCEPT, XD_EDIT} \<and> (rvi_event_id x = None \<or> rvi_claim_state x = None)
     then Some ''Accepted and edited proposals require an event and claim state''
     else if rvi_decision x = XD_EDIT \<and> rvi_edited_claim x = None then Some ''Edited proposals require final claim content''
     else if rvi_decision x \<noteq> XD_EDIT \<and> rvi_edited_claim x \<noteq> None
     then Some ''Only edited proposals may supply final claim content''
     else None)"

text \<open>The proposal under review and its run, with the checks on the stored rows.\<close>

definition reviewable ::
  "desk \<Rightarrow> uid \<Rightarrow> review_input \<Rightarrow> extraction_exception + (extraction_proposal_row \<times> extraction_run_row)" where
  "reviewable dk proposal_id x =
    (case row_get exp_id proposal_id (dk_extraction_proposals dk) of
       None \<Rightarrow> Inl (NotFound ''Claim extraction proposal not found'')
     | Some p \<Rightarrow>
        if exp_status p \<noteq> XP_PENDING
        then Inl (ClaimExtractionError (''Claim proposal is already '' @
          claim_extraction_proposal_status_value (exp_status p)))
        else (case row_get exr_id (exp_run_id p) (dk_extraction_runs dk) of
          None \<Rightarrow> Inl (ClaimExtractionError ''Claim proposal does not belong to a successful extraction run'')
        | Some run \<Rightarrow>
           if exr_status run \<noteq> XR_SUCCEEDED
           then Inl (ClaimExtractionError ''Claim proposal does not belong to a successful extraction run'')
           else if rvi_event_id x \<noteq> None \<and> get_opt evn_id (rvi_event_id x) (dk_events dk) = None
           then Inl (NotFound ''Event not found'')
           else (case rvi_edited_claim x of
             None \<Rightarrow> Inr (p, run)
           | Some c \<Rightarrow>
              (case row_get rec_id (exp_source_record_id p) (dk_records dk) of
                 None \<Rightarrow> Inl (ClaimExtractionError ''The proposal source record no longer exists'')
               | Some r \<Rightarrow>
                  if \<not> contains (xc_source_sentence_quote c) (rec_extracted_text r)
                  then Inl (ClaimExtractionError ''Edited source quote is not present in the source record'')
                  else Inr (p, run)))))"

definition accepted_json :: "extraction_proposal_row \<Rightarrow> (string \<times> json) list" where
  "accepted_json p =
    [(''text'', JStr (exp_text p)), (''claimant'', j_opt JStr (exp_claimant p)),
     (''occurred_time'', j_opt j_time (exp_occurred_time p)), (''location'', j_opt JObj (exp_location_json p)),
     (''quantities'', j_objs (exp_quantities_json p)), (''hedging_language'', JBool (exp_hedging_language p)),
     (''source_sentence_quote'', JStr (exp_source_sentence_quote p))]"

definition final_claim :: "datetime_codec \<Rightarrow> review_input \<Rightarrow> extraction_proposal_row \<Rightarrow> (string \<times> json) list option" where
  "final_claim codec x p =
    (case rvi_edited_claim x of
       Some c \<Rightarrow> Some (claim_json codec c)
     | None \<Rightarrow> if rvi_decision x = XD_ACCEPT then Some (accepted_json p) else None)"

primrec decided_status :: "claim_extraction_decision \<Rightarrow> claim_extraction_proposal_status" where
  "decided_status XD_ACCEPT = XP_ACCEPTED"
| "decided_status XD_EDIT = XP_EDITED"
| "decided_status XD_REJECT = XP_REJECTED"

definition effective_mode :: "extraction_run_row \<Rightarrow> extraction_rules \<Rightarrow> string" where
  "effective_mode run rules =
    (if exr_mode run = ''production'' \<and> xru_mode rules = ''production'' then ''production'' else ''shadow'')"

text \<open>The claim a production review creates from the final content; a time that does not parse is an error.\<close>

definition object_list :: "json \<Rightarrow> extraction_exception + (string \<times> json) list list" where
  "object_list v = (case v of JList xs \<Rightarrow> Inr (map (\<lambda>x. case x of JObj kvs \<Rightarrow> kvs | _ \<Rightarrow> []) xs)
     | _ \<Rightarrow> Inl (ClaimExtractionError ''Final claim quantities must be a list''))"

definition occurred_of :: "isoparser \<Rightarrow> json \<Rightarrow> extraction_exception + instant option" where
  "occurred_of fromiso v = (case v of
       JStr t \<Rightarrow> (case fromiso t of None \<Rightarrow> Inl (OtherException ''ValueError'') | Some d \<Rightarrow> Inr (Some (as_utc d)))
     | _ \<Rightarrow> Inr None)"

definition json_text :: "json \<Rightarrow> string" where
  "json_text v = (case v of JStr s \<Rightarrow> s | _ \<Rightarrow> [])"

definition claim_from ::
  "isoparser \<Rightarrow> uid \<Rightarrow> uid \<Rightarrow> claim_state \<Rightarrow> (string \<times> json) list \<Rightarrow> string \<Rightarrow> string \<Rightarrow> instant \<Rightarrow>
    extraction_exception + claim_row" where
  "claim_from fromiso i event_id state content model_version reviewer reviewed_at =
    ebind (object_list (obj_get content ''quantities'')) (\<lambda>quantities.
    ebind (occurred_of fromiso (obj_get content ''occurred_time'')) (\<lambda>occurred.
    Inr \<lparr>clm_id = i, clm_event_id = event_id, clm_text = json_text (obj_get content ''text''),
      clm_claimant = (if json_true (obj_get content ''claimant'') then Some (json_text (obj_get content ''claimant'')) else None),
      clm_claim_state = state, clm_occurred_at = occurred, clm_geo = None, clm_quantity_json = quantities,
      clm_proposed_by = ''model:'' @ model_version, clm_reviewed_by = Some reviewer, clm_second_reviewed_by = None,
      clm_second_review_approval_id = None, clm_reviewed_at = Some reviewed_at, clm_sensitivity_flags = [],
      clm_first_seen_at = reviewed_at\<rparr>))"

definition resulting_claim ::
  "hash \<Rightarrow> isoparser \<Rightarrow> datetime_codec \<Rightarrow> extraction_rules \<Rightarrow> desk \<Rightarrow> instant \<Rightarrow> review_input \<Rightarrow> string \<Rightarrow> extraction_proposal_row \<Rightarrow>
    extraction_run_row \<Rightarrow> extraction_exception + (desk \<times> uid option)" where
  "resulting_claim sha256 fromiso codec rules dk now x reviewer p run =
    (if rvi_decision x = XD_REJECT \<or> effective_mode run rules \<noteq> ''production'' then Inr (dk, None)
     else if \<not> latest_graduation sha256 dk (exr_language run) (exr_prompt_version run) (exr_model_version run)
     then Inl (ClaimExtractionError ''This language and prompt have not graduated from shadow mode'')
     else (case (final_claim codec x p, rvi_event_id x, rvi_claim_state x) of
       (Some content, Some event_id, Some state) \<Rightarrow>
         ebind (claim_from fromiso (dk_next dk) event_id state content (exr_model_version run) reviewer now) (\<lambda>c.
         Inr (dk\<lparr>dk_claims := dk_claims dk @ [c], dk_next := dk_next dk + 1\<rparr>, Some (clm_id c)))
     | _ \<Rightarrow> Inl (OtherException ''AssertionError'')))"

definition review_proposal ::
  "hash \<Rightarrow> isoparser \<Rightarrow> datetime_codec \<Rightarrow> extraction_rules \<Rightarrow> desk \<Rightarrow> instant \<Rightarrow> instant \<Rightarrow> uid \<Rightarrow> review_input \<Rightarrow>
    extraction_exception + (desk \<times> extraction_review_row)" where
  "review_proposal sha256 fromiso codec rules_file dk now db_now proposal_id x =
    (let reviewer = py_strip (rvi_reviewer x) in
     if \<not> length_within 2 255 reviewer
     then Inl (ClaimExtractionError ''Reviewer name must be between 2 and 255 characters'')
     else if is_model reviewer then Inl (ClaimExtractionError ''A model cannot review a claim proposal'')
     else ebind (normalized_codes (rvi_reason_codes x)) (\<lambda>codes.
     case review_input_error x codes of
       Some message \<Rightarrow> Inl (ClaimExtractionError message)
     | None \<Rightarrow>
        ebind (reviewable dk proposal_id x) (\<lambda>(p, run).
        ebind (load_rules rules_file) (\<lambda>rules.
        let dk0 = dk\<lparr>dk_extraction_proposals := row_upd exp_id proposal_id
              (\<lambda>p. p\<lparr>exp_status := decided_status (rvi_decision x)\<rparr>) (dk_extraction_proposals dk)\<rparr> in
        ebind (resulting_claim sha256 fromiso codec rules dk0 now x reviewer p run) (\<lambda>(dk1, claim_id).
        let review = \<lparr>exv_id = dk_next dk1, exv_proposal_id = proposal_id, exv_decision = rvi_decision x,
              exv_event_id = rvi_event_id x, exv_reviewer = reviewer, exv_claim_state = rvi_claim_state x,
              exv_final_claim_json = final_claim codec x p, exv_reason_codes = codes, exv_note = rvi_note x,
              exv_baseline_seconds = rvi_baseline_seconds x, exv_review_seconds = rvi_review_seconds x,
              exv_mode = effective_mode run rules, exv_resulting_claim_id = claim_id, exv_reviewed_at = now\<rparr>;
            dk2 = dk1\<lparr>dk_extraction_reviews := dk_extraction_reviews dk1 @ [review], dk_next := dk_next dk1 + 1\<rparr>
        in Inr (log_audit dk2 reviewer (''claim_extraction.proposal_'' @ claim_extraction_decision_value (rvi_decision x))
             ''claim_extraction_proposal'' proposal_id
             [(''review_id'', j_uid (exv_id review)), (''reason_codes'', j_strs codes),
              (''mode'', JStr (exv_mode review)), (''resulting_claim_id'', j_opt j_uid claim_id)] db_now, review))))))"

section \<open>Quality control\<close>

definition record_qa ::
  "desk \<Rightarrow> instant \<Rightarrow> instant \<Rightarrow> uid \<Rightarrow> string \<Rightarrow> bool \<Rightarrow> string list \<Rightarrow> string option \<Rightarrow>
    extraction_exception + (desk \<times> extraction_qa_row)" where
  "record_qa dk now db_now review_id evaluator_name error_found error_codes note =
    (let evaluator = py_strip evaluator_name in
     if \<not> length_within 2 255 evaluator
     then Inl (ClaimExtractionError ''QA evaluator name must be between 2 and 255 characters'')
     else if is_model evaluator then Inl (ClaimExtractionError ''A model cannot perform extraction QA'')
     else ebind (normalized_codes error_codes) (\<lambda>codes.
     if error_found \<noteq> (codes \<noteq> [])
     then Inl (ClaimExtractionError ''QA errors require codes, and clean QA cannot have error codes'')
     else (case row_get exv_id review_id (dk_extraction_reviews dk) of
       None \<Rightarrow> Inl (NotFound ''Claim extraction review not found'')
     | Some review \<Rightarrow>
        if casefold evaluator = casefold (py_strip (exv_reviewer review))
        then Inl (ClaimExtractionError ''Extraction QA must be performed by a different human'')
        else if list_ex (\<lambda>q. exq_review_id q = review_id) (dk_extraction_qa dk)
        then Inl (ClaimExtractionError ''This extraction review already has QA'')
        else let qa = \<lparr>exq_id = dk_next dk, exq_review_id = review_id, exq_evaluator = evaluator,
                 exq_error_found = error_found, exq_error_codes = codes, exq_note = note, exq_evaluated_at = now\<rparr>;
               dk1 = dk\<lparr>dk_extraction_qa := dk_extraction_qa dk @ [qa], dk_next := dk_next dk + 1\<rparr>
             in Inr (log_audit dk1 evaluator ''claim_extraction.qa_recorded'' ''claim_extraction_review'' review_id
                  [(''qa_id'', j_uid (exq_id qa)), (''error_found'', JBool error_found), (''error_codes'', j_strs codes)]
                  db_now, qa))))"

section \<open>Evaluation\<close>

text \<open>Reviews joined with the runs of their proposals.\<close>

definition reviews_with_runs :: "desk \<Rightarrow> (extraction_review_row \<times> extraction_run_row) list" where
  "reviews_with_runs dk = concat (map (\<lambda>v.
     case row_get exp_id (exv_proposal_id v) (dk_extraction_proposals dk) of
       None \<Rightarrow> []
     | Some p \<Rightarrow> (case row_get exr_id (exp_run_id p) (dk_extraction_runs dk) of None \<Rightarrow> [] | Some run \<Rightarrow> [(v, run)]))
     (dk_extraction_reviews dk))"

definition evaluated_reviews :: "desk \<Rightarrow> string \<Rightarrow> string \<Rightarrow> string \<Rightarrow> extraction_review_row list" where
  "evaluated_reviews dk language prompt_version model_version =
    map fst (filter (\<lambda>(_, run). exr_language run = casefold language \<and> exr_prompt_version run = prompt_version \<and>
      exr_model_version run = model_version) (reviews_with_runs dk))"

definition extraction_graduates :: "extraction_rules \<Rightarrow> extraction_metrics \<Rightarrow> bool" where
  "extraction_graduates rules m \<longleftrightarrow>
    xru_minimum_reviewed_per_language rules \<le> xm_reviewed m \<and> xru_minimum_qa_per_language rules \<le> xm_qa_reviewed m \<and>
    of_int (xru_minimum_shadow_days rules) \<le> xm_shadow_days m \<and>
    xru_minimum_time_reduction_percent rules \<le> xm_time_reduction_percent m \<and>
    (case xm_baseline_error_rate m of None \<Rightarrow> False | Some b \<Rightarrow> xm_error_rate m \<le> b)"

definition time_reduction :: "extraction_review_row list \<Rightarrow> float64" where
  "time_reduction reviews =
    max (- 1) (min 1 (fsub 1 (int_ratio (sum_list (map exv_review_seconds reviews))
      (sum_list (map exv_baseline_seconds reviews)))))"

definition extraction_metrics_of ::
  "extraction_rules \<Rightarrow> string \<Rightarrow> string \<Rightarrow> string \<Rightarrow> extraction_review_row list \<Rightarrow> extraction_qa_row list \<Rightarrow>
    extraction_metrics" where
  "extraction_metrics_of rules language prompt_version model_version reviews qas =
    (let times = map exv_reviewed_at reviews;
         m = \<lparr>xm_language = casefold language, xm_prompt_version = prompt_version, xm_model_version = model_version,
           xm_reviewed = length reviews, xm_qa_reviewed = length qas,
           xm_shadow_days = fdiv (total_seconds (Max (set times) - Min (set times))) 86400,
           xm_time_reduction_percent = fmul (time_reduction reviews) 100,
           xm_error_rate = int_ratio (int (length (filter exq_error_found qas))) (int (length qas)),
           xm_baseline_error_rate = (case map_of (xru_baseline_error_rate_by_language rules) (casefold language) of
              None \<Rightarrow> None | Some b \<Rightarrow> b),
           xm_graduated = False\<rparr>
     in m\<lparr>xm_graduated := extraction_graduates rules m\<rparr>)"

definition metrics_json :: "float_lib \<Rightarrow> extraction_metrics \<Rightarrow> (string \<times> json) list" where
  "metrics_json lib m =
    [(''language'', JStr (xm_language m)), (''prompt_version'', JStr (xm_prompt_version m)),
     (''model_version'', JStr (xm_model_version m)), (''reviewed'', JInt (int (xm_reviewed m))),
     (''qa_reviewed'', JInt (int (xm_qa_reviewed m))), (''shadow_days'', JFloat (lib_repr lib (xm_shadow_days m))),
     (''time_reduction_percent'', JFloat (lib_repr lib (xm_time_reduction_percent m))),
     (''error_rate'', JFloat (lib_repr lib (xm_error_rate m))),
     (''baseline_error_rate'', j_opt (\<lambda>b. JFloat (lib_repr lib b)) (xm_baseline_error_rate m)),
     (''graduated'', JBool (xm_graduated m))]"

definition evaluate_component ::
  "hash \<Rightarrow> float_lib \<Rightarrow> extraction_settings \<Rightarrow> extraction_rules \<Rightarrow> desk \<Rightarrow> instant \<Rightarrow> instant \<Rightarrow> string \<Rightarrow> string \<Rightarrow>
    extraction_exception + (desk \<times> evaluation_row \<times> extraction_metrics)" where
  "evaluate_component sha256 lib cfg rules_file dk now db_now language prompt_version =
    ebind (load_rules rules_file) (\<lambda>rules.
    let reviews = evaluated_reviews dk language prompt_version (xs_model cfg) in
    if reviews = [] then Inl (NotFound ''No extraction reviews for this language and prompt'')
    else let qas = filter (\<lambda>q. exq_review_id q \<in> set (map exv_id reviews)) (dk_extraction_qa dk);
        m = extraction_metrics_of rules language prompt_version (xs_model cfg) reviews qas;
        ev = \<lparr>pev_id = dk_next dk, pev_component = COMPONENT,
          pev_component_version = evaluation_version sha256 prompt_version (xs_model cfg),
          pev_language = casefold language, pev_metric_name = ''time_reduction_ratio'',
          pev_metric_value = time_reduction reviews, pev_sample_size = int (length reviews),
          pev_evaluated_at = now, pev_graduated = xm_graduated m\<rparr>;
        dk1 = dk\<lparr>dk_evaluations := dk_evaluations dk @ [ev], dk_next := dk_next dk + 1\<rparr>
      in Inr (log_audit dk1 ''claim-extraction-evaluator'' ''claim_extraction.component_evaluated'' ''pipeline_evaluation''
           (pev_id ev) (metrics_json lib m @ [(''rules_version'', JStr (xru_version rules))]) db_now, ev, m))"

section \<open>The reason report\<close>

text \<open>\<open>most_common\<close> sorts a counter by descending count and keeps the order of first occurrence among
  equals.\<close>

definition most_common :: "(string \<times> nat) list \<Rightarrow> (string \<times> nat) list" where
  "most_common counts = sort_key (\<lambda>(_, n). - int n) counts"

record reason_report =
  rrp_prompt_version :: string
  rrp_reviewed :: nat
  rrp_reason_codes :: "(string \<times> nat) list"
  rrp_decisions :: "(string \<times> nat) list"
  rrp_languages :: "(string \<times> nat) list"

definition weekly_reason_report :: "desk \<Rightarrow> string option \<Rightarrow> string \<Rightarrow> reason_report" where
  "weekly_reason_report dk language prompt_version =
    (let rows = filter (\<lambda>(_, run). exr_prompt_version run = prompt_version \<and>
           (truthy language \<longrightarrow> exr_language run = casefold (the language))) (reviews_with_runs dk)
     in \<lparr>rrp_prompt_version = prompt_version, rrp_reviewed = length rows,
         rrp_reason_codes = most_common (counter (concat (map (\<lambda>(v, _). exv_reason_codes v) rows))),
         rrp_decisions = counter (map (\<lambda>(v, _). claim_extraction_decision_value (exv_decision v)) rows),
         rrp_languages = counter (map (\<lambda>(_, run). exr_language run) rows)\<rparr>)"

end
