(* ===== verification/ClaimExtraction_Props.thy ===== *)
theory ClaimExtraction_Props
  imports ClaimExtraction DeskWork_Props
begin

text \<open>
  What the extraction of claims promises: segments cover the document, proposals quote it, failures leave
  nothing behind, and only a human turns a proposal into a claim.
\<close>

section \<open>Segments\<close>

lemma rfind_bounds:
  assumes "sub \<noteq> []"
  shows "rfind sub document lo hi + int (length sub) \<le> int hi \<or> rfind sub document lo hi = - 1"
  using assms by (auto simp: rfind_def split: option.split dest!: find_in)

lemma segment_end_bounds:
  assumes "start < length document" and "0 < m"
  shows "segment_end m document start \<le> length document" and "segment_end m document start \<le> start + m"
    and "start + m div 2 < segment_end m document start \<or> segment_end m document start = length document"
proof -
  define hard low where "hard = min (start + m) (length document)" and "low = start + m div 2"
  define x y z where "x = rfind [CHR 0x0A, CHR 0x0A] document low hard" and "y = rfind [CHR 0x0A] document low hard"
    and "z = rfind ''. '' document low hard"
  define b where "b = max (x + 2) (max (y + 1) (z + 2))"
  have "x + 2 \<le> int hard \<or> x = - 1" "y + 1 \<le> int hard \<or> y = - 1" "z + 2 \<le> int hard \<or> z = - 1"
    using rfind_bounds [of "[CHR 0x0A, CHR 0x0A]" document low hard] rfind_bounds [of "[CHR 0x0A]" document low hard]
      rfind_bounds [of "''. ''" document low hard] by (simp_all add: x_def y_def z_def)
  moreover have "1 \<le> hard" using assms by (simp add: hard_def)
  ultimately have b: "b \<le> int hard" unfolding b_def by linarith
  have e: "segment_end m document start = (if hard < length document \<and> int low < b then nat b else hard)"
    by (simp add: segment_end_def Let_def hard_def low_def b_def x_def y_def z_def)
  with b have "segment_end m document start \<le> hard" by (cases "hard < length document \<and> int low < b") simp_all
  then show "segment_end m document start \<le> length document" and "segment_end m document start \<le> start + m"
    by (simp_all add: hard_def)
  have low: "hard < length document \<Longrightarrow> low < hard" using assms(2) by (simp add: hard_def low_def)
  have "hard \<le> length document" by (simp add: hard_def)
  with e low show "start + m div 2 < segment_end m document start \<or> segment_end m document start = length document"
    unfolding low_def [symmetric] by (cases "hard < length document"; cases "int low < b") (simp_all add: zless_nat_eq_int_zless)
qed

text \<open>What a list of segments from a position on is.\<close>

fun tiles :: "nat \<Rightarrow> nat \<Rightarrow> string \<Rightarrow> nat \<Rightarrow> nat \<Rightarrow> document_segment list \<Rightarrow> bool" where
  "tiles m overlap document i start [] = False"
| "tiles m overlap document i start (s # segments) =
    (seg_index s = i \<and> seg_start s = start \<and> start < seg_end s \<and> seg_end s \<le> length document \<and> seg_end s \<le> start + m \<and>
     seg_text s = take (seg_end s - start) (drop start document) \<and>
     (if segments = [] then seg_end s = length document
      else start < seg_end s - overlap \<and> tiles m overlap document (Suc i) (seg_end s - overlap) segments))"

lemma segment_loop_tiles:
  assumes "start < length document" and "0 < m" and "overlap * 4 \<le> m"
  shows "\<exists>new. segment_loop m overlap document start segments = Inr (segments @ new) \<and>
    tiles m overlap document (length segments) start new"
  using assms
proof (induction m overlap document start segments rule: segment_loop.induct)
  case (1 m overlap document start segments)
  let ?e = "segment_end m document start"
  let ?s = "\<lparr>seg_index = length segments, seg_start = start, seg_end = ?e, seg_text = take (?e - start) (drop start document)\<rparr>"
  note b = segment_end_bounds [OF 1(2,3)]
  show ?case
  proof (cases "?e = length document")
    case True
    with 1(2-4) b show ?thesis by (auto simp: segment_loop.simps [of m] Let_def intro!: exI [of _ "[?s]"])
  next
    case False
    with b(3) have "start + m div 2 < ?e" by simp
    with 1(4) have adv: "start < ?e - overlap" by linarith
    with False b(1) have lt: "?e - overlap < length document" by linarith
    from False adv 1(2) have go: "\<not> length document \<le> start" "\<not> int ?e - int overlap \<le> int start" by simp_all
    from 1(1) [OF go(1) refl refl False go(2) lt 1(3,4)]
    obtain new where new: "segment_loop m overlap document (?e - overlap) (segments @ [?s]) = Inr ((segments @ [?s]) @ new)"
      "tiles m overlap document (length (segments @ [?s])) (?e - overlap) new" by blast
    then have "new \<noteq> []" by auto
    moreover have "segment_loop m overlap document start segments = segment_loop m overlap document (?e - overlap) (segments @ [?s])"
      using False go by (subst segment_loop.simps) (simp add: Let_def)
    ultimately show ?thesis using new adv b by (intro exI [of _ "?s # new"]) simp
  qed
qed

lemma tiles_slices:
  assumes "tiles m overlap document i start segments"
  shows "map seg_index segments = [i..<i + length segments]"
    and "\<forall>s \<in> set segments. seg_text s = take (seg_end s - seg_start s) (drop (seg_start s) document) \<and>
      seg_start s < seg_end s \<and> seg_end s \<le> length document \<and> seg_end s \<le> seg_start s + m"
  using assms
proof (induction segments arbitrary: i start)
  case (Cons s segments)
  case 1
  with Cons.IH(1) [of "Suc i" "seg_end s - overlap"] show ?case
    by (cases "segments = []") (simp_all add: upt_conv_Cons del: upt_Suc)
  case 2
  with Cons.IH(2) [of "Suc i" "seg_end s - overlap"] show ?case by (cases "segments = []") simp_all
qed simp_all

lemma slice_append: "a \<le> b \<Longrightarrow> take (b - a) (drop a xs) @ drop b xs = drop a xs"
  by (metis append_take_drop_id drop_drop le_add_diff_inverse2)

lemma tiles_rest:
  assumes "tiles m overlap document i start segments"
  shows "concat (map (\<lambda>s. drop overlap (seg_text s)) segments) = drop (start + overlap) document"
  using assms
proof (induction segments arbitrary: i start)
  case (Cons s segments)
  let ?e = "seg_end s"
  from Cons.prems have t: "drop overlap (seg_text s) = take (?e - (start + overlap)) (drop (start + overlap) document)"
    by (simp add: drop_take add.commute)
  show ?case
  proof (cases "segments = []")
    case True
    with t Cons.prems show ?thesis by simp
  next
    case False
    with Cons.prems have "start < ?e - overlap" "tiles m overlap document (Suc i) (?e - overlap) segments" by simp_all
    with Cons.IH [of "Suc i" "?e - overlap"] t slice_append [of "start + overlap" ?e document] show ?thesis by simp
  qed
qed simp

lemma tiles_whole:
  assumes "tiles m overlap document i start segments"
  shows "concat (map (\<lambda>s. drop (if seg_index s = i then 0 else overlap) (seg_text s)) segments) = drop start document"
proof (cases segments)
  case (Cons s rest)
  with tiles_slices(1) [OF assms] have "map seg_index rest = [Suc i..<i + length segments]"
    by (simp add: upt_conv_Cons del: upt_Suc)
  then have "\<forall>r \<in> set rest. seg_index r \<noteq> i"
    by (metis atLeastLessThan_iff imageI list.set_map not_less_eq_eq order_refl set_upt)
  then have c: "concat (map (\<lambda>s. drop (if seg_index s = i then 0 else overlap) (seg_text s)) rest) =
      concat (map (\<lambda>s. drop overlap (seg_text s)) rest)"
    by (intro arg_cong [of _ _ concat] map_cong) simp_all
  from assms Cons have s: "seg_index s = i" "seg_text s = take (seg_end s - start) (drop start document)" "start < seg_end s"
    by simp_all
  show ?thesis
  proof (cases "rest = []")
    case True
    with assms Cons s show ?thesis by simp
  next
    case False
    with assms Cons have "start < seg_end s - overlap" "tiles m overlap document (Suc i) (seg_end s - overlap) rest" by simp_all
    with tiles_rest [of m overlap document "Suc i" "seg_end s - overlap" rest] s c Cons slice_append [of start "seg_end s" document]
    show ?thesis by simp
  qed
qed (use assms in simp)

lemma segments_tile:
  assumes "0 < m" and "0 \<le> v" and "v * 4 \<le> m" and "document \<noteq> []"
  shows "\<exists>segments. segment_document document m v = Inr segments \<and> tiles (nat m) (nat v) document 0 0 segments"
proof -
  from assms have "nat v * 4 \<le> nat m" "0 < nat m" by linarith+
  with assms segment_loop_tiles [of 0 document "nat m" "nat v" "[]"] show ?thesis
    by (auto simp: segment_document_def)
qed

lemma segments_slices:
  assumes "segment_document document m v = Inr segments" and "s \<in> set segments"
  shows "seg_text s = take (seg_end s - seg_start s) (drop (seg_start s) document)"
proof -
  from assms have "0 < m" "0 \<le> v" "v * 4 \<le> m" "document \<noteq> []" by (auto simp: segment_document_def split: if_split_asm)
  from segments_tile [OF this] assms tiles_slices(2) show ?thesis by fastforce
qed

text \<open>C21: segmentation always succeeds under an overlap of at most a quarter, and loses nothing: the segments are
  numbered slices of the document of at most the given size, and the first one followed by what each
  further one adds after its overlap is the document again.\<close>

theorem segments_cover_document:
  assumes "0 < max_chars" and "0 \<le> overlap" and "overlap * 4 \<le> max_chars"
  shows "\<exists>segments. segment_document document max_chars overlap = Inr segments \<and>
    concat (map (\<lambda>s. drop (if seg_index s = 0 then 0 else nat overlap) (seg_text s)) segments) = document \<and>
    map seg_index segments = [0..<length segments] \<and>
    list_all (\<lambda>s. seg_text s = take (seg_end s - seg_start s) (drop (seg_start s) document) \<and> seg_text s \<noteq> [] \<and>
      int (length (seg_text s)) \<le> max_chars) segments"
proof (cases "document = []")
  case True
  with assms show ?thesis by (simp add: segment_document_def)
next
  case False
  then obtain segments where "segment_document document max_chars overlap = Inr segments"
    and t: "tiles (nat max_chars) (nat overlap) document 0 0 segments"
    using segments_tile [OF assms] by blast
  moreover have "seg_text s \<noteq> [] \<and> int (length (seg_text s)) \<le> max_chars" if "s \<in> set segments" for s
    using tiles_slices(2) [OF t] that assms(1) by fastforce
  ultimately show ?thesis
    using tiles_slices [OF t] tiles_whole [OF t] by (auto simp: list_all_iff)
qed

theorem segments_cover_document_witness:
  "\<exists>segments. segment_document ''One. Two. Three.'' 8 2 = Inr segments \<and> 1 < length segments \<and>
    concat (map (\<lambda>s. drop (if seg_index s = 0 then 0 else nat 2) (seg_text s)) segments) = ''One. Two. Three.''"
proof -
  have "(case segment_document ''One. Two. Three.'' 8 2 of Inl _ \<Rightarrow> False | Inr segments \<Rightarrow> 1 < length segments)"
    by code_simp
  with segments_cover_document [of 8 2 "''One. Two. Three.''"] show ?thesis by auto
qed

section \<open>Grounded proposals\<close>

lemma first_error_None: "first_error f xs = None \<longleftrightarrow> (\<forall>x \<in> set xs. f x = None)"
  by (induction xs) (auto split: option.split)

lemma grounding_None:
  assumes "grounding_error document c = None"
  shows "set (number_tokens False (casefold (xc_text c))) \<subseteq>
      set (number_tokens False (casefold (xc_source_sentence_quote c)))"
    and "truthy (xc_claimant c) \<Longrightarrow> contains (casefold (the (xc_claimant c))) (casefold (xc_source_sentence_quote c))"
  using assms by (auto simp: grounding_error_def Let_def folded_in_def split: if_split_asm option.split_asm)

lemma extract_segments_results:
  assumes "extract_segments provider prompt segments so_far n = (results, reached, None)"
  shows "\<exists>new. results = so_far @ new \<and> (\<forall>(s, r) \<in> set new. s \<in> set segments \<and>
    (xo_injection_suspected (pvr_output r) \<or> validate_output_grounding (pvr_output r) (seg_text s) = Inr ()))"
  using assms
proof (induction segments arbitrary: so_far n)
  case (Cons s segments)
  from Cons.prems obtain r where r: "provider (length so_far) (seg_text s) prompt = Inr r"
    by (auto split: sum.split_asm)
  show ?case
  proof (cases "xo_injection_suspected (pvr_output r)")
    case True
    with Cons.prems r show ?thesis by auto
  next
    case False
    with Cons.prems r have v: "validate_output_grounding (pvr_output r) (seg_text s) = Inr ()"
      and "extract_segments provider prompt segments (so_far @ [(s, r)]) (max n (seg_end s)) = (results, reached, None)"
      by (cases "validate_output_grounding (pvr_output r) (seg_text s)"; simp add: Let_def)+
    from Cons.IH [OF this(2)] v show ?thesis by auto
  qed
qed simp

lemma str_find_Some: "str_find needle s = Some i \<Longrightarrow> take (length needle) (drop i s) = needle"
  by (induction s arbitrary: i) (auto simp: starts_with_def split: if_split_asm)

lemma collect_proposals_from:
  assumes "collect_proposals key seen pairs = Inr ps" and "p \<in> set ps"
  shows "(lcm_segment p, lcm_claim p) \<in> set pairs \<and>
    (\<exists>i. str_find (xc_source_sentence_quote (lcm_claim p)) (seg_text (lcm_segment p)) = Some i \<and>
      lcm_start p = seg_start (lcm_segment p) + i \<and>
      lcm_end p = lcm_start p + length (xc_source_sentence_quote (lcm_claim p)))"
  using assms
proof (induction key seen pairs arbitrary: ps rule: collect_proposals.induct)
  case (2 key seen s c rest)
  show ?case
  proof (cases "key c \<in> set seen")
    case True
    with 2 show ?thesis by auto
  next
    case False
    with 2(3) obtain i qs where i: "str_find (xc_source_sentence_quote c) (seg_text s) = Some i"
      and qs: "collect_proposals key (key c # seen) rest = Inr qs"
      and ps: "ps = \<lparr>lcm_segment = s, lcm_claim = c, lcm_start = seg_start s + i,
        lcm_end = seg_start s + i + length (xc_source_sentence_quote c)\<rparr> # qs"
      by (auto simp: ebind_Inr split: option.split_asm)
    with 2(2) [OF False i qs] 2(4) show ?thesis by auto
  qed
qed simp

text \<open>A quotation found in a slice of the document is a slice of the document.\<close>

lemma quote_of_slice:
  assumes "str_find needle (take k (drop j document)) = Some i"
  shows "take (length needle) (drop (j + i) document) = needle"
proof -
  from str_find_Some [OF assms] have t: "take (length needle) (take (k - i) (drop (j + i) document)) = needle"
    by (simp add: drop_take add.commute)
  from t have "length needle = length (take (length needle) (take (k - i) (drop (j + i) document)))" by (rule sym [OF arg_cong])
  then have "length needle \<le> k - i" by simp
  with t show ?thesis by (simp add: min_absorb1)
qed

lemma log_audit_extraction [simp]:
  "dk_extraction_proposals (log_audit dk a b c i p t) = dk_extraction_proposals dk"
  "dk_extraction_runs (log_audit dk a b c i p t) = dk_extraction_runs dk"
  "dk_extraction_reviews (log_audit dk a b c i p t) = dk_extraction_reviews dk"
  by (simp_all add: log_audit_def)

lemma put_run_tables [simp]:
  "dk_extraction_proposals (put_run dk run) = dk_extraction_proposals dk"
  "dk_extraction_runs (put_run dk run) = row_upd exr_id (exr_id run) (\<lambda>_. run) (dk_extraction_runs dk)"
  by (simp_all add: put_run_def)

text \<open>A run keeps its identity whatever becomes of it.\<close>

definition same_run :: "extraction_run_row \<Rightarrow> extraction_run_row \<Rightarrow> bool" where
  "same_run run run' \<longleftrightarrow> exr_id run' = exr_id run \<and> exr_source_record_id run' = exr_source_record_id run \<and>
     exr_prompt_version run' = exr_prompt_version run \<and> exr_model_version run' = exr_model_version run"

lemma answered_same: "same_run run (answered_run sha256 results reached clock run)"
  by (simp add: same_run_def answered_run_def with_tokens_def)

lemma complete_run_outcome:
  assumes "complete_run sha256 codec cfg dk clock db_now r s run results reached = Inr (dk', run')"
  shows "same_run run run'" and "dk_extraction_runs dk' = row_upd exr_id (exr_id run) (\<lambda>_. run') (dk_extraction_runs dk)"
    and "exr_status run' = XR_SKIPPED \<and> dk_extraction_proposals dk' = dk_extraction_proposals dk \<or>
      exr_status run' = XR_SUCCEEDED \<and> exr_coverage_complete run' \<and> \<not> exr_injection_suspected run' \<and>
      (\<forall>(s, a) \<in> set results. \<not> xo_injection_suspected (pvr_output a)) \<and>
      (\<exists>ps. collect_proposals (claim_key sha256 codec) [] (claims_of results) = Inr ps \<and>
        dk_extraction_proposals dk' = dk_extraction_proposals dk @ proposal_rows (dk_next dk) (exr_id run) (rec_id r) ps)"
proof -
  let ?a = "answered_run sha256 results reached clock run"
  have i: "exr_id ?a = exr_id run" "exr_injection_suspected ?a \<longleftrightarrow> list_ex (\<lambda>(_, r). xo_injection_suspected (pvr_output r)) results"
    by (simp_all add: answered_run_def with_tokens_def)
  note same = answered_same [of run sha256 results reached clock, unfolded same_run_def]
  consider "exr_injection_suspected ?a" "run' = ?a\<lparr>exr_status := XR_SKIPPED\<rparr>"
      "dk_extraction_runs dk' = row_upd exr_id (exr_id run) (\<lambda>_. run') (dk_extraction_runs dk)"
      "dk_extraction_proposals dk' = dk_extraction_proposals dk"
    | ps where "\<not> exr_injection_suspected ?a" "exr_coverage_complete ?a" "run' = ?a\<lparr>exr_status := XR_SUCCEEDED\<rparr>"
      "collect_proposals (claim_key sha256 codec) [] (claims_of results) = Inr ps"
      "dk_extraction_runs dk' = row_upd exr_id (exr_id run) (\<lambda>_. run') (dk_extraction_runs dk)"
      "dk_extraction_proposals dk' = dk_extraction_proposals dk @ proposal_rows (dk_next dk) (exr_id run) (rec_id r) ps"
    using assms by (auto simp: complete_run_def Let_def ebind_Inr i(1) split: if_split_asm)
  note cases = this
  show "same_run run run'" using same by (cases rule: cases) (simp_all add: same_run_def)
  show "dk_extraction_runs dk' = row_upd exr_id (exr_id run) (\<lambda>_. run') (dk_extraction_runs dk)"
    by (cases rule: cases) simp_all
  show "exr_status run' = XR_SKIPPED \<and> dk_extraction_proposals dk' = dk_extraction_proposals dk \<or>
      exr_status run' = XR_SUCCEEDED \<and> exr_coverage_complete run' \<and> \<not> exr_injection_suspected run' \<and>
      (\<forall>(s, a) \<in> set results. \<not> xo_injection_suspected (pvr_output a)) \<and>
      (\<exists>ps. collect_proposals (claim_key sha256 codec) [] (claims_of results) = Inr ps \<and>
        dk_extraction_proposals dk' = dk_extraction_proposals dk @ proposal_rows (dk_next dk) (exr_id run) (rec_id r) ps)"
  proof (cases rule: cases)
    case (2 ps)
    then show ?thesis using i(2) by (auto simp: list_ex_iff)
  qed simp
qed

lemma fail_run_outcome:
  assumes "fail_run sha256 dk clock db_now run results reached e = (dk', run')"
  shows "same_run run run'" and "dk_extraction_runs dk' = row_upd exr_id (exr_id run) (\<lambda>_. run') (dk_extraction_runs dk)"
    and "exr_status run' = XR_FAILED" and "dk_extraction_proposals dk' = dk_extraction_proposals dk"
  using assms by (auto simp: fail_run_def Let_def same_run_def with_tokens_def)

definition open_run :: "desk \<Rightarrow> extraction_run_row \<Rightarrow> desk" where
  "open_run dk run = dk\<lparr>dk_extraction_runs := dk_extraction_runs dk @ [run], dk_next := dk_next dk + 1\<rparr>"

text \<open>What a stored proposal is worth, in terms of the document it was taken from.\<close>

definition grounded_in :: "string \<Rightarrow> extraction_proposal_row \<Rightarrow> bool" where
  "grounded_in document p \<longleftrightarrow>
     exp_source_sentence_quote p =
       take (nat (exp_source_end p - exp_source_start p)) (drop (nat (exp_source_start p)) document) \<and>
     set (number_tokens False (casefold (exp_text p))) \<subseteq>
       set (number_tokens False (casefold (exp_source_sentence_quote p))) \<and>
     (truthy (exp_claimant p) \<longrightarrow>
       contains (casefold (the (exp_claimant p))) (casefold (exp_source_sentence_quote p)))"

lemma collected_grounded:
  assumes "segment_document document m v = Inr segments" and "extract_segments provider prompt segments [] 0 = (results, n, None)"
    and "\<forall>(s, a) \<in> set results. \<not> xo_injection_suspected (pvr_output a)"
    and "collect_proposals key [] (claims_of results) = Inr ps" and "x \<in> set (proposal_rows k run_id record_id ps)"
  shows "grounded_in document x \<and> exp_run_id x = run_id \<and> exp_source_record_id x = record_id \<and> exp_status x = XP_PENDING"
proof -
  from assms(5) obtain j where j: "j < length ps" and x: "x = proposal_row (k + j) run_id record_id j (ps ! j)"
    by (auto simp: proposal_rows_def)
  define p where "p = ps ! j"
  with j have p: "p \<in> set ps" by simp
  from collect_proposals_from [OF assms(4) p] obtain i where "(lcm_segment p, lcm_claim p) \<in> set (claims_of results)"
    and i: "str_find (xc_source_sentence_quote (lcm_claim p)) (seg_text (lcm_segment p)) = Some i"
    and pos: "lcm_start p = seg_start (lcm_segment p) + i"
      "lcm_end p = lcm_start p + length (xc_source_sentence_quote (lcm_claim p))" by blast
  then obtain a where a: "(lcm_segment p, a) \<in> set results" "lcm_claim p \<in> set (xo_claims (pvr_output a))"
    by (auto simp: claims_of_def)
  from extract_segments_results [OF assms(2)] a assms(3)
  have s: "lcm_segment p \<in> set segments" and v: "validate_output_grounding (pvr_output a) (seg_text (lcm_segment p)) = Inr ()"
    by auto
  from v a(2) have g: "grounding_error (seg_text (lcm_segment p)) (lcm_claim p) = None"
    by (auto simp: validate_output_grounding_def first_error_None split: option.split_asm)
  from segments_slices [OF assms(1) s] have "seg_text (lcm_segment p) =
      take (seg_end (lcm_segment p) - seg_start (lcm_segment p)) (drop (seg_start (lcm_segment p)) document)"
    .
  with quote_of_slice i pos(1) have "take (length (xc_source_sentence_quote (lcm_claim p))) (drop (lcm_start p) document) =
      xc_source_sentence_quote (lcm_claim p)" by metis
  with grounding_None [OF g] pos(2) show ?thesis
    by (simp add: x proposal_row_def grounded_in_def Let_def flip: p_def)
qed

lemma find_put:
  assumes "find P xs = None" and "P x"
  shows "find P (row_upd key i (\<lambda>_. x) (xs @ [y])) = Some x \<or> key y \<noteq> i"
  using assms by (induction xs) (auto simp: row_upd_def split: if_split_asm)

lemma processable_Inr:
  assumes "processable_source dk now i = Inr (r, s)"
  shows "row_get rec_id i (dk_records dk) = Some r" and "row_get src_id (rec_source_id r) (dk_sources dk) = Some s"
    and "src_active s" and "\<exists>t. src_model_processing_approved_at s = Some t \<and> t \<le> now"
    and "truthy (src_model_processing_approved_by s)" and "\<not> unsafe_scan (rec_security_scan r)"
  using assms by (auto simp: processable_source_def split: option.split_asm if_split_asm)

lemma execute_run_outcome:
  assumes "segment_document document m v = Inr segments"
    and "execute_run sha256 codec provider cfg prompt dk clock db_now r s run segments = (dk', run')"
  shows "same_run run run' \<and> dk_extraction_runs dk' = row_upd exr_id (exr_id run) (\<lambda>_. run') (dk_extraction_runs dk) \<and>
    exr_status run' \<in> {XR_SUCCEEDED, XR_FAILED, XR_SKIPPED} \<and>
    (exr_status run' = XR_SUCCEEDED \<longrightarrow> exr_coverage_complete run' \<and> \<not> exr_injection_suspected run') \<and>
    (\<exists>ps. dk_extraction_proposals dk' = dk_extraction_proposals dk @ ps \<and> (exr_status run' \<noteq> XR_SUCCEEDED \<longrightarrow> ps = []) \<and>
      (\<forall>p \<in> set ps. grounded_in document p \<and> exp_run_id p = exr_id run \<and> exp_source_record_id p = rec_id r \<and>
        exp_status p = XP_PENDING))"
proof -
  obtain results n err where x: "extract_segments provider prompt segments [] 0 = (results, n, err)" by (metis prod.exhaust)
  have failed: ?thesis if "fail_run sha256 dk clock db_now run results n e = (dk', run')" for e
    using fail_run_outcome [OF that] by simp
  show ?thesis
  proof (cases err)
    case (Some e)
    with assms(2) x failed show ?thesis by (simp add: execute_run_def)
  next
    case None
    show ?thesis
    proof (cases "complete_run sha256 codec cfg dk clock db_now r s run results n")
      case (Inl e)
      with assms(2) x None failed show ?thesis by (simp add: execute_run_def)
    next
      case (Inr out)
      with assms(2) x None have c: "complete_run sha256 codec cfg dk clock db_now r s run results n = Inr (dk', run')"
        by (simp add: execute_run_def)
      note o = complete_run_outcome [OF c]
      from x None have x': "extract_segments provider prompt segments [] 0 = (results, n, None)" by simp
      from o(3) show ?thesis
      proof
        assume "exr_status run' = XR_SKIPPED \<and> dk_extraction_proposals dk' = dk_extraction_proposals dk"
        with o(1,2) show ?thesis by simp
      next
        assume a: "exr_status run' = XR_SUCCEEDED \<and> exr_coverage_complete run' \<and> \<not> exr_injection_suspected run' \<and>
          (\<forall>(s, a) \<in> set results. \<not> xo_injection_suspected (pvr_output a)) \<and>
          (\<exists>ps. collect_proposals (claim_key sha256 codec) [] (claims_of results) = Inr ps \<and>
            dk_extraction_proposals dk' = dk_extraction_proposals dk @ proposal_rows (dk_next dk) (exr_id run) (rec_id r) ps)"
        then obtain ps where "collect_proposals (claim_key sha256 codec) [] (claims_of results) = Inr ps"
          and ps: "dk_extraction_proposals dk' = dk_extraction_proposals dk @ proposal_rows (dk_next dk) (exr_id run) (rec_id r) ps"
          by blast
        from collected_grounded [OF assms(1) x' _ this(1)] a ps o(1,2) show ?thesis by simp
      qed
    qed
  qed
qed

lemma process_new_run:
  assumes "process_source_record sha256 codec provider cfg rules dk now clock db_now i = Inr (dk', run)"
    and "extraction_run_of dk PROMPT_VERSION (xs_model cfg) i = None"
  obtains prompt r s segments where "load_rules rules = Inr rules" "load_prompt cfg = Inr prompt"
    "xru_prompt_version rules = PROMPT_VERSION" "processable_source dk now i = Inr (r, s)"
    "segment_document (rec_extracted_text r) (xs_max_chars cfg) (xs_overlap_chars cfg) = Inr segments"
    "(if xs_max_segments cfg < length segments
       then skip_long_document cfg (open_run dk (new_run sha256 cfg rules prompt (dk_next dk) now r s segments)) clock db_now
         (new_run sha256 cfg rules prompt (dk_next dk) now r s segments)
       else execute_run sha256 codec provider cfg prompt
         (open_run dk (new_run sha256 cfg rules prompt (dk_next dk) now r s segments)) clock db_now r s
         (new_run sha256 cfg rules prompt (dk_next dk) now r s segments) segments) = (dk', run)"
proof -
  from assms obtain prompt r s where rules: "load_rules rules = Inr rules" "load_prompt cfg = Inr prompt"
      "xru_prompt_version rules = PROMPT_VERSION" and c: "processable_source dk now i = Inr (r, s)"
    by (auto simp: process_source_record_def ebind_Inr load_rules_def split: if_split_asm)
  show thesis
  proof (cases "segment_document (rec_extracted_text r) (xs_max_chars cfg) (xs_overlap_chars cfg)")
    case (Inl message)
    with assms rules c show thesis by (simp add: process_source_record_def)
  next
    case (Inr segments)
    with assms rules c have "(if xs_max_segments cfg < length segments
       then skip_long_document cfg (open_run dk (new_run sha256 cfg rules prompt (dk_next dk) now r s segments)) clock db_now
         (new_run sha256 cfg rules prompt (dk_next dk) now r s segments)
       else execute_run sha256 codec provider cfg prompt
         (open_run dk (new_run sha256 cfg rules prompt (dk_next dk) now r s segments)) clock db_now r s
         (new_run sha256 cfg rules prompt (dk_next dk) now r s segments) segments) = (dk', run)"
      by (auto simp: process_source_record_def Let_def open_run_def split: if_split_asm)
    with that rules c Inr show thesis by blast
  qed
qed

lemma extraction_of_safe:
  assumes "process_source_record sha256 codec provider cfg rules dk now clock db_now i = Inr (dk', run)"
    and "extraction_run_of dk PROMPT_VERSION (xs_model cfg) i = None"
  shows "\<exists>r. row_get rec_id i (dk_records dk) = Some r \<and> \<not> unsafe_scan (rec_security_scan r)"
  using process_new_run [OF assms] processable_Inr by metis

text \<open>A number glued to its unit is not compared: a claim may state another one than its quotation.\<close>

lemma glued_number_unseen:
  "number_tokens False ''a 300m vessel'' = []" "number_tokens False ''a 300 m vessel'' = [''300'']"
  by code_simp+

text \<open>C16: a record is extracted once per prompt version and model, from a source whose processing by a model
  is approved, and nothing of it is a proposal unless the whole run succeeded over the whole document:
  every stored proposal then quotes the document at the position it names, names no claimant the
  quotation does not contain, and every stand-alone number of its text is one of the quotation.
  Stand-alone is what the code's pattern finds: digits glued to letters (300m) are no number to it and are
  not compared.\<close>

theorem extraction_is_grounded:
  assumes "process_source_record sha256 codec provider cfg rules dk now clock db_now i = Inr (dk', run)"
    and "extraction_run_of dk PROMPT_VERSION (xs_model cfg) i = None"
  shows "\<exists>r s ps. row_get rec_id i (dk_records dk) = Some r \<and> row_get src_id (rec_source_id r) (dk_sources dk) = Some s \<and>
    src_active s \<and> (\<exists>t. src_model_processing_approved_at s = Some t \<and> t \<le> now) \<and> \<not> unsafe_scan (rec_security_scan r) \<and>
    exr_status run \<in> {XR_SUCCEEDED, XR_FAILED, XR_SKIPPED} \<and>
    (exr_status run = XR_SUCCEEDED \<longrightarrow> exr_coverage_complete run \<and> \<not> exr_injection_suspected run) \<and>
    dk_extraction_proposals dk' = dk_extraction_proposals dk @ ps \<and> (exr_status run \<noteq> XR_SUCCEEDED \<longrightarrow> ps = []) \<and>
    (\<forall>p \<in> set ps. exp_run_id p = exr_id run \<and> exp_status p = XP_PENDING \<and>
      exp_source_sentence_quote p =
        take (nat (exp_source_end p - exp_source_start p)) (drop (nat (exp_source_start p)) (rec_extracted_text r)) \<and>
      set (number_tokens False (casefold (exp_text p))) \<subseteq>
        set (number_tokens False (casefold (exp_source_sentence_quote p))) \<and>
      (truthy (exp_claimant p) \<longrightarrow>
        contains (casefold (the (exp_claimant p))) (casefold (exp_source_sentence_quote p)))) \<and>
    (\<forall>provider' later clock' db'. process_source_record sha256 codec provider' cfg rules dk' later clock' db' i = Inr (dk', run))"
proof -
  from process_new_run [OF assms] obtain prompt r s segments where rules: "load_rules rules = Inr rules"
      "load_prompt cfg = Inr prompt" "xru_prompt_version rules = PROMPT_VERSION"
    and c: "processable_source dk now i = Inr (r, s)"
    and seg: "segment_document (rec_extracted_text r) (xs_max_chars cfg) (xs_overlap_chars cfg) = Inr segments"
    and e: "(if xs_max_segments cfg < length segments
       then skip_long_document cfg (open_run dk (new_run sha256 cfg rules prompt (dk_next dk) now r s segments)) clock db_now
         (new_run sha256 cfg rules prompt (dk_next dk) now r s segments)
       else execute_run sha256 codec provider cfg prompt
         (open_run dk (new_run sha256 cfg rules prompt (dk_next dk) now r s segments)) clock db_now r s
         (new_run sha256 cfg rules prompt (dk_next dk) now r s segments) segments) = (dk', run)" .
  define run0 where "run0 = new_run sha256 cfg rules prompt (dk_next dk) now r s segments"
  define dk1 where "dk1 = open_run dk run0"
  note p = processable_Inr [OF c]
  have k: "rec_id r = i" using p(1) by (rule row_get_key)
  have run0: "exr_source_record_id run0 = i" "exr_prompt_version run0 = PROMPT_VERSION" "exr_model_version run0 = xs_model cfg"
    by (simp_all add: run0_def new_run_def k)
  have o: "same_run run0 run \<and> dk_extraction_runs dk' = row_upd exr_id (exr_id run0) (\<lambda>_. run) (dk_extraction_runs dk1) \<and>
    exr_status run \<in> {XR_SUCCEEDED, XR_FAILED, XR_SKIPPED} \<and>
    (exr_status run = XR_SUCCEEDED \<longrightarrow> exr_coverage_complete run \<and> \<not> exr_injection_suspected run) \<and>
    (\<exists>ps. dk_extraction_proposals dk' = dk_extraction_proposals dk1 @ ps \<and> (exr_status run \<noteq> XR_SUCCEEDED \<longrightarrow> ps = []) \<and>
      (\<forall>p \<in> set ps. grounded_in (rec_extracted_text r) p \<and> exp_run_id p = exr_id run0 \<and>
        exp_source_record_id p = rec_id r \<and> exp_status p = XP_PENDING))"
  proof (cases "xs_max_segments cfg < length segments")
    case True
    with e have "skip_long_document cfg dk1 clock db_now run0 = (dk', run)" by (simp add: run0_def dk1_def)
    then show ?thesis by (auto simp: skip_long_document_def Let_def same_run_def)
  next
    case False
    with e have "execute_run sha256 codec provider cfg prompt dk1 clock db_now r s run0 segments = (dk', run)"
      by (simp add: run0_def dk1_def)
    from execute_run_outcome [OF seg this] show ?thesis .
  qed
  then obtain ps where same: "same_run run0 run" and runs: "dk_extraction_runs dk' =
      row_upd exr_id (exr_id run0) (\<lambda>_. run) (dk_extraction_runs dk @ [run0])"
    and ps: "dk_extraction_proposals dk' = dk_extraction_proposals dk @ ps" "exr_status run \<noteq> XR_SUCCEEDED \<longrightarrow> ps = []"
      "\<forall>p \<in> set ps. grounded_in (rec_extracted_text r) p \<and> exp_run_id p = exr_id run0 \<and> exp_status p = XP_PENDING"
    by (auto simp: dk1_def open_run_def)
  have "extraction_run_of dk' PROMPT_VERSION (xs_model cfg) i = Some run"
    using assms(2) find_put [of "\<lambda>r. exr_source_record_id r = i \<and> exr_prompt_version r = PROMPT_VERSION \<and>
        exr_model_version r = xs_model cfg" "dk_extraction_runs dk" run exr_id "exr_id run0" run0] same run0
    unfolding extraction_run_of_def runs by (simp add: same_run_def)
  then have "process_source_record sha256 codec provider' cfg rules dk' later clock' db' i = Inr (dk', run)"
    for provider' later clock' db'
    using rules by (simp add: process_source_record_def)
  note again = this
  from same have i: "exr_id run0 = exr_id run" by (simp add: same_run_def)
  note grounded = ps(3) [unfolded grounded_in_def i]
  from o have st: "exr_status run \<in> {XR_SUCCEEDED, XR_FAILED, XR_SKIPPED}"
    and cov: "exr_status run = XR_SUCCEEDED \<longrightarrow> exr_coverage_complete run \<and> \<not> exr_injection_suspected run" by blast+
  show ?thesis
    by (intro exI [of _ r] exI [of _ s] exI [of _ ps] conjI p(1-4,6) st cov ps(1,2))
      (use grounded again in blast)+
qed

definition sample_rules :: extraction_rules where
  "sample_rules = \<lparr>xru_version = ''1'', xru_prompt_version = PROMPT_VERSION, xru_mode = ''production'',
     xru_minimum_shadow_days = 60, xru_minimum_reviewed_per_language = 1, xru_minimum_qa_per_language = 1,
     xru_minimum_time_reduction_percent = 0, xru_baseline_error_rate_by_language = []\<rparr>"

definition sample_settings :: extraction_settings where
  "sample_settings = \<lparr>xs_model = ''m'', xs_prompt = ''extract'', xs_max_chars = 100, xs_overlap_chars = 0,
     xs_max_segments = 2, xs_max_proposals = 5\<rparr>"

definition sample_quote :: string where "sample_quote = ''Port 7 closed''"

definition sample_extracted :: extracted_claim where
  "sample_extracted = \<lparr>xc_text = sample_quote, xc_claimant = None, xc_occurred_time = None, xc_location = None,
     xc_quantities = [], xc_hedging_language = False, xc_source_sentence_quote = sample_quote\<rparr>"

definition sample_provider :: extraction_provider where
  "sample_provider n document prompt = Inr \<lparr>pvr_output = \<lparr>xo_claims = [sample_extracted], xo_injection_suspected = False\<rparr>,
     pvr_raw_text = ''raw'', pvr_input_tokens = Some 3, pvr_output_tokens = None\<rparr>"

definition extracting_desk :: desk where
  "extracting_desk = sample_desk\<lparr>dk_records := [sample_source_record\<lparr>rec_extracted_text := ''News: Port 7 closed now''\<rparr>],
     dk_sources := [sample_source\<lparr>src_model_processing_approved_at := Some 1,
       src_model_processing_approved_by := Some ''counsel''\<rparr>]\<rparr>"

lemma sample_extraction:
  "case process_source_record sample_hash sample_codec sample_provider sample_settings sample_rules extracting_desk 5 6 6 3 of
     Inl _ \<Rightarrow> False
   | Inr (dk', run) \<Rightarrow> exr_status run = XR_SUCCEEDED \<and> exr_mode run = ''production'' \<and>
       map (\<lambda>p. (exp_source_start p, exp_source_end p)) (dk_extraction_proposals dk') = [(6, 19)]"
  by code_simp

theorem extraction_is_grounded_witness:
  "\<exists>dk' run p. process_source_record sample_hash sample_codec sample_provider sample_settings sample_rules extracting_desk 5 6 6 3
      = Inr (dk', run) \<and> exr_status run = XR_SUCCEEDED \<and> dk_extraction_proposals dk' = [p] \<and>
    exp_source_sentence_quote p = sample_quote"
proof -
  from sample_extraction obtain dk' run p where
    x: "process_source_record sample_hash sample_codec sample_provider sample_settings sample_rules extracting_desk 5 6 6 3
      = Inr (dk', run)" and s: "exr_status run = XR_SUCCEEDED" and p: "dk_extraction_proposals dk' = [p]"
      "exp_source_start p = 6" "exp_source_end p = 19"
    by (auto split: sum.split_asm simp: map_eq_Cons_conv)
  have new: "extraction_run_of extracting_desk PROMPT_VERSION (xs_model sample_settings) 3 = None"
    and none: "dk_extraction_proposals extracting_desk = []"
    and r: "row_get rec_id 3 (dk_records extracting_desk) = Some (sample_source_record\<lparr>rec_extracted_text := ''News: Port 7 closed now''\<rparr>)"
    by (simp_all add: extraction_run_of_def extracting_desk_def sample_desk_def empty_desk_def row_get_def sample_source_record_def)
  from extraction_is_grounded [OF x new] p none r
  have "exp_source_sentence_quote p = take (nat (19 - 6)) (drop (nat 6) ''News: Port 7 closed now'')" by auto
  then have "exp_source_sentence_quote p = sample_quote" by (simp add: sample_quote_def)
  with x s p show ?thesis by blast
qed

section \<open>Review\<close>

lemma resulting_claim_cases:
  assumes "resulting_claim sha256 fromiso codec rules dk now x reviewer p run = Inr (dk', claim_id)"
  shows "dk' = dk \<and> claim_id = None \<or>
    rvi_decision x \<noteq> XD_REJECT \<and> exr_mode run = ''production'' \<and> xru_mode rules = ''production'' \<and>
    latest_graduation sha256 dk (exr_language run) (exr_prompt_version run) (exr_model_version run) \<and>
    (\<exists>c. dk' = dk\<lparr>dk_claims := dk_claims dk @ [c], dk_next := dk_next dk + 1\<rparr> \<and> claim_id = Some (clm_id c) \<and>
      clm_proposed_by c = ''model:'' @ exr_model_version run \<and> clm_reviewed_by c = Some reviewer \<and>
      rvi_event_id x = Some (clm_event_id c) \<and> rvi_claim_state x = Some (clm_claim_state c))"
  using assms
  by (auto simp: resulting_claim_def effective_mode_def claim_from_def ebind_Inr split: if_split_asm option.split_asm)

text \<open>C17: a proposal is decided once, by a human, and becomes a claim only by accepting or editing it in
  production mode, after the language, prompt and model have graduated; the claim names the model that
  proposed it and the human who reviewed it. In shadow mode the decision is recorded and no claim is
  made.\<close>

theorem review_is_human_and_once:
  assumes "review_proposal sha256 fromiso codec rules dk now db_now i x = Inr (dk', v)"
  shows "\<exists>p run. row_get exp_id i (dk_extraction_proposals dk) = Some p \<and> exp_status p = XP_PENDING \<and>
    row_get exr_id (exp_run_id p) (dk_extraction_runs dk) = Some run \<and> exr_status run = XR_SUCCEEDED \<and>
    \<not> is_model (exv_reviewer v) \<and>
    (dk_claims dk' = dk_claims dk \<and> exv_resulting_claim_id v = None \<or>
     exv_decision v \<noteq> XD_REJECT \<and> exr_mode run = ''production'' \<and> xru_mode rules = ''production'' \<and>
     latest_graduation sha256 dk (exr_language run) (exr_prompt_version run) (exr_model_version run) \<and>
     (\<exists>c. dk_claims dk' = dk_claims dk @ [c] \<and> exv_resulting_claim_id v = Some (clm_id c) \<and>
       clm_proposed_by c = ''model:'' @ exr_model_version run \<and> clm_reviewed_by c = Some (exv_reviewer v))) \<and>
    (\<forall>later db_later y out. review_proposal sha256 fromiso codec rules dk' later db_later i y \<noteq> Inr out)"
proof -
  let ?who = "py_strip (rvi_reviewer x)"
  let ?dk0 = "dk\<lparr>dk_extraction_proposals := row_upd exp_id i
              (\<lambda>p. p\<lparr>exp_status := decided_status (rvi_decision x)\<rparr>) (dk_extraction_proposals dk)\<rparr>"
  from assms obtain p run dk1 claim_id where m: "\<not> is_model ?who" and r: "reviewable dk i x = Inr (p, run)"
    and rules: "load_rules rules = Inr rules"
    and c: "resulting_claim sha256 fromiso codec rules ?dk0 now x ?who p run = Inr (dk1, claim_id)"
    and v: "exv_reviewer v = ?who" "exv_resulting_claim_id v = claim_id" "exv_decision v = rvi_decision x"
    and dk': "dk_claims dk' = dk_claims dk1" "dk_extraction_proposals dk' = dk_extraction_proposals dk1"
    by (auto simp: review_proposal_def Let_def ebind_Inr load_rules_def split: if_split_asm option.split_asm)
  from r have p: "row_get exp_id i (dk_extraction_proposals dk) = Some p" "exp_status p = XP_PENDING"
    and run: "row_get exr_id (exp_run_id p) (dk_extraction_runs dk) = Some run" "exr_status run = XR_SUCCEEDED"
    by (auto simp: reviewable_def split: option.split_asm if_split_asm)
  note d = resulting_claim_cases [OF c]
  have g: "latest_graduation sha256 ?dk0 a b e = latest_graduation sha256 dk a b e" for a b e
    by (simp add: latest_graduation_def)
  from d have "dk_extraction_proposals dk1 = dk_extraction_proposals ?dk0" by auto
  with p have "\<exists>q. row_get exp_id i (dk_extraction_proposals dk') = Some q \<and> exp_status q \<noteq> XP_PENDING"
    by (cases "rvi_decision x") (simp_all add: dk' row_simps)
  then have "reviewable dk' i y \<noteq> Inr z" for y z by (auto simp: reviewable_def)
  then have "review_proposal sha256 fromiso codec rules dk' later db_later i y \<noteq> Inr out" for later db_later y out
    by (auto simp: review_proposal_def Let_def ebind_Inr split: if_split_asm option.split_asm)
  moreover from d have "dk_claims dk' = dk_claims dk \<and> claim_id = None \<or>
     rvi_decision x \<noteq> XD_REJECT \<and> exr_mode run = ''production'' \<and> xru_mode rules = ''production'' \<and>
     latest_graduation sha256 dk (exr_language run) (exr_prompt_version run) (exr_model_version run) \<and>
     (\<exists>c. dk_claims dk' = dk_claims dk @ [c] \<and> claim_id = Some (clm_id c) \<and>
       clm_proposed_by c = ''model:'' @ exr_model_version run \<and> clm_reviewed_by c = Some ?who)"
    unfolding g dk'(1) by auto
  ultimately show ?thesis using p run m unfolding v by blast
qed

text \<open>A desk on which the proposal of the sample waits for review, the component having graduated.\<close>

definition sample_run :: extraction_run_row where
  "sample_run = \<lparr>exr_id = 50, exr_source_record_id = 3, exr_prompt_version = PROMPT_VERSION, exr_model_version = ''m'',
     exr_language = ''en'', exr_mode = ''production'', exr_status = XR_SUCCEEDED, exr_started_at = 5,
     exr_finished_at = Some 6, exr_request_hash = ''h'', exr_response_hash = Some ''h'', exr_input_tokens = None,
     exr_output_tokens = None, exr_document_char_count = 23, exr_processed_char_count = 23, exr_segment_count = 1,
     exr_segment_manifest_json = [], exr_coverage_complete = True, exr_injection_suspected = False,
     exr_error_type = None, exr_error_message = None\<rparr>"

definition reviewing_desk :: desk where
  "reviewing_desk = extracting_desk\<lparr>dk_extraction_runs := [sample_run],
     dk_extraction_proposals := proposal_rows 60 50 3 [\<lparr>lcm_segment = \<lparr>seg_index = 0, seg_start = 0, seg_end = 23,
       seg_text = ''News: Port 7 closed now''\<rparr>, lcm_claim = sample_extracted, lcm_start = 6, lcm_end = 19\<rparr>],
     dk_evaluations := [\<lparr>pev_id = 70, pev_component = COMPONENT,
         pev_component_version = evaluation_version sample_hash PROMPT_VERSION ''m'', pev_language = ''en'',
         pev_metric_name = ''time_reduction_ratio'', pev_metric_value = 0, pev_sample_size = 1, pev_evaluated_at = 7,
         pev_graduated = True\<rparr>]\<rparr>"

definition accept_input :: review_input where
  "accept_input = \<lparr>rvi_decision = XD_ACCEPT, rvi_reviewer = ''desk:a'', rvi_event_id = Some 1,
     rvi_claim_state = Some CL_REPORTED, rvi_edited_claim = None, rvi_reason_codes = [], rvi_note = None,
     rvi_baseline_seconds = 9, rvi_review_seconds = 3\<rparr>"

lemma sample_review:
  "case review_proposal sample_hash sample_iso sample_codec sample_rules reviewing_desk 8 8 60 accept_input of
     Inl _ \<Rightarrow> False | Inr (dk', v) \<Rightarrow> exv_resulting_claim_id v \<noteq> None"
proof -
  have s: "py_strip ''desk:a'' = ''desk:a''" "length_within 2 255 ''desk:a''" "valid_rules sample_rules"
    by code_simp+
  have d: "dk_extraction_runs reviewing_desk = [sample_run]" "dk_events reviewing_desk = [sample_event]"
    by (simp_all add: reviewing_desk_def extracting_desk_def sample_desk_def)
  obtain p where p: "row_get exp_id 60 (dk_extraction_proposals reviewing_desk) = Some p" "exp_status p = XP_PENDING"
    "exp_run_id p = 50" "exp_occurred_time p = None"
    by (simp add: reviewing_desk_def proposal_rows_def proposal_row_def row_get_def sample_extracted_def)
  have r: "row_get exr_id 50 [sample_run] = Some sample_run" "row_get evn_id 1 [sample_event] = Some sample_event"
    by (simp_all add: row_get_def sample_run_def sample_event_def)
  have g: "latest_graduation sample_hash (reviewing_desk\<lparr>dk_extraction_proposals := ps\<rparr>) ''en'' PROMPT_VERSION ''m''" for ps
    by (simp add: latest_graduation_def reviewing_desk_def max_row_def)
  have m: "effective_mode sample_run sample_rules = ''production''" "exr_status sample_run = XR_SUCCEEDED"
    "exr_language sample_run = ''en''" "exr_prompt_version sample_run = PROMPT_VERSION" "exr_model_version sample_run = ''m''"
    by (simp_all add: effective_mode_def sample_run_def sample_rules_def)
  show ?thesis
    by (simp add: review_proposal_def accept_input_def s sample_actors normalized_codes_def review_input_error_def
        reviewable_def p d r m get_opt_def load_rules_def resulting_claim_def g final_claim_def accepted_json_def
        claim_from_def object_list_def occurred_of_def obj_get_def j_opt_def j_objs_def Let_def del: One_nat_def)
qed

theorem review_is_human_and_once_witness:
  "\<exists>i dk' v c. review_proposal sample_hash sample_iso sample_codec sample_rules reviewing_desk 8 8 i accept_input = Inr (dk', v) \<and>
    dk_claims dk' = dk_claims reviewing_desk @ [c] \<and> clm_reviewed_by c = Some (exv_reviewer v) \<and>
    (\<forall>out. review_proposal sample_hash sample_iso sample_codec sample_rules dk' 9 9 i accept_input \<noteq> Inr out)"
proof -
  obtain dk' v where r: "review_proposal sample_hash sample_iso sample_codec sample_rules reviewing_desk 8 8 60 accept_input = Inr (dk', v)"
    and c: "exv_resulting_claim_id v \<noteq> None"
    using sample_review by (auto split: sum.split_asm)
  from review_is_human_and_once [OF r] c have "\<exists>c. dk_claims dk' = dk_claims reviewing_desk @ [c] \<and>
      clm_reviewed_by c = Some (exv_reviewer v)"
    and "\<forall>out. review_proposal sample_hash sample_iso sample_codec sample_rules dk' 9 9 60 accept_input \<noteq> Inr out" by blast+
  with r show ?thesis by blast
qed

section \<open>The queue of records\<close>

text \<open>C32: quarantined records block the queue: when the oldest unprocessed records, twice as many as are asked
  for, are all quarantined, no record is eligible, however many wait behind them, and since none of
  them can be processed they stay where they are.\<close>

theorem quarantined_records_block:
  assumes "\<forall>r \<in> set (take (limit * 2) (candidate_records dk db_now (xs_model cfg) PROMPT_VERSION)).
      unsafe_scan (rec_security_scan r)"
    and "distinct (map rec_id (dk_records dk))"
  shows "eligible_source_records dk db_now (xs_model cfg) PROMPT_VERSION limit = [] \<and>
    (\<forall>r \<in> set (take (limit * 2) (candidate_records dk db_now (xs_model cfg) PROMPT_VERSION)).
      \<forall>provider rules now clock out.
        process_source_record sha256 codec provider cfg rules dk now clock db_now (rec_id r) \<noteq> Inr out)"
proof (intro conjI ballI allI)
  show "eligible_source_records dk db_now (xs_model cfg) PROMPT_VERSION limit = []"
    using assms(1) by (simp add: eligible_source_records_def filter_empty_conv)
next
  fix r provider rules now clock out
  assume r: "r \<in> set (take (limit * 2) (candidate_records dk db_now (xs_model cfg) PROMPT_VERSION))"
  then have "r \<in> set (candidate_records dk db_now (xs_model cfg) PROMPT_VERSION)" by (rule in_set_takeD)
  then have in_desk: "r \<in> set (dk_records dk)" and new: "extraction_run_of dk PROMPT_VERSION (xs_model cfg) (rec_id r) = None"
    by (auto simp: candidate_records_def)
  show "process_source_record sha256 codec provider cfg rules dk now clock db_now (rec_id r) \<noteq> Inr out"
  proof
    assume "process_source_record sha256 codec provider cfg rules dk now clock db_now (rec_id r) = Inr out"
    then obtain dk' run where "process_source_record sha256 codec provider cfg rules dk now clock db_now (rec_id r) = Inr (dk', run)"
      by (cases out) simp
    from extraction_of_safe [OF this new] obtain q where "row_get rec_id (rec_id r) (dk_records dk) = Some q"
      "\<not> unsafe_scan (rec_security_scan q)" by blast
    moreover from this(1) have "q \<in> set (dk_records dk)" "rec_id q = rec_id r" by (rule row_get_in, rule row_get_key)
    with in_desk assms(2) have "q = r" by (auto simp: distinct_map inj_on_def)
    ultimately show False using assms(1) r by blast
  qed
qed

definition blocked_desk :: desk where
  "blocked_desk = extracting_desk\<lparr>dk_records :=
     map (\<lambda>k. sample_source_record\<lparr>rec_id := k, rec_extracted_text := ''t'', rec_fetched_at := int k,
       rec_security_scan := (if k < 2 then [(''quarantined'', JBool True)] else [])\<rparr>) [0..<4]\<rparr>"

theorem quarantined_records_block_witness:
  "length (candidate_records blocked_desk 5 ''m'' PROMPT_VERSION) = 4 \<and>
    eligible_source_records blocked_desk 5 ''m'' PROMPT_VERSION 1 = [] \<and>
    eligible_source_records blocked_desk 5 ''m'' PROMPT_VERSION 2 \<noteq> []"
proof -
  have "list_all (\<lambda>r. unsafe_scan (rec_security_scan r)) (take (1 * 2) (candidate_records blocked_desk 5 ''m'' PROMPT_VERSION))"
    "distinct (map rec_id (dk_records blocked_desk))" "xs_model sample_settings = ''m''"
    by code_simp+
  with quarantined_records_block [of 1 blocked_desk 5 sample_settings]
  have "eligible_source_records blocked_desk 5 ''m'' PROMPT_VERSION 1 = []" by (simp only: list_all_iff)
  moreover have "length (candidate_records blocked_desk 5 ''m'' PROMPT_VERSION) = 4"
    "eligible_source_records blocked_desk 5 ''m'' PROMPT_VERSION 2 \<noteq> []" by code_simp+
  ultimately show ?thesis by blast
qed

section \<open>Negations\<close>

text \<open>The negation \<open>no\<close> is dropped from the tokens of a claim for its length but kept among those of the
  quotation, so a verbatim claim with it is refused as having changed its polarity.\<close>

lemma verbatim_no_is_refused:
  "grounding_error ''No vessels transited the strait''
    (sample_extracted\<lparr>xc_text := ''No vessels transited the strait'',
       xc_source_sentence_quote := ''No vessels transited the strait''\<rparr>) =
    Some ''Model changed negation polarity relative to its source quote''"
  by code_simp

end
