(* ===== verification/Spec2Isabelle.thy ===== *)
theory Spec2Isabelle
  imports Budget_Props Calculator_Facts FleetSummary_Facts Verifier_Facts Recovery
    Runtime_Props PolicyService_Props CaseBuild_Props Publication_Props Dispatch_Props
    Ledger ReadViews_Props RecordImport_Props Qualification Reliability_Props
    Release_Props Explanation Pilot_Props DeskWork_Props ClaimExtraction_Props
begin

text \<open>
  \<^bold>\<open>The reconciliation pipeline of the maritime intelligence system.\<close>

  The program receives daily fuel reports and voyage plans of vessels, validates and stores them,
  computes the variance between reported and planned consumption, has the result verified
  independently, and publishes a verified result to the private portal of the tenant without a human
  in the loop. The sources are under \<open>src/packages\<close>: pure rules in
  \<open>eastmed_shared/reconciliation\<close>, services over the database in \<open>eastmed_pipeline\<close>, tables and
  enumerations in \<open>eastmed_schema\<close>.

  \<^bold>\<open>How the parts interact.\<close> A pass of the dispatcher schedules a run and a task for every validated
  case, claims due tasks from the durable queue under a lease and an epoch, and executes their stage.
  The reconcile stage computes the case from the current observations, commits an immutable version
  and records the verdict of the independent verifier; only a completing verdict advances to the
  publish stage. That stage proposes the publication behind a gate on the verdict, has the action
  attested by the policy service, leaves an intent and an outbox entry, asks the policy service again
  at the moment of dispatch, writes the publication and reads it back.

  \<^bold>\<open>Theories.\<close>
  \<^item> \<open>Prelude\<close>: decimal digits, string stripping, tables of rows, runs of a step relation and the
    locale \<open>step_invariant\<close> (an invariant kept by every step holds along every run).
  \<^item> \<open>PyDecimal\<close>, \<open>PyDecimal_Facts\<close>: the decimals of the standard library (28 digits, half-even
    context, quantize, parsing and printing); \<open>PyValues\<close>: JSON values as the code sees them.
  \<^item> \<open>Enums\<close>, \<open>Schema\<close>: the enumerations of \<open>enums.py\<close> and the reconciliation tables of
    \<open>models.py\<close> as records, gathered in the record \<open>store\<close>, one list of rows per table.
  \<^item> \<open>Contract\<close>: \<open>contract.py\<close>, validation of an imported record.
  \<^item> \<open>Calculator\<close>, \<open>Calculator_Facts\<close>, \<open>FleetSummary_Facts\<close>: \<open>calculator.py\<close>, the variance,
    delta, period and fleet calculators, their bounds and exactness.
  \<^item> \<open>Verifier\<close>, \<open>Verifier_Facts\<close>: \<open>verifier.py\<close>; what a verified verdict entails, and that the
    verifier accepts what the calculator produced.
  \<^item> \<open>Policy\<close>, \<open>PolicyService\<close>, \<open>PolicyService_Props\<close>: \<open>policy.py\<close> and
    \<open>reconciliation_policy.py\<close>, the closed-world evaluation of an action request, attestation and the
    re-check at dispatch, with the transition system \<open>authority_step\<close>.
  \<^item> \<open>Recovery\<close>: \<open>recovery.py\<close> and \<open>runbooks.py\<close>, selection and admission of recovery actions.
  \<^item> \<open>Runtime\<close>, \<open>Runtime_Facts\<close>, \<open>Runtime_Props\<close>: the task queue of \<open>reconciliation_runtime.py\<close>
    (\<open>wf_step\<close>); \<open>Budget\<close>, \<open>Budget_Props\<close>: its ledgers.
  \<^item> \<open>CaseBuild\<close>, \<open>CaseBuild_Props\<close>: \<open>reconciliation_case.py\<close>, from observations to a version, the
    rebuilt evidence, the verdict and the read-back.
  \<^item> \<open>Publication\<close>, \<open>Publication_Facts\<close>, \<open>Publication_Props\<close>: \<open>reconciliation_publication.py\<close>,
    with the transition system \<open>publication_step\<close> and its invariant.
  \<^item> \<open>Dispatch\<close>, \<open>Dispatch_Facts\<close>, \<open>Dispatch_Props\<close>: \<open>reconciliation_dispatch.py\<close>; a pass is shown to
    be a run of the queue, of the publication and of the authority systems at once (\<open>simulates\<close>), so
    that their invariants carry over.
  \<^item> \<open>RecordImport\<close>, \<open>RecordImport_Props\<close>: \<open>reconciliation_import.py\<close> and the service
    \<open>reconciliation_service.py\<close>; the tables only the importer touches extend the store to
    \<open>feed_store\<close>.
  \<^item> \<open>Ledger\<close>: \<open>ledger.py\<close>, the accounted cohort of expected jobs. \<open>ReadModel\<close>, \<open>ReadViews\<close>,
    \<open>ReadViews_Props\<close>: \<open>read_model.py\<close> and \<open>reconciliation_read.py\<close>, the customer views and the
    recompute request.
  \<^item> \<open>Float64\<close>: the double-precision arithmetic of Python floats, as rationals rounded to 53 bits.
  \<^item> \<open>Release\<close>, \<open>Release_Props\<close>: \<open>release.py\<close>, the measured thresholds, the Clopper-Pearson bound
    by continued fraction and bisection, the sealed holdout. \<open>Qualification\<close>: \<open>canary.py\<close> and
    \<open>pilot.py\<close>, admission, rollback and the tiered acceptance gates.
  \<^item> \<open>Reliability\<close>, \<open>Reliability_Props\<close>: \<open>reconciliation_reliability.py\<close>, the bodies of the
    operator runbooks, and \<open>telemetry.py\<close>.
  \<^item> \<open>Explanation\<close>: \<open>explanation.py\<close>, the grounded explanation around the language model.
  \<^item> \<open>Pilot\<close>, \<open>Pilot_Props\<close>: \<open>reconciliation_pilot.py\<close>, the pilot that drives import, dispatch,
    publication and the drills in one run.
  The second half of the program is the analysts' desk, over the record \<open>desk\<close> of its own tables:
  \<^item> \<open>DeskSchema\<close>: its tables and enumerations, the authenticated principal of \<open>security.py\<close> and the
    audit log. \<open>DeskContracts\<close>: the request and response schemas of \<open>contracts.py\<close> with their
    validators and JSON forms.
  \<^item> \<open>EventPublication\<close>: \<open>publication.py\<close> and \<open>approval_bindings.py\<close>, the publication policy over the
    claims of an event, the canonical draft, its preview and the gated release. \<open>DeskCorrection\<close>:
    \<open>corrections.py\<close>. \<open>DeskApproval\<close>: \<open>approvals.py\<close>, the four-eyes approvals; \<open>ApprovalRequest\<close>:
    \<open>approval_requests.py\<close>, the inbox in front of them.
  \<^item> \<open>AIGovernance\<close>: \<open>ai_governance.py\<close> and \<open>ai_incidents.py\<close>, identities, kill switches, the
    capability decision and incidents with their containment.
  \<^item> \<open>DeskWorkspace\<close>: \<open>rights.py\<close>, \<open>workspace.py\<close> and \<open>triage.py\<close>; \<open>DeskLineage\<close>: \<open>lineage.py\<close>.
  \<^item> \<open>Desk_Facts\<close>: what each operation of the desk leaves alone and what it adds. \<open>DeskSystem\<close>: the
    operations as the transition system \<open>desk_step\<close>, its invariant on releases, corrections, approvals and
    requests.
  \<^item> \<open>Desk_Props\<close>: the gate in front of a release, what an approval is good for, the safety of all runs.
    \<open>Governance_Props\<close>: kill switches and incidents. \<open>DeskWork_Props\<close>: reading a version back, evidence,
    triage, lineage, corrections, reviews that expire.
  \<^item> \<open>ClaimExtraction\<close>, \<open>ClaimExtraction_Props\<close>: \<open>claim_extraction.py\<close>, segmentation, the grounding of
    the model's output, the run of a record, human review, quality control and graduation.
  This theory composes the pipeline: \<open>system_step\<close> is everything that can happen to the store, and
  \<open>pipeline_is_safe\<close> is the safety of all its runs. The desk shares no table with the pipeline.

  \<^bold>\<open>Conventions.\<close> An operation of a service takes the store and returns it updated; a Python function
  of the same name is its source. Errors and early returns are values (\<open>Inl\<close>, \<open>None\<close> or an
  enumeration member); an exception leaves no store, as the transaction is rolled back. Generated
  identifiers come from the counter \<open>st_next\<close>, so they are fresh; timestamps are integers in
  microseconds and the current time is an argument; a row lock makes an operation one atomic step, and
  concurrency is the interleaving of steps. Strings are ASCII. The digest \<open>sha256\<close> and
  \<open>datetime.fromisoformat\<close> are parameters: nothing is assumed of them unless a hypothesis says so.
  Columns the database fills by itself (\<open>created_at\<close>, \<open>captured_at\<close>) are arguments.
  Whether the database enforces the declared length of a text column is the field \<open>st_checks_length\<close> of
  the store: PostgreSQL refuses a longer value, SQLite, on which the tests run, stores it. It decides the
  insertion of attestations, intents and outbox rows, whose action key is longer than its column; the
  lengths of other columns are not modelled. The system ledger of the budget is optional, as in the
  code: the steps of \<open>Budget_Props\<close> carry the set of reservations that were made against it, and
  whoever closes a reservation names the system ledger exactly when it is in that set.
  Floats are finite doubles without overflow, subnormals, NaN or signed zero; the functions of the C
  library and the printing of a float are the parameter \<open>float_lib\<close>. The language model behind a port
  and \<open>json.loads\<close> are parameters too. On the desk the current time is an argument as well; a validator
  of a schema is a function from the fields to the validated record or an error; audit entries are rows
  like any other; case folding and word boundaries are those of ASCII; the printing and parsing of
  times (\<open>datetime_codec\<close>), the keyed digest, the square root, the rounding to six digits and the signals
  of the gazetteer are arguments.

  \<^bold>\<open>Bounds and fuel.\<close> The only loop that the source bounds by a count is the drain of a pass
  (\<open>max_steps\<close>); \<open>pass_stops_by_itself\<close> shows that the bound is not what ends it when it exceeds the
  open work of the queue. All other recursions are structural or have a measure. Decimals keep the
  precision of 28 digits; the exponent limits of the context are not modelled.

  \<^bold>\<open>Not modelled.\<close> Integrity errors of unique constraints at flush where the code does not handle them,
  the routes and middleware of the web framework, alert matching, briefs and portal views, external
  services and file input and output, migrations, scripts and the web front end.
\<close>

section \<open>The whole pipeline\<close>

text \<open>
  The system from the outside: imports of records, recompute requests, recoveries and quarantines, passes of the dispatcher for
  any account, refused or late dispatches and invalidations from elsewhere, and any change of the tables
  the dispatcher only reads (jobs, cases, runs, principals, grants).
\<close>

datatype system_event = Pass uid | Publication publication_event | Import uid | Recompute uid | Recover uid | Quarantine uid
  | Surroundings

inductive system_step :: "isoparser \<Rightarrow> hash \<Rightarrow> store \<Rightarrow> system_event \<Rightarrow> store \<Rightarrow> bool" for fromiso sha256 where
  sys_pass: "run_reconciliation_pass fromiso sha256 st acc subject fp now units wv n = Inr (st', summary) \<Longrightarrow>
    system_step fromiso sha256 st (Pass acc) st'"
| sys_publish: "publish_case sha256 st acc i payload now stop = (st', r) \<Longrightarrow> i \<in> set (st_intents st) \<Longrightarrow>
    ai_account i = acc \<Longrightarrow> system_step fromiso sha256 st (Publication Publish) st'"
| sys_read_back: "reconcile_publication sha256 st acc i = (st', verdict) \<Longrightarrow> i \<in> set (st_intents st) \<Longrightarrow>
    ai_account i = acc \<Longrightarrow> system_step fromiso sha256 st (Publication ReadBack) st'"
| sys_invalidate: "invalidate_pending_publications st acc k revn = (st', m) \<Longrightarrow>
    system_step fromiso sha256 st (Publication Invalidate) st'"
| sys_import: "import_record fromiso sha256 feed acc payload clock = Inr (feed', out) \<Longrightarrow>
    system_step fromiso sha256 (store.truncate feed) (Import acc) (store.truncate feed')"
| sys_recompute: "request_recompute st acc k expected subject wv fp units deadline now = (st', r) \<Longrightarrow>
    system_step fromiso sha256 st (Recompute acc) st'"
| sys_recover: "run_recover_expired_task st acc now = (st', r) \<Longrightarrow> system_step fromiso sha256 st (Recover acc) st'"
| sys_quarantine: "run_quarantine_source st acc ids revn = (st', r) \<Longrightarrow>
    system_step fromiso sha256 st (Quarantine acc) st'"
| sys_surroundings: "same_queue st st' \<Longrightarrow> same_publication st st' \<Longrightarrow>
    system_step fromiso sha256 st Surroundings st'"

definition system_inv :: "hash \<Rightarrow> store \<Rightarrow> bool" where
  "system_inv sha256 st \<longleftrightarrow> queue_inv st \<and> publication_inv sha256 st \<and> authority_inv st"

lemma simulates_system_inv:
  assumes "simulates sha256 (st, []) (st', cs)" and "system_inv sha256 st"
  shows "system_inv sha256 st'"
  using assms queue.reaches_keeps [of "(st, [])" "(st', cs)"] authority.reaches_keeps [of st st'] simulates_inv
  by (auto simp: system_inv_def simulates_def wf_inv_def)

lemma next_truncate: "st_next (store.truncate feed) = st_next feed"
  by (simp add: store.defs)

lemma system_step_keeps:
  "system_step fromiso sha256 st e st' \<Longrightarrow> system_inv sha256 st \<Longrightarrow> system_inv sha256 st'"
proof (induction rule: system_step.induct)
  case (sys_pass st acc subject fp now units wv n st' summary)
  then obtain cs where "simulates sha256 (st, []) (st', cs)"
    using simulates_pass [of fromiso sha256 st acc subject fp now units wv n st' summary "[]"]
    by (auto simp: system_inv_def)
  then show ?case using sys_pass(2) by (rule simulates_system_inv)
next
  case (sys_publish st acc i payload now stop st' r)
  from simulates_system_inv [OF simulates_publish [OF sys_publish(1-3)] sys_publish(4)] show ?case .
next
  case (sys_read_back st acc i st' verdict)
  from simulates_system_inv [OF simulates_read_back [OF sys_read_back(1-3)] sys_read_back(4)] show ?case .
next
  case (sys_invalidate st acc k revn st' m)
  with simulates_system_inv [OF simulates_invalidate sys_invalidate(2), of acc k revn] show ?case by simp
next
  case (sys_import feed acc payload clock feed' out)
  from import_record_frame [OF sys_import(1)] have "same_queue (store.truncate feed) (store.truncate feed')"
    "same_publication (store.truncate feed) (store.truncate feed')"
    by (auto simp: same_queue_def same_publication_def next_truncate [of feed])
  from simulates_system_inv [OF simulates_elsewhere [OF this] sys_import(2)] show ?case .
next
  case (sys_recompute st acc k expected subject wv fp units deadline now st' r)
  with simulates_system_inv [OF simulates_recompute sys_recompute(2), of acc k expected subject wv fp units deadline now]
  show ?case by simp
next
  case (sys_recover st acc now st' r)
  from simulates_recover [of sha256 st "[]" acc now] sys_recover(1)
  obtain cs where "simulates sha256 (st, []) (st', cs)" by auto
  then show ?case using sys_recover(2) by (rule simulates_system_inv)
next
  case (sys_quarantine st acc ids revn st' r)
  with simulates_system_inv [OF simulates_quarantine sys_quarantine(2), of acc ids revn] show ?case by simp
next
  case (sys_surroundings st st')
  from simulates_system_inv [OF simulates_elsewhere [OF sys_surroundings(1,2)] sys_surroundings(3)] show ?case .
qed

interpretation system: step_invariant "system_step fromiso sha256" "system_inv sha256"
  by unfold_locales (rule system_step_keeps)

lemma empty_system_inv: "system_inv sha256 empty_store"
  by (simp add: system_inv_def queue_inv_def publication_inv_def authority_inv_def dispatched_keys_def empty_store_def)

text \<open>C1: whatever records are imported, recomputations requested, sources quarantined, tasks recovered
  and passes run for whatever accounts, interleaved with dispatches, read-backs, invalidations and any
  change around them: starting from the empty store, every publication was
  independently verified for its version, no content of a case is published twice, no authorised
  action is dispatched twice and no task is committed twice.\<close>

theorem pipeline_is_safe:
  assumes "reaches (system_step fromiso sha256) empty_store st"
  shows "list_all (\<lambda>p. \<exists>v \<in> set (st_versions st). \<exists>w \<in> set (st_verdicts st). entitles w v \<and>
      cv_account v = pb_account p \<and> cv_case v = pb_case p \<and> cv_content_hash v = pb_content_hash p \<and>
      canonical_payload_hash sha256 (JObj (pb_result_json p)) =
        canonical_payload_hash sha256 (JObj (cv_result_json v))) (st_publications st) \<and>
    distinct (map (\<lambda>p. (pb_account p, pb_case p, pb_content_hash p)) (st_publications st)) \<and>
    distinct (map (\<lambda>a. (aa_account a, aa_action_key a)) (filter (\<lambda>a. aa_dispatched_at a \<noteq> None) (st_attestations st))) \<and>
    distinct (map ta_task (filter (\<lambda>a. ta_status a = AT_COMMITTED) (st_attempts st)))"
proof -
  have "system_inv sha256 st" by (rule system.reaches_keeps [OF assms empty_system_inv])
  then have q: "queue_inv st" and p: "publication_inv sha256 st" and a: "authority_inv st"
    by (simp_all add: system_inv_def)
  from publication_inv_verified [OF p] publication_inv_distinct [OF p] committed_distinct [OF q] a show ?thesis
    unfolding list_all_iff publication_key_def authority_inv_def dispatched_keys_def by blast
qed

definition sample_start :: store where
  "sample_start = empty_store\<lparr>st_next := 60, st_principals := [sample_principal], st_grants := [sample_grant],
    st_cases := [sample_opcase], st_jobs := [sample_job]\<rparr>"

theorem pipeline_is_safe_witness:
  "\<exists>st. reaches (system_step sample_iso sample_hash) empty_store st \<and> length (st_versions st) = 1 \<and>
    length (st_attempts st) = 1 \<and> distinct (map ta_task (filter (\<lambda>a. ta_status a = AT_COMMITTED) (st_attempts st)))"
proof -
  have "case run_reconciliation_pass sample_iso sample_hash sample_start 7 ''svc'' ''fp'' 5 10 ''w'' 5 of
      Inl _ \<Rightarrow> False | Inr (st, _) \<Rightarrow> length (st_versions st) = 1 \<and> length (st_attempts st) = 1"
    by code_simp
  then obtain st s where p: "run_reconciliation_pass sample_iso sample_hash sample_start 7 ''svc'' ''fp'' 5 10 ''w'' 5 = Inr (st, s)"
    and l: "length (st_versions st) = 1" "length (st_attempts st) = 1"
    by (auto split: sum.splits prod.splits)
  have "system_step sample_iso sample_hash empty_store Surroundings sample_start"
    by (rule sys_surroundings) (simp_all add: same_queue_def same_publication_def sample_start_def empty_store_def)
  with sys_pass [OF p] have "reaches (system_step sample_iso sample_hash) empty_store st"
    by (blast intro: reaches.intros)
  with pipeline_is_safe [OF this] l show ?thesis by blast
qed

end
